(* ===== verification/Prelude.thy ===== *)
theory Prelude
  imports Complex_Main "HOL-Library.Char_ord" "HOL-Library.List_Lexorder" "HOL-Library.Sublist"
begin

text \<open>
  Shared material of the tailbench development: the collections of rewrite rules the component
  theories add to, generic facts on lists and options, and the interface of a list of records that
  is updated by key, which two components of the program (the run manifest and the orchestrator's
  outcome) implement each in their own way.
\<close>

section \<open>Collections\<close>

named_theorems io_simps \<open>unfolding rules for the world-passing programs\<close>
named_theorems go_simps \<open>evaluation rules for the Go library functions\<close>
named_theorems status_simps \<open>rules that evaluate status and outcome decisions\<close>

section \<open>Lists and options\<close>

lemma map_filter_eq_Nil_iff: "List.map_filter f xs = [] \<longleftrightarrow> (\<forall>x \<in> set xs. f x = None)"
  by (induction xs) (auto split: option.splits)

lemma set_map_filter: "set (List.map_filter f xs) = {y. \<exists>x \<in> set xs. f x = Some y}"
  by (induction xs) (auto split: option.splits)

lemma ex_set_conv_filter: "(\<exists>x \<in> set xs. P x) \<longleftrightarrow> filter P xs \<noteq> []"
  by (induction xs) auto

lemma map_update_at: "i < length xs \<Longrightarrow> map f (xs[i := y]) = (map f xs)[i := f y]"
  by (simp add: map_update)

text \<open>The first element that satisfies a predicate, as a Go loop with an early return finds it.\<close>

lemma find_Some_in: "find P xs = Some x \<Longrightarrow> x \<in> set xs \<and> P x"
  by (induction xs) (auto split: if_splits)

lemma find_None_all: "find P xs = None \<longleftrightarrow> (\<forall>x \<in> set xs. \<not> P x)"
  by (induction xs) auto

text \<open>
  The keys of a Go map used as a set, collected into a slice and sorted: each key once, ascending.
\<close>

definition sortedKeys :: "'a::linorder list \<Rightarrow> 'a list" where
  "sortedKeys xs = sort (remdups xs)"

lemma set_sortedKeys [simp]: "set (sortedKeys xs) = set xs"
  by (simp add: sortedKeys_def)

lemma distinct_sortedKeys [simp]: "distinct (sortedKeys xs)"
  by (simp add: sortedKeys_def)

lemma sorted_sortedKeys [simp]: "sorted (sortedKeys xs)"
  by (simp add: sortedKeys_def)

lemma sortedKeys_Nil_iff [simp]: "sortedKeys xs = [] \<longleftrightarrow> xs = []"
  using set_sortedKeys[of xs] by (metis set_empty)

lemma length_sortedKeys: "length (sortedKeys xs) = card (set xs)"
  by (simp add: sortedKeys_def length_remdups_card_conv)

section \<open>A list of records updated by key\<close>

text \<open>
  Both \<^verbatim>\<open>upsertManifestResource\<close> and \<^verbatim>\<open>upsertResource\<close> replace the first record with the same key by
  a record computed from the old and the new one, and append when the key is absent. The interface
  fixes the key, the way the two records are combined and the operation itself; the laws are the
  recursive equations of the loop and that combining keeps the key.
\<close>

locale keyed_upsert =
  fixes key :: "'r \<Rightarrow> 'k"
    and combine :: "'r \<Rightarrow> 'r \<Rightarrow> 'r"
    and upsert :: "'r \<Rightarrow> 'r list \<Rightarrow> 'r list"
  assumes upsert_Nil: "upsert r [] = [r]"
    and upsert_Cons: "upsert r (x # xs) = (if key x = key r then combine x r # xs else x # upsert r xs)"
    and key_combine: "key (combine x r) = key r"
begin

lemma keys_upsert: "map key (upsert r xs) = (if key r \<in> key ` set xs then map key xs else map key xs @ [key r])"
  by (induction xs) (auto simp: upsert_Nil upsert_Cons key_combine)

lemma distinct_upsert: "distinct (map key xs) \<Longrightarrow> distinct (map key (upsert r xs))"
  by (auto simp: keys_upsert)

lemma set_keys_upsert: "key ` set (upsert r xs) = insert (key r) (key ` set xs)"
proof -
  have "set (map key (upsert r xs)) = insert (key r) (set (map key xs))"
    by (auto simp: keys_upsert)
  then show ?thesis by simp
qed

lemma keys_fold_upsert: "key ` set (fold upsert rs xs) = key ` set rs \<union> key ` set xs"
  by (induction rs arbitrary: xs) (auto simp: set_keys_upsert)

lemma distinct_fold_upsert: "distinct (map key xs) \<Longrightarrow> distinct (map key (fold upsert rs xs))"
  by (induction rs arbitrary: xs) (auto simp: distinct_upsert)

lemma find_upsert_other: "k \<noteq> key r \<Longrightarrow> find (\<lambda>x. key x = k) (upsert r xs) = find (\<lambda>x. key x = k) xs"
  by (induction xs) (auto simp: upsert_Nil upsert_Cons key_combine)

lemma find_upsert_same: "find (\<lambda>x. key x = key r) (upsert r xs) =
    (case find (\<lambda>x. key x = key r) xs of None \<Rightarrow> Some r | Some x \<Rightarrow> Some (combine x r))"
  by (induction xs) (auto simp: upsert_Nil upsert_Cons key_combine)

lemma length_upsert_ge: "length xs \<le> length (upsert r xs)"
  using keys_upsert[of r xs] by (metis le_add1 length_append length_map order_refl)

lemma upsert_all:
  assumes "\<forall>x \<in> set xs. P x" and "P r" and "\<And>x. P x \<Longrightarrow> P (combine x r)"
  shows "\<forall>x \<in> set (upsert r xs). P x"
  using assms by (induction xs) (auto simp: upsert_Nil upsert_Cons)

end

end
