(* ===== verification/Go_Lib.thy ===== *)
theory Go_Lib
  imports Prelude
begin

text \<open>
  What the sources use of the Go standard library: packages strings, errors, path/filepath, sort and
  the decimal verbs of fmt. A Go string is a string of bytes and is modelled as an Isabelle
  \<^typ>\<open>string\<close>, whose characters are bytes; loops over runes are loops over bytes, which agree on
  ASCII text. Case conversion and white space are those of ASCII. A Go error is a value of
  \<open>go_error\<close> and \<^verbatim>\<open>nil\<close> is \<^const>\<open>None\<close>. A path is kept in the form \<^verbatim>\<open>filepath.Clean\<close> gives it, as a
  flag for the leading slash and the list of its components.
\<close>

section \<open>Package strings\<close>

definition HasPrefix :: "string \<Rightarrow> string \<Rightarrow> bool" where
  "HasPrefix s p \<longleftrightarrow> take (length p) s = p"

definition HasSuffix :: "string \<Rightarrow> string \<Rightarrow> bool" where
  "HasSuffix s p \<longleftrightarrow> HasPrefix (rev s) (rev p)"

fun Contains :: "string \<Rightarrow> string \<Rightarrow> bool" where
  "Contains [] p = (p = [])"
| "Contains (c # s) p = (HasPrefix (c # s) p \<or> Contains s p)"

definition TrimPrefix :: "string \<Rightarrow> string \<Rightarrow> string" where
  "TrimPrefix s p = (if HasPrefix s p then drop (length p) s else s)"

definition TrimSuffix :: "string \<Rightarrow> string \<Rightarrow> string" where
  "TrimSuffix s p = (if HasSuffix s p then take (length s - length p) s else s)"

definition CutPrefix :: "string \<Rightarrow> string \<Rightarrow> string \<times> bool" where
  "CutPrefix s p = (if HasPrefix s p then (drop (length p) s, True) else (s, False))"

definition isSpace :: "char \<Rightarrow> bool" where
  "isSpace c \<longleftrightarrow> c \<in> {CHR 0x09, CHR 0x0A, CHR 0x0B, CHR 0x0C, CHR 0x0D, CHR '' ''}"

definition TrimSpace :: "string \<Rightarrow> string" where
  "TrimSpace s = rev (dropWhile isSpace (rev (dropWhile isSpace s)))"

definition lowerChar :: "char \<Rightarrow> char" where
  "lowerChar c = (if 65 \<le> (of_char c :: nat) \<and> (of_char c :: nat) \<le> 90
     then char_of ((of_char c :: nat) + 32) else c)"

definition ToLower :: "string \<Rightarrow> string" where
  "ToLower s = map lowerChar s"

definition isDigit :: "char \<Rightarrow> bool" where
  "isDigit c \<longleftrightarrow> 48 \<le> (of_char c :: nat) \<and> (of_char c :: nat) \<le> 57"

definition digitVal :: "char \<Rightarrow> int" where
  "digitVal c = of_char c - 48"

text \<open>\<^verbatim>\<open>strings.Split(s, sep)\<close> for a separator of one byte: never empty.\<close>

fun Split :: "char \<Rightarrow> string \<Rightarrow> string list" where
  "Split c [] = [[]]"
| "Split c (x # xs) = (if x = c then [] # Split c xs
     else case Split c xs of [] \<Rightarrow> [[x]] | y # ys \<Rightarrow> (x # y) # ys)"

text \<open>\<^verbatim>\<open>strings.Cut(s, sep)\<close> for a separator of one byte.\<close>

fun Cut :: "char \<Rightarrow> string \<Rightarrow> string \<times> string \<times> bool" where
  "Cut c [] = ([], [], False)"
| "Cut c (x # xs) = (if x = c then ([], xs, True)
     else case Cut c xs of (a, b, ok) \<Rightarrow> (x # a, b, ok))"

fun JoinStr :: "string \<Rightarrow> string list \<Rightarrow> string" where
  "JoinStr sep [] = []"
| "JoinStr sep [s] = s"
| "JoinStr sep (s # t # ss) = s @ sep @ JoinStr sep (t # ss)"

text \<open>\<^verbatim>\<open>strings.LastIndex\<close> for a needle of one byte: \<open>-1\<close> when it is absent.\<close>

fun LastIndex :: "char \<Rightarrow> string \<Rightarrow> int" where
  "LastIndex c [] = -1"
| "LastIndex c (x # xs) = (let r = LastIndex c xs in
     if 0 \<le> r then r + 1 else if x = c then 0 else -1)"

definition containsAny :: "string \<Rightarrow> string list \<Rightarrow> bool" where
  "containsAny value candidates \<longleftrightarrow> list_ex (Contains value) candidates"

lemma HasPrefix_iff: "HasPrefix s p \<longleftrightarrow> (\<exists>t. s = p @ t)"
  unfolding HasPrefix_def by (metis append_eq_conv_conj append_take_drop_id)

lemma HasPrefix_append [simp]: "HasPrefix (p @ t) p"
  by (auto simp: HasPrefix_iff)

lemma HasPrefix_Cons_Cons [simp]: "HasPrefix (x # s) (y # p) \<longleftrightarrow> x = y \<and> HasPrefix s p"
  by (simp add: HasPrefix_def)

lemma HasPrefix_Nil [simp]: "HasPrefix s []" "HasPrefix [] (y # p) = False"
  by (simp_all add: HasPrefix_def)

lemma HasSuffix_iff: "HasSuffix s p \<longleftrightarrow> (\<exists>t. s = t @ p)"
proof -
  have "HasSuffix s p \<longleftrightarrow> (\<exists>t. rev s = rev p @ t)" by (simp add: HasSuffix_def HasPrefix_iff)
  also have "\<dots> \<longleftrightarrow> (\<exists>t. s = t @ p)" by (metis rev_append rev_rev_ident)
  finally show ?thesis .
qed

lemma Contains_iff: "Contains s p \<longleftrightarrow> (\<exists>a b. s = a @ p @ b)"
proof (induction s)
  case (Cons c s)
  show ?case
  proof
    assume "Contains (c # s) p"
    then consider "HasPrefix (c # s) p" | "Contains s p" by auto
    then show "\<exists>a b. c # s = a @ p @ b"
      by cases (use Cons.IH in \<open>auto simp: HasPrefix_iff intro: exI[of _ "[]"]\<close>,
        metis append_Cons)
  next
    assume "\<exists>a b. c # s = a @ p @ b"
    then obtain a b where eq: "c # s = a @ p @ b" by blast
    show "Contains (c # s) p"
    proof (cases a)
      case Nil
      with eq have "HasPrefix (c # s) p" by simp
      then show ?thesis by simp
    next
      case (Cons y ys)
      with eq Cons.IH show ?thesis by auto
    qed
  qed
qed auto

lemma containsAny_iff: "containsAny v cs \<longleftrightarrow> (\<exists>c \<in> set cs. Contains v c)"
  by (simp add: containsAny_def list_ex_iff)

lemma Split_ne [simp]: "Split c s \<noteq> []"
  by (induction s) (auto split: list.splits)

lemma Split_no_sep: "c \<notin> set s \<Longrightarrow> Split c s = [s]"
  by (induction s) auto

lemma Split_append_sep: "Split c (a @ c # b) = Split c a @ Split c b"
  by (induction a) (auto split: list.splits simp: append_eq_Cons_conv)

lemma Split_JoinStr:
  "ss \<noteq> [] \<Longrightarrow> \<forall>s \<in> set ss. c \<notin> set s \<Longrightarrow> Split c (JoinStr [c] ss) = ss"
  by (induction "[c]" ss rule: JoinStr.induct) (auto simp: Split_no_sep Split_append_sep)

lemma Split_no_sep_elem: "p \<in> set (Split c s) \<Longrightarrow> c \<notin> set p"
  by (induction s arbitrary: p) (fastforce split: list.splits if_splits)+

lemma JoinStr_Split: "JoinStr [c] (Split c s) = s"
proof (induction s)
  case (Cons x xs)
  then show ?case
    by (cases "Split c xs"; cases "tl (Split c xs)") auto
qed simp

lemma LastIndex_range: "-1 \<le> LastIndex c s \<and> LastIndex c s < int (length s)"
  by (induction s) (auto simp: Let_def)

lemma LastIndex_absent: "LastIndex c s = -1 \<longleftrightarrow> c \<notin> set s"
  using LastIndex_range by (induction s) (auto simp: Let_def, (smt (verit))+)

lemma LastIndex_split: "0 \<le> LastIndex c s \<Longrightarrow>
   s = take (nat (LastIndex c s)) s @ c # drop (nat (LastIndex c s) + 1) s
   \<and> c \<notin> set (drop (nat (LastIndex c s) + 1) s)"
proof (induction s)
  case (Cons x s)
  show ?case
  proof (cases "0 \<le> LastIndex c s")
    case True
    then have "nat (LastIndex c (x # s)) = Suc (nat (LastIndex c s))"
      by (simp add: Let_def nat_add_distrib)
    with Cons.IH[OF True] show ?thesis by simp
  next
    case False
    then have abs: "c \<notin> set s" using LastIndex_absent[of c s] LastIndex_range[of c s] by linarith
    from Cons.prems False have "x = c" by (auto simp: Let_def split: if_splits)
    with False abs show ?thesis by (simp add: Let_def)
  qed
qed simp

lemma LastIndex_append: "c \<notin> set b \<Longrightarrow> LastIndex c (a @ c # b) = int (length a)"
proof (induction a)
  case Nil
  then show ?case using LastIndex_absent[of c b] by (simp add: Let_def)
qed (simp add: Let_def)

section \<open>Decimal rendering\<close>

function string_of_nat :: "nat \<Rightarrow> string" where
  "string_of_nat n =
     (if n \<le> 9 then [] else string_of_nat (n div 10)) @ [char_of (48 + n mod 10)]"
  by pat_completeness auto
termination
  by (relation "measure id") auto

declare string_of_nat.simps [simp del]

definition string_of_int :: "int \<Rightarrow> string" where
  "string_of_int i = (if i < 0 then CHR ''-'' # string_of_nat (nat (- i)) else string_of_nat (nat i))"

definition padded :: "nat \<Rightarrow> nat \<Rightarrow> string" where
  "padded width n = (let t = string_of_nat n in replicate (width - length t) (CHR ''0'') @ t)"

text \<open>\<^verbatim>\<open>%q\<close> for text without characters that need an escape.\<close>

definition quoted :: "string \<Rightarrow> string" where
  "quoted s = CHR 0x22 # s @ [CHR 0x22]"

section \<open>Machine integers\<close>

text \<open>Go's \<^verbatim>\<open>int\<close>, \<^verbatim>\<open>int64\<close> and \<^verbatim>\<open>time.Duration\<close> are 64-bit two's complement and wrap around.\<close>

definition wrap64 :: "int \<Rightarrow> int" where
  "wrap64 x = (x + 2 ^ 63) mod 2 ^ 64 - 2 ^ 63"

definition int64_range :: "int \<Rightarrow> bool" where
  "int64_range x \<longleftrightarrow> - (2 ^ 63) \<le> x \<and> x < 2 ^ 63"

lemma wrap64_range: "int64_range (wrap64 x)"
proof -
  have "0 \<le> (x + 2 ^ 63) mod 2 ^ 64" "(x + 2 ^ 63) mod 2 ^ 64 < 2 ^ 64" by simp_all
  then show ?thesis by (simp add: int64_range_def wrap64_def)
qed

lemma wrap64_id: "int64_range x \<Longrightarrow> wrap64 x = x"
  by (simp add: wrap64_def int64_range_def mod_pos_pos_trivial)

text \<open>A time is the number of nanoseconds since Go's zero time, so \<^verbatim>\<open>IsZero\<close> is being 0.\<close>

type_synonym gotime = int
type_synonym duration = int

definition IsZero :: "gotime \<Rightarrow> bool" where
  "IsZero t \<longleftrightarrow> t = 0"

abbreviation (input) millisecond :: duration where "millisecond \<equiv> 1000000"
abbreviation (input) second :: duration where "second \<equiv> 1000000000"
abbreviation (input) minute :: duration where "minute \<equiv> 60000000000"
abbreviation (input) hour :: duration where "hour \<equiv> 3600000000000"

section \<open>Package errors\<close>

text \<open>
  The sentinel values the sources compare with \<^verbatim>\<open>errors.Is\<close>, and the shapes an error can have:
  \<^verbatim>\<open>errors.New\<close> or a \<^verbatim>\<open>fmt.Errorf\<close> without \<^verbatim>\<open>%w\<close>, a \<^verbatim>\<open>fmt.Errorf\<close> that wraps one error between two
  pieces of text, and the result of \<^verbatim>\<open>errors.Join\<close>.
\<close>

datatype sentinel =
    Canceled | DeadlineExceeded
  | ErrNotExist | ErrExist | EOF
  | ErrInvalidRunID | ErrRunNotFound | ErrRunExists | ErrNotRecoverable

datatype go_error =
    Sentinel sentinel
  | ErrText string
  | Wrapf string go_error string
  | Joined "go_error list"

fun sentinel_text :: "sentinel \<Rightarrow> string" where
  "sentinel_text Canceled = ''context canceled''"
| "sentinel_text DeadlineExceeded = ''context deadline exceeded''"
| "sentinel_text ErrNotExist = ''file does not exist''"
| "sentinel_text ErrExist = ''file already exists''"
| "sentinel_text EOF = ''EOF''"
| "sentinel_text ErrInvalidRunID = ''invalid run ID''"
| "sentinel_text ErrRunNotFound = ''run not found''"
| "sentinel_text ErrRunExists = ''run already exists''"
| "sentinel_text ErrNotRecoverable = ''run has no recoverable unfinished work''"

fun error_text :: "go_error \<Rightarrow> string" where
  "error_text (Sentinel s) = sentinel_text s"
| "error_text (ErrText t) = t"
| "error_text (Wrapf a e b) = a @ error_text e @ b"
| "error_text (Joined es) = JoinStr [CHR 0x0A] (map error_text es)"

fun errors_Is :: "go_error \<Rightarrow> sentinel \<Rightarrow> bool" where
  "errors_Is (Sentinel s) t = (s = t)"
| "errors_Is (ErrText _) t = False"
| "errors_Is (Wrapf _ e _) t = errors_Is e t"
| "errors_Is (Joined es) t = list_ex (\<lambda>e. errors_Is e t) es"

definition errors_Is_opt :: "go_error option \<Rightarrow> sentinel \<Rightarrow> bool" where
  "errors_Is_opt eo t = (case eo of None \<Rightarrow> False | Some e \<Rightarrow> errors_Is e t)"

text \<open>\<^verbatim>\<open>errors.Join\<close> drops the nil arguments and is nil when none is left.\<close>

definition errors_Join :: "go_error option list \<Rightarrow> go_error option" where
  "errors_Join eos = (case List.map_filter id eos of [] \<Rightarrow> None | e # es \<Rightarrow> Some (Joined (e # es)))"

definition wrapIfError :: "string \<Rightarrow> go_error option \<Rightarrow> go_error option" where
  "wrapIfError operation eo = map_option (\<lambda>e. Wrapf (operation @ '': '') e []) eo"

lemma errors_Is_opt_simps [simp]:
  "errors_Is_opt None t = False" "errors_Is_opt (Some e) t = errors_Is e t"
  by (simp_all add: errors_Is_opt_def)

lemma set_map_filter_id: "set (List.map_filter id eos) = {x. Some x \<in> set eos}"
  by (auto simp: set_map_filter)

lemma errors_Join_None_iff [simp]: "errors_Join eos = None \<longleftrightarrow> (\<forall>e \<in> set eos. e = None)"
proof -
  have "errors_Join eos = None \<longleftrightarrow> List.map_filter id eos = []"
    by (simp add: errors_Join_def split: list.split)
  then show ?thesis by (simp add: map_filter_eq_Nil_iff)
qed

lemma errors_Join_Is [simp]: "errors_Is_opt (errors_Join eos) t \<longleftrightarrow> (\<exists>e \<in> set eos. errors_Is_opt e t)"
proof -
  have "errors_Is_opt (errors_Join eos) t \<longleftrightarrow> (\<exists>x \<in> set (List.map_filter id eos). errors_Is x t)"
    by (cases "List.map_filter id eos") (simp_all add: errors_Join_def list_ex_iff)
  also have "\<dots> \<longleftrightarrow> (\<exists>x. Some x \<in> set eos \<and> errors_Is x t)"
    by (simp add: set_map_filter_id)
  also have "\<dots> \<longleftrightarrow> (\<exists>e \<in> set eos. errors_Is_opt e t)"
    by (force simp: errors_Is_opt_def split: option.splits)
  finally show ?thesis .
qed

lemma wrapIfError_None_iff [simp]: "wrapIfError op eo = None \<longleftrightarrow> eo = None"
  by (simp add: wrapIfError_def)

lemma wrapIfError_Is [simp]: "errors_Is_opt (wrapIfError op eo) t = errors_Is_opt eo t"
  by (cases eo) (simp_all add: wrapIfError_def)

end
