(* ===== verification/Retry.thy ===== *)
theory Retry
  imports Go_Lib
begin

text \<open>
  Package internal/retry: bounded retries of an operation its caller declares idempotent. The
  operation, the wait and the context are functions over an arbitrary state, so that a run of
  \<open>Do\<close> covers every interleaving of failures, cancellations and waits. The lemmas give the exact
  schedule of calls and waits (exponential delays capped by the policy, with the int64 doubling of
  the source) and the bound on the number of attempts.
\<close>

record Policy =
  p_Idempotent :: bool
  p_MaxAttempts :: int
  p_InitialDelay :: duration
  p_MaxDelay :: duration

record RetryResult =
  rr_Attempts :: int
  rr_Retries :: int
  rr_Err :: "go_error option"

type_synonym 's Operation = "int \<Rightarrow> 's \<Rightarrow> go_error option \<times> 's"
type_synonym Retryable = "go_error \<Rightarrow> bool"
type_synonym 's WaitFunc = "duration \<Rightarrow> 's \<Rightarrow> go_error option \<times> 's"
type_synonym 's CtxErr = "'s \<Rightarrow> go_error option \<times> 's"

text \<open>The body of the loop's last statement: doubling in 64 bits, with the overflow guard.\<close>

definition nextDelay :: "duration \<Rightarrow> duration \<Rightarrow> duration" where
  "nextDelay delay maxDelay = (if delay < maxDelay then
     (let d = wrap64 (delay * 2) in if maxDelay < d \<or> d \<le> 0 then maxDelay else d) else delay)"

function retryLoop :: "'s CtxErr \<Rightarrow> 's Operation \<Rightarrow> Retryable option \<Rightarrow> 's WaitFunc \<Rightarrow> int \<Rightarrow> duration \<Rightarrow>
    int \<Rightarrow> duration \<Rightarrow> RetryResult \<Rightarrow> 's \<Rightarrow> RetryResult \<times> 's" where
  "retryLoop ctx operation retryable wait maxAttempts maxDelay attempt delay result s =
    (if maxAttempts < attempt then (result, s)
     else case ctx s of
       (Some e, s1) \<Rightarrow> (result\<lparr>rr_Err := Some e\<rparr>, s1)
     | (None, s1) \<Rightarrow>
        (case operation attempt s1 of
           (None, s2) \<Rightarrow> (result\<lparr>rr_Attempts := attempt, rr_Err := None\<rparr>, s2)
         | (Some e, s2) \<Rightarrow>
            (let result2 = result\<lparr>rr_Attempts := attempt, rr_Err := Some e\<rparr> in
             if attempt = maxAttempts \<or> (case retryable of None \<Rightarrow> True | Some f \<Rightarrow> \<not> f e)
             then (result2, s2)
             else case wait delay s2 of
               (Some we, s3) \<Rightarrow> (result2\<lparr>rr_Err := Some we\<rparr>, s3)
             | (None, s3) \<Rightarrow> retryLoop ctx operation retryable wait maxAttempts maxDelay (attempt + 1)
                   (nextDelay delay maxDelay) (result2\<lparr>rr_Retries := rr_Retries result2 + 1\<rparr>) s3)))"
  by pat_completeness auto
termination
  by (relation "measure (\<lambda>(_, _, _, _, m, _, a, _). nat (m + 1 - a))") auto

declare retryLoop.simps [simp del]

definition attemptLimit :: "Policy \<Rightarrow> int" where
  "attemptLimit policy = (let m = (if p_MaxAttempts policy < 1 then 1 else p_MaxAttempts policy) in
     if \<not> p_Idempotent policy then 1 else m)"

definition delayLimit :: "Policy \<Rightarrow> duration" where
  "delayLimit policy = (if p_MaxDelay policy \<le> 0 then 5 * second else p_MaxDelay policy)"

definition firstDelay :: "Policy \<Rightarrow> duration" where
  "firstDelay policy = (let d = (if p_InitialDelay policy \<le> 0 then 100 * millisecond else p_InitialDelay policy) in
     if delayLimit policy < d then delayLimit policy else d)"

text \<open>The select of \<^verbatim>\<open>waitForTimer\<close>: \<open>done\<close> tells whether the context ended before the timer fired.\<close>

definition waitForTimer :: "(duration \<Rightarrow> 's \<Rightarrow> bool \<times> 's) \<Rightarrow> 's CtxErr \<Rightarrow> 's WaitFunc" where
  "waitForTimer done ctx delay s = (case done delay s of
     (True, s1) \<Rightarrow> ctx s1 | (False, s1) \<Rightarrow> (None, s1))"

definition Do :: "(duration \<Rightarrow> 's \<Rightarrow> bool \<times> 's) \<Rightarrow> 's CtxErr \<Rightarrow> Policy \<Rightarrow> 's Operation option \<Rightarrow>
    Retryable option \<Rightarrow> 's WaitFunc option \<Rightarrow> 's \<Rightarrow> RetryResult \<times> 's" where
  "Do done ctx policy operation retryable wait s = (case ctx s of
     (Some e, s1) \<Rightarrow> (\<lparr>rr_Attempts = 0, rr_Retries = 0, rr_Err = Some e\<rparr>, s1)
   | (None, s1) \<Rightarrow> (case operation of
       None \<Rightarrow> (\<lparr>rr_Attempts = 0, rr_Retries = 0, rr_Err = Some (ErrText ''retry operation is required'')\<rparr>, s1)
     | Some op \<Rightarrow> retryLoop ctx op retryable (case wait of None \<Rightarrow> waitForTimer done ctx | Some w \<Rightarrow> w)
         (attemptLimit policy) (delayLimit policy) 1 (firstDelay policy)
         \<lparr>rr_Attempts = 0, rr_Retries = 0, rr_Err = None\<rparr> s1))"

section \<open>The schedule of calls\<close>

text \<open>
  A run is observed through a trace of the calls it makes. \<open>schedule\<close> is the specification: call
  \<open>k\<close> is followed by a wait of the initial delay doubled \<open>k - 1\<close> times over the integers, capped.
\<close>

datatype retry_call = Called int | Waited duration

definition tracedOp :: "'s Operation \<Rightarrow> ('s \<times> retry_call list) Operation" where
  "tracedOp op n st = (case op n (fst st) of (e, s') \<Rightarrow> (e, s', snd st @ [Called n]))"

definition tracedWait :: "'s WaitFunc \<Rightarrow> ('s \<times> retry_call list) WaitFunc" where
  "tracedWait w d st = (case w d (fst st) of (e, s') \<Rightarrow> (e, s', snd st @ [Waited d]))"

definition tracedCtx :: "'s CtxErr \<Rightarrow> ('s \<times> retry_call list) CtxErr" where
  "tracedCtx c st = (case c (fst st) of (e, s') \<Rightarrow> (e, s', snd st))"

definition cappedDelay :: "Policy \<Rightarrow> nat \<Rightarrow> duration" where
  "cappedDelay policy k = min (delayLimit policy) (firstDelay policy * 2 ^ k)"

definition schedule :: "Policy \<Rightarrow> nat \<Rightarrow> retry_call list" where
  "schedule policy n = concat (map (\<lambda>k. [Called (int k + 1), Waited (cappedDelay policy k)]) [0..<n])"

definition policyInRange :: "Policy \<Rightarrow> bool" where
  "policyInRange policy \<longleftrightarrow> int64_range (p_MaxAttempts policy) \<and> int64_range (p_InitialDelay policy)
     \<and> int64_range (p_MaxDelay policy)"

lemma schedule_0 [simp]: "schedule policy 0 = []"
  by (simp add: schedule_def)

lemma schedule_Suc [simp]:
  "schedule policy (Suc n) = schedule policy n @ [Called (int n + 1), Waited (cappedDelay policy n)]"
  by (simp add: schedule_def)

lemma attemptLimit_pos: "1 \<le> attemptLimit policy"
  by (simp add: attemptLimit_def Let_def)

lemma delayLimit_pos: "0 < delayLimit policy"
  by (simp add: delayLimit_def)

lemma firstDelay_bounds: "0 < firstDelay policy" "firstDelay policy \<le> delayLimit policy"
  using delayLimit_pos[of policy] by (auto simp: firstDelay_def Let_def)

lemma delayLimit_range: "policyInRange policy \<Longrightarrow> delayLimit policy < 2 ^ 63"
  by (auto simp: policyInRange_def int64_range_def delayLimit_def)

lemma nextDelay_exact:
  assumes "0 < d" "d \<le> m" "m < 2 ^ 63"
  shows "nextDelay d m = min m (d * 2)"
proof (cases "d * 2 < 2 ^ 63")
  case True
  with assms have "wrap64 (d * 2) = d * 2" by (intro wrap64_id) (simp add: int64_range_def)
  with assms show ?thesis by (auto simp: nextDelay_def Let_def)
next
  case False
  have "(d * 2 + 2 ^ 63) mod 2 ^ 64 = (d * 2 + 2 ^ 63 - 2 ^ 64) mod 2 ^ 64"
    by (rule minus_mod_self2[symmetric])
  also have "\<dots> = d * 2 + 2 ^ 63 - 2 ^ 64"
    using False assms by (intro mod_pos_pos_trivial) auto
  finally have "wrap64 (d * 2) = d * 2 - 2 ^ 64" by (simp add: wrap64_def)
  with False assms show ?thesis by (auto simp: nextDelay_def Let_def)
qed

lemma nextDelay_cappedDelay:
  assumes "policyInRange policy"
  shows "nextDelay (cappedDelay policy k) (delayLimit policy) = cappedDelay policy (Suc k)"
proof -
  have pos: "0 < firstDelay policy * 2 ^ k" using firstDelay_bounds(1)[of policy] by simp
  then have "0 < cappedDelay policy k" "cappedDelay policy k \<le> delayLimit policy"
    using delayLimit_pos[of policy] by (auto simp: cappedDelay_def)
  then have "nextDelay (cappedDelay policy k) (delayLimit policy) =
      min (delayLimit policy) (cappedDelay policy k * 2)"
    using delayLimit_range[OF assms] by (intro nextDelay_exact)
  also have "\<dots> = cappedDelay policy (Suc k)"
    using pos delayLimit_pos[of policy] by (auto simp: cappedDelay_def min_def)
  finally show ?thesis .
qed

lemma cappedDelay_0: "cappedDelay policy 0 = firstDelay policy"
  using firstDelay_bounds(2)[of policy] by (simp add: cappedDelay_def)

text \<open>What a finished run can have done, given how many retries it counted.\<close>

definition runShape :: "Policy \<Rightarrow> int \<Rightarrow> RetryResult \<Rightarrow> retry_call list \<Rightarrow> bool" where
  "runShape policy limit r tr \<longleftrightarrow> 0 \<le> rr_Retries r \<and> rr_Attempts r \<le> limit \<and>
     (rr_Attempts r = rr_Retries r \<and> rr_Err r \<noteq> None \<and> tr = schedule policy (nat (rr_Retries r)) \<or>
      rr_Attempts r = rr_Retries r + 1 \<and>
        (tr = schedule policy (nat (rr_Retries r)) @ [Called (rr_Attempts r)] \<or>
         rr_Err r \<noteq> None \<and> rr_Attempts r < limit \<and> tr = schedule policy (nat (rr_Attempts r))))"

lemma retryLoop_shape:
  assumes range: "policyInRange policy" and "int k + 1 \<le> limit"
    and "rr_Attempts r = int k" "rr_Retries r = int k"
    and "retryLoop (tracedCtx ctx) (tracedOp op) retryable (tracedWait w) limit (delayLimit policy)
           (int k + 1) (cappedDelay policy k) r (s, schedule policy k) = (r', (s', tr))"
  shows "runShape policy limit r' tr"
  using assms(2-)
proof (induction "nat (limit - int k)" arbitrary: k r s rule: less_induct)
  case less
  note unf = less.prems(4)[unfolded retryLoop.simps[of _ _ _ _ _ _ "int k + 1"]]
  obtain ce s1 where c: "ctx s = (ce, s1)" by fastforce
  obtain oe s2 where o: "op (int k + 1) s1 = (oe, s2)" by fastforce
  obtain we s3 where w: "w (cappedDelay policy k) s2 = (we, s3)" by fastforce
  have nat: "nat (1 + int k) = Suc k" "nat (int k + 1) = Suc k" by simp_all
  note ev = unf c o w less.prems(1-3) nat tracedCtx_def tracedOp_def tracedWait_def
  show ?case
  proof (cases "ce = None \<and> oe \<noteq> None \<and> we = None \<and> int k + 1 \<noteq> limit \<and>
      (\<exists>f. retryable = Some f \<and> f (the oe))")
    case False
    with ev show ?thesis
      by (auto simp: runShape_def tracedCtx_def tracedOp_def tracedWait_def Let_def
          split: option.splits if_splits)
  next
    case True
    let ?r = "r\<lparr>rr_Attempts := int k + 1, rr_Err := oe, rr_Retries := int k + 1\<rparr>"
    have step: "retryLoop (tracedCtx ctx) (tracedOp op) retryable (tracedWait w) limit (delayLimit policy)
        (int (Suc k) + 1) (cappedDelay policy (Suc k)) ?r (s3, schedule policy (Suc k)) = (r', (s', tr))"
      using ev True
      by (auto simp: tracedCtx_def tracedOp_def tracedWait_def Let_def nextDelay_cappedDelay[OF range]
          algebra_simps split: option.splits if_splits)
    show ?thesis
      by (rule less.hyps[OF _ _ _ _ step]) (use True less.prems(1) in auto)
  qed
qed


text \<open>
  Enough attempts: when the operation fails with retryable errors fewer times than the policy allows
  and then succeeds, and neither the context nor a wait fails, the loop ends in success.
\<close>

definition quietCtx :: "'s CtxErr \<Rightarrow> bool" where
  "quietCtx ctx \<longleftrightarrow> (\<forall>s. ctx s = (None, s))"

definition quietWait :: "'s WaitFunc \<Rightarrow> bool" where
  "quietWait w \<longleftrightarrow> (\<forall>d s. w d s = (None, s))"

lemma retryLoop_succeeds:
  assumes "quietCtx ctx" "quietWait w" "retryable = Some f"
    and "\<And>i s. a \<le> i \<Longrightarrow> i < n \<Longrightarrow> \<exists>e. op i s = (Some e, s) \<and> f e" and "\<And>s. op n s = (None, s)"
    and "a \<le> n" "n \<le> limit"
  shows "fst (retryLoop ctx op retryable w limit m a d r s) =
     r\<lparr>rr_Attempts := n, rr_Retries := rr_Retries r + (n - a), rr_Err := None\<rparr>"
  using assms(4-)
proof (induction "nat (n - a)" arbitrary: a d r)
  case 0
  then show ?case
    using assms(1) by (subst retryLoop.simps) (simp add: quietCtx_def)
next
  case (Suc k)
  from Suc.hyps(2) have lt: "a < n" by linarith
  with Suc.prems(1)[of a s] obtain e where e: "op a s = (Some e, s)" "f e" by auto
  have "fst (retryLoop ctx op retryable w limit m a d r s) =
      fst (retryLoop ctx op retryable w limit m (a + 1) (nextDelay d m)
        (r\<lparr>rr_Attempts := a, rr_Err := Some e, rr_Retries := rr_Retries r + 1\<rparr>) s)"
    using assms(1-3) e lt Suc.prems(4)
    by (subst retryLoop.simps) (simp add: quietCtx_def quietWait_def Let_def)
  also have "\<dots> = r\<lparr>rr_Attempts := n, rr_Retries := rr_Retries r + (n - a), rr_Err := None\<rparr>"
    using Suc lt by (subst Suc.hyps(1)) (auto simp: algebra_simps)
  finally show ?case .
qed

section \<open>Properties\<close>

text \<open>
  C1 Every run of Do makes exactly the calls of the schedule: the operation is called with 1, 2, ...
  in order, never more often than the policy allows and only once when the caller did not declare it
  idempotent; the wait before attempt \<open>k + 1\<close> is the initial delay doubled \<open>k - 1\<close> times and capped,
  computed without the int64 overflow of the doubling ever showing; the reported counts are those of
  the calls made; and the run ends without error only right after a call of the operation.
\<close>

theorem Do_schedule:
  assumes "policyInRange policy"
  shows "case Do done (tracedCtx ctx) policy (Some (tracedOp op)) retryable (Some (tracedWait w)) (s, [])
     of (r, (s', tr)) \<Rightarrow> runShape policy (attemptLimit policy) r tr"
proof -
  obtain ce s1 where c: "ctx s = (ce, s1)" by fastforce
  let ?r = "\<lparr>rr_Attempts = 0, rr_Retries = 0, rr_Err = None\<rparr>"
  obtain r s' tr where l: "retryLoop (tracedCtx ctx) (tracedOp op) retryable (tracedWait w)
      (attemptLimit policy) (delayLimit policy) 1 (firstDelay policy) ?r (s1, []) = (r, (s', tr))"
    by (metis prod_cases3)
  have "ce = None \<Longrightarrow> runShape policy (attemptLimit policy) r tr"
    using retryLoop_shape[OF assms, of 0 "attemptLimit policy" ?r ctx op retryable w s1 r s' tr] l
      attemptLimit_pos[of policy] by (simp add: cappedDelay_0)
  then show ?thesis
    using c l attemptLimit_pos[of policy]
    by (cases ce) (simp_all add: Do_def tracedCtx_def runShape_def)
qed

theorem Do_schedule_witness:
  "policyInRange \<lparr>p_Idempotent = True, p_MaxAttempts = 3, p_InitialDelay = 4, p_MaxDelay = 5\<rparr> \<and>
   (case Do (\<lambda>_ s. (False, s)) (tracedCtx (\<lambda>s. (None, s)))
      \<lparr>p_Idempotent = True, p_MaxAttempts = 3, p_InitialDelay = 4, p_MaxDelay = 5\<rparr>
      (Some (tracedOp (\<lambda>n s. (Some (ErrText ''x''), s)))) (Some (\<lambda>_. True))
      (Some (tracedWait (\<lambda>_ s. (None, s)))) ((), [])
    of (r, (_, tr)) \<Rightarrow>
      runShape \<lparr>p_Idempotent = True, p_MaxAttempts = 3, p_InitialDelay = 4, p_MaxDelay = 5\<rparr> 3 r tr)"
  using Do_schedule[of "\<lparr>p_Idempotent = True, p_MaxAttempts = 3, p_InitialDelay = 4, p_MaxDelay = 5\<rparr>"
      "\<lambda>_ s. (False, s)" "\<lambda>s. (None, s)" "\<lambda>n s. (Some (ErrText ''x''), s)" "Some (\<lambda>_. True)"
      "\<lambda>_ s. (None, s)" "()"]
  by (simp add: policyInRange_def int64_range_def attemptLimit_def)

text \<open>
  C2: an idempotent operation that fails with retryable errors on its first \<open>n - 1\<close> attempts and then
  succeeds is reported successful after exactly \<open>n\<close> attempts and \<open>n - 1\<close> retries, whenever the policy
  allows \<open>n\<close> attempts and neither the context nor a wait fails.
\<close>

theorem Do_eventually_succeeds:
  assumes "quietCtx ctx" "quietWait w" "p_Idempotent policy" "1 \<le> n" "n \<le> p_MaxAttempts policy"
    and "\<And>i s. 1 \<le> i \<Longrightarrow> i < n \<Longrightarrow> \<exists>e. op i s = (Some e, s) \<and> f e" and "\<And>s. op n s = (None, s)"
  shows "fst (Do done ctx policy (Some op) (Some f) (Some w) s) =
     \<lparr>rr_Attempts = n, rr_Retries = n - 1, rr_Err = None\<rparr>"
proof -
  have "n \<le> attemptLimit policy" using assms(3-5) by (simp add: attemptLimit_def)
  moreover have "fst (Do done ctx policy (Some op) (Some f) (Some w) s) =
      fst (retryLoop ctx op (Some f) w (attemptLimit policy) (delayLimit policy) 1 (firstDelay policy)
        \<lparr>rr_Attempts = 0, rr_Retries = 0, rr_Err = None\<rparr> s)"
    using assms(1) by (simp add: Do_def quietCtx_def)
  ultimately show ?thesis
    using assms by (simp add: retryLoop_succeeds[where f = f and n = n])
qed

theorem Do_eventually_succeeds_witness:
  "fst (Do (\<lambda>_ s. (False, s)) (\<lambda>s. (None, s))
      \<lparr>p_Idempotent = True, p_MaxAttempts = 4, p_InitialDelay = 0, p_MaxDelay = 0\<rparr>
      (Some (\<lambda>i s. (if i < 3 then Some (ErrText ''throttling'') else None, s))) (Some (\<lambda>_. True))
      (Some (\<lambda>_ s. (None, s))) ()) = \<lparr>rr_Attempts = 3, rr_Retries = 3 - 1, rr_Err = None\<rparr>"
  by (rule Do_eventually_succeeds) (simp_all add: quietCtx_def quietWait_def)

end
