(* ===== verification/Failure_Class.thy ===== *)
theory Failure_Class
  imports Go_Lib
begin

text \<open>
  Package internal/failure: the failure vocabulary, the classifier and the recogniser of transient
  errors. \<open>Class\<close> has one constructor per constant of the source and \<open>class_text\<close> its string.
\<close>

datatype Class =
    InvalidConfiguration | MissingExecutable | Authentication | PermissionDenied | UnavailableSKU
  | QuotaExhaustion | StateConflict | ProvisioningFailure | ReadinessTimeout | BenchmarkTransport
  | ResultWrite | CleanupFailure | Interruption | UnknownClass

fun class_text :: "Class \<Rightarrow> string" where
  "class_text InvalidConfiguration = ''invalid-configuration''"
| "class_text MissingExecutable = ''missing-executable''"
| "class_text Authentication = ''cli-authentication''"
| "class_text PermissionDenied = ''permission-denied''"
| "class_text UnavailableSKU = ''unavailable-sku-or-region''"
| "class_text QuotaExhaustion = ''quota-exhaustion''"
| "class_text StateConflict = ''pulumi-state-or-lock-conflict''"
| "class_text ProvisioningFailure = ''provisioning-failure''"
| "class_text ReadinessTimeout = ''readiness-timeout''"
| "class_text BenchmarkTransport = ''benchmark-or-transport-failure''"
| "class_text ResultWrite = ''result-write-or-aggregation-failure''"
| "class_text CleanupFailure = ''cleanup-failure''"
| "class_text Interruption = ''interruption-or-cancellation''"
| "class_text UnknownClass = ''unknown''"

record ClassifiedError =
  ce_Class :: Class
  ce_Stage :: string
  ce_Cause :: "go_error option"

definition Wrap :: "Class \<Rightarrow> string \<Rightarrow> go_error option \<Rightarrow> ClassifiedError" where
  "Wrap class stage cause = \<lparr>ce_Class = class, ce_Stage = stage, ce_Cause = cause\<rparr>"

definition ClassifiedError_Error :: "ClassifiedError option \<Rightarrow> string" where
  "ClassifiedError_Error eo = (case eo of None \<Rightarrow> [] | Some e \<Rightarrow>
     (case ce_Cause e of
        None \<Rightarrow> ce_Stage e @ '' failed ('' @ class_text (ce_Class e) @ '')''
      | Some c \<Rightarrow> ce_Stage e @ '' failed ('' @ class_text (ce_Class e) @ ''): '' @ error_text c))"

definition ClassifiedError_Unwrap :: "ClassifiedError option \<Rightarrow> go_error option" where
  "ClassifiedError_Unwrap eo = (case eo of None \<Rightarrow> None | Some e \<Rightarrow> ce_Cause e)"

section \<open>The classifier\<close>

text \<open>The classes told from the text of the error, in the order of the first switch.\<close>

definition classifyMessage :: "string \<Rightarrow> Class option" where
  "classifyMessage message =
    (if containsAny message [''executable file not found'', ''command not found'', ''not found in $path'']
       then Some MissingExecutable
     else if containsAny message [''unable to locate credentials'', ''not logged in'', ''login required'',
         ''authentication failed'', ''invalid credential'', ''expired token''] then Some Authentication
     else if containsAny message [''quotaexceeded'', ''quota exceeded'', ''quota exhaustion'', ''vcpu limit'',
         ''resource limit exceeded''] then Some QuotaExhaustion
     else if containsAny message [''accessdenied'', ''permission denied'', ''not authorized'', ''forbidden'',
         ''authorizationfailed''] then Some PermissionDenied
     else if containsAny message [''not available in'', ''unavailable in'', ''unsupported instance type'',
         ''sku is not available'', ''invalid zone'', ''invalid region''] then Some UnavailableSKU
     else if containsAny message [''currently locked'', ''stack is locked'', ''state lock'',
         ''concurrent update'', ''another update is currently in progress''] then Some StateConflict
     else None)"

text \<open>The classes told from the stage alone, in the order of the second switch.\<close>

definition classifyStage :: "string \<Rightarrow> Class" where
  "classifyStage stage =
    (if Contains stage ''config'' \<or> Contains stage ''argument'' then InvalidConfiguration
     else if Contains stage ''preflight'' \<or> Contains stage ''auth'' then Authentication
     else if Contains stage ''readiness'' \<or> Contains stage ''ready'' then ReadinessTimeout
     else if Contains stage ''benchmark'' \<or> Contains stage ''transport'' then BenchmarkTransport
     else if Contains stage ''provision'' \<or> Contains stage ''network'' \<or> Contains stage ''setup''
       then ProvisioningFailure
     else UnknownClass)"

definition Classify :: "string \<Rightarrow> go_error option \<Rightarrow> Class" where
  "Classify stage0 err = (let stage = ToLower (TrimSpace stage0) in
     case err of None \<Rightarrow> UnknownClass
     | Some e \<Rightarrow>
       if errors_Is e Canceled then Interruption
       else if errors_Is e DeadlineExceeded then
         (if Contains stage ''read'' \<or> Contains stage ''ready'' then ReadinessTimeout else Interruption)
       else if Contains stage ''cleanup'' \<or> Contains stage ''destroy'' \<or> Contains stage ''teardown''
         then CleanupFailure
       else if Contains stage ''result'' \<or> Contains stage ''aggregat'' \<or> Contains stage ''logging''
         then ResultWrite
       else case classifyMessage (ToLower (error_text e)) of Some c \<Rightarrow> c | None \<Rightarrow> classifyStage stage)"

definition IsTransient :: "go_error option \<Rightarrow> bool" where
  "IsTransient err = (case err of None \<Rightarrow> False | Some e \<Rightarrow>
     if errors_Is e Canceled \<or> errors_Is e DeadlineExceeded then False
     else let message = ToLower (error_text e) in
       if containsAny message [''permission denied'', ''accessdenied'', ''not authorized'', ''quota'',
           ''currently locked'', ''stack is locked'', ''state lock''] then False
       else containsAny message [''temporarily unavailable'', ''service unavailable'', ''throttling'',
           ''rate exceeded'', ''too many requests'', ''connection reset'', ''connection refused'',
           ''unexpected eof''])"

section \<open>Lemmas\<close>

lemma classifyMessage_range: "classifyMessage m = Some c \<Longrightarrow>
    c \<in> {MissingExecutable, Authentication, QuotaExhaustion, PermissionDenied, UnavailableSKU, StateConflict}"
  by (auto simp: classifyMessage_def split: if_splits)

lemma classifyStage_range: "classifyStage s \<in>
    {InvalidConfiguration, Authentication, ReadinessTimeout, BenchmarkTransport, ProvisioningFailure, UnknownClass}"
  by (simp add: classifyStage_def)

lemma Contains_sub: "Contains v (a @ b @ c) \<Longrightarrow> Contains v b"
proof -
  assume "Contains v (a @ b @ c)"
  then obtain x y where "v = (x @ a) @ b @ (c @ y)" by (auto simp: Contains_iff)
  then show "Contains v b" unfolding Contains_iff by blast
qed

lemma Contains_ready_read: "Contains v ''ready'' \<Longrightarrow> Contains v ''read''"
  using Contains_sub[of v "[]" "''read''" "''y''"] by simp

text \<open>
  Interruption is reported for exactly the errors that carry a cancellation or, outside a readiness
  stage, an expired deadline; no stage name and no text inside the error can hide a cancellation, and
  such an error is never treated as transient, so it is never retried.
\<close>

theorem Classify_Interruption_iff:
  "(Classify stage (Some e) = Interruption \<longleftrightarrow>
      errors_Is e Canceled \<or> errors_Is e DeadlineExceeded \<and> \<not> Contains (ToLower (TrimSpace stage)) ''read'')
   \<and> \<not> (IsTransient (Some e) \<and> (errors_Is e Canceled \<or> errors_Is e DeadlineExceeded))"
proof -
  have "classifyMessage m \<noteq> Some Interruption" "classifyStage s \<noteq> Interruption" for m s
    using classifyMessage_range[of m] classifyStage_range[of s] by auto
  then show ?thesis
    using Contains_ready_read[of "ToLower (TrimSpace stage)"]
    by (auto simp: Classify_def Let_def IsTransient_def split: option.split)
qed

text \<open>
  A failure of a cleanup stage is always reported as a cleanup failure, whatever the error says,
  unless the error is a cancellation or an expired deadline; and only cleanup stages are.
\<close>

theorem Classify_cleanup_iff:
  "Classify stage (Some e) = CleanupFailure \<longleftrightarrow>
     \<not> errors_Is e Canceled \<and> \<not> errors_Is e DeadlineExceeded \<and>
     containsAny (ToLower (TrimSpace stage)) [''cleanup'', ''destroy'', ''teardown'']"
proof -
  have "classifyMessage m \<noteq> Some CleanupFailure" "classifyStage s \<noteq> CleanupFailure" for m s
    using classifyMessage_range[of m] classifyStage_range[of s] by auto
  then show ?thesis
    by (auto simp: Classify_def Let_def containsAny_def split: option.split)
qed

end
