(* ===== verification/Go_Path.thy ===== *)
theory Go_Path
  imports Go_Lib
begin

text \<open>
  Package path/filepath on Unix. A path in the form \<^verbatim>\<open>filepath.Clean\<close> returns is the pair of the flag
  "starts with a slash" and its components, and \<open>path_string\<close> gives the string back. The lemmas
  show that the two forms carry the same information and that joining a plain component appends it.
\<close>

type_synonym path = "bool \<times> string list"

fun cleanComps :: "bool \<Rightarrow> string list \<Rightarrow> string list \<Rightarrow> string list" where
  "cleanComps r acc [] = rev acc"
| "cleanComps r acc (c # cs) =
     (if c = [] \<or> c = ''.'' then cleanComps r acc cs
      else if c = ''..'' then
        (case acc of
           [] \<Rightarrow> cleanComps r (if r then [] else [''..'']) cs
         | a # as \<Rightarrow> if a = ''..'' then cleanComps r (''..'' # acc) cs else cleanComps r as cs)
      else cleanComps r (c # acc) cs)"

definition Clean :: "string \<Rightarrow> path" where
  "Clean s = (let r = HasPrefix s ''/'' in (r, cleanComps r [] (Split (CHR ''/'') s)))"

definition path_string :: "path \<Rightarrow> string" where
  "path_string p = (case p of (r, cs) \<Rightarrow>
     if r then ''/'' @ JoinStr ''/'' cs else if cs = [] then ''.'' else JoinStr ''/'' cs)"

definition filepath_Join :: "string list \<Rightarrow> path" where
  "filepath_Join elems = Clean (JoinStr ''/'' (filter (\<lambda>e. e \<noteq> []) elems))"

definition path_join :: "path \<Rightarrow> string \<Rightarrow> path" where
  "path_join p c = (fst p, snd p @ [c])"

definition path_parent :: "path \<Rightarrow> path" where
  "path_parent p = (fst p, butlast (snd p))"

definition path_base :: "path \<Rightarrow> string" where
  "path_base p = (if snd p = [] then (if fst p then ''/'' else ''.'') else last (snd p))"

definition plainComp :: "string \<Rightarrow> bool" where
  "plainComp c \<longleftrightarrow> c \<noteq> [] \<and> c \<noteq> ''.'' \<and> c \<noteq> ''..'' \<and> CHR ''/'' \<notin> set c"

definition cleanList :: "bool \<Rightarrow> string list \<Rightarrow> bool" where
  "cleanList r cs \<longleftrightarrow> (\<exists>k ps. cs = replicate k ''..'' @ ps \<and> list_all plainComp ps \<and> (r \<longrightarrow> k = 0))"

lemma path_join_parts [simp]:
  "path_parent (path_join p c) = p" "path_base (path_join p c) = c"
  by (simp_all add: path_join_def path_parent_def path_base_def)

lemma path_join_inj [simp]: "path_join p c = path_join q d \<longleftrightarrow> p = q \<and> c = d"
  by (auto simp: path_join_def prod_eq_iff)

lemma path_join_neq [simp]: "path_join p c \<noteq> p" "p \<noteq> path_join p c"
  by (auto simp: path_join_def prod_eq_iff)

lemma plainComp_no_slash: "plainComp c \<Longrightarrow> CHR ''/'' \<notin> set c"
  by (simp add: plainComp_def)

lemma cleanList_Nil [simp]: "cleanList r []"
  by (auto simp: cleanList_def)

lemma cleanList_snoc_plain: "cleanList r cs \<Longrightarrow> plainComp c \<Longrightarrow> cleanList r (cs @ [c])"
proof -
  assume a: "cleanList r cs" "plainComp c"
  then obtain k ps where "cs = replicate k ''..'' @ ps" "list_all plainComp ps" "r \<longrightarrow> k = 0"
    by (auto simp: cleanList_def)
  with a(2) have "cs @ [c] = replicate k ''..'' @ (ps @ [c]) \<and> list_all plainComp (ps @ [c]) \<and> (r \<longrightarrow> k = 0)"
    by simp
  then show "cleanList r (cs @ [c])" unfolding cleanList_def by blast
qed

lemma cleanList_snoc_dots: "cleanList False cs \<Longrightarrow> cs = [] \<or> last cs = ''..'' \<Longrightarrow> cleanList False (cs @ [''..''])"
proof -
  assume a: "cleanList False cs" "cs = [] \<or> last cs = ''..''"
  then obtain k ps where cs: "cs = replicate k ''..'' @ ps" "list_all plainComp ps"
    by (auto simp: cleanList_def)
  with a(2) have "ps = []" by (cases ps rule: rev_cases) (auto simp: plainComp_def)
  with cs have "cs @ [''..''] = replicate (Suc k) ''..'' @ [] \<and> list_all plainComp []"
    by (simp add: replicate_append_same)
  then show "cleanList False (cs @ [''..''])" unfolding cleanList_def by blast
qed

lemma cleanList_butlast: "cleanList r (cs @ [c]) \<Longrightarrow> cleanList r cs"
proof -
  assume "cleanList r (cs @ [c])"
  then obtain k ps where eq: "cs @ [c] = replicate k ''..'' @ ps" "list_all plainComp ps" "r \<longrightarrow> k = 0"
    by (auto simp: cleanList_def)
  show "cleanList r cs"
  proof (cases ps rule: rev_cases)
    case Nil
    with eq have "cs @ [c] = replicate k ''..''" by simp
    then obtain j where "k = Suc j" by (cases k) auto
    with eq Nil have "cs = replicate j ''..''" by (simp flip: replicate_append_same)
    with eq \<open>k = Suc j\<close> show ?thesis by (force simp: cleanList_def)
  next
    case (snoc qs q)
    with eq show ?thesis by (force simp: cleanList_def)
  qed
qed

lemma cleanList_rooted_no_dots: "cleanList True cs \<Longrightarrow> list_all plainComp cs"
  by (auto simp: cleanList_def)

lemma cleanList_cleanComps:
  "\<forall>c \<in> set cs. CHR ''/'' \<notin> set c \<Longrightarrow> cleanList r (rev acc) \<Longrightarrow> cleanList r (cleanComps r acc cs)"
proof (induction r acc cs rule: cleanComps.induct)
  case (2 r acc c cs)
  consider "c = [] \<or> c = ''.''" | "c = ''..''" | "plainComp c"
    using "2.prems" by (auto simp: plainComp_def)
  then show ?case
  proof cases
    case 1
    with 2 show ?thesis by auto
  next
    case dots: 2
    show ?thesis
    proof (cases acc)
      case Nil
      with 2 dots cleanList_snoc_dots[of "[]"] show ?thesis by auto
    next
      case (Cons a as)
      then have "a = ''..'' \<Longrightarrow> \<not> r"
        using "2.prems"(2) cleanList_rooted_no_dots[of "rev acc"] by (auto simp: plainComp_def)
      with 2 dots Cons cleanList_snoc_dots[of "rev acc"] cleanList_butlast[of r "rev as" a]
      show ?thesis by auto
    qed
  next
    case 3
    with 2 cleanList_snoc_plain[of r "rev acc" c] show ?thesis by (auto simp: plainComp_def)
  qed
qed simp

lemma cleanList_Clean: "cleanList (fst (Clean s)) (snd (Clean s))"
  by (auto simp: Clean_def Let_def intro!: cleanList_cleanComps dest: Split_no_sep_elem)

lemma cleanComps_snoc_plain: "plainComp c \<Longrightarrow> cleanComps r acc (cs @ [c]) = cleanComps r acc cs @ [c]"
  by (induction r acc cs rule: cleanComps.induct) (auto simp: plainComp_def split: list.splits)

lemma cleanComps_plain: "list_all plainComp ps \<Longrightarrow> cleanComps r acc ps = rev acc @ ps"
  by (induction ps arbitrary: acc) (auto simp: plainComp_def)

lemma cleanComps_dots: "cleanComps False (replicate j ''..'') (replicate k ''..'' @ ps) =
    cleanComps False (replicate (j + k) ''..'') ps"
proof (induction k arbitrary: j)
  case (Suc k)
  have "cleanComps False (replicate j ''..'') (replicate (Suc k) ''..'' @ ps) =
      cleanComps False (replicate (Suc j) ''..'') (replicate k ''..'' @ ps)"
    by (cases j) auto
  also have "\<dots> = cleanComps False (replicate (Suc j + k) ''..'') ps" by (rule Suc.IH)
  finally show ?case by simp
qed simp

lemma cleanComps_id: "cleanList r cs \<Longrightarrow> cleanComps r [] cs = cs"
proof -
  assume "cleanList r cs"
  then obtain k ps where cs: "cs = replicate k ''..'' @ ps" "list_all plainComp ps" "r \<longrightarrow> k = 0"
    by (auto simp: cleanList_def)
  show ?thesis
  proof (cases r)
    case True
    with cs show ?thesis by (simp add: cleanComps_plain)
  next
    case False
    with cs cleanComps_dots[of 0 k ps] show ?thesis by (simp add: cleanComps_plain)
  qed
qed

lemma cleanList_no_slash: "cleanList r cs \<Longrightarrow> c \<in> set cs \<Longrightarrow> CHR ''/'' \<notin> set c \<and> c \<noteq> []"
  by (fastforce simp: cleanList_def list_all_iff plainComp_def)

lemma JoinStr_first: "c \<noteq> [] \<Longrightarrow> hd (JoinStr sep (c # cs)) = hd c \<and> JoinStr sep (c # cs) \<noteq> []"
  by (cases cs) auto

text \<open>The two forms of a clean path determine each other.\<close>

lemma Clean_path_string: "cleanList (fst p) (snd p) \<Longrightarrow> Clean (path_string p) = p"
proof (cases p)
  case (Pair r cs)
  assume cl: "cleanList (fst p) (snd p)"
  have sl: "\<forall>c \<in> set cs. CHR ''/'' \<notin> set c" using cl Pair cleanList_no_slash by fastforce
  have sp: "cs \<noteq> [] \<Longrightarrow> Split (CHR ''/'') (JoinStr ''/'' cs) = cs"
    using Split_JoinStr[of cs "CHR ''/''"] sl by simp
  have id: "cleanComps r [] cs = cs" using cl Pair by (simp add: cleanComps_id)
  show ?thesis
  proof (cases cs)
    case Nil
    with Pair show ?thesis by (cases r) (simp_all add: Clean_def path_string_def)
  next
    case (Cons c ds)
    have "c \<noteq> []" "hd c \<noteq> CHR ''/''"
      using cl Pair Cons cleanList_no_slash[of r cs c] by (cases c; auto)+
    then have "\<not> HasPrefix (JoinStr ''/'' cs) ''/''"
      using JoinStr_first[of c "''/''" ds] Cons by (cases "JoinStr ''/'' cs") auto
    then show ?thesis
      using Pair sp id Cons by (cases r) (simp_all add: Clean_def path_string_def Let_def)
  qed
qed

lemma filepath_Join_plain:
  assumes "rt \<noteq> []" and "plainComp c"
  shows "filepath_Join [rt, c] = path_join (Clean rt) c"
proof -
  from assms have "filepath_Join [rt, c] = Clean (rt @ CHR ''/'' # c)"
    by (simp add: filepath_Join_def plainComp_def)
  moreover from assms(1) have "HasPrefix (rt @ CHR ''/'' # c) ''/'' = HasPrefix rt ''/''"
    by (cases rt) auto
  ultimately show ?thesis using assms(2)
    by (simp add: Clean_def Let_def Split_append_sep Split_no_sep plainComp_no_slash
        cleanComps_snoc_plain path_join_def)
qed

end
