(* ===== verification/Go_OS.thy ===== *)
theory Go_OS
  imports Go_Path
begin

text \<open>
  The part of package os the run store uses, as state passing over a world: a map from clean paths to
  nodes, an oracle that may fail any system call, a stream of random numbers and a clock. Every system
  call consults the oracle once, so a statement about all worlds covers every failure of every call; a
  crash is the case in which all calls after some point fail. A failed call has no effect, except that
  a failed write may leave part of its data behind and a failed rename may have taken place. A file
  holds bytes or lines that encode documents of type \<open>'d\<close>: the JSON the program writes is kept
  structured, so that decoding a complete line gives back the encoded value. The tree under the store
  has no symbolic links, and no other process changes it during a call.
\<close>

section \<open>The world\<close>

text \<open>
  A line is complete, or complete and not decodable, or an unterminated rest of the file that is not
  decodable or lacks only its newline.
\<close>

datatype 'd chunk = Line 'd | LineBad | TailBad | Tail 'd

datatype 'd content = Bytes string | Docs "'d chunk list"

datatype 'd node = Dir | Regular "'d content"

datatype tear = NoBytes | SomeBytes | AllButNewline

datatype fault = Fault go_error tear

record 'd world =
  w_fs :: "path \<Rightarrow> 'd node option"
  w_fault :: "nat \<Rightarrow> fault option"
  w_calls :: nat
  w_rand :: "nat \<Rightarrow> nat"
  w_draws :: nat
  w_clock :: "nat \<Rightarrow> gotime"
  w_ticks :: nat

type_synonym ('d, 'a) io = "'d world \<Rightarrow> (go_error + 'a) \<times> 'd world"

section \<open>Sequencing\<close>

definition ret :: "'a \<Rightarrow> ('d, 'a) io" where
  "ret x w = (Inr x, w)"

definition raise :: "go_error \<Rightarrow> ('d, 'a) io" where
  "raise e w = (Inl e, w)"

definition bind :: "('d, 'a) io \<Rightarrow> ('a \<Rightarrow> ('d, 'b) io) \<Rightarrow> ('d, 'b) io" where
  "bind m f w = (case m w of (Inl e, w') \<Rightarrow> (Inl e, w') | (Inr x, w') \<Rightarrow> f x w')"

text \<open>\<open>mapErr\<close> wraps an error at the place it is returned.\<close>

definition mapErr :: "(go_error \<Rightarrow> go_error) \<Rightarrow> ('d, 'a) io \<Rightarrow> ('d, 'a) io" where
  "mapErr g m w = (case m w of (Inl e, w') \<Rightarrow> (Inl (g e), w') | (Inr x, w') \<Rightarrow> (Inr x, w'))"

text \<open>\<open>onErr\<close> runs an action when the call fails and drops the action's own error.\<close>

definition onErr :: "('d, 'a) io \<Rightarrow> ('d, unit) io \<Rightarrow> ('d, 'a) io" where
  "onErr m d w = (case m w of (Inl e, w') \<Rightarrow> (Inl e, snd (d w')) | (Inr x, w') \<Rightarrow> (Inr x, w'))"

fun forEach :: "('a \<Rightarrow> ('d, unit) io) \<Rightarrow> 'a list \<Rightarrow> ('d, unit) io" where
  "forEach f [] = ret ()"
| "forEach f (x # xs) = bind (f x) (\<lambda>_. forEach f xs)"

definition now :: "('d, gotime) io" where
  "now w = (Inr (w_clock w (w_ticks w)), w\<lparr>w_ticks := w_ticks w + 1\<rparr>)"

section \<open>System calls\<close>

definition syscall :: "(tear \<Rightarrow> 'd world \<Rightarrow> 'd world) \<Rightarrow> ('d, 'a) io \<Rightarrow> ('d, 'a) io" where
  "syscall broken act w = (let w' = w\<lparr>w_calls := w_calls w + 1\<rparr> in
     case w_fault w (w_calls w) of Some (Fault e t) \<Rightarrow> (Inl e, broken t w') | None \<Rightarrow> act w')"

definition set_node :: "path \<Rightarrow> 'd node option \<Rightarrow> 'd world \<Rightarrow> 'd world" where
  "set_node p n w = w\<lparr>w_fs := (w_fs w)(p := n)\<rparr>"

definition os_Stat :: "path \<Rightarrow> ('d, 'd node) io" where
  "os_Stat p = syscall (\<lambda>_ w. w) (\<lambda>w. case w_fs w p of None \<Rightarrow> (Inl (Sentinel ErrNotExist), w)
     | Some n \<Rightarrow> (Inr n, w))"

definition os_ReadFile :: "path \<Rightarrow> ('d, 'd content) io" where
  "os_ReadFile p = syscall (\<lambda>_ w. w) (\<lambda>w. case w_fs w p of None \<Rightarrow> (Inl (Sentinel ErrNotExist), w)
     | Some (Regular c) \<Rightarrow> (Inr c, w) | Some Dir \<Rightarrow> (Inl (ErrText ''is a directory''), w))"

definition os_Mkdir :: "path \<Rightarrow> ('d, unit) io" where
  "os_Mkdir p = syscall (\<lambda>_ w. w) (\<lambda>w. case w_fs w p of Some _ \<Rightarrow> (Inl (Sentinel ErrExist), w)
     | None \<Rightarrow> if w_fs w (path_parent p) = Some Dir then (Inr (), set_node p (Some Dir) w)
        else (Inl (Sentinel ErrNotExist), w))"

text \<open>
  \<^verbatim>\<open>os.MkdirAll\<close>: nothing to do for a directory, else the parent first and then the directory, whose
  failure is forgiven when the directory is there by then. The components are in reverse order.
\<close>

fun mkdirAll :: "bool \<Rightarrow> string list \<Rightarrow> ('d, unit) io" where
  "mkdirAll r cs w = (case os_Stat (r, rev cs) w of
     (Inr Dir, w1) \<Rightarrow> (Inr (), w1)
   | (Inr (Regular _), w1) \<Rightarrow> (Inl (ErrText ''not a directory''), w1)
   | (Inl _, w1) \<Rightarrow>
      (case (case cs of [] \<Rightarrow> (Inr (), w1) | c # ds \<Rightarrow> mkdirAll r ds w1) of
         (Inl e, w2) \<Rightarrow> (Inl e, w2)
       | (Inr _, w2) \<Rightarrow>
          (case os_Mkdir (r, rev cs) w2 of
             (Inr _, w3) \<Rightarrow> (Inr (), w3)
           | (Inl e, w3) \<Rightarrow> (case os_Stat (r, rev cs) w3 of
                (Inr Dir, w4) \<Rightarrow> (Inr (), w4) | (_, w4) \<Rightarrow> (Inl e, w4)))))"

declare mkdirAll.simps [simp del]

definition os_MkdirAll :: "path \<Rightarrow> ('d, unit) io" where
  "os_MkdirAll p = mkdirAll (fst p) (rev (snd p))"

definition os_CreateExcl :: "path \<Rightarrow> ('d, unit) io" where
  "os_CreateExcl p = syscall (\<lambda>_ w. w) (\<lambda>w. case w_fs w p of Some _ \<Rightarrow> (Inl (Sentinel ErrExist), w)
     | None \<Rightarrow> if w_fs w (path_parent p) = Some Dir then (Inr (), set_node p (Some (Regular (Docs []))) w)
        else (Inl (Sentinel ErrNotExist), w))"

text \<open>\<^verbatim>\<open>os.CreateTemp\<close> draws a number for the star of the pattern and tries again while the name exists.\<close>

fun createTemp :: "nat \<Rightarrow> path \<Rightarrow> string \<Rightarrow> ('d, path) io" where
  "createTemp 0 dir pre w = (Inl (Sentinel ErrExist), w)"
| "createTemp (Suc tries) dir pre w =
    (let p = path_join dir (pre @ string_of_nat (w_rand w (w_draws w))) in
     case os_CreateExcl p (w\<lparr>w_draws := w_draws w + 1\<rparr>) of
       (Inr _, w1) \<Rightarrow> (Inr p, w1)
     | (Inl e, w1) \<Rightarrow> if errors_Is e ErrExist then createTemp tries dir pre w1 else (Inl e, w1))"

definition os_CreateTemp :: "path \<Rightarrow> string \<Rightarrow> ('d, path) io" where
  "os_CreateTemp = createTemp 10000"

text \<open>\<^verbatim>\<open>os.OpenFile\<close> for appending without creating, and \<^verbatim>\<open>os.Open\<close> of a file or a directory.\<close>

definition os_OpenAppend :: "path \<Rightarrow> ('d, unit) io" where
  "os_OpenAppend p = syscall (\<lambda>_ w. w) (\<lambda>w. case w_fs w p of None \<Rightarrow> (Inl (Sentinel ErrNotExist), w)
     | Some (Regular _) \<Rightarrow> (Inr (), w) | Some Dir \<Rightarrow> (Inl (ErrText ''is a directory''), w))"

definition os_Open :: "path \<Rightarrow> ('d, unit) io" where
  "os_Open p = syscall (\<lambda>_ w. w) (\<lambda>w. if w_fs w p = None then (Inl (Sentinel ErrNotExist), w) else (Inr (), w))"

text \<open>Calls on an open file that leave its content alone: Chmod, Sync, Close.\<close>

definition fd_call :: "('d, unit) io" where
  "fd_call = syscall (\<lambda>_ w. w) (ret ())"

definition glue :: "'d chunk list \<Rightarrow> 'd chunk list \<Rightarrow> 'd chunk list" where
  "glue a b = (if a = [] then b else case last a of
       Line _ \<Rightarrow> a @ b | LineBad \<Rightarrow> a @ b
     | _ \<Rightarrow> (case b of [] \<Rightarrow> a
          | c # cs \<Rightarrow> butlast a @ (case c of Line _ \<Rightarrow> LineBad | LineBad \<Rightarrow> LineBad | _ \<Rightarrow> TailBad) # cs))"

fun append_content :: "'d content \<Rightarrow> 'd content \<Rightarrow> 'd content" where
  "append_content (Docs a) (Docs b) = Docs (glue a b)"
| "append_content (Docs a) (Bytes b) = (if a = [] then Bytes b else Docs (glue a [TailBad]))"
| "append_content (Bytes a) (Bytes b) = Bytes (a @ b)"
| "append_content (Bytes a) (Docs b) = (if a = [] then Docs b else Docs [TailBad])"

definition torn_content :: "tear \<Rightarrow> 'd content \<Rightarrow> 'd content" where
  "torn_content t c = (case t of NoBytes \<Rightarrow> Docs [] | SomeBytes \<Rightarrow> Docs [TailBad]
     | AllButNewline \<Rightarrow> (case c of Docs [Line d] \<Rightarrow> Docs [Tail d] | _ \<Rightarrow> Docs [TailBad]))"

definition append_node :: "path \<Rightarrow> 'd content \<Rightarrow> 'd world \<Rightarrow> 'd world" where
  "append_node p c w = (case w_fs w p of
     Some (Regular old) \<Rightarrow> set_node p (Some (Regular (append_content old c))) w | _ \<Rightarrow> w)"

definition fd_Write :: "path \<Rightarrow> 'd content \<Rightarrow> ('d, unit) io" where
  "fd_Write p c = syscall (\<lambda>t. append_node p (torn_content t c)) (\<lambda>w. (Inr (), append_node p c w))"

definition os_Remove :: "path \<Rightarrow> ('d, unit) io" where
  "os_Remove p = syscall (\<lambda>_ w. w) (\<lambda>w. case w_fs w p of None \<Rightarrow> (Inl (Sentinel ErrNotExist), w)
     | Some _ \<Rightarrow> (Inr (), set_node p None w))"

definition os_Rename :: "path \<Rightarrow> path \<Rightarrow> ('d, unit) io" where
  "os_Rename old new = (let act = (\<lambda>w. case (w_fs w old, w_fs w new) of
       (None, _) \<Rightarrow> (Inl (Sentinel ErrNotExist), w)
     | (Some _, Some Dir) \<Rightarrow> (Inl (Sentinel ErrExist), w)
     | (Some n, _) \<Rightarrow> (Inr (), set_node old None (set_node new (Some n) w))) in
   syscall (\<lambda>t w. if t = NoBytes then w else snd (act w)) act)"

section \<open>Frames\<close>

declare split_paired_All [simp del] split_paired_Ex [simp del]

text \<open>
  \<open>touches P m\<close>: the call changes no node outside \<open>P\<close> and leaves the oracles alone. \<open>evolves\<close> is the
  relation on worlds this states, and composes along sequencing.
\<close>

definition evolves :: "path set \<Rightarrow> 'd world \<Rightarrow> 'd world \<Rightarrow> bool" where
  "evolves P w w' \<longleftrightarrow> (\<forall>q. q \<notin> P \<longrightarrow> w_fs w' q = w_fs w q) \<and>
     w_fault w' = w_fault w \<and> w_rand w' = w_rand w \<and> w_clock w' = w_clock w"

definition touches :: "path set \<Rightarrow> ('d, 'a) io \<Rightarrow> bool" where
  "touches P m \<longleftrightarrow> (\<forall>w. evolves P w (snd (m w)))"

definition noFaults :: "'d world \<Rightarrow> bool" where
  "noFaults w \<longleftrightarrow> w_fault w = (\<lambda>_. None)"

lemma evolves_refl [simp]: "evolves P w w"
  by (simp add: evolves_def)

lemma evolves_trans: "evolves P w w' \<Longrightarrow> evolves P w' w'' \<Longrightarrow> evolves P w w''"
  by (simp add: evolves_def)

lemma evolves_mono: "evolves P w w' \<Longrightarrow> P \<subseteq> Q \<Longrightarrow> evolves Q w w'"
  by (auto simp: evolves_def)

lemma evolves_fs: "evolves P w w' \<Longrightarrow> q \<notin> P \<Longrightarrow> w_fs w' q = w_fs w q"
  unfolding evolves_def by blast

lemma evolves_noFaults: "evolves P w w' \<Longrightarrow> noFaults w \<Longrightarrow> noFaults w'"
  by (simp add: evolves_def noFaults_def)

lemma touchesD: "touches P m \<Longrightarrow> m w = (r, w') \<Longrightarrow> evolves P w w'"
  unfolding touches_def by (metis snd_conv)

lemma touches_mono: "touches P m \<Longrightarrow> P \<subseteq> Q \<Longrightarrow> touches Q m"
  unfolding touches_def by (blast intro: evolves_mono)

named_theorems touch \<open>frames of the calls\<close>

lemma touches_ret [touch]: "touches P (ret x)"
  by (simp add: touches_def ret_def)

lemma touches_raise [touch]: "touches P (raise e)"
  by (simp add: touches_def raise_def)

lemma touches_now [touch]: "touches P now"
  by (simp add: touches_def now_def evolves_def)

lemma touches_bind [touch]: "touches P m \<Longrightarrow> (\<And>x. touches P (f x)) \<Longrightarrow> touches P (bind m f)"
proof -
  assume a: "touches P m" "\<And>x. touches P (f x)"
  have "evolves P w (snd (bind m f w))" for w
  proof (cases "m w")
    case (Pair r w')
    then have "evolves P w w'" using a(1) touchesD by blast
    moreover have "evolves P w' (snd (f x w'))" for x using a(2) unfolding touches_def by blast
    ultimately show ?thesis
      using Pair evolves_trans by (fastforce simp: bind_def split: sum.split)
  qed
  then show ?thesis by (simp add: touches_def)
qed

lemma touches_mapErr [touch]: "touches P m \<Longrightarrow> touches P (mapErr g m)"
  unfolding touches_def mapErr_def by (auto split: prod.splits sum.splits) (metis snd_conv)+

lemma touches_onErr [touch]: "touches P m \<Longrightarrow> touches P d \<Longrightarrow> touches P (onErr m d)"
proof -
  assume a: "touches P m" "touches P d"
  have "evolves P w (snd (onErr m d w))" for w
  proof (cases "m w")
    case (Pair r w')
    then have "evolves P w w'" using a(1) touchesD by blast
    moreover have "evolves P w' (snd (d w'))" using a(2) unfolding touches_def by blast
    ultimately show ?thesis
      using Pair evolves_trans by (fastforce simp: onErr_def split: sum.split)
  qed
  then show ?thesis by (simp add: touches_def)
qed

lemma touches_forEach [touch]: "(\<And>x. touches P (f x)) \<Longrightarrow> touches P (forEach f xs)"
  by (induction xs) (auto intro: touch)

lemma touches_syscall:
  "(\<And>w t. evolves P w (broken t w)) \<Longrightarrow> touches P act \<Longrightarrow> touches P (syscall broken act)"
proof -
  assume a: "\<And>w t. evolves P w (broken t w)" "touches P act"
  have c: "evolves P w (w\<lparr>w_calls := n\<rparr>)" for w n by (simp add: evolves_def)
  have "evolves P w (snd (syscall broken act w))" for w
    using a c[of w "w_calls w + 1"] unfolding touches_def
    by (auto simp: syscall_def Let_def split: option.split fault.split intro: evolves_trans)
  then show ?thesis by (simp add: touches_def)
qed

lemma evolves_set_node: "p \<in> P \<Longrightarrow> evolves P w (set_node p n w)"
  by (auto simp: evolves_def set_node_def)

lemma w_fs_set_node [simp]: "w_fs (set_node p n w) = (w_fs w)(p := n)"
  by (simp add: set_node_def)

lemma w_clock_set_node [simp]: "w_clock (set_node p n w) = w_clock w"
  by (simp add: set_node_def)

lemma evolves_append_node: "p \<in> P \<Longrightarrow> evolves P w (append_node p c w)"
  by (auto simp: append_node_def evolves_set_node split: option.split node.split)

lemma touches_pure:
  "touches P (os_Stat p)" "touches P (os_ReadFile p)" "touches P (os_OpenAppend p)"
  "touches P (os_Open p)" "touches P fd_call"
  unfolding os_Stat_def os_ReadFile_def os_OpenAppend_def os_Open_def fd_call_def
  by (rule touches_syscall; simp add: touches_def ret_def split: option.split node.split)+

lemma touches_node:
  assumes "p \<in> P"
  shows "touches P (os_Mkdir p)" "touches P (os_CreateExcl p)" "touches P (fd_Write p c)" "touches P (os_Remove p)"
  unfolding os_Mkdir_def os_CreateExcl_def fd_Write_def os_Remove_def
  by (rule touches_syscall;
      use assms in \<open>simp add: touches_def evolves_set_node evolves_append_node split: option.split node.split\<close>)+

lemma touches_Rename:
  assumes "p \<in> P" "q \<in> P"
  shows "touches P (os_Rename p q)"
proof -
  have "evolves P w (set_node p None (set_node q n w))" for w n
    using assms evolves_trans evolves_set_node by metis
  then show ?thesis unfolding os_Rename_def Let_def
    by (intro touches_syscall) (auto simp: touches_def split: option.split node.split)
qed

lemmas touch_calls [touch] = touches_pure touches_node touches_Rename

section \<open>Calls in a world without faults\<close>

lemma syscall_ok [io_simps]: "noFaults w \<Longrightarrow> syscall broken act w = act (w\<lparr>w_calls := w_calls w + 1\<rparr>)"
  by (simp add: syscall_def noFaults_def Let_def)

lemma noFaults_upd [simp]:
  "noFaults (w\<lparr>w_calls := n\<rparr>) = noFaults w" "noFaults (w\<lparr>w_ticks := n\<rparr>) = noFaults w"
  "noFaults (w\<lparr>w_draws := n\<rparr>) = noFaults w" "noFaults (set_node p nd w) = noFaults w"
  by (simp_all add: noFaults_def set_node_def)

end
