(* ===== verification/Runstate.thy ===== *)
theory Runstate
  imports Go_OS
begin

text \<open>
  Package internal/runstate: the versioned run manifest, the event log and the store that keeps them
  on disk. A status type has the constants of the source as constructors, and one more for the empty
  string where the code tests for it; the program writes no other value. The store's operations are
  programs over the world of theory \<open>Go_OS\<close>; file modes and the length limit of the event scanner are
  left out. \<open>'v\<close> is the type of the value passed to \<^verbatim>\<open>WriteSummary\<close>.
\<close>

section \<open>Types (types.go)\<close>

datatype RunStatus = RunRunning | RunSucceeded | RunPartial | RunFailed | RunInterrupted | RunCleaned

datatype WorkStatus =
    WorkPending | WorkRunning | WorkSucceeded | WorkSkipped | WorkFailed | WorkCleanupPending | WorkCleaned

datatype OutcomeStatus = OutcomeUnset | OutcomePending | OutcomeSucceeded | OutcomeSkipped | OutcomeFailed

datatype ResourceStatus = ResourceCreating | ResourceCreated | ResourceCleaning | ResourceCleaned | ResourceUnknown

fun runStatus_text :: "RunStatus \<Rightarrow> string" where
  "runStatus_text RunRunning = ''running''"
| "runStatus_text RunSucceeded = ''succeeded''"
| "runStatus_text RunPartial = ''partial''"
| "runStatus_text RunFailed = ''failed''"
| "runStatus_text RunInterrupted = ''interrupted''"
| "runStatus_text RunCleaned = ''cleaned''"

fun workStatus_text :: "WorkStatus \<Rightarrow> string" where
  "workStatus_text WorkPending = ''pending''"
| "workStatus_text WorkRunning = ''running''"
| "workStatus_text WorkSucceeded = ''succeeded''"
| "workStatus_text WorkSkipped = ''skipped''"
| "workStatus_text WorkFailed = ''failed''"
| "workStatus_text WorkCleanupPending = ''cleanup-pending''"
| "workStatus_text WorkCleaned = ''cleaned''"

fun outcome_text :: "OutcomeStatus \<Rightarrow> string" where
  "outcome_text OutcomeUnset = []"
| "outcome_text OutcomePending = ''pending''"
| "outcome_text OutcomeSucceeded = ''succeeded''"
| "outcome_text OutcomeSkipped = ''skipped''"
| "outcome_text OutcomeFailed = ''failed''"

fun resourceStatus_text :: "ResourceStatus \<Rightarrow> string" where
  "resourceStatus_text ResourceCreating = ''creating''"
| "resourceStatus_text ResourceCreated = ''created''"
| "resourceStatus_text ResourceCleaning = ''cleaning''"
| "resourceStatus_text ResourceCleaned = ''cleaned''"
| "resourceStatus_text ResourceUnknown = ''unknown''"

record BinaryInfo =
  bi_Name :: string
  bi_Version :: string
  bi_Commit :: string
  bi_BuildDate :: string

record CloudIdentity =
  ci_Account :: string
  ci_Project :: string
  ci_Subscription :: string

record ImageInfo =
  ii_Name :: string
  ii_Value :: string
  ii_Digest :: string

record Resource =
  r_ID :: string
  r_Kind :: string
  r_ProviderID :: string
  r_StackName :: string
  r_Hostname :: string
  r_CleanupOwner :: string
  r_Status :: ResourceStatus
  r_CreatedAt :: "gotime option"
  r_CleanedAt :: "gotime option"
  r_ExpiresAt :: "gotime option"
  r_LastError :: string
  r_OwnershipCertain :: bool

record WorkItem =
  wi_ID :: string
  wi_Family :: string
  wi_InstanceType :: string
  wi_Mode :: string
  wi_Status :: WorkStatus
  wi_ResultPath :: string
  wi_RetryCount :: int
  wi_LastError :: string
  wi_StartedAt :: "gotime option"
  wi_EndedAt :: "gotime option"

record Failure =
  f_Code :: string
  f_Stage :: string
  f_Class :: string
  f_Message :: string
  f_WorkID :: string
  f_RetryCount :: int
  f_Time :: gotime

record Manifest =
  m_SchemaVersion :: int
  m_Revision :: int
  m_RunID :: string
  m_Status :: RunStatus
  m_Recoverable :: bool
  m_ResourcesChanged :: bool
  m_StartedAt :: gotime
  m_EndedAt :: "gotime option"
  m_CommandLine :: "string list"
  m_Binary :: BinaryInfo
  m_Provider :: string
  m_Workload :: string
  m_Region :: string
  m_Zone :: string
  m_Identity :: CloudIdentity
  m_EffectiveConfigPath :: string
  m_PlanPath :: string
  m_PlanHash :: string
  m_LogPath :: string
  m_SummaryPath :: string
  m_Images :: "ImageInfo list"
  m_Resources :: "Resource list"
  m_Work :: "WorkItem list"
  m_Failures :: "Failure list"
  m_BenchmarkOutcome :: OutcomeStatus
  m_CleanupOutcome :: OutcomeStatus

datatype EventKind = EventRunCreated | EventStepStarted | EventStepFinished | EventStateChanged | EventFailure

record Event =
  e_SchemaVersion :: int
  e_RunID :: string
  e_Time :: gotime
  e_Kind :: EventKind
  e_Stage :: string
  e_WorkID :: string
  e_Message :: string
  e_From :: string
  e_To :: string

record CreateRequest =
  cr_RunID :: string
  cr_StartedAt :: gotime
  cr_CommandLine :: "string list"
  cr_Binary :: BinaryInfo
  cr_Provider :: string
  cr_Workload :: string
  cr_Region :: string
  cr_Zone :: string
  cr_Identity :: CloudIdentity
  cr_PlanHash :: string
  cr_PlanJSON :: string
  cr_EffectiveConfigYAML :: string
  cr_Images :: "ImageInfo list"
  cr_InitialWork :: "WorkItem list"
  cr_InitialBenchmarkStatus :: OutcomeStatus
  cr_InitialCleanupStatus :: OutcomeStatus

text \<open>The JSON documents the store writes.\<close>

datatype 'v document = DManifest Manifest | DEvent Event | DValue 'v

type_synonym ('v, 'a) sio = "('v document, 'a) io"
type_synonym 'v sworld = "'v document world"

definition SchemaVersion :: int where "SchemaVersion = 1"
definition EventSchemaVersion :: int where "EventSchemaVersion = 1"

section \<open>The store (store.go)\<close>

record Store =
  s_root :: string

definition isHexLower :: "char \<Rightarrow> bool" where
  "isHexLower c \<longleftrightarrow> isDigit c \<or> (97 \<le> (of_char c :: nat) \<and> (of_char c :: nat) \<le> 102)"

text \<open>The regular expression of the run identifiers: tb, a date, and 6 to 32 hexadecimal digits.\<close>

definition runIDPattern :: "string \<Rightarrow> bool" where
  "runIDPattern s \<longleftrightarrow> 20 \<le> length s \<and> length s \<le> 46 \<and> take 3 s = ''tb_'' \<and>
     list_all isDigit (take 4 (drop 3 s)) \<and> s ! 7 = CHR ''-'' \<and>
     list_all isDigit (take 2 (drop 8 s)) \<and> s ! 10 = CHR ''-'' \<and>
     list_all isDigit (take 2 (drop 11 s)) \<and> s ! 13 = CHR ''_'' \<and> list_all isHexLower (drop 14 s)"

definition validateRunID :: "string \<Rightarrow> go_error option" where
  "validateRunID runID = (if \<not> runIDPattern runID
     then Some (Wrapf [] (Sentinel ErrInvalidRunID) ('' '' @ quoted runID @ ''; expected tb_YYYY-MM-DD_hex''))
     else None)"

text \<open>
  \<^verbatim>\<open>now.Format("2006-01-02")\<close>: the proleptic Gregorian date of a time, found by subtracting the lengths
  of the years since year 1 and of the months, and written with at least four and two digits.
\<close>

definition leapYear :: "nat \<Rightarrow> bool" where
  "leapYear y \<longleftrightarrow> y mod 4 = 0 \<and> (y mod 100 \<noteq> 0 \<or> y mod 400 = 0)"

definition yearLen :: "nat \<Rightarrow> nat" where
  "yearLen y = (if leapYear y then 366 else 365)"

definition monthLen :: "nat \<Rightarrow> nat \<Rightarrow> nat" where
  "monthLen y m = (if m = 2 then (if leapYear y then 29 else 28) else if m \<in> {4, 6, 9, 11} then 30 else 31)"

function civilYear :: "nat \<Rightarrow> nat \<Rightarrow> nat \<times> nat" where
  "civilYear y d = (if d < yearLen y then (y, d) else civilYear (y + 1) (d - yearLen y))"
  by pat_completeness auto
termination
  by (relation "measure snd") (auto simp: yearLen_def)

function civilMonth :: "nat \<Rightarrow> nat \<Rightarrow> nat \<Rightarrow> nat \<times> nat" where
  "civilMonth y m d = (if 12 \<le> m \<or> d < monthLen y m then (m, d + 1) else civilMonth y (m + 1) (d - monthLen y m))"
  by pat_completeness auto
termination
  by (relation "measure (\<lambda>(y, m, d). 12 - m)") auto

declare civilYear.simps [simp del] civilMonth.simps [simp del]

definition formatDate :: "gotime \<Rightarrow> string" where
  "formatDate t = (case civilYear 1 (nat (t div (24 * hour))) of (y, d) \<Rightarrow>
     case civilMonth y 1 d of (m, dd) \<Rightarrow> padded 4 y @ ''-'' @ padded 2 m @ ''-'' @ padded 2 dd)"

definition hexDigit :: "nat \<Rightarrow> char" where
  "hexDigit n = (if n < 10 then char_of (48 + n) else char_of (87 + n))"

definition hexByte :: "char \<Rightarrow> string" where
  "hexByte c = [hexDigit (of_char c div 16), hexDigit (of_char c mod 16)]"

text \<open>\<open>source\<close> is what \<^verbatim>\<open>io.ReadFull\<close> gives for three bytes: the bytes, or an error.\<close>

definition GenerateRunID :: "gotime \<Rightarrow> go_error + (char \<times> char \<times> char) \<Rightarrow> go_error + string" where
  "GenerateRunID t source = (case source of
     Inl e \<Rightarrow> Inl (Wrapf ''generate run ID suffix: '' e [])
   | Inr (a, b, c) \<Rightarrow> Inr (''tb_'' @ formatDate t @ ''_'' @ hexByte a @ hexByte b @ hexByte c))"

definition runDir :: "Store \<Rightarrow> string \<Rightarrow> ('v, path) sio" where
  "runDir s runID = (case validateRunID runID of Some e \<Rightarrow> raise e
     | None \<Rightarrow> if s_root s = [] then raise (ErrText ''run-state root is required'')
         else ret (filepath_Join [s_root s, runID]))"

definition os_IsNotExist :: "go_error \<Rightarrow> bool" where
  "os_IsNotExist e \<longleftrightarrow> e = Sentinel ErrNotExist"

definition os_IsExist :: "go_error \<Rightarrow> bool" where
  "os_IsExist e \<longleftrightarrow> e = Sentinel ErrExist"

definition notFoundOr :: "string \<Rightarrow> string \<Rightarrow> go_error \<Rightarrow> go_error" where
  "notFoundOr text runID e = (if os_IsNotExist e then Wrapf [] (Sentinel ErrRunNotFound) ('': '' @ runID)
     else Wrapf (text @ runID @ '': '') e [])"

definition RunDirectory :: "Store \<Rightarrow> string \<Rightarrow> ('v, path) sio" where
  "RunDirectory s runID = bind (runDir s runID) (\<lambda>dir.
     bind (mapErr (notFoundOr ''inspect run directory for '' runID) (os_Stat (path_join dir ''manifest.json'')))
       (\<lambda>_. ret dir))"

text \<open>\<open>deferred\<close> runs an action when the call returns, with or without error.\<close>

definition deferred :: "('d, 'a) io \<Rightarrow> ('d, unit) io \<Rightarrow> ('d, 'a) io" where
  "deferred m d w = (case m w of (r, w') \<Rightarrow> (r, snd (d w')))"

definition createEmptyFile :: "path \<Rightarrow> ('d, unit) io" where
  "createEmptyFile p =
     bind (mapErr (\<lambda>e. Wrapf (''create '' @ path_string p @ '': '') e []) (os_CreateExcl p)) (\<lambda>_.
     bind (mapErr (\<lambda>e. Wrapf (''sync '' @ path_string p @ '': '') e []) (onErr fd_call fd_call)) (\<lambda>_.
     mapErr (\<lambda>e. Wrapf (''close '' @ path_string p @ '': '') e []) fd_call))"

definition tempPrefix :: "path \<Rightarrow> string" where
  "tempPrefix p = ''.'' @ path_base p @ ''-''"

text \<open>From the Chmod of the new temporary file to the Sync of the directory.\<close>

definition atomicFill :: "path \<Rightarrow> path \<Rightarrow> 'd content \<Rightarrow> ('d, unit) io" where
  "atomicFill p tempPath data =
     bind (onErr fd_call fd_call) (\<lambda>_.
     bind (onErr (fd_Write tempPath data) fd_call) (\<lambda>_.
     bind (onErr fd_call fd_call) (\<lambda>_.
     bind fd_call (\<lambda>_.
     bind (os_Rename tempPath p) (\<lambda>_.
     bind (os_Open (path_parent p)) (\<lambda>_.
     deferred fd_call fd_call))))))"

definition atomicWrite :: "path \<Rightarrow> 'd content \<Rightarrow> ('d, unit) io" where
  "atomicWrite p data = bind (os_CreateTemp (path_parent p) (tempPrefix p)) (\<lambda>tempPath.
     onErr (atomicFill p tempPath data) (os_Remove tempPath))"

definition save :: "Store \<Rightarrow> Manifest \<Rightarrow> ('v, unit) sio" where
  "save s m = bind (runDir s (m_RunID m)) (\<lambda>dir.
     if m_SchemaVersion m \<noteq> SchemaVersion
     then raise (ErrText (''manifest schema is '' @ string_of_int (m_SchemaVersion m) @ '', want '' @ string_of_int SchemaVersion))
     else mapErr (\<lambda>e. Wrapf (''write manifest for '' @ m_RunID m @ '': '') e [])
       (atomicWrite (path_join dir ''manifest.json'') (Docs [Line (DManifest m)])))"

definition decodeManifest :: "'v document content \<Rightarrow> Manifest option" where
  "decodeManifest c = (case c of Docs [Line (DManifest m)] \<Rightarrow> Some m | Docs [Tail (DManifest m)] \<Rightarrow> Some m
     | _ \<Rightarrow> None)"

definition jsonError :: go_error where
  "jsonError = ErrText ''invalid JSON''"

definition checkManifest :: "string \<Rightarrow> 'v document content \<Rightarrow> go_error + Manifest" where
  "checkManifest runID c = (case decodeManifest c of
     None \<Rightarrow> Inl (Wrapf (''decode manifest for '' @ runID @ '': '') jsonError [])
   | Some m \<Rightarrow>
      if m_SchemaVersion m \<noteq> SchemaVersion then
        Inl (ErrText (''unsupported manifest schema '' @ string_of_int (m_SchemaVersion m) @ '' for '' @ runID
          @ ''; expected '' @ string_of_int SchemaVersion))
      else if m_RunID m \<noteq> runID then
        Inl (ErrText (''manifest run ID '' @ quoted (m_RunID m) @ '' does not match directory '' @ quoted runID))
      else Inr m)"

definition Load :: "Store \<Rightarrow> string \<Rightarrow> ('v, Manifest) sio" where
  "Load s runID = bind (runDir s runID) (\<lambda>dir.
     bind (mapErr (notFoundOr ''read manifest for '' runID) (os_ReadFile (path_join dir ''manifest.json'')))
       (\<lambda>data. case checkManifest runID data of Inl e \<Rightarrow> raise e | Inr m \<Rightarrow> ret m))"

definition bumpRevision :: "Manifest \<Rightarrow> Manifest" where
  "bumpRevision m = m\<lparr>m_Revision := wrap64 (m_Revision m + 1)\<rparr>"

definition Update :: "Store \<Rightarrow> string \<Rightarrow> (Manifest \<Rightarrow> ('v, Manifest) sio) option \<Rightarrow> ('v, Manifest) sio" where
  "Update s runID mutate = (case mutate of
     None \<Rightarrow> raise (ErrText ''manifest update function is required'')
   | Some f \<Rightarrow>
      bind (Load s runID) (\<lambda>m0.
      bind (f m0) (\<lambda>m1.
      let m = bumpRevision m1 in
      bind (save s m) (\<lambda>_. ret m))))"

text \<open>From the OpenFile of the log to its Close.\<close>

definition appendLine :: "string \<Rightarrow> path \<Rightarrow> Event \<Rightarrow> ('v, unit) sio" where
  "appendLine runID p event =
     bind (mapErr (notFoundOr ''open event log for '' runID) (os_OpenAppend p)) (\<lambda>_.
     bind (mapErr (\<lambda>e. Wrapf (''append event for '' @ runID @ '': '') e [])
             (onErr (fd_Write p (Docs [Line (DEvent event)])) fd_call)) (\<lambda>_.
     bind (mapErr (\<lambda>e. Wrapf (''sync event log for '' @ runID @ '': '') e []) (onErr fd_call fd_call)) (\<lambda>_.
     mapErr (\<lambda>e. Wrapf (''close event log for '' @ runID @ '': '') e []) fd_call)))"

definition AppendEvent :: "Store \<Rightarrow> string \<Rightarrow> Event \<Rightarrow> ('v, unit) sio" where
  "AppendEvent s runID event0 = bind (runDir s runID) (\<lambda>dir.
     let event1 = (if e_SchemaVersion event0 = 0 then event0\<lparr>e_SchemaVersion := EventSchemaVersion\<rparr> else event0);
         event2 = (if e_RunID event1 = [] then event1\<lparr>e_RunID := runID\<rparr> else event1) in
     if e_RunID event2 \<noteq> runID
     then raise (ErrText (''event run ID '' @ quoted (e_RunID event2) @ '' does not match '' @ quoted runID))
     else bind (if IsZero (e_Time event2) then bind now (\<lambda>t. ret (event2\<lparr>e_Time := t\<rparr>)) else ret event2)
       (appendLine runID (path_join dir ''events.jsonl'')))"

text \<open>The scan of the event log stops at the first line that does not decode.\<close>

fun decodeEvents :: "string \<Rightarrow> 'v document chunk list \<Rightarrow> Event list \<Rightarrow> go_error + Event list" where
  "decodeEvents runID [] acc = Inr acc"
| "decodeEvents runID (c # cs) acc = (case c of
     Line (DEvent e) \<Rightarrow> decodeEvents runID cs (acc @ [e])
   | Tail (DEvent e) \<Rightarrow> decodeEvents runID cs (acc @ [e])
   | _ \<Rightarrow> Inl (Wrapf (''decode event '' @ string_of_int (int (length acc) + 1) @ '' for '' @ runID @ '': '') jsonError []))"

definition Events :: "Store \<Rightarrow> string \<Rightarrow> ('v, Event list) sio" where
  "Events s runID = bind (runDir s runID) (\<lambda>dir.
     bind (mapErr (notFoundOr ''open event log for '' runID) (os_Open (path_join dir ''events.jsonl''))) (\<lambda>_.
     deferred
       (bind (mapErr (\<lambda>e. Wrapf (''read event log for '' @ runID @ '': '') e []) (os_ReadFile (path_join dir ''events.jsonl'')))
         (\<lambda>data. case data of
             Docs cs \<Rightarrow> (case decodeEvents runID cs [] of Inl e \<Rightarrow> raise e | Inr es \<Rightarrow> ret es)
           | Bytes b \<Rightarrow> if b = [] then ret []
               else raise (Wrapf (''decode event 1 for '' @ runID @ '': '') jsonError [])))
       fd_call))"

definition WriteSummary :: "Store \<Rightarrow> string \<Rightarrow> 'v \<Rightarrow> ('v, unit) sio" where
  "WriteSummary s runID v = bind (RunDirectory s runID) (\<lambda>dir.
     mapErr (\<lambda>e. Wrapf (''write summary for '' @ runID @ '': '') e [])
       (atomicWrite (path_join dir ''summary.json'') (Docs [Line (DValue v)])))"

definition OpenLog :: "Store \<Rightarrow> string \<Rightarrow> ('v, path) sio" where
  "OpenLog s runID = bind (RunDirectory s runID) (\<lambda>dir.
     let p = path_join (path_join dir ''logs'') ''tailbench.log'' in
     bind (mapErr (\<lambda>e. Wrapf (''open run log for '' @ runID @ '': '') e []) (os_OpenAppend p)) (\<lambda>_. ret p))"

definition readRunFile :: "Store \<Rightarrow> string \<Rightarrow> string \<Rightarrow> ('v, 'v document content) sio" where
  "readRunFile s runID filename = bind (RunDirectory s runID) (\<lambda>dir.
     mapErr (\<lambda>e. Wrapf (''read '' @ filename @ '' for '' @ runID @ '': '') e []) (os_ReadFile (path_join dir filename)))"

definition ReadEffectiveConfig :: "Store \<Rightarrow> string \<Rightarrow> ('v, 'v document content) sio" where
  "ReadEffectiveConfig s runID = readRunFile s runID ''effective-config.redacted.yaml''"

definition ReadPlan :: "Store \<Rightarrow> string \<Rightarrow> ('v, 'v document content) sio" where
  "ReadPlan s runID = readRunFile s runID ''plan.json''"

definition orPending :: "OutcomeStatus \<Rightarrow> OutcomeStatus" where
  "orPending o0 = (if o0 = OutcomeUnset then OutcomePending else o0)"

definition initialManifest :: "CreateRequest \<Rightarrow> gotime \<Rightarrow> Manifest" where
  "initialManifest request startedAt = \<lparr>
     m_SchemaVersion = SchemaVersion, m_Revision = 1, m_RunID = cr_RunID request, m_Status = RunRunning,
     m_Recoverable = False, m_ResourcesChanged = False, m_StartedAt = startedAt, m_EndedAt = None,
     m_CommandLine = cr_CommandLine request, m_Binary = cr_Binary request, m_Provider = cr_Provider request,
     m_Workload = cr_Workload request, m_Region = cr_Region request, m_Zone = cr_Zone request,
     m_Identity = cr_Identity request, m_EffectiveConfigPath = ''effective-config.redacted.yaml'',
     m_PlanPath = ''plan.json'', m_PlanHash = cr_PlanHash request, m_LogPath = ''logs/tailbench.log'',
     m_SummaryPath = ''summary.json'', m_Images = cr_Images request, m_Resources = [],
     m_Work = cr_InitialWork request, m_Failures = [],
     m_BenchmarkOutcome = orPending (cr_InitialBenchmarkStatus request),
     m_CleanupOutcome = orPending (cr_InitialCleanupStatus request)\<rparr>"

definition createdEvent :: "string \<Rightarrow> gotime \<Rightarrow> Event" where
  "createdEvent runID startedAt = \<lparr>e_SchemaVersion = EventSchemaVersion, e_RunID = runID, e_Time = startedAt,
     e_Kind = EventRunCreated, e_Stage = [], e_WorkID = [], e_Message = ''run manifest created'',
     e_From = [], e_To = []\<rparr>"

text \<open>The directory and the files that exist before the manifest is written.\<close>

definition createLayout :: "Store \<Rightarrow> CreateRequest \<Rightarrow> path \<Rightarrow> ('v, unit) sio" where
  "createLayout s request dir =
     bind (mapErr (\<lambda>e. Wrapf (''create run-state root '' @ s_root s @ '': '') e []) (os_MkdirAll (Clean (s_root s)))) (\<lambda>_.
     bind (mapErr (\<lambda>e. if os_IsExist e then Wrapf [] (Sentinel ErrRunExists) ('': '' @ cr_RunID request)
               else Wrapf (''create run directory '' @ path_string dir @ '': '') e []) (os_Mkdir dir)) (\<lambda>_.
     bind (mapErr (\<lambda>e. Wrapf (''create run log directory '' @ path_string dir @ '': '') e [])
             (os_Mkdir (path_join dir ''logs''))) (\<lambda>_.
     bind (createEmptyFile (path_join dir ''events.jsonl'')) (\<lambda>_.
     bind (createEmptyFile (path_join (path_join dir ''logs'') ''tailbench.log'')) (\<lambda>_.
     bind (mapErr (\<lambda>e. Wrapf ''write plan: '' e [])
             (atomicWrite (path_join dir ''plan.json'') (Bytes (cr_PlanJSON request)))) (\<lambda>_.
     mapErr (\<lambda>e. Wrapf ''write effective configuration: '' e [])
       (atomicWrite (path_join dir ''effective-config.redacted.yaml'') (Bytes (cr_EffectiveConfigYAML request)))))))))"

definition Create :: "Store \<Rightarrow> CreateRequest \<Rightarrow> ('v, Manifest) sio" where
  "Create s request = bind (runDir s (cr_RunID request)) (\<lambda>dir.
     bind (if IsZero (cr_StartedAt request) then now else ret (cr_StartedAt request)) (\<lambda>startedAt.
     bind (createLayout s request dir) (\<lambda>_.
     let manifest = initialManifest request startedAt in
     bind (save s manifest) (\<lambda>_.
     bind (AppendEvent s (cr_RunID request) (createdEvent (cr_RunID request) startedAt)) (\<lambda>_.
     ret manifest)))))"

end
