(* ===== verification/Runstate_Props.thy ===== *)
theory Runstate_Props
  imports Runstate
begin

text \<open>
  Theorems on the run store: the atomic write is atomic under every failure of every system call, a
  manifest on disk is always the old or the new one, and what is written is what is read back.
\<close>

section \<open>Taking programs apart\<close>

lemma bindE:
  assumes "bind m f w = (r, w')"
  obtains (fail) e where "m w = (Inl e, w')" "r = Inl e"
  | (step) x w1 where "m w = (Inr x, w1)" "f x w1 = (r, w')"
  using assms by (cases "m w"; cases "fst (m w)") (auto simp: bind_def)

lemma mapErr_cases:
  assumes "mapErr g m w = (r, w')"
  obtains (fail) e where "m w = (Inl e, w')" "r = Inl (g e)" | (ok) x where "m w = (Inr x, w')" "r = Inr x"
  using assms by (cases "m w"; cases "fst (m w)") (auto simp: mapErr_def)

lemma onErrE:
  assumes "onErr m d w = (r, w')"
  obtains (fail) e w1 where "m w = (Inl e, w1)" "w' = snd (d w1)" "r = Inl e" | (ok) x where "m w = (Inr x, w')" "r = Inr x"
  using assms by (cases "m w"; cases "fst (m w)") (auto simp: onErr_def)

lemma touches_deferred [touch]: "touches P m \<Longrightarrow> touches P d \<Longrightarrow> touches P (deferred m d)"
  unfolding touches_def deferred_def by (auto split: prod.split) (metis evolves_trans snd_conv)

section \<open>The temporary file\<close>

lemma createExcl_spec:
  assumes "os_CreateExcl p w = (r, w')"
  shows "case r of Inl _ \<Rightarrow> evolves {} w w'
    | Inr _ \<Rightarrow> w_fs w p = None \<and> w_fs w (path_parent p) = Some Dir \<and> evolves {p} w w' \<and>
        w_fs w' p = Some (Regular (Docs []))"
  using assms
  by (auto simp: os_CreateExcl_def syscall_def Let_def evolves_def set_node_def
      split: option.splits fault.splits if_splits)

definition tempSpec :: "path \<Rightarrow> string \<Rightarrow> 'd world \<Rightarrow> go_error + path \<Rightarrow> 'd world \<Rightarrow> bool" where
  "tempSpec dir pre w r w' \<longleftrightarrow> (case r of Inl _ \<Rightarrow> evolves {} w w'
    | Inr p \<Rightarrow> (\<exists>n. p = path_join dir (pre @ string_of_nat n)) \<and> w_fs w p = None \<and>
        w_fs w dir = Some Dir \<and> evolves {p} w w' \<and> w_fs w' p = Some (Regular (Docs [])))"

lemma createTemp_spec: "createTemp n dir pre w = (r, w') \<Longrightarrow> tempSpec dir pre w r w'"
proof (induction n dir pre w rule: createTemp.induct)
  case (2 n dir pre w)
  let ?p = "path_join dir (pre @ string_of_nat (w_rand w (w_draws w)))"
  let ?w = "w\<lparr>w_draws := Suc (w_draws w)\<rparr>"
  obtain r1 w1 where c: "os_CreateExcl ?p ?w = (r1, w1)" by fastforce
  note sp = createExcl_spec[OF c]
  have ev: "evolves P w x" if "evolves P ?w x" for P x using that by (simp add: evolves_def)
  show ?case
  proof (cases r1)
    case (Inr u)
    with "2.prems" c sp show ?thesis by (auto simp: tempSpec_def Let_def dest: ev)
  next
    case (Inl e)
    with sp have e1: "evolves {} w w1" by (auto dest: ev)
    show ?thesis
    proof (cases "errors_Is e ErrExist")
      case True
      with 2 c Inl have "tempSpec dir pre w1 r w'" by (simp add: Let_def)
      then show ?thesis using e1 evolves_trans[OF e1] evolves_trans[OF evolves_mono[OF e1]]
        by (auto simp: tempSpec_def evolves_fs[OF e1] split: sum.splits)
    next
      case False
      with "2.prems" c Inl e1 show ?thesis by (auto simp: tempSpec_def Let_def)
    qed
  qed
qed (auto simp: tempSpec_def)

section \<open>Atomic replacement\<close>

lemma tempPrefix_fresh: "path_join dir (tempPrefix p @ x) \<noteq> p"
proof
  assume "path_join dir (tempPrefix p @ x) = p"
  then have "path_base (path_join dir (tempPrefix p @ x)) = path_base p" by simp
  then have "length (tempPrefix p @ x) = length (path_base p)" by simp
  then show False by (simp add: tempPrefix_def)
qed

lemma fd_call_pure: "fd_call w = (r, w') \<Longrightarrow> evolves {} w w'"
  using touchesD[OF touches_pure(5)] by blast

lemma fd_guard_pure: "onErr fd_call fd_call w = (r, w') \<Longrightarrow> evolves {} w w'"
  using touchesD[OF touches_onErr[OF touches_pure(5) touches_pure(5)]] by blast

lemma fd_Write_ok:
  assumes "fd_Write p c w = (Inr u, w')" "w_fs w p = Some (Regular (Docs []))"
  shows "w_fs w' p = Some (Regular c)"
  using assms
  by (cases c) (auto simp: fd_Write_def syscall_def append_node_def glue_def Let_def
      split: option.splits fault.splits)

lemma os_Rename_spec:
  assumes "os_Rename t p w = (r, w')" "w_fs w t = Some (Regular c)" "t \<noteq> p"
  shows "(r = Inr () \<longrightarrow> w_fs w' p = Some (Regular c) \<and> w_fs w' t = None) \<and>
    (w_fs w' p = w_fs w p \<or> w_fs w' p = Some (Regular c))"
  using assms
  by (auto simp: os_Rename_def syscall_def Let_def split: option.splits fault.splits node.splits if_splits)

lemma atomicFill_spec:
  assumes run: "atomicFill p t c w = (r, w')" and t: "w_fs w t = Some (Regular (Docs []))" "t \<noteq> p"
  shows "evolves {p, t} w w' \<and> (w_fs w' p = w_fs w p \<or> w_fs w' p = Some (Regular c)) \<and>
    (r = Inr () \<longrightarrow> w_fs w' p = Some (Regular c) \<and> w_fs w' t = None)"
proof -
  have ev: "evolves {p, t} w w'"
    using run by (rule touchesD[rotated]) (auto simp: atomicFill_def intro!: touch)
  have fd: "touches {t} (onErr (fd_Write t c) fd_call)" by (intro touch) simp
  have quiet: "w_fs w'' = w_fs w1" if "evolves {} w1 w''" for w1 w'' :: "'a world"
    using that by (auto simp: evolves_def)
  from run[unfolded atomicFill_def] show ?thesis
  proof (cases rule: bindE)
    case fail
    then show ?thesis using ev quiet[OF fd_guard_pure] by auto
  next
    case (step _ w1)
    note f1 = quiet[OF fd_guard_pure[OF step(1)]]
    from step(2) show ?thesis
    proof (cases rule: bindE)
      case fail
      then show ?thesis using ev f1 t(2) touchesD[OF fd] evolves_fs by (metis Inl_Inr_False singletonD)
    next
      case (step _ w2)
      have w2: "w_fs w2 t = Some (Regular c)" "w_fs w2 p = w_fs w p"
        using step(1) f1 t fd_Write_ok[of t c w1] evolves_fs[OF touchesD[OF fd step(1)], of p]
        by (auto elim!: onErrE)
      from step(2) show ?thesis
      proof (cases rule: bindE)
        case fail
        then show ?thesis using ev w2 quiet[OF fd_guard_pure] by auto
      next
        case (step _ w3)
        note f3 = quiet[OF fd_guard_pure[OF step(1)]]
        from step(2) show ?thesis
        proof (cases rule: bindE)
          case fail
          then show ?thesis using ev w2 f3 quiet[OF fd_call_pure] by auto
        next
          case (step _ w4)
          note f4 = quiet[OF fd_call_pure[OF step(1)]]
          from step(2) show ?thesis
          proof (cases rule: bindE)
            case fail
            then show ?thesis using ev w2 f3 f4 os_Rename_spec[OF fail(1) _ t(2)] by auto
          next
            case (step _ w5)
            have last: "touches {} (bind (os_Open (path_parent p)) (\<lambda>_. deferred fd_call fd_call))"
              by (intro touch)
            have "w_fs w5 p = Some (Regular c) \<and> w_fs w5 t = None"
              using os_Rename_spec[OF step(1) _ t(2)] w2 f3 f4 by auto
            then show ?thesis using ev quiet[OF touchesD[OF last step(2)]] by auto
          qed
        qed
      qed
    qed
  qed
qed

definition isTempOf :: "path \<Rightarrow> path \<Rightarrow> bool" where
  "isTempOf p q \<longleftrightarrow> (\<exists>n. q = path_join (path_parent p) (tempPrefix p @ string_of_nat n))"

lemma atomicWrite_spec:
  assumes run: "atomicWrite p c w = (r, w')"
  shows "(w_fs w' p = w_fs w p \<or> w_fs w' p = Some (Regular c)) \<and>
    (r = Inr () \<longrightarrow> w_fs w' p = Some (Regular c) \<and> evolves {p} w w') \<and>
    (evolves {} w w' \<or> (\<exists>t. isTempOf p t \<and> w_fs w t = None \<and> evolves {p, t} w w'))"
  using run[unfolded atomicWrite_def]
proof (cases rule: bindE)
  case (fail e)
  then have "evolves {} w w'" using createTemp_spec unfolding os_CreateTemp_def tempSpec_def by fastforce
  then show ?thesis using fail(2) by (auto simp: evolves_def)
next
  case (step t w1)
  then have ts: "isTempOf p t" "w_fs w t = None" "evolves {t} w w1" "w_fs w1 t = Some (Regular (Docs []))"
    using createTemp_spec unfolding os_CreateTemp_def tempSpec_def isTempOf_def by fastforce+
  have ne: "t \<noteq> p" using ts(1) tempPrefix_fresh unfolding isTempOf_def by metis
  have p1: "w_fs w1 p = w_fs w p" using evolves_fs[OF ts(3), of p] ne by simp
  have e1: "evolves {p, t} w w1" by (rule evolves_mono[OF ts(3)]) simp
  from step(2) show ?thesis
  proof (cases rule: onErrE)
    case (fail e w2)
    note sp = atomicFill_spec[OF fail(1) ts(4) ne]
    have rm: "evolves {t} w2 w'"
      using touches_node(4)[of t "{t}"] unfolding fail(2) touches_def by blast
    have "evolves {p, t} w w'"
      using evolves_trans[OF evolves_trans[OF e1 conjunct1[OF sp]] evolves_mono[OF rm]] by simp
    moreover have "w_fs w' p = w_fs w2 p" using evolves_fs[OF rm, of p] ne by simp
    ultimately show ?thesis using fail(3) sp p1 ts(1,2) by auto
  next
    case (ok u)
    note sp = atomicFill_spec[OF ok(1) ts(4) ne]
    have e2: "evolves {p, t} w w'"
      by (rule evolves_trans[OF e1 conjunct1[OF sp]])
    have "w_fs w' t = w_fs w t" using sp ok(2) ts(2) by simp
    with e2 have "evolves {p} w w'" by (auto simp: evolves_def)
    with sp ok(2) e2 ts(1,2) p1 show ?thesis by auto
  qed
qed


lemma touches_atomicWrite [touch]: "p \<in> P \<Longrightarrow> {q. isTempOf p q} \<subseteq> P \<Longrightarrow> touches P (atomicWrite p c)"
proof -
  assume a: "p \<in> P" "{q. isTempOf p q} \<subseteq> P"
  have "evolves P w (snd (atomicWrite p c w))" for w :: "'a world"
  proof (cases "atomicWrite p c w")
    case (Pair r w')
    from atomicWrite_spec[OF Pair] obtain t where "evolves {} w w' \<or> isTempOf p t \<and> evolves {p, t} w w'"
      by blast
    with a show ?thesis using Pair by (auto intro: evolves_mono)
  qed
  then show ?thesis by (simp add: touches_def)
qed

section \<open>The store's files\<close>

definition runFile :: "Store \<Rightarrow> string \<Rightarrow> string \<Rightarrow> path" where
  "runFile s runID name = path_join (filepath_Join [s_root s, runID]) name"

text \<open>A file of the run and its temporary files; files with different plain names never overlap.\<close>

definition zone :: "Store \<Rightarrow> string \<Rightarrow> string \<Rightarrow> path set" where
  "zone s runID name = insert (runFile s runID name) {q. isTempOf (runFile s runID name) q}"

lemma zone_iff: "runFile s runID a \<in> zone s runID b \<longleftrightarrow> a = b \<or> (\<exists>n. a = ''.'' @ b @ ''-'' @ string_of_nat n)"
  by (auto simp: zone_def runFile_def isTempOf_def tempPrefix_def)

lemma runDir_cases:
  assumes "runDir s runID w = (r, w')"
  obtains (fail) e where "r = Inl e" "w' = w" "validateRunID runID \<noteq> None \<or> s_root s = []"
  | (ok) "r = Inr (filepath_Join [s_root s, runID])" "w' = w" "validateRunID runID = None" "s_root s \<noteq> []"
  using assms by (auto simp: runDir_def raise_def ret_def split: option.splits if_splits)

lemma touches_runDir [touch]: "touches P (runDir s runID)"
  by (auto simp: runDir_def intro: touch split: option.split)

definition persisted :: "Store \<Rightarrow> string \<Rightarrow> 'v sworld \<Rightarrow> Manifest option" where
  "persisted s runID w = (if validateRunID runID \<noteq> None \<or> s_root s = [] then None else
     case w_fs w (runFile s runID ''manifest.json'') of
       Some (Regular c) \<Rightarrow> (case checkManifest runID c of Inr m \<Rightarrow> Some m | Inl _ \<Rightarrow> None)
     | _ \<Rightarrow> None)"

lemma persisted_cong: "evolves P w w' \<Longrightarrow> runFile s runID ''manifest.json'' \<notin> P \<Longrightarrow>
    persisted s runID w' = persisted s runID w"
  by (simp add: persisted_def evolves_fs)

lemma persisted_identity: "persisted s runID w = Some m \<Longrightarrow> m_RunID m = runID \<and> m_SchemaVersion m = SchemaVersion"
  by (auto simp: persisted_def checkManifest_def split: option.splits node.splits sum.splits if_splits)

lemma persisted_written:
  assumes "w_fs w (runFile s runID ''manifest.json'') = Some (Regular (Docs [Line (DManifest m)]))"
    and "validateRunID runID = None" "s_root s \<noteq> []" "m_RunID m = runID" "m_SchemaVersion m = SchemaVersion"
  shows "persisted s runID w = Some m"
  using assms by (simp add: persisted_def checkManifest_def decodeManifest_def)

lemma touches_Load [touch]: "touches P (Load s runID)"
  unfolding Load_def by (intro touch) (auto intro: touch split: sum.split)

lemma os_ReadFile_cases:
  assumes "os_ReadFile p w = (r, w')"
  obtains (fail) e where "r = Inl e" | (ok) c where "r = Inr c" "w_fs w p = Some (Regular c)"
  using assms by (auto simp: os_ReadFile_def syscall_def Let_def split: option.splits fault.splits node.splits)

lemma Load_Inr: "Load s runID w = (Inr m, w') \<Longrightarrow> persisted s runID w = Some m"
  unfolding Load_def
  by (auto elim!: bindE mapErr_cases runDir_cases os_ReadFile_cases
      simp: persisted_def runFile_def raise_def ret_def split: sum.splits)

lemma Load_ok:
  assumes "noFaults w" "persisted s runID w = Some m"
  shows "\<exists>w'. Load s runID w = (Inr m, w')"
  using assms
  by (auto simp: Load_def bind_def runDir_def persisted_def mapErr_def os_ReadFile_def runFile_def ret_def
      syscall_ok raise_def split: option.splits node.splits sum.splits if_splits)


section \<open>Updates of the manifest\<close>

lemma save_spec:
  assumes run: "save s m w = (r, w')" and id: "m_RunID m = runID"
  shows "evolves (zone s runID ''manifest.json'') w w' \<and>
    (persisted s runID w' = persisted s runID w \<or> persisted s runID w' = Some m) \<and>
    (r = Inr () \<longrightarrow> persisted s runID w' = Some m)"
  using run[unfolded save_def]
proof (cases rule: bindE)
  case fail
  then show ?thesis using id by (auto elim: runDir_cases)
next
  case (step dir w1)
  from step(1) id have d: "dir = filepath_Join [s_root s, runID]" "w1 = w" "validateRunID runID = None" "s_root s \<noteq> []"
    by (auto elim: runDir_cases)
  let ?p = "runFile s runID ''manifest.json''"
  let ?c = "Docs [Line (DManifest m)]"
  show ?thesis
  proof (cases "m_SchemaVersion m = SchemaVersion")
    case False
    with step(2) d show ?thesis by (auto simp: raise_def)
  next
    case True
    with step(2) d have "mapErr (\<lambda>e. Wrapf (''write manifest for '' @ m_RunID m @ '': '') e []) (atomicWrite ?p ?c) w = (r, w')"
      by (simp add: runFile_def)
    then obtain r1 where aw: "atomicWrite ?p ?c w = (r1, w')" "r = Inr () \<longrightarrow> r1 = Inr ()"
      by (auto elim!: mapErr_cases)
    have new: "persisted s runID w' = Some m" if "w_fs w' ?p = Some (Regular ?c)"
      using that d id True by (intro persisted_written) auto
    have old: "persisted s runID w' = persisted s runID w" if "w_fs w' ?p = w_fs w ?p"
      using that by (simp add: persisted_def)
    have "evolves (zone s runID ''manifest.json'') w w'"
      by (rule touchesD[where m = "atomicWrite ?p ?c", OF _ aw(1)]) (rule touches_atomicWrite, auto simp: zone_def)
    with atomicWrite_spec[OF aw(1)] aw(2) new old show ?thesis by auto
  qed
qed

text \<open>What an update function of the callers is: it changes no file and keeps the identity of the run.\<close>

definition quietMutator :: "(Manifest \<Rightarrow> ('v, Manifest) sio) \<Rightarrow> bool" where
  "quietMutator f \<longleftrightarrow> (\<forall>m. touches {} (f m)) \<and> (\<forall>m w m' w'. f m w = (Inr m', w') \<longrightarrow> m_RunID m' = m_RunID m)"

lemma bumpRevision_fields [simp]:
  "m_RunID (bumpRevision m) = m_RunID m" "m_SchemaVersion (bumpRevision m) = m_SchemaVersion m"
  "m_Resources (bumpRevision m) = m_Resources m" "m_Work (bumpRevision m) = m_Work m"
  "m_Status (bumpRevision m) = m_Status m" "m_Recoverable (bumpRevision m) = m_Recoverable m"
  "m_Failures (bumpRevision m) = m_Failures m" "m_BenchmarkOutcome (bumpRevision m) = m_BenchmarkOutcome m"
  "m_CleanupOutcome (bumpRevision m) = m_CleanupOutcome m" "m_EndedAt (bumpRevision m) = m_EndedAt m"
  "m_ResourcesChanged (bumpRevision m) = m_ResourcesChanged m"
  by (simp_all add: bumpRevision_def)

lemma Update_cases:
  assumes run: "Update s runID (Some f) w = (r, w')" and f: "quietMutator f"
  obtains (fail) e where "r = Inl e" "evolves {} w w'"
  | (saved) m w1 m1 w2 where "persisted s runID w = Some m" "f m w1 = (Inr m1, w2)"
      "evolves (zone s runID ''manifest.json'') w w'"
      "persisted s runID w' = Some m \<or> persisted s runID w' = Some (bumpRevision m1)"
      "\<And>m'. r = Inr m' \<Longrightarrow> m' = bumpRevision m1 \<and> persisted s runID w' = Some m'"
  using run[unfolded Update_def option.case]
proof (cases rule: bindE)
  case f1: fail
  have "evolves {} w w'" by (rule touchesD[OF touches_Load f1(1)])
  with f1 show ?thesis using fail by blast
next
  case (step m w1)
  note m = Load_Inr[OF step(1)]
  have e1: "evolves {} w w1" by (rule touchesD[OF touches_Load step(1)])
  from step(2) show ?thesis
  proof (cases rule: bindE)
    case f2: (fail e)
    then have "evolves {} w1 w'" using f touchesD[where m = "f m"] unfolding quietMutator_def by blast
    with e1 f2 show ?thesis using fail evolves_trans by blast
  next
    case (step m1 w2)
    have e2: "evolves {} w w2"
      using evolves_trans[OF e1 touchesD[where m = "f m", OF _ step(1)]] f unfolding quietMutator_def by blast
    have id: "m_RunID (bumpRevision m1) = runID"
      using f step(1) persisted_identity[OF m] unfolding quietMutator_def by (metis bumpRevision_fields(1))
    have p2: "persisted s runID w2 = Some m" using persisted_cong[OF e2] m by simp
    obtain r3 w3 where sv: "save s (bumpRevision m1) w2 = (r3, w3)" by fastforce
    note sp = save_spec[OF sv id]
    have w3: "w3 = w'" "\<And>m'. r = Inr m' \<Longrightarrow> r3 = Inr () \<and> m' = bumpRevision m1"
      using step(2) sv by (auto simp: Let_def bind_def ret_def split: sum.splits)
    have "evolves (zone s runID ''manifest.json'') w w'"
      using evolves_trans[OF evolves_mono[OF e2]] sp w3(1) by blast
    with m step(1) sp p2 w3 show ?thesis by (intro saved[of m w1 m1 w2]) auto
  qed
qed

text \<open>
  The contract a client of the store relies on, whatever system calls fail: a successful update has
  stored the mutated manifest with the next revision, and a failed one has stored that or nothing.
\<close>

locale manifest_store =
  fixes view :: "'w \<Rightarrow> 'm option"
    and update :: "('m \<Rightarrow> 'w \<Rightarrow> ('e + 'm) \<times> 'w) \<Rightarrow> 'w \<Rightarrow> ('e + 'm) \<times> 'w"
    and quiet :: "('m \<Rightarrow> 'w \<Rightarrow> ('e + 'm) \<times> 'w) \<Rightarrow> bool"
    and bump :: "'m \<Rightarrow> 'm"
  assumes update_view: "quiet f \<Longrightarrow> update f w = (r, w') \<Longrightarrow> view w = Some m \<Longrightarrow>
      view w' = Some m \<or> (\<exists>w1 m1 w2. f m w1 = (Inr m1, w2) \<and> view w' = Some (bump m1))"
    and update_result: "quiet f \<Longrightarrow> update f w = (Inr m', w') \<Longrightarrow>
      view w' = Some m' \<and> (\<exists>m w1 m1 w2. view w = Some m \<and> f m w1 = (Inr m1, w2) \<and> m' = bump m1)"
begin

definition updateSteps :: "('m \<Rightarrow> 'w \<Rightarrow> ('e + 'm) \<times> 'w) set \<Rightarrow> ('w \<times> 'w) set" where
  "updateSteps F = {(w, w'). view w' = view w \<or> (\<exists>f \<in> F. \<exists>r. update f w = (r, w'))}"

lemma update_invariant:
  assumes "quiet f" "view w = Some m" "I m" "update f w = (r, w')"
    and "\<And>m w1 m1 w2. I m \<Longrightarrow> f m w1 = (Inr m1, w2) \<Longrightarrow> I (bump m1)"
  shows "\<exists>m'. view w' = Some m' \<and> I m'"
  using update_view[OF assms(1,4,2)] assms(3,5) by blast

text \<open>A property of manifests that every mutator keeps holds after any sequence of steps.\<close>

lemma steps_invariant:
  assumes "(w, w') \<in> (updateSteps F)\<^sup>*" "view w = Some m" "I m" "\<forall>f \<in> F. quiet f"
    and "\<And>f m w1 m1 w2. f \<in> F \<Longrightarrow> I m \<Longrightarrow> f m w1 = (Inr m1, w2) \<Longrightarrow> I (bump m1)"
  shows "\<exists>m'. view w' = Some m' \<and> I m'"
  using assms(1)
proof (induction rule: rtrancl_induct)
  case base
  show ?case using assms(2,3) by blast
next
  case (step w1 w2)
  then obtain m1 where m1: "view w1 = Some m1" "I m1" by blast
  from step.hyps(2) consider "view w2 = view w1" | f r where "f \<in> F" "update f w1 = (r, w2)"
    by (auto simp: updateSteps_def)
  then show ?case
  proof cases
    case 2
    then show ?thesis using update_invariant[of f w1 m1 I] m1 assms(4,5) by blast
  qed (use m1 in auto)
qed

end

interpretation ms: manifest_store "persisted s runID" "\<lambda>f. Update s runID (Some f)" quietMutator bumpRevision
  for s :: Store and runID :: string
proof (unfold_locales, goal_cases)
  case (1 f w r w' m)
  from 1(2,1) show ?case
  proof (cases rule: Update_cases)
    case fail
    then show ?thesis using persisted_cong[of "{}" w w'] 1(3) by simp
  next
    case (saved m0 w1 m1 w2)
    then show ?thesis using 1(3) by auto
  qed
next
  case (2 f w m' w')
  from 2(2,1) show ?case
    by (cases rule: Update_cases) auto
qed


section \<open>Runs without faults\<close>

text \<open>\<open>succeeds m w x g\<close>: the call returns \<open>x\<close> and turns the file map into \<open>g\<close>, leaving the clock and the absence of faults.\<close>

definition succeeds :: "('d, 'a) io \<Rightarrow> 'd world \<Rightarrow> 'a \<Rightarrow> (path \<Rightarrow> 'd node option) \<Rightarrow> bool" where
  "succeeds m w x g \<longleftrightarrow> (\<exists>w'. m w = (Inr x, w') \<and> w_fs w' = g \<and> noFaults w' \<and> w_clock w' = w_clock w)"

lemma succeeds_bind:
  assumes "succeeds m w x g" "\<And>w'. noFaults w' \<Longrightarrow> w_fs w' = g \<Longrightarrow> succeeds (f x) w' y h"
  shows "succeeds (bind m f) w y h"
proof -
  obtain w' where w': "m w = (Inr x, w')" "w_fs w' = g" "noFaults w'" "w_clock w' = w_clock w"
    using assms(1) unfolding succeeds_def by blast
  from assms(2)[OF w'(3,2)] obtain w'' where "f x w' = (Inr y, w'')" "w_fs w'' = h" "noFaults w''" "w_clock w'' = w_clock w'"
    unfolding succeeds_def by blast
  with w' show ?thesis by (simp add: succeeds_def bind_def)
qed

lemma succeeds_mapErr: "succeeds m w x g \<Longrightarrow> succeeds (mapErr e m) w x g"
  by (auto simp: succeeds_def mapErr_def)

lemma succeeds_onErr: "succeeds m w x g \<Longrightarrow> succeeds (onErr m d) w x g"
  by (auto simp: succeeds_def onErr_def)

lemma succeeds_ret: "noFaults w \<Longrightarrow> succeeds (ret x) w x (w_fs w)"
  by (simp add: succeeds_def ret_def)

lemma succeeds_deferred: "succeeds m w x g \<Longrightarrow> (\<And>w'. noFaults w' \<Longrightarrow> w_fs w' = g \<Longrightarrow> succeeds d w' () h) \<Longrightarrow>
    succeeds (deferred m d) w x h"
  by (fastforce simp: succeeds_def deferred_def)

lemma succeeds_fd_call: "noFaults w \<Longrightarrow> succeeds fd_call w () (w_fs w)"
  by (simp add: succeeds_def fd_call_def syscall_ok ret_def)

lemma succeeds_eq: "succeeds m w x g \<Longrightarrow> g = h \<Longrightarrow> succeeds m w x h"
  by simp

lemma succeeds_fd_call_eq: "noFaults w \<Longrightarrow> w_fs w = g \<Longrightarrow> succeeds fd_call w () g"
  using succeeds_fd_call by blast

lemma succeeds_Write: "noFaults w \<Longrightarrow> w_fs w p = Some (Regular old) \<Longrightarrow>
    succeeds (fd_Write p c) w () ((w_fs w)(p \<mapsto> Regular (append_content old c)))"
  by (simp add: succeeds_def fd_Write_def syscall_ok append_node_def)

lemma succeeds_Rename: "noFaults w \<Longrightarrow> w_fs w a = Some n \<Longrightarrow> w_fs w b \<noteq> Some Dir \<Longrightarrow>
    succeeds (os_Rename a b) w () ((w_fs w)(b \<mapsto> n, a := None))"
  by (auto simp: succeeds_def os_Rename_def syscall_ok Let_def split: option.split node.split)

lemma succeeds_Open: "noFaults w \<Longrightarrow> w_fs w p \<noteq> None \<Longrightarrow> succeeds (os_Open p) w () (w_fs w)"
  by (simp add: succeeds_def os_Open_def syscall_ok)

lemma succeeds_OpenAppend: "noFaults w \<Longrightarrow> w_fs w p = Some (Regular c) \<Longrightarrow> succeeds (os_OpenAppend p) w () (w_fs w)"
  by (simp add: succeeds_def os_OpenAppend_def syscall_ok)

lemma succeeds_Stat: "noFaults w \<Longrightarrow> w_fs w p = Some n \<Longrightarrow> succeeds (os_Stat p) w n (w_fs w)"
  by (simp add: succeeds_def os_Stat_def syscall_ok)

lemma succeeds_ReadFile: "noFaults w \<Longrightarrow> w_fs w p = Some (Regular c) \<Longrightarrow> succeeds (os_ReadFile p) w c (w_fs w)"
  by (simp add: succeeds_def os_ReadFile_def syscall_ok)

lemma succeeds_Mkdir: "noFaults w \<Longrightarrow> w_fs w p = None \<Longrightarrow> w_fs w (path_parent p) = Some Dir \<Longrightarrow>
    succeeds (os_Mkdir p) w () ((w_fs w)(p \<mapsto> Dir))"
  by (simp add: succeeds_def os_Mkdir_def syscall_ok)

lemma succeeds_CreateExcl: "noFaults w \<Longrightarrow> w_fs w p = None \<Longrightarrow> w_fs w (path_parent p) = Some Dir \<Longrightarrow>
    succeeds (os_CreateExcl p) w () ((w_fs w)(p \<mapsto> Regular (Docs [])))"
  by (simp add: succeeds_def os_CreateExcl_def syscall_ok)

lemma succeeds_runDir: "noFaults w \<Longrightarrow> validateRunID runID = None \<Longrightarrow> s_root s \<noteq> [] \<Longrightarrow>
    succeeds (runDir s runID) w (filepath_Join [s_root s, runID]) (w_fs w)"
  by (simp add: runDir_def succeeds_ret)

text \<open>No temporary file of \<open>p\<close> is left in its directory.\<close>

definition noTemps :: "path \<Rightarrow> 'd world \<Rightarrow> bool" where
  "noTemps p w \<longleftrightarrow> (\<forall>n. w_fs w (path_join (path_parent p) (tempPrefix p @ string_of_nat n)) = None)"

lemma createTemp_ok:
  assumes "noFaults w" "noTemps p w" "w_fs w (path_parent p) = Some Dir"
  shows "\<exists>t. isTempOf p t \<and>
    succeeds (os_CreateTemp (path_parent p) (tempPrefix p)) w t ((w_fs w)(t \<mapsto> Regular (Docs [])))"
proof -
  let ?t = "path_join (path_parent p) (tempPrefix p @ string_of_nat (w_rand w (w_draws w)))"
  have ten: "(10000 :: nat) = Suc 9999" by simp
  have "succeeds (os_CreateExcl ?t) (w\<lparr>w_draws := w_draws w + 1\<rparr>) () ((w_fs w)(?t \<mapsto> Regular (Docs [])))"
    using assms succeeds_CreateExcl[of "w\<lparr>w_draws := w_draws w + 1\<rparr>" ?t] by (simp add: noTemps_def)
  then have "succeeds (os_CreateTemp (path_parent p) (tempPrefix p)) w ?t ((w_fs w)(?t \<mapsto> Regular (Docs [])))"
    unfolding os_CreateTemp_def ten succeeds_def createTemp.simps by (auto simp: Let_def)
  then show ?thesis unfolding isTempOf_def by blast
qed

lemma atomicFill_ok:
  assumes "noFaults w" "w_fs w t = Some (Regular (Docs []))" "t \<noteq> p" "w_fs w p \<noteq> Some Dir"
    and dir: "w_fs w (path_parent p) = Some Dir" "path_parent p \<noteq> p"
  shows "succeeds (atomicFill p t c) w () ((w_fs w)(p \<mapsto> Regular c, t := None))"
proof -
  have ac: "append_content (Docs []) c = c" by (cases c) (simp_all add: glue_def)
  have "path_parent p \<noteq> t" using assms(2) dir(1) by auto
  note [simp] = this assms ac
  show ?thesis unfolding atomicFill_def
    apply (rule succeeds_bind, rule succeeds_onErr, rule succeeds_fd_call, simp)
    apply (rule succeeds_bind, rule succeeds_onErr, rule succeeds_Write, simp, simp)
    apply (rule succeeds_bind, rule succeeds_onErr, rule succeeds_fd_call, simp)
    apply (rule succeeds_bind, rule succeeds_fd_call, simp)
    apply (rule succeeds_bind, rule succeeds_Rename, simp, simp, simp)
    apply (rule succeeds_bind, rule succeeds_Open, simp, simp)
    apply (rule succeeds_eq, rule succeeds_deferred, rule succeeds_fd_call, simp, erule succeeds_fd_call_eq, simp, simp add: fun_upd_twist)
    done
qed


lemma atomicWrite_ok:
  assumes "noFaults w" "noTemps p w" "w_fs w (path_parent p) = Some Dir" "w_fs w p \<noteq> Some Dir"
    "path_parent p \<noteq> p"
  shows "succeeds (atomicWrite p c) w () ((w_fs w)(p \<mapsto> Regular c))"
proof -
  obtain t where t: "isTempOf p t"
      "succeeds (os_CreateTemp (path_parent p) (tempPrefix p)) w t ((w_fs w)(t \<mapsto> Regular (Docs [])))"
    using createTemp_ok[OF assms(1-3)] by blast
  have ne: "t \<noteq> p" "w_fs w t = None"
    using t(1) assms(2) tempPrefix_fresh unfolding isTempOf_def noTemps_def by metis+
  have pt: "path_parent p \<noteq> t" using assms(3) ne(2) by auto
  show ?thesis unfolding atomicWrite_def
  proof (rule succeeds_bind[OF t(2)])
    fix w' :: "'a world"
    assume w': "noFaults w'" "w_fs w' = (w_fs w)(t \<mapsto> Regular (Docs []))"
    have "succeeds (atomicFill p t c) w' () ((w_fs w')(p \<mapsto> Regular c, t := None))"
      by (rule atomicFill_ok) (use assms w' ne pt in auto)
    moreover have "(w_fs w')(p \<mapsto> Regular c, t := None) = (w_fs w)(p \<mapsto> Regular c)"
      using w'(2) ne by (auto simp: fun_eq_iff)
    ultimately show "succeeds (onErr (atomicFill p t c) (os_Remove t)) w' () ((w_fs w)(p \<mapsto> Regular c))"
      by (simp add: succeeds_onErr)
  qed
qed

text \<open>A run directory in order: what \<open>Create\<close> leaves and every later operation keeps.\<close>

definition runReady :: "Store \<Rightarrow> string \<Rightarrow> (path \<Rightarrow> 'v document node option) \<Rightarrow> bool" where
  "runReady s runID fs \<longleftrightarrow> validateRunID runID = None \<and> s_root s \<noteq> [] \<and>
     fs (filepath_Join [s_root s, runID]) = Some Dir \<and>
     (\<exists>m. fs (runFile s runID ''manifest.json'') = Some (Regular (Docs [Line (DManifest m)])) \<and>
        m_RunID m = runID \<and> m_SchemaVersion m = SchemaVersion) \<and>
     (\<exists>es. fs (runFile s runID ''events.jsonl'') = Some (Regular (Docs (map (Line \<circ> DEvent) es)))) \<and>
     fs (runFile s runID ''summary.json'') \<noteq> Some Dir \<and>
     (\<forall>n. fs (runFile s runID (''.'' @ ''manifest.json'' @ ''-'' @ string_of_nat n)) = None) \<and>
     (\<forall>n. fs (runFile s runID (''.'' @ ''summary.json'' @ ''-'' @ string_of_nat n)) = None)"

definition storedManifest :: "Store \<Rightarrow> string \<Rightarrow> (path \<Rightarrow> 'v document node option) \<Rightarrow> Manifest" where
  "storedManifest s runID fs = (case fs (runFile s runID ''manifest.json'') of
     Some (Regular (Docs [Line (DManifest m)])) \<Rightarrow> m)"

fun eventOf :: "'v document chunk \<Rightarrow> Event option" where
  "eventOf (Line (DEvent e)) = Some e"
| "eventOf _ = None"

definition storedEvents :: "Store \<Rightarrow> string \<Rightarrow> (path \<Rightarrow> 'v document node option) \<Rightarrow> Event list" where
  "storedEvents s runID fs = (case fs (runFile s runID ''events.jsonl'') of
     Some (Regular (Docs cs)) \<Rightarrow> List.map_filter eventOf cs
   | _ \<Rightarrow> [])"

lemma map_filter_events: "List.map_filter eventOf (map (Line \<circ> DEvent) es) = es"
  by (induction es) auto

lemma runFile_parts [simp]:
  "path_parent (runFile s runID a) = filepath_Join [s_root s, runID]" "path_base (runFile s runID a) = a"
  "runFile s runID a = runFile s runID b \<longleftrightarrow> a = b" "filepath_Join [s_root s, runID] \<noteq> runFile s runID a"
  "runFile s runID a \<noteq> filepath_Join [s_root s, runID]"
  by (simp_all add: runFile_def)

lemma runReady_stored:
  assumes "runReady s runID fs"
  shows "fs (runFile s runID ''manifest.json'') = Some (Regular (Docs [Line (DManifest (storedManifest s runID fs))]))"
    and "fs (runFile s runID ''events.jsonl'') = Some (Regular (Docs (map (Line \<circ> DEvent) (storedEvents s runID fs))))"
    and "m_RunID (storedManifest s runID fs) = runID" "m_SchemaVersion (storedManifest s runID fs) = SchemaVersion"
proof -
  obtain m es where fs: "fs (runFile s runID ''manifest.json'') = Some (Regular (Docs [Line (DManifest m)]))"
      "m_RunID m = runID" "m_SchemaVersion m = SchemaVersion"
      "fs (runFile s runID ''events.jsonl'') = Some (Regular (Docs (map (Line \<circ> DEvent) es)))"
    using assms unfolding runReady_def by blast
  show "fs (runFile s runID ''manifest.json'') = Some (Regular (Docs [Line (DManifest (storedManifest s runID fs))]))"
    "m_RunID (storedManifest s runID fs) = runID" "m_SchemaVersion (storedManifest s runID fs) = SchemaVersion"
    using fs by (simp_all add: storedManifest_def)
  show "fs (runFile s runID ''events.jsonl'') = Some (Regular (Docs (map (Line \<circ> DEvent) (storedEvents s runID fs))))"
    using fs by (simp add: storedEvents_def map_filter_events)
qed

lemma runReady_persisted: "runReady s runID (w_fs w) \<Longrightarrow> persisted s runID w = Some (storedManifest s runID (w_fs w))"
  using runReady_stored[of s runID "w_fs w"] unfolding runReady_def by (intro persisted_written) blast+

lemma runReady_noTemps:
  assumes "runReady s runID (w_fs w)" "name = ''manifest.json'' \<or> name = ''summary.json''"
  shows "noTemps (runFile s runID name) w"
proof -
  have "\<forall>n. w_fs w (runFile s runID (''.'' @ name @ ''-'' @ string_of_nat n)) = None"
    using assms(2)
  proof
    assume [simp]: "name = ''manifest.json''"
    show ?thesis using assms(1) unfolding runReady_def by simp
  next
    assume [simp]: "name = ''summary.json''"
    show ?thesis using assms(1) unfolding runReady_def by simp
  qed
  then show ?thesis by (simp add: noTemps_def tempPrefix_def runFile_def)
qed

lemma succeeds_Load:
  assumes "noFaults w" "runReady s runID (w_fs w)"
  shows "succeeds (Load s runID) w (storedManifest s runID (w_fs w)) (w_fs w)"
proof -
  obtain w' where "Load s runID w = (Inr (storedManifest s runID (w_fs w)), w')"
    using Load_ok[OF assms(1) runReady_persisted[OF assms(2)]] by blast
  moreover from this have "evolves {} w w'" by (rule touchesD[OF touches_Load])
  ultimately show ?thesis using assms(1)
    by (auto simp: succeeds_def evolves_def noFaults_def)
qed

text \<open>Writing the manifest and appending an event, on the file map.\<close>

definition putManifest :: "Store \<Rightarrow> string \<Rightarrow> Manifest \<Rightarrow> (path \<Rightarrow> 'v document node option) \<Rightarrow> path \<Rightarrow> 'v document node option" where
  "putManifest s runID m fs = fs(runFile s runID ''manifest.json'' \<mapsto> Regular (Docs [Line (DManifest m)]))"

definition putEvents :: "Store \<Rightarrow> string \<Rightarrow> Event list \<Rightarrow> (path \<Rightarrow> 'v document node option) \<Rightarrow> path \<Rightarrow> 'v document node option" where
  "putEvents s runID es fs = fs(runFile s runID ''events.jsonl'' \<mapsto>
     Regular (Docs (map (Line \<circ> DEvent) (storedEvents s runID fs @ es))))"

definition putSummary :: "Store \<Rightarrow> string \<Rightarrow> 'v \<Rightarrow> (path \<Rightarrow> 'v document node option) \<Rightarrow> path \<Rightarrow> 'v document node option" where
  "putSummary s runID v fs = fs(runFile s runID ''summary.json'' \<mapsto> Regular (Docs [Line (DValue v)]))"

lemma put_stored [simp]:
  "storedManifest s runID (putManifest s runID m fs) = m"
  "storedManifest s runID (putEvents s runID es fs) = storedManifest s runID fs"
  "storedManifest s runID (putSummary s runID v fs) = storedManifest s runID fs"
  "storedEvents s runID (putManifest s runID m fs) = storedEvents s runID fs"
  "storedEvents s runID (putEvents s runID es fs) = storedEvents s runID fs @ es"
  "storedEvents s runID (putSummary s runID v fs) = storedEvents s runID fs"
  by (simp_all add: storedManifest_def storedEvents_def putManifest_def putEvents_def putSummary_def map_filter_events
      del: map_map map_append)

lemma put_ready [simp]:
  assumes "runReady s runID fs"
  shows "m_RunID m = runID \<Longrightarrow> m_SchemaVersion m = SchemaVersion \<Longrightarrow> runReady s runID (putManifest s runID m fs)"
    and "runReady s runID (putEvents s runID es fs)" and "runReady s runID (putSummary s runID v fs)"
  using assms by (auto simp: runReady_def putManifest_def putEvents_def putSummary_def simp del: map_append)


lemma succeeds_save:
  assumes "noFaults w" "runReady s runID (w_fs w)" "m_RunID m = runID" "m_SchemaVersion m = SchemaVersion"
  shows "succeeds (save s m) w () (putManifest s runID m (w_fs w))"
proof -
  have rd: "validateRunID runID = None" "s_root s \<noteq> []" "w_fs w (filepath_Join [s_root s, runID]) = Some Dir"
    using assms(2) unfolding runReady_def by blast+
  have nd: "w_fs w (runFile s runID ''manifest.json'') \<noteq> Some Dir" using runReady_stored(1)[OF assms(2)] by simp
  have "succeeds (atomicWrite (runFile s runID ''manifest.json'') (Docs [Line (DManifest m)])) w' ()
      (putManifest s runID m (w_fs w))" if "noFaults w'" "w_fs w' = w_fs w" for w'
    unfolding putManifest_def that(2)[symmetric]
    using that rd nd runReady_noTemps[of s runID w'] assms(2) by (intro atomicWrite_ok) auto
  then show ?thesis
    unfolding save_def assms(3) using assms(4)
    by (intro succeeds_bind[OF succeeds_runDir[OF assms(1) rd(1,2)]])
      (simp add: runFile_def[symmetric] succeeds_mapErr)
qed

lemma succeeds_Update:
  assumes "noFaults w" "runReady s runID (w_fs w)"
    and f: "\<And>w'. noFaults w' \<Longrightarrow> w_fs w' = w_fs w \<Longrightarrow> succeeds (f (storedManifest s runID (w_fs w))) w' m1 (w_fs w)"
    and m1: "m_RunID m1 = runID" "m_SchemaVersion m1 = SchemaVersion"
  shows "succeeds (Update s runID (Some f)) w (bumpRevision m1) (putManifest s runID (bumpRevision m1) (w_fs w))"
  unfolding Update_def option.case
proof (rule succeeds_bind[OF succeeds_Load[OF assms(1,2)]], rule succeeds_bind[OF f])
  fix w' w'' :: "'a document world"
  assume "noFaults w''" "w_fs w'' = w_fs w"
  moreover from this have "succeeds (save s (bumpRevision m1)) w'' () (putManifest s runID (bumpRevision m1) (w_fs w))"
    using succeeds_save[of w'' s runID "bumpRevision m1"] assms(2) m1 by simp
  ultimately show "succeeds (let m = bumpRevision m1 in bind (save s m) (\<lambda>_. ret m)) w'' (bumpRevision m1)
      (putManifest s runID (bumpRevision m1) (w_fs w))"
    unfolding Let_def by (elim succeeds_bind) (metis succeeds_ret)
qed auto

text \<open>The event as it is written when its time is set, and with the clock's time otherwise.\<close>

definition stampedEvent :: "string \<Rightarrow> gotime \<Rightarrow> Event \<Rightarrow> Event" where
  "stampedEvent runID t e = e\<lparr>
     e_SchemaVersion := (if e_SchemaVersion e = 0 then EventSchemaVersion else e_SchemaVersion e),
     e_RunID := (if e_RunID e = [] then runID else e_RunID e),
     e_Time := (if IsZero (e_Time e) then t else e_Time e)\<rparr>"

lemma glue_lines: "glue (map (Line \<circ> g) xs) b = map (Line \<circ> g) xs @ b"
  by (cases xs rule: rev_cases) (simp_all add: glue_def)

definition writtenEvent :: "'v sworld \<Rightarrow> string \<Rightarrow> Event \<Rightarrow> Event" where
  "writtenEvent w runID e = stampedEvent runID (w_clock w (w_ticks w)) e"

lemma AppendEvent_expand:
  assumes "validateRunID runID = None" "s_root s \<noteq> []" "e_RunID e = [] \<or> e_RunID e = runID"
  obtains w1 where "evolves {} w w1"
    "AppendEvent s runID e w = appendLine runID (runFile s runID ''events.jsonl'') (writtenEvent w runID e) w1"
proof (cases "IsZero (e_Time e)")
  case True
  show ?thesis
    by (rule that[of "w\<lparr>w_ticks := w_ticks w + 1\<rparr>"])
      (use assms True in \<open>auto simp: evolves_def AppendEvent_def runDir_def ret_def now_def
         writtenEvent_def stampedEvent_def runFile_def Let_def bind_def\<close>)
next
  case False
  show ?thesis
    by (rule that[of w])
      (use assms False in \<open>auto simp: AppendEvent_def runDir_def ret_def now_def
         writtenEvent_def stampedEvent_def runFile_def Let_def bind_def\<close>)
qed

lemma succeeds_appendLine:
  assumes "noFaults w" "w_fs w p = Some (Regular (Docs (map (Line \<circ> DEvent) es)))"
  shows "succeeds (appendLine runID p e) w () ((w_fs w)(p \<mapsto> Regular (Docs (map (Line \<circ> DEvent) (es @ [e])))))"
  unfolding appendLine_def
  apply (rule succeeds_bind, rule succeeds_mapErr, rule succeeds_OpenAppend[OF assms])
  apply (rule succeeds_bind, rule succeeds_mapErr, rule succeeds_onErr, rule succeeds_Write, assumption, simp only: assms)
  apply (rule succeeds_bind, rule succeeds_mapErr, rule succeeds_onErr, rule succeeds_fd_call, assumption)
  apply (rule succeeds_mapErr, rule succeeds_fd_call_eq, assumption)
  apply (simp add: glue_lines)
  done

lemma succeeds_AppendEvent:
  assumes "noFaults w" "runReady s runID (w_fs w)" "e_RunID e = [] \<or> e_RunID e = runID"
  shows "succeeds (AppendEvent s runID e) w () (putEvents s runID [writtenEvent w runID e] (w_fs w))"
proof -
  have rd: "validateRunID runID = None" "s_root s \<noteq> []" using assms(2) unfolding runReady_def by blast+
  obtain w1 where w1: "evolves {} w w1"
    and run: "AppendEvent s runID e w = appendLine runID (runFile s runID ''events.jsonl'') (writtenEvent w runID e) w1"
    by (rule AppendEvent_expand[OF rd assms(3), of w])
  have fs1: "w_fs w1 = w_fs w" "w_clock w1 = w_clock w" using w1 by (auto simp: evolves_def)
  show ?thesis
    using succeeds_appendLine[of w1 "runFile s runID ''events.jsonl''" "storedEvents s runID (w_fs w)"
        runID "writtenEvent w runID e"] runReady_stored(2)[OF assms(2)] evolves_noFaults[OF w1 assms(1)]
    unfolding succeeds_def run fs1 putEvents_def by blast
qed

lemma succeeds_RunDirectory:
  assumes "noFaults w" "runReady s runID (w_fs w)"
  shows "succeeds (RunDirectory s runID) w (filepath_Join [s_root s, runID]) (w_fs w)"
proof -
  have rd: "validateRunID runID = None" "s_root s \<noteq> []" using assms(2) unfolding runReady_def by blast+
  show ?thesis unfolding RunDirectory_def
    apply (rule succeeds_bind[OF succeeds_runDir[OF assms(1) rd]])
    apply (rule succeeds_bind, rule succeeds_mapErr, rule succeeds_Stat, assumption)
    apply (simp only: runFile_def[symmetric] runReady_stored(1)[OF assms(2)])
    apply (metis succeeds_ret)
    done
qed

lemma succeeds_WriteSummary:
  assumes "noFaults w" "runReady s runID (w_fs w)"
  shows "succeeds (WriteSummary s runID v) w () (putSummary s runID v (w_fs w))"
proof -
  have rd: "w_fs w (runFile s runID ''summary.json'') \<noteq> Some Dir"
    "w_fs w (filepath_Join [s_root s, runID]) = Some Dir" using assms(2) unfolding runReady_def by blast+
  have "succeeds (atomicWrite (runFile s runID ''summary.json'') (Docs [Line (DValue v)])) w' ()
      (putSummary s runID v (w_fs w))" if "noFaults w'" "w_fs w' = w_fs w" for w'
    unfolding putSummary_def that(2)[symmetric]
    using that rd runReady_noTemps[of s runID w'] assms(2) by (intro atomicWrite_ok) auto
  then show ?thesis unfolding WriteSummary_def runFile_def
    by (intro succeeds_bind[OF succeeds_RunDirectory[OF assms]] succeeds_mapErr)
qed


section \<open>The event log under faults\<close>

lemma fd_Write_cases:
  assumes "fd_Write p c w = (r, w')" "w_fs w p = Some (Regular old)"
  shows "(r = Inr () \<longrightarrow> w_fs w' p = Some (Regular (append_content old c))) \<and>
    (\<exists>t. w_fs w' p \<in> {Some (Regular (append_content old c)), Some (Regular (append_content old (torn_content t c)))})"
  using assms
  by (auto simp: fd_Write_def syscall_def append_node_def Let_def split: option.splits fault.splits)

definition logAfter :: "Event list \<Rightarrow> Event \<Rightarrow> 'v document node option set" where
  "logAfter es e = {Some (Regular (Docs (map (Line \<circ> DEvent) es @ rest))) | rest.
     rest \<in> {[], [Line (DEvent e)], [TailBad], [Tail (DEvent e)]}}"

lemma appendLine_log:
  assumes run: "appendLine runID p e w = (r, w')"
    and log: "w_fs w p = Some (Regular (Docs (map (Line \<circ> DEvent) es)))"
  shows "w_fs w' p \<in> logAfter es e \<and>
    (r = Inr () \<longrightarrow> w_fs w' p = Some (Regular (Docs (map (Line \<circ> DEvent) (es @ [e]))))) \<and> evolves {p} w w'"
proof -
  let ?c = "Docs [Line (DEvent e)]"
  have tch: "touches {p} (appendLine runID p e)" unfolding appendLine_def by (intro touch) auto
  have quiet: "w_fs b = w_fs a" if "evolves {} a b" for a b :: "'a document world"
    using that by (auto simp: evolves_def)
  have old: "w_fs w p \<in> logAfter es e" using log by (auto simp: logAfter_def)
  from run[unfolded appendLine_def] have "w_fs w' p \<in> logAfter es e \<and>
    (r = Inr () \<longrightarrow> w_fs w' p = Some (Regular (Docs (map (Line \<circ> DEvent) (es @ [e])))))"
  proof (cases rule: bindE)
    case fail
    have "touches {} (mapErr (notFoundOr ''open event log for '' runID) (os_OpenAppend p))" by (intro touch)
    from quiet[OF touchesD[OF this fail(1)]] fail(2) old show ?thesis by simp
  next
    case (step _ w1)
    have "touches {} (mapErr (notFoundOr ''open event log for '' runID) (os_OpenAppend p))" by (intro touch)
    from quiet[OF touchesD[OF this step(1)]] log
    have l1: "w_fs w1 p = Some (Regular (Docs (map (Line \<circ> DEvent) es)))" by simp
    have wr: "w_fs w2 p \<in> logAfter es e \<and> (r2 = Inr () \<longrightarrow> w_fs w2 p = Some (Regular (Docs (map (Line \<circ> DEvent) (es @ [e])))))"
      if on: "onErr (fd_Write p ?c) fd_call w1 = (r2, w2)" for r2 w2
    proof -
      obtain r3 w3 where w3: "fd_Write p ?c w1 = (r3, w3)" "w_fs w2 = w_fs w3" "r2 = r3"
        using on by (cases rule: onErrE) (auto simp: quiet[OF fd_call_pure[OF prod.collapse[symmetric]]])
      have tc: "append_content (Docs (map (Line \<circ> DEvent) es)) (torn_content t ?c) \<in>
          {Docs (map (Line \<circ> DEvent) es @ rest) | rest. rest \<in> {[], [TailBad], [Tail (DEvent e)]}}" for t
        by (cases t) (auto simp: torn_content_def glue_lines)
      show ?thesis using fd_Write_cases[OF w3(1) l1] tc w3(2,3)
        by (fastforce simp: logAfter_def glue_lines)
    qed
    from step(2) show ?thesis
    proof (cases rule: bindE)
      case fail
      then show ?thesis using wr by (auto elim!: mapErr_cases)
    next
      case (step _ w2)
      have "touches {} (bind (mapErr (\<lambda>e. Wrapf (''sync event log for '' @ runID @ '': '') e []) (onErr fd_call fd_call))
          (\<lambda>_. mapErr (\<lambda>e. Wrapf (''close event log for '' @ runID @ '': '') e []) fd_call))" by (intro touch)
      from quiet[OF touchesD[OF this step(2)]] step(1) wr show ?thesis by (auto elim!: mapErr_cases)
    qed
  qed
  with touchesD[OF tch run] show ?thesis by simp
qed

lemma decodeEvents_lines: "decodeEvents runID (map (Line \<circ> DEvent) es @ cs) acc = decodeEvents runID cs (acc @ es)"
  by (induction es arbitrary: acc) auto

lemma succeeds_Events:
  assumes "noFaults w" "validateRunID runID = None" "s_root s \<noteq> []"
    and log: "w_fs w (runFile s runID ''events.jsonl'') = Some (Regular (Docs (map (Line \<circ> DEvent) es)))"
  shows "succeeds (Events s runID) w es (w_fs w)"
proof -
  have de: "decodeEvents runID (map (Line \<circ> DEvent) es) [] = Inr es"
    using decodeEvents_lines[of runID es "[]" "[]"] by simp
  have p: "path_join (filepath_Join [s_root s, runID]) ''events.jsonl'' = runFile s runID ''events.jsonl''"
    by (simp add: runFile_def)
  show ?thesis unfolding Events_def
    apply (rule succeeds_bind[OF succeeds_runDir[OF assms(1-3)]])
    apply (rule succeeds_bind, rule succeeds_mapErr, rule succeeds_Open, assumption, simp add: p log)
    apply (rule succeeds_deferred[where g = "w_fs w"])
     apply (rule succeeds_bind, rule succeeds_mapErr, rule succeeds_ReadFile, assumption, simp only: p log)
     apply (simp only: content.case de sum.case, metis succeeds_ret)
    apply (metis succeeds_fd_call)
    done
qed


section \<open>Generated run identifiers\<close>

lemma isDigit_char: "n < (10 :: nat) \<Longrightarrow> isDigit (char_of (48 + n))"
  by (simp add: isDigit_def)

lemma string_of_nat_digits: "list_all isDigit (string_of_nat n)"
  by (induction n rule: string_of_nat.induct) (subst string_of_nat.simps, auto simp: isDigit_char)

lemma string_of_nat_length: "0 < k \<Longrightarrow> n < 10 ^ k \<Longrightarrow> length (string_of_nat n) \<le> k"
proof (induction n arbitrary: k rule: string_of_nat.induct)
  case (1 n)
  show ?case
  proof (cases "n \<le> 9")
    case True
    then show ?thesis using 1 by (subst string_of_nat.simps) simp
  next
    case False
    then obtain j where k: "k = Suc j" "0 < j" using 1 by (cases k; cases "k - 1") auto
    then have "n div 10 < 10 ^ j" using 1(3) by (simp add: less_mult_imp_div_less mult.commute)
    then show ?thesis using 1(1)[OF False, of j] k False by (subst string_of_nat.simps) simp
  qed
qed

lemma padded_digits: "list_all isDigit (padded k n)"
  using string_of_nat_digits[of n] by (auto simp: padded_def Let_def list_all_iff isDigit_def)

lemma padded_length: "0 < k \<Longrightarrow> n < 10 ^ k \<Longrightarrow> length (padded k n) = k"
  using string_of_nat_length[of k n] by (simp add: padded_def Let_def)

lemma hexDigit_hex: "n < 16 \<Longrightarrow> isHexLower (hexDigit n)"
  by (simp add: isHexLower_def hexDigit_def isDigit_def)

lemma of_char_byte: "(of_char c :: nat) < 256"
  by simp

lemma hexByte_hex: "list_all isHexLower (hexByte c)" "length (hexByte c) = 2"
  using of_char_byte[of c] by (simp_all add: hexByte_def hexDigit_hex less_mult_imp_div_less)

lemma civilYear_rest: "snd (civilYear y d) < yearLen (fst (civilYear y d))"
  by (induction y d rule: civilYear.induct) (subst (1 2) civilYear.simps, auto)

lemma yearLen_months: "yearLen y = (\<Sum>m = 1..12. monthLen y m)"
  by (simp add: yearLen_def monthLen_def numeral_eq_Suc sum.atLeast_Suc_atMost)

lemma civilMonth_bounds:
  "1 \<le> m \<Longrightarrow> m \<le> 12 \<Longrightarrow> d < (\<Sum>k = m..12. monthLen y k) \<Longrightarrow>
   fst (civilMonth y m d) \<le> 12 \<and> snd (civilMonth y m d) \<le> 31"
proof (induction y m d rule: civilMonth.induct)
  case (1 y m d)
  have len: "monthLen y m \<le> 31" by (simp add: monthLen_def)
  show ?case
  proof (cases "12 \<le> m \<or> d < monthLen y m")
    case True
    with 1 len have "d < 31" by (cases "m = 12") auto
    with True 1 show ?thesis by (subst (1 2) civilMonth.simps) simp
  next
    case False
    then have "(\<Sum>k = m..12. monthLen y k) = monthLen y m + (\<Sum>k = Suc m..12. monthLen y k)"
      using 1(3) by (simp add: sum.atLeast_Suc_atMost)
    with 1(4) False have "d - monthLen y m < (\<Sum>k = Suc m..12. monthLen y k)" by linarith
    with 1(1)[OF False] 1(2) False show ?thesis by (subst (1 2) civilMonth.simps) auto
  qed
qed

lemma formatDate_shape:
  assumes "fst (civilYear 1 (nat (t div (24 * hour)))) \<le> 9999"
  obtains y m d where "formatDate t = y @ ''-'' @ m @ ''-'' @ d" "length y = 4" "length m = 2" "length d = 2"
    "list_all isDigit y" "list_all isDigit m" "list_all isDigit d"
proof -
  let ?c = "civilYear 1 (nat (t div (24 * hour)))"
  have md: "fst (civilMonth (fst ?c) 1 (snd ?c)) \<le> 12 \<and> snd (civilMonth (fst ?c) 1 (snd ?c)) \<le> 31"
    using civilYear_rest[of 1 "nat (t div (24 * hour))"] by (intro civilMonth_bounds) (auto simp: yearLen_months)
  show ?thesis
    by (rule that[of "padded 4 (fst ?c)" "padded 2 (fst (civilMonth (fst ?c) 1 (snd ?c)))"
          "padded 2 (snd (civilMonth (fst ?c) 1 (snd ?c)))"])
      (use md assms in \<open>auto simp: formatDate_def padded_digits padded_length split: prod.split\<close>)
qed

section \<open>Creating a run\<close>

lemma runIDPattern_chars:
  assumes "runIDPattern s" "i < length s"
  shows "s ! i \<noteq> CHR ''/''"
proof -
  note p = assms(1)[unfolded runIDPattern_def]
  have dig: "isDigit (s ! i)" if "list_all isDigit (take n (drop k s))" "k \<le> i" "i < k + n" for k n
    using that assms(2) by (auto simp: list_all_length dest!: spec[of _ "i - k"])
  have "s ! i \<in> {CHR ''t'', CHR ''b'', CHR ''_''}" if "i < 3"
  proof -
    have "s ! i = ''tb_'' ! i" using p that by (metis nth_take)
    with that show ?thesis by (auto simp: less_Suc_eq numeral_eq_Suc)
  qed
  moreover have "isHexLower (s ! i)" if "14 \<le> i"
    using that p assms(2) by (auto simp: list_all_length dest!: spec[of _ "i - 14"])
  moreover have "i < 3 \<or> 3 \<le> i \<and> i < 3 + 4 \<or> i = 7 \<or> 8 \<le> i \<and> i < 8 + 2 \<or> i = 10 \<or> 11 \<le> i \<and> i < 11 + 2 \<or> i = 13 \<or> 14 \<le> i"
    by arith
  ultimately show ?thesis using p dig[of 4 3] dig[of 2 8] dig[of 2 11]
    by (auto simp: isDigit_def isHexLower_def)
qed

lemma valid_plainComp: "validateRunID runID = None \<Longrightarrow> plainComp runID"
proof -
  assume "validateRunID runID = None"
  then have v: "runIDPattern runID" by (simp add: validateRunID_def split: if_splits)
  then have "20 \<le> length runID" by (simp add: runIDPattern_def)
  moreover have "CHR ''/'' \<notin> set runID" using runIDPattern_chars[OF v] by (auto simp: in_set_conv_nth)
  ultimately show ?thesis by (auto simp: plainComp_def)
qed

lemma runDir_path: "validateRunID runID = None \<Longrightarrow> s_root s \<noteq> [] \<Longrightarrow>
    filepath_Join [s_root s, runID] = path_join (Clean (s_root s)) runID"
  by (rule filepath_Join_plain) (simp_all add: valid_plainComp)

lemma mkdirAll_step:
  assumes st: "touches P (os_Stat (r, rev cs) :: ('d, 'd node) io)" and mk: "touches P (os_Mkdir (r, rev cs) :: ('d, unit) io)"
    and inner: "\<And>w1 :: 'd world. evolves P w1 (snd (case cs of [] \<Rightarrow> (Inr (), w1) | c # ds \<Rightarrow> mkdirAll r ds w1))"
  shows "evolves P w (snd (mkdirAll r cs (w :: 'd world)))"
proof -
  obtain a w1 where 1: "os_Stat (r, rev cs) w = (a, w1)" by fastforce
  obtain b w2 where 2: "(case cs of [] \<Rightarrow> (Inr (), w1) | c # ds \<Rightarrow> mkdirAll r ds w1) = (b, w2)" by fastforce
  obtain c w3 where 3: "os_Mkdir (r, rev cs) w2 = (c, w3)" by fastforce
  obtain d w4 where 4: "os_Stat (r, rev cs) w3 = (d, w4)" by fastforce
  note e1 = touchesD[OF st 1]
  have e2: "evolves P w w2" using evolves_trans[OF e1] inner[of w1] 2 by simp
  note e3 = evolves_trans[OF e2 touchesD[OF mk 3]]
  note e4 = evolves_trans[OF e3 touchesD[OF st 4]]
  show ?thesis
    by (subst mkdirAll.simps, simp only: 1 2 3 4 prod.case) (simp add: e1 e2 e3 e4 split: sum.split node.split)
qed

lemma mkdirAll_evolves:
  "evolves {q. length (snd q) \<le> length cs} w (snd (mkdirAll r cs w))"
proof (induction cs arbitrary: w)
  case Nil
  show ?case by (rule mkdirAll_step) (auto intro!: touch)
next
  case (Cons c ds)
  have "evolves {q. length (snd q) \<le> length (c # ds)} w (snd (mkdirAll r ds w))" for w :: "'a world"
    by (rule evolves_mono[OF Cons.IH]) auto
  then show ?case by (intro mkdirAll_step) (auto intro!: touch)
qed

lemma touches_MkdirAll: "{q. length (snd q) \<le> length (snd p)} \<subseteq> P \<Longrightarrow> touches P (os_MkdirAll p)"
  using mkdirAll_evolves[of "rev (snd p)" _ "fst p"] unfolding touches_def os_MkdirAll_def
  by (auto intro: evolves_mono)


text \<open>The paths below the root of the store: none of them is touched when the root is created.\<close>

definition belowRoot :: "Store \<Rightarrow> path \<Rightarrow> bool" where
  "belowRoot s q \<longleftrightarrow> length (snd (Clean (s_root s))) < length (snd q)"

lemma os_Mkdir_exists:
  assumes "os_Mkdir p w = (r, w')" "w_fs w p \<noteq> None"
  shows "(\<exists>e. r = Inl e \<and> (noFaults w \<longrightarrow> e = Sentinel ErrExist)) \<and> evolves {} w w'"
  using assms
  by (auto simp: os_Mkdir_def syscall_def Let_def noFaults_def evolves_def split: option.splits fault.splits)

lemma createLayout_exists:
  assumes run: "createLayout s request (path_join (Clean (s_root s)) runID) w = (r, w')"
    and ex: "w_fs w (path_join (Clean (s_root s)) runID) \<noteq> None"
  shows "(\<exists>e. r = Inl e) \<and> evolves {q. \<not> belowRoot s q} w w'"
proof -
  let ?d = "path_join (Clean (s_root s)) runID"
  let ?e = "\<lambda>e. Wrapf (''create run-state root '' @ s_root s @ '': '') e []"
  have tr: "touches {q. \<not> belowRoot s q} (mapErr ?e (os_MkdirAll (Clean (s_root s))))"
    by (intro touches_mapErr touches_MkdirAll) (auto simp: belowRoot_def)
  from run[unfolded createLayout_def] show ?thesis
  proof (cases rule: bindE)
    case fail
    then show ?thesis using touchesD[OF tr] by blast
  next
    case (step u w1)
    have e1: "evolves {q. \<not> belowRoot s q} w w1" by (rule touchesD[OF tr step(1)])
    have "w_fs w1 ?d \<noteq> None" using ex evolves_fs[OF e1, of ?d] by (simp add: belowRoot_def path_join_def)
    note md = os_Mkdir_exists[OF _ this]
    from step(2) show ?thesis
    proof (cases rule: bindE)
      case fail
      from fail(1) have "evolves {} w1 w'" by (rule mapErr_cases) (use md in blast)+
      then show ?thesis using fail(2) evolves_trans[OF e1 evolves_mono] by blast
    next
      case (step u2 w2)
      from step(1) obtain x where "os_Mkdir ?d w1 = (Inr x, w2)" by (rule mapErr_cases) auto
      then show ?thesis using md by blast
    qed
  qed
qed

text \<open>Creation in a world without faults.\<close>

lemma succeeds_MkdirAll: "noFaults w \<Longrightarrow> w_fs w p = Some Dir \<Longrightarrow> succeeds (os_MkdirAll p) w () (w_fs w)"
  unfolding os_MkdirAll_def succeeds_def
  by (subst mkdirAll.simps) (simp add: os_Stat_def syscall_ok)

lemma succeeds_createEmptyFile: "noFaults w \<Longrightarrow> w_fs w p = None \<Longrightarrow> w_fs w (path_parent p) = Some Dir \<Longrightarrow>
    succeeds (createEmptyFile p) w () ((w_fs w)(p \<mapsto> Regular (Docs [])))"
  unfolding createEmptyFile_def
  apply (rule succeeds_bind, rule succeeds_mapErr, rule succeeds_CreateExcl, assumption+)
  apply (rule succeeds_bind, rule succeeds_mapErr, rule succeeds_onErr, rule succeeds_fd_call, assumption)
  apply (rule succeeds_mapErr, rule succeeds_fd_call_eq, assumption, simp)
  done

text \<open>Nothing is stored at the run's directory or below it.\<close>

definition freshRun :: "path \<Rightarrow> (path \<Rightarrow> 'd node option) \<Rightarrow> bool" where
  "freshRun dir fs \<longleftrightarrow> fs dir = None \<and> (\<forall>a. fs (path_join dir a) = None) \<and>
     (\<forall>a b. fs (path_join (path_join dir a) b) = None)"

definition layoutFs :: "CreateRequest \<Rightarrow> path \<Rightarrow> (path \<Rightarrow> 'd node option) \<Rightarrow> path \<Rightarrow> 'd node option" where
  "layoutFs request dir fs = fs(dir \<mapsto> Dir, path_join dir ''logs'' \<mapsto> Dir,
     path_join dir ''events.jsonl'' \<mapsto> Regular (Docs []),
     path_join (path_join dir ''logs'') ''tailbench.log'' \<mapsto> Regular (Docs []),
     path_join dir ''plan.json'' \<mapsto> Regular (Bytes (cr_PlanJSON request)),
     path_join dir ''effective-config.redacted.yaml'' \<mapsto> Regular (Bytes (cr_EffectiveConfigYAML request)))"

lemma path_join_deep [simp]: "path_join (path_join d a) b \<noteq> path_join d c" "path_join d c \<noteq> path_join (path_join d a) b"
  "path_join (path_join d a) b \<noteq> d" "d \<noteq> path_join (path_join d a) b"
  by (auto simp: path_join_def prod_eq_iff)

lemma succeeds_createLayout:
  assumes "noFaults w" "w_fs w (Clean (s_root s)) = Some Dir" "dir = path_join (Clean (s_root s)) runID"
    and fresh: "freshRun dir (w_fs w)"
  shows "succeeds (createLayout s request dir) w () (layoutFs request dir (w_fs w))"
proof -
  have parent: "path_parent dir = Clean (s_root s)" "dir \<noteq> Clean (s_root s)" "Clean (s_root s) \<noteq> dir"
    using assms(3) by simp_all
  note none = fresh[unfolded freshRun_def]
  note fr = conjunct1[OF none] spec[OF conjunct1[OF conjunct2[OF none]]]
    spec[OF spec[OF conjunct2[OF conjunct2[OF none]]], rule_format]
  note [simp] = assms(2) parent fr
  show ?thesis unfolding createLayout_def
    apply (rule succeeds_bind, rule succeeds_mapErr, rule succeeds_MkdirAll[OF assms(1,2)])
    apply (rule succeeds_bind, rule succeeds_mapErr, rule succeeds_Mkdir, assumption, simp, simp)
    apply (rule succeeds_bind, rule succeeds_mapErr, rule succeeds_Mkdir, assumption, simp, simp)
    apply (rule succeeds_bind, rule succeeds_createEmptyFile, assumption, simp, simp)
    apply (rule succeeds_bind, rule succeeds_createEmptyFile, assumption, simp, simp)
    apply (rule succeeds_bind, rule succeeds_mapErr, rule atomicWrite_ok, assumption)
        apply (simp add: noTemps_def tempPrefix_def)
       apply (simp, simp, simp)
    apply (rule succeeds_eq, rule succeeds_mapErr, rule atomicWrite_ok, assumption)
        apply (simp add: noTemps_def tempPrefix_def)
       apply (simp, simp, simp)
    apply (simp add: layoutFs_def)
    done
qed

lemma layoutFs_ready:
  assumes "validateRunID runID = None" "s_root s \<noteq> []" "freshRun (filepath_Join [s_root s, runID]) fs"
    and "m_RunID m = runID" "m_SchemaVersion m = SchemaVersion"
  shows "runReady s runID (putManifest s runID m (layoutFs request (filepath_Join [s_root s, runID]) fs))"
    and "storedEvents s runID (putManifest s runID m (layoutFs request (filepath_Join [s_root s, runID]) fs)) = []"
proof -
  let ?fs = "putManifest s runID m (layoutFs request (filepath_Join [s_root s, runID]) fs)"
  have none: "fs (runFile s runID a) = None" for a using assms(3) by (simp add: freshRun_def runFile_def)
  have ev: "?fs (runFile s runID ''events.jsonl'') = Some (Regular (Docs (map (Line \<circ> DEvent) [])))"
    by (simp add: putManifest_def layoutFs_def runFile_def)
  have temps: "?fs (runFile s runID (CHR ''.'' # x)) = None" if "x = ''manifest.json'' @ y \<or> x = ''summary.json'' @ y" for x y
    using that none[of "CHR ''.'' # x"] by (auto simp: putManifest_def layoutFs_def runFile_def)
  show "runReady s runID ?fs"
    unfolding runReady_def
  proof (intro conjI allI)
    show "?fs (filepath_Join [s_root s, runID]) = Some Dir" by (simp add: putManifest_def layoutFs_def)
    show "\<exists>m. ?fs (runFile s runID ''manifest.json'') = Some (Regular (Docs [Line (DManifest m)])) \<and>
        m_RunID m = runID \<and> m_SchemaVersion m = SchemaVersion"
      using assms(4,5) by (intro exI[of _ m]) (simp add: putManifest_def)
    show "\<exists>es. ?fs (runFile s runID ''events.jsonl'') = Some (Regular (Docs (map (Line \<circ> DEvent) es)))"
      using ev by blast
    show "?fs (runFile s runID ''summary.json'') \<noteq> Some Dir"
      using none[of "''summary.json''"] by (simp add: putManifest_def layoutFs_def runFile_def)
    show "?fs (runFile s runID (''.'' @ ''manifest.json'' @ ''-'' @ string_of_nat n)) = None" for n
      using temps[of "''manifest.json'' @ ''-'' @ string_of_nat n" "''-'' @ string_of_nat n"] by simp
    show "?fs (runFile s runID (''.'' @ ''summary.json'' @ ''-'' @ string_of_nat n)) = None" for n
      using temps[of "''summary.json'' @ ''-'' @ string_of_nat n" "''-'' @ string_of_nat n"] by simp
  qed (use assms(1,2) in simp_all)
  show "storedEvents s runID ?fs = []" unfolding storedEvents_def ev by simp
qed

end
