(* ===== verification/Runstate_Theorems.thy ===== *)
theory Runstate_Theorems
  imports Runstate_Props
begin

text \<open>
  The properties of the run store, with concrete stores for their hypotheses.
\<close>

section \<open>Concrete worlds\<close>

definition exampleStore :: Store where
  "exampleStore = \<lparr>s_root = ''/runs''\<rparr>"

definition exampleID :: string where
  "exampleID = ''tb_2026-01-02_abcdef''"

definition exampleRequest :: CreateRequest where
  "exampleRequest = \<lparr>cr_RunID = exampleID, cr_StartedAt = 7, cr_CommandLine = [''run''],
     cr_Binary = \<lparr>bi_Name = ''tailbench'', bi_Version = [], bi_Commit = [], bi_BuildDate = []\<rparr>,
     cr_Provider = ''aws'', cr_Workload = ''vm'', cr_Region = ''us-east-1'', cr_Zone = [],
     cr_Identity = \<lparr>ci_Account = [], ci_Project = [], ci_Subscription = []\<rparr>, cr_PlanHash = ''sha256:00'',
     cr_PlanJSON = ''plan'', cr_EffectiveConfigYAML = ''config'', cr_Images = [],
     cr_InitialWork = [\<lparr>wi_ID = ''c6i.large/l4-kernel'', wi_Family = ''c6i'', wi_InstanceType = ''c6i.large'',
       wi_Mode = ''l4-kernel'', wi_Status = WorkPending, wi_ResultPath = ''results/c6i.large-l4-kernel.json'',
       wi_RetryCount = 0, wi_LastError = [], wi_StartedAt = None, wi_EndedAt = None\<rparr>],
     cr_InitialBenchmarkStatus = OutcomeUnset, cr_InitialCleanupStatus = OutcomeUnset\<rparr>"

definition worldOf :: "(path \<Rightarrow> 'd node option) \<Rightarrow> 'd world" where
  "worldOf fs = \<lparr>w_fs = fs, w_fault = (\<lambda>_. None), w_calls = 0, w_rand = (\<lambda>n. n), w_draws = 0,
     w_clock = (\<lambda>n. 100 + int n), w_ticks = 0\<rparr>"

definition emptyRuns :: "path \<Rightarrow> 'd node option" where
  "emptyRuns = (\<lambda>_. None)(Clean ''/runs'' \<mapsto> Dir)"

definition createdRuns :: "path \<Rightarrow> 'v document node option" where
  "createdRuns = putManifest exampleStore exampleID (initialManifest exampleRequest 7)
     (layoutFs exampleRequest (filepath_Join [s_root exampleStore, exampleID]) emptyRuns)"

lemma exampleID_valid: "validateRunID exampleID = None"
  by (simp add: validateRunID_def runIDPattern_def exampleID_def isDigit_def isHexLower_def)

lemma worldOf_simps [simp]: "w_fs (worldOf fs) = fs" "noFaults (worldOf fs)"
  by (simp_all add: worldOf_def noFaults_def)

lemma exampleRequest_ID [simp]: "cr_RunID exampleRequest = exampleID"
  by (simp add: exampleRequest_def)

lemma exampleStore_root [simp]: "s_root exampleStore = ''/runs''"
  by (simp add: exampleStore_def)

lemma example_dir: "filepath_Join [''/runs'', exampleID] = path_join (Clean ''/runs'') exampleID"
  using runDir_path[OF exampleID_valid, of exampleStore] by simp

lemma emptyRuns_fresh: "freshRun (filepath_Join [''/runs'', exampleID]) emptyRuns"
  unfolding example_dir by (auto simp: freshRun_def emptyRuns_def path_join_def prod_eq_iff)

lemma createdRuns_ready: "runReady exampleStore exampleID createdRuns"
  unfolding createdRuns_def
  by (rule layoutFs_ready) (use exampleID_valid emptyRuns_fresh in \<open>simp_all add: initialManifest_def\<close>)

section \<open>Properties\<close>

text \<open>
  C3 The write of a file is atomic whichever system calls fail and wherever the process stops: the
  file is the old one or the complete new one and never a part of it; a call that reports success has
  put the new content in place and changed nothing else; a call that fails can leave behind at most
  one temporary file, under a name that was free.
\<close>

theorem atomicWrite_crash_safe:
  "case atomicWrite p data w of (r, w') \<Rightarrow>
     (w_fs w' p = w_fs w p \<or> w_fs w' p = Some (Regular data)) \<and>
     (r = Inr () \<longrightarrow> w_fs w' = (w_fs w)(p \<mapsto> Regular data)) \<and>
     (\<exists>t. isTempOf p t \<and> (w_fs w t = None \<or> w_fs w' t = w_fs w t) \<and> (\<forall>q. q \<noteq> p \<and> q \<noteq> t \<longrightarrow> w_fs w' q = w_fs w q))"
proof (cases "atomicWrite p data w")
  case (Pair r w')
  note sp = atomicWrite_spec[OF Pair]
  have "w_fs w' = (w_fs w)(p \<mapsto> Regular data)" if "r = Inr ()"
    using sp that evolves_fs[of "{p}" w w'] by (intro ext) auto
  moreover have "\<exists>t. isTempOf p t \<and> (w_fs w t = None \<or> w_fs w' t = w_fs w t) \<and>
      (\<forall>q. q \<noteq> p \<and> q \<noteq> t \<longrightarrow> w_fs w' q = w_fs w q)"
  proof -
    have t0: "isTempOf p (path_join (path_parent p) (tempPrefix p @ string_of_nat 0))"
      unfolding isTempOf_def by blast
    from sp consider "evolves {} w w'" | t where "isTempOf p t" "w_fs w t = None" "evolves {p, t} w w'" by blast
    then show ?thesis
    proof cases
      case 1
      then show ?thesis using t0 evolves_fs[OF 1] by blast
    next
      case (2 t)
      then show ?thesis using evolves_fs[OF 2(3)] by (intro exI[of _ t]) simp
    qed
  qed
  ultimately show ?thesis using Pair sp by simp
qed

theorem atomicWrite_crash_safe_witness:
  "case atomicWrite (runFile exampleStore exampleID ''summary.json'') (Docs [Line (DValue ())]) (worldOf createdRuns) of (r, w') \<Rightarrow>
     w_fs w' (runFile exampleStore exampleID ''summary.json'') = createdRuns (runFile exampleStore exampleID ''summary.json'') \<or>
     w_fs w' (runFile exampleStore exampleID ''summary.json'') = Some (Regular (Docs [Line (DValue ())]))"
  using atomicWrite_crash_safe[where p = "runFile exampleStore exampleID ''summary.json''" and data = "Docs [Line (DValue ())]"
      and w = "worldOf createdRuns"]
  unfolding worldOf_simps by (auto split: prod.splits)

text \<open>
  C4 An update of the manifest is all or nothing: whichever system calls fail, the manifest that can be
  loaded afterwards is the one before the update or the mutated one with the next revision; a reported
  success means the latter, and it is the manifest that was returned.
\<close>

theorem Update_all_or_nothing:
  assumes "quietMutator f" "persisted s runID w = Some m"
  shows "case Update s runID (Some f) w of (r, w') \<Rightarrow>
     (persisted s runID w' = Some m \<or>
      (\<exists>w1 m1 w2. f m w1 = (Inr m1, w2) \<and> persisted s runID w' = Some (bumpRevision m1))) \<and>
     (\<forall>m'. r = Inr m' \<longrightarrow> persisted s runID w' = Some m' \<and>
        (\<exists>w1 m1 w2. f m w1 = (Inr m1, w2) \<and> m' = bumpRevision m1))"
proof (cases "Update s runID (Some f) w")
  case (Pair r w')
  have "\<forall>m'. r = Inr m' \<longrightarrow> persisted s runID w' = Some m' \<and>
      (\<exists>w1 m1 w2. f m w1 = (Inr m1, w2) \<and> m' = bumpRevision m1)"
    using ms.update_result[OF assms(1), of s runID w _ w'] Pair assms(2) by (metis option.inject)
  with ms.update_view[OF assms(1) Pair assms(2)] Pair show ?thesis by simp
qed

lemma quietMutator_ret: "(\<And>m. m_RunID (g m) = m_RunID m) \<Longrightarrow> quietMutator (\<lambda>m. ret (g m))"
  by (auto simp: quietMutator_def touches_ret ret_def)

theorem Update_all_or_nothing_witness:
  "\<exists>m w'. Update exampleStore exampleID (Some (\<lambda>m. ret (m\<lparr>m_Status := RunFailed\<rparr>))) (worldOf createdRuns) =
       (Inr m, w') \<and> persisted exampleStore exampleID (w' :: unit sworld) = Some m"
proof -
  let ?f = "\<lambda>m. ret (m\<lparr>m_Status := RunFailed\<rparr>)" and ?w = "worldOf createdRuns :: unit sworld"
    and ?c = "createdRuns :: path \<Rightarrow> unit document node option"
  have q: "quietMutator ?f" by (rule quietMutator_ret) simp
  have rdy: "runReady exampleStore exampleID (w_fs ?w)" by (simp add: createdRuns_ready)
  have p: "persisted exampleStore exampleID ?w = Some (storedManifest exampleStore exampleID ?c)"
    using runReady_persisted[OF rdy] by simp
  have "succeeds (Update exampleStore exampleID (Some ?f)) ?w
      (bumpRevision ((storedManifest exampleStore exampleID ?c)\<lparr>m_Status := RunFailed\<rparr>))
      (putManifest exampleStore exampleID (bumpRevision ((storedManifest exampleStore exampleID ?c)
         \<lparr>m_Status := RunFailed\<rparr>)) ?c)"
    using succeeds_Update[OF _ rdy, of ?f "(storedManifest exampleStore exampleID ?c)\<lparr>m_Status := RunFailed\<rparr>"]
      runReady_stored(3,4)[OF rdy] succeeds_ret by fastforce
  then show ?thesis using Update_all_or_nothing[OF q p] unfolding succeeds_def by fastforce
qed

text \<open>
  Every identifier GenerateRunID returns is accepted by the store: as long as the year has at most
  four digits, the generated text matches the pattern that every operation of the store checks first.
\<close>

theorem GenerateRunID_valid:
  assumes "fst (civilYear 1 (nat (t div (24 * hour)))) \<le> 9999"
  shows "\<exists>runID. GenerateRunID t (Inr (a, b, c)) = Inr runID \<and> validateRunID runID = None"
proof -
  obtain y m d where f: "formatDate t = y @ ''-'' @ m @ ''-'' @ d" "length y = 4" "length m = 2" "length d = 2"
    "list_all isDigit y" "list_all isDigit m" "list_all isDigit d"
    using formatDate_shape[OF assms] by blast
  let ?h = "hexByte a @ hexByte b @ hexByte c"
  have h: "length ?h = 6" "list_all isHexLower ?h" using hexByte_hex by auto
  have "runIDPattern (''tb_'' @ (y @ ''-'' @ m @ ''-'' @ d) @ ''_'' @ ?h)"
    using f(2-) h by (auto simp: runIDPattern_def nth_append numeral_eq_Suc)
  then show ?thesis by (simp add: GenerateRunID_def validateRunID_def f(1))
qed

theorem GenerateRunID_valid_witness:
  "fst (civilYear 1 (nat (0 div (24 * hour)))) \<le> 9999 \<and>
   (\<exists>runID. GenerateRunID 0 (Inr (CHR ''a'', CHR ''b'', CHR ''c'')) = Inr runID \<and> validateRunID runID = None)"
proof -
  have y: "fst (civilYear 1 (nat (0 div (24 * hour)))) \<le> 9999"
    by (simp add: civilYear.simps yearLen_def leapYear_def)
  then show ?thesis using GenerateRunID_valid[OF y] by blast
qed


text \<open>
  Create never touches an existing run: when something exists under the run's name, the call fails
  and no path below the store's root has changed, whichever system calls fail.
\<close>

theorem Create_exclusive:
  assumes "w_fs w (filepath_Join [s_root s, cr_RunID request]) \<noteq> None"
  shows "case Create s request w of (r, w') \<Rightarrow> (\<exists>e. r = Inl e) \<and> (\<forall>q. belowRoot s q \<longrightarrow> w_fs w' q = w_fs w q)"
proof (cases "Create s request w")
  case (Pair r w')
  have "(\<exists>e. r = Inl e) \<and> evolves {q. \<not> belowRoot s q} w w'"
    using Pair[unfolded Create_def]
  proof (cases rule: bindE)
    case fail
    then show ?thesis by (auto elim: runDir_cases)
  next
    case (step dir w1)
    then have d: "w1 = w" "dir = path_join (Clean (s_root s)) (cr_RunID request)" 
        "filepath_Join [s_root s, cr_RunID request] = dir"
      by (auto elim!: runDir_cases simp: runDir_path)
    have tn: "touches {} (if IsZero (cr_StartedAt request) then now else ret (cr_StartedAt request))"
      by (simp add: touches_now touches_ret)
    from step(2) show ?thesis
    proof (cases rule: bindE)
      case fail
      then show ?thesis using touchesD[OF tn] evolves_mono d(1) by blast
    next
      case (step t w2)
      have e2: "evolves {} w w2" using touchesD[OF tn step(1)] d(1) by simp
      then have ex: "w_fs w2 dir \<noteq> None" using assms d(3) by (simp add: evolves_def)
      note cl = createLayout_exists[OF _ ex[unfolded d(2)]]
      from step(2) show ?thesis
      proof (cases rule: bindE)
        case fail
        then show ?thesis using cl[folded d(2)] evolves_trans[OF evolves_mono[OF e2]] by blast
      next
        case (step u w3)
        then show ?thesis using cl[folded d(2)] by blast
      qed
    qed
  qed
  then show ?thesis using Pair evolves_fs by fastforce
qed



theorem Create_exclusive_witness:
  "case Create exampleStore exampleRequest (worldOf createdRuns :: unit sworld) of (r, w') \<Rightarrow>
     (\<exists>e. r = Inl e) \<and> (\<forall>q. belowRoot exampleStore q \<longrightarrow> w_fs w' q = createdRuns q)"
proof -
  have "createdRuns (filepath_Join [s_root exampleStore, cr_RunID exampleRequest]) = Some (Dir :: unit document node)"
    by (simp add: createdRuns_def putManifest_def layoutFs_def runFile_def)
  then show ?thesis using Create_exclusive[of "worldOf createdRuns :: unit sworld" exampleStore exampleRequest] by simp
qed


lemma succeeds_Create:
  assumes "validateRunID (cr_RunID request) = None" "s_root s \<noteq> []" "cr_StartedAt request \<noteq> 0"
    and w: "noFaults w" "w_fs w (Clean (s_root s)) = Some Dir"
      "freshRun (filepath_Join [s_root s, cr_RunID request]) (w_fs w)"
  shows "succeeds (Create s request) w (initialManifest request (cr_StartedAt request))
     (putEvents s (cr_RunID request) [createdEvent (cr_RunID request) (cr_StartedAt request)]
       (putManifest s (cr_RunID request) (initialManifest request (cr_StartedAt request))
         (layoutFs request (filepath_Join [s_root s, cr_RunID request]) (w_fs w))))"
    and "runReady s (cr_RunID request) (putManifest s (cr_RunID request) (initialManifest request (cr_StartedAt request))
         (layoutFs request (filepath_Join [s_root s, cr_RunID request]) (w_fs w)))"
    and "storedEvents s (cr_RunID request) (putManifest s (cr_RunID request) (initialManifest request (cr_StartedAt request))
         (layoutFs request (filepath_Join [s_root s, cr_RunID request]) (w_fs w))) = []"
proof -
  let ?id = "cr_RunID request" and ?m = "initialManifest request (cr_StartedAt request)"
  let ?dir = "filepath_Join [s_root s, cr_RunID request]"
  let ?e = "createdEvent ?id (cr_StartedAt request)"
  let ?L = "layoutFs request ?dir (w_fs w)"
  let ?M = "putManifest s ?id ?m ?L"
  have id: "m_RunID ?m = ?id" "m_SchemaVersion ?m = SchemaVersion" by (simp_all add: initialManifest_def)
  note dir = runDir_path[OF assms(1,2)]
  note ready = layoutFs_ready[OF assms(1,2) w(3) id, of request]
  have none: "w_fs w (path_join ?dir a) = None" for a using w(3) by (simp add: freshRun_def)
  have save: "succeeds (save s ?m) w1 () ?M" if "noFaults w1" "w_fs w1 = ?L" for w1
    unfolding save_def id(1)
    apply (rule succeeds_bind[OF succeeds_runDir[OF that(1) assms(1,2)]])
    apply (simp only: id not_True_eq_False if_False simp_thms)
    apply (rule succeeds_mapErr, rule succeeds_eq, rule atomicWrite_ok, assumption)
        apply (simp_all add: noTemps_def tempPrefix_def that(2) layoutFs_def none)
    apply (simp add: putManifest_def runFile_def layoutFs_def)
    done
  have app: "succeeds (AppendEvent s ?id ?e) w1 () (putEvents s ?id [?e] ?M)" if "noFaults w1" "w_fs w1 = ?M" for w1
  proof -
    have "writtenEvent w1 ?id ?e = ?e"
      using assms(3) by (simp add: writtenEvent_def stampedEvent_def createdEvent_def EventSchemaVersion_def IsZero_def)
    then show ?thesis
      using succeeds_AppendEvent[of w1 s ?id ?e] that ready(1) by (simp add: createdEvent_def)
  qed
  show "succeeds (Create s request) w ?m (putEvents s ?id [?e] ?M)"
    unfolding Create_def
    apply (rule succeeds_bind[OF succeeds_runDir[OF w(1) assms(1,2)]])
    using assms(3) apply (simp only: IsZero_def if_False)
    apply (rule succeeds_bind, rule succeeds_ret, assumption)
    apply (rule succeeds_bind, rule succeeds_createLayout[where runID = ?id], assumption)
       apply (simp only: w(2), simp only: dir, simp only: w(3))
    apply (simp only: Let_def)
    apply (rule succeeds_bind, rule save, assumption, simp)
    apply (rule succeeds_bind, rule app, assumption, simp)
    apply (metis succeeds_ret)
    done
  show "runReady s ?id ?M" "storedEvents s ?id ?M = []" by (rule ready)+
qed

text \<open>
  Creating a run in an existing root, with no fault and no earlier trace of the run, succeeds: the
  manifest returned is revision 1 in state running with pending outcomes, it is the manifest that a
  later Load returns, the event log holds the creation event alone and is what Events returns, and the
  plan and the configuration are stored unchanged.
\<close>

theorem Create_then_Load:
  assumes "validateRunID (cr_RunID request) = None" "s_root s \<noteq> []" "cr_StartedAt request \<noteq> 0"
    and w: "noFaults w" "w_fs w (Clean (s_root s)) = Some Dir"
      "freshRun (filepath_Join [s_root s, cr_RunID request]) (w_fs w)"
  shows "\<exists>w' w1 w2 w3. Create s request w = (Inr (initialManifest request (cr_StartedAt request)), w') \<and>
     Load s (cr_RunID request) w' = (Inr (initialManifest request (cr_StartedAt request)), w1) \<and>
     Events s (cr_RunID request) w' = (Inr [createdEvent (cr_RunID request) (cr_StartedAt request)], w2) \<and>
     ReadPlan s (cr_RunID request) w' = (Inr (Bytes (cr_PlanJSON request)), w3)"
proof -
  let ?id = "cr_RunID request" and ?m = "initialManifest request (cr_StartedAt request)"
  let ?dir = "filepath_Join [s_root s, cr_RunID request]"
  let ?e = "createdEvent ?id (cr_StartedAt request)"
  let ?M = "putManifest s ?id ?m (layoutFs request ?dir (w_fs w))"
  note ready = succeeds_Create(2,3)[OF assms]
  from succeeds_Create(1)[OF assms]
  obtain w' where c: "Create s request w = (Inr ?m, w')" "w_fs w' = putEvents s ?id [?e] ?M" "noFaults w'"
    unfolding succeeds_def by blast
  have r': "runReady s ?id (w_fs w')" using c(2) ready(1) by simp
  have "\<exists>w1. Load s ?id w' = (Inr ?m, w1)"
    using succeeds_Load[OF c(3) r'] c(2) unfolding succeeds_def by auto
  moreover have "\<exists>w2. Events s ?id w' = (Inr [?e], w2)"
    using succeeds_Events[OF c(3) assms(1,2), of "[?e]"] runReady_stored(2)[OF r'] c(2) ready(2)
    unfolding succeeds_def by auto
  moreover have "\<exists>w3. ReadPlan s ?id w' = (Inr (Bytes (cr_PlanJSON request)), w3)"
  proof -
    have "w_fs w' (path_join ?dir ''plan.json'') = Some (Regular (Bytes (cr_PlanJSON request)))"
      by (simp add: c(2) putEvents_def putManifest_def layoutFs_def runFile_def)
    then have "succeeds (ReadPlan s ?id) w' (Bytes (cr_PlanJSON request)) (w_fs w')"
      unfolding ReadPlan_def readRunFile_def
      by (intro succeeds_bind[OF succeeds_RunDirectory[OF c(3) r']] succeeds_mapErr) (metis succeeds_ReadFile)
    then show ?thesis unfolding succeeds_def by blast
  qed
  ultimately show ?thesis using c(1) by blast
qed

theorem Create_then_Load_witness:
  "\<exists>w' w1. Create exampleStore exampleRequest (worldOf emptyRuns :: unit sworld) = (Inr (initialManifest exampleRequest 7), w') \<and>
     Load exampleStore exampleID w' = (Inr (initialManifest exampleRequest 7), w1)"
proof -
  have "cr_StartedAt exampleRequest = 7" by (simp add: exampleRequest_def)
  then show ?thesis
    using Create_then_Load[of exampleRequest exampleStore "worldOf emptyRuns :: unit sworld"]
      exampleID_valid emptyRuns_fresh by (auto simp: emptyRuns_def)
qed



end
