(* ===== verification/Modes.thy ===== *)
theory Modes
  imports Go_Lib
begin

text \<open>
  The benchmark modes (internal/benchmark/modes.go): which names are valid, where they apply and which
  measurement they use.
\<close>

definition validModes :: "string list" where
  "validModes = [''tsnet-userspace'', ''l4-kernel'', ''l4-userspace'', ''l4-lb'', ''l7-ingress-h1'',
     ''l7-ingress-h2'', ''l7-serve-h1'', ''l7-serve-h2'', ''forward-pps-exit'', ''forward-pps-exit-k8s'',
     ''forward-pps-exit-k8s-opton'', ''relay-throughput'']"

definition IsValidMode :: "string \<Rightarrow> bool" where
  "IsValidMode mode \<longleftrightarrow> mode \<in> set validModes"

definition ValidModes :: "string list" where
  "ValidModes = sort validModes"

definition ModeAppliesTo :: "string \<Rightarrow> string \<Rightarrow> bool" where
  "ModeAppliesTo mode env =
    (if mode \<in> {''l4-lb'', ''l7-ingress-h1'', ''l7-ingress-h2'', ''forward-pps-exit-k8s'', ''forward-pps-exit-k8s-opton''}
       then env = ''container''
     else if mode \<in> {''l7-serve-h1'', ''l7-serve-h2'', ''forward-pps-exit'', ''relay-throughput''} then env = ''vm''
     else True)"

definition ModeUsesIperf :: "string \<Rightarrow> bool" where
  "ModeUsesIperf mode \<longleftrightarrow> mode = ''l4-kernel'' \<or> mode = ''l4-userspace''"

definition ModeUsesForwardPPS :: "string \<Rightarrow> bool" where
  "ModeUsesForwardPPS mode \<longleftrightarrow> HasPrefix mode ''forward-pps-''"

definition ModeUsesRelay :: "string \<Rightarrow> bool" where
  "ModeUsesRelay mode \<longleftrightarrow> mode = ''relay-throughput''"

definition ModeUsesFortio :: "string \<Rightarrow> bool" where
  "ModeUsesFortio mode \<longleftrightarrow> mode = ''l4-lb'' \<or> HasPrefix mode ''l7-''"

definition ModeUsesTsnet :: "string \<Rightarrow> bool" where
  "ModeUsesTsnet mode \<longleftrightarrow> mode = ''tsnet-userspace''"

definition ModeIsH2 :: "string \<Rightarrow> bool" where
  "ModeIsH2 mode \<longleftrightarrow> HasSuffix mode ''-h2''"

definition ModeHTTPVersion :: "string \<Rightarrow> string" where
  "ModeHTTPVersion mode = (if ModeIsH2 mode then ''2'' else if HasSuffix mode ''-h1'' then ''1.1'' else [])"

text \<open>The measurements a mode can select, in the order the predicates are declared.\<close>

definition modeUses :: "string \<Rightarrow> bool list" where
  "modeUses mode = [ModeUsesIperf mode, ModeUsesForwardPPS mode, ModeUsesRelay mode, ModeUsesFortio mode, ModeUsesTsnet mode]"

lemma list_all_valid: "list_all P validModes \<Longrightarrow> IsValidMode mode \<Longrightarrow> P mode"
  by (simp add: IsValidMode_def list_all_iff)

text \<open>
  Every valid mode selects exactly one kind of measurement, applies to virtual machines or to
  containers, and has an HTTP version exactly when its name ends in one.
\<close>

theorem mode_dispatch_total:
  assumes "IsValidMode mode"
  shows "length (filter id (modeUses mode)) = 1 \<and> (ModeAppliesTo mode ''vm'' \<or> ModeAppliesTo mode ''container'')
    \<and> (ModeHTTPVersion mode \<noteq> [] \<longleftrightarrow> ModeUsesFortio mode \<and> mode \<noteq> ''l4-lb'')"
proof (rule list_all_valid[OF _ assms])
  show "list_all (\<lambda>mode. length (filter id (modeUses mode)) = 1 \<and>
      (ModeAppliesTo mode ''vm'' \<or> ModeAppliesTo mode ''container'') \<and>
      (ModeHTTPVersion mode \<noteq> [] \<longleftrightarrow> ModeUsesFortio mode \<and> mode \<noteq> ''l4-lb'')) validModes"
    by code_simp
qed

theorem mode_dispatch_total_witness:
  "IsValidMode ''l7-serve-h2'' \<and> length (filter id (modeUses ''l7-serve-h2'')) = 1"
proof -
  have v: "IsValidMode ''l7-serve-h2''" by code_simp
  with mode_dispatch_total[OF v] show ?thesis by blast
qed

end
