(* ===== verification/Families.thy ===== *)
theory Families
  imports Go_Lib
begin

text \<open>
  Instance families (internal/provider/families.go): the family used for result paths, the group used
  for selection and quota, and the AWS predicates on instance types. Instance types are ASCII, so the
  loops over runes and over bytes agree.
\<close>

definition firstPart :: "char \<Rightarrow> string \<Rightarrow> string" where
  "firstPart c s = fst (Cut c s)"

fun azureFamily :: "bool \<Rightarrow> string \<Rightarrow> string" where
  "azureFamily skipDigits [] = []"
| "azureFamily skipDigits (c # cs) =
    (if isDigit c \<and> skipDigits then azureFamily True cs
     else if c = CHR ''_'' \<or> c = CHR ''-'' then azureFamily False cs
     else c # azureFamily False cs)"

definition GetInstanceFamily :: "string \<Rightarrow> string \<Rightarrow> string" where
  "GetInstanceFamily providerName instanceType =
    (if providerName \<in> {''gcp'', ''gke''} then firstPart (CHR ''-'') instanceType
     else if providerName \<in> {''aws'', ''eks''} then firstPart (CHR ''.'') instanceType
     else if providerName \<in> {''azure'', ''aks''} then ToLower (azureFamily True (TrimPrefix instanceType ''Standard_''))
     else instanceType)"

text \<open>The loop finds the first digit, then the end of its run.\<close>

fun stripSizeDigits :: "string \<Rightarrow> string" where
  "stripSizeDigits [] = []"
| "stripSizeDigits (c # cs) = (if isDigit c then dropWhile isDigit cs else c # stripSizeDigits cs)"

definition InstanceFamilyGroup :: "string \<Rightarrow> string \<Rightarrow> string" where
  "InstanceFamilyGroup providerName instanceType = (let family = GetInstanceFamily providerName instanceType in
     if providerName \<in> {''azure'', ''aks''} then stripSizeDigits family else family)"

definition IsGraviton :: "string \<Rightarrow> bool" where
  "IsGraviton instanceType \<longleftrightarrow> CHR ''g'' \<in> set (firstPart (CHR ''.'') instanceType)"

definition enaExpressMinVCPUs :: "string \<Rightarrow> int option" where
  "enaExpressMinVCPUs = map_of [(''c7gn'', 16), (''c6in'', 32), (''c8gn'', 32), (''c7i'', 48), (''c8g'', 48)]"

definition SupportsENAExpress :: "string \<Rightarrow> int \<Rightarrow> bool" where
  "SupportsENAExpress instanceType vcpus = (case enaExpressMinVCPUs (firstPart (CHR ''.'') instanceType) of
     None \<Rightarrow> False | Some minVCPUs \<Rightarrow> minVCPUs \<le> vcpus)"

section \<open>Lemmas\<close>

lemma stripSizeDigits_run:
  "\<forall>c \<in> set a. \<not> isDigit c \<Longrightarrow> d \<noteq> [] \<Longrightarrow> \<forall>c \<in> set d. isDigit c \<Longrightarrow> (b = [] \<or> \<not> isDigit (hd b)) \<Longrightarrow>
   stripSizeDigits (a @ d @ b) = a @ b"
proof (induction a)
  case Nil
  then obtain x xs where d: "d = x # xs" by (cases d) auto
  have "dropWhile isDigit (xs @ b) = b"
    using Nil d by (cases b) (auto simp: dropWhile_append2)
  with Nil d show ?case by simp
qed simp

lemma stripSizeDigits_none: "\<forall>c \<in> set a. \<not> isDigit c \<Longrightarrow> stripSizeDigits a = a"
  by (induction a) auto

lemma Cut_sep: "c \<notin> set a \<Longrightarrow> Cut c (a @ c # b) = (a, b, True)"
  by (induction a) auto

lemma firstPart_sep: "c \<notin> set a \<Longrightarrow> firstPart c (a @ c # b) = a"
  by (simp add: firstPart_def Cut_sep)

text \<open>
  Two Azure sizes whose family names differ only in the size digits fall in the same group, while
  for AWS and GCP the group is the family: a quota denial is keyed on the group, and the first run of
  digits is the only thing the group drops.
\<close>

theorem family_group_drops_size:
  assumes "GetInstanceFamily p t = a @ d @ b" "GetInstanceFamily p t' = a @ d' @ b"
    and "\<forall>c \<in> set a. \<not> isDigit c" "b = [] \<or> \<not> isDigit (hd b)"
    and "d \<noteq> []" "\<forall>c \<in> set d. isDigit c" "d' \<noteq> []" "\<forall>c \<in> set d'. isDigit c"
  shows "if p = ''azure'' \<or> p = ''aks'' then InstanceFamilyGroup p t = a @ b \<and> InstanceFamilyGroup p t' = a @ b
    else InstanceFamilyGroup p t = GetInstanceFamily p t"
  using assms by (simp add: InstanceFamilyGroup_def Let_def stripSizeDigits_run)

theorem family_group_drops_size_witness:
  "InstanceFamilyGroup ''azure'' ''Standard_D4s_v4'' = ''dsv4'' \<and> InstanceFamilyGroup ''azure'' ''Standard_D16s_v4'' = ''dsv4''"
proof -
  have f: "GetInstanceFamily ''azure'' ''Standard_D4s_v4'' = ''d'' @ ''4'' @ ''sv4''"
    "GetInstanceFamily ''azure'' ''Standard_D16s_v4'' = ''d'' @ ''16'' @ ''sv4''" by code_simp+
  show ?thesis
    using family_group_drops_size[OF f] by (simp add: isDigit_def)
qed

end
