(* ===== verification/Pricing.thy ===== *)
theory Pricing
  imports Go_Lib "HOL-Library.AList" "HOL-Library.Multiset"
begin

text \<open>
  Package internal/pricing. The embedded dataset is a parameter: a list of blocks as the first JSON
  decoding gives them, each the metadata, a price table or undecodable. Prices are real numbers. A Go
  map is an association list with distinct keys, and its iteration order does not matter since
  every loop over it is followed by a sort.
\<close>

record Meta =
  mt_Source :: string
  mt_Updated :: string

record Entry =
  en_InstanceType :: string
  en_HourlyUSD :: real

type_synonym priceTable = "(string \<times> (string \<times> real) list) list"

datatype rawBlock = RawMeta Meta | RawPrices priceTable | RawBad

record Dataset =
  ds_prices :: "(string \<times> priceTable) list"
  ds_meta :: Meta

definition emptyDataset :: Dataset where
  "emptyDataset = \<lparr>ds_prices = [], ds_meta = \<lparr>mt_Source = [], mt_Updated = []\<rparr>\<rparr>"

fun loadBlock :: "string \<times> rawBlock \<Rightarrow> Dataset \<Rightarrow> Dataset" where
  "loadBlock (key, val) ds =
    (if key = ''_meta'' then (case val of RawMeta m \<Rightarrow> ds\<lparr>ds_meta := m\<rparr> | _ \<Rightarrow> ds)
     else case val of RawPrices t \<Rightarrow> ds\<lparr>ds_prices := (key, t) # ds_prices ds\<rparr> | _ \<Rightarrow> ds)"

text \<open>\<open>load\<close>: \<open>None\<close> is an embedded file that is not a JSON object.\<close>

definition load :: "(string \<times> rawBlock) list option \<Rightarrow> Dataset" where
  "load raw = (case raw of None \<Rightarrow> emptyDataset | Some blocks \<Rightarrow> fold loadBlock blocks emptyDataset)"

definition Source :: "Dataset \<Rightarrow> Meta" where
  "Source ds = ds_meta ds"

definition canonicalProvider :: "string \<Rightarrow> string" where
  "canonicalProvider provider = (if provider = ''eks'' then ''aws'' else if provider = ''gke'' then ''gcp''
     else if provider = ''aks'' then ''azure'' else provider)"

definition canonicalRegions :: "string \<Rightarrow> string" where
  "canonicalRegions p = (if p = ''aws'' then ''us-west-2'' else if p = ''gcp'' then ''us-central1''
     else if p = ''azure'' then ''eastus'' else [])"

definition canonicalRegion :: "string \<Rightarrow> string \<Rightarrow> string" where
  "canonicalRegion provider region =
    (if provider \<noteq> ''gcp'' then region
     else let i = LastIndex (CHR ''-'') region in
       if 0 < i \<and> length (drop (nat (i + 1)) region) = 1 then take (nat i) region else region)"

text \<open>
  Indexing an absent key of a map gives the empty map. Of several bindings for a key in the list that
  stands for a map only the first counts, so every key occurs once.
\<close>

definition regionPrices :: "priceTable \<Rightarrow> string \<Rightarrow> (string \<times> real) list" where
  "regionPrices t r = (case map_of t r of None \<Rightarrow> [] | Some m \<Rightarrow> AList.clearjunk m)"

definition providerPrices :: "Dataset \<Rightarrow> string \<Rightarrow> priceTable" where
  "providerPrices ds p = (case map_of (ds_prices ds) p of None \<Rightarrow> [] | Some t \<Rightarrow> t)"

definition Lookup :: "Dataset \<Rightarrow> string \<Rightarrow> string \<Rightarrow> string \<Rightarrow> real \<times> bool" where
  "Lookup ds provider region instanceType = (let cp = canonicalProvider provider in
     case map_of (ds_prices ds) cp of None \<Rightarrow> (0, False)
     | Some byRegion \<Rightarrow>
        (let r = canonicalRegion cp region in
         case map_of (regionPrices byRegion r) instanceType of Some price \<Rightarrow> (price, True)
         | None \<Rightarrow>
            (let canon = canonicalRegions cp in
             if canon \<noteq> [] \<and> canon \<noteq> r then
               (case map_of (regionPrices byRegion canon) instanceType of Some price \<Rightarrow> (price, True) | None \<Rightarrow> (0, False))
             else (0, False))))"

definition ListPrices :: "Dataset \<Rightarrow> string \<Rightarrow> string \<Rightarrow> Entry list \<times> Meta" where
  "ListPrices ds provider region =
    (let cp = canonicalProvider provider; byRegion = providerPrices ds cp;
         byType0 = regionPrices byRegion (canonicalRegion cp region);
         byType = (if byType0 = [] then regionPrices byRegion (canonicalRegions cp) else byType0)
     in (sort_key en_InstanceType (map (\<lambda>(t, p). \<lparr>en_InstanceType = t, en_HourlyUSD = p\<rparr>) byType), ds_meta ds))"

section \<open>Lemmas\<close>

lemma canonicalProvider_idem [simp]: "canonicalProvider (canonicalProvider p) = canonicalProvider p"
  by (simp add: canonicalProvider_def)

lemma canonicalRegion_zone:
  "r \<noteq> [] \<Longrightarrow> c \<noteq> CHR ''-'' \<Longrightarrow> canonicalRegion ''gcp'' (r @ [CHR ''-'', c]) = r"
  using LastIndex_append[of "CHR ''-''" "[c]" r] by (simp add: canonicalRegion_def Let_def nat_add_distrib)

lemma distinct_regionPrices: "distinct (map fst (regionPrices t r))"
  by (simp add: regionPrices_def distinct_clearjunk split: option.split)

lemma ListPrices_entry_lookup:
  assumes "canonicalRegions (canonicalProvider p) \<noteq> []" "e \<in> set (fst (ListPrices ds p r))"
  shows "Lookup ds p r (en_InstanceType e) = (en_HourlyUSD e, True)"
proof -
  let ?cp = "canonicalProvider p"
  let ?t = "providerPrices ds ?cp"
  let ?req = "regionPrices ?t (canonicalRegion ?cp r)" and ?can = "regionPrices ?t (canonicalRegions ?cp)"
  let ?by = "if ?req = [] then ?can else ?req"
  have mem: "(en_InstanceType e, en_HourlyUSD e) \<in> set ?by"
    using assms(2) by (auto simp: ListPrices_def Let_def split: if_splits)
  then have t: "map_of (ds_prices ds) ?cp = Some ?t"
    by (auto simp: providerPrices_def regionPrices_def split: option.splits if_splits)
  have m: "map_of ?by (en_InstanceType e) = Some (en_HourlyUSD e)"
    using mem distinct_regionPrices by (intro map_of_is_SomeI) auto
  show ?thesis
  proof (cases "?req = []")
    case False
    with m t show ?thesis by (simp add: Lookup_def Let_def)
  next
    case True
    with m have "canonicalRegions ?cp \<noteq> canonicalRegion ?cp r" by auto
    then show ?thesis using True m t assms(1) by (simp add: Lookup_def Let_def)
  qed
qed


text \<open>
  The catalogue and the price lookup agree: for a curated provider, every entry listed for a region,
  whether it comes from the region itself or from the canonical region as a fallback, is found by Lookup
  for that region with the same price; entries are sorted by type and each type appears once.
\<close>

theorem ListPrices_agrees_with_Lookup:
  assumes "canonicalRegions (canonicalProvider p) \<noteq> []"
  shows "(\<forall>e \<in> set (fst (ListPrices ds p r)). Lookup ds p r (en_InstanceType e) = (en_HourlyUSD e, True)) \<and>
    sorted (map en_InstanceType (fst (ListPrices ds p r))) \<and> distinct (map en_InstanceType (fst (ListPrices ds p r)))"
proof -
  have "distinct (map en_InstanceType (fst (ListPrices ds p r)))"
  proof -
    have k: "map en_InstanceType (map (\<lambda>(t, p). \<lparr>en_InstanceType = t, en_HourlyUSD = p\<rparr>) xs) = map fst xs" for xs
      by auto
    have "mset (map en_InstanceType (sort_key en_InstanceType ys)) = mset (map en_InstanceType ys)" for ys :: "Entry list"
      by simp
    then have "distinct (map en_InstanceType (sort_key en_InstanceType ys)) = distinct (map en_InstanceType ys)" for ys :: "Entry list"
      by (metis mset_eq_imp_distinct_iff)
    then have "distinct (map en_InstanceType (sort_key en_InstanceType
        (map (\<lambda>(t, p). \<lparr>en_InstanceType = t, en_HourlyUSD = p\<rparr>) (regionPrices (providerPrices ds q) x))))" for q x
      using distinct_regionPrices[of "providerPrices ds q" x] by (simp only: k)
    then show ?thesis by (simp add: ListPrices_def Let_def)
  qed
  moreover have "sorted (map en_InstanceType (fst (ListPrices ds p r)))"
    by (simp add: ListPrices_def Let_def)
  ultimately show ?thesis using ListPrices_entry_lookup[OF assms] by blast
qed

definition sampleDataset :: Dataset where
  "sampleDataset = load (Some [(''_meta'', RawMeta \<lparr>mt_Source = ''list'', mt_Updated = ''2026-01-01''\<rparr>),
     (''aws'', RawPrices [(''us-west-2'', [(''c6i.xlarge'', 1 / 5), (''c6i.large'', 1 / 10)])]), (''gcp'', RawBad)])"

theorem ListPrices_agrees_with_Lookup_witness:
  "Lookup sampleDataset ''eks'' ''eu-west-1'' ''c6i.large'' = (1 / 10, True)"
proof -
  have e: "\<lparr>en_InstanceType = ''c6i.large'', en_HourlyUSD = 1 / 10\<rparr> \<in> set (fst (ListPrices sampleDataset ''eks'' ''eu-west-1''))"
    by (simp add: ListPrices_def sampleDataset_def load_def emptyDataset_def canonicalProvider_def providerPrices_def
        canonicalRegion_def regionPrices_def canonicalRegions_def)
  have "canonicalRegions (canonicalProvider ''eks'') \<noteq> []"
    by (simp add: canonicalRegions_def canonicalProvider_def)
  from ListPrices_agrees_with_Lookup[OF this] e show ?thesis by fastforce
qed

end
