(* ===== verification/Config_Types.thy ===== *)
theory Config_Types
  imports Go_Lib
begin

text \<open>
  The configuration of a run (internal/config): the record \<^verbatim>\<open>Config\<close> and the default values.
\<close>

record Config =
  c_Providers :: "string list"
  c_Family :: string
  c_Filter :: string
  c_CreateTailnet :: bool
  c_TailnetDNSName :: string
  c_OAuthClientID :: string
  c_OAuthClientSecret :: string
  c_Tag :: string
  c_IPerfDuration :: int
  c_IPerfParallel :: int
  c_IPerfIterations :: int
  c_MTRCycles :: int
  c_CooldownSec :: int
  c_CreditRetrySec :: int
  c_SSHTimeout :: int
  c_ReadyTimeout :: int
  c_AWSRegion :: string
  c_AWSAZ :: string
  c_AWSKeyName :: string
  c_GCPProject :: string
  c_GCPZone :: string
  c_AzureLocation :: string
  c_AzureResourceGroup :: string
  c_AzureSSHUser :: string
  c_AzureSSHPubKey :: string
  c_CleanupNetworking :: bool
  c_DryRun :: bool
  c_AuthKeyRefreshSec :: int
  c_RootDir :: string
  c_StateDir :: string
  c_StateBackend :: string
  c_BenchImage :: string
  c_TSImage :: string
  c_FortioDuration :: int
  c_FortioConnections :: int
  c_FortioQPS :: int
  c_FortioIterations :: int
  c_PPSDatagramSizes :: "int list"
  c_PPSLossThresholdPct :: real
  c_PPSDurationSec :: int
  c_PPSMaxRatePPS :: int
  c_Modes :: "string list"
  c_IngressFQDN :: string
  c_ServeFQDN :: string
  c_ClusterLabel :: string
  c_Yes :: bool
  c_MaxCostUSD :: real
  c_MaxCostSet :: bool
  c_MaxDuration :: duration
  c_MaxInstanceTypes :: int
  c_MaxConcurrentResources :: int
  c_CleanupPolicy :: string
  c_RunID :: string
  c_ResourceExpiresAt :: string

definition DefaultMaxCostUSD :: real where "DefaultMaxCostUSD = 10"
definition DefaultMaxDuration :: duration where "DefaultMaxDuration = 45 * minute"
definition DefaultMaxInstanceTypes :: int where "DefaultMaxInstanceTypes = 1"
definition DefaultMaxConcurrentResources :: int where "DefaultMaxConcurrentResources = 1"
definition CleanupAlways :: string where "CleanupAlways = ''always''"
definition CleanupOnSuccess :: string where "CleanupOnSuccess = ''on-success''"
definition CleanupManual :: string where "CleanupManual = ''manual''"

end
