(* ===== verification/Go_Fmt.thy ===== *)
theory Go_Fmt
  imports Go_Lib
begin

text \<open>
  The formatting verbs of packages fmt and time the sources use for numbers and durations, and a
  writer: a text is a sequence of writes that stops at the first one that fails.
\<close>

definition stripZeros :: "string \<Rightarrow> string" where
  "stripZeros s = rev (dropWhile (\<lambda>c. c = CHR ''0'') (rev s))"

definition fmtFrac :: "nat \<Rightarrow> nat \<Rightarrow> string" where
  "fmtFrac v prec = (let f = v mod 10 ^ prec in if f = 0 then [] else CHR ''.'' # stripZeros (padded prec f))"

text \<open>\<^verbatim>\<open>time.Duration.String\<close>; the microsecond sign is two bytes of UTF-8.\<close>

definition Duration_String :: "duration \<Rightarrow> string" where
  "Duration_String d = (let u = nat \<bar>d\<bar>; sign = (if d < 0 then ''-'' else []) in
     if u = 0 then ''0s''
     else if u < 1000 then sign @ string_of_nat u @ ''ns''
     else if u < 1000000 then sign @ string_of_nat (u div 1000) @ fmtFrac u 3 @ [CHR 0xC2, CHR 0xB5] @ ''s''
     else if u < 1000000000 then sign @ string_of_nat (u div 1000000) @ fmtFrac u 6 @ ''ms''
     else let s = u div 1000000000; m = s div 60; h = m div 60 in
       sign @ (if 0 < h then string_of_nat h @ ''h'' else [])
         @ (if 0 < m then string_of_nat (m mod 60) @ ''m'' else [])
         @ string_of_nat (s mod 60) @ fmtFrac u 9 @ ''s'')"

text \<open>\<^verbatim>\<open>%.kf\<close>: the nearest decimal with \<open>k\<close> digits, the even one when two are equally near.\<close>

definition roundHalfEven :: "real \<Rightarrow> int" where
  "roundHalfEven x = (let f = \<lfloor>x\<rfloor>; d = x - of_int f in
     if d < 1 / 2 then f else if 1 / 2 < d then f + 1 else if even f then f else f + 1)"

definition fmtFixed :: "nat \<Rightarrow> real \<Rightarrow> string" where
  "fmtFixed k x = (let n = nat (roundHalfEven (\<bar>x\<bar> * 10 ^ k)) in
     (if x < 0 then ''-'' else []) @ string_of_nat (n div 10 ^ k) @
     (if k = 0 then [] else ''.'' @ padded k (n mod 10 ^ k)))"

type_synonym 's Writer = "string \<Rightarrow> 's \<Rightarrow> go_error option \<times> 's"

fun writeAll :: "'s Writer \<Rightarrow> string list \<Rightarrow> 's \<Rightarrow> go_error option \<times> 's" where
  "writeAll dst [] s = (None, s)"
| "writeAll dst (t # ts) s = (case dst t s of (Some e, s1) \<Rightarrow> (Some e, s1) | (None, s1) \<Rightarrow> writeAll dst ts s1)"

definition newline :: string where
  "newline = [CHR 0x0A]"

text \<open>A writer that keeps everything, as a buffer does.\<close>

definition bufferWriter :: "string Writer" where
  "bufferWriter t s = (None, s @ t)"

lemma writeAll_buffer: "writeAll bufferWriter ts s = (None, s @ concat ts)"
  by (induction ts arbitrary: s) (simp_all add: bufferWriter_def)

lemma writeAll_append: "writeAll dst (a @ b) s =
    (case writeAll dst a s of (Some e, s1) \<Rightarrow> (Some e, s1) | (None, s1) \<Rightarrow> writeAll dst b s1)"
  by (induction a arbitrary: s) (auto split: option.splits prod.splits)

end
