(* ===== verification/Plan.thy ===== *)
theory Plan
  imports Config_Types Modes Families Pricing Go_Fmt Go_Path "HOL-Library.Product_Lexorder"
begin

text \<open>
  Package internal/plan: the local plan of a run. \<open>Build\<close> reads the configuration, the instance catalogue
  (an interface, given as a function) and the existence of result files, and decides for every selected
  instance and mode whether it runs. Compiling the user's instance filter is package regexp, a parameter
  from the pattern to an error or a predicate. \<open>stat\<close> tells of a path whether it exists and is a
  directory. Dollar amounts are real numbers.
\<close>

section \<open>Types (types.go)\<close>

record CatalogInstance =
  ct_Type :: string
  ct_Family :: string
  ct_FamilyGroup :: string
  ct_VCPUs :: int
  ct_HourlyUSD :: real

record CatalogMetadata =
  cm_Source :: string
  cm_Updated :: string

type_synonym Catalog = "string \<Rightarrow> string \<Rightarrow> go_error + (CatalogInstance list \<times> CatalogMetadata)"

record Selector =
  sl_Family :: string
  sl_Filter :: string

record ModeSummary =
  ms_Name :: string
  ms_Applicable :: bool
  ms_Reason :: string

datatype ModeAction = ActionRun | ActionSkipExisting | ActionNotApplicable

fun action_text :: "ModeAction \<Rightarrow> string" where
  "action_text ActionRun = ''run''"
| "action_text ActionSkipExisting = ''skip-existing''"
| "action_text ActionNotApplicable = ''not-applicable''"

record PlannedMode =
  pm_Name :: string
  pm_Applicable :: bool
  pm_Action :: ModeAction
  pm_Reason :: string
  pm_ResultPath :: string

record InstancePlan =
  ip_Type :: string
  ip_Family :: string
  ip_VCPUs :: int
  ip_HourlyUSD :: real
  ip_Modes :: "PlannedMode list"

record ResourceSummary =
  rs_MaximumServers :: int
  rs_MaximumClients :: int
  rs_MaximumRouters :: int
  rs_MaximumComputeResources :: int
  rs_MaximumClusters :: int
  rs_MaximumNodePools :: int
  rs_MaximumOperators :: int
  rs_MaximumLoadBalancers :: int

record CostSummary =
  cs_Estimate :: bool
  cs_MaximumHourlyUSD :: real
  cs_ExecutionWindowUSD :: real
  cs_UpperBoundAvailable :: bool
  cs_UpperBoundUSD :: real
  cs_EstimateWindow :: string
  cs_UpperBoundUnavailable :: string
  cs_DataSource :: string
  cs_DataUpdated :: string
  cs_Assumptions :: "string list"
  cs_Excluded :: "string list"

record GuardrailSummary =
  gs_MaxCostUSD :: real
  gs_MaxDuration :: string
  gs_MaxInstanceTypes :: int
  gs_MaxConcurrentResources :: int
  gs_CleanupPolicy :: string

record Plan =
  pl_SchemaVersion :: int
  pl_SideEffects :: string
  pl_Remote :: bool
  pl_Provider :: string
  pl_Workload :: string
  pl_Region :: string
  pl_Zone :: string
  pl_Selector :: Selector
  pl_ConfiguredModes :: "ModeSummary list"
  pl_Instances :: "InstancePlan list"
  pl_Resources :: ResourceSummary
  pl_Cost :: CostSummary
  pl_Guardrails :: GuardrailSummary
  pl_RequiredTools :: "string list"
  pl_RequiredCredentials :: "string list"
  pl_Warnings :: "string list"
  pl_RedactedConfiguration :: string

record PlanRequest =
  rq_CompiledProvider :: string
  rq_Config :: "Config option"
  rq_Catalog :: "Catalog option"

section \<open>The pricing catalogue (catalog.go)\<close>

fun digitsValue :: "int \<Rightarrow> string \<Rightarrow> int option" where
  "digitsValue acc [] = Some acc"
| "digitsValue acc (c # cs) = (if isDigit c then digitsValue (wrap64 (acc * 10 + digitVal c)) cs else None)"

definition trailingInteger :: "string list \<Rightarrow> int" where
  "trailingInteger parts = (if parts = [] then 0 else case digitsValue 0 (last parts) of None \<Rightarrow> 0 | Some v \<Rightarrow> v)"

fun leadingDigits :: "bool \<Rightarrow> int \<Rightarrow> string \<Rightarrow> int" where
  "leadingDigits started result [] = result"
| "leadingDigits started result (c # cs) =
    (if isDigit c then leadingDigits True (wrap64 (result * 10 + digitVal c)) cs
     else if started then result else leadingDigits started result cs)"

definition leadingDigitsAfterLetters :: "string \<Rightarrow> int" where
  "leadingDigitsAfterLetters v = leadingDigits False 0 v"

definition instanceVCPUs :: "string \<Rightarrow> string \<Rightarrow> int" where
  "instanceVCPUs provider instanceType = (let cp = canonicalProvider provider in
     if cp = ''gcp'' then trailingInteger (Split (CHR ''-'') instanceType)
     else if cp = ''azure'' then leadingDigitsAfterLetters (TrimPrefix instanceType ''Standard_'')
     else if cp = ''aws'' then
       (let size = (case Cut (CHR ''.'') instanceType of (_, after, ok) \<Rightarrow> if ok then after else instanceType) in
        if size = ''medium'' then 1 else if size = ''large'' then 2 else if size = ''xlarge'' then 4
        else if size = ''metal'' \<or> size = ''metal-24xl'' then 0
        else if HasSuffix size ''xlarge'' then
          (case digitsValue 0 (TrimSuffix size ''xlarge'') of None \<Rightarrow> 0 | Some n \<Rightarrow> wrap64 (n * 4))
        else 0)
     else 0)"

definition PricingCatalog :: "Dataset \<Rightarrow> Catalog" where
  "PricingCatalog ds providerName region = (case ListPrices ds providerName region of (entries, meta) \<Rightarrow>
     Inr (map (\<lambda>entry. \<lparr>ct_Type = en_InstanceType entry,
            ct_Family = GetInstanceFamily providerName (en_InstanceType entry),
            ct_FamilyGroup = InstanceFamilyGroup providerName (en_InstanceType entry),
            ct_VCPUs = instanceVCPUs providerName (en_InstanceType entry),
            ct_HourlyUSD = en_HourlyUSD entry\<rparr>) entries,
          \<lparr>cm_Source = mt_Source meta, cm_Updated = mt_Updated meta\<rparr>))"

section \<open>Building a plan (build.go)\<close>

definition valueOr :: "string \<Rightarrow> string \<Rightarrow> string" where
  "valueOr value fallback = (if value \<noteq> [] then value else fallback)"

definition workloadForProvider :: "string \<Rightarrow> string" where
  "workloadForProvider provider = (if provider \<in> {''eks'', ''gke'', ''aks''} then ''kubernetes'' else ''vm'')"

definition cloudCLI :: "string \<Rightarrow> string" where
  "cloudCLI provider = (let cp = canonicalProvider provider in
     if cp = ''aws'' then ''aws'' else if cp = ''gcp'' then ''gcloud'' else if cp = ''azure'' then ''az'' else provider)"

definition requiredTools :: "string \<Rightarrow> string \<Rightarrow> string list" where
  "requiredTools provider workload = [''pulumi'', cloudCLI provider] @
     (if workload = ''kubernetes'' then [''kubectl'', ''helm''] else [])"

definition requiredCredentials :: "string \<Rightarrow> string list" where
  "requiredCredentials provider = (let credentials = [''OAUTH_CLIENT_ID'', ''OAUTH_CLIENT_SECRET'']; cp = canonicalProvider provider in
     if cp = ''aws'' then credentials @ [''AWS CLI authenticated identity'']
     else if cp = ''gcp'' then credentials @ [''gcloud authenticated account and project'']
     else if cp = ''azure'' then credentials @ [''Azure CLI authenticated subscription'']
     else credentials)"

definition providerLocation :: "string \<Rightarrow> Config \<Rightarrow> string \<times> string" where
  "providerLocation provider cfg = (let cp = canonicalProvider provider in
     if cp = ''aws'' then (c_AWSRegion cfg, c_AWSAZ cfg)
     else if cp = ''gcp'' then
       (let zone = c_GCPZone cfg; i = LastIndex (CHR ''-'') zone in
        (if 0 < i then take (nat i) zone else zone, zone))
     else if cp = ''azure'' then (c_AzureLocation cfg, c_AzureLocation cfg)
     else ([], []))"

definition redactedConfiguration :: "string \<Rightarrow> string \<Rightarrow> string \<Rightarrow> string \<Rightarrow> Config \<Rightarrow> string" where
  "redactedConfiguration provider workload region zone cfg =
     ''provider='' @ provider @ '' workload='' @ workload @ '' region='' @ region @ '' zone='' @ zone @
     '' family='' @ valueOr (c_Family cfg) ''all'' @ '' filter='' @ quoted (c_Filter cfg) @
     '' modes='' @ JoinStr '','' (c_Modes cfg) @ '' max_cost_usd='' @ fmtFixed 2 (c_MaxCostUSD cfg) @
     '' max_duration='' @ Duration_String (c_MaxDuration cfg) @
     '' max_instance_types='' @ string_of_int (c_MaxInstanceTypes cfg) @
     '' max_concurrent_resources='' @ string_of_int (c_MaxConcurrentResources cfg) @
     '' cleanup_policy='' @ c_CleanupPolicy cfg"

definition selectsInstance :: "string \<Rightarrow> (string \<Rightarrow> bool) option \<Rightarrow> CatalogInstance \<Rightarrow> bool" where
  "selectsInstance family flt inst = (let group = (if ct_FamilyGroup inst = [] then ct_Family inst else ct_FamilyGroup inst) in
     \<not> (family \<noteq> [] \<and> family \<noteq> ''all'' \<and> group \<noteq> family) \<and>
     (case flt of None \<Rightarrow> True | Some f \<Rightarrow> f (ct_Type inst)))"

definition selectInstances :: "CatalogInstance list \<Rightarrow> string \<Rightarrow> (string \<Rightarrow> bool) option \<Rightarrow> CatalogInstance list" where
  "selectInstances instances family flt =
     sort_key (\<lambda>i. (ct_VCPUs i, ct_Type i)) (filter (selectsInstance family flt) instances)"

definition resultCandidates :: "string \<Rightarrow> string \<Rightarrow> CatalogInstance \<Rightarrow> string \<Rightarrow> path list" where
  "resultCandidates rootDir provider inst mode =
    (let file = (\<lambda>name. filepath_Join [path_string (filepath_Join [rootDir, provider, ct_Family inst, ''results'']), name]) in
     file (ct_Type inst @ ''-'' @ mode @ ''.json'') #
       (if mode = ''l4-kernel'' then [file (ct_Type inst @ ''.json'')] else []))"

definition resultPath :: "(path \<Rightarrow> bool option) \<Rightarrow> string \<Rightarrow> string \<Rightarrow> CatalogInstance \<Rightarrow> string \<Rightarrow> string \<times> bool" where
  "resultPath stat rootDir provider inst mode =
    (if rootDir = [] then ([], False)
     else let candidates = resultCandidates rootDir provider inst mode in
       case find (\<lambda>p. stat p = Some False) candidates of
         Some p \<Rightarrow> (path_string p, True)
       | None \<Rightarrow> (path_string (hd candidates), False))"

definition planMode :: "(path \<Rightarrow> bool option) \<Rightarrow> Config \<Rightarrow> string \<Rightarrow> string \<Rightarrow> string \<Rightarrow> CatalogInstance \<Rightarrow> string \<Rightarrow> PlannedMode" where
  "planMode stat cfg provider workload environment inst mode =
    (if \<not> ModeAppliesTo mode environment then
       \<lparr>pm_Name = mode, pm_Applicable = False, pm_Action = ActionNotApplicable,
        pm_Reason = ''mode does not apply to '' @ workload @ '' workloads'', pm_ResultPath = []\<rparr>
     else case resultPath stat (c_RootDir cfg) provider inst mode of (targetPath, exists) \<Rightarrow>
       \<lparr>pm_Name = mode, pm_Applicable = True,
        pm_Action = (if exists then ActionSkipExisting else ActionRun),
        pm_Reason = (if exists then ''result already exists'' else []), pm_ResultPath = targetPath\<rparr>)"

definition planInstance :: "(path \<Rightarrow> bool option) \<Rightarrow> Config \<Rightarrow> string \<Rightarrow> string \<Rightarrow> string \<Rightarrow> CatalogInstance \<Rightarrow> InstancePlan" where
  "planInstance stat cfg provider workload environment inst =
    \<lparr>ip_Type = ct_Type inst, ip_Family = ct_Family inst, ip_VCPUs = ct_VCPUs inst, ip_HourlyUSD = ct_HourlyUSD inst,
     ip_Modes = map (planMode stat cfg provider workload environment inst) (c_Modes cfg)\<rparr>"

definition noResources :: ResourceSummary where
  "noResources = \<lparr>rs_MaximumServers = 0, rs_MaximumClients = 0, rs_MaximumRouters = 0, rs_MaximumComputeResources = 0,
     rs_MaximumClusters = 0, rs_MaximumNodePools = 0, rs_MaximumOperators = 0, rs_MaximumLoadBalancers = 0\<rparr>"

definition runnableModes :: "InstancePlan list \<Rightarrow> PlannedMode list" where
  "runnableModes instances = filter (\<lambda>m. pm_Action m = ActionRun) (concat (map ip_Modes instances))"

definition resourcesFor :: "string \<Rightarrow> InstancePlan list \<Rightarrow> ResourceSummary" where
  "resourcesFor workload instances =
    (let modes = runnableModes instances;
         needsRouter = list_ex (\<lambda>m. pm_Name m = ''forward-pps-exit'' \<or> pm_Name m = ''relay-throughput'') modes;
         needsLoadBalancer = list_ex (\<lambda>m. pm_Name m = ''l4-lb'' \<or> HasPrefix (pm_Name m) ''l7-ingress'') modes in
     if modes = [] then noResources
     else if workload = ''vm'' then
       noResources\<lparr>rs_MaximumServers := 1, rs_MaximumClients := 1, rs_MaximumRouters := (if needsRouter then 1 else 0),
         rs_MaximumComputeResources := 1 + 1 + (if needsRouter then 1 else 0)\<rparr>
     else noResources\<lparr>rs_MaximumClusters := 1, rs_MaximumNodePools := 1, rs_MaximumOperators := 1,
         rs_MaximumComputeResources := 2, rs_MaximumLoadBalancers := (if needsLoadBalancer then 1 else 0)\<rparr>)"

definition instanceHasWork :: "InstancePlan \<Rightarrow> bool" where
  "instanceHasWork inst = list_ex (\<lambda>m. pm_Action m = ActionRun) (ip_Modes inst)"

definition highestPrice :: "InstancePlan list \<Rightarrow> real" where
  "highestPrice instances = fold (\<lambda>inst highest.
     if highest < ip_HourlyUSD inst \<and> instanceHasWork inst then ip_HourlyUSD inst else highest) instances 0"

definition Hours :: "duration \<Rightarrow> real" where
  "Hours d = real_of_int d / 3600000000000"

definition costFor :: "CatalogMetadata \<Rightarrow> ResourceSummary \<Rightarrow> InstancePlan list \<Rightarrow> string \<Rightarrow> Config option \<Rightarrow> CostSummary" where
  "costFor metadata resources instances workload cfg =
    (let multiplier0 = rs_MaximumComputeResources resources;
         multiplier = (if workload = ''kubernetes'' \<and> multiplier0 = 0 \<and> instances \<noteq> [] then 2 else multiplier0);
         maximum = highestPrice instances * real_of_int multiplier;
         timed = (case cfg of None \<Rightarrow> False | Some c \<Rightarrow> 0 < c_MaxDuration c);
         windowEstimate = (if timed then maximum * Hours (c_MaxDuration (the cfg)) else 0);
         estimateWindow = (if timed then Duration_String (c_MaxDuration (the cfg)) else []);
         available = (case cfg of None \<Rightarrow> False | Some c \<Rightarrow> c_CleanupPolicy c = CleanupAlways \<and> estimateWindow \<noteq> []);
         unavailable = (case cfg of None \<Rightarrow> [] | Some c \<Rightarrow>
           if \<not> available \<and> (c_CleanupPolicy c = CleanupOnSuccess \<or> c_CleanupPolicy c = CleanupManual) then
             ''cleanup policy '' @ quoted (c_CleanupPolicy c) @
             '' can leave resources running after max_duration; lifetime cost has no bounded estimate and continues until cleanup succeeds''
           else [])
     in \<lparr>cs_Estimate = 0 < maximum, cs_MaximumHourlyUSD = maximum, cs_ExecutionWindowUSD = windowEstimate,
         cs_UpperBoundAvailable = available, cs_UpperBoundUSD = (if available then windowEstimate else 0),
         cs_EstimateWindow = estimateWindow, cs_UpperBoundUnavailable = unavailable,
         cs_DataSource = cm_Source metadata, cs_DataUpdated = cm_Updated metadata,
         cs_Assumptions = [''selected compute resources use indicative on-demand Linux prices'',
           ''only one benchmark topology runs concurrently''],
         cs_Excluded = [''network transfer, storage, taxes, discounts, and provider control-plane charges'']\<rparr>)"

text \<open>The loop over the configured modes: the first invalid mode ends it with an error.\<close>

fun summarizeModes :: "string \<Rightarrow> string \<Rightarrow> string list \<Rightarrow> go_error + ModeSummary list" where
  "summarizeModes workload environment [] = Inr []"
| "summarizeModes workload environment (mode # modes) =
    (if \<not> IsValidMode mode then Inl (ErrText (''invalid benchmark mode '' @ quoted mode))
     else if ModeUsesTsnet mode then
       Inl (ErrText (''benchmark mode '' @ quoted mode @ '' is not implemented; remove it before running''))
     else case summarizeModes workload environment modes of Inl e \<Rightarrow> Inl e
       | Inr rest \<Rightarrow> (let applicable = ModeAppliesTo mode environment in
           Inr (\<lparr>ms_Name = mode, ms_Applicable = applicable,
             ms_Reason = (if applicable then [] else ''mode does not apply to '' @ workload @ '' workloads'')\<rparr> # rest)))"

definition environmentOf :: "string \<Rightarrow> string" where
  "environmentOf workload = (if workload = ''kubernetes'' then ''container'' else ''vm'')"

definition planWarnings :: "CatalogInstance list \<Rightarrow> CatalogMetadata \<Rightarrow> CostSummary \<Rightarrow> string list" where
  "planWarnings selected metadata cost =
     (if selected = [] then [''no matching instances are present in the checked-in local price catalog; use doctor --remote to verify provider availability''] else [])
   @ (if cm_Source metadata = [] then [''local catalog does not identify its pricing source''] else [])
   @ (if \<not> cs_UpperBoundAvailable cost \<and> cs_UpperBoundUnavailable cost \<noteq> [] then [cs_UpperBoundUnavailable cost] else [])"

definition assemblePlan :: "(path \<Rightarrow> bool option) \<Rightarrow> string \<Rightarrow> Config \<Rightarrow> ModeSummary list \<Rightarrow> CatalogInstance list \<Rightarrow>
    CatalogMetadata \<Rightarrow> Plan" where
  "assemblePlan stat provider cfg modeSummaries selected metadata =
    (let workload = workloadForProvider provider;
         loc = providerLocation provider cfg;
         instancePlans = map (planInstance stat cfg provider workload (environmentOf workload)) selected;
         resources = resourcesFor workload instancePlans;
         cost = costFor metadata resources instancePlans workload (Some cfg)
     in \<lparr>pl_SchemaVersion = 1, pl_SideEffects = ''none'', pl_Remote = False, pl_Provider = provider,
         pl_Workload = workload, pl_Region = fst loc, pl_Zone = snd loc,
         pl_Selector = \<lparr>sl_Family = valueOr (c_Family cfg) ''all'', sl_Filter = c_Filter cfg\<rparr>,
         pl_ConfiguredModes = modeSummaries, pl_Instances = instancePlans, pl_Resources = resources, pl_Cost = cost,
         pl_Guardrails = \<lparr>gs_MaxCostUSD = c_MaxCostUSD cfg, gs_MaxDuration = Duration_String (c_MaxDuration cfg),
           gs_MaxInstanceTypes = c_MaxInstanceTypes cfg, gs_MaxConcurrentResources = c_MaxConcurrentResources cfg,
           gs_CleanupPolicy = c_CleanupPolicy cfg\<rparr>,
         pl_RequiredTools = requiredTools provider workload, pl_RequiredCredentials = requiredCredentials provider,
         pl_Warnings = planWarnings selected metadata cost,
         pl_RedactedConfiguration = redactedConfiguration provider workload (fst loc) (snd loc) cfg\<rparr>)"

definition checkProviders :: "string \<Rightarrow> string list \<Rightarrow> go_error option" where
  "checkProviders compiled providers =
    (if length providers \<noteq> 1 then
       Some (ErrText (''exactly one provider is required for '' @ compiled @ ''; got '' @ string_of_nat (length providers)))
     else case find (\<lambda>p. p \<noteq> compiled) providers of
       Some p \<Rightarrow> Some (ErrText (''requested provider '' @ quoted p @ '', but this binary was compiled for '' @ quoted compiled))
     | None \<Rightarrow> None)"

definition compileFilter :: "(string \<Rightarrow> go_error + (string \<Rightarrow> bool)) \<Rightarrow> string \<Rightarrow> go_error + (string \<Rightarrow> bool) option" where
  "compileFilter compile pat = (if pat = [] then Inr None
     else case compile pat of Inl e \<Rightarrow> Inl (Wrapf (''invalid instance filter '' @ quoted pat @ '': '') e [])
       | Inr f \<Rightarrow> Inr (Some f))"

definition Build :: "(string \<Rightarrow> go_error + (string \<Rightarrow> bool)) \<Rightarrow> Dataset \<Rightarrow> (path \<Rightarrow> bool option) \<Rightarrow> go_error option \<Rightarrow>
    PlanRequest \<Rightarrow> go_error + Plan" where
  "Build compile ds stat ctxErr request = (case ctxErr of Some e \<Rightarrow> Inl e | None \<Rightarrow>
    (case rq_Config request of None \<Rightarrow> Inl (ErrText ''configuration is required'') | Some cfg \<Rightarrow>
      (let provider = rq_CompiledProvider request in
       if provider = [] then Inl (ErrText ''compiled provider identity is required'')
       else case checkProviders provider (c_Providers cfg) of Some e \<Rightarrow> Inl e | None \<Rightarrow>
        (case compileFilter compile (c_Filter cfg) of Inl e \<Rightarrow> Inl e | Inr flt \<Rightarrow>
          (let workload = workloadForProvider provider in
           case summarizeModes workload (environmentOf workload) (c_Modes cfg) of Inl e \<Rightarrow> Inl e | Inr modeSummaries \<Rightarrow>
            (case (case rq_Catalog request of None \<Rightarrow> PricingCatalog ds | Some c \<Rightarrow> c) provider (fst (providerLocation provider cfg)) of
               Inl e \<Rightarrow> Inl (Wrapf ''load local instance catalog: '' e [])
             | Inr (catalogInstances, metadata) \<Rightarrow>
                 Inr (assemblePlan stat provider cfg modeSummaries
                   (selectInstances catalogInstances (c_Family cfg) flt) metadata)))))))"

end
