(* ===== verification/Plan_Render.thy ===== *)
theory Plan_Render
  imports Plan
begin

text \<open>
  The text form of a plan (internal/plan/render.go): the sequence of writes of \<^verbatim>\<open>WriteText\<close>, each
  definition one part of it, run by \<open>writeAll\<close>, which stops at the first write that fails.
\<close>

definition renderHeader :: "Plan \<Rightarrow> string list" where
  "renderHeader p =
     [''TAILBENCH LOCAL PLAN'' @ newline, ''SIDE EFFECTS: none'' @ newline,
      ''provider: '' @ pl_Provider p @ newline @ ''workload: '' @ pl_Workload p @ newline]
   @ (if pl_Region p \<noteq> [] then [''region: '' @ pl_Region p @ newline] else [])
   @ (if pl_Zone p \<noteq> [] then [''zone: '' @ pl_Zone p @ newline] else [])
   @ [''selector: family='' @ sl_Family (pl_Selector p) @ '' filter='' @ quoted (sl_Filter (pl_Selector p)) @ newline]"

definition renderDetail :: "string \<Rightarrow> string" where
  "renderDetail reason = (if reason \<noteq> [] then '': '' @ reason else [])"

definition renderConfiguredModes :: "Plan \<Rightarrow> string list" where
  "renderConfiguredModes p = (''configured modes:'' @ newline) # map (\<lambda>m.
     ''  - '' @ ms_Name m @ '': '' @ (if ms_Applicable m then ''applicable'' else ''not-applicable'')
       @ renderDetail (ms_Reason m) @ newline) (pl_ConfiguredModes p)"

definition renderInstance :: "InstancePlan \<Rightarrow> string list" where
  "renderInstance i =
     (''  - '' @ ip_Type i @ '' ('' @ string_of_int (ip_VCPUs i) @ '' vCPUs, estimated $'' @ fmtFixed 5 (ip_HourlyUSD i) @ ''/hour)'' @ newline)
     # map (\<lambda>m. ''      '' @ pm_Name m @ '': '' @ action_text (pm_Action m) @ renderDetail (pm_Reason m) @ newline) (ip_Modes i)"

definition renderInstances :: "Plan \<Rightarrow> string list" where
  "renderInstances p = [''instances:'' @ newline]
   @ (if pl_Instances p = [] then [''  (none resolved from local catalog)'' @ newline] else [])
   @ concat (map renderInstance (pl_Instances p))"

definition renderResources :: "Plan \<Rightarrow> string list" where
  "renderResources p = (let r = pl_Resources p in
     [''maximum resources: compute='' @ string_of_int (rs_MaximumComputeResources r) @ '' servers='' @ string_of_int (rs_MaximumServers r)
      @ '' clients='' @ string_of_int (rs_MaximumClients r) @ '' routers='' @ string_of_int (rs_MaximumRouters r)
      @ '' clusters='' @ string_of_int (rs_MaximumClusters r) @ '' node-pools='' @ string_of_int (rs_MaximumNodePools r)
      @ '' load-balancers='' @ string_of_int (rs_MaximumLoadBalancers r) @ newline])"

definition renderCost :: "Plan \<Rightarrow> string list" where
  "renderCost p = (let c = pl_Cost p; g = fmtFixed 2 (gs_MaxCostUSD (pl_Guardrails p)) in
     (if cs_Estimate c then
        (''estimated maximum compute rate: $'' @ fmtFixed 5 (cs_MaximumHourlyUSD c) @ ''/hour'' @ newline) #
        (if cs_UpperBoundAvailable c then
           [''estimated upper bound for '' @ cs_EstimateWindow c @ '': $'' @ fmtFixed 2 (cs_UpperBoundUSD c) @ '' (guardrail $'' @ g @ '')'' @ newline]
         else
           [''estimated compute cost for '' @ cs_EstimateWindow c @ '' execution window: $'' @ fmtFixed 2 (cs_ExecutionWindowUSD c)
              @ '' (window guardrail $'' @ g @ '')'' @ newline,
            ''estimated lifetime cost upper bound: unavailable'' @ newline])
      else [''estimated maximum compute rate: unavailable'' @ newline])
     @ [''price data: '' @ cs_DataSource c @ '' (updated '' @ cs_DataUpdated c @ '')'' @ newline])"

definition renderRequirements :: "Plan \<Rightarrow> string list" where
  "renderRequirements p = (let g = pl_Guardrails p in
     [''guardrails: duration='' @ gs_MaxDuration g @ '' instance-types='' @ string_of_int (gs_MaxInstanceTypes g)
        @ '' concurrent-topologies='' @ string_of_int (gs_MaxConcurrentResources g) @ '' cleanup='' @ gs_CleanupPolicy g @ newline,
      ''required tools: '' @ JoinStr '', '' (pl_RequiredTools p) @ newline,
      ''required credentials for execution: '' @ JoinStr '', '' (pl_RequiredCredentials p) @ newline]
     @ map (\<lambda>w. ''warning: '' @ w @ newline) (pl_Warnings p))"

definition WriteText :: "Plan option \<Rightarrow> 's Writer \<Rightarrow> 's \<Rightarrow> go_error option \<times> 's" where
  "WriteText po dst s = (case po of None \<Rightarrow> (Some (ErrText ''plan is nil''), s)
     | Some p \<Rightarrow> writeAll dst (renderHeader p @ renderConfiguredModes p @ renderInstances p @ renderResources p
         @ renderCost p @ renderRequirements p) s)"

end
