(* ===== verification/Guardrail.thy ===== *)
theory Guardrail
  imports Plan
begin

text \<open>
  Package internal/guardrail: the check of a local plan against the limits of the configuration,
  before anything is provisioned. \<open>Check\<close> collects every violation; a plan is allowed when there is none.
\<close>

record Violation =
  v_Code :: string
  v_Message :: string
  v_Remediation :: string

record Decision =
  dc_Allowed :: bool
  dc_SelectedInstanceTypes :: int
  dc_EstimatedWindowUSD :: real
  dc_EstimatedUpperUSD :: real
  dc_Violations :: "Violation list"

definition violation :: "string \<Rightarrow> string \<Rightarrow> string \<Rightarrow> Violation" where
  "violation code message remediation = \<lparr>v_Code = code, v_Message = message, v_Remediation = remediation\<rparr>"

definition guardrailCost :: "CostSummary \<Rightarrow> real" where
  "guardrailCost cost = (if cs_UpperBoundAvailable cost then cs_UpperBoundUSD cost else cs_ExecutionWindowUSD cost)"

definition runnableInstanceTypes :: "Plan \<Rightarrow> int" where
  "runnableInstanceTypes p = int (length (filter (\<lambda>i. list_ex (\<lambda>m. pm_Action m = ActionRun) (ip_Modes i)) (pl_Instances p)))"

definition selectedWork :: "Plan \<Rightarrow> string list \<times> string list" where
  "selectedWork p = (let ws = concat (map (\<lambda>i. map (\<lambda>m. (ip_Type i, pm_Name m)) (filter (\<lambda>m. pm_Action m = ActionRun) (ip_Modes i))) (pl_Instances p))
     in (sortedKeys (map fst ws), sortedKeys (map snd ws)))"

definition modeViolations :: "Plan \<Rightarrow> Violation list" where
  "modeViolations p = map (\<lambda>m.
     let message = (if ms_Reason m = [] then ''does not apply to '' @ pl_Workload p @ '' workloads'' else ms_Reason m) in
     violation ''incompatible-mode'' (''mode '' @ quoted (ms_Name m) @ '' '' @ TrimPrefix message ''mode '')
       ''remove the incompatible mode or choose the matching VM/Kubernetes binary'')
     (filter (\<lambda>m. \<not> ms_Applicable m) (pl_ConfiguredModes p))"

definition costViolations :: "Plan \<Rightarrow> Config \<Rightarrow> Violation list" where
  "costViolations p cfg =
    (if 0 < runnableInstanceTypes p \<and> \<not> cs_Estimate (pl_Cost p) then
       [violation ''cost-estimate-unavailable'' ''the selected work has no enforceable local cost estimate''
          ''select priced instance types or use a reviewed remote plan before running'']
     else if c_MaxCostUSD cfg < guardrailCost (pl_Cost p) then
       (let bounded = cs_UpperBoundAvailable (pl_Cost p) in
        [violation ''max-cost-usd''
           ((if bounded then ''estimated upper bound'' else ''estimated execution-window cost'') @ '' $'' @
             fmtFixed 2 (guardrailCost (pl_Cost p)) @ '' exceeds the configured $'' @ fmtFixed 2 (c_MaxCostUSD cfg) @ '' ceiling'')
           (if bounded then ''reduce duration/selection or explicitly raise --max-cost-usd''
            else ''reduce duration/selection, explicitly raise --max-cost-usd, or use cleanup_policy always for a bounded estimate'')])
     else [])"

definition limitViolations :: "Plan \<Rightarrow> Config \<Rightarrow> Violation list" where
  "limitViolations p cfg = (let n = runnableInstanceTypes p in
     if c_MaxInstanceTypes cfg < n then
       [violation ''max-instance-types'' (''plan has '' @ string_of_int n @ '' instance types with pending work; limit is '' @ string_of_int (c_MaxInstanceTypes cfg))
          ''narrow --family/--filter or explicitly raise --max-instance-types'']
     else [])"

definition checkViolations :: "Plan \<Rightarrow> Config \<Rightarrow> Violation list" where
  "checkViolations p cfg =
     (if runnableInstanceTypes p = 0 then
        [violation ''no-runnable-work'' ''the local plan has no instance types with pending applicable work''
           ''adjust --family/--filter/modes or use results to inspect existing output''] else [])
   @ modeViolations p
   @ (if c_Yes cfg \<and> \<not> c_MaxCostSet cfg then
        [violation ''noninteractive-cost-required'' ''--yes requires an explicitly configured --max-cost-usd ceiling''
           ''set --max-cost-usd to an approved positive amount''] else [])
   @ limitViolations p cfg
   @ costViolations p cfg
   @ (if c_MaxConcurrentResources cfg < 1 then
        [violation ''max-concurrent-resources'' ''the concurrency limit must allow one benchmark topology''
           ''set --max-concurrent-resources to at least 1''] else [])
   @ (if c_CleanupPolicy cfg \<in> {CleanupAlways, CleanupOnSuccess, CleanupManual} then []
      else [violation ''cleanup-policy'' (''cleanup policy '' @ quoted (c_CleanupPolicy cfg) @ '' is invalid'')
           ''use always, on-success, or manual''])"

definition Check :: "Plan option \<Rightarrow> Config option \<Rightarrow> Decision" where
  "Check po co = (case (po, co) of
     (Some p, Some cfg) \<Rightarrow>
       \<lparr>dc_Allowed = (checkViolations p cfg = []), dc_SelectedInstanceTypes = runnableInstanceTypes p,
        dc_EstimatedWindowUSD = cs_ExecutionWindowUSD (pl_Cost p),
        dc_EstimatedUpperUSD = (if cs_UpperBoundAvailable (pl_Cost p) then cs_UpperBoundUSD (pl_Cost p) else 0),
        dc_Violations = checkViolations p cfg\<rparr>
   | _ \<Rightarrow>
       \<lparr>dc_Allowed = False, dc_SelectedInstanceTypes = 0, dc_EstimatedWindowUSD = 0, dc_EstimatedUpperUSD = 0,
        dc_Violations = [violation ''guardrail-input'' ''a local plan and effective configuration are required''
          ''rebuild the local plan before requesting execution'']\<rparr>)"

text \<open>The writes of the confirmation text.\<close>

definition confirmationText :: "Plan \<Rightarrow> Config \<Rightarrow> Decision \<Rightarrow> string list" where
  "confirmationText p cfg decision = (let r = pl_Resources p; c = pl_Cost p; ceiling = fmtFixed 2 (c_MaxCostUSD cfg) in
     [''TAILBENCH EXECUTION CONFIRMATION'' @ newline,
      ''provider: '' @ pl_Provider p @ newline @ ''workload: '' @ pl_Workload p @ newline @ ''region: '' @ pl_Region p @ newline,
      ''pending instance types: '' @ string_of_int (dc_SelectedInstanceTypes decision) @ '' (limit '' @ string_of_int (c_MaxInstanceTypes cfg) @ '')'' @ newline,
      ''instance types: '' @ JoinStr '', '' (fst (selectedWork p)) @ newline @ ''modes: '' @ JoinStr '', '' (snd (selectedWork p)) @ newline,
      ''maximum topology: compute='' @ string_of_int (rs_MaximumComputeResources r) @ '' clusters='' @ string_of_int (rs_MaximumClusters r)
        @ '' load-balancers='' @ string_of_int (rs_MaximumLoadBalancers r) @ newline,
      ''duration limit: '' @ Duration_String (c_MaxDuration cfg) @ newline,
      (if cs_UpperBoundAvailable c then
         ''estimated cost upper bound: $'' @ fmtFixed 2 (cs_UpperBoundUSD c) @ newline @ ''cost ceiling: $'' @ ceiling @ newline
       else ''estimated execution-window cost: $'' @ fmtFixed 2 (cs_ExecutionWindowUSD c) @ newline @
         ''execution-window cost ceiling: $'' @ ceiling @ newline @ ''lifetime cost upper bound: unavailable'' @ newline),
      ''cleanup policy: '' @ c_CleanupPolicy cfg @ newline,
      ''Proceed? [y/N]: ''])"

definition WriteConfirmation :: "'s Writer \<Rightarrow> Plan option \<Rightarrow> Config option \<Rightarrow> Decision \<Rightarrow> 's \<Rightarrow> go_error option \<times> 's" where
  "WriteConfirmation dst po co decision s = (case (po, co) of
     (Some p, Some cfg) \<Rightarrow> writeAll dst (confirmationText p cfg decision) s
   | _ \<Rightarrow> (Some (ErrText ''local plan and configuration are required''), s))"

end
