(* ===== verification/Plan_Props.thy ===== *)
theory Plan_Props
  imports Guardrail "HOL-Library.Multiset"
begin

text \<open>
  Theorems on plans and guardrails: which work a plan contains and in what order, what its cost figures
  bound, and what an allowed decision guarantees. The catalogue is an interface: the lemmas on its
  clients are proved from its law and the pricing catalogue is an instance of it.
\<close>

section \<open>The catalogue interface\<close>

locale instance_catalog =
  fixes Instances :: Catalog
  assumes types_distinct: "Instances p r = Inr (xs, md) \<Longrightarrow> distinct (map ct_Type xs)"
begin

lemma selected_distinct:
  assumes "Instances p r = Inr (xs, md)"
  shows "distinct (map ct_Type (selectInstances xs family flt))"
proof -
  have "distinct (map ct_Type (filter (selectsInstance family flt) xs))"
    using types_distinct[OF assms] by (simp add: distinct_map inj_on_def)
  moreover have "mset (map ct_Type (selectInstances xs family flt)) = mset (map ct_Type (filter (selectsInstance family flt) xs))"
    by (simp add: selectInstances_def)
  ultimately show ?thesis by (metis mset_eq_imp_distinct_iff)
qed

lemma planned_distinct:
  assumes "Instances p r = Inr (xs, md)"
  shows "distinct (map ip_Type (pl_Instances (assemblePlan stat p cfg ms (selectInstances xs family flt) md)))"
  using selected_distinct[OF assms] by (simp add: assemblePlan_def Let_def planInstance_def comp_def)

end

interpretation pc: instance_catalog "PricingCatalog ds" for ds
proof
  fix p r xs md
  assume a: "PricingCatalog ds p r = Inr (xs, md)"
  have k: "map en_InstanceType (map (\<lambda>(t, p). \<lparr>en_InstanceType = t, en_HourlyUSD = p\<rparr>) ys) = map fst ys" for ys
    by auto
  have "mset (map en_InstanceType (sort_key en_InstanceType ys)) = mset (map en_InstanceType ys)" for ys :: "Entry list"
    by simp
  then have s: "distinct (map en_InstanceType (sort_key en_InstanceType ys)) = distinct (map en_InstanceType ys)" for ys :: "Entry list"
    by (metis mset_eq_imp_distinct_iff)
  have "distinct (map en_InstanceType (fst (ListPrices ds p r)))"
    unfolding ListPrices_def Let_def fst_conv s k using distinct_regionPrices by simp
  with a show "distinct (map ct_Type xs)"
    by (auto simp: PricingCatalog_def comp_def split: prod.splits)
qed

section \<open>What a successful Build contains\<close>

definition catalogOf :: "Dataset \<Rightarrow> PlanRequest \<Rightarrow> Catalog" where
  "catalogOf ds request = (case rq_Catalog request of None \<Rightarrow> PricingCatalog ds | Some c \<Rightarrow> c)"

lemma Build_cases:
  assumes "Build compile ds stat ctxErr request = Inr p"
  obtains cfg flt ms xs md where "rq_Config request = Some cfg" "c_Providers cfg = [rq_CompiledProvider request]"
    "compileFilter compile (c_Filter cfg) = Inr flt"
    "summarizeModes (workloadForProvider (rq_CompiledProvider request))
       (environmentOf (workloadForProvider (rq_CompiledProvider request))) (c_Modes cfg) = Inr ms"
    "catalogOf ds request (rq_CompiledProvider request) (fst (providerLocation (rq_CompiledProvider request) cfg)) = Inr (xs, md)"
    "p = assemblePlan stat (rq_CompiledProvider request) cfg ms (selectInstances xs (c_Family cfg) flt) md"
proof -
  have one: "checkProviders c ps = None \<Longrightarrow> ps = [c]" for c ps
    by (cases ps; cases "tl ps") (auto simp: checkProviders_def find_None_all split: if_splits option.splits)
  show ?thesis using assms one that
    by (auto simp: Build_def catalogOf_def Let_def split: option.splits sum.splits if_splits)
qed

lemma summarizeModes_Inr: "summarizeModes w env modes = Inr ms \<Longrightarrow>
    map ms_Name ms = modes \<and> (\<forall>m \<in> set ms. ms_Applicable m = ModeAppliesTo (ms_Name m) env) \<and>
    (\<forall>mode \<in> set modes. IsValidMode mode \<and> \<not> ModeUsesTsnet mode)"
  by (induction modes arbitrary: ms) (auto simp: Let_def split: if_splits sum.splits)

definition resultExists :: "(path \<Rightarrow> bool option) \<Rightarrow> string \<Rightarrow> string \<Rightarrow> CatalogInstance \<Rightarrow> string \<Rightarrow> bool" where
  "resultExists stat rootDir provider inst mode \<longleftrightarrow> rootDir \<noteq> [] \<and>
     (\<exists>p \<in> set (resultCandidates rootDir provider inst mode). stat p = Some False)"

lemma resultPath_exists: "snd (resultPath stat rootDir provider inst mode) = resultExists stat rootDir provider inst mode"
  by (auto simp: resultPath_def resultExists_def Let_def find_None_all dest: find_Some_in split: option.split)

lemma planMode_action:
  "pm_Action (planMode stat cfg provider workload env inst mode) =
     (if \<not> ModeAppliesTo mode env then ActionNotApplicable
      else if resultExists stat (c_RootDir cfg) provider inst mode then ActionSkipExisting else ActionRun)"
  "pm_Name (planMode stat cfg provider workload env inst mode) = mode"
  by (auto simp: planMode_def resultPath_exists[symmetric] split: prod.split)

text \<open>
  C11 A successful Build plans exactly the selected work: its instances are the catalogue's instances
  that match the family and the filter, in the order of their vCPU counts and names, each with every
  configured mode in the configured order; a mode is to run exactly when it applies to the workload and
  no result file for it exists; and every configured mode is valid and implemented.
\<close>

theorem Build_plans_selected_work:
  assumes "Build compile ds stat ctxErr request = Inr p" "rq_Config request = Some cfg"
  shows "\<exists>flt xs md insts. compileFilter compile (c_Filter cfg) = Inr flt \<and>
     catalogOf ds request (rq_CompiledProvider request) (pl_Region p) = Inr (xs, md) \<and>
     mset insts = mset (filter (selectsInstance (c_Family cfg) flt) xs) \<and>
     sorted (map (\<lambda>i. (ct_VCPUs i, ct_Type i)) insts) \<and>
     map ip_Type (pl_Instances p) = map ct_Type insts \<and>
     (\<forall>k < length insts. map pm_Name (ip_Modes (pl_Instances p ! k)) = c_Modes cfg \<and>
        (\<forall>m \<in> set (ip_Modes (pl_Instances p ! k)). pm_Action m = ActionRun \<longleftrightarrow>
           ModeAppliesTo (pm_Name m) (environmentOf (pl_Workload p)) \<and>
           \<not> resultExists stat (c_RootDir cfg) (pl_Provider p) (insts ! k) (pm_Name m))) \<and>
     (\<forall>mode \<in> set (c_Modes cfg). IsValidMode mode \<and> \<not> ModeUsesTsnet mode)"
proof -
  obtain flt ms xs md where b: "compileFilter compile (c_Filter cfg) = Inr flt"
    "summarizeModes (workloadForProvider (rq_CompiledProvider request))
       (environmentOf (workloadForProvider (rq_CompiledProvider request))) (c_Modes cfg) = Inr ms"
    "catalogOf ds request (rq_CompiledProvider request) (fst (providerLocation (rq_CompiledProvider request) cfg)) = Inr (xs, md)"
    "p = assemblePlan stat (rq_CompiledProvider request) cfg ms (selectInstances xs (c_Family cfg) flt) md"
    using Build_cases[OF assms(1)] assms(2) by (metis option.inject)
  let ?is = "selectInstances xs (c_Family cfg) flt"
  have p: "pl_Region p = fst (providerLocation (rq_CompiledProvider request) cfg)"
    "pl_Provider p = rq_CompiledProvider request" "pl_Workload p = workloadForProvider (rq_CompiledProvider request)"
    "pl_Instances p = map (planInstance stat cfg (rq_CompiledProvider request) (pl_Workload p) (environmentOf (pl_Workload p))) ?is"
    by (simp_all add: b(4) assemblePlan_def Let_def)
  have "\<forall>k < length ?is. map pm_Name (ip_Modes (pl_Instances p ! k)) = c_Modes cfg \<and>
        (\<forall>m \<in> set (ip_Modes (pl_Instances p ! k)). pm_Action m = ActionRun \<longleftrightarrow>
           ModeAppliesTo (pm_Name m) (environmentOf (pl_Workload p)) \<and>
           \<not> resultExists stat (c_RootDir cfg) (pl_Provider p) (?is ! k) (pm_Name m))"
    by (auto simp: p(2,4) planInstance_def planMode_action comp_def)
  moreover have "sorted (map (\<lambda>i. (ct_VCPUs i, ct_Type i)) ?is)"
    "mset ?is = mset (filter (selectsInstance (c_Family cfg) flt) xs)"
    by (simp_all add: selectInstances_def)
  moreover have "map ip_Type (pl_Instances p) = map ct_Type ?is"
    by (simp add: p(4) planInstance_def comp_def)
  moreover have "\<forall>mode \<in> set (c_Modes cfg). IsValidMode mode \<and> \<not> ModeUsesTsnet mode"
    using summarizeModes_Inr[OF b(2)] by blast
  ultimately show ?thesis
    using b(1) b(3)[folded p(1)]
    by (intro exI[of _ flt] exI[of _ xs] exI[of _ md] exI[of _ ?is] conjI)
qed

section \<open>Cost bounds\<close>

lemma highestPrice_fold:
  "h \<le> fold (\<lambda>inst highest. if highest < ip_HourlyUSD inst \<and> instanceHasWork inst then ip_HourlyUSD inst else highest) is h \<and>
   (\<forall>i \<in> set is. instanceHasWork i \<longrightarrow>
      ip_HourlyUSD i \<le> fold (\<lambda>inst highest. if highest < ip_HourlyUSD inst \<and> instanceHasWork inst then ip_HourlyUSD inst else highest) is h)"
proof (induction "is" arbitrary: h)
  case (Cons a "is")
  let ?h = "if h < ip_HourlyUSD a \<and> instanceHasWork a then ip_HourlyUSD a else h"
  note ih = Cons.IH[of ?h]
  have "h \<le> ?h" "instanceHasWork a \<Longrightarrow> ip_HourlyUSD a \<le> ?h" by auto
  then show ?case using ih by (auto intro: order_trans)
qed simp

lemma highestPrice_bound: "i \<in> set is \<Longrightarrow> instanceHasWork i \<Longrightarrow> ip_HourlyUSD i \<le> highestPrice is"
  unfolding highestPrice_def using highestPrice_fold[where h = 0] by blast

lemma highestPrice_nonneg: "0 \<le> highestPrice is"
  unfolding highestPrice_def using highestPrice_fold[where h = 0] by blast

lemma Duration_String_nonempty: "Duration_String d \<noteq> []"
  by (simp add: Duration_String_def Let_def)

lemma resourcesFor_nonneg: "0 \<le> rs_MaximumComputeResources (resourcesFor workload is)"
  by (simp add: resourcesFor_def noResources_def Let_def)

lemma costFor_hourly:
  assumes "i \<in> set is" "instanceHasWork i" "0 \<le> rs_MaximumComputeResources r"
  shows "ip_HourlyUSD i * real_of_int (rs_MaximumComputeResources r) \<le> cs_MaximumHourlyUSD (costFor md r is w cfg)"
proof -
  have "ip_HourlyUSD i * real_of_int n \<le> highestPrice is * real_of_int n" if "0 \<le> n" for n
    using highestPrice_bound[OF assms(1,2)] that by (simp add: mult_right_mono)
  from this[OF assms(3)] show ?thesis
    using highestPrice_nonneg[of "is"] by (auto simp: costFor_def Let_def)
qed

lemma costFor_window:
  assumes "0 < c_MaxDuration cfg"
  shows "cs_ExecutionWindowUSD (costFor md r is w (Some cfg)) = cs_MaximumHourlyUSD (costFor md r is w (Some cfg)) * Hours (c_MaxDuration cfg)"
    and "cs_UpperBoundAvailable (costFor md r is w (Some cfg)) \<longleftrightarrow> c_CleanupPolicy cfg = CleanupAlways"
    and "guardrailCost (costFor md r is w (Some cfg)) = cs_ExecutionWindowUSD (costFor md r is w (Some cfg))"
  using assms by (simp_all add: costFor_def Let_def Duration_String_nonempty guardrailCost_def)

lemma Build_cost:
  assumes "Build compile ds stat ctxErr request = Inr p" "rq_Config request = Some cfg"
  obtains md where "pl_Cost p = costFor md (pl_Resources p) (pl_Instances p) (pl_Workload p) (Some cfg)"
    "pl_Resources p = resourcesFor (pl_Workload p) (pl_Instances p)"
proof (rule Build_cases[OF assms(1)])
  fix cfg' flt ms xs md
  assume "rq_Config request = Some cfg'" "p = assemblePlan stat (rq_CompiledProvider request) cfg' ms
      (selectInstances xs (c_Family cfg') flt) md"
  then show thesis using assms(2) by (intro that[of md]) (simp_all add: assemblePlan_def Let_def)
qed

text \<open>
  C12 The window cost of a plan is an upper bound: for every instance type that has work and every time
  up to the maximum duration, the price of that type times the compute resources of the largest topology
  times the hours is at most the execution-window figure; and the lifetime upper bound is reported, with
  that same figure, exactly under the policy that always cleans up.
\<close>

theorem cost_window_bounds_work:
  assumes "Build compile ds stat ctxErr request = Inr p" "rq_Config request = Some cfg"
    and "0 < c_MaxDuration cfg" "i \<in> set (pl_Instances p)" "instanceHasWork i" "0 \<le> t" "t \<le> c_MaxDuration cfg"
    and "0 \<le> ip_HourlyUSD i"
  shows "ip_HourlyUSD i * real_of_int (rs_MaximumComputeResources (pl_Resources p)) * Hours t \<le> cs_ExecutionWindowUSD (pl_Cost p) \<and>
    (cs_UpperBoundAvailable (pl_Cost p) \<longleftrightarrow> c_CleanupPolicy cfg = CleanupAlways) \<and>
    (cs_UpperBoundAvailable (pl_Cost p) \<longrightarrow> cs_UpperBoundUSD (pl_Cost p) = cs_ExecutionWindowUSD (pl_Cost p))"
proof -
  obtain md where c: "pl_Cost p = costFor md (pl_Resources p) (pl_Instances p) (pl_Workload p) (Some cfg)"
    "pl_Resources p = resourcesFor (pl_Workload p) (pl_Instances p)"
    by (rule Build_cost[OF assms(1,2)])
  let ?n = "rs_MaximumComputeResources (pl_Resources p)"
  have n: "0 \<le> ?n" using resourcesFor_nonneg c(2) by simp
  have "ip_HourlyUSD i * real_of_int ?n * Hours t \<le> ip_HourlyUSD i * real_of_int ?n * Hours (c_MaxDuration cfg)"
    using assms(6-8) n by (intro mult_left_mono) (auto simp: Hours_def divide_right_mono)
  also have "\<dots> \<le> cs_MaximumHourlyUSD (pl_Cost p) * Hours (c_MaxDuration cfg)"
    using costFor_hourly[OF assms(4,5) n] c(1) assms(3) by (intro mult_right_mono) (auto simp: Hours_def)
  finally show ?thesis
    using costFor_window[OF assms(3)] c(1) by (auto simp: guardrailCost_def)
qed


section \<open>A concrete plan\<close>

definition sampleConfig :: Config where
  "sampleConfig = \<lparr>c_Providers = [''aws''], c_Family = ''c6i'', c_Filter = [], c_CreateTailnet = False, c_TailnetDNSName = [],
     c_OAuthClientID = ''id'', c_OAuthClientSecret = ''secret'', c_Tag = ''tag:bench'', c_IPerfDuration = 30, c_IPerfParallel = 4,
     c_IPerfIterations = 3, c_MTRCycles = 100, c_CooldownSec = 30, c_CreditRetrySec = 60, c_SSHTimeout = 120,
     c_ReadyTimeout = 300, c_AWSRegion = ''us-west-2'', c_AWSAZ = ''us-west-2a'', c_AWSKeyName = [], c_GCPProject = ''p'',
     c_GCPZone = ''us-central1-a'', c_AzureLocation = ''eastus'', c_AzureResourceGroup = ''rg'', c_AzureSSHUser = ''u'',
     c_AzureSSHPubKey = ''key'', c_CleanupNetworking = True, c_DryRun = False, c_AuthKeyRefreshSec = 1800, c_RootDir = ''/w'',
     c_StateDir = ''file:///w/state'', c_StateBackend = [], c_BenchImage = ''b'', c_TSImage = ''t'', c_FortioDuration = 30,
     c_FortioConnections = 16, c_FortioQPS = 0, c_FortioIterations = 3, c_PPSDatagramSizes = [], c_PPSLossThresholdPct = 0,
     c_PPSDurationSec = 0, c_PPSMaxRatePPS = 0, c_Modes = [''l4-kernel''], c_IngressFQDN = [], c_ServeFQDN = [],
     c_ClusterLabel = ''l'', c_Yes = True, c_MaxCostUSD = 10, c_MaxCostSet = True, c_MaxDuration = 45 * minute,
     c_MaxInstanceTypes = 2, c_MaxConcurrentResources = 1, c_CleanupPolicy = CleanupAlways, c_RunID = [],
     c_ResourceExpiresAt = []\<rparr>"

definition sampleRequest :: PlanRequest where
  "sampleRequest = \<lparr>rq_CompiledProvider = ''aws'', rq_Config = Some sampleConfig, rq_Catalog = None\<rparr>"

definition sampleInstances :: "CatalogInstance list" where
  "sampleInstances = [
     \<lparr>ct_Type = ''c6i.large'', ct_Family = ''c6i'', ct_FamilyGroup = ''c6i'', ct_VCPUs = 2, ct_HourlyUSD = 1 / 10\<rparr>,
     \<lparr>ct_Type = ''c6i.xlarge'', ct_Family = ''c6i'', ct_FamilyGroup = ''c6i'', ct_VCPUs = 4, ct_HourlyUSD = 1 / 5\<rparr>]"

definition sampleMetadata :: CatalogMetadata where
  "sampleMetadata = \<lparr>cm_Source = ''list'', cm_Updated = ''2026-01-01''\<rparr>"

definition samplePlan :: Plan where
  "samplePlan = assemblePlan (\<lambda>_. None) ''aws'' sampleConfig
     [\<lparr>ms_Name = ''l4-kernel'', ms_Applicable = True, ms_Reason = []\<rparr>] sampleInstances sampleMetadata"

lemma sample_catalog: "PricingCatalog sampleDataset ''aws'' ''us-west-2'' = Inr (sampleInstances, sampleMetadata)"
proof -
  have l: "ListPrices sampleDataset ''aws'' ''us-west-2'' =
      ([\<lparr>en_InstanceType = ''c6i.large'', en_HourlyUSD = 1 / 10\<rparr>, \<lparr>en_InstanceType = ''c6i.xlarge'', en_HourlyUSD = 1 / 5\<rparr>],
       \<lparr>mt_Source = ''list'', mt_Updated = ''2026-01-01''\<rparr>)"
    by (simp add: ListPrices_def sampleDataset_def load_def emptyDataset_def canonicalProvider_def providerPrices_def
        canonicalRegion_def regionPrices_def canonicalRegions_def)
  have f: "GetInstanceFamily ''aws'' ''c6i.large'' = ''c6i''" "GetInstanceFamily ''aws'' ''c6i.xlarge'' = ''c6i''"
    "InstanceFamilyGroup ''aws'' ''c6i.large'' = ''c6i''" "InstanceFamilyGroup ''aws'' ''c6i.xlarge'' = ''c6i''"
    "instanceVCPUs ''aws'' ''c6i.large'' = 2" "instanceVCPUs ''aws'' ''c6i.xlarge'' = 4"
    by code_simp+
  show ?thesis by (simp add: PricingCatalog_def l f sampleInstances_def sampleMetadata_def)
qed

lemma sample_Build: "Build compile sampleDataset (\<lambda>_. None) None sampleRequest = Inr samplePlan"
proof -
  have m: "summarizeModes (workloadForProvider ''aws'') (environmentOf (workloadForProvider ''aws'')) [''l4-kernel''] =
      Inr [\<lparr>ms_Name = ''l4-kernel'', ms_Applicable = True, ms_Reason = []\<rparr>]" by code_simp
  have s: "selectInstances sampleInstances ''c6i'' None = sampleInstances"
    by (simp add: selectInstances_def sampleInstances_def selectsInstance_def)
  have c: "c_Providers sampleConfig = [''aws'']" "c_Filter sampleConfig = []" "c_Modes sampleConfig = [''l4-kernel'']"
    "c_Family sampleConfig = ''c6i''" "fst (providerLocation ''aws'' sampleConfig) = ''us-west-2''"
    by (simp_all add: sampleConfig_def providerLocation_def canonicalProvider_def)
  have k: "checkProviders ''aws'' [''aws''] = None" "compileFilter compile [] = Inr None"
    by (simp_all add: checkProviders_def compileFilter_def)
  show ?thesis
    by (simp add: Build_def sampleRequest_def c k m s sample_catalog samplePlan_def Let_def del: summarizeModes.simps)
qed

definition sampleInstancePlan :: InstancePlan where
  "sampleInstancePlan = planInstance (\<lambda>_. None) sampleConfig ''aws'' ''vm'' ''vm'' (sampleInstances ! 1)"

lemma sampleInstancePlan_in: "sampleInstancePlan \<in> set (pl_Instances samplePlan)" "instanceHasWork sampleInstancePlan"
    "ip_HourlyUSD sampleInstancePlan = 1 / 5"
proof -
  have w: "workloadForProvider ''aws'' = ''vm''" "environmentOf ''vm'' = ''vm''" by code_simp+
  show "sampleInstancePlan \<in> set (pl_Instances samplePlan)"
    by (simp add: samplePlan_def assemblePlan_def Let_def w sampleInstancePlan_def sampleInstances_def)
  show "ip_HourlyUSD sampleInstancePlan = 1 / 5"
    by (simp add: sampleInstancePlan_def planInstance_def sampleInstances_def)
  have "ModeAppliesTo ''l4-kernel'' ''vm''" by code_simp
  then show "instanceHasWork sampleInstancePlan"
    by (simp add: instanceHasWork_def sampleInstancePlan_def planInstance_def planMode_action sampleConfig_def resultExists_def)
qed

theorem Build_plans_selected_work_witness:
  "\<exists>xs md. catalogOf sampleDataset sampleRequest ''aws'' (pl_Region samplePlan) = Inr (xs, md) \<and>
     (\<forall>mode \<in> set (c_Modes sampleConfig). IsValidMode mode)"
proof -
  have r: "rq_Config sampleRequest = Some sampleConfig" "rq_CompiledProvider sampleRequest = ''aws''"
    by (simp_all add: sampleRequest_def)
  from Build_plans_selected_work[OF sample_Build[of "\<lambda>_. Inl (Sentinel EOF)"] r(1), unfolded r(2)]
  show ?thesis by blast
qed

theorem cost_window_bounds_work_witness:
  "(1 / 5) * real_of_int (rs_MaximumComputeResources (pl_Resources samplePlan)) * Hours minute \<le> cs_ExecutionWindowUSD (pl_Cost samplePlan)"
proof -
  have r: "rq_Config sampleRequest = Some sampleConfig" "0 < c_MaxDuration sampleConfig" "minute \<le> c_MaxDuration sampleConfig"
    by (simp_all add: sampleRequest_def sampleConfig_def)
  show ?thesis
    using cost_window_bounds_work[OF sample_Build[of "\<lambda>_. Inl (Sentinel EOF)"] r(1,2) sampleInstancePlan_in(1,2) _ r(3)] sampleInstancePlan_in(3) by simp
qed

section \<open>Guardrails\<close>

lemma Check_allowed_iff_lib:
  "dc_Allowed (Check (Some p) (Some cfg)) \<longleftrightarrow>
     0 < runnableInstanceTypes p \<and> (\<forall>m \<in> set (pl_ConfiguredModes p). ms_Applicable m) \<and>
     (\<not> c_Yes cfg \<or> c_MaxCostSet cfg) \<and> runnableInstanceTypes p \<le> c_MaxInstanceTypes cfg \<and>
     cs_Estimate (pl_Cost p) \<and> guardrailCost (pl_Cost p) \<le> c_MaxCostUSD cfg \<and>
     1 \<le> c_MaxConcurrentResources cfg \<and>
     (c_CleanupPolicy cfg = CleanupAlways \<or> c_CleanupPolicy cfg = CleanupOnSuccess \<or> c_CleanupPolicy cfg = CleanupManual)"
proof -
  have z: "0 \<le> runnableInstanceTypes p" by (simp add: runnableInstanceTypes_def)
  have m: "modeViolations p = [] \<longleftrightarrow> (\<forall>m \<in> set (pl_ConfiguredModes p). ms_Applicable m)"
    by (simp add: modeViolations_def filter_empty_conv)
  show ?thesis
    using z by (auto simp: Check_def checkViolations_def m limitViolations_def costViolations_def Let_def split: if_splits)
qed



lemma sample_allowed: "dc_Allowed (Check (Some samplePlan) (Some sampleConfig))"
proof -
  have w: "workloadForProvider ''aws'' = ''vm''" "environmentOf ''vm'' = ''vm''" "ModeAppliesTo ''l4-kernel'' ''vm''" by code_simp+
  have act: "pm_Action (planMode (\<lambda>_. None) sampleConfig ''aws'' ''vm'' ''vm'' i ''l4-kernel'') = ActionRun" for i
    by (simp add: planMode_action w resultExists_def)
  have insts: "pl_Instances samplePlan = map (planInstance (\<lambda>_. None) sampleConfig ''aws'' ''vm'' ''vm'') sampleInstances"
    by (simp add: samplePlan_def assemblePlan_def Let_def w)
  have md: "c_Modes sampleConfig = [''l4-kernel'']" "c_MaxDuration sampleConfig = 45 * minute"
    "c_CleanupPolicy sampleConfig = CleanupAlways" by (simp_all add: sampleConfig_def)
  have run: "runnableInstanceTypes samplePlan = 2"
    by (simp add: runnableInstanceTypes_def insts sampleInstances_def planInstance_def md act)
  have res: "resourcesFor ''vm'' (pl_Instances samplePlan) =
      noResources\<lparr>rs_MaximumServers := 1, rs_MaximumClients := 1, rs_MaximumRouters := 0, rs_MaximumComputeResources := 2\<rparr>"
    by (simp add: resourcesFor_def runnableModes_def insts sampleInstances_def planInstance_def md act planMode_action(2) Let_def)
  have price: "highestPrice (pl_Instances samplePlan) = 1 / 5"
    by (simp add: highestPrice_def insts sampleInstances_def planInstance_def md act instanceHasWork_def)
  have cost: "pl_Cost samplePlan = costFor sampleMetadata (resourcesFor ''vm'' (pl_Instances samplePlan)) (pl_Instances samplePlan) ''vm'' (Some sampleConfig)"
    by (simp add: samplePlan_def assemblePlan_def Let_def w)
  have "cs_Estimate (pl_Cost samplePlan)" "guardrailCost (pl_Cost samplePlan) = 2 / 5 * Hours (45 * minute)"
    unfolding cost res by (simp_all add: costFor_def price noResources_def Let_def md guardrailCost_def Duration_String_nonempty)
  moreover have "pl_ConfiguredModes samplePlan = [\<lparr>ms_Name = ''l4-kernel'', ms_Applicable = True, ms_Reason = []\<rparr>]"
    by (simp add: samplePlan_def assemblePlan_def Let_def)
  moreover have "c_MaxCostSet sampleConfig" "c_MaxCostUSD sampleConfig = 10" "c_MaxInstanceTypes sampleConfig = 2"
    "c_MaxConcurrentResources sampleConfig = 1" by (simp_all add: sampleConfig_def)
  ultimately show ?thesis unfolding Check_allowed_iff_lib by (simp add: run Hours_def md(3))
qed




end
