(* ===== verification/Lifecycle.thy ===== *)
theory Lifecycle
  imports Runstate Plan
begin

text \<open>
  Package internal/lifecycle: runs, resumptions and cleanups wrapped in durable run state. The execution
  function a caller passes is a parameter that may change the world in any way; the recorder it receives
  is given by its operations below. The JSON encoder of the plan and SHA-256 are parameters of \<open>Run\<close>.
  A nil slice that the code tells apart from an empty one is \<^const>\<open>None\<close>. Retry counters are 64-bit.
\<close>

section \<open>Types\<close>

record ExecutionResult =
  x_BenchmarkOutcome :: OutcomeStatus
  x_CleanupOutcome :: OutcomeStatus
  x_ResourcesChanged :: bool
  x_Resources :: "Resource list option"
  x_Work :: "WorkItem list option"
  x_Failures :: "Failure list"
  x_Err :: "go_error option"

record FinalSummary =
  fs_SchemaVersion :: int
  fs_RunID :: string
  fs_Status :: RunStatus
  fs_BenchmarkOutcome :: OutcomeStatus
  fs_CleanupOutcome :: OutcomeStatus
  fs_ResourcesChanged :: bool
  fs_Recoverable :: bool
  fs_Failures :: "Failure list"

type_synonym lworld = "FinalSummary sworld"
type_synonym 'a lio = "(FinalSummary, 'a) sio"

record Recorder =
  rc_store :: Store
  rc_runID :: string

record Outcome =
  o_Manifest :: Manifest
  o_ExecutionError :: "go_error option"
  o_RunDirectory :: path
  o_LogPath :: path

type_synonym ExecuteFunc = "Recorder \<Rightarrow> lworld \<Rightarrow> ExecutionResult \<times> lworld"
type_synonym ResumeExecuteFunc = "Recorder \<Rightarrow> WorkItem list \<Rightarrow> lworld \<Rightarrow> ExecutionResult \<times> lworld"
type_synonym CleanupExecuteFunc = "Recorder \<Rightarrow> Resource list \<Rightarrow> lworld \<Rightarrow> ExecutionResult \<times> lworld"

record LifecycleRequest =
  lr_CommandLine :: "string list"
  lr_Binary :: BinaryInfo
  lr_Identity :: CloudIdentity
  lr_Plan :: "Plan option"
  lr_EffectiveConfigYAML :: string
  lr_Images :: "ImageInfo list"
  lr_Execute :: "ExecuteFunc option"

record Manager =
  mg_Store :: "Store option"
  mg_NewRunID :: "string lio"

section \<open>Work and resources\<close>

definition workFromPlan :: "Plan \<Rightarrow> WorkItem list" where
  "workFromPlan p = concat (map (\<lambda>inst. map (\<lambda>mode.
     \<lparr>wi_ID = ip_Type inst @ ''/'' @ pm_Name mode, wi_Family = ip_Family inst, wi_InstanceType = ip_Type inst,
      wi_Mode = pm_Name mode,
      wi_Status = (if pm_Action mode = ActionSkipExisting \<or> pm_Action mode = ActionNotApplicable then WorkSkipped else WorkPending),
      wi_ResultPath = pm_ResultPath mode, wi_RetryCount = 0, wi_LastError = [], wi_StartedAt = None, wi_EndedAt = None\<rparr>)
     (ip_Modes inst)) (pl_Instances p))"

definition finalizeItem :: "OutcomeStatus \<Rightarrow> gotime \<Rightarrow> WorkItem \<Rightarrow> WorkItem" where
  "finalizeItem benchmarkOutcome endedAt w =
    (if wi_Status w = WorkRunning then w\<lparr>wi_Status := WorkFailed, wi_EndedAt := Some endedAt\<rparr>
     else if benchmarkOutcome = OutcomeSucceeded \<and> wi_Status w = WorkPending
       then w\<lparr>wi_Status := WorkSucceeded, wi_EndedAt := Some endedAt\<rparr>
     else w)"

definition finalizeWork :: "WorkItem list \<Rightarrow> OutcomeStatus \<Rightarrow> go_error option \<Rightarrow> gotime \<Rightarrow> WorkItem list" where
  "finalizeWork work benchmarkOutcome executionErr endedAt = map (finalizeItem benchmarkOutcome endedAt) work"

definition combineResource :: "Resource \<Rightarrow> Resource \<Rightarrow> Resource" where
  "combineResource previous r = r\<lparr>
     r_CreatedAt := (if r_CreatedAt r = None then r_CreatedAt previous else r_CreatedAt r),
     r_CleanedAt := (if r_CleanedAt r = None then r_CleanedAt previous else r_CleanedAt r),
     r_ExpiresAt := (if r_ExpiresAt r = None then r_ExpiresAt previous else r_ExpiresAt r)\<rparr>"

fun upsertResources :: "Resource \<Rightarrow> Resource list \<Rightarrow> Resource list" where
  "upsertResources r [] = [r]"
| "upsertResources r (x # xs) = (if r_ID x \<noteq> r_ID r then x # upsertResources r xs else combineResource x r # xs)"

definition upsertManifestResource :: "Resource \<Rightarrow> Manifest \<Rightarrow> Manifest" where
  "upsertManifestResource r m = m\<lparr>m_Resources := upsertResources r (m_Resources m)\<rparr>"

definition hasRecoverableWork :: "WorkItem list \<Rightarrow> bool" where
  "hasRecoverableWork work = list_ex (\<lambda>w. wi_Status w \<in> {WorkPending, WorkRunning, WorkCleanupPending}) work"

definition hasUncleanResources :: "Resource list \<Rightarrow> bool" where
  "hasUncleanResources resources = list_ex (\<lambda>r. r_Status r \<noteq> ResourceCleaned) resources"

definition unfinishedWork :: "WorkItem list \<Rightarrow> WorkItem list" where
  "unfinishedWork work = filter (\<lambda>w. wi_Status w \<in> {WorkPending, WorkRunning, WorkFailed, WorkCleanupPending}) work"

definition uncleanResources :: "Resource list \<Rightarrow> Resource list" where
  "uncleanResources resources = filter (\<lambda>r. r_Status r \<noteq> ResourceCleaned) resources"

definition finalSummary :: "Manifest \<Rightarrow> FinalSummary" where
  "finalSummary m = \<lparr>fs_SchemaVersion = 1, fs_RunID = m_RunID m, fs_Status = m_Status m,
     fs_BenchmarkOutcome = m_BenchmarkOutcome m, fs_CleanupOutcome = m_CleanupOutcome m,
     fs_ResourcesChanged = m_ResourcesChanged m, fs_Recoverable = m_Recoverable m, fs_Failures = m_Failures m\<rparr>"

section \<open>The result of an execution\<close>

definition stampFailures :: "gotime \<Rightarrow> Failure list \<Rightarrow> Failure list" where
  "stampFailures endedAt fails = map (\<lambda>f. if IsZero (f_Time f) then f\<lparr>f_Time := endedAt\<rparr> else f) fails"

definition executionOutcomes :: "ExecutionResult \<Rightarrow> OutcomeStatus \<times> OutcomeStatus" where
  "executionOutcomes result =
    (if x_BenchmarkOutcome result = OutcomeUnset
       then (if x_Err result = None then OutcomeSucceeded else OutcomeFailed) else x_BenchmarkOutcome result,
     if x_CleanupOutcome result = OutcomeUnset
       then (if x_Err result = None then OutcomeSucceeded else OutcomePending) else x_CleanupOutcome result)"

definition executionStatus :: "go_error option \<Rightarrow> OutcomeStatus \<Rightarrow> OutcomeStatus \<Rightarrow> RunStatus" where
  "executionStatus err benchmarkOutcome cleanupOutcome =
    (if errors_Is_opt err Canceled \<or> errors_Is_opt err DeadlineExceeded then RunInterrupted
     else if benchmarkOutcome = OutcomeSucceeded \<and> cleanupOutcome = OutcomeFailed then RunPartial
     else if benchmarkOutcome = OutcomeSucceeded \<and> (cleanupOutcome = OutcomeSucceeded \<or> cleanupOutcome = OutcomeSkipped) then RunSucceeded
     else RunFailed)"

definition applyExecutionResult :: "Manifest \<Rightarrow> ExecutionResult \<Rightarrow> gotime \<Rightarrow> Manifest" where
  "applyExecutionResult m0 result endedAt =
    (case executionOutcomes result of (benchmarkOutcome, cleanupOutcome) \<Rightarrow>
     let m1 = m0\<lparr>m_BenchmarkOutcome := benchmarkOutcome, m_CleanupOutcome := cleanupOutcome,
                 m_ResourcesChanged := m_ResourcesChanged m0 \<or> x_ResourcesChanged result, m_EndedAt := Some endedAt\<rparr>;
         m2 = (case x_Resources result of None \<Rightarrow> m1 | Some rs \<Rightarrow> fold upsertManifestResource rs m1);
         m3 = (case x_Work result of Some ws \<Rightarrow> m2\<lparr>m_Work := ws\<rparr>
               | None \<Rightarrow> m2\<lparr>m_Work := finalizeWork (m_Work m2) benchmarkOutcome (x_Err result) endedAt\<rparr>);
         m4 = m3\<lparr>m_Failures := m_Failures m3 @ stampFailures endedAt (x_Failures result),
                 m_Status := executionStatus (x_Err result) benchmarkOutcome cleanupOutcome\<rparr>
     in m4\<lparr>m_Recoverable := m_Status m4 = RunInterrupted \<or> cleanupOutcome = OutcomeFailed \<or> cleanupOutcome = OutcomePending \<or>
             hasRecoverableWork (m_Work m4) \<or> hasUncleanResources (m_Resources m4)\<rparr>)"

section \<open>The recorder\<close>

definition zeroEvent :: Event where
  "zeroEvent = \<lparr>e_SchemaVersion = 0, e_RunID = [], e_Time = 0, e_Kind = EventStepStarted, e_Stage = [], e_WorkID = [],
     e_Message = [], e_From = [], e_To = []\<rparr>"

definition normalizeResource :: "string \<Rightarrow> gotime \<Rightarrow> Resource \<Rightarrow> go_error + Resource" where
  "normalizeResource runID occurred r0 =
    (if r_ID r0 = [] then Inl (ErrText ''resource ID is required'')
     else if r_CleanupOwner r0 \<noteq> [] \<and> r_CleanupOwner r0 \<noteq> runID then
       Inl (ErrText (''resource '' @ quoted (r_ID r0) @ '' cleanup owner '' @ quoted (r_CleanupOwner r0) @ '' does not match run '' @ quoted runID))
     else
       (let r1 = r0\<lparr>r_CleanupOwner := runID\<rparr>;
            r2 = (if (r_Status r1 = ResourceCreating \<or> r_Status r1 = ResourceCreated) \<and> r_CreatedAt r1 = None
                  then r1\<lparr>r_CreatedAt := Some occurred\<rparr> else r1)
        in Inr (if r_Status r2 = ResourceCleaned \<and> r_CleanedAt r2 = None then r2\<lparr>r_CleanedAt := Some occurred\<rparr> else r2)))"

fun normalizeResources :: "string \<Rightarrow> gotime \<Rightarrow> Resource list \<Rightarrow> go_error + Resource list" where
  "normalizeResources runID occurred [] = Inr []"
| "normalizeResources runID occurred (r # rs) = (case normalizeResource runID occurred r of Inl e \<Rightarrow> Inl e
     | Inr r' \<Rightarrow> (case normalizeResources runID occurred rs of Inl e \<Rightarrow> Inl e | Inr rs' \<Rightarrow> Inr (r' # rs')))"

definition recordMutator :: "Resource list \<Rightarrow> Manifest \<Rightarrow> Manifest lio" where
  "recordMutator rs m = ret (fold upsertManifestResource rs (m\<lparr>m_ResourcesChanged := True\<rparr>))"

definition resourceEvent :: "gotime \<Rightarrow> Resource \<Rightarrow> Event" where
  "resourceEvent occurred r = zeroEvent\<lparr>e_Time := occurred, e_Kind := EventStateChanged, e_Stage := ''resource'',
     e_Message := r_ID r @ '': '' @ resourceStatus_text (r_Status r), e_To := resourceStatus_text (r_Status r)\<rparr>"

definition RecordResources :: "Recorder \<Rightarrow> Resource list \<Rightarrow> unit lio" where
  "RecordResources rec resources = (if resources = [] then ret ()
     else bind now (\<lambda>occurred. case normalizeResources (rc_runID rec) occurred resources of
         Inl e \<Rightarrow> raise e
       | Inr normalized \<Rightarrow>
          bind (Update (rc_store rec) (rc_runID rec) (Some (recordMutator normalized))) (\<lambda>_.
          forEach (\<lambda>r. AppendEvent (rc_store rec) (rc_runID rec) (resourceEvent occurred r)) normalized)))"

text \<open>\<open>findWork\<close> returns a pointer into the manifest; the model returns the index it points at.\<close>

fun findIndex :: "string \<Rightarrow> WorkItem list \<Rightarrow> nat option" where
  "findIndex workID [] = None"
| "findIndex workID (w # ws) = (if wi_ID w = workID then Some 0 else map_option Suc (findIndex workID ws))"

definition findWork :: "Manifest \<Rightarrow> string \<Rightarrow> go_error + nat" where
  "findWork m workID = (case findIndex workID (m_Work m) of Some i \<Rightarrow> Inr i
     | None \<Rightarrow> Inl (ErrText (''work item '' @ quoted workID @ '' is not present in run '' @ m_RunID m)))"

definition startItem :: "gotime \<Rightarrow> WorkItem \<Rightarrow> WorkItem" where
  "startItem occurred w = w\<lparr>wi_RetryCount := (if wi_Status w = WorkFailed then wrap64 (wi_RetryCount w + 1) else wi_RetryCount w),
     wi_Status := WorkRunning, wi_StartedAt := Some occurred, wi_EndedAt := None, wi_LastError := []\<rparr>"

definition finishItem :: "WorkStatus \<Rightarrow> string \<Rightarrow> gotime \<Rightarrow> WorkItem \<Rightarrow> WorkItem" where
  "finishItem status message occurred w = w\<lparr>wi_Status := status, wi_EndedAt := Some occurred,
     wi_LastError := (if status = WorkFailed then message else [])\<rparr>"

definition workMutator :: "string \<Rightarrow> (gotime \<Rightarrow> WorkItem \<Rightarrow> WorkItem) \<Rightarrow> Manifest \<Rightarrow> Manifest lio" where
  "workMutator workID g m = (if workID = [] then ret m
     else case findWork m workID of Inl e \<Rightarrow> raise e
       | Inr i \<Rightarrow> bind now (\<lambda>occurred. ret (m\<lparr>m_Work := (m_Work m)[i := g occurred (m_Work m ! i)]\<rparr>)))"

definition BeforeExternalStep :: "Recorder \<Rightarrow> string \<Rightarrow> string \<Rightarrow> string \<Rightarrow> unit lio" where
  "BeforeExternalStep rec stage workID message =
     bind (Update (rc_store rec) (rc_runID rec) (Some (workMutator workID startItem))) (\<lambda>_.
     bind now (\<lambda>t. AppendEvent (rc_store rec) (rc_runID rec)
       (zeroEvent\<lparr>e_Time := t, e_Kind := EventStepStarted, e_Stage := stage, e_WorkID := workID, e_Message := message,
          e_To := workStatus_text WorkRunning\<rparr>)))"

definition AfterExternalStep :: "Recorder \<Rightarrow> string \<Rightarrow> string \<Rightarrow> WorkStatus \<Rightarrow> string \<Rightarrow> unit lio" where
  "AfterExternalStep rec stage workID status message =
     bind (Update (rc_store rec) (rc_runID rec) (Some (workMutator workID (finishItem status message)))) (\<lambda>_.
     bind now (\<lambda>t. AppendEvent (rc_store rec) (rc_runID rec)
       (zeroEvent\<lparr>e_Time := t, e_Kind := EventStepFinished, e_Stage := stage, e_WorkID := workID, e_Message := message,
          e_To := workStatus_text status\<rparr>)))"

definition LogPath :: "Recorder \<Rightarrow> path lio" where
  "LogPath rec = bind (RunDirectory (rc_store rec) (rc_runID rec)) (\<lambda>dir.
     bind (Load (rc_store rec) (rc_runID rec)) (\<lambda>m. ret (filepath_Join [path_string dir, m_LogPath m])))"

definition Recorder_OpenLog :: "Recorder \<Rightarrow> path lio" where
  "Recorder_OpenLog rec = OpenLog (rc_store rec) (rc_runID rec)"

section \<open>The manager\<close>

definition callExecute :: "(lworld \<Rightarrow> ExecutionResult \<times> lworld) \<Rightarrow> ExecutionResult lio" where
  "callExecute f w = (case f w of (r, w') \<Rightarrow> (Inr r, w'))"

definition stepEvent :: "gotime \<Rightarrow> EventKind \<Rightarrow> string \<Rightarrow> string \<Rightarrow> string \<Rightarrow> string \<Rightarrow> Event" where
  "stepEvent t kind stage message from to = zeroEvent\<lparr>e_Time := t, e_Kind := kind, e_Stage := stage, e_Message := message,
     e_From := from, e_To := to\<rparr>"

text \<open>From the return of the execution function to the outcome: the same in the three operations.\<close>

definition finishRun :: "Store \<Rightarrow> string \<Rightarrow> string \<Rightarrow> (ExecutionResult \<Rightarrow> gotime \<Rightarrow> Manifest \<Rightarrow> Manifest) \<Rightarrow> (Manifest \<Rightarrow> string) \<Rightarrow>
    ExecutionResult \<Rightarrow> Outcome lio" where
  "finishRun s runID stage apply message result =
     bind now (\<lambda>endedAt.
     bind (Update s runID (Some (\<lambda>m. ret (apply result endedAt m)))) (\<lambda>manifest.
     bind (AppendEvent s runID (stepEvent endedAt EventStepFinished stage (message manifest)
             (runStatus_text RunRunning) (runStatus_text (m_Status manifest)))) (\<lambda>_.
     bind (WriteSummary s runID (finalSummary manifest)) (\<lambda>_.
     bind (RunDirectory s runID) (\<lambda>dir.
     ret \<lparr>o_Manifest = manifest, o_ExecutionError = x_Err result, o_RunDirectory = dir,
          o_LogPath = filepath_Join [path_string dir, m_LogPath manifest]\<rparr>)))))"

definition createRequest :: "LifecycleRequest \<Rightarrow> Plan \<Rightarrow> string \<Rightarrow> gotime \<Rightarrow> string \<Rightarrow> string \<Rightarrow> CreateRequest" where
  "createRequest request p runID startedAt planJSON planHash = \<lparr>cr_RunID = runID, cr_StartedAt = startedAt,
     cr_CommandLine = lr_CommandLine request, cr_Binary = lr_Binary request, cr_Provider = pl_Provider p,
     cr_Workload = pl_Workload p, cr_Region = pl_Region p, cr_Zone = pl_Zone p, cr_Identity = lr_Identity request,
     cr_PlanHash = planHash, cr_PlanJSON = planJSON, cr_EffectiveConfigYAML = lr_EffectiveConfigYAML request,
     cr_Images = lr_Images request, cr_InitialWork = workFromPlan p,
     cr_InitialBenchmarkStatus = OutcomePending, cr_InitialCleanupStatus = OutcomePending\<rparr>"

definition Run :: "(Plan \<Rightarrow> go_error + string) \<Rightarrow> (string \<Rightarrow> string) \<Rightarrow> Manager \<Rightarrow> LifecycleRequest \<Rightarrow> Outcome lio" where
  "Run encode sha256hex mgr request = (case mg_Store mgr of
     None \<Rightarrow> raise (ErrText ''run-state store is required'')
   | Some s \<Rightarrow> (case lr_Plan request of
     None \<Rightarrow> raise (ErrText ''local plan is required'')
   | Some p \<Rightarrow> (case lr_Execute request of
     None \<Rightarrow> raise (ErrText ''execution function is required'')
   | Some execute \<Rightarrow>
      bind (mg_NewRunID mgr) (\<lambda>runID. case encode p of
        Inl e \<Rightarrow> raise (Wrapf ''encode approved plan: '' e [])
      | Inr encoded \<Rightarrow>
         (let planJSON = encoded @ newline; planHash = ''sha256:'' @ sha256hex planJSON in
          bind now (\<lambda>startedAt.
          bind (Create s (createRequest request p runID startedAt planJSON planHash)) (\<lambda>_.
          bind now (\<lambda>t.
          bind (AppendEvent s runID (stepEvent t EventStepStarted ''run'' ''approved execution started'' [] [])) (\<lambda>_.
          bind (callExecute (execute \<lparr>rc_store = s, rc_runID = runID\<rparr>)) (\<lambda>result.
          finishRun s runID ''run'' (\<lambda>result endedAt m. applyExecutionResult m result endedAt)
            (\<lambda>m. ''execution finished with status '' @ runStatus_text (m_Status m)) result))))))))))"

definition resetItem :: "string set \<Rightarrow> WorkItem \<Rightarrow> WorkItem" where
  "resetItem selected w = (if wi_ID w \<in> selected then w\<lparr>wi_Status := WorkPending, wi_RetryCount := wrap64 (wi_RetryCount w + 1),
     wi_StartedAt := None, wi_EndedAt := None, wi_LastError := []\<rparr> else w)"

definition resumeManifest :: "string set \<Rightarrow> Manifest \<Rightarrow> Manifest" where
  "resumeManifest selected m = m\<lparr>m_Status := RunRunning, m_EndedAt := None, m_BenchmarkOutcome := OutcomePending,
     m_CleanupOutcome := OutcomePending, m_Recoverable := True, m_Work := map (resetItem selected) (m_Work m)\<rparr>"

definition Resume :: "Manager \<Rightarrow> string \<Rightarrow> ResumeExecuteFunc option \<Rightarrow> Outcome lio" where
  "Resume mgr runID exec = (case mg_Store mgr of
     None \<Rightarrow> raise (ErrText ''run-state store is required'')
   | Some s \<Rightarrow> (case exec of
     None \<Rightarrow> raise (ErrText ''resume execution function is required'')
   | Some execute \<Rightarrow>
      bind (Load s runID) (\<lambda>manifest.
      let unfinished = unfinishedWork (m_Work manifest) in
      if \<not> m_Recoverable manifest \<or> unfinished = [] then raise (Wrapf [] (Sentinel ErrNotRecoverable) ('': '' @ runID))
      else
        bind (Update s runID (Some (\<lambda>m. ret (resumeManifest (wi_ID ` set unfinished) m)))) (\<lambda>_.
        bind now (\<lambda>t.
        bind (AppendEvent s runID (stepEvent t EventStepStarted ''resume''
                (''resume started for '' @ string_of_nat (length unfinished) @ '' unfinished work items'')
                (runStatus_text RunInterrupted) (runStatus_text RunRunning))) (\<lambda>_.
        bind (callExecute (execute \<lparr>rc_store = s, rc_runID = runID\<rparr> unfinished)) (\<lambda>result.
        finishRun s runID ''resume'' (\<lambda>result endedAt m. applyExecutionResult m result endedAt)
          (\<lambda>m. ''resume finished with status '' @ runStatus_text (m_Status m)) result)))))))"

definition beginCleanup :: "Manifest \<Rightarrow> Manifest" where
  "beginCleanup m = m\<lparr>m_Status := RunRunning, m_EndedAt := None, m_CleanupOutcome := OutcomePending, m_Recoverable := True,
     m_Resources := map (\<lambda>r. if r_Status r \<noteq> ResourceCleaned then r\<lparr>r_Status := ResourceCleaning\<rparr> else r) (m_Resources m),
     m_Work := map (\<lambda>w. if wi_Status w \<noteq> WorkSkipped \<and> wi_Status w \<noteq> WorkCleaned then w\<lparr>wi_Status := WorkCleanupPending\<rparr> else w) (m_Work m)\<rparr>"

definition cleanedResource :: "OutcomeStatus \<Rightarrow> go_error option \<Rightarrow> gotime \<Rightarrow> Resource \<Rightarrow> Resource" where
  "cleanedResource cleanupOutcome err endedAt r =
    (if r_Status r = ResourceCleaned then r
     else if cleanupOutcome = OutcomeSucceeded then r\<lparr>r_Status := ResourceCleaned, r_CleanedAt := Some endedAt, r_LastError := []\<rparr>
     else r\<lparr>r_Status := ResourceUnknown, r_LastError := (case err of None \<Rightarrow> r_LastError r | Some e \<Rightarrow> error_text e)\<rparr>)"

definition applyCleanupResult :: "ExecutionResult \<Rightarrow> gotime \<Rightarrow> Manifest \<Rightarrow> Manifest" where
  "applyCleanupResult result endedAt m0 =
    (let cleanupOutcome = (if x_CleanupOutcome result = OutcomeUnset
           then (if x_Err result = None then OutcomeSucceeded else OutcomeFailed) else x_CleanupOutcome result);
         m1 = m0\<lparr>m_CleanupOutcome := cleanupOutcome,
                 m_ResourcesChanged := m_ResourcesChanged m0 \<or> x_ResourcesChanged result, m_EndedAt := Some endedAt,
                 m_Resources := (case x_Resources result of Some rs \<Rightarrow> rs
                   | None \<Rightarrow> map (cleanedResource cleanupOutcome (x_Err result) endedAt) (m_Resources m0)),
                 m_Work := map (\<lambda>w. if wi_Status w = WorkCleanupPending \<and> cleanupOutcome = OutcomeSucceeded
                   then w\<lparr>wi_Status := WorkCleaned, wi_EndedAt := Some endedAt\<rparr> else w) (m_Work m0),
                 m_Failures := m_Failures m0 @ stampFailures endedAt (x_Failures result)\<rparr>
     in if cleanupOutcome = OutcomeSucceeded then m1\<lparr>m_Status := RunCleaned, m_Recoverable := False\<rparr>
        else if m_BenchmarkOutcome m1 = OutcomeSucceeded then m1\<lparr>m_Status := RunPartial, m_Recoverable := True\<rparr>
        else m1\<lparr>m_Status := RunFailed, m_Recoverable := True\<rparr>)"

definition Cleanup :: "Manager \<Rightarrow> string \<Rightarrow> CleanupExecuteFunc option \<Rightarrow> Outcome lio" where
  "Cleanup mgr runID exec = (case mg_Store mgr of
     None \<Rightarrow> raise (ErrText ''run-state store is required'')
   | Some s \<Rightarrow> (case exec of
     None \<Rightarrow> raise (ErrText ''cleanup execution function is required'')
   | Some execute \<Rightarrow>
      bind (Load s runID) (\<lambda>manifest.
      let resources = uncleanResources (m_Resources manifest) in
      bind (Update s runID (Some (\<lambda>m. ret (beginCleanup m)))) (\<lambda>_.
      bind now (\<lambda>t.
      bind (AppendEvent s runID (stepEvent t EventStepStarted ''cleanup''
              (''cleanup started for '' @ string_of_nat (length resources) @ '' tracked resources'') [] (runStatus_text RunRunning))) (\<lambda>_.
      bind (callExecute (execute \<lparr>rc_store = s, rc_runID = runID\<rparr> resources)) (\<lambda>result.
      finishRun s runID ''cleanup'' applyCleanupResult
        (\<lambda>m. ''cleanup finished with status '' @ outcome_text (m_CleanupOutcome m)) result)))))))"

end
