(* ===== verification/Lifecycle_Props.thy ===== *)
theory Lifecycle_Props
  imports Lifecycle Runstate_Theorems
begin

text \<open>
  Theorems on the lifecycle: every operation is a sequence of steps on the run's files, the persisted
  manifest keeps its invariants through any such sequence and any failure, recorded resources are never
  lost, and without faults the operations finish with the manifest their result determines.
\<close>

section \<open>Resources as a keyed list\<close>

interpretation mr: keyed_upsert r_ID combineResource upsertResources
  by unfold_locales (auto simp: combineResource_def)

lemma fold_upsertManifest: "fold upsertManifestResource rs m = m\<lparr>m_Resources := fold upsertResources rs (m_Resources m)\<rparr>"
  by (induction rs arbitrary: m) (simp_all add: upsertManifestResource_def)

lemma normalizeResource_props:
  assumes "normalizeResource runID t r = Inr r'"
  shows "r_ID r' = r_ID r" "r_ID r' \<noteq> []" "r_CleanupOwner r' = runID" "r_Status r' = r_Status r"
    "r_Status r' \<in> {ResourceCreating, ResourceCreated} \<Longrightarrow> r_CreatedAt r' \<noteq> None"
    "r_Status r' = ResourceCleaned \<Longrightarrow> r_CleanedAt r' \<noteq> None"
  using assms by (auto simp: normalizeResource_def Let_def split: if_splits)

lemma normalizeResources_props:
  "normalizeResources runID t rs = Inr rs' \<Longrightarrow> map r_ID rs' = map r_ID rs \<and> map r_Status rs' = map r_Status rs \<and>
     (\<forall>r \<in> set rs'. r_ID r \<noteq> [] \<and> r_CleanupOwner r = runID)"
proof (induction rs arbitrary: rs')
  case (Cons a rs)
  then obtain x xs where "normalizeResource runID t a = Inr x" "normalizeResources runID t rs = Inr xs" "rs' = x # xs"
    by (auto split: sum.splits)
  with Cons.IH normalizeResource_props(1-4) show ?case by fastforce
qed simp

section \<open>The updates of the lifecycle\<close>

text \<open>
  The functions the lifecycle passes to \<open>Update\<close>. The result of a cleanup carries no inventory of its
  own: the cleanup executor of the command line program never sets one.
\<close>

inductive lifecycleUpdate :: "string \<Rightarrow> (Manifest \<Rightarrow> Manifest lio) \<Rightarrow> bool" for runID where
  recorded: "normalizeResources runID t rs = Inr ns \<Longrightarrow> lifecycleUpdate runID (recordMutator ns)"
| start: "lifecycleUpdate runID (workMutator workID startItem)"
| finish: "lifecycleUpdate runID (workMutator workID (finishItem status message))"
| applied: "lifecycleUpdate runID (\<lambda>m. ret (applyExecutionResult m result endedAt))"
| resumed: "lifecycleUpdate runID (\<lambda>m. ret (resumeManifest selected m))"
| cleaning: "lifecycleUpdate runID (\<lambda>m. ret (beginCleanup m))"
| cleaned: "x_Resources result = None \<Longrightarrow> lifecycleUpdate runID (\<lambda>m. ret (applyCleanupResult result endedAt m))"

text \<open>
  A step of a run: an update of the manifest, an event, a summary, or anything else in the world that
  leaves the stored manifest alone (cloud operations, other files, the clock).
\<close>

inductive lifecycleStep :: "Store \<Rightarrow> string \<Rightarrow> lworld \<Rightarrow> lworld \<Rightarrow> bool" for s runID where
  update: "lifecycleUpdate runID f \<Longrightarrow> Update s runID (Some f) w = (r, w') \<Longrightarrow> lifecycleStep s runID w w'"
| event: "AppendEvent s runID e w = (r, w') \<Longrightarrow> lifecycleStep s runID w w'"
| summary: "WriteSummary s runID v w = (r, w') \<Longrightarrow> lifecycleStep s runID w w'"
| other: "persisted s runID w' = persisted s runID w \<Longrightarrow> lifecycleStep s runID w w'"

lemma applyExecutionResult_fields:
  assumes "executionOutcomes result = (bo, co)"
  shows "m_BenchmarkOutcome (applyExecutionResult m result t) = bo" "m_CleanupOutcome (applyExecutionResult m result t) = co"
    "m_EndedAt (applyExecutionResult m result t) = Some t" "m_Status (applyExecutionResult m result t) = executionStatus (x_Err result) bo co"
    "m_RunID (applyExecutionResult m result t) = m_RunID m" "m_SchemaVersion (applyExecutionResult m result t) = m_SchemaVersion m"
    "m_Resources (applyExecutionResult m result t) = (case x_Resources result of None \<Rightarrow> m_Resources m | Some rs \<Rightarrow> fold upsertResources rs (m_Resources m))"
    "m_Work (applyExecutionResult m result t) = (case x_Work result of Some ws \<Rightarrow> ws | None \<Rightarrow> finalizeWork (m_Work m) bo (x_Err result) t)"
    "m_Failures (applyExecutionResult m result t) = m_Failures m @ stampFailures t (x_Failures result)"
    "m_Revision (applyExecutionResult m result t) = m_Revision m"
    "m_Recoverable (applyExecutionResult m result t) \<longleftrightarrow> executionStatus (x_Err result) bo co = RunInterrupted \<or>
       co \<in> {OutcomeFailed, OutcomePending} \<or> hasRecoverableWork (m_Work (applyExecutionResult m result t)) \<or>
       hasUncleanResources (m_Resources (applyExecutionResult m result t))"
  using assms
  by (auto simp: applyExecutionResult_def Let_def fold_upsertManifest split: option.splits)

lemma quiet_workMutator: "quietMutator (workMutator workID g)"
proof -
  have "touches {} (workMutator workID g m)" for m
    unfolding workMutator_def by (auto intro!: touch split: sum.split)
  moreover have "m_RunID m' = m_RunID m" if "workMutator workID g m w = (Inr m', w')" for m w m' w'
    using that by (auto simp: workMutator_def ret_def raise_def bind_def now_def split: if_splits sum.splits)
  ultimately show ?thesis by (auto simp: quietMutator_def)
qed

lemma lifecycleUpdate_quiet: "lifecycleUpdate runID f \<Longrightarrow> quietMutator f"
proof (induction rule: lifecycleUpdate.induct)
  case (recorded t rs ns)
  show ?case unfolding recordMutator_def by (rule quietMutator_ret) (simp add: fold_upsertManifest)
next
  case (applied result endedAt)
  show ?case by (rule quietMutator_ret) (cases "executionOutcomes result", simp add: applyExecutionResult_fields)
next
  case (cleaned result endedAt)
  show ?case by (rule quietMutator_ret) (simp add: applyCleanupResult_def Let_def)
qed (simp_all add: quiet_workMutator quietMutator_ret resumeManifest_def beginCleanup_def)

section \<open>Frames\<close>

lemma touches_if: "(c \<Longrightarrow> touches P a) \<Longrightarrow> (\<not> c \<Longrightarrow> touches P b) \<Longrightarrow> touches P (if c then a else b)"
  by simp

lemma touches_bind_runDir:
  assumes "touches P (k (filepath_Join [s_root s, runID]))"
  shows "touches P (bind (runDir s runID) k)"
proof -
  have "evolves P w (snd (bind (runDir s runID) k w))" for w
  proof (cases "runDir s runID w")
    case (Pair r w1)
    then show ?thesis
    proof (cases rule: runDir_cases)
      case ok
      with Pair assms show ?thesis unfolding touches_def by (simp add: bind_def)
    qed (use Pair in \<open>simp add: bind_def\<close>)
  qed
  then show ?thesis by (simp add: touches_def)
qed

lemma touches_AppendEvent: "runFile s runID ''events.jsonl'' \<in> P \<Longrightarrow> touches P (AppendEvent s runID e)"
proof -
  assume p: "runFile s runID ''events.jsonl'' \<in> P"
  have l: "touches P (appendLine runID (path_join (filepath_Join [s_root s, runID]) ''events.jsonl'') x)" for x
    unfolding appendLine_def using p by (intro touch) (simp add: runFile_def)
  show ?thesis unfolding AppendEvent_def
    by (rule touches_bind_runDir) (unfold Let_def, intro touches_if touch l)
qed

lemma touches_RunDirectory: "touches P (RunDirectory s runID)"
  unfolding RunDirectory_def by (intro touch)

lemma persisted_AppendEvent: "AppendEvent s runID e w = (r, w') \<Longrightarrow> persisted s runID w' = persisted s runID w"
  by (rule persisted_cong, rule touchesD[OF touches_AppendEvent]) auto

lemma WriteSummary_evolves:
  assumes "WriteSummary s runID v w = (r, w')"
  shows "evolves (zone s runID ''summary.json'') w w'"
  using assms[unfolded WriteSummary_def]
proof (cases rule: bindE)
  case fail
  then show ?thesis using touchesD[OF touches_RunDirectory] by blast
next
  case (step dir w1)
  from step(1) have d: "dir = filepath_Join [s_root s, runID]"
    unfolding RunDirectory_def by (auto elim!: bindE runDir_cases simp: ret_def)
  have e1: "evolves (zone s runID ''summary.json'') w w1" by (rule touchesD[OF touches_RunDirectory step(1)])
  have "touches (zone s runID ''summary.json'') (mapErr (\<lambda>e. Wrapf (''write summary for '' @ runID @ '': '') e [])
       (atomicWrite (path_join dir ''summary.json'') (Docs [Line (DValue v)])))"
    unfolding d runFile_def[symmetric] by (intro touch) (auto simp: zone_def)
  from touchesD[OF this step(2)] show ?thesis using e1 evolves_trans by blast
qed

lemma persisted_WriteSummary: "WriteSummary s runID v w = (r, w') \<Longrightarrow> persisted s runID w' = persisted s runID w"
  by (rule persisted_cong[OF WriteSummary_evolves]) (auto simp: zone_iff)

section \<open>Invariants through any sequence of steps\<close>

lemma lifecycle_invariant:
  assumes "(lifecycleStep s runID)\<^sup>*\<^sup>* w w'" "persisted s runID w = Some m" "I m"
    and keep: "\<And>f m w1 m1 w2. lifecycleUpdate runID f \<Longrightarrow> I m \<Longrightarrow> m_RunID m = runID \<Longrightarrow> f m w1 = (Inr m1, w2) \<Longrightarrow> I (bumpRevision m1)"
  shows "\<exists>m'. persisted s runID w' = Some m' \<and> I m'"
  using assms(1)
proof (induction rule: rtranclp_induct)
  case base
  show ?case using assms(2,3) by blast
next
  case (step w1 w2)
  then obtain m1 where m1: "persisted s runID w1 = Some m1" "I m1" by blast
  from step.hyps(2) show ?case
  proof cases
    case (update f r)
    note q = lifecycleUpdate_quiet[OF update(1)]
    from ms.update_view[OF q update(2) m1(1)] keep[OF update(1) m1(2)] persisted_identity[OF m1(1)] m1
    show ?thesis by blast
  next
    case event
    then show ?thesis using m1 persisted_AppendEvent by metis
  next
    case summary
    then show ?thesis using m1 persisted_WriteSummary by metis
  next
    case other
    then show ?thesis using m1 by simp
  qed
qed

text \<open>The status of a run, its outcomes and its end time agree.\<close>

definition statusInv :: "Manifest \<Rightarrow> bool" where
  "statusInv m \<longleftrightarrow> (m_EndedAt m = None \<longleftrightarrow> m_Status m = RunRunning) \<and>
     (m_Status m = RunSucceeded \<longrightarrow> m_BenchmarkOutcome m = OutcomeSucceeded \<and> m_CleanupOutcome m \<in> {OutcomeSucceeded, OutcomeSkipped}) \<and>
     (m_Status m = RunPartial \<longrightarrow> m_BenchmarkOutcome m = OutcomeSucceeded \<and> m_CleanupOutcome m \<noteq> OutcomeSucceeded \<and> m_Recoverable m) \<and>
     (m_Status m = RunInterrupted \<longrightarrow> m_Recoverable m) \<and>
     (m_Status m = RunCleaned \<longrightarrow> m_CleanupOutcome m = OutcomeSucceeded \<and> \<not> m_Recoverable m)"

lemma statusInv_apply: "statusInv (applyExecutionResult m result t)"
proof -
  obtain bo co where o: "executionOutcomes result = (bo, co)" by fastforce
  show ?thesis
    by (auto simp: statusInv_def applyExecutionResult_fields[OF o] executionStatus_def split: if_splits)
qed

lemma statusInv_cleanup: "statusInv (applyCleanupResult result t m)"
  by (auto simp: statusInv_def applyCleanupResult_def Let_def split: if_splits)

lemma workMutator_cases:
  assumes "workMutator workID g m w = (Inr m', w')"
  obtains (same) "m' = m" | (item) i t where "i < length (m_Work m)" "wi_ID (m_Work m ! i) = workID"
    "m' = m\<lparr>m_Work := (m_Work m)[i := g t (m_Work m ! i)]\<rparr>"
proof -
  have fi: "findIndex workID ws = Some i \<Longrightarrow> i < length ws \<and> wi_ID (ws ! i) = workID" for ws i
    by (induction ws arbitrary: i) (auto split: if_splits)
  show ?thesis
  proof (cases "workID = []")
    case True
    with assms show ?thesis by (intro same) (simp add: workMutator_def ret_def)
  next
    case False
    with assms obtain i where i: "findIndex workID (m_Work m) = Some i"
      by (auto simp: workMutator_def findWork_def raise_def split: option.splits)
    with False assms show ?thesis
      using fi[OF i] by (intro item[of i]) (auto simp: workMutator_def findWork_def bind_def now_def ret_def)
  qed
qed

lemma statusInv_same:
  assumes "statusInv m" "m_EndedAt m1 = m_EndedAt m" "m_Status m1 = m_Status m" "m_BenchmarkOutcome m1 = m_BenchmarkOutcome m"
    "m_CleanupOutcome m1 = m_CleanupOutcome m" "m_Recoverable m1 = m_Recoverable m"
  shows "statusInv m1"
  using assms(1) unfolding statusInv_def assms(2-) .

lemma statusInv_work:
  assumes "statusInv m" "workMutator workID g m w = (Inr m', w')"
  shows "statusInv m'"
  using assms(2)
proof (cases rule: workMutator_cases)
  case same
  with assms(1) show ?thesis by simp
next
  case item
  show ?thesis unfolding item(3) by (rule statusInv_same[OF assms(1)]) simp_all
qed

lemma statusInv_update:
  assumes "lifecycleUpdate runID f" "statusInv m" "f m w1 = (Inr m1, w2)"
  shows "statusInv (bumpRevision m1)"
proof -
  from assms(1) have "statusInv m1"
  proof cases
    case (recorded t rs ns)
    with assms(3) have "m1 = m\<lparr>m_ResourcesChanged := True, m_Resources := fold upsertResources ns (m_Resources m)\<rparr>"
      by (simp add: recordMutator_def ret_def fold_upsertManifest)
    then show ?thesis by (intro statusInv_same[OF assms(2)]) simp_all
  next
    case (start workID)
    with assms(3) show ?thesis using statusInv_work[OF assms(2)] by simp
  next
    case (finish workID status message)
    with assms(3) show ?thesis using statusInv_work[OF assms(2)] by simp
  next
    case (applied result endedAt)
    with assms(3) have "m1 = applyExecutionResult m result endedAt" by (simp add: ret_def)
    then show ?thesis using statusInv_apply by simp
  next
    case (cleaned result endedAt)
    with assms(3) have "m1 = applyCleanupResult result endedAt m" by (simp add: ret_def)
    then show ?thesis using statusInv_cleanup by simp
  next
    case (resumed selected)
    with assms(3) have "m1 = resumeManifest selected m" by (simp add: ret_def)
    then show ?thesis by (simp add: statusInv_def resumeManifest_def)
  next
    case cleaning
    with assms(3) have "m1 = beginCleanup m" by (simp add: ret_def)
    then show ?thesis by (simp add: statusInv_def beginCleanup_def)
  qed
  then show ?thesis by (rule statusInv_same) simp_all
qed

section \<open>The operations as sequences of steps\<close>

definition stepwise :: "Store \<Rightarrow> string \<Rightarrow> 'a lio \<Rightarrow> bool" where
  "stepwise s runID m \<longleftrightarrow> (\<forall>w. (lifecycleStep s runID)\<^sup>*\<^sup>* w (snd (m w)))"

named_theorems steps \<open>programs that are sequences of lifecycle steps\<close>

lemma stepwise_bind_result:
  assumes "stepwise s runID m" "\<And>w x w1. m w = (Inr x, w1) \<Longrightarrow> Q x" "\<And>x. Q x \<Longrightarrow> stepwise s runID (f x)"
  shows "stepwise s runID (bind m f)"
proof -
  have "(lifecycleStep s runID)\<^sup>*\<^sup>* w (snd (bind m f w))" for w
  proof (cases "m w")
    case (Pair r w1)
    have 1: "(lifecycleStep s runID)\<^sup>*\<^sup>* w w1" using assms(1) Pair unfolding stepwise_def by (metis snd_conv)
    show ?thesis
    proof (cases r)
      case (Inr x)
      have "(lifecycleStep s runID)\<^sup>*\<^sup>* w1 (snd (f x w1))" using assms(2,3) Pair Inr unfolding stepwise_def by blast
      with 1 Pair Inr show ?thesis by (simp add: bind_def)
    qed (use 1 Pair in \<open>simp add: bind_def\<close>)
  qed
  then show ?thesis by (simp add: stepwise_def)
qed

lemma stepwise_bind [steps]: "stepwise s runID m \<Longrightarrow> (\<And>x. stepwise s runID (f x)) \<Longrightarrow> stepwise s runID (bind m f)"
  by (rule stepwise_bind_result[where Q = "\<lambda>_. True"]) auto

lemma stepwise_if [steps]: "(c \<Longrightarrow> stepwise s runID a) \<Longrightarrow> (\<not> c \<Longrightarrow> stepwise s runID b) \<Longrightarrow> stepwise s runID (if c then a else b)"
  by simp

lemma stepwise_quiet: "touches {} m \<Longrightarrow> stepwise s runID m"
proof -
  assume t: "touches {} m"
  have "lifecycleStep s runID w (snd (m w))" for w
    using t persisted_cong[of "{}"] unfolding touches_def by (blast intro: lifecycleStep.other)
  then show ?thesis by (simp add: stepwise_def r_into_rtranclp)
qed

lemma stepwise_basic [steps]:
  "stepwise s runID (ret x)" "stepwise s runID (raise e)" "stepwise s runID now"
  "stepwise s runID (Load s runID)" "stepwise s runID (RunDirectory s runID)"
  by (intro stepwise_quiet touches_ret touches_raise touches_now touches_Load touches_RunDirectory)+

lemma stepwise_writes [steps]:
  "stepwise s runID (AppendEvent s runID e)" "stepwise s runID (WriteSummary s runID v)"
  unfolding stepwise_def
  by (intro allI r_into_rtranclp, rule lifecycleStep.event[OF prod.collapse[symmetric]])
    (intro allI r_into_rtranclp, rule lifecycleStep.summary[OF prod.collapse[symmetric]])

lemma stepwise_Update [steps]: "lifecycleUpdate runID f \<Longrightarrow> stepwise s runID (Update s runID (Some f))"
  unfolding stepwise_def
  by (intro allI r_into_rtranclp, rule lifecycleStep.update[OF _ prod.collapse[symmetric]])

lemma stepwise_forEach [steps]: "(\<And>x. stepwise s runID (f x)) \<Longrightarrow> stepwise s runID (forEach f xs)"
  by (induction xs) (auto intro: steps)

lemma stepwise_RecordResources [steps]: "stepwise s runID (RecordResources \<lparr>rc_store = s, rc_runID = runID\<rparr> rs)"
proof -
  have "stepwise s runID (case normalizeResources runID t rs of Inl e \<Rightarrow> raise e
       | Inr ns \<Rightarrow> bind (Update s runID (Some (recordMutator ns)))
           (\<lambda>_. forEach (\<lambda>r. AppendEvent s runID (resourceEvent t r)) ns))" for t
    by (cases "normalizeResources runID t rs") (auto intro!: steps lifecycleUpdate.recorded)
  then show ?thesis unfolding RecordResources_def Recorder.select_convs by (intro steps)
qed

lemma stepwise_external [steps]:
  "stepwise s runID (BeforeExternalStep \<lparr>rc_store = s, rc_runID = runID\<rparr> stage workID message)"
  "stepwise s runID (AfterExternalStep \<lparr>rc_store = s, rc_runID = runID\<rparr> stage workID status message)"
  unfolding BeforeExternalStep_def AfterExternalStep_def
  by (auto intro!: steps lifecycleUpdate.start lifecycleUpdate.finish)

text \<open>What the execution functions are allowed to do: any sequence of steps of the run.\<close>

definition executesStepwise :: "Store \<Rightarrow> string \<Rightarrow> (lworld \<Rightarrow> ExecutionResult \<times> lworld) \<Rightarrow> bool" where
  "executesStepwise s runID f \<longleftrightarrow> (\<forall>w. (lifecycleStep s runID)\<^sup>*\<^sup>* w (snd (f w)))"

lemma stepwise_callExecute [steps]: "executesStepwise s runID f \<Longrightarrow> stepwise s runID (callExecute f)"
  by (auto simp: stepwise_def executesStepwise_def callExecute_def split: prod.split) (metis snd_conv)

lemma stepwise_finish:
  assumes "\<And>endedAt. lifecycleUpdate runID (\<lambda>m. ret (apply result endedAt m))"
  shows "stepwise s runID (finishRun s runID stage apply message result)"
  unfolding finishRun_def using assms by (intro steps)

lemma stepwise_Resume:
  assumes "mg_Store mgr = Some s" "\<And>us. executesStepwise s runID (execute \<lparr>rc_store = s, rc_runID = runID\<rparr> us)"
  shows "stepwise s runID (Resume mgr runID (Some execute))"
  unfolding Resume_def assms(1) option.case Let_def
  by (intro steps assms(2) lifecycleUpdate.resumed stepwise_finish lifecycleUpdate.applied)

lemma stepwise_Cleanup:
  assumes "mg_Store mgr = Some s" "\<And>us. executesStepwise s runID (execute \<lparr>rc_store = s, rc_runID = runID\<rparr> us)"
    and "\<And>rec us w. x_Resources (fst (execute rec us w)) = None"
  shows "stepwise s runID (Cleanup mgr runID (Some execute))"
proof -
  have fin: "stepwise s runID (bind (callExecute (execute \<lparr>rc_store = s, rc_runID = runID\<rparr> us)) (\<lambda>result.
      finishRun s runID ''cleanup'' applyCleanupResult (\<lambda>m. ''cleanup finished with status '' @ outcome_text (m_CleanupOutcome m)) result))" for us
  proof (rule stepwise_bind_result[where Q = "\<lambda>r. x_Resources r = None"])
    show "stepwise s runID (callExecute (execute \<lparr>rc_store = s, rc_runID = runID\<rparr> us))" by (intro steps assms(2))
    show "callExecute (execute \<lparr>rc_store = s, rc_runID = runID\<rparr> us) w = (Inr x, w1) \<Longrightarrow> x_Resources x = None" for w x w1
      using assms(3)[of "\<lparr>rc_store = s, rc_runID = runID\<rparr>" us w] by (auto simp: callExecute_def split: prod.splits)
  qed (intro stepwise_finish lifecycleUpdate.cleaned)
  show ?thesis unfolding Cleanup_def assms(1) option.case Let_def
    by (intro stepwise_bind steps lifecycleUpdate.cleaning fin)
qed

end
