(* ===== verification/Lifecycle_Theorems.thy ===== *)
theory Lifecycle_Theorems
  imports Lifecycle_Props Plan_Props
begin

text \<open>
  The properties of the lifecycle: safety of the persisted manifest under every failure, durability of
  the resource inventory, the decisions about recoverability, and complete runs without faults.
\<close>

section \<open>The inventory\<close>

definition inventoryInv :: "string set \<Rightarrow> Manifest \<Rightarrow> bool" where
  "inventoryInv ids m \<longleftrightarrow> ids \<subseteq> r_ID ` set (m_Resources m) \<and> distinct (map r_ID (m_Resources m))"

lemma inventoryInv_upserts: "inventoryInv ids m \<Longrightarrow>
    inventoryInv (ids \<union> r_ID ` set rs) (m\<lparr>m_Resources := fold upsertResources rs (m_Resources m)\<rparr>)"
  by (auto simp: inventoryInv_def mr.keys_fold_upsert mr.distinct_fold_upsert)

text \<open>What an update does to the inventory: it upserts resources, or it changes resources in place.\<close>

lemma update_resources:
  assumes "lifecycleUpdate runID f" "f m w1 = (Inr m1, w2)"
  obtains rs where "m_Resources m1 = fold upsertResources rs (m_Resources m)"
  | g where "\<And>r. r_ID (g r) = r_ID r" "m_Resources m1 = map g (m_Resources m)"
  using assms(1)
proof cases
  case (recorded t rs ns)
  with assms(2) show ?thesis by (intro that(1)[of ns]) (auto simp: recordMutator_def ret_def fold_upsertManifest)
next
  case (start workID)
  with assms(2) show ?thesis by (intro that(1)[of "[]"]) (auto elim!: workMutator_cases)
next
  case (finish workID status message)
  with assms(2) show ?thesis by (intro that(1)[of "[]"]) (auto elim!: workMutator_cases)
next
  case (applied result endedAt)
  obtain bo co where "executionOutcomes result = (bo, co)" by (rule prod.exhaust)
  with applied assms(2) show ?thesis
    by (intro that(1)[of "case x_Resources result of None \<Rightarrow> [] | Some rs \<Rightarrow> rs"]) (auto simp: ret_def applyExecutionResult_fields split: option.split)
next
  case (resumed selected)
  with assms(2) show ?thesis by (intro that(1)[of "[]"]) (auto simp: resumeManifest_def ret_def)
next
  case cleaning
  with assms(2) show ?thesis
    by (intro that(2)[of "\<lambda>r. if r_Status r \<noteq> ResourceCleaned then r\<lparr>r_Status := ResourceCleaning\<rparr> else r"]) (auto simp: beginCleanup_def ret_def)
next
  case (cleaned result endedAt)
  let ?o = "if x_CleanupOutcome result = OutcomeUnset
         then (if x_Err result = None then OutcomeSucceeded else OutcomeFailed) else x_CleanupOutcome result"
  have "m_Resources (applyCleanupResult result endedAt m) = map (cleanedResource ?o (x_Err result) endedAt) (m_Resources m)"
    using cleaned(2) by (simp add: applyCleanupResult_def Let_def)
  with cleaned assms(2) show ?thesis
    by (intro that(2)[of "cleanedResource ?o (x_Err result) endedAt"]) (auto simp: cleanedResource_def ret_def)
qed

lemma update_keeps_IDs: "lifecycleUpdate runID f \<Longrightarrow> f m w1 = (Inr m1, w2) \<Longrightarrow> r_ID ` set (m_Resources m) \<subseteq> r_ID ` set (m_Resources m1)"
  by (erule (1) update_resources) (auto simp: mr.keys_fold_upsert image_image)

lemma inventoryInv_update:
  assumes "lifecycleUpdate runID f" "inventoryInv ids m" "f m w1 = (Inr m1, w2)"
  shows "inventoryInv ids (bumpRevision m1)"
  using update_resources[OF assms(1,3)]
proof cases
  case (1 rs)
  with assms(2) show ?thesis by (auto simp: inventoryInv_def mr.keys_fold_upsert mr.distinct_fold_upsert)
next
  case (2 g)
  with assms(2) show ?thesis by (auto simp: inventoryInv_def comp_def image_image)
qed

lemma RecordResources_ok_persisted:
  assumes "RecordResources \<lparr>rc_store = s, rc_runID = runID\<rparr> rs w = (Inr (), w1)" "rs \<noteq> []"
  obtains m t ns where "persisted s runID w = Some m" "normalizeResources runID t rs = Inr ns"
    "persisted s runID w1 = Some (bumpRevision (fold upsertManifestResource ns (m\<lparr>m_ResourcesChanged := True\<rparr>)))"
proof -
  have ev: "persisted s runID w' = persisted s runID w0"
    if "forEach (\<lambda>r. AppendEvent s runID (resourceEvent t r)) ns w0 = (r, w')" for t ns r and w0 w' :: lworld
  proof -
    have "touches {runFile s runID ''events.jsonl''} (forEach (\<lambda>r. AppendEvent s runID (resourceEvent t r)) ns :: unit lio)"
      by (intro touches_forEach touches_AppendEvent) simp
    from touchesD[OF this that] show ?thesis by (rule persisted_cong) auto
  qed
  from assms(1) assms(2) have "bind now (\<lambda>occurred. case normalizeResources runID occurred rs of
         Inl e \<Rightarrow> raise e
       | Inr normalized \<Rightarrow> bind (Update s runID (Some (recordMutator normalized))) (\<lambda>_.
          forEach (\<lambda>r. AppendEvent s runID (resourceEvent occurred r)) normalized)) w = (Inr (), w1)"
    unfolding RecordResources_def Recorder.select_convs by (simp only: if_False)
  then show ?thesis
  proof (cases rule: bindE)
    case (step t w0)
    have p0: "persisted s runID w0 = persisted s runID w"
      using persisted_cong[OF touchesD[OF touches_now step(1)], of s runID "{}"] by simp
    from step(2) obtain ns where ns: "normalizeResources runID t rs = Inr ns"
      by (auto simp: raise_def split: sum.splits)
    with step(2) have "bind (Update s runID (Some (recordMutator ns)))
        (\<lambda>_. forEach (\<lambda>r. AppendEvent s runID (resourceEvent t r)) ns) w0 = (Inr (), w1)" by simp
    then show ?thesis
    proof (cases rule: bindE)
      case (step m' w2)
      have "quietMutator (recordMutator ns)" using lifecycleUpdate_quiet[OF lifecycleUpdate.recorded[OF ns]] .
      from ms.update_result[OF this step(1)] obtain m where "persisted s runID w0 = Some m" "persisted s runID w2 = Some m'"
          "m' = bumpRevision (fold upsertManifestResource ns (m\<lparr>m_ResourcesChanged := True\<rparr>))"
        by (auto simp: recordMutator_def ret_def)
      with ev[OF step(2)] p0 ns show ?thesis by (intro that) auto
    qed simp
  qed simp
qed

section \<open>Operations without faults\<close>

text \<open>
  \<open>completes s runID m w x k es\<close>: from a run in order the call returns \<open>x\<close> and leaves the run in order and the clock alone,
  with manifest \<open>k\<close> and the events \<open>es\<close> appended.
\<close>

definition completes :: "Store \<Rightarrow> string \<Rightarrow> 'a lio \<Rightarrow> lworld \<Rightarrow> 'a \<Rightarrow> Manifest \<Rightarrow> Event list \<Rightarrow> bool" where
  "completes s runID m w x k es \<longleftrightarrow> (\<exists>w'. m w = (Inr x, w') \<and> noFaults w' \<and> w_clock w' = w_clock w \<and> runReady s runID (w_fs w') \<and>
     storedManifest s runID (w_fs w') = k \<and> storedEvents s runID (w_fs w') = storedEvents s runID (w_fs w) @ es)"

lemma completes_bind:
  assumes "completes s runID m w x k es"
    and "\<And>w'. noFaults w' \<Longrightarrow> w_clock w' = w_clock w \<Longrightarrow> runReady s runID (w_fs w') \<Longrightarrow> storedManifest s runID (w_fs w') = k \<Longrightarrow> completes s runID (f x) w' y k' es'"
  shows "completes s runID (bind m f) w y k' (es @ es')"
proof -
  obtain w' where w': "m w = (Inr x, w')" "noFaults w'" "w_clock w' = w_clock w" "runReady s runID (w_fs w')" "storedManifest s runID (w_fs w') = k"
      "storedEvents s runID (w_fs w') = storedEvents s runID (w_fs w) @ es"
    using assms(1) unfolding completes_def by blast
  from assms(2)[OF w'(2-5)] obtain w'' where "f x w' = (Inr y, w'')" "noFaults w''" "w_clock w'' = w_clock w'" "runReady s runID (w_fs w'')"
      "storedManifest s runID (w_fs w'') = k'" "storedEvents s runID (w_fs w'') = storedEvents s runID (w_fs w') @ es'"
    unfolding completes_def by blast
  with w' show ?thesis unfolding completes_def by (simp add: bind_def)
qed

lemma completes_bind0:
  assumes "completes s runID m w x k []"
    and "\<And>w'. noFaults w' \<Longrightarrow> w_clock w' = w_clock w \<Longrightarrow> runReady s runID (w_fs w') \<Longrightarrow> storedManifest s runID (w_fs w') = k \<Longrightarrow> completes s runID (f x) w' y k' es'"
  shows "completes s runID (bind m f) w y k' es'"
proof -
  have "completes s runID (bind m f) w y k' ([] @ es')"
    by (rule completes_bind[OF assms(1)]) (rule assms(2))
  then show ?thesis by simp
qed

lemma completes_ret: "noFaults w \<Longrightarrow> runReady s runID (w_fs w) \<Longrightarrow> completes s runID (ret x) w x (storedManifest s runID (w_fs w)) []"
  by (simp add: completes_def ret_def)

lemma completes_now: "noFaults w \<Longrightarrow> runReady s runID (w_fs w) \<Longrightarrow>
    completes s runID now w (w_clock w (w_ticks w)) (storedManifest s runID (w_fs w)) []"
  by (simp add: completes_def now_def)

lemma completes_Load: "noFaults w \<Longrightarrow> runReady s runID (w_fs w) \<Longrightarrow>
    completes s runID (Load s runID) w (storedManifest s runID (w_fs w)) (storedManifest s runID (w_fs w)) []"
  using succeeds_Load[of w s runID] by (auto simp: completes_def succeeds_def)

lemma completes_RunDirectory: "noFaults w \<Longrightarrow> runReady s runID (w_fs w) \<Longrightarrow>
    completes s runID (RunDirectory s runID) w (filepath_Join [s_root s, runID]) (storedManifest s runID (w_fs w)) []"
  using succeeds_RunDirectory[of w s runID] by (auto simp: completes_def succeeds_def)

lemma completes_Update:
  assumes "noFaults w" "runReady s runID (w_fs w)"
    and "\<And>w'. noFaults w' \<Longrightarrow> w_fs w' = w_fs w \<Longrightarrow> succeeds (f (storedManifest s runID (w_fs w))) w' m1 (w_fs w)"
    and "m_RunID m1 = runID" "m_SchemaVersion m1 = SchemaVersion"
  shows "completes s runID (Update s runID (Some f)) w (bumpRevision m1) (bumpRevision m1) []"
  using succeeds_Update[where f = f and s = s and runID = runID, OF assms] assms(2,4,5) by (auto simp: completes_def succeeds_def)

lemma completes_Update_pure:
  assumes "noFaults w" "runReady s runID (w_fs w)"
    and "m_RunID (g (storedManifest s runID (w_fs w))) = runID" "m_SchemaVersion (g (storedManifest s runID (w_fs w))) = SchemaVersion"
  shows "completes s runID (Update s runID (Some (\<lambda>m. ret (g m)))) w
    (bumpRevision (g (storedManifest s runID (w_fs w)))) (bumpRevision (g (storedManifest s runID (w_fs w)))) []"
  by (rule completes_Update[OF assms(1,2) _ assms(3,4)]) (metis succeeds_ret)

lemma completes_AppendEvent:
  assumes "noFaults w" "runReady s runID (w_fs w)" "e_RunID e = []" "e_Time e \<noteq> 0"
  shows "completes s runID (AppendEvent s runID e) w () (storedManifest s runID (w_fs w)) [stampedEvent runID 0 e]"
proof -
  have "writtenEvent w runID e = stampedEvent runID 0 e"
    using assms(4) by (simp add: writtenEvent_def stampedEvent_def IsZero_def)
  then show ?thesis using succeeds_AppendEvent[of w s runID e] assms by (auto simp: completes_def succeeds_def)
qed

lemma completes_forEach:
  assumes "noFaults w" "runReady s runID (w_fs w)" "\<forall>x \<in> set xs. e_RunID (g x) = [] \<and> e_Time (g x) \<noteq> 0"
  shows "completes s runID (forEach (\<lambda>x. AppendEvent s runID (g x)) xs) w () (storedManifest s runID (w_fs w))
    (map (\<lambda>x. stampedEvent runID 0 (g x)) xs)"
  using assms
proof (induction xs arbitrary: w)
  case Nil
  then show ?case by (simp add: completes_ret)
next
  case (Cons x xs)
  have "completes s runID (bind (AppendEvent s runID (g x)) (\<lambda>_. forEach (\<lambda>x. AppendEvent s runID (g x)) xs)) w ()
      (storedManifest s runID (w_fs w)) ([stampedEvent runID 0 (g x)] @ map (\<lambda>x. stampedEvent runID 0 (g x)) xs)"
    using Cons.prems Cons.IH
    by (intro completes_bind[OF completes_AppendEvent]) (auto, metis)
  then show ?case by simp
qed

lemma completes_WriteSummary: "noFaults w \<Longrightarrow> runReady s runID (w_fs w) \<Longrightarrow>
    completes s runID (WriteSummary s runID v) w () (storedManifest s runID (w_fs w)) []"
  using succeeds_WriteSummary[of w s runID v] by (auto simp: completes_def succeeds_def)

lemma completes_RecordResources:
  assumes "noFaults w" "runReady s runID (w_fs w)" "rs \<noteq> []" "w_clock w (w_ticks w) \<noteq> 0"
    and ns: "normalizeResources runID (w_clock w (w_ticks w)) rs = Inr ns"
  shows "completes s runID (RecordResources \<lparr>rc_store = s, rc_runID = runID\<rparr> rs) w ()
    (bumpRevision (fold upsertManifestResource ns ((storedManifest s runID (w_fs w))\<lparr>m_ResourcesChanged := True\<rparr>)))
    (map (\<lambda>r. stampedEvent runID 0 (resourceEvent (w_clock w (w_ticks w)) r)) ns)"
proof -
  let ?m = "storedManifest s runID (w_fs w)"
  let ?k = "fold upsertManifestResource ns (?m\<lparr>m_ResourcesChanged := True\<rparr>)"
  have id: "m_RunID ?k = runID" "m_SchemaVersion ?k = SchemaVersion"
    using runReady_stored(3,4)[OF assms(2)] by (simp_all add: fold_upsertManifest)
  have up: "completes s runID (Update s runID (Some (recordMutator ns))) w' (bumpRevision ?k) (bumpRevision ?k) []"
    if "noFaults w'" "runReady s runID (w_fs w')" "storedManifest s runID (w_fs w') = ?m" for w'
    unfolding recordMutator_def
    using completes_Update_pure[OF that(1,2), of "\<lambda>m. fold upsertManifestResource ns (m\<lparr>m_ResourcesChanged := True\<rparr>)"] that(3) id by simp
  have ev: "completes s runID (forEach (\<lambda>r. AppendEvent s runID (resourceEvent (w_clock w (w_ticks w)) r)) ns) w' ()
      (storedManifest s runID (w_fs w')) (map (\<lambda>r. stampedEvent runID 0 (resourceEvent (w_clock w (w_ticks w)) r)) ns)"
    if "noFaults w'" "runReady s runID (w_fs w')" for w'
    using that assms(4) by (intro completes_forEach) (auto simp: resourceEvent_def zeroEvent_def)
  have "completes s runID (bind (Update s runID (Some (recordMutator ns))) (\<lambda>_. forEach (\<lambda>r. AppendEvent s runID
      (resourceEvent (w_clock w (w_ticks w)) r)) ns)) w' () (bumpRevision ?k)
      (map (\<lambda>r. stampedEvent runID 0 (resourceEvent (w_clock w (w_ticks w)) r)) ns)"
    if "noFaults w'" "runReady s runID (w_fs w')" "storedManifest s runID (w_fs w') = ?m" for w'
    by (rule completes_bind0[OF up[OF that]]) (use ev in metis)
  then show ?thesis
    unfolding RecordResources_def Recorder.select_convs if_not_P[OF assms(3)]
    by (intro completes_bind0[OF completes_now[OF assms(1,2)]]) (simp add: ns)
qed


definition clockSet :: "lworld \<Rightarrow> bool" where
  "clockSet w \<longleftrightarrow> (\<forall>n. w_clock w n \<noteq> 0)"

lemma clockSet_cong: "w_clock w' = w_clock w \<Longrightarrow> clockSet w' = clockSet w"
  by (simp add: clockSet_def)

lemma stepEvent_fields [simp]: "e_RunID (stepEvent t k st msg a b) = []" "e_Time (stepEvent t k st msg a b) = t"
  by (simp_all add: stepEvent_def zeroEvent_def)

definition outcomeOf :: "Store \<Rightarrow> string \<Rightarrow> Manifest \<Rightarrow> ExecutionResult \<Rightarrow> Outcome" where
  "outcomeOf s runID m result = \<lparr>o_Manifest = m, o_ExecutionError = x_Err result, o_RunDirectory = filepath_Join [s_root s, runID],
     o_LogPath = filepath_Join [path_string (filepath_Join [s_root s, runID]), m_LogPath m]\<rparr>"

lemma completes_finishRun:
  assumes "noFaults w" "runReady s runID (w_fs w)" "clockSet w"
    and id: "\<And>t m. m_RunID (upd result t m) = m_RunID m" "\<And>t m. m_SchemaVersion (upd result t m) = m_SchemaVersion m"
  shows "\<exists>t ev. completes s runID (finishRun s runID stage upd message result) w
    (outcomeOf s runID (bumpRevision (upd result t (storedManifest s runID (w_fs w)))) result)
    (bumpRevision (upd result t (storedManifest s runID (w_fs w)))) [ev] \<and> e_Kind ev = EventStepFinished \<and> e_Stage ev = stage"
proof -
  let ?t = "w_clock w (w_ticks w)" and ?m = "storedManifest s runID (w_fs w)"
  let ?k = "bumpRevision (upd result ?t ?m)"
  let ?e = "stepEvent ?t EventStepFinished stage (message ?k) (runStatus_text RunRunning) (runStatus_text (m_Status ?k))"
  have t: "?t \<noteq> 0" using assms(3) by (simp add: clockSet_def)
  have up: "completes s runID (Update s runID (Some (\<lambda>m. ret (upd result ?t m)))) w' ?k ?k []"
    if "noFaults w'" "runReady s runID (w_fs w')" "storedManifest s runID (w_fs w') = ?m" for w'
    using completes_Update_pure[OF that(1,2), of "upd result ?t"] that(3) id runReady_stored(3,4)[OF assms(2)] by simp
  have tail: "completes s runID (bind (WriteSummary s runID (finalSummary ?k)) (\<lambda>_. bind (RunDirectory s runID)
      (\<lambda>dir. ret \<lparr>o_Manifest = ?k, o_ExecutionError = x_Err result, o_RunDirectory = dir,
          o_LogPath = filepath_Join [path_string dir, m_LogPath ?k]\<rparr>))) w' (outcomeOf s runID ?k result) (storedManifest s runID (w_fs w')) []"
    if w': "noFaults w'" "runReady s runID (w_fs w')" for w'
  proof (rule completes_bind0[OF completes_WriteSummary[OF w']])
    fix w'' :: lworld assume w'': "noFaults w''" "runReady s runID (w_fs w'')" "storedManifest s runID (w_fs w'') = storedManifest s runID (w_fs w')"
    show "completes s runID (bind (RunDirectory s runID) (\<lambda>dir. ret \<lparr>o_Manifest = ?k, o_ExecutionError = x_Err result,
       o_RunDirectory = dir, o_LogPath = filepath_Join [path_string dir, m_LogPath ?k]\<rparr>)) w'' (outcomeOf s runID ?k result)
       (storedManifest s runID (w_fs w')) []"
      unfolding w''(3)[symmetric] outcomeOf_def
      by (rule completes_bind0[OF completes_RunDirectory[OF w''(1,2)]]) (metis completes_ret)
  qed
  have "completes s runID (bind (AppendEvent s runID ?e) (\<lambda>_. bind (WriteSummary s runID (finalSummary ?k)) (\<lambda>_. bind (RunDirectory s runID)
      (\<lambda>dir. ret \<lparr>o_Manifest = ?k, o_ExecutionError = x_Err result, o_RunDirectory = dir,
          o_LogPath = filepath_Join [path_string dir, m_LogPath ?k]\<rparr>)))) w' (outcomeOf s runID ?k result) ?k ([stampedEvent runID 0 ?e] @ [])"
    if w': "noFaults w'" "runReady s runID (w_fs w')" "storedManifest s runID (w_fs w') = ?k" for w'
  proof (rule completes_bind[OF completes_AppendEvent[OF w'(1,2)]])
    show "e_RunID ?e = []" "e_Time ?e \<noteq> 0" using t by simp_all
    fix w2 :: lworld
    assume w2: "noFaults w2" "runReady s runID (w_fs w2)" "storedManifest s runID (w_fs w2) = storedManifest s runID (w_fs w')"
    from tail[OF w2(1,2)] show "completes s runID (bind (WriteSummary s runID (finalSummary ?k)) (\<lambda>_. bind (RunDirectory s runID)
      (\<lambda>dir. ret \<lparr>o_Manifest = ?k, o_ExecutionError = x_Err result, o_RunDirectory = dir,
          o_LogPath = filepath_Join [path_string dir, m_LogPath ?k]\<rparr>))) w2 (outcomeOf s runID ?k result) ?k []"
      unfolding w2(3) w'(3) .
  qed
  then have "completes s runID (finishRun s runID stage upd message result) w (outcomeOf s runID ?k result) ?k [stampedEvent runID 0 ?e]"
    unfolding finishRun_def
    by (intro completes_bind0[OF completes_now[OF assms(1,2)]] completes_bind0[OF up]) simp_all
  moreover have "e_Kind (stampedEvent runID 0 ?e) = EventStepFinished" "e_Stage (stampedEvent runID 0 ?e) = stage"
    by (simp_all add: stampedEvent_def stepEvent_def)
  ultimately show ?thesis by blast
qed

text \<open>What the executor must do in a run without faults: return with the run's files in order.\<close>

definition executesReady :: "Store \<Rightarrow> string \<Rightarrow> (lworld \<Rightarrow> ExecutionResult \<times> lworld) \<Rightarrow> bool" where
  "executesReady s runID f \<longleftrightarrow> (\<forall>w. noFaults w \<and> clockSet w \<and> runReady s runID (w_fs w) \<longrightarrow>
     (case f w of (res, w') \<Rightarrow> noFaults w' \<and> clockSet w' \<and> runReady s runID (w_fs w')))"

lemma completesD: "completes s runID m w x k es \<Longrightarrow> \<exists>w'. m w = (Inr x, w') \<and> noFaults w' \<and> runReady s runID (w_fs w') \<and>
    storedManifest s runID (w_fs w') = k \<and> w_clock w' = w_clock w"
  unfolding completes_def by blast

lemma execute_then_finish:
  assumes w: "noFaults w" "clockSet w" "runReady s runID (w_fs w)" and ex: "executesReady s runID f"
    and id: "\<And>r t m. m_RunID (upd r t m) = m_RunID m" "\<And>r t m. m_SchemaVersion (upd r t m) = m_SchemaVersion m"
  shows "\<exists>result w1 t w'. f w = (result, w1) \<and>
    bind (callExecute f) (\<lambda>result. finishRun s runID stage upd message result) w =
      (Inr (outcomeOf s runID (bumpRevision (upd result t (storedManifest s runID (w_fs w1)))) result), w') \<and>
    persisted s runID w' = Some (bumpRevision (upd result t (storedManifest s runID (w_fs w1)))) \<and> runReady s runID (w_fs w')"
proof -
  obtain result w1 where f: "f w = (result, w1)" by fastforce
  with ex w have w1: "noFaults w1" "clockSet w1" "runReady s runID (w_fs w1)" by (auto simp: executesReady_def)
  obtain t ev where "completes s runID (finishRun s runID stage upd message result) w1
    (outcomeOf s runID (bumpRevision (upd result t (storedManifest s runID (w_fs w1)))) result)
    (bumpRevision (upd result t (storedManifest s runID (w_fs w1)))) [ev]"
    using completes_finishRun[OF w1(1,3,2), of upd result stage message] id by blast
  from completesD[OF this] show ?thesis
    using f runReady_persisted by (fastforce simp: bind_def callExecute_def)
qed


section \<open>A concrete run\<close>

text \<open>
  A manager over the example store, a run interrupted in its first work item, and an execution that
  records one stack and reports a given result.
\<close>

definition exampleManager :: Manager where
  "exampleManager = \<lparr>mg_Store = Some exampleStore, mg_NewRunID = ret exampleID\<rparr>"

definition exampleResource :: Resource where
  "exampleResource = \<lparr>r_ID = ''pair/c6i.large'', r_Kind = ''pulumi-stack'', r_ProviderID = [], r_StackName = ''tailbench-c6i-large'',
     r_Hostname = [], r_CleanupOwner = [], r_Status = ResourceCreating, r_CreatedAt = None, r_CleanedAt = None,
     r_ExpiresAt = None, r_LastError = [], r_OwnershipCertain = True\<rparr>"

definition exampleResult :: ExecutionResult where
  "exampleResult = \<lparr>x_BenchmarkOutcome = OutcomeSucceeded, x_CleanupOutcome = OutcomeSucceeded, x_ResourcesChanged = True,
     x_Resources = None, x_Work = None, x_Failures = [], x_Err = None\<rparr>"

definition recordingExecute :: "Recorder \<Rightarrow> 'a \<Rightarrow> lworld \<Rightarrow> ExecutionResult \<times> lworld" where
  "recordingExecute rec work w = (exampleResult, snd (RecordResources rec [exampleResource] w))"

definition interruptedManifest :: Manifest where
  "interruptedManifest = (initialManifest exampleRequest 7)\<lparr>m_Status := RunInterrupted, m_Recoverable := True, m_EndedAt := Some 9\<rparr>"

definition interruptedRuns :: "path \<Rightarrow> FinalSummary document node option" where
  "interruptedRuns = putManifest exampleStore exampleID interruptedManifest createdRuns"

abbreviation exampleRecorder :: Recorder where
  "exampleRecorder \<equiv> \<lparr>rc_store = exampleStore, rc_runID = exampleID\<rparr>"

lemma exampleManager_store: "mg_Store exampleManager = Some exampleStore"
  by (simp add: exampleManager_def)

lemma clockSet_worldOf [simp]: "clockSet (worldOf fs)"
  by (simp add: clockSet_def worldOf_def)

lemma interruptedManifest_id: "m_RunID interruptedManifest = exampleID" "m_SchemaVersion interruptedManifest = SchemaVersion"
  by (simp_all add: interruptedManifest_def initialManifest_def)

lemma interruptedRuns_ready: "runReady exampleStore exampleID interruptedRuns" "storedManifest exampleStore exampleID interruptedRuns = interruptedManifest"
  unfolding interruptedRuns_def by (simp_all add: createdRuns_ready interruptedManifest_id del: exampleStore_root)

lemma interruptedRuns_persisted: "persisted exampleStore exampleID (worldOf interruptedRuns) = Some interruptedManifest"
  using runReady_persisted[of exampleStore exampleID "worldOf interruptedRuns"] interruptedRuns_ready by simp

lemma interruptedManifest_facts: "statusInv interruptedManifest" "m_Resources interruptedManifest = []" "m_Recoverable interruptedManifest"
  "unfinishedWork (m_Work interruptedManifest) \<noteq> []"
  by (simp_all add: interruptedManifest_def initialManifest_def statusInv_def unfinishedWork_def exampleRequest_def)

lemma exampleResource_normalized:
  "normalizeResources exampleID t [exampleResource] = Inr [exampleResource\<lparr>r_CleanupOwner := exampleID, r_CreatedAt := Some t\<rparr>]"
  by (simp add: normalizeResource_def exampleResource_def Let_def)

lemma recordingExecute_stepwise: "executesStepwise exampleStore exampleID (recordingExecute exampleRecorder work)"
  using stepwise_RecordResources[of exampleStore exampleID "[exampleResource]"]
  by (simp add: executesStepwise_def recordingExecute_def stepwise_def)

lemma recordingExecute_ready: "executesReady exampleStore exampleID (recordingExecute exampleRecorder work)"
proof -
  have ok: "case recordingExecute exampleRecorder work w of (res, w') \<Rightarrow> noFaults w' \<and> clockSet w' \<and> runReady exampleStore exampleID (w_fs w')"
    if w: "noFaults w" "clockSet w" "runReady exampleStore exampleID (w_fs w)" for w
  proof -
    have "w_clock w (w_ticks w) \<noteq> 0" using w(2) by (simp add: clockSet_def)
    from completesD[OF completes_RecordResources[OF w(1,3) _ this exampleResource_normalized]]
    obtain w' where "RecordResources exampleRecorder [exampleResource] w = (Inr (), w')" "noFaults w'"
      "runReady exampleStore exampleID (w_fs w')" "w_clock w' = w_clock w" by blast
    then show ?thesis using w(2) unfolding recordingExecute_def clockSet_def by (simp only: snd_conv prod.case simp_thms)
  qed
  show ?thesis unfolding executesReady_def by (intro allI impI, elim conjE, rule ok)
qed


section \<open>Properties\<close>

lemma steps_keep_manifest:
  assumes "(lifecycleStep s runID)\<^sup>*\<^sup>* w w'" "persisted s runID w = Some m" "statusInv m" "distinct (map r_ID (m_Resources m))"
  shows "\<exists>m'. persisted s runID w' = Some m' \<and> statusInv m' \<and> r_ID ` set (m_Resources m) \<subseteq> r_ID ` set (m_Resources m') \<and>
     distinct (map r_ID (m_Resources m'))"
proof -
  have "\<exists>m'. persisted s runID w' = Some m' \<and> (statusInv m' \<and> inventoryInv (r_ID ` set (m_Resources m)) m')"
  proof (rule lifecycle_invariant[OF assms(1,2)])
    show "statusInv m \<and> inventoryInv (r_ID ` set (m_Resources m)) m" using assms(3,4) by (simp add: inventoryInv_def)
  qed (use statusInv_update inventoryInv_update in blast)
  then show ?thesis unfolding inventoryInv_def by blast
qed

text \<open>
  C6 A resource that was recorded is never lost: once RecordResources has returned successfully, then
  after any further sequence of lifecycle steps (other recordings, work steps, the final result, a
  resumption, a cleanup), with any system calls failing anywhere, the manifest on disk still loads and
  lists every recorded resource, each identifier once.
\<close>

theorem recorded_resources_durable:
  assumes "RecordResources \<lparr>rc_store = s, rc_runID = runID\<rparr> rs w = (Inr (), w1)"
    and "persisted s runID w = Some m0" "distinct (map r_ID (m_Resources m0))"
    and "(lifecycleStep s runID)\<^sup>*\<^sup>* w1 w2"
  shows "\<exists>m. persisted s runID w2 = Some m \<and> r_ID ` set rs \<subseteq> r_ID ` set (m_Resources m) \<and> distinct (map r_ID (m_Resources m))"
proof -
  have "\<exists>m1. persisted s runID w1 = Some m1 \<and> inventoryInv (r_ID ` set rs) m1"
  proof (cases "rs = []")
    case True
    with assms(1-3) show ?thesis by (auto simp: RecordResources_def ret_def inventoryInv_def)
  next
    case False
    obtain m t ns where r: "persisted s runID w = Some m" "normalizeResources runID t rs = Inr ns"
        "persisted s runID w1 = Some (bumpRevision (fold upsertManifestResource ns (m\<lparr>m_ResourcesChanged := True\<rparr>)))"
      by (rule RecordResources_ok_persisted[OF assms(1) False])
    have "r_ID ` set ns = r_ID ` set rs" using normalizeResources_props[OF r(2)] by (metis list.set_map)
    moreover have "inventoryInv {} m" using r(1) assms(2,3) by (simp add: inventoryInv_def)
    ultimately show ?thesis
      using r(3) inventoryInv_upserts[of "{}" "m\<lparr>m_ResourcesChanged := True\<rparr>" ns]
      by (auto simp: fold_upsertManifest inventoryInv_def)
  qed
  then obtain m1 where m1: "persisted s runID w1 = Some m1" "inventoryInv (r_ID ` set rs) m1" by blast
  have "\<exists>m. persisted s runID w2 = Some m \<and> inventoryInv (r_ID ` set rs) m"
    by (rule lifecycle_invariant[OF assms(4) m1(1)]) (auto intro: m1(2) inventoryInv_update)
  then show ?thesis unfolding inventoryInv_def by simp
qed

theorem recorded_resources_durable_witness:
  "\<exists>w1. RecordResources exampleRecorder [exampleResource] (worldOf interruptedRuns) = (Inr (), w1) \<and>
     (\<exists>m. persisted exampleStore exampleID (snd (Resume exampleManager exampleID (Some recordingExecute) w1)) = Some m \<and>
       ''pair/c6i.large'' \<in> r_ID ` set (m_Resources m))"
proof -
  have t: "w_clock (worldOf interruptedRuns) (w_ticks (worldOf interruptedRuns)) \<noteq> (0 :: int)" by (simp add: worldOf_def)
  have ne: "[exampleResource] \<noteq> []" by simp
  have fs: "noFaults (worldOf interruptedRuns)" "runReady exampleStore exampleID (w_fs (worldOf interruptedRuns))"
    by (simp_all add: interruptedRuns_ready)
  obtain w1 where w1: "RecordResources exampleRecorder [exampleResource] (worldOf interruptedRuns) = (Inr (), w1)"
    using completesD[OF completes_RecordResources[OF fs ne t exampleResource_normalized]] by blast
  have "(lifecycleStep exampleStore exampleID)\<^sup>*\<^sup>* w1 (snd (Resume exampleManager exampleID (Some recordingExecute) w1))"
    using stepwise_Resume[where execute = recordingExecute, OF exampleManager_store recordingExecute_stepwise]
    unfolding stepwise_def by blast
  from recorded_resources_durable[OF w1 interruptedRuns_persisted _ this] interruptedManifest_facts(2) w1
  show ?thesis by (auto simp: exampleResource_def)
qed

text \<open>
  Resuming a run is crash-safe: whatever system calls fail and whatever the execution does through
  the recorder, the manifest on disk afterwards loads, lists every resource it listed before, and its
  status, outcomes, end time and recoverability agree with each other.
\<close>

theorem Resume_crash_safe:
  assumes "mg_Store mgr = Some s" "persisted s runID w = Some m" "statusInv m" "distinct (map r_ID (m_Resources m))"
    and "\<And>work. executesStepwise s runID (execute \<lparr>rc_store = s, rc_runID = runID\<rparr> work)"
  shows "\<exists>m'. persisted s runID (snd (Resume mgr runID (Some execute) w)) = Some m' \<and> statusInv m' \<and>
     r_ID ` set (m_Resources m) \<subseteq> r_ID ` set (m_Resources m') \<and> distinct (map r_ID (m_Resources m'))"
proof -
  have "(lifecycleStep s runID)\<^sup>*\<^sup>* w (snd (Resume mgr runID (Some execute) w))"
    using stepwise_Resume[where execute = execute, OF assms(1,5)] unfolding stepwise_def by blast
  from steps_keep_manifest[OF this assms(2-4)] show ?thesis .
qed

theorem Resume_crash_safe_witness:
  "\<exists>m'. persisted exampleStore exampleID (snd (Resume exampleManager exampleID (Some recordingExecute) (worldOf interruptedRuns))) = Some m' \<and>
     statusInv m'"
  using Resume_crash_safe[where execute = recordingExecute, OF exampleManager_store interruptedRuns_persisted
      interruptedManifest_facts(1) _ recordingExecute_stepwise] interruptedManifest_facts(2) by auto

text \<open>
  Cleaning up a run is crash-safe in the same sense: no failure and no interruption can make the
  inventory of a run forget a resource or leave a manifest that does not load.
\<close>

theorem Cleanup_crash_safe:
  assumes "mg_Store mgr = Some s" "persisted s runID w = Some m" "statusInv m" "distinct (map r_ID (m_Resources m))"
    and "\<And>rs. executesStepwise s runID (execute \<lparr>rc_store = s, rc_runID = runID\<rparr> rs)"
    and "\<And>rec rs w. x_Resources (fst (execute rec rs w)) = None"
  shows "\<exists>m'. persisted s runID (snd (Cleanup mgr runID (Some execute) w)) = Some m' \<and> statusInv m' \<and>
     r_ID ` set (m_Resources m) \<subseteq> r_ID ` set (m_Resources m') \<and> distinct (map r_ID (m_Resources m'))"
proof -
  have "(lifecycleStep s runID)\<^sup>*\<^sup>* w (snd (Cleanup mgr runID (Some execute) w))"
    using stepwise_Cleanup[where execute = execute, OF assms(1,5,6)] unfolding stepwise_def by blast
  from steps_keep_manifest[OF this assms(2-4)] show ?thesis .
qed

theorem Cleanup_crash_safe_witness:
  "\<exists>m'. persisted exampleStore exampleID (snd (Cleanup exampleManager exampleID (Some recordingExecute) (worldOf interruptedRuns))) = Some m' \<and>
     statusInv m'"
proof -
  have none: "x_Resources (fst (recordingExecute rec rs w)) = None" for rec w and rs :: "Resource list"
    by (simp add: recordingExecute_def exampleResult_def)
  show ?thesis
    using Cleanup_crash_safe[where execute = recordingExecute, OF exampleManager_store interruptedRuns_persisted
      interruptedManifest_facts(1) _ recordingExecute_stepwise none] interruptedManifest_facts(2) by auto
qed

text \<open>
  A run is marked as not recoverable only when nothing is left to recover: it was not interrupted,
  cleanup succeeded or was skipped, every tracked resource is cleaned, and no work item is pending,
  running or waiting for cleanup; and work that was running when the execution returned is marked failed.
\<close>

theorem not_recoverable_is_done:
  assumes "\<not> m_Recoverable (applyExecutionResult m result endedAt)"
  shows "m_Status (applyExecutionResult m result endedAt) \<noteq> RunInterrupted \<and>
    m_CleanupOutcome (applyExecutionResult m result endedAt) \<in> {OutcomeSucceeded, OutcomeSkipped} \<and>
    (\<forall>r \<in> set (m_Resources (applyExecutionResult m result endedAt)). r_Status r = ResourceCleaned) \<and>
    (\<forall>x \<in> set (m_Work (applyExecutionResult m result endedAt)). wi_Status x \<notin> {WorkPending, WorkRunning, WorkCleanupPending})"
proof -
  obtain bo co where o: "executionOutcomes result = (bo, co)" by fastforce
  have "co \<noteq> OutcomeUnset" using o by (auto simp: executionOutcomes_def split: if_splits)
  then have co: "co \<notin> {OutcomeFailed, OutcomePending} \<Longrightarrow> co \<in> {OutcomeSucceeded, OutcomeSkipped}" by (cases co) auto
  from assms have "executionStatus (x_Err result) bo co \<noteq> RunInterrupted" "co \<notin> {OutcomeFailed, OutcomePending}"
    "\<not> hasRecoverableWork (m_Work (applyExecutionResult m result endedAt))"
    "\<not> hasUncleanResources (m_Resources (applyExecutionResult m result endedAt))"
    unfolding applyExecutionResult_fields(11)[OF o] by blast+
  with co show ?thesis
    unfolding applyExecutionResult_fields(2,4)[OF o] hasRecoverableWork_def hasUncleanResources_def list_ex_iff by blast
qed

theorem not_recoverable_is_done_witness:
  "m_CleanupOutcome (applyExecutionResult (interruptedManifest\<lparr>m_Work := []\<rparr>) exampleResult 11) \<in> {OutcomeSucceeded, OutcomeSkipped}"
proof -
  have "\<not> m_Recoverable (applyExecutionResult (interruptedManifest\<lparr>m_Work := []\<rparr>) exampleResult 11)"
    by (simp add: applyExecutionResult_def executionOutcomes_def executionStatus_def exampleResult_def interruptedManifest_def
        initialManifest_def hasRecoverableWork_def hasUncleanResources_def finalizeWork_def Let_def errors_Is_opt_def)
  from not_recoverable_is_done[OF this] show ?thesis by blast
qed

text \<open>
  Resume refuses a run that is not recoverable or has no unfinished work, and a refused resumption
  changes no file; without faults the error is the one the command reports as nothing to recover.
\<close>

theorem Resume_refuses_finished_run:
  assumes "mg_Store mgr = Some s" "persisted s runID w = Some m" "\<not> m_Recoverable m \<or> unfinishedWork (m_Work m) = []"
  shows "case Resume mgr runID (Some execute) w of (r, w') \<Rightarrow>
     (\<exists>e. r = Inl e \<and> (noFaults w \<longrightarrow> errors_Is e ErrNotRecoverable)) \<and> w_fs w' = w_fs w"
proof -
  obtain r0 w0 where l: "Load s runID w = (r0, w0)" by fastforce
  have e: "w_fs w0 = w_fs w" using touchesD[OF touches_Load[of "{}"] l] by (auto simp: evolves_def)
  show ?thesis
  proof (cases r0)
    case (Inl err)
    with l Load_ok[of w s runID m] assms(2) have "\<not> noFaults w" by auto
    with Inl l e assms(1) show ?thesis by (auto simp: Resume_def bind_def)
  next
    case (Inr m')
    with l assms(2) have "m' = m" using Load_Inr by fastforce
    with Inr l e assms(1,3) show ?thesis by (auto simp: Resume_def bind_def raise_def Let_def)
  qed
qed

theorem Resume_refuses_finished_run_witness:
  "w_fs (snd (Resume exampleManager exampleID (Some recordingExecute) (worldOf createdRuns))) = createdRuns"
proof -
  have "persisted exampleStore exampleID (worldOf createdRuns :: lworld) =
      Some (storedManifest exampleStore exampleID (createdRuns :: path \<Rightarrow> FinalSummary document node option))"
    by (simp add: runReady_persisted createdRuns_ready del: exampleStore_root)
  moreover have "\<not> m_Recoverable (storedManifest exampleStore exampleID (createdRuns :: path \<Rightarrow> FinalSummary document node option))"
    unfolding createdRuns_def put_stored by (simp add: initialManifest_def)
  ultimately show ?thesis
    using Resume_refuses_finished_run[where execute = recordingExecute, OF exampleManager_store] by (fastforce split: prod.splits)
qed


lemma apply_identity:
  "m_RunID (applyExecutionResult m r t) = m_RunID m" "m_SchemaVersion (applyExecutionResult m r t) = m_SchemaVersion m"
  "m_RunID (applyCleanupResult r t m) = m_RunID m" "m_SchemaVersion (applyCleanupResult r t m) = m_SchemaVersion m"
  by (cases "executionOutcomes r"; simp add: applyExecutionResult_fields applyCleanupResult_def Let_def)+

text \<open>The common parts: the start event, the execution and its end, and the same after an update.\<close>

lemma step_execute_finish:
  assumes w: "noFaults w" "clockSet w" "runReady s runID (w_fs w)" and ex: "executesReady s runID f"
    and id: "\<And>r t m. m_RunID (upd r t m) = m_RunID m" "\<And>r t m. m_SchemaVersion (upd r t m) = m_SchemaVersion m"
  shows "\<exists>w0 result w1 t w'. storedManifest s runID (w_fs w0) = storedManifest s runID (w_fs w) \<and> f w0 = (result, w1) \<and>
    bind now (\<lambda>t. bind (AppendEvent s runID (stepEvent t kind stage msg a b)) (\<lambda>_.
      bind (callExecute f) (\<lambda>result. finishRun s runID stageEnd upd message result))) w =
      (Inr (outcomeOf s runID (bumpRevision (upd result t (storedManifest s runID (w_fs w1)))) result), w') \<and>
    persisted s runID w' = Some (bumpRevision (upd result t (storedManifest s runID (w_fs w1))))"
proof -
  let ?k = "storedManifest s runID (w_fs w)"
  let ?t = "w_clock w (w_ticks w)"
  obtain wb where b: "now w = (Inr ?t, wb)" "noFaults wb" "runReady s runID (w_fs wb)"
      "storedManifest s runID (w_fs wb) = ?k" "w_clock wb = w_clock w"
    using completesD[OF completes_now[OF w(1,3)]] by metis
  have t: "?t \<noteq> 0" using w(2) by (simp add: clockSet_def)
  obtain wc where c: "AppendEvent s runID (stepEvent ?t kind stage msg a b) wb = (Inr (), wc)" "noFaults wc" "runReady s runID (w_fs wc)"
      "storedManifest s runID (w_fs wc) = ?k" "w_clock wc = w_clock wb"
    using completesD[OF completes_AppendEvent[OF b(2,3)], of "stepEvent ?t kind stage msg a b"] b(4) t by auto
  have clk: "clockSet wc" using w(2) b(5) c(5) by (simp add: clockSet_def)
  have run: "bind now (\<lambda>t. bind (AppendEvent s runID (stepEvent t kind stage msg a b)) (\<lambda>_. g)) w = g wc" for g :: "Outcome lio"
    using b(1) c(1) by (simp add: bind_def)
  show ?thesis
    unfolding run using execute_then_finish[where stage = stageEnd and message = message and upd = upd, OF c(2) clk c(3) ex id] c(4)
    by blast
qed

lemma update_execute_finish:
  assumes w: "noFaults w" "clockSet w" "runReady s runID (w_fs w)"
    and g: "m_RunID (g (storedManifest s runID (w_fs w))) = runID" "m_SchemaVersion (g (storedManifest s runID (w_fs w))) = SchemaVersion"
    and ex: "executesReady s runID f"
    and id: "\<And>r t m. m_RunID (upd r t m) = m_RunID m" "\<And>r t m. m_SchemaVersion (upd r t m) = m_SchemaVersion m"
  shows "\<exists>w0 result w1 t w'. storedManifest s runID (w_fs w0) = bumpRevision (g (storedManifest s runID (w_fs w))) \<and> f w0 = (result, w1) \<and>
    bind (Update s runID (Some (\<lambda>m. ret (g m)))) (\<lambda>_. bind now (\<lambda>t. bind (AppendEvent s runID (stepEvent t kind stage msg a b)) (\<lambda>_.
      bind (callExecute f) (\<lambda>result. finishRun s runID stageEnd upd message result)))) w =
      (Inr (outcomeOf s runID (bumpRevision (upd result t (storedManifest s runID (w_fs w1)))) result), w') \<and>
    persisted s runID w' = Some (bumpRevision (upd result t (storedManifest s runID (w_fs w1))))"
proof -
  let ?k = "bumpRevision (g (storedManifest s runID (w_fs w)))"
  obtain wa where a: "Update s runID (Some (\<lambda>m. ret (g m))) w = (Inr ?k, wa)" "noFaults wa" "runReady s runID (w_fs wa)"
      "storedManifest s runID (w_fs wa) = ?k" "w_clock wa = w_clock w"
    using completesD[OF completes_Update_pure[where g = g, OF w(1,3) g]] by blast
  have clk: "clockSet wa" using w(2) a(5) by (simp add: clockSet_def)
  have run: "bind (Update s runID (Some (\<lambda>m. ret (g m)))) (\<lambda>_. h) w = h wa" for h :: "Outcome lio"
    using a(1) by (simp add: bind_def)
  show ?thesis
    unfolding run a(4)[symmetric]
    by (rule step_execute_finish[where upd = upd, OF a(2) clk a(3) ex id])
qed

text \<open>
  C8 Resuming works when it can: for a recoverable run with unfinished work, in a world without faults,
  Resume hands exactly the unfinished work to the execution, over a manifest in which those items are
  pending again with one more retry and all other items are as they were, and it returns the manifest
  that the execution's result determines, which is the one on disk.
\<close>

theorem Resume_completes:
  assumes "mg_Store mgr = Some s" and w: "noFaults w" "clockSet w" "runReady s runID (w_fs w)"
    and "m = storedManifest s runID (w_fs w)" "m_Recoverable m" "unfinishedWork (m_Work m) \<noteq> []"
    and "\<And>work. executesReady s runID (execute \<lparr>rc_store = s, rc_runID = runID\<rparr> work)"
  shows "\<exists>w0 result w1 t w'.
     storedManifest s runID (w_fs w0) = bumpRevision (resumeManifest (wi_ID ` set (unfinishedWork (m_Work m))) m) \<and>
     execute \<lparr>rc_store = s, rc_runID = runID\<rparr> (unfinishedWork (m_Work m)) w0 = (result, w1) \<and>
     Resume mgr runID (Some execute) w =
       (Inr (outcomeOf s runID (bumpRevision (applyExecutionResult (storedManifest s runID (w_fs w1)) result t)) result), w') \<and>
     persisted s runID w' = Some (bumpRevision (applyExecutionResult (storedManifest s runID (w_fs w1)) result t))"
proof -
  let ?us = "unfinishedWork (m_Work m)"
  obtain wl where l: "Load s runID w = (Inr m, wl)" "noFaults wl" "runReady s runID (w_fs wl)"
      "storedManifest s runID (w_fs wl) = m" "w_clock wl = w_clock w"
    using completesD[OF completes_Load[OF w(1,3)]] assms(5) by metis
  have clk: "clockSet wl" using w(2) l(5) by (simp add: clockSet_def)
  have g: "m_RunID (resumeManifest (wi_ID ` set ?us) (storedManifest s runID (w_fs wl))) = runID"
    "m_SchemaVersion (resumeManifest (wi_ID ` set ?us) (storedManifest s runID (w_fs wl))) = SchemaVersion"
    using runReady_stored(3,4)[OF w(3)] l(4) assms(5) by (simp_all add: resumeManifest_def)
  have R: "Resume mgr runID (Some execute) w =
      bind (Update s runID (Some (\<lambda>m. ret (resumeManifest (wi_ID ` set ?us) m)))) (\<lambda>_. bind now (\<lambda>t. bind (AppendEvent s runID
        (stepEvent t EventStepStarted ''resume'' (''resume started for '' @ string_of_nat (length ?us) @ '' unfinished work items'')
          (runStatus_text RunInterrupted) (runStatus_text RunRunning))) (\<lambda>_.
        bind (callExecute (execute \<lparr>rc_store = s, rc_runID = runID\<rparr> ?us)) (\<lambda>result.
        finishRun s runID ''resume'' (\<lambda>result endedAt m. applyExecutionResult m result endedAt)
          (\<lambda>m. ''resume finished with status '' @ runStatus_text (m_Status m)) result)))) wl"
    unfolding Resume_def assms(1) option.case bind_def[of "Load s runID"] l(1) prod.case sum.case Let_def using assms(6,7) by (simp only: if_False simp_thms)
  show ?thesis
    using update_execute_finish[where s = s and runID = runID and f = "execute \<lparr>rc_store = s, rc_runID = runID\<rparr> ?us"
        and g = "resumeManifest (wi_ID ` set ?us)" and kind = EventStepStarted and stage = "''resume''"
        and msg = "''resume started for '' @ string_of_nat (length ?us) @ '' unfinished work items''"
        and a = "runStatus_text RunInterrupted" and b = "runStatus_text RunRunning" and stageEnd = "''resume''"
        and upd = "\<lambda>result endedAt m. applyExecutionResult m result endedAt"
        and message = "\<lambda>m. ''resume finished with status '' @ runStatus_text (m_Status m)",
        OF l(2) clk l(3) g assms(8) apply_identity(1,2)]
    unfolding R l(4) .
qed

theorem Resume_completes_witness:
  "\<exists>out w'. Resume exampleManager exampleID (Some recordingExecute) (worldOf interruptedRuns) = (Inr out, w') \<and>
     persisted exampleStore exampleID w' = Some (o_Manifest out)"
proof -
  have fs: "noFaults (worldOf interruptedRuns)" "clockSet (worldOf interruptedRuns)"
    "runReady exampleStore exampleID (w_fs (worldOf interruptedRuns))" by (simp_all add: interruptedRuns_ready)
  have m: "interruptedManifest = storedManifest exampleStore exampleID (w_fs (worldOf interruptedRuns))"
    by (simp add: interruptedRuns_ready)
  have out: "o_Manifest (outcomeOf s runID m r) = m" for s runID m r by (simp add: outcomeOf_def)
  show ?thesis
    using Resume_completes[where execute = recordingExecute, OF exampleManager_store fs m interruptedManifest_facts(3,4) recordingExecute_ready]
      out by metis
qed


text \<open>
  C9 A cleanup that succeeds leaves nothing behind: without faults, when the cleanup executor gets the
  resources that are not yet cleaned and reports success, the manifest on disk is marked cleaned and
  not recoverable, every resource is cleaned, and every work item is cleaned or was skipped; when it
  reports failure the run stays recoverable, and no resource disappears from the inventory.
\<close>

theorem Cleanup_completes:
  assumes "mg_Store mgr = Some s" and w: "noFaults w" "clockSet w" "runReady s runID (w_fs w)"
    and "m = storedManifest s runID (w_fs w)"
    and ex: "\<And>rs. executesReady s runID (execute \<lparr>rc_store = s, rc_runID = runID\<rparr> rs)"
    and keep: "\<And>rs w. storedManifest s runID (w_fs (snd (execute \<lparr>rc_store = s, rc_runID = runID\<rparr> rs w))) = storedManifest s runID (w_fs w)"
    and none: "\<And>rs w. x_Resources (fst (execute \<lparr>rc_store = s, rc_runID = runID\<rparr> rs w)) = None"
  shows "\<exists>w0 result w1 out w'.
     execute \<lparr>rc_store = s, rc_runID = runID\<rparr> (uncleanResources (m_Resources m)) w0 = (result, w1) \<and>
     Cleanup mgr runID (Some execute) w = (Inr out, w') \<and> persisted s runID w' = Some (o_Manifest out) \<and>
     map r_ID (m_Resources (o_Manifest out)) = map r_ID (m_Resources m) \<and>
     (x_CleanupOutcome result = OutcomeSucceeded \<longrightarrow>
        m_Status (o_Manifest out) = RunCleaned \<and> \<not> m_Recoverable (o_Manifest out) \<and>
        (\<forall>r \<in> set (m_Resources (o_Manifest out)). r_Status r = ResourceCleaned) \<and>
        (\<forall>x \<in> set (m_Work (o_Manifest out)). wi_Status x = WorkCleaned \<or> wi_Status x = WorkSkipped)) \<and>
     (x_CleanupOutcome result = OutcomeFailed \<longrightarrow> m_Recoverable (o_Manifest out) \<and> m_Status (o_Manifest out) \<in> {RunPartial, RunFailed})"
proof -
  let ?rs = "uncleanResources (m_Resources m)"
  let ?f = "execute \<lparr>rc_store = s, rc_runID = runID\<rparr> ?rs"
  obtain wl where l: "Load s runID w = (Inr m, wl)" "noFaults wl" "runReady s runID (w_fs wl)"
      "storedManifest s runID (w_fs wl) = m" "w_clock wl = w_clock w"
    using completesD[OF completes_Load[OF w(1,3)]] assms(5) by metis
  have clk: "clockSet wl" using w(2) l(5) by (simp add: clockSet_def)
  have g: "m_RunID (beginCleanup (storedManifest s runID (w_fs wl))) = runID"
    "m_SchemaVersion (beginCleanup (storedManifest s runID (w_fs wl))) = SchemaVersion"
    using runReady_stored(3,4)[OF w(3)] l(4) assms(5) by (simp_all add: beginCleanup_def)
  have C: "Cleanup mgr runID (Some execute) w =
      bind (Update s runID (Some (\<lambda>m. ret (beginCleanup m)))) (\<lambda>_. bind now (\<lambda>t. bind (AppendEvent s runID
        (stepEvent t EventStepStarted ''cleanup'' (''cleanup started for '' @ string_of_nat (length ?rs) @ '' tracked resources'')
          [] (runStatus_text RunRunning))) (\<lambda>_.
        bind (callExecute ?f) (\<lambda>result. finishRun s runID ''cleanup'' applyCleanupResult
          (\<lambda>m. ''cleanup finished with status '' @ outcome_text (m_CleanupOutcome m)) result)))) wl"
    unfolding Cleanup_def assms(1) option.case bind_def[of "Load s runID"] l(1) prod.case sum.case Let_def ..
  obtain w0 result w1 t w' where r: "storedManifest s runID (w_fs w0) = bumpRevision (beginCleanup m)" "?f w0 = (result, w1)"
      "Cleanup mgr runID (Some execute) w = (Inr (outcomeOf s runID (bumpRevision (applyCleanupResult result t (storedManifest s runID (w_fs w1)))) result), w')"
      "persisted s runID w' = Some (bumpRevision (applyCleanupResult result t (storedManifest s runID (w_fs w1))))"
    using update_execute_finish[where s = s and runID = runID and f = ?f and g = beginCleanup and kind = EventStepStarted
        and stage = "''cleanup''" and msg = "''cleanup started for '' @ string_of_nat (length ?rs) @ '' tracked resources''"
        and a = "[]" and b = "runStatus_text RunRunning" and stageEnd = "''cleanup''" and upd = applyCleanupResult
        and message = "\<lambda>m. ''cleanup finished with status '' @ outcome_text (m_CleanupOutcome m)",
        OF l(2) clk l(3) g ex apply_identity(3,4)]
    unfolding C l(4) by blast
  let ?k = "bumpRevision (applyCleanupResult result t (storedManifest s runID (w_fs w1)))"
  have m1: "storedManifest s runID (w_fs w1) = bumpRevision (beginCleanup m)" using keep[of ?rs w0] r(1,2) by simp
  have n: "x_Resources result = None" using none[of ?rs w0] r(2) by simp
  have ids: "map r_ID (m_Resources ?k) = map r_ID (m_Resources m)"
    by (simp add: m1 n applyCleanupResult_def Let_def beginCleanup_def cleanedResource_def comp_def)
  have ok: "x_CleanupOutcome result = OutcomeSucceeded \<Longrightarrow> m_Status ?k = RunCleaned \<and> \<not> m_Recoverable ?k \<and>
      (\<forall>r \<in> set (m_Resources ?k). r_Status r = ResourceCleaned) \<and>
      (\<forall>x \<in> set (m_Work ?k). wi_Status x = WorkCleaned \<or> wi_Status x = WorkSkipped)"
    by (auto simp: m1 n applyCleanupResult_def Let_def beginCleanup_def cleanedResource_def)
  have bad: "x_CleanupOutcome result = OutcomeFailed \<Longrightarrow> m_Recoverable ?k \<and> m_Status ?k \<in> {RunPartial, RunFailed}"
    by (simp add: applyCleanupResult_def Let_def)
  have o: "o_Manifest (outcomeOf s runID ?k result) = ?k" by (simp add: outcomeOf_def)
  show ?thesis
    by (rule exI[of _ w0], rule exI[of _ result], rule exI[of _ w1], rule exI[of _ "outcomeOf s runID ?k result"], rule exI[of _ w'])
      (use r ids ok bad in \<open>simp only: o\<close>, blast)
qed

theorem Cleanup_completes_witness:
  "\<exists>out w'. Cleanup exampleManager exampleID (Some (\<lambda>_ _ w. (exampleResult, w))) (worldOf interruptedRuns) = (Inr out, w') \<and>
     m_Status (o_Manifest out) = RunCleaned"
proof -
  have fs: "noFaults (worldOf interruptedRuns)" "clockSet (worldOf interruptedRuns)"
    "runReady exampleStore exampleID (w_fs (worldOf interruptedRuns))" by (simp_all add: interruptedRuns_ready)
  have ex: "executesReady exampleStore exampleID ((\<lambda>_ _ w. (exampleResult, w)) exampleRecorder rs)" for rs :: "Resource list"
    by (simp add: executesReady_def)
  from Cleanup_completes[where execute = "\<lambda>_ _ w. (exampleResult, w)", OF exampleManager_store fs refl ex]
  show ?thesis by (fastforce simp: exampleResult_def)
qed

text \<open>
  C7 A run goes through: without faults, in an empty run directory of an existing store, Run creates the
  run for the plan's work, calls the execution with it, and returns the manifest that the execution's
  result determines, which is the one on disk.
\<close>

theorem Run_completes:
  assumes "mg_Store mgr = Some s" "lr_Plan request = Some p" "lr_Execute request = Some execute" "encode p = Inr js"
    and "mg_NewRunID mgr = ret runID" "validateRunID runID = None" "s_root s \<noteq> []"
    and w: "noFaults w" "clockSet w" "w_fs w (Clean (s_root s)) = Some Dir" "freshRun (filepath_Join [s_root s, runID]) (w_fs w)"
    and ex: "executesReady s runID (execute \<lparr>rc_store = s, rc_runID = runID\<rparr>)"
  shows "\<exists>w0 result w1 t w'.
     m_Work (storedManifest s runID (w_fs w0)) = workFromPlan p \<and>
     execute \<lparr>rc_store = s, rc_runID = runID\<rparr> w0 = (result, w1) \<and>
     Run encode sha256hex mgr request w =
       (Inr (outcomeOf s runID (bumpRevision (applyExecutionResult (storedManifest s runID (w_fs w1)) result t)) result), w') \<and>
     persisted s runID w' = Some (bumpRevision (applyExecutionResult (storedManifest s runID (w_fs w1)) result t))"
proof -
  let ?rec = "\<lparr>rc_store = s, rc_runID = runID\<rparr>"
  let ?json = "js @ newline"
  let ?t0 = "w_clock w (w_ticks w)"
  let ?cr = "createRequest request p runID ?t0 ?json (''sha256:'' @ sha256hex ?json)"
  let ?wn = "w\<lparr>w_ticks := w_ticks w + 1\<rparr>"
  have cr: "cr_RunID ?cr = runID" "cr_StartedAt ?cr = ?t0" "cr_InitialWork ?cr = workFromPlan p" by (simp_all add: createRequest_def)
  have t0: "?t0 \<noteq> 0" using w(2) by (simp add: clockSet_def)
  have wn: "noFaults ?wn" "w_fs ?wn (Clean (s_root s)) = Some Dir" "freshRun (filepath_Join [s_root s, runID]) (w_fs ?wn)"
    using w by simp_all
  note create = succeeds_Create[of ?cr s ?wn, unfolded cr, OF assms(6,7) t0 wn]
  obtain wa where a0: "Create s ?cr ?wn = (Inr (initialManifest ?cr ?t0), wa)" "noFaults wa" "w_clock wa = w_clock ?wn"
      "w_fs wa = putEvents s runID [createdEvent runID ?t0] (putManifest s runID (initialManifest ?cr ?t0)
         (layoutFs ?cr (filepath_Join [s_root s, runID]) (w_fs ?wn)))"
    using create(1)[unfolded succeeds_def] by blast
  have id: "m_RunID (initialManifest ?cr ?t0) = runID" "m_SchemaVersion (initialManifest ?cr ?t0) = SchemaVersion"
    by (simp_all only: initialManifest_def Manifest.select_convs cr)
  have a: "runReady s runID (w_fs wa)" "storedManifest s runID (w_fs wa) = initialManifest ?cr ?t0" "w_clock wa = w_clock w"
    unfolding a0(4) by (rule put_ready, rule create(2)) (simp_all add: put_stored a0(3))
  have clk: "clockSet wa" using w(2) a(3) by (simp add: clockSet_def)
  have n0: "now w = (Inr ?t0, ?wn)" by (simp only: now_def)
  have R: "Run encode sha256hex mgr request w = bind now (\<lambda>t. bind (AppendEvent s runID
      (stepEvent t EventStepStarted ''run'' ''approved execution started'' [] [])) (\<lambda>_. bind (callExecute (execute ?rec)) (\<lambda>result.
      finishRun s runID ''run'' (\<lambda>result endedAt m. applyExecutionResult m result endedAt)
        (\<lambda>m. ''execution finished with status '' @ runStatus_text (m_Status m)) result))) wa"
    unfolding Run_def assms(1-3,5) option.case bind_def[of "ret runID"] ret_def[of runID] prod.case sum.case assms(4) Let_def
      bind_def[of now _ w] n0 bind_def[of "Create s ?cr" _ ?wn] a0(1) ..
  have "m_Work (initialManifest ?cr ?t0) = workFromPlan p" by (simp only: initialManifest_def Manifest.select_convs cr)
  with step_execute_finish[where stageEnd = "''run''" and upd = "\<lambda>result endedAt m. applyExecutionResult m result endedAt"
      and message = "\<lambda>m. ''execution finished with status '' @ runStatus_text (m_Status m)" and s = s and runID = runID
      and kind = EventStepStarted and stage = "''run''" and msg = "''approved execution started''" and a = "[]" and b = "[]"
      and f = "execute ?rec", OF a0(2) clk a(1) ex apply_identity(1,2)]
  show ?thesis unfolding R a(2) by (metis (no_types))
qed

theorem Run_completes_witness:
  "\<exists>out w'. Run (\<lambda>_. Inr ''{}'') (\<lambda>_. ''00'') exampleManager
     \<lparr>lr_CommandLine = [''run''], lr_Binary = cr_Binary exampleRequest, lr_Identity = cr_Identity exampleRequest,
       lr_Plan = Some samplePlan, lr_EffectiveConfigYAML = [], lr_Images = [], lr_Execute = Some (\<lambda>rec. recordingExecute rec ())\<rparr>
     (worldOf emptyRuns) = (Inr out, w') \<and> persisted exampleStore exampleID w' = Some (o_Manifest out)"
proof -
  let ?request = "\<lparr>lr_CommandLine = [''run''], lr_Binary = cr_Binary exampleRequest, lr_Identity = cr_Identity exampleRequest,
       lr_Plan = Some samplePlan, lr_EffectiveConfigYAML = [], lr_Images = [], lr_Execute = Some (\<lambda>rec. recordingExecute rec ())\<rparr>"
  have fs: "noFaults (worldOf emptyRuns :: lworld)" "clockSet (worldOf emptyRuns)"
    "w_fs (worldOf emptyRuns :: lworld) (Clean (s_root exampleStore)) = Some Dir"
    "freshRun (filepath_Join [s_root exampleStore, exampleID]) (w_fs (worldOf emptyRuns :: lworld))"
    using emptyRuns_fresh by (simp_all add: emptyRuns_def)
  have root: "s_root exampleStore \<noteq> []" by simp
  have rq: "lr_Plan ?request = Some samplePlan" "lr_Execute ?request = Some (\<lambda>rec. recordingExecute rec ())" by simp_all
  have id: "mg_NewRunID exampleManager = ret exampleID" by (simp add: exampleManager_def)
  have out: "o_Manifest (outcomeOf s runID m r) = m" for s runID m r by (simp add: outcomeOf_def)
  note run = Run_completes[where request = ?request and encode = "\<lambda>_. Inr ''{}''" and sha256hex = "\<lambda>_. ''00''",
      OF exampleManager_store rq refl id exampleID_valid root fs recordingExecute_ready]
  show ?thesis by (rule exE[OF run], elim exE conjE, intro exI conjI, assumption) (simp only: out)
qed

end
