(* ===== verification/Lifecycle_Recovery.thy ===== *)
theory Lifecycle_Recovery
  imports Lifecycle_Theorems
begin

text \<open>
  What can be resumed and what cannot: the flag that \<open>Resume\<close> tests is set only when an operation of
  the manager ends, so it says nothing yet while the first execution of a run is under way.
\<close>

section \<open>Properties of worlds that programs keep\<close>

definition keeps :: "(lworld \<Rightarrow> bool) \<Rightarrow> 'a lio \<Rightarrow> bool" where
  "keeps I m \<longleftrightarrow> (\<forall>w. I w \<longrightarrow> I (snd (m w)))"

named_theorems keep \<open>programs that keep a property of the world\<close>

lemma keeps_bind [keep]: "keeps I m \<Longrightarrow> (\<And>x. keeps I (f x)) \<Longrightarrow> keeps I (bind m f)"
  unfolding keeps_def bind_def by (fastforce split: prod.splits sum.splits)

lemma keeps_if [keep]: "(c \<Longrightarrow> keeps I a) \<Longrightarrow> (\<not> c \<Longrightarrow> keeps I b) \<Longrightarrow> keeps I (if c then a else b)"
  by simp

lemma keeps_ret [keep]: "keeps I (ret x)"
  by (simp add: keeps_def ret_def)

lemma keeps_raise [keep]: "keeps I (raise e)"
  by (simp add: keeps_def raise_def)

lemma keeps_forEach [keep]: "(\<And>x. keeps I (f x)) \<Longrightarrow> keeps I (forEach f xs)"
  by (induction xs) (auto intro: keep)

text \<open>The manifest on disk has the property \<open>P\<close>.\<close>

definition onDisk :: "Store \<Rightarrow> string \<Rightarrow> (Manifest \<Rightarrow> bool) \<Rightarrow> lworld \<Rightarrow> bool" where
  "onDisk s runID P w \<longleftrightarrow> (\<exists>m. persisted s runID w = Some m \<and> P m)"

lemma keeps_now [keep]: "keeps (onDisk s runID P) now"
proof -
  have "persisted s runID (snd (now w)) = persisted s runID w" for w :: lworld
    by (rule persisted_cong[OF touchesD[OF touches_now prod.collapse[symmetric]], of s runID "{}"]) auto
  then show ?thesis by (simp add: keeps_def onDisk_def)
qed

lemma keeps_AppendEvent [keep]: "keeps (onDisk s runID P) (AppendEvent s runID e)"
  unfolding keeps_def onDisk_def using persisted_AppendEvent[OF prod.collapse[symmetric]] by metis

lemma keeps_Update:
  assumes "quietMutator f" "\<And>m w m1 w'. P m \<Longrightarrow> f m w = (Inr m1, w') \<Longrightarrow> P (bumpRevision m1)"
  shows "keeps (onDisk s runID P) (Update s runID (Some f))"
proof -
  have "onDisk s runID P (snd (Update s runID (Some f) w))" if "onDisk s runID P w" for w
    using that ms.update_invariant[of f s runID w _ P, OF assms(1) _ _ prod.collapse[symmetric]] assms(2)
    unfolding onDisk_def by blast
  then show ?thesis by (simp add: keeps_def)
qed

section \<open>The recorder during an execution\<close>

inductive recorderStep :: "Store \<Rightarrow> string \<Rightarrow> lworld \<Rightarrow> lworld \<Rightarrow> bool" for s runID where
  resources: "RecordResources \<lparr>rc_store = s, rc_runID = runID\<rparr> rs w = (r, w') \<Longrightarrow> recorderStep s runID w w'"
| before: "BeforeExternalStep \<lparr>rc_store = s, rc_runID = runID\<rparr> stage workID message w = (r, w') \<Longrightarrow> recorderStep s runID w w'"
| after: "AfterExternalStep \<lparr>rc_store = s, rc_runID = runID\<rparr> stage workID status message w = (r, w') \<Longrightarrow> recorderStep s runID w w'"

abbreviation unrecoverable :: "Manifest \<Rightarrow> bool" where
  "unrecoverable m \<equiv> \<not> m_Recoverable m"

lemma keeps_workUpdate: "keeps (onDisk s runID unrecoverable) (Update s runID (Some (workMutator workID g)))"
  by (rule keeps_Update[OF quiet_workMutator]) (erule workMutator_cases; simp)

lemma keeps_recordUpdate:
  assumes "normalizeResources runID t rs = Inr ns"
  shows "keeps (onDisk s runID unrecoverable) (Update s runID (Some (recordMutator ns)))"
  by (rule keeps_Update[OF lifecycleUpdate_quiet[OF lifecycleUpdate.recorded[OF assms]]])
    (auto simp: recordMutator_def ret_def fold_upsertManifest)

lemma keeps_RecordResources: "keeps (onDisk s runID unrecoverable) (RecordResources \<lparr>rc_store = s, rc_runID = runID\<rparr> rs)"
proof -
  have "keeps (onDisk s runID unrecoverable) (case normalizeResources runID t rs of Inl e \<Rightarrow> raise e
       | Inr ns \<Rightarrow> bind (Update s runID (Some (recordMutator ns)))
           (\<lambda>_. forEach (\<lambda>r. AppendEvent s runID (resourceEvent t r)) ns))" for t
    by (cases "normalizeResources runID t rs") (auto intro!: keep keeps_recordUpdate)
  then show ?thesis unfolding RecordResources_def Recorder.select_convs by (intro keep)
qed

lemma keeps_external:
  "keeps (onDisk s runID unrecoverable) (BeforeExternalStep \<lparr>rc_store = s, rc_runID = runID\<rparr> stage workID message)"
  "keeps (onDisk s runID unrecoverable) (AfterExternalStep \<lparr>rc_store = s, rc_runID = runID\<rparr> stage workID status message)"
  unfolding BeforeExternalStep_def AfterExternalStep_def Recorder.select_convs by (intro keep keeps_workUpdate)+

lemma recorderSteps_unrecoverable:
  assumes "(recorderStep s runID)\<^sup>*\<^sup>* w w'" "onDisk s runID unrecoverable w"
  shows "onDisk s runID unrecoverable w'"
  using assms(1)
proof (induction rule: rtranclp_induct)
  case (step w1 w2)
  from step.hyps(2) step.IH show ?case
    using keeps_RecordResources keeps_external unfolding keeps_def by cases (metis snd_conv)+
qed (rule assms(2))

lemma Resume_not_recoverable:
  assumes "mg_Store mgr = Some s" "noFaults w" "persisted s runID w = Some m" "\<not> m_Recoverable m"
  shows "\<exists>e w'. Resume mgr runID (Some execute) w = (Inl e, w') \<and> errors_Is e ErrNotRecoverable"
proof -
  obtain w0 where "Load s runID w = (Inr m, w0)" using Load_ok[OF assms(2,3)] by blast
  with assms(1,4) show ?thesis by (auto simp: Resume_def bind_def raise_def Let_def)
qed

text \<open>
  C10 A run whose process dies during its first execution cannot be resumed: the manifest that Create
  writes is not marked recoverable, no call of the recorder (resources recorded, steps started and
  finished, with system calls failing or not) marks it, and Resume of what is then on disk is refused as
  having nothing to recover, whatever work is pending or running.
\<close>

theorem killed_run_not_resumable:
  assumes "mg_Store mgr = Some s" "persisted s runID w = Some (initialManifest request t)"
    and "(recorderStep s runID)\<^sup>*\<^sup>* w w'" "noFaults w'"
  shows "\<exists>m e w''. persisted s runID w' = Some m \<and> Resume mgr runID (Some execute) w' = (Inl e, w'') \<and> errors_Is e ErrNotRecoverable"
proof -
  have "onDisk s runID unrecoverable w" using assms(2) by (simp add: onDisk_def initialManifest_def)
  from recorderSteps_unrecoverable[OF assms(3) this] obtain m where "persisted s runID w' = Some m" "\<not> m_Recoverable m"
    unfolding onDisk_def by blast
  with Resume_not_recoverable[OF assms(1,4)] show ?thesis by blast
qed

theorem killed_run_not_resumable_witness:
  "\<exists>w' m e w''. RecordResources exampleRecorder [exampleResource] (worldOf createdRuns) = (Inr (), w') \<and>
     persisted exampleStore exampleID w' = Some m \<and> unfinishedWork (m_Work m) \<noteq> [] \<and>
     Resume exampleManager exampleID (Some recordingExecute) w' = (Inl e, w'') \<and> errors_Is e ErrNotRecoverable"
proof -
  let ?w = "worldOf createdRuns :: lworld"
  have t: "w_clock ?w (w_ticks ?w) \<noteq> (0 :: int)" by (simp add: worldOf_def)
  have ne: "[exampleResource] \<noteq> []" by simp
  have stored: "storedManifest exampleStore exampleID (w_fs ?w) = initialManifest exampleRequest 7"
    unfolding worldOf_simps createdRuns_def put_stored ..
  have fs: "noFaults ?w" "runReady exampleStore exampleID (w_fs ?w)" by (simp_all add: createdRuns_ready del: exampleStore_root)
  have p: "persisted exampleStore exampleID ?w = Some (initialManifest exampleRequest 7)"
    using runReady_persisted[OF fs(2)] unfolding stored .
  obtain w' where w': "RecordResources exampleRecorder [exampleResource] ?w = (Inr (), w')" "noFaults w'"
      "runReady exampleStore exampleID (w_fs w')"
      "storedManifest exampleStore exampleID (w_fs w') = bumpRevision (fold upsertManifestResource
         [exampleResource\<lparr>r_CleanupOwner := exampleID, r_CreatedAt := Some (w_clock ?w (w_ticks ?w))\<rparr>]
         ((initialManifest exampleRequest 7)\<lparr>m_ResourcesChanged := True\<rparr>))"
    using completesD[OF completes_RecordResources[OF fs ne t exampleResource_normalized]] unfolding stored by blast
  have un: "unfinishedWork (m_Work (storedManifest exampleStore exampleID (w_fs w'))) \<noteq> []"
    unfolding w'(4) fold_upsertManifest by (simp add: initialManifest_def exampleRequest_def unfinishedWork_def)
  have "(recorderStep exampleStore exampleID)\<^sup>*\<^sup>* ?w w'" using recorderStep.resources[OF w'(1)] by blast
  from killed_run_not_resumable[where execute = recordingExecute, OF exampleManager_store p this w'(2)] w'(1) un runReady_persisted[OF w'(3)]
  show ?thesis by metis
qed

text \<open>
  Work that failed is not offered again once everything is cleaned: when an execution reports a
  failure other than an interruption, its cleanup succeeded or was skipped, no resource is left and no
  item is pending, running or waiting for cleanup, then the run ends as failed and is not recoverable,
  and Resume is refused although the failed items count as unfinished work.
\<close>

theorem failed_work_not_resumable:
  assumes "mg_Store mgr = Some s" "noFaults w"
    and "persisted s runID w = Some (bumpRevision (applyExecutionResult m result endedAt))"
    and "x_BenchmarkOutcome result = OutcomeFailed" "x_CleanupOutcome result \<in> {OutcomeSucceeded, OutcomeSkipped}"
    and "\<not> errors_Is_opt (x_Err result) Canceled" "\<not> errors_Is_opt (x_Err result) DeadlineExceeded"
    and "x_Resources result = None" "\<not> hasUncleanResources (m_Resources m)"
    and "x_Work result = Some ws" "\<not> hasRecoverableWork ws" "item \<in> set ws" "wi_Status item = WorkFailed"
  shows "m_Status (applyExecutionResult m result endedAt) = RunFailed \<and>
    item \<in> set (unfinishedWork (m_Work (applyExecutionResult m result endedAt))) \<and>
    (\<exists>e w'. Resume mgr runID (Some execute) w = (Inl e, w') \<and> errors_Is e ErrNotRecoverable)"
proof -
  obtain co where o: "executionOutcomes result = (OutcomeFailed, co)" "co \<in> {OutcomeSucceeded, OutcomeSkipped}"
    using assms(4,5) by (auto simp: executionOutcomes_def)
  note fields = applyExecutionResult_fields[OF o(1), of m endedAt]
  have st: "m_Status (applyExecutionResult m result endedAt) = RunFailed"
    using assms(6,7) by (simp add: fields(4) executionStatus_def)
  have work: "m_Work (applyExecutionResult m result endedAt) = ws" using assms(10) by (simp add: fields(8))
  have "\<not> m_Recoverable (bumpRevision (applyExecutionResult m result endedAt))"
    using st o(2) assms(8,9,11) work by (auto simp: fields(4,7,11))
  from Resume_not_recoverable[OF assms(1-3) this] st show ?thesis
    using assms(12,13) by (simp add: work unfinishedWork_def)
qed

definition failedItem :: WorkItem where
  "failedItem = hd (cr_InitialWork exampleRequest) \<lparr>wi_Status := WorkFailed\<rparr>"

definition failedResult :: ExecutionResult where
  "failedResult = exampleResult\<lparr>x_BenchmarkOutcome := OutcomeFailed, x_Work := Some [failedItem], x_Err := Some (ErrText ''boom'')\<rparr>"

theorem failed_work_not_resumable_witness:
  "\<exists>e w'. Resume exampleManager exampleID (Some recordingExecute)
     (worldOf (putManifest exampleStore exampleID (bumpRevision (applyExecutionResult interruptedManifest failedResult 11)) interruptedRuns)) =
       (Inl e, w') \<and> errors_Is e ErrNotRecoverable"
proof -
  let ?m = "bumpRevision (applyExecutionResult interruptedManifest failedResult 11)"
  let ?w = "worldOf (putManifest exampleStore exampleID ?m interruptedRuns)"
  have id: "m_RunID ?m = exampleID" "m_SchemaVersion ?m = SchemaVersion"
    by (simp_all add: apply_identity interruptedManifest_id)
  have "runReady exampleStore exampleID (w_fs ?w)" "storedManifest exampleStore exampleID (w_fs ?w) = ?m"
    unfolding worldOf_simps by (rule put_ready(1)[OF interruptedRuns_ready(1) id], rule put_stored)
  then have p: "persisted exampleStore exampleID ?w = Some ?m" using runReady_persisted by metis
  have r: "x_BenchmarkOutcome failedResult = OutcomeFailed" "x_CleanupOutcome failedResult \<in> {OutcomeSucceeded, OutcomeSkipped}"
    "\<not> errors_Is_opt (x_Err failedResult) Canceled" "\<not> errors_Is_opt (x_Err failedResult) DeadlineExceeded"
    "x_Resources failedResult = None" "\<not> hasUncleanResources (m_Resources interruptedManifest)"
    "x_Work failedResult = Some [failedItem]" "\<not> hasRecoverableWork [failedItem]" "failedItem \<in> set [failedItem]" "wi_Status failedItem = WorkFailed"
    by (simp_all add: failedResult_def exampleResult_def failedItem_def hasUncleanResources_def interruptedManifest_facts(2)
        hasRecoverableWork_def errors_Is_opt_def)
  from failed_work_not_resumable[where execute = recordingExecute, OF exampleManager_store worldOf_simps(2) p r]
  show ?thesis by blast
qed

end
