(* ===== verification/Lifecycle_Refine.thy ===== *)
theory Lifecycle_Refine
  imports Lifecycle_Theorems
begin

text \<open>
  The lifecycle as an abstract protocol: a run has a status and an inventory that maps the identifier of a resource to
  its status. Every sequence of lifecycle steps on the manifest, with any system call failing anywhere, is a sequence
  of steps of this protocol, and a successful recording is exactly the corresponding change of the inventory.
\<close>

section \<open>The protocol\<close>

type_synonym inventory = "string \<rightharpoonup> ResourceStatus"

definition sweepStarted :: "inventory \<Rightarrow> inventory" where
  "sweepStarted held i = map_option (\<lambda>st. if st = ResourceCleaned then ResourceCleaned else ResourceCleaning) (held i)"

definition sweepFailed :: "inventory \<Rightarrow> inventory" where
  "sweepFailed held i = map_option (\<lambda>st. if st = ResourceCleaned then ResourceCleaned else ResourceUnknown) (held i)"

definition swept :: "inventory \<Rightarrow> inventory" where
  "swept held i = map_option (\<lambda>_. ResourceCleaned) (held i)"

inductive protocolStep :: "RunStatus \<times> inventory \<Rightarrow> RunStatus \<times> inventory \<Rightarrow> bool" where
  record_resource: "protocolStep (st, held) (st, held(i \<mapsto> rst))"
| finish_run: "st' \<in> {RunSucceeded, RunFailed, RunPartial, RunInterrupted} \<Longrightarrow> protocolStep (st, held) (st', held)"
| resume_run: "protocolStep (st, held) (RunRunning, held)"
| begin_sweep: "protocolStep (st, held) (RunRunning, sweepStarted held)"
| end_sweep: "protocolStep (st, held) (RunCleaned, swept held)"
| fail_sweep: "st' \<in> {RunPartial, RunFailed} \<Longrightarrow> protocolStep (st, held) (st', sweepFailed held)"

text \<open>The effect of a recording on an inventory.\<close>

definition recordAll :: "Resource list \<Rightarrow> inventory \<Rightarrow> inventory" where
  "recordAll rs held = fold (\<lambda>r held. held(r_ID r \<mapsto> r_Status r)) rs held"

section \<open>The abstraction\<close>

definition inventoryOf :: "Resource list \<Rightarrow> inventory" where
  "inventoryOf rs = map_of (map (\<lambda>r. (r_ID r, r_Status r)) rs)"

definition protocolState :: "Manifest \<Rightarrow> RunStatus \<times> inventory" where
  "protocolState m = (m_Status m, inventoryOf (m_Resources m))"

lemma protocolState_bump [simp]: "protocolState (bumpRevision m) = protocolState m"
  by (simp add: protocolState_def)

lemma inventoryOf_upsert: "inventoryOf (upsertResources r rs) = (inventoryOf rs)(r_ID r \<mapsto> r_Status r)"
  by (induction rs) (auto simp: inventoryOf_def combineResource_def)

lemma inventoryOf_upserts: "inventoryOf (fold upsertResources rs xs) = recordAll rs (inventoryOf xs)"
  by (induction rs arbitrary: xs) (simp_all add: recordAll_def inventoryOf_upsert)

lemma recordAll_cong: "map r_ID rs = map r_ID ns \<Longrightarrow> map r_Status rs = map r_Status ns \<Longrightarrow> recordAll rs held = recordAll ns held"
  unfolding recordAll_def by (induction rs ns arbitrary: held rule: list_induct2') auto

lemma inventoryOf_map:
  assumes "\<And>r. r_ID (g r) = r_ID r" "\<And>r. r_Status (g r) = h (r_Status r)"
  shows "inventoryOf (map g rs) i = map_option h (inventoryOf rs i)"
  by (induction rs) (simp_all add: inventoryOf_def assms)

lemma record_steps: "protocolStep\<^sup>*\<^sup>* (st, held) (st, recordAll rs held)"
proof (induction rs arbitrary: held)
  case (Cons r rs)
  have "protocolStep (st, held) (st, held(r_ID r \<mapsto> r_Status r))" by (rule protocolStep.record_resource)
  from converse_rtranclp_into_rtranclp[where r = protocolStep, OF this Cons.IH] show ?case unfolding recordAll_def fold_simps(2) o_apply .
qed (simp add: recordAll_def)

section \<open>The refinement\<close>

lemma update_refines:
  assumes "lifecycleUpdate runID f" "f m w1 = (Inr m1, w2)"
  shows "protocolStep\<^sup>*\<^sup>* (protocolState m) (protocolState m1)"
  using assms(1)
proof cases
  case (recorded t rs ns)
  with assms(2) have "protocolState m1 = (m_Status m, recordAll ns (inventoryOf (m_Resources m)))"
    by (auto simp: recordMutator_def ret_def fold_upsertManifest protocolState_def inventoryOf_upserts)
  with record_steps show ?thesis by (simp add: protocolState_def)
next
  case (start workID)
  with assms(2) have "protocolState m1 = protocolState m" by (auto elim!: workMutator_cases simp: protocolState_def)
  then show ?thesis by simp
next
  case (finish workID status message)
  with assms(2) have "protocolState m1 = protocolState m" by (auto elim!: workMutator_cases simp: protocolState_def)
  then show ?thesis by simp
next
  case (applied result endedAt)
  obtain bo co where o: "executionOutcomes result = (bo, co)" by (rule prod.exhaust)
  let ?rs = "case x_Resources result of None \<Rightarrow> [] | Some rs \<Rightarrow> rs"
  have "protocolState m1 = (executionStatus (x_Err result) bo co, recordAll ?rs (inventoryOf (m_Resources m)))"
    using applied assms(2) by (auto simp: ret_def protocolState_def applyExecutionResult_fields[OF o] inventoryOf_upserts[symmetric] split: option.split)
  moreover have "executionStatus (x_Err result) bo co \<in> {RunSucceeded, RunFailed, RunPartial, RunInterrupted}" by (auto simp: executionStatus_def)
  ultimately show ?thesis
    using record_steps[of "m_Status m" "inventoryOf (m_Resources m)" ?rs] protocolStep.finish_run
    unfolding protocolState_def by (metis rtranclp.rtrancl_into_rtrancl)
next
  case (resumed selected)
  with assms(2) have "protocolState m1 = (RunRunning, inventoryOf (m_Resources m))" by (auto simp: resumeManifest_def ret_def protocolState_def)
  with protocolStep.resume_run show ?thesis unfolding protocolState_def by (metis r_into_rtranclp)
next
  case cleaning
  have "inventoryOf (map (\<lambda>r. if r_Status r \<noteq> ResourceCleaned then r\<lparr>r_Status := ResourceCleaning\<rparr> else r) rs) = sweepStarted (inventoryOf rs)" for rs
    by (rule ext, subst inventoryOf_map[where h = "\<lambda>st. if st = ResourceCleaned then ResourceCleaned else ResourceCleaning"]) (auto simp: sweepStarted_def)
  with cleaning assms(2) have "protocolState m1 = (RunRunning, sweepStarted (inventoryOf (m_Resources m)))"
    by (auto simp: beginCleanup_def ret_def protocolState_def)
  with protocolStep.begin_sweep show ?thesis unfolding protocolState_def by (metis r_into_rtranclp)
next
  case (cleaned result endedAt)
  define co where "co = (if x_CleanupOutcome result = OutcomeUnset
         then (if x_Err result = None then OutcomeSucceeded else OutcomeFailed) else x_CleanupOutcome result)"
  have m1: "m1 = applyCleanupResult result endedAt m" using cleaned(1) assms(2) by (simp add: ret_def)
  have rs: "m_Resources m1 = map (cleanedResource co (x_Err result) endedAt) (m_Resources m)"
    using cleaned(2) by (simp add: m1 applyCleanupResult_def Let_def co_def)
  have st: "m_Status m1 = (if co = OutcomeSucceeded then RunCleaned else if m_BenchmarkOutcome m = OutcomeSucceeded then RunPartial else RunFailed)"
    by (simp add: m1 applyCleanupResult_def Let_def co_def)
  show ?thesis
  proof (cases "co = OutcomeSucceeded")
    case True
    have "inventoryOf (m_Resources m1) = swept (inventoryOf (m_Resources m))" unfolding rs
      by (rule ext, subst inventoryOf_map[where h = "\<lambda>_. ResourceCleaned"]) (auto simp: swept_def cleanedResource_def True)
    with True st protocolStep.end_sweep show ?thesis unfolding protocolState_def by (metis r_into_rtranclp)
  next
    case False
    have "inventoryOf (m_Resources m1) = sweepFailed (inventoryOf (m_Resources m))" unfolding rs
      by (rule ext, subst inventoryOf_map[where h = "\<lambda>st. if st = ResourceCleaned then ResourceCleaned else ResourceUnknown"])
        (auto simp: sweepFailed_def cleanedResource_def False)
    with False st protocolStep.fail_sweep show ?thesis unfolding protocolState_def by (metis insertCI r_into_rtranclp)
  qed
qed



text \<open>
  C32 A recording is an update of a finite map: when RecordResources returns successfully, the inventory on disk is
  the one before with exactly the given identifiers mapped to the given statuses, in their order, and the status of the
  run is the same; the merging of time stamps, the revision and the events do not show in it.
\<close>

theorem RecordResources_refines_map:
  assumes "RecordResources \<lparr>rc_store = s, rc_runID = runID\<rparr> rs w = (Inr (), w')" "persisted s runID w = Some m"
  shows "\<exists>m'. persisted s runID w' = Some m' \<and> protocolState m' = (m_Status m, recordAll rs (inventoryOf (m_Resources m)))"
proof (cases "rs = []")
  case True
  with assms have "w' = w" by (simp add: RecordResources_def ret_def)
  with assms(2) show ?thesis by (simp add: True recordAll_def protocolState_def)
next
  case False
  obtain m0 t ns where r: "persisted s runID w = Some m0" "normalizeResources runID t rs = Inr ns"
      "persisted s runID w' = Some (bumpRevision (fold upsertManifestResource ns (m0\<lparr>m_ResourcesChanged := True\<rparr>)))"
    by (rule RecordResources_ok_persisted[OF assms(1) False])
  have eq: "recordAll ns held = recordAll rs held" for held
    using normalizeResources_props[OF r(2)] by (intro recordAll_cong) auto
  show ?thesis using r(1,3) assms(2) by (simp add: protocolState_def fold_upsertManifest inventoryOf_upserts eq)
qed

theorem RecordResources_refines_map_witness:
  "\<exists>w' m'. RecordResources exampleRecorder [exampleResource] (worldOf interruptedRuns) = (Inr (), w') \<and> persisted exampleStore exampleID w' = Some m' \<and>
     snd (protocolState m') ''pair/c6i.large'' = Some ResourceCreating"
proof -
  have t: "w_clock (worldOf interruptedRuns) (w_ticks (worldOf interruptedRuns)) \<noteq> (0 :: int)" by (simp add: worldOf_def)
  have ne: "[exampleResource] \<noteq> []" by simp
  have fs: "noFaults (worldOf interruptedRuns)" "runReady exampleStore exampleID (w_fs (worldOf interruptedRuns))"
    by (simp_all add: interruptedRuns_ready)
  obtain w1 where w1: "RecordResources exampleRecorder [exampleResource] (worldOf interruptedRuns) = (Inr (), w1)"
    using completesD[OF completes_RecordResources[OF fs ne t exampleResource_normalized]] by blast
  from RecordResources_refines_map[OF w1 interruptedRuns_persisted] w1 show ?thesis
    by (auto simp: recordAll_def exampleResource_def)
qed

end
