(* ===== verification/Result.thy ===== *)
theory Result
  imports Go_OS Pricing
begin

text \<open>
  The benchmark results (internal/result): the record of a result, the summaries and overheads computed
  from the measurements, the file a result is written to, and the comparison of the two forwarding arms
  that the aggregation adds. Floating point numbers are real numbers: rounding is not modelled.
\<close>

section \<open>Results\<close>

record SystemConfig =
  sc_TCPCongestionControl :: string
  sc_CPUGovernor :: string
  sc_GROUDPForwarding :: bool
  sc_MTUUnderlay :: int
  sc_MTUTailscale :: int
  sc_TCPRmem :: string
  sc_TCPWmem :: string
  sc_KernelFull :: string
  sc_ContainerRuntime :: string

record TestConfig =
  tc_IPerfDurationSec :: int
  tc_IPerfParallelStreams :: int
  tc_IPerfIterations :: int
  tc_MTRCycles :: int
  tc_PPSDatagramSizes :: "int list"
  tc_PPSLossThresholdPct :: real

record PPSSizeResult =
  ps_Label :: string
  ps_DatagramBytes :: int
  ps_OfferedPPS :: real
  ps_UsablePPS :: real
  ps_LossPct :: real
  ps_JitterMs :: real
  ps_Mbps :: real

record PPSResult =
  pp_Sizes :: "PPSSizeResult list"
  pp_LossThresholdPct :: real
  pp_LimitingResource :: string

record ForwardingOptimizationSizeGain =
  fg_Label :: string
  fg_DatagramBytes :: int
  fg_BaselineUsablePPS :: real
  fg_OptimizedUsablePPS :: real
  fg_GainPct :: real

record ForwardingOptimization =
  fo_State :: string
  fo_BaselineMode :: string
  fo_BaselineUsablePPS :: real
  fo_GainPct :: real
  fo_Sizes :: "ForwardingOptimizationSizeGain list"

record RelayPathResult =
  rp_Path :: string
  rp_ThroughputMbps :: real
  rp_PPS :: "PPSResult option"
  rp_LatencyMs :: real

record RelayResult =
  rr_RelayServerPort :: int
  rr_Direct :: "RelayPathResult option"
  rr_PeerRelay :: "RelayPathResult option"
  rr_DERP :: "RelayPathResult option"

record IPerfRun =
  ir_BandwidthMbps :: real
  ir_Retransmits :: int
  ir_DurationSec :: real
  ir_BytesTransferred :: int

record IPerfSummary =
  is_BandwidthMbpsAvg :: real
  is_BandwidthMbpsMin :: real
  is_BandwidthMbpsMax :: real
  is_BandwidthMbpsStddev :: real
  is_RetransmitsAvg :: real

record TCPResult =
  tr_Runs :: "IPerfRun list"
  tr_Summary :: "IPerfSummary option"

record Overhead =
  oh_BandwidthPct :: real
  oh_RetransmitsPct :: real

record MTRHop =
  mh_Hop :: int
  mh_Host :: string
  mh_LossPct :: real
  mh_Snt :: int
  mh_LastMs :: real
  mh_AvgMs :: real
  mh_BestMs :: real
  mh_WorstMs :: real
  mh_StdevMs :: real

record MTRResult =
  mr_TargetIP :: string
  mr_Hops :: "MTRHop list"

record FortioResult =
  fr_QPS :: real
  fr_AvgLatencyMs :: real
  fr_P50LatencyMs :: real
  fr_P90LatencyMs :: real
  fr_P99LatencyMs :: real
  fr_P999LatencyMs :: real
  fr_StatusCodes :: "int \<rightharpoonup> int"
  fr_BytesPerSec :: real
  fr_ConnectionErrs :: int

record Comparison =
  cp_Baseline :: real
  cp_Tailscale :: real
  cp_DeltaPct :: real

record L7Overhead =
  l7_QPS :: Comparison
  l7_P50Latency :: Comparison
  l7_P99Latency :: Comparison

record BenchmarkResult =
  br_CloudProvider :: string
  br_InstanceFamily :: string
  br_InstanceType :: string
  br_VCPUs :: int
  br_Region :: string
  br_Zone :: string
  br_Date :: string
  br_TSVersion :: string
  br_KernelVersion :: string
  br_ConnectionType :: string
  br_ENAExpress :: bool
  br_Environment :: string
  br_SystemConfig :: "SystemConfig option"
  br_TestConfig :: "TestConfig option"
  br_BaselineTCP :: "TCPResult option"
  br_TailscaleTCP :: "TCPResult option"
  br_Overhead :: "Overhead option"
  br_BaselineTCPSingle :: "TCPResult option"
  br_TailscaleTCPSingle :: "TCPResult option"
  br_OverheadSingle :: "Overhead option"
  br_BaselineMTR :: "MTRResult option"
  br_TailscaleMTR :: "MTRResult option"
  br_TransportMode :: string
  br_HTTPVersion :: string
  br_HAMode :: string
  br_FortioResult :: "FortioResult option"
  br_L7Overhead :: "L7Overhead option"
  br_ForwardPPS :: "PPSResult option"
  br_ForwardRole :: string
  br_ForwardOptimizations :: string
  br_Relay :: "RelayResult option"
  br_ForwardingOptimization :: "ForwardingOptimization option"

definition zeroResult :: BenchmarkResult where
  "zeroResult = \<lparr>br_CloudProvider = [], br_InstanceFamily = [], br_InstanceType = [], br_VCPUs = 0, br_Region = [], br_Zone = [],
     br_Date = [], br_TSVersion = [], br_KernelVersion = [], br_ConnectionType = [], br_ENAExpress = False, br_Environment = [],
     br_SystemConfig = None, br_TestConfig = None, br_BaselineTCP = None, br_TailscaleTCP = None, br_Overhead = None,
     br_BaselineTCPSingle = None, br_TailscaleTCPSingle = None, br_OverheadSingle = None, br_BaselineMTR = None, br_TailscaleMTR = None,
     br_TransportMode = [], br_HTTPVersion = [], br_HAMode = [], br_FortioResult = None, br_L7Overhead = None, br_ForwardPPS = None,
     br_ForwardRole = [], br_ForwardOptimizations = [], br_Relay = None, br_ForwardingOptimization = None\<rparr>"

section \<open>Summaries\<close>

text \<open>The loop over the runs: the sums, the minimum and the maximum, in one pass.\<close>

fun summaryLoop :: "IPerfRun list \<Rightarrow> real \<times> real \<times> real \<times> real \<Rightarrow> real \<times> real \<times> real \<times> real" where
  "summaryLoop [] acc = acc"
| "summaryLoop (r # rs) (sumBw, sumRetrans, mn, mx) =
     summaryLoop rs (sumBw + ir_BandwidthMbps r, sumRetrans + real_of_int (ir_Retransmits r),
       if ir_BandwidthMbps r < mn then ir_BandwidthMbps r else mn, if ir_BandwidthMbps r > mx then ir_BandwidthMbps r else mx)"

fun squareLoop :: "real \<Rightarrow> IPerfRun list \<Rightarrow> real \<Rightarrow> real" where
  "squareLoop avg [] acc = acc"
| "squareLoop avg (r # rs) acc = (let d = ir_BandwidthMbps r - avg in squareLoop avg rs (acc + d * d))"

definition ComputeSummary :: "IPerfRun list \<Rightarrow> IPerfSummary" where
  "ComputeSummary runs = (case runs of
     [] \<Rightarrow> \<lparr>is_BandwidthMbpsAvg = 0, is_BandwidthMbpsMin = 0, is_BandwidthMbpsMax = 0, is_BandwidthMbpsStddev = 0, is_RetransmitsAvg = 0\<rparr>
   | r # _ \<Rightarrow> let n = real (length runs) in
       (case summaryLoop runs (0, 0, ir_BandwidthMbps r, ir_BandwidthMbps r) of (sumBw, sumRetrans, mn, mx) \<Rightarrow>
        \<lparr>is_BandwidthMbpsAvg = sumBw / n, is_BandwidthMbpsMin = mn, is_BandwidthMbpsMax = mx,
         is_BandwidthMbpsStddev = sqrt (squareLoop (sumBw / n) runs 0 / n), is_RetransmitsAvg = sumRetrans / n\<rparr>))"

definition ComputeOverhead :: "real \<Rightarrow> real \<Rightarrow> real" where
  "ComputeOverhead baseline tailscale = (if baseline = 0 then 0 else (baseline - tailscale) / baseline * 100)"

definition compareValues :: "real \<Rightarrow> real \<Rightarrow> Comparison" where
  "compareValues b t = \<lparr>cp_Baseline = b, cp_Tailscale = t, cp_DeltaPct = (if b > 0 then (t - b) / b * 100 else 0)\<rparr>"

definition ComputeL7Overhead :: "FortioResult \<Rightarrow> FortioResult \<Rightarrow> L7Overhead" where
  "ComputeL7Overhead baseline tailscale =
    \<lparr>l7_QPS = compareValues (fr_QPS baseline) (fr_QPS tailscale),
     l7_P50Latency = compareValues (fr_P50LatencyMs baseline) (fr_P50LatencyMs tailscale),
     l7_P99Latency = compareValues (fr_P99LatencyMs baseline) (fr_P99LatencyMs tailscale)\<rparr>"

section \<open>The result file\<close>

definition resultDir :: "string \<Rightarrow> BenchmarkResult \<Rightarrow> path" where
  "resultDir rootDir r = filepath_Join [rootDir, br_CloudProvider r, br_InstanceFamily r, ''results'']"

definition resultFilename :: "BenchmarkResult \<Rightarrow> bool \<Rightarrow> string" where
  "resultFilename r enaExpress = br_InstanceType r @ (if br_TransportMode r \<noteq> [] then ''-'' @ br_TransportMode r else []) @
     (if enaExpress then ''-ena-express'' else []) @ ''.json''"

text \<open>
  \<^verbatim>\<open>os.WriteFile\<close>: create or truncate, then write; the file is not synced and not renamed, so a failure
  in between leaves an empty or partial file.
\<close>

definition os_Truncate :: "path \<Rightarrow> ('d, unit) io" where
  "os_Truncate p = syscall (\<lambda>_ w. w) (\<lambda>w. case w_fs w p of Some Dir \<Rightarrow> (Inl (ErrText ''is a directory''), w)
     | Some (Regular _) \<Rightarrow> (Inr (), set_node p (Some (Regular (Docs []))) w)
     | None \<Rightarrow> if w_fs w (path_parent p) = Some Dir then (Inr (), set_node p (Some (Regular (Docs []))) w)
        else (Inl (Sentinel ErrNotExist), w))"

definition os_WriteFile :: "path \<Rightarrow> 'd content \<Rightarrow> ('d, unit) io" where
  "os_WriteFile p c = bind (os_Truncate p) (\<lambda>_. bind (onErr (fd_Write p c) fd_call) (\<lambda>_. fd_call))"

definition WriteResult :: "(BenchmarkResult \<Rightarrow> 'd) \<Rightarrow> string \<Rightarrow> BenchmarkResult \<Rightarrow> bool \<Rightarrow> ('d, unit) io" where
  "WriteResult encode rootDir r enaExpress =
    bind (mapErr (\<lambda>e. Wrapf ''creating result directory: '' e []) (os_MkdirAll (resultDir rootDir r))) (\<lambda>_.
    mapErr (\<lambda>e. Wrapf ''writing result file: '' e [])
      (os_WriteFile (filepath_Join [path_string (resultDir rootDir r), resultFilename r enaExpress]) (Docs [Line (encode r)])))"

section \<open>The forwarding comparison\<close>

definition forwardPPSK8SBaselineMode :: string where
  "forwardPPSK8SBaselineMode = ''forward-pps-exit-k8s''"

definition forwardPPSK8SOptimizedMode :: string where
  "forwardPPSK8SOptimizedMode = ''forward-pps-exit-k8s-opton''"

definition findPPSSize :: "PPSSizeResult list \<Rightarrow> string \<Rightarrow> int \<Rightarrow> PPSSizeResult option" where
  "findPPSSize sizes label datagramBytes =
     find (\<lambda>s. ps_Label s = label \<and> (datagramBytes = 0 \<or> ps_DatagramBytes s = datagramBytes)) sizes"

definition forwardingGainPct :: "real \<Rightarrow> real \<Rightarrow> real" where
  "forwardingGainPct baseline optimized = (optimized - baseline) / baseline * 100"

definition sizeGain :: "PPSSizeResult list \<Rightarrow> PPSSizeResult \<Rightarrow> ForwardingOptimizationSizeGain option" where
  "sizeGain baselineSizes s = (case findPPSSize baselineSizes (ps_Label s) (ps_DatagramBytes s) of
     None \<Rightarrow> None
   | Some b \<Rightarrow> if ps_UsablePPS b \<le> 0 then None
       else Some \<lparr>fg_Label = ps_Label s, fg_DatagramBytes = ps_DatagramBytes s, fg_BaselineUsablePPS = ps_UsablePPS b,
         fg_OptimizedUsablePPS = ps_UsablePPS s, fg_GainPct = forwardingGainPct (ps_UsablePPS b) (ps_UsablePPS s)\<rparr>)"

definition compareForwardingOptimization :: "BenchmarkResult \<Rightarrow> BenchmarkResult \<Rightarrow> ForwardingOptimization option" where
  "compareForwardingOptimization baseline optimized =
    (if br_ForwardOptimizations baseline \<noteq> ''off'' \<or> br_ForwardOptimizations optimized \<noteq> ''on'' then None
     else case (br_ForwardPPS baseline, br_ForwardPPS optimized) of
       (Some b, Some x) \<Rightarrow>
        (case (findPPSSize (pp_Sizes b) ''imix-avg'' 0, findPPSSize (pp_Sizes x) ''imix-avg'' 0) of
           (Some bi, Some xi) \<Rightarrow>
             if ps_UsablePPS bi \<le> 0 then None
             else Some \<lparr>fo_State = br_ForwardOptimizations optimized, fo_BaselineMode = br_TransportMode baseline,
               fo_BaselineUsablePPS = ps_UsablePPS bi, fo_GainPct = forwardingGainPct (ps_UsablePPS bi) (ps_UsablePPS xi),
               fo_Sizes = List.map_filter (sizeGain (pp_Sizes b)) (pp_Sizes x)\<rparr>
         | _ \<Rightarrow> None)
     | _ \<Rightarrow> None)"

text \<open>
  A record of the aggregation: the fields the aggregation adds to the decoded object, and the result.
  The groups are a Go map, whose iteration order is not determined: the loop over them takes the groups
  as a list in any order.
\<close>

record aggregateRecord =
  ag_source :: string
  ag_price :: "real option"
  ag_forwarding :: "ForwardingOptimization option"
  ag_result :: BenchmarkResult

type_synonym forwardingGroupKey = "string \<times> string \<times> string \<times> string"

record forwardingPair =
  fp_baselineIndexes :: "nat list"
  fp_optimizedIndexes :: "nat list"

definition forwardingKey :: "BenchmarkResult \<Rightarrow> forwardingGroupKey" where
  "forwardingKey r = (br_CloudProvider r, br_InstanceFamily r, br_InstanceType r, br_Environment r)"

definition isForwardArm :: "BenchmarkResult \<Rightarrow> bool" where
  "isForwardArm r \<longleftrightarrow> br_TransportMode r = forwardPPSK8SBaselineMode \<or> br_TransportMode r = forwardPPSK8SOptimizedMode"

definition addArm :: "nat \<Rightarrow> bool \<Rightarrow> forwardingPair \<Rightarrow> forwardingPair" where
  "addArm i baseline pair = (if baseline then pair\<lparr>fp_baselineIndexes := fp_baselineIndexes pair @ [i]\<rparr>
     else pair\<lparr>fp_optimizedIndexes := fp_optimizedIndexes pair @ [i]\<rparr>)"

fun addToGroup :: "forwardingGroupKey \<Rightarrow> nat \<Rightarrow> bool \<Rightarrow> (forwardingGroupKey \<times> forwardingPair) list \<Rightarrow>
    (forwardingGroupKey \<times> forwardingPair) list" where
  "addToGroup key i baseline [] = [(key, addArm i baseline \<lparr>fp_baselineIndexes = [], fp_optimizedIndexes = []\<rparr>)]"
| "addToGroup key i baseline ((k, p) # gs) =
     (if k = key then (k, addArm i baseline p) # gs else (k, p) # addToGroup key i baseline gs)"

fun groupLoop :: "nat \<Rightarrow> aggregateRecord list \<Rightarrow> (forwardingGroupKey \<times> forwardingPair) list \<Rightarrow> (forwardingGroupKey \<times> forwardingPair) list" where
  "groupLoop i [] gs = gs"
| "groupLoop i (r # rs) gs = groupLoop (Suc i) rs
     (if isForwardArm (ag_result r)
      then addToGroup (forwardingKey (ag_result r)) i (br_TransportMode (ag_result r) = forwardPPSK8SBaselineMode) gs else gs)"

definition forwardingGroups :: "aggregateRecord list \<Rightarrow> (forwardingGroupKey \<times> forwardingPair) list" where
  "forwardingGroups records = groupLoop 0 records []"

definition injectGroup :: "forwardingGroupKey \<times> forwardingPair \<Rightarrow> aggregateRecord list \<Rightarrow> aggregateRecord list" where
  "injectGroup g records = (case (fp_baselineIndexes (snd g), fp_optimizedIndexes (snd g)) of
     ([b], [x]) \<Rightarrow>
       (case compareForwardingOptimization (ag_result (records ! b)) (ag_result (records ! x)) of
          None \<Rightarrow> records
        | Some c \<Rightarrow> records[x := (records ! x)\<lparr>ag_forwarding := Some c,
            ag_result := (ag_result (records ! x))\<lparr>br_ForwardingOptimization := Some c\<rparr>\<rparr>])
   | _ \<Rightarrow> records)"

definition injectForwardingOptimizations :: "(forwardingGroupKey \<times> forwardingPair) list \<Rightarrow> aggregateRecord list \<Rightarrow> aggregateRecord list" where
  "injectForwardingOptimizations groups records = fold injectGroup groups records"

text \<open>
  The aggregation. Reading and decoding the files under a directory is the argument \<open>walk\<close>, which gives
  the relative path and the result of each; \<open>order\<close> is the order of the map iteration.
\<close>

definition aggregateFile :: "Dataset \<Rightarrow> string \<times> BenchmarkResult \<Rightarrow> aggregateRecord" where
  "aggregateFile ds f = (case f of (rel, r) \<Rightarrow>
     (case Lookup ds (br_CloudProvider r) (br_Region r) (br_InstanceType r) of (price, ok) \<Rightarrow>
       \<lparr>ag_source = rel, ag_price = (if ok then Some price else None), ag_forwarding = None, ag_result = r\<rparr>))"

definition aggregateProviders :: "string list" where
  "aggregateProviders = [''gcp'', ''aws'', ''azure'', ''gke'', ''eks'', ''aks'']"

fun collectRecords :: "(path \<Rightarrow> ('d, (string \<times> BenchmarkResult) list) io) \<Rightarrow> Dataset \<Rightarrow> string \<Rightarrow> string list \<Rightarrow> ('d, aggregateRecord list) io" where
  "collectRecords walk ds rootDir [] = ret []"
| "collectRecords walk ds rootDir (p # ps) = (\<lambda>w. case os_Stat (filepath_Join [rootDir, p]) w of
     (st, w1) \<Rightarrow>
       if (case st of Inl e \<Rightarrow> errors_Is e ErrNotExist | Inr _ \<Rightarrow> False) then collectRecords walk ds rootDir ps w1
       else bind (mapErr (\<lambda>e. Wrapf (''walking '' @ p @ '': '') e []) (walk (filepath_Join [rootDir, p]))) (\<lambda>files.
            bind (collectRecords walk ds rootDir ps) (\<lambda>rest. ret (map (aggregateFile ds) files @ rest))) w1)"

definition Aggregate :: "(path \<Rightarrow> ('d, (string \<times> BenchmarkResult) list) io) \<Rightarrow>
    ((forwardingGroupKey \<times> forwardingPair) list \<Rightarrow> (forwardingGroupKey \<times> forwardingPair) list) \<Rightarrow>
    (aggregateRecord list \<Rightarrow> 'd) \<Rightarrow> Dataset \<Rightarrow> string \<Rightarrow> ('d, unit) io" where
  "Aggregate walk order encode ds rootDir =
    bind (collectRecords walk ds rootDir aggregateProviders) (\<lambda>records.
    bind (mapErr (\<lambda>e. Wrapf ''creating website directory: '' e []) (os_MkdirAll (filepath_Join [rootDir, ''website'']))) (\<lambda>_.
    mapErr (\<lambda>e. Wrapf (''writing '' @ path_string (filepath_Join [rootDir, ''website'', ''data.generated.js'']) @ '': '') e [])
      (os_WriteFile (filepath_Join [rootDir, ''website'', ''data.generated.js''])
        (Docs [Line (encode (injectForwardingOptimizations (order (forwardingGroups records)) records))]))))"

end
