(* ===== verification/Result_Props.thy ===== *)
theory Result_Props
  imports Result Plan "HOL-Library.Multiset"
begin

text \<open>
  Properties of the results: the one-pass summary is the textbook one, the comparison of the forwarding
  arms does not depend on the order of the map iteration, and a written result is where the plan looks.
\<close>

section \<open>Summaries\<close>

lemma summaryLoop_spec: "summaryLoop rs (a, b, mn, mx) =
    (a + sum_list (map ir_BandwidthMbps rs), b + real_of_int (sum_list (map ir_Retransmits rs)),
     Min (insert mn (ir_BandwidthMbps ` set rs)), Max (insert mx (ir_BandwidthMbps ` set rs)))"
proof (induction rs arbitrary: a b mn mx)
  case (Cons r rs)
  have mn: "(if ir_BandwidthMbps r < mn then ir_BandwidthMbps r else mn) = min (ir_BandwidthMbps r) mn"
    and mx: "(if ir_BandwidthMbps r > mx then ir_BandwidthMbps r else mx) = max (ir_BandwidthMbps r) mx" by auto
  have "Min (insert (min x y) A) = Min (insert y (insert x A))" "Max (insert (max x y) A) = Max (insert y (insert x A))"
    if "finite A" for x y :: real and A
    using that by (cases "A = {}"; simp add: min.assoc max.assoc min.commute max.commute min.left_commute max.left_commute)+
  then show ?case by (simp add: Cons.IH mn mx algebra_simps)
qed simp

lemma squareLoop_spec: "squareLoop avg rs acc = acc + (\<Sum>r \<leftarrow> rs. (ir_BandwidthMbps r - avg)\<^sup>2)"
  by (induction rs arbitrary: acc) (simp_all add: Let_def power2_eq_square algebra_simps)

lemma mean_bounds:
  fixes f :: "'a \<Rightarrow> real"
  assumes "xs \<noteq> []" "\<And>x. x \<in> set xs \<Longrightarrow> l \<le> f x \<and> f x \<le> u"
  shows "l \<le> sum_list (map f xs) / real (length xs)" "sum_list (map f xs) / real (length xs) \<le> u"
proof -
  have "l * real (length ys) \<le> sum_list (map f ys) \<and> sum_list (map f ys) \<le> u * real (length ys)" if "set ys \<subseteq> set xs" for ys
    using that
  proof (induction ys)
    case (Cons y ys)
    have "l \<le> f y" "f y \<le> u" using assms(2)[of y] Cons.prems by simp_all
    with Cons show ?case by (simp add: algebra_simps)
  qed simp
  from this[of xs] have s: "l * real (length xs) \<le> sum_list (map f xs)" "sum_list (map f xs) \<le> u * real (length xs)" by simp_all
  have n: "0 < real (length xs)" using assms(1) by simp
  show "l \<le> sum_list (map f xs) / real (length xs)" "sum_list (map f xs) / real (length xs) \<le> u"
    using s n by (simp_all add: pos_le_divide_eq pos_divide_le_eq)
qed

lemma ComputeSummary_fields:
  assumes "runs \<noteq> []"
  shows "is_BandwidthMbpsAvg (ComputeSummary runs) = (\<Sum>r \<leftarrow> runs. ir_BandwidthMbps r) / real (length runs)"
    and "is_BandwidthMbpsMin (ComputeSummary runs) = Min (ir_BandwidthMbps ` set runs)"
    and "is_BandwidthMbpsMax (ComputeSummary runs) = Max (ir_BandwidthMbps ` set runs)"
    and "is_RetransmitsAvg (ComputeSummary runs) = real_of_int (\<Sum>r \<leftarrow> runs. ir_Retransmits r) / real (length runs)"
    and "is_BandwidthMbpsStddev (ComputeSummary runs) =
       sqrt ((\<Sum>r \<leftarrow> runs. (ir_BandwidthMbps r - is_BandwidthMbpsAvg (ComputeSummary runs))\<^sup>2) / real (length runs))"
proof -
  obtain r rs where r: "runs = r # rs" using assms by (cases runs) auto
  show "is_BandwidthMbpsAvg (ComputeSummary runs) = (\<Sum>r \<leftarrow> runs. ir_BandwidthMbps r) / real (length runs)"
    "is_BandwidthMbpsMin (ComputeSummary runs) = Min (ir_BandwidthMbps ` set runs)"
    "is_BandwidthMbpsMax (ComputeSummary runs) = Max (ir_BandwidthMbps ` set runs)"
    "is_RetransmitsAvg (ComputeSummary runs) = real_of_int (\<Sum>r \<leftarrow> runs. ir_Retransmits r) / real (length runs)"
    unfolding r by (simp_all add: ComputeSummary_def Let_def summaryLoop_spec insert_absorb del: summaryLoop.simps)
  show "is_BandwidthMbpsStddev (ComputeSummary runs) =
       sqrt ((\<Sum>r \<leftarrow> runs. (ir_BandwidthMbps r - is_BandwidthMbpsAvg (ComputeSummary runs))\<^sup>2) / real (length runs))"
    unfolding r by (simp add: ComputeSummary_def Let_def summaryLoop_spec squareLoop_spec del: summaryLoop.simps squareLoop.simps)
qed

text \<open>
  C18 The summary of the iperf runs, computed in one pass with running sums and running extremes, is the
  textbook one: the arithmetic mean, the least and the greatest bandwidth, the population standard
  deviation, and the mean number of retransmissions; and the mean lies between the extremes.
\<close>

theorem ComputeSummary_correct:
  assumes "runs \<noteq> []"
  shows "is_BandwidthMbpsAvg (ComputeSummary runs) = (\<Sum>r \<leftarrow> runs. ir_BandwidthMbps r) / real (length runs) \<and>
    is_BandwidthMbpsMin (ComputeSummary runs) = Min (ir_BandwidthMbps ` set runs) \<and>
    is_BandwidthMbpsMax (ComputeSummary runs) = Max (ir_BandwidthMbps ` set runs) \<and>
    is_BandwidthMbpsStddev (ComputeSummary runs) =
       sqrt ((\<Sum>r \<leftarrow> runs. (ir_BandwidthMbps r - is_BandwidthMbpsAvg (ComputeSummary runs))\<^sup>2) / real (length runs)) \<and>
    is_RetransmitsAvg (ComputeSummary runs) = real_of_int (\<Sum>r \<leftarrow> runs. ir_Retransmits r) / real (length runs) \<and>
    is_BandwidthMbpsMin (ComputeSummary runs) \<le> is_BandwidthMbpsAvg (ComputeSummary runs) \<and>
    is_BandwidthMbpsAvg (ComputeSummary runs) \<le> is_BandwidthMbpsMax (ComputeSummary runs)"
proof -
  have b: "Min (ir_BandwidthMbps ` set runs) \<le> ir_BandwidthMbps x \<and> ir_BandwidthMbps x \<le> Max (ir_BandwidthMbps ` set runs)"
    if "x \<in> set runs" for x using that by simp
  note m = mean_bounds[of runs "Min (ir_BandwidthMbps ` set runs)" ir_BandwidthMbps "Max (ir_BandwidthMbps ` set runs)", OF assms b]
  have "is_BandwidthMbpsMin (ComputeSummary runs) \<le> is_BandwidthMbpsAvg (ComputeSummary runs)"
    "is_BandwidthMbpsAvg (ComputeSummary runs) \<le> is_BandwidthMbpsMax (ComputeSummary runs)"
    unfolding ComputeSummary_fields(1-3)[OF assms] using m by blast+
  with ComputeSummary_fields[OF assms] show ?thesis by blast
qed

definition exampleRuns :: "IPerfRun list" where
  "exampleRuns = [\<lparr>ir_BandwidthMbps = 10, ir_Retransmits = 1, ir_DurationSec = 30, ir_BytesTransferred = 100\<rparr>,
     \<lparr>ir_BandwidthMbps = 4, ir_Retransmits = 2, ir_DurationSec = 30, ir_BytesTransferred = 40\<rparr>]"

theorem ComputeSummary_correct_witness:
  "is_BandwidthMbpsAvg (ComputeSummary exampleRuns) = 7 \<and> is_BandwidthMbpsMin (ComputeSummary exampleRuns) = 4"
  using ComputeSummary_correct[of exampleRuns] by (simp add: exampleRuns_def)

section \<open>The forwarding comparison\<close>

abbreviation optimizedIndexes :: "(forwardingGroupKey \<times> forwardingPair) list \<Rightarrow> nat list" where
  "optimizedIndexes gs \<equiv> concat (map (\<lambda>g. fp_optimizedIndexes (snd g)) gs)"

lemma mset_addToGroup: "mset (optimizedIndexes (addToGroup key i baseline gs)) =
    (if baseline then mset (optimizedIndexes gs) else add_mset i (mset (optimizedIndexes gs)))"
  by (induction gs) (auto simp: addArm_def)

lemma groupLoop_indexes:
  assumes "distinct (optimizedIndexes gs)" "\<forall>j \<in> set (optimizedIndexes gs). j < i"
  shows "distinct (optimizedIndexes (groupLoop i rs gs))"
  using assms
proof (induction i rs gs rule: groupLoop.induct)
  case (2 i r rs gs)
  let ?g = "addToGroup (forwardingKey (ag_result r)) i (br_TransportMode (ag_result r) = forwardPPSK8SBaselineMode) gs"
  have m: "mset (optimizedIndexes ?g) = mset (optimizedIndexes gs) \<or> mset (optimizedIndexes ?g) = add_mset i (mset (optimizedIndexes gs))"
    by (simp add: mset_addToGroup)
  then have "set (optimizedIndexes ?g) \<subseteq> insert i (set (optimizedIndexes gs))"
    by (metis set_mset_add_mset_insert set_mset_mset subset_insertI subset_refl)
  moreover have "distinct (optimizedIndexes ?g)"
  proof -
    have "i \<notin> set (optimizedIndexes gs)" using 2(3) by blast
    with 2(2) have "distinct (i # optimizedIndexes gs)" by simp
    with m 2(2) show ?thesis by (metis mset.simps(2) mset_eq_imp_distinct_iff)
  qed
  ultimately have "distinct (optimizedIndexes ?g) \<and> (\<forall>j \<in> set (optimizedIndexes ?g). j < Suc i)" using 2(3) by force
  with 2 show ?case by (auto simp: less_SucI)
qed simp

lemma concat_index_unique:
  "distinct (concat (map f gs)) \<Longrightarrow> g \<in> set gs \<Longrightarrow> g' \<in> set gs \<Longrightarrow> x \<in> set (f g) \<Longrightarrow> x \<in> set (f g') \<Longrightarrow> g = g'"
  by (induction gs) auto

lemma compare_ignores:
  "compareForwardingOptimization (b\<lparr>br_ForwardingOptimization := c\<rparr>) x = compareForwardingOptimization b x"
  "compareForwardingOptimization b (x\<lparr>br_ForwardingOptimization := c\<rparr>) = compareForwardingOptimization b x"
  by (simp_all add: compareForwardingOptimization_def split: option.split)

text \<open>The pair of arms of a group, and the comparison its records have.\<close>

definition groupArms :: "forwardingGroupKey \<times> forwardingPair \<Rightarrow> (nat \<times> nat) option" where
  "groupArms g = (case (fp_baselineIndexes (snd g), fp_optimizedIndexes (snd g)) of ([b], [x]) \<Rightarrow> Some (b, x) | _ \<Rightarrow> None)"

definition setForwarding :: "ForwardingOptimization \<Rightarrow> aggregateRecord \<Rightarrow> aggregateRecord" where
  "setForwarding c r = r\<lparr>ag_forwarding := Some c, ag_result := (ag_result r)\<lparr>br_ForwardingOptimization := Some c\<rparr>\<rparr>"

definition armComparison :: "aggregateRecord list \<Rightarrow> nat \<times> nat \<Rightarrow> ForwardingOptimization option" where
  "armComparison rs a = compareForwardingOptimization (ag_result (rs ! fst a)) (ag_result (rs ! snd a))"

lemma injectGroup_arms: "injectGroup g rs = (case groupArms g of None \<Rightarrow> rs
    | Some a \<Rightarrow> (case armComparison rs a of None \<Rightarrow> rs | Some c \<Rightarrow> rs[snd a := setForwarding c (rs ! snd a)]))"
  unfolding injectGroup_def groupArms_def armComparison_def setForwarding_def
  by (simp split: list.split option.split)

lemma armComparison_update: "armComparison (rs[x := setForwarding c (rs ! x)]) a = armComparison rs a"
proof (cases "x < length rs")
  case True
  then show ?thesis by (auto simp: armComparison_def nth_list_update setForwarding_def compare_ignores)
qed (simp add: list_update_beyond)

lemma injectGroup_commute:
  assumes "\<And>a a'. groupArms g = Some a \<Longrightarrow> groupArms g' = Some a' \<Longrightarrow> snd a \<noteq> snd a'"
  shows "injectGroup g \<circ> injectGroup g' = injectGroup g' \<circ> injectGroup g"
proof
  fix rs
  show "(injectGroup g \<circ> injectGroup g') rs = (injectGroup g' \<circ> injectGroup g) rs"
  proof (cases "groupArms g = None \<or> groupArms g' = None")
    case True
    then show ?thesis by (auto simp: injectGroup_arms split: option.split)
  next
    case False
    then obtain a a' where a: "groupArms g = Some a" "groupArms g' = Some a'" by auto
    have n: "snd a \<noteq> snd a'" using assms[OF a] .
    show ?thesis using a n
      by (cases "armComparison rs a"; cases "armComparison rs a'")
        (simp_all add: injectGroup_arms armComparison_update list_update_swap[OF n])
  qed
qed

lemma forwardingGroups_distinct: "distinct (optimizedIndexes (forwardingGroups records))"
  unfolding forwardingGroups_def by (rule groupLoop_indexes) simp_all

text \<open>
  C19 The comparison of the two forwarding arms is a function of the results: whatever order the
  iteration over the map of groups takes, the same records get the same comparison.
\<close>

theorem injectForwardingOptimizations_order:
  assumes "mset groups = mset (forwardingGroups records)"
  shows "injectForwardingOptimizations groups records = injectForwardingOptimizations (forwardingGroups records) records"
proof -
  let ?gs = "forwardingGroups records"
  have "injectGroup g \<circ> injectGroup g' = injectGroup g' \<circ> injectGroup g" if "g \<in> set groups" "g' \<in> set groups" for g g'
  proof (cases "g = g'")
    case False
    have in_gs: "g \<in> set ?gs" "g' \<in> set ?gs" using that assms by (metis set_mset_mset)+
    show ?thesis
    proof (rule injectGroup_commute)
      fix a a' assume "groupArms g = Some a" "groupArms g' = Some a'"
      then have "snd a \<in> set (fp_optimizedIndexes (snd g))" "snd a' \<in> set (fp_optimizedIndexes (snd g'))"
        by (auto simp: groupArms_def split: list.splits)
      with False concat_index_unique[OF forwardingGroups_distinct in_gs, of "snd a"] show "snd a \<noteq> snd a'" by auto
    qed
  qed simp
  from fold_multiset_equiv[OF this assms] show ?thesis by (simp add: injectForwardingOptimizations_def)
qed

definition forwardResult :: "string \<Rightarrow> string \<Rightarrow> real \<Rightarrow> BenchmarkResult" where
  "forwardResult mode state pps = zeroResult\<lparr>br_CloudProvider := ''eks'', br_InstanceType := ''m5.large'', br_TransportMode := mode,
     br_ForwardOptimizations := state, br_ForwardPPS := Some \<lparr>pp_Sizes = [\<lparr>ps_Label = ''imix-avg'', ps_DatagramBytes = 340,
       ps_OfferedPPS = pps, ps_UsablePPS = pps, ps_LossPct = 0, ps_JitterMs = 0, ps_Mbps = 1\<rparr>],
       pp_LossThresholdPct = 1, pp_LimitingResource = []\<rparr>\<rparr>"

definition exampleRecords :: "aggregateRecord list" where
  "exampleRecords = map (aggregateFile emptyDataset)
     [(''a'', forwardResult forwardPPSK8SBaselineMode ''off'' 100), (''b'', forwardResult forwardPPSK8SOptimizedMode ''on'' 150)]"

theorem injectForwardingOptimizations_order_witness:
  "map ag_forwarding (injectForwardingOptimizations (rev (forwardingGroups exampleRecords)) exampleRecords) =
     map ag_forwarding (injectForwardingOptimizations (forwardingGroups exampleRecords) exampleRecords)"
  using injectForwardingOptimizations_order[of "rev (forwardingGroups exampleRecords)" exampleRecords] by simp

section \<open>The result file\<close>

text \<open>What the plan's test of a path sees in a world: whether it is there, and whether it is a directory.\<close>

definition statOf :: "'d world \<Rightarrow> path \<Rightarrow> bool option" where
  "statOf w p = (case w_fs w p of None \<Rightarrow> None | Some Dir \<Rightarrow> Some True | Some (Regular _) \<Rightarrow> Some False)"

definition resultFile :: "string \<Rightarrow> BenchmarkResult \<Rightarrow> path" where
  "resultFile rootDir r = filepath_Join [path_string (resultDir rootDir r), resultFilename r False]"

text \<open>The plan's view of a result: the instance and the mode it belongs to.\<close>

definition belongsTo :: "BenchmarkResult \<Rightarrow> string \<Rightarrow> CatalogInstance \<Rightarrow> string \<Rightarrow> bool" where
  "belongsTo r provider inst mode \<longleftrightarrow> br_CloudProvider r = provider \<and> br_InstanceFamily r = ct_Family inst \<and>
     br_InstanceType r = ct_Type inst \<and> br_TransportMode r = mode \<and> mode \<noteq> []"

lemma resultFile_candidate: "belongsTo r provider inst mode \<Longrightarrow> hd (resultCandidates rootDir provider inst mode) = resultFile rootDir r"
  by (simp add: belongsTo_def resultCandidates_def resultFile_def resultDir_def resultFilename_def Let_def)

lemma plan_finds_file:
  assumes "belongsTo r provider inst mode" "rootDir \<noteq> []" "w_fs w (resultFile rootDir r) = Some (Regular c)"
  shows "resultPath (statOf w) rootDir provider inst mode = (path_string (resultFile rootDir r), True)"
proof -
  obtain ps where ps: "resultCandidates rootDir provider inst mode = resultFile rootDir r # ps"
    using resultFile_candidate[OF assms(1), of rootDir] by (cases "resultCandidates rootDir provider inst mode") (simp_all add: resultCandidates_def Let_def)
  have "statOf w (resultFile rootDir r) = Some False" using assms(3) by (simp add: statOf_def)
  then show ?thesis using assms(2) by (simp add: resultPath_def ps Let_def)
qed

lemma os_WriteFile_ok:
  assumes "os_WriteFile p (Docs [Line d]) w = (Inr (), w')"
  shows "w_fs w' p = Some (Regular (Docs [Line d]))"
proof -
  from assms obtain w1 w2 where t: "os_Truncate p w = (Inr (), w1)" and wr: "fd_Write p (Docs [Line d]) w1 = (Inr (), w2)"
    and cl: "fd_call w2 = (Inr (), w')"
    by (auto simp: os_WriteFile_def bind_def onErr_def split: prod.splits sum.splits)
  from t have "w_fs w1 p = Some (Regular (Docs []))"
    by (auto simp: os_Truncate_def syscall_def set_node_def Let_def split: option.splits node.splits fault.splits if_splits)
  with wr have "w_fs w2 p = Some (Regular (Docs [Line d]))"
    by (auto simp: fd_Write_def syscall_def append_node_def set_node_def glue_def Let_def split: option.splits fault.splits)
  moreover from cl have "w_fs w' = w_fs w2"
    by (auto simp: fd_call_def syscall_def ret_def Let_def split: option.splits fault.splits)
  ultimately show ?thesis by simp
qed

text \<open>
  A result that was written is found again: when WriteResult reports success, whatever failed on the
  way, the file holds the encoded result, and the plan, asked about the same provider, instance and
  mode, reports that the result exists, at that path.
\<close>

theorem written_result_is_found:
  assumes "WriteResult encode rootDir r False w = (Inr (), w')" "belongsTo r provider inst mode" "rootDir \<noteq> []"
  shows "w_fs w' (resultFile rootDir r) = Some (Regular (Docs [Line (encode r)])) \<and>
    resultPath (statOf w') rootDir provider inst mode = (path_string (resultFile rootDir r), True)"
proof -
  from assms(1) obtain w1 where "os_WriteFile (resultFile rootDir r) (Docs [Line (encode r)]) w1 = (Inr (), w')"
    by (auto simp: WriteResult_def bind_def mapErr_def resultFile_def split: prod.splits sum.splits)
  from os_WriteFile_ok[OF this] plan_finds_file[OF assms(2,3)] show ?thesis by blast
qed

definition exampleResultRecord :: BenchmarkResult where
  "exampleResultRecord = zeroResult\<lparr>br_CloudProvider := ''aws'', br_InstanceFamily := ''c6i'', br_InstanceType := ''c6i.large'', br_TransportMode := ''l4-kernel''\<rparr>"

definition exampleCatalogInstance :: CatalogInstance where
  "exampleCatalogInstance = \<lparr>ct_Type = ''c6i.large'', ct_Family = ''c6i'', ct_FamilyGroup = ''c6i'', ct_VCPUs = 2, ct_HourlyUSD = 1\<rparr>"

text \<open>A world whose result directory exists and whose calls fail where \<open>faults\<close> says.\<close>

definition resultWorld :: "(nat \<Rightarrow> fault option) \<Rightarrow> BenchmarkResult world" where
  "resultWorld faults = \<lparr>w_fs = (\<lambda>_. None)(resultDir ''/bench'' exampleResultRecord \<mapsto> Dir), w_fault = faults, w_calls = 0,
     w_rand = (\<lambda>n. n), w_draws = 0, w_clock = (\<lambda>n. 1), w_ticks = 0\<rparr>"

lemma example_belongs: "belongsTo exampleResultRecord ''aws'' exampleCatalogInstance ''l4-kernel''"
  by (simp add: belongsTo_def exampleResultRecord_def exampleCatalogInstance_def zeroResult_def)

lemma example_parent: "path_parent (resultFile ''/bench'' exampleResultRecord) = resultDir ''/bench'' exampleResultRecord"
  "resultFile ''/bench'' exampleResultRecord \<noteq> resultDir ''/bench'' exampleResultRecord"
  by code_simp+

lemma MkdirAll_existing: "w_fs w p = Some Dir \<Longrightarrow> w_fault w (w_calls w) = None \<Longrightarrow> os_MkdirAll p w = (Inr (), w\<lparr>w_calls := w_calls w + 1\<rparr>)"
  unfolding os_MkdirAll_def by (subst mkdirAll.simps) (simp add: os_Stat_def syscall_def Let_def)

lemma WriteResult_existing_dir:
  assumes "w_fs w (resultDir rootDir r) = Some Dir" "w_fault w (w_calls w) = None"
  shows "WriteResult encode rootDir r False w = mapErr (\<lambda>e. Wrapf ''writing result file: '' e [])
    (os_WriteFile (resultFile rootDir r) (Docs [Line (encode r)])) (w\<lparr>w_calls := w_calls w + 1\<rparr>)"
  using MkdirAll_existing[OF assms] by (simp add: WriteResult_def resultFile_def bind_def mapErr_def[of _ "os_MkdirAll _"])

theorem written_result_is_found_witness:
  "\<exists>w'. WriteResult id ''/bench'' exampleResultRecord False (resultWorld (\<lambda>_. None)) = (Inr (), w') \<and>
     snd (resultPath (statOf w') ''/bench'' ''aws'' exampleCatalogInstance ''l4-kernel'')"
proof -
  let ?p = "resultFile ''/bench'' exampleResultRecord"
  have "\<exists>w'. WriteResult id ''/bench'' exampleResultRecord False (resultWorld (\<lambda>_. None)) = (Inr (), w')"
    unfolding WriteResult_existing_dir[of "resultWorld (\<lambda>_. None)" "''/bench''" exampleResultRecord id, simplified resultWorld_def, simplified]
      resultWorld_def
    using example_parent by (simp add: WriteResult_existing_dir mapErr_def os_WriteFile_def os_Truncate_def syscall_def Let_def
        bind_def set_node_def fd_Write_def append_node_def onErr_def fd_call_def ret_def)
  then obtain w' where w': "WriteResult id ''/bench'' exampleResultRecord False (resultWorld (\<lambda>_. None)) = (Inr (), w')" by blast
  from written_result_is_found[OF this example_belongs] show ?thesis using w' by simp
qed

text \<open>
  A result whose write failed counts as measured: when the directory and the creation of the file
  succeed and the write of the data fails, WriteResult reports the error, but the file it leaves
  behind, empty or partial, is what the plan takes for an existing result, so the mode is skipped from
  then on.
\<close>

theorem failed_write_counts_as_result:
  assumes "w_fs w (resultDir rootDir r) = Some Dir" "path_parent (resultFile rootDir r) = resultDir rootDir r"
    and "w_fs w (resultFile rootDir r) \<noteq> Some Dir"
    and "w_fault w (w_calls w) = None" "w_fault w (w_calls w + 1) = None" "w_fault w (w_calls w + 2) = Some (Fault e t)"
    and "belongsTo r provider inst mode" "rootDir \<noteq> []"
  shows "\<exists>w'. WriteResult encode rootDir r False w = (Inl (Wrapf ''writing result file: '' e []), w') \<and>
    snd (resultPath (statOf w') rootDir provider inst mode)"
proof -
  let ?p = "resultFile rootDir r"
  let ?w1 = "w\<lparr>w_calls := w_calls w + 1\<rparr>"
  let ?w2 = "set_node ?p (Some (Regular (Docs []))) (?w1\<lparr>w_calls := w_calls w + 2\<rparr>)"
  have t: "os_Truncate ?p ?w1 = (Inr (), ?w2)"
    using assms(1-3,5) by (auto simp: os_Truncate_def syscall_def Let_def split: option.split node.split)
  obtain c w' where wr: "onErr (fd_Write ?p (Docs [Line (encode r)])) fd_call ?w2 = (Inl e, w')" "w_fs w' ?p = Some (Regular c)"
  proof -
    let ?w3 = "append_node ?p (torn_content t (Docs [Line (encode r)])) (?w2\<lparr>w_calls := w_calls w + 3\<rparr>)"
    have "fd_Write ?p (Docs [Line (encode r)]) ?w2 = (Inl e, ?w3)"
      using assms(6) by (simp add: fd_Write_def syscall_def Let_def set_node_def eval_nat_numeral)
    moreover have "w_fs (snd (fd_call ?w3)) = w_fs ?w3"
      by (auto simp: fd_call_def syscall_def ret_def Let_def split: option.split fault.split)
    moreover have "\<exists>c. w_fs ?w3 ?p = Some (Regular c)" by (simp add: append_node_def set_node_def)
    ultimately show ?thesis using that by (auto simp: onErr_def)
  qed
  have "WriteResult encode rootDir r False w = (Inl (Wrapf ''writing result file: '' e []), w')"
    unfolding WriteResult_existing_dir[OF assms(1,4)] using t wr(1) by (simp add: os_WriteFile_def mapErr_def bind_def)
  with plan_finds_file[OF assms(7,8) wr(2)] show ?thesis by simp
qed

theorem failed_write_counts_as_result_witness:
  "\<exists>w'. WriteResult id ''/bench'' exampleResultRecord False
      (resultWorld (\<lambda>n. if n = 2 then Some (Fault (ErrText ''no space left on device'') SomeBytes) else None)) =
      (Inl (Wrapf ''writing result file: '' (ErrText ''no space left on device'') []), w') \<and>
    snd (resultPath (statOf w') ''/bench'' ''aws'' exampleCatalogInstance ''l4-kernel'')"
  by (rule failed_write_counts_as_result[where t = SomeBytes])
    (use example_parent example_belongs in \<open>simp_all add: resultWorld_def\<close>)

end
