(* ===== verification/Go_Eff.thy ===== *)
theory Go_Eff
  imports Go_Lib
begin

text \<open>
  Programs over an arbitrary state: the parts of the program that act on machines, clouds and clocks
  take the functions that do so as arguments, over a state of type \<open>'s\<close> that nothing else is known
  about. A call returns its value or its error together with the next state; an error that the code
  keeps instead of returning is an \<open>option\<close> value. A command executor returns its standard output and
  its error, as the interface \<^verbatim>\<open>Executor\<close> of internal/benchmark does (standard error is never read).
\<close>

type_synonym ('s, 'a) eff = "'s \<Rightarrow> (go_error + 'a) \<times> 's"
type_synonym 's errEff = "'s \<Rightarrow> go_error option \<times> 's"
type_synonym 's Executor = "string \<Rightarrow> 's \<Rightarrow> (string \<times> go_error option) \<times> 's"

text \<open>
  Time and the context: waiting for a timer or the end of the context, sleeping, the clock, and the
  error of the context.
\<close>

record 's Env =
  ev_wait :: "duration \<Rightarrow> 's errEff"
  ev_sleep :: "duration \<Rightarrow> 's \<Rightarrow> 's"
  ev_now :: "'s \<Rightarrow> gotime \<times> 's"
  ev_ctxErr :: "'s \<Rightarrow> go_error option"

definition eret :: "'a \<Rightarrow> ('s, 'a) eff" where
  "eret x s = (Inr x, s)"

definition efail :: "go_error \<Rightarrow> ('s, 'a) eff" where
  "efail e s = (Inl e, s)"

definition ebind :: "('s, 'a) eff \<Rightarrow> ('a \<Rightarrow> ('s, 'b) eff) \<Rightarrow> ('s, 'b) eff" where
  "ebind m f s = (case m s of (Inl e, s1) \<Rightarrow> (Inl e, s1) | (Inr x, s1) \<Rightarrow> f x s1)"

definition ewrap :: "(go_error \<Rightarrow> go_error) \<Rightarrow> ('s, 'a) eff \<Rightarrow> ('s, 'a) eff" where
  "ewrap g m s = (case m s of (Inl e, s1) \<Rightarrow> (Inl (g e), s1) | (Inr x, s1) \<Rightarrow> (Inr x, s1))"

text \<open>The result of a call as a value, and a call whose error is its only result.\<close>

definition ecatch :: "('s, 'a) eff \<Rightarrow> ('s, go_error + 'a) eff" where
  "ecatch m s = (case m s of (r, s1) \<Rightarrow> (Inr r, s1))"

definition echeck :: "'s errEff \<Rightarrow> ('s, unit) eff" where
  "echeck m s = (case m s of (None, s1) \<Rightarrow> (Inr (), s1) | (Some e, s1) \<Rightarrow> (Inl e, s1))"

definition elift :: "('s \<Rightarrow> 'a \<times> 's) \<Rightarrow> ('s, 'a) eff" where
  "elift m s = (case m s of (x, s1) \<Rightarrow> (Inr x, s1))"

definition eerr :: "('s, 'a) eff \<Rightarrow> 's errEff" where
  "eerr m s = (case m s of (Inl e, s1) \<Rightarrow> (Some e, s1) | (Inr _, s1) \<Rightarrow> (None, s1))"

definition esleep :: "'s Env \<Rightarrow> duration \<Rightarrow> ('s, unit) eff" where
  "esleep env d s = (Inr (), ev_sleep env d s)"

text \<open>A call that runs \<open>d\<close> when it is left, whatever its result (\<^verbatim>\<open>defer\<close>).\<close>

definition edefer :: "('s \<Rightarrow> 's) \<Rightarrow> ('s, 'a) eff \<Rightarrow> ('s, 'a) eff" where
  "edefer d m s = (case m s of (r, s1) \<Rightarrow> (r, d s1))"

lemmas eff_defs = eret_def efail_def ebind_def ewrap_def ecatch_def echeck_def elift_def eerr_def esleep_def edefer_def

lemma ebind_simps [simp]: "ebind (eret x) f = f x" "ebind (efail e) f = efail e"
  by (simp_all add: eret_def efail_def ebind_def fun_eq_iff)

lemma ebind_assoc: "ebind (ebind m f) g = ebind m (\<lambda>x. ebind (f x) g)"
  by (simp add: ebind_def fun_eq_iff split: prod.split sum.split)

lemma ebind_Inr: "ebind m f s = (Inr y, s2) \<longleftrightarrow> (\<exists>x s1. m s = (Inr x, s1) \<and> f x s1 = (Inr y, s2))"
  by (auto simp: ebind_def split: prod.splits sum.splits)

lemma ebindE:
  assumes "ebind m f s = (r, s2)"
  obtains (fail) e where "m s = (Inl e, s2)" "r = Inl e" | (step) x s1 where "m s = (Inr x, s1)" "f x s1 = (r, s2)"
  using assms by (auto simp: ebind_def split: prod.splits sum.splits)

lemma ebind_step: "m s = (Inr x, s1) \<Longrightarrow> ebind m f s = f x s1"
  by (simp add: ebind_def)

lemma ewrap_Inr [simp]: "ewrap g m s = (Inr x, s1) \<longleftrightarrow> m s = (Inr x, s1)"
  by (auto simp: ewrap_def split: prod.splits sum.splits)

lemma eret_Inr [simp]: "eret x s = (Inr y, s1) \<longleftrightarrow> y = x \<and> s1 = s"
  by (auto simp: eret_def)

lemma efail_Inr [simp]: "efail e s = (Inr y, s1) \<longleftrightarrow> False"
  by (simp add: efail_def)

lemma edefer_Inr [simp]: "edefer d m s = (Inr x, s1) \<longleftrightarrow> (\<exists>s0. m s = (Inr x, s0) \<and> s1 = d s0)"
  by (auto simp: edefer_def split: prod.splits)

section \<open>Running a command, and polling\<close>

definition runCmd :: "'s Executor \<Rightarrow> string \<Rightarrow> ('s, string) eff" where
  "runCmd c cmd s = (case c cmd s of ((out, None), s1) \<Rightarrow> (Inr out, s1) | ((_, Some e), s1) \<Rightarrow> (Inl e, s1))"

text \<open>The standard output of a command whose error is ignored.\<close>

definition runOut :: "'s Executor \<Rightarrow> string \<Rightarrow> ('s, string) eff" where
  "runOut c cmd s = (case c cmd s of ((out, _), s1) \<Rightarrow> (Inr out, s1))"

text \<open>
  The polling loop the code writes out several times: at most \<open>n\<close> times, run the attempt and stop when it
  gives a value; after a failed attempt wait, and give up with the error of the context.
\<close>

fun poll :: "'s Env \<Rightarrow> duration \<Rightarrow> ('s \<Rightarrow> 'a option \<times> 's) \<Rightarrow> nat \<Rightarrow> ('s, 'a option) eff" where
  "poll env d attempt 0 = eret None"
| "poll env d attempt (Suc n) = ebind (elift attempt) (\<lambda>r. case r of
     Some x \<Rightarrow> eret (Some x)
   | None \<Rightarrow> ebind (echeck (ev_wait env d)) (\<lambda>_. poll env d attempt n))"

text \<open>A value that the poll returns is one an attempt gave.\<close>

lemma poll_value:
  assumes "poll env d attempt n s = (Inr (Some x), s2)"
  shows "\<exists>s0 s1. attempt s0 = (Some x, s1)"
  using assms
proof (induction n arbitrary: s)
  case (Suc n)
  obtain r s1 where a: "attempt s = (r, s1)" by fastforce
  show ?case
  proof (cases r)
    case None
    with Suc.prems a have "ebind (echeck (ev_wait env d)) (\<lambda>_. poll env d attempt n) s1 = (Inr (Some x), s2)"
      by (simp add: ebind_def elift_def)
    then show ?thesis using Suc.IH by (auto simp: ebind_Inr)
  next
    case (Some y)
    with Suc.prems a show ?thesis by (auto simp: ebind_def elift_def)
  qed
qed simp

text \<open>A poll whose attempt always gives a value makes one attempt.\<close>

lemma poll_once: "attempt s = (Some x, s1) \<Longrightarrow> 0 < n \<Longrightarrow> poll env d attempt n s = (Inr (Some x), s1)"
  by (cases n) (simp_all add: ebind_def elift_def eret_def)

end
