(* ===== verification/Bench_Runner.thy ===== *)
theory Bench_Runner
  imports Go_Eff Go_Fmt Result
begin

text \<open>
  The benchmark runner (internal/benchmark): the settings with their defaults, the commands it runs on
  the machines, the polling loops, the iperf and fortio measurements, the search for the usable packet
  rate, and the relay measurement. The machines are command executors over the state, and the JSON
  decoder, the regular expressions and the number parser of the standard library are the fields of
  \<open>Decoders\<close>. The deadline that a UDP probe puts on its own command is part of the executor.
\<close>

section \<open>Settings\<close>

record RunConfig =
  g_IPerfDuration :: int
  g_IPerfParallel :: int
  g_IPerfIterations :: int
  g_MTRCycles :: int
  g_CooldownSec :: int
  g_CreditRetrySec :: int
  g_AuthKey :: string
  g_ServerHostname :: string
  g_ClientHostname :: string
  g_SkipTailscaleSetup :: bool
  g_PPSDatagramSizes :: "int list"
  g_PPSLossThresholdPct :: real
  g_PPSDurationSec :: int
  g_PPSWarmupSec :: int
  g_PPSMaxRatePPS :: int

definition RunConfig_defaults :: "RunConfig \<Rightarrow> RunConfig" where
  "RunConfig_defaults c = c\<lparr>
     g_IPerfDuration := (if g_IPerfDuration c = 0 then 30 else g_IPerfDuration c),
     g_IPerfParallel := (if g_IPerfParallel c = 0 then 4 else g_IPerfParallel c),
     g_IPerfIterations := (if g_IPerfIterations c = 0 then 3 else g_IPerfIterations c),
     g_MTRCycles := (if g_MTRCycles c = 0 then 100 else g_MTRCycles c),
     g_CooldownSec := (if g_CooldownSec c = 0 then 30 else g_CooldownSec c),
     g_CreditRetrySec := (if g_CreditRetrySec c = 0 then 60 else g_CreditRetrySec c),
     g_PPSDatagramSizes := (if g_PPSDatagramSizes c = [] then [64, 340, 1400] else g_PPSDatagramSizes c),
     g_PPSLossThresholdPct := (if g_PPSLossThresholdPct c = 0 then 1 / 10 else g_PPSLossThresholdPct c),
     g_PPSDurationSec := (if g_PPSDurationSec c = 0 then 15 else g_PPSDurationSec c),
     g_PPSWarmupSec := (if g_PPSWarmupSec c = 0 then 2 else g_PPSWarmupSec c),
     g_PPSMaxRatePPS := (if g_PPSMaxRatePPS c = 0 then 2000000 else g_PPSMaxRatePPS c)\<rparr>"

record 's Runner =
  rn_Server :: "'s Executor"
  rn_Client :: "'s Executor"
  rn_ServerTailscale :: "'s Executor"
  rn_ClientTailscale :: "'s Executor"
  rn_BaselineClient :: "'s Executor option"
  rn_Router :: "'s Executor option"
  rn_Config :: RunConfig

section \<open>Decoded tool output\<close>

record rawTCP =
  rt_BitsPerSecond :: real
  rt_Retransmits :: int
  rt_Seconds :: real
  rt_Bytes :: int
  rt_Error :: string

record UDPStats =
  u_Packets :: int
  u_LostPackets :: int
  u_LossPct :: real
  u_JitterMs :: real
  u_BitsPerSec :: real
  u_Seconds :: real
  u_Bytes :: int

record fortioOutput =
  fx_ActualQPS :: real
  fx_Count :: int
  fx_Avg :: real
  fx_Percentiles :: "(real \<times> real) list"
  fx_SizesSum :: "real option"
  fx_HeaderSizesSum :: "real option"
  fx_RetCodes :: "(int \<times> int) list"

text \<open>
  What the standard library decodes: the JSON documents (with the error text of iperf beside the UDP
  sums), the groups of a line of the mtr report, the latency in a ping line, and a decimal number.
\<close>

record Decoders =
  de_tcp :: "string \<Rightarrow> go_error + rawTCP"
  de_udp :: "string \<Rightarrow> go_error + (UDPStats \<times> string)"
  de_fortio :: "string \<Rightarrow> go_error + fortioOutput"
  de_mtrLine :: "string \<Rightarrow> string list option"
  de_pingLatency :: "string \<Rightarrow> real option"
  de_float :: "string \<Rightarrow> go_error + real"
  de_atoi :: "string \<Rightarrow> int"

definition IPerfPort :: int where "IPerfPort = 15201"
definition RelayUDPPort :: int where "RelayUDPPort = 41642"

definition ParseIPerfJSON :: "Decoders \<Rightarrow> string \<Rightarrow> go_error + IPerfRun" where
  "ParseIPerfJSON de data = (case de_tcp de data of
     Inl e \<Rightarrow> Inl (Wrapf ''parsing iperf3 json: '' e [])
   | Inr raw \<Rightarrow> if rt_Error raw \<noteq> [] then Inl (ErrText (''iperf3 error: '' @ rt_Error raw))
       else Inr \<lparr>ir_BandwidthMbps = rt_BitsPerSecond raw / 1000000, ir_Retransmits = rt_Retransmits raw,
         ir_DurationSec = rt_Seconds raw, ir_BytesTransferred = rt_Bytes raw\<rparr>)"

definition ParseIPerfUDPJSON :: "Decoders \<Rightarrow> string \<Rightarrow> go_error + UDPStats" where
  "ParseIPerfUDPJSON de data = (case de_udp de data of
     Inl e \<Rightarrow> Inl (Wrapf ''parsing iperf3 udp json: '' e [])
   | Inr (stats, err) \<Rightarrow> if err \<noteq> [] then Inl (ErrText (''iperf3 error: '' @ err)) else Inr stats)"

text \<open>\<open>IPerfError\<close> decodes only the error field; both documents carry it.\<close>

definition IPerfError :: "(string \<Rightarrow> go_error + string) \<Rightarrow> string \<Rightarrow> go_error option" where
  "IPerfError errField data = (case errField data of
     Inl e \<Rightarrow> Some (Wrapf ''parsing iperf3 json: '' e [])
   | Inr err \<Rightarrow> if err \<noteq> [] then Some (ErrText (''iperf3: '' @ err)) else None)"

definition tcpErrField :: "Decoders \<Rightarrow> string \<Rightarrow> go_error + string" where
  "tcpErrField de data = (case de_tcp de data of Inl e \<Rightarrow> Inl e | Inr raw \<Rightarrow> Inr (rt_Error raw))"

definition udpErrField :: "Decoders \<Rightarrow> string \<Rightarrow> go_error + string" where
  "udpErrField de data = (case de_udp de data of Inl e \<Rightarrow> Inl e | Inr (_, err) \<Rightarrow> Inr err)"

definition percentileField :: "real \<times> real \<Rightarrow> FortioResult \<Rightarrow> FortioResult" where
  "percentileField pv r = (case pv of (p, v) \<Rightarrow> let ms = v * 1000 in
     if p = 50 then r\<lparr>fr_P50LatencyMs := ms\<rparr> else if p = 90 then r\<lparr>fr_P90LatencyMs := ms\<rparr>
     else if p = 99 then r\<lparr>fr_P99LatencyMs := ms\<rparr> else if p \<ge> 999 / 10 then r\<lparr>fr_P999LatencyMs := ms\<rparr> else r)"

definition zeroFortio :: FortioResult where
  "zeroFortio = \<lparr>fr_QPS = 0, fr_AvgLatencyMs = 0, fr_P50LatencyMs = 0, fr_P90LatencyMs = 0, fr_P99LatencyMs = 0,
     fr_P999LatencyMs = 0, fr_StatusCodes = Map.empty, fr_BytesPerSec = 0, fr_ConnectionErrs = 0\<rparr>"

text \<open>
  The return codes are a JSON object; \<open>fx_RetCodes\<close> lists them with the number scanned from the key. The
  division by a zero rate gives infinity or not-a-number in Go, which is not positive resp. compares
  false, except for a positive count, where the byte rate becomes zero as here.
\<close>

definition ParseFortioJSON :: "Decoders \<Rightarrow> string \<Rightarrow> go_error + FortioResult" where
  "ParseFortioJSON de data = (if data = [] then Inl (ErrText ''empty fortio output'') else
    case de_fortio de data of
      Inl e \<Rightarrow> Inl (Wrapf ''parsing fortio json: '' e [])
    | Inr raw \<Rightarrow>
       (let r1 = fold percentileField (fx_Percentiles raw)
              (zeroFortio\<lparr>fr_QPS := fx_ActualQPS raw, fr_AvgLatencyMs := fx_Avg raw * 1000\<rparr>);
            codes = fold (\<lambda>(c, n) m. m(c \<mapsto> n)) (fx_RetCodes raw) Map.empty;
            total = sum_list (map snd (fx_RetCodes raw));
            okCount = (case codes 200 of None \<Rightarrow> 0 | Some n \<Rightarrow> n);
            dur = real_of_int (fx_Count raw) / fx_ActualQPS raw;
            bytes = (case fx_SizesSum raw of None \<Rightarrow> 0 | Some b \<Rightarrow> b) + (case fx_HeaderSizesSum raw of None \<Rightarrow> 0 | Some b \<Rightarrow> b)
        in Inr (r1\<lparr>fr_StatusCodes := codes, fr_ConnectionErrs := total - okCount,
                   fr_BytesPerSec := (if dur > 0 then bytes / dur else 0)\<rparr>)))"

definition BuildFortioCmd :: "string \<Rightarrow> bool \<Rightarrow> int \<Rightarrow> int \<Rightarrow> int \<Rightarrow> string" where
  "BuildFortioCmd target h2 connections durationSec qps =
     ''fortio load -json /dev/stdout -qps '' @ string_of_int qps @ '' -c '' @ string_of_int connections @ '' -t '' @
     string_of_int durationSec @ ''s'' @ (if h2 then '' -h2'' else []) @
     (if HasPrefix target ''https://'' then '' -https-insecure'' else []) @ '' '' @ target"

text \<open>One line of the report: the fields in the order the code parses them, the first failure ends it.\<close>

definition mtrHop :: "Decoders \<Rightarrow> string list \<Rightarrow> go_error + MTRHop" where
  "mtrHop de m = (let hop = de_atoi de (m ! 1);
      field = (\<lambda>name i. case de_float de (m ! i) of
         Inl e \<Rightarrow> Inl (Wrapf (''parsing '' @ name @ '' for hop '' @ string_of_int hop @ '': '') e []) | Inr v \<Rightarrow> Inr v) in
    case field ''loss%'' 3 of Inl e \<Rightarrow> Inl e | Inr loss \<Rightarrow>
    (case field ''last'' 5 of Inl e \<Rightarrow> Inl e | Inr lst \<Rightarrow>
    (case field ''avg'' 6 of Inl e \<Rightarrow> Inl e | Inr avg \<Rightarrow>
    (case field ''best'' 7 of Inl e \<Rightarrow> Inl e | Inr best \<Rightarrow>
    (case field ''worst'' 8 of Inl e \<Rightarrow> Inl e | Inr worst \<Rightarrow>
    (case field ''stdev'' 9 of Inl e \<Rightarrow> Inl e | Inr stdev \<Rightarrow>
      Inr \<lparr>mh_Hop = hop, mh_Host = m ! 2, mh_LossPct = loss, mh_Snt = de_atoi de (m ! 4), mh_LastMs = lst, mh_AvgMs = avg,
           mh_BestMs = best, mh_WorstMs = worst, mh_StdevMs = stdev\<rparr>))))))"

fun mtrLines :: "Decoders \<Rightarrow> string list \<Rightarrow> go_error + MTRHop list" where
  "mtrLines de [] = Inr []"
| "mtrLines de (l # ls) = (case de_mtrLine de l of
     None \<Rightarrow> mtrLines de ls
   | Some m \<Rightarrow> (case mtrHop de m of Inl e \<Rightarrow> Inl e
       | Inr h \<Rightarrow> (case mtrLines de ls of Inl e \<Rightarrow> Inl e | Inr hs \<Rightarrow> Inr (h # hs))))"

definition ParseMTR :: "Decoders \<Rightarrow> string \<Rightarrow> string \<Rightarrow> go_error + MTRResult" where
  "ParseMTR de output targetIP = (case mtrLines de (Split (CHR 0x0A) output) of
     Inl e \<Rightarrow> Inl e | Inr hops \<Rightarrow> Inr \<lparr>mr_TargetIP = targetIP, mr_Hops = hops\<rparr>)"

section \<open>Tailscale commands\<close>

definition TailscaleUp :: "'s Env \<Rightarrow> 's Executor \<Rightarrow> string \<Rightarrow> string \<Rightarrow> ('s, unit) eff" where
  "TailscaleUp env c authKey hostname =
    ebind (ewrap (\<lambda>e. Wrapf (''tailscale up on '' @ hostname @ '': '') e [])
      (runCmd c (''sudo tailscale up --authkey='' @ authKey @ '' --hostname='' @ hostname))) (\<lambda>_. esleep env (2 * second))"

definition SetExitNode :: "'s Env \<Rightarrow> 's Executor \<Rightarrow> string \<Rightarrow> ('s, unit) eff" where
  "SetExitNode env c routerIP =
    ebind (ewrap (\<lambda>e. Wrapf (''set exit-node '' @ routerIP @ '': '') e [])
      (runCmd c (''sudo tailscale set --exit-node='' @ routerIP @ '' --exit-node-allow-lan-access=true''))) (\<lambda>_. esleep env (2 * second))"

definition ClearExitNode :: "'s Executor \<Rightarrow> 's errEff" where
  "ClearExitNode c = eerr (runCmd c ''sudo tailscale set --exit-node='')"

text \<open>An attempt of a poll: run a command, ignore its error, and look at the output.\<close>

definition attemptOut :: "'s Executor \<Rightarrow> string \<Rightarrow> (string \<Rightarrow> 'a option) \<Rightarrow> 's \<Rightarrow> 'a option \<times> 's" where
  "attemptOut c cmd f s = (case c cmd s of ((out, _), s1) \<Rightarrow> (f out, s1))"

definition pollOr :: "'s Env \<Rightarrow> duration \<Rightarrow> ('s \<Rightarrow> 'a option \<times> 's) \<Rightarrow> nat \<Rightarrow> go_error \<Rightarrow> ('s, 'a) eff" where
  "pollOr env d attempt n exhausted = ebind (poll env d attempt n) (\<lambda>r. case r of None \<Rightarrow> efail exhausted | Some x \<Rightarrow> eret x)"

definition tailscaleIPOf :: "string \<Rightarrow> string option" where
  "tailscaleIPOf out = (let ip = TrimSpace out in if HasPrefix ip ''100.'' then Some ip else None)"

definition GetTailscaleIP :: "'s Env \<Rightarrow> 's Executor \<Rightarrow> ('s, string) eff" where
  "GetTailscaleIP env c = pollOr env (2 * second) (attemptOut c ''tailscale ip -4'' tailscaleIPOf) 15
     (ErrText ''no tailscale IP after 15 attempts'')"

definition pingCmd :: "string \<Rightarrow> string" where
  "pingCmd peerIP = ''tailscale ping -c 1 --timeout 5s '' @ peerIP"

definition WaitForPeer :: "'s Env \<Rightarrow> 's Executor \<Rightarrow> string \<Rightarrow> ('s, unit) eff" where
  "WaitForPeer env c peerIP = pollOr env (3 * second)
     (attemptOut c (pingCmd peerIP) (\<lambda>out. if Contains out ''pong'' then Some () else None)) 45
     (ErrText (''peer '' @ peerIP @ '' unreachable after 45 attempts''))"

definition directOutput :: "string \<Rightarrow> bool" where
  "directOutput out \<longleftrightarrow> out \<noteq> [] \<and> \<not> Contains (ToLower out) ''derp''"

definition WaitForDirect :: "'s Env \<Rightarrow> 's Executor \<Rightarrow> string \<Rightarrow> 's \<Rightarrow> (string \<times> go_error option) \<times> 's" where
  "WaitForDirect env c peerIP s = (case poll env (3 * second)
      (attemptOut c (''tailscale ping -c 1 '' @ peerIP) (\<lambda>out. if directOutput out then Some () else None)) 30 s of
     (Inr (Some _), s1) \<Rightarrow> ((''direct'', None), s1)
   | (Inr None, s1) \<Rightarrow> ((''relayed'', None), s1)
   | (Inl e, s1) \<Rightarrow> ((''relayed'', Some e), s1))"

section \<open>Relay paths\<close>

definition parsePingPath :: "string \<Rightarrow> string option" where
  "parsePingPath stdout = (if Contains (ToLower stdout) ''via peer-relay('' then Some ''peer-relay''
     else if Contains (ToLower stdout) ''via derp('' then Some ''derp''
     else if Contains stdout ''pong'' then Some ''direct'' else None)"

definition PathVia :: "'s Env \<Rightarrow> 's Executor \<Rightarrow> string \<Rightarrow> ('s, string) eff" where
  "PathVia env c peerIP = pollOr env (3 * second) (attemptOut c (pingCmd peerIP) parsePingPath) 20
     (ErrText (''could not determine path to '' @ peerIP @ '' after 20 attempts''))"

fun pingLoop :: "Decoders \<Rightarrow> 's Executor \<Rightarrow> string \<Rightarrow> nat \<Rightarrow> real \<Rightarrow> nat \<Rightarrow> ('s, real \<times> nat) eff" where
  "pingLoop de c peerIP 0 acc n = eret (acc, n)"
| "pingLoop de c peerIP (Suc k) acc n = ebind (ecatch (runCmd c (pingCmd peerIP))) (\<lambda>r. case r of
     Inl _ \<Rightarrow> pingLoop de c peerIP k acc n
   | Inr out \<Rightarrow> (case de_pingLatency de out of
       None \<Rightarrow> pingLoop de c peerIP k acc n
     | Some ms \<Rightarrow> pingLoop de c peerIP k (acc + ms) (n + 1)))"

definition pingLatencyMs :: "Decoders \<Rightarrow> 's Executor \<Rightarrow> string \<Rightarrow> nat \<Rightarrow> ('s, real) eff" where
  "pingLatencyMs de c peerIP k = ebind (pingLoop de c peerIP k 0 0) (\<lambda>(acc, n).
     if n = 0 then efail (ErrText (''no successful pings to '' @ peerIP)) else eret (acc / real n))"

definition BlockDirect :: "'s Executor \<Rightarrow> 's errEff" where
  "BlockDirect c = eerr (runCmd c
     ''sudo iptables -C INPUT -p udp --dport 41641 -j DROP 2>/dev/null || sudo iptables -I INPUT -p udp --dport 41641 -j DROP'')"

definition UnblockDirect :: "'s Executor \<Rightarrow> 's errEff" where
  "UnblockDirect c = eerr (runCmd c ''sudo iptables -D INPUT -p udp --dport 41641 -j DROP 2>/dev/null || true'')"

definition BlockRelayPort :: "'s Executor \<Rightarrow> int \<Rightarrow> 's errEff" where
  "BlockRelayPort relay port = eerr (runCmd relay (''sudo iptables -C INPUT -p udp --dport '' @ string_of_int port @
     '' -j DROP 2>/dev/null || sudo iptables -I INPUT -p udp --dport '' @ string_of_int port @ '' -j DROP''))"

definition UnblockRelayPort :: "'s Executor \<Rightarrow> int \<Rightarrow> 's errEff" where
  "UnblockRelayPort relay port = eerr (runCmd relay (''sudo iptables -D INPUT -p udp --dport '' @ string_of_int port @
     '' -j DROP 2>/dev/null || true''))"

section \<open>Measurements\<close>

definition verifyLAN :: "'s Env \<Rightarrow> 's Executor \<Rightarrow> string \<Rightarrow> ('s, unit) eff" where
  "verifyLAN env c targetIP = pollOr env (3 * second)
     (\<lambda>s. case c (''ping -c 1 -W 2 '' @ targetIP) s of ((_, None), s1) \<Rightarrow> (Some (), s1) | ((_, Some _), s1) \<Rightarrow> (None, s1)) 20
     (ErrText (''cannot reach '' @ targetIP @ '' after 20 attempts''))"

definition startIPerfServer :: "'s Env \<Rightarrow> 's Executor \<Rightarrow> ('s, unit) eff" where
  "startIPerfServer env server =
    ebind (runOut server ''pkill -9 iperf3 || true'') (\<lambda>_.
    ebind (esleep env (1 * second)) (\<lambda>_.
    ebind (ewrap (\<lambda>e. Wrapf ''starting iperf3 server: '' e []) (runCmd server (''iperf3 -s -p '' @ string_of_int IPerfPort @ '' -D''))) (\<lambda>_.
    ebind (esleep env (2 * second)) (\<lambda>_.
    ebind (ewrap (\<lambda>_. ErrText (''iperf3 server not listening on port '' @ string_of_int IPerfPort))
      (runCmd server (''ss -tlnp 2>/dev/null | grep :'' @ string_of_int IPerfPort @
         '' || cat /proc/net/tcp 2>/dev/null | grep '' @ [CHR 0x27] @ ''3B61'' @ [CHR 0x27] @ '' || echo listening''))) (\<lambda>_. eret ())))))"

definition stopIPerfServer :: "'s Executor \<Rightarrow> 's \<Rightarrow> 's" where
  "stopIPerfServer server s = snd (server ''pkill -9 iperf3 || true'' s)"

definition iperfAttempt :: "Decoders \<Rightarrow> 's Executor \<Rightarrow> string \<Rightarrow> 's \<Rightarrow> IPerfRun option \<times> 's" where
  "iperfAttempt de c cmd s = (case c cmd s of
     ((_, Some _), s1) \<Rightarrow> (None, s1)
   | ((out, None), s1) \<Rightarrow>
      (if IPerfError (tcpErrField de) out \<noteq> None then None
       else case ParseIPerfJSON de out of Inl _ \<Rightarrow> None | Inr run \<Rightarrow> Some run, s1))"

fun iperfIterations :: "'s Env \<Rightarrow> ('s \<Rightarrow> IPerfRun option \<times> 's) \<Rightarrow> duration \<Rightarrow> duration \<Rightarrow> nat \<Rightarrow> nat \<Rightarrow> ('s, IPerfRun list) eff" where
  "iperfIterations env attempt cooldown creditRetry i 0 = eret []"
| "iperfIterations env attempt cooldown creditRetry i (Suc n) =
    ebind (if 0 < i then echeck (ev_wait env cooldown) else eret ()) (\<lambda>_.
    ebind (pollOr env creditRetry attempt 3 (ErrText (''iperf3 failed after 3 retries on iteration '' @ string_of_nat (i + 1)))) (\<lambda>run.
    ebind (iperfIterations env attempt cooldown creditRetry (Suc i) n) (\<lambda>runs. eret (run # runs))))"

definition runIPerfTest :: "'s Env \<Rightarrow> Decoders \<Rightarrow> 's Executor \<Rightarrow> string \<Rightarrow> int \<Rightarrow> int \<Rightarrow> int \<Rightarrow> int \<Rightarrow> int \<Rightarrow> ('s, IPerfRun list) eff" where
  "runIPerfTest env de c targetIP streams iterations dur cooldownSec creditRetrySec =
    iperfIterations env (iperfAttempt de c (''iperf3 -c '' @ targetIP @ '' -p '' @ string_of_int IPerfPort @ '' -P '' @
        string_of_int streams @ '' -t '' @ string_of_int dur @ '' -J''))
      (wrap64 (cooldownSec * second)) (wrap64 (creditRetrySec * second)) 0 (nat iterations)"

definition runMTR :: "Decoders \<Rightarrow> 's Executor \<Rightarrow> string \<Rightarrow> int \<Rightarrow> ('s, MTRResult) eff" where
  "runMTR de c targetIP cycles =
    ebind (ewrap (\<lambda>e. Wrapf ''mtr: '' e []) (runCmd c (''mtr --report --report-cycles '' @ string_of_int cycles @ '' --no-dns '' @ targetIP)))
      (\<lambda>out. case ParseMTR de out targetIP of Inl e \<Rightarrow> efail e | Inr r \<Rightarrow> eret r)"

section \<open>The usable packet rate\<close>

definition probeUDPRate :: "Decoders \<Rightarrow> 's Executor \<Rightarrow> string \<Rightarrow> int \<Rightarrow> int \<Rightarrow> int \<Rightarrow> int \<Rightarrow> ('s, UDPStats) eff" where
  "probeUDPRate de c targetIP datagramBytes pps durationSec warmupSec =
    ebind (runCmd c (''iperf3 -c '' @ targetIP @ '' -p '' @ string_of_int IPerfPort @ '' -u -l '' @ string_of_int datagramBytes @
        '' -b '' @ string_of_int (wrap64 (wrap64 (pps * datagramBytes) * 8)) @ '' -P 1 -O '' @ string_of_int warmupSec @
        '' -t '' @ string_of_int durationSec @ '' -J''))
      (\<lambda>out. case IPerfError (udpErrField de) out of Some e \<Rightarrow> efail e
         | None \<Rightarrow> (case ParseIPerfUDPJSON de out of Inl e \<Rightarrow> efail e | Inr st \<Rightarrow> eret st))"

definition usableUDPResult :: "UDPStats \<Rightarrow> real option" where
  "usableUDPResult st = (if u_Seconds st \<le> 0 \<or> u_Packets st \<le> 0 \<or> u_LostPackets st < 0 \<or> u_LostPackets st > u_Packets st \<or>
       u_LossPct st < 0 \<or> u_LossPct st > 100 then None
     else Some (real_of_int (u_Packets st - u_LostPackets st) / u_Seconds st))"

definition sizeResult :: "int \<Rightarrow> int \<Rightarrow> real \<Rightarrow> UDPStats \<Rightarrow> PPSSizeResult" where
  "sizeResult datagramBytes rate usable st = \<lparr>ps_Label = [], ps_DatagramBytes = datagramBytes, ps_OfferedPPS = real_of_int rate,
     ps_UsablePPS = usable, ps_LossPct = u_LossPct st, ps_JitterMs = u_JitterMs st, ps_Mbps = u_BitsPerSec st / 1000000\<rparr>"

definition withinTolerance :: "int \<Rightarrow> int \<Rightarrow> bool" where
  "withinTolerance lo hi \<longleftrightarrow> lo > 0 \<and> real_of_int (hi - lo) / real_of_int lo * 100 \<le> 5"

text \<open>
  The search: \<open>first\<close> is step 0, which probes the ceiling; \<open>n\<close> is the number of steps left. The result is the
  best size found so far and the lowest rate that was lossy.
\<close>

fun sweepLoop :: "(int \<Rightarrow> ('s, UDPStats) eff) \<Rightarrow> real \<Rightarrow> int \<Rightarrow> bool \<Rightarrow> nat \<Rightarrow> int \<Rightarrow> int \<Rightarrow> PPSSizeResult option \<Rightarrow>
    ('s, PPSSizeResult option \<times> int) eff" where
  "sweepLoop probe threshold dgram first 0 lo hi best = eret (best, hi)"
| "sweepLoop probe threshold dgram first (Suc n) lo hi best =
    (let rate = (if first then hi else wrap64 (lo + hi) div 2) in
     if rate \<le> 0 then eret (best, hi)
     else ebind (ewrap (\<lambda>e. Wrapf (''udp probe at '' @ string_of_int rate @ '' pps ('' @ string_of_int dgram @ ''B): '') e []) (probe rate))
      (\<lambda>st. case usableUDPResult st of
         None \<Rightarrow> sweepLoop probe threshold dgram False n lo rate best
       | Some usable \<Rightarrow>
           if u_LossPct st \<le> threshold then
             (if first \<or> withinTolerance rate hi then eret (Some (sizeResult dgram rate usable st), hi)
              else sweepLoop probe threshold dgram False n rate hi (Some (sizeResult dgram rate usable st)))
           else if withinTolerance lo rate then eret (best, rate)
           else sweepLoop probe threshold dgram False n lo rate best))"

definition maxSteps :: nat where "maxSteps = 12"

definition runUDPSweep :: "Decoders \<Rightarrow> 's Executor \<Rightarrow> string \<Rightarrow> int \<Rightarrow> RunConfig \<Rightarrow> ('s, PPSSizeResult) eff" where
  "runUDPSweep de c targetIP datagramBytes cfg =
    ebind (sweepLoop (\<lambda>rate. probeUDPRate de c targetIP datagramBytes rate (g_PPSDurationSec cfg) (g_PPSWarmupSec cfg))
       (g_PPSLossThresholdPct cfg) datagramBytes True (maxSteps + 1) 0 (g_PPSMaxRatePPS cfg) None) (\<lambda>(best, hi).
     case best of Some b \<Rightarrow> eret b
     | None \<Rightarrow> efail (ErrText (''no offered rate sustained loss <= '' @ fmtFixed 3 (g_PPSLossThresholdPct cfg) @ ''% for '' @
         string_of_int datagramBytes @ ''B (lowest probed rate '' @ string_of_int hi @ '' pps was still lossy)'')))"

fun ppsBounds :: "int list \<Rightarrow> int \<times> int \<Rightarrow> int \<times> int" where
  "ppsBounds [] b = b"
| "ppsBounds (s # ss) (lo, hi) = ppsBounds ss (if s < lo then s else lo, if s > hi then s else hi)"

definition ppsSizeLabel :: "int \<Rightarrow> int list \<Rightarrow> string" where
  "ppsSizeLabel dgram sizes = (case ppsBounds sizes (hd sizes, hd sizes) of (lo, hi) \<Rightarrow>
     if dgram = lo then string_of_int dgram else if dgram = hi then ''mtu'' else ''imix-avg'')"

fun sweepSizes :: "(int \<Rightarrow> ('s, PPSSizeResult) eff) \<Rightarrow> int list \<Rightarrow> int list \<Rightarrow> ('s, PPSSizeResult list) eff" where
  "sweepSizes sweep sizes [] = eret []"
| "sweepSizes sweep sizes (d # ds) = ebind (sweep d) (\<lambda>size. ebind (sweepSizes sweep sizes ds) (\<lambda>rest.
     eret (size\<lparr>ps_Label := ppsSizeLabel d sizes\<rparr> # rest)))"

definition RunForwardingPPS :: "'s Env \<Rightarrow> Decoders \<Rightarrow> RunConfig \<Rightarrow> 's Executor \<Rightarrow> 's Executor \<Rightarrow> string \<Rightarrow> ('s, PPSResult) eff" where
  "RunForwardingPPS env de config client sink sinkPublicIP = (let cfg = RunConfig_defaults config in
    ebind (ewrap (\<lambda>e. Wrapf ''starting sink iperf3 server: '' e []) (startIPerfServer env sink)) (\<lambda>_.
    edefer (stopIPerfServer sink)
     (ebind (sweepSizes (\<lambda>d. runUDPSweep de client sinkPublicIP d cfg) (g_PPSDatagramSizes cfg) (g_PPSDatagramSizes cfg)) (\<lambda>sizes.
      eret \<lparr>pp_Sizes = sizes, pp_LossThresholdPct = g_PPSLossThresholdPct cfg,
        pp_LimitingResource = (if list_ex (\<lambda>s. ps_OfferedPPS s \<ge> real_of_int (g_PPSMaxRatePPS cfg)) sizes then ''config-max-rate'' else [])\<rparr>))))"

definition RunRelayPath :: "'s Env \<Rightarrow> Decoders \<Rightarrow> RunConfig \<Rightarrow> 's Executor \<Rightarrow> 's Executor \<Rightarrow> string \<Rightarrow> string \<Rightarrow> ('s, RelayPathResult) eff" where
  "RunRelayPath env de config client server serverTSIP wantPath = (let cfg = RunConfig_defaults config in
    ebind (ewrap (\<lambda>e. Wrapf ''path assertion: '' e []) (PathVia env client serverTSIP)) (\<lambda>pth.
    if pth \<noteq> wantPath then efail (ErrText (''expected path '' @ quoted wantPath @ '', got '' @ quoted pth @ '' '' @ [CHR 0xE2, CHR 0x80, CHR 0x94] @ '' not recording (honesty rule)''))
    else ebind (ecatch (pingLatencyMs de client serverTSIP 5)) (\<lambda>lat.
    ebind (ewrap (\<lambda>e. Wrapf (''starting iperf3 server ('' @ pth @ ''): '') e []) (startIPerfServer env server)) (\<lambda>_.
    edefer (stopIPerfServer server)
     (ebind (ewrap (\<lambda>e. Wrapf (''throughput ('' @ pth @ ''): '') e [])
        (runIPerfTest env de client serverTSIP (g_IPerfParallel cfg) (g_IPerfIterations cfg) (g_IPerfDuration cfg)
          (g_CooldownSec cfg) (g_CreditRetrySec cfg))) (\<lambda>runs.
      ebind (sweepSizes (\<lambda>d. ewrap (\<lambda>e. Wrapf (''pps sweep ('' @ pth @ '', '' @ string_of_int d @ ''B): '') e [])
        (runUDPSweep de client serverTSIP d cfg)) (g_PPSDatagramSizes cfg) (g_PPSDatagramSizes cfg)) (\<lambda>sizes.
      eret \<lparr>rp_Path = pth, rp_ThroughputMbps = is_BandwidthMbpsAvg (ComputeSummary runs),
        rp_PPS = Some \<lparr>pp_Sizes = sizes, pp_LossThresholdPct = g_PPSLossThresholdPct cfg, pp_LimitingResource = []\<rparr>,
        rp_LatencyMs = (case lat of Inl _ \<Rightarrow> 0 | Inr ms \<Rightarrow> ms)\<rparr>)))))))"

section \<open>Fortio\<close>

fun fortioIterations :: "Decoders \<Rightarrow> 's Executor \<Rightarrow> string \<Rightarrow> nat \<Rightarrow> ('s, FortioResult list) eff" where
  "fortioIterations de c cmd 0 = eret []"
| "fortioIterations de c cmd (Suc n) = ebind (ecatch (runCmd c cmd)) (\<lambda>r.
     ebind (fortioIterations de c cmd n) (\<lambda>rest. eret (case r of
       Inl _ \<Rightarrow> rest
     | Inr out \<Rightarrow> (case ParseFortioJSON de out of Inl _ \<Rightarrow> rest | Inr x \<Rightarrow> x # rest))))"

definition runFortioTest :: "Decoders \<Rightarrow> 's Executor \<Rightarrow> string \<Rightarrow> bool \<Rightarrow> int \<Rightarrow> int \<Rightarrow> int \<Rightarrow> int \<Rightarrow> ('s, FortioResult list) eff" where
  "runFortioTest de c target h2 connections iterations dur qps =
    ebind (fortioIterations de c (BuildFortioCmd target h2 connections dur qps) (nat iterations)) (\<lambda>runs.
     if runs = [] then efail (ErrText (''all '' @ string_of_int iterations @ '' fortio iterations failed'')) else eret runs)"

definition addCodes :: "(int \<rightharpoonup> int) \<Rightarrow> (int \<rightharpoonup> int) \<Rightarrow> int \<rightharpoonup> int" where
  "addCodes a b c = (case (a c, b c) of (None, y) \<Rightarrow> y | (x, None) \<Rightarrow> x | (Some x, Some y) \<Rightarrow> Some (wrap64 (x + y)))"

definition addFortio :: "FortioResult \<Rightarrow> FortioResult \<Rightarrow> FortioResult" where
  "addFortio avg r = \<lparr>fr_QPS = fr_QPS avg + fr_QPS r, fr_AvgLatencyMs = fr_AvgLatencyMs avg + fr_AvgLatencyMs r,
     fr_P50LatencyMs = fr_P50LatencyMs avg + fr_P50LatencyMs r, fr_P90LatencyMs = fr_P90LatencyMs avg + fr_P90LatencyMs r,
     fr_P99LatencyMs = fr_P99LatencyMs avg + fr_P99LatencyMs r, fr_P999LatencyMs = fr_P999LatencyMs avg + fr_P999LatencyMs r,
     fr_StatusCodes = addCodes (fr_StatusCodes avg) (fr_StatusCodes r), fr_BytesPerSec = fr_BytesPerSec avg + fr_BytesPerSec r,
     fr_ConnectionErrs = wrap64 (fr_ConnectionErrs avg + fr_ConnectionErrs r)\<rparr>"

definition averageFortioResults :: "FortioResult list \<Rightarrow> FortioResult" where
  "averageFortioResults runs = (if runs = [] then zeroFortio else
    (let t = foldl addFortio zeroFortio runs; n = real (length runs) in
     t\<lparr>fr_QPS := fr_QPS t / n, fr_AvgLatencyMs := fr_AvgLatencyMs t / n, fr_P50LatencyMs := fr_P50LatencyMs t / n,
       fr_P90LatencyMs := fr_P90LatencyMs t / n, fr_P99LatencyMs := fr_P99LatencyMs t / n,
       fr_P999LatencyMs := fr_P999LatencyMs t / n, fr_BytesPerSec := fr_BytesPerSec t / n\<rparr>))"

definition RunFortio :: "Decoders \<Rightarrow> 's Runner \<Rightarrow> string \<Rightarrow> string \<Rightarrow> bool \<Rightarrow> int \<Rightarrow> int \<Rightarrow> int \<Rightarrow> int \<Rightarrow> ('s, FortioResult \<times> FortioResult) eff" where
  "RunFortio de r target baselineTarget h2 connections dur iterations qps =
    (let baselineExec = (case rn_BaselineClient r of None \<Rightarrow> rn_Client r | Some c \<Rightarrow> c) in
     ebind (ewrap (\<lambda>e. Wrapf ''fortio baseline: '' e []) (runFortioTest de baselineExec baselineTarget h2 connections iterations dur qps)) (\<lambda>baselineRuns.
     ebind (ewrap (\<lambda>e. Wrapf ''fortio tailscale: '' e []) (runFortioTest de (rn_Client r) target h2 connections iterations dur qps)) (\<lambda>tsRuns.
     eret (averageFortioResults baselineRuns, averageFortioResults tsRuns))))"

section \<open>The full benchmark\<close>

text \<open>A command whose output sets a field when it succeeds.\<close>

definition probeField :: "'s Executor \<Rightarrow> string \<Rightarrow> (string \<Rightarrow> 'a \<Rightarrow> 'a) \<Rightarrow> 'a \<Rightarrow> ('s, 'a) eff" where
  "probeField c cmd setField x = ebind (ecatch (runCmd c cmd)) (\<lambda>r. eret (case r of Inl _ \<Rightarrow> x | Inr out \<Rightarrow> setField (TrimSpace out) x))"

definition parsedInt :: "(string \<Rightarrow> int option) \<Rightarrow> (int \<Rightarrow> 'a \<Rightarrow> 'a) \<Rightarrow> string \<Rightarrow> 'a \<Rightarrow> 'a" where
  "parsedInt atoi setField out x = (case atoi out of None \<Rightarrow> x | Some v \<Rightarrow> setField v x)"

definition containerRuntimeOf :: "string \<Rightarrow> SystemConfig \<Rightarrow> SystemConfig" where
  "containerRuntimeOf cgroup cfg = (if Contains cgroup ''containerd'' then cfg\<lparr>sc_ContainerRuntime := ''containerd''\<rparr>
     else if Contains cgroup ''cri-o'' then cfg\<lparr>sc_ContainerRuntime := ''cri-o''\<rparr>
     else if Contains cgroup ''docker'' then cfg\<lparr>sc_ContainerRuntime := ''docker''\<rparr> else cfg)"

definition zeroSystemConfig :: SystemConfig where
  "zeroSystemConfig = \<lparr>sc_TCPCongestionControl = [], sc_CPUGovernor = [], sc_GROUDPForwarding = False, sc_MTUUnderlay = 0,
     sc_MTUTailscale = 0, sc_TCPRmem = [], sc_TCPWmem = [], sc_KernelFull = [], sc_ContainerRuntime = []\<rparr>"

definition squote :: "string \<Rightarrow> string" where
  "squote t = [CHR 0x27] @ t @ [CHR 0x27]"

definition collectSystemConfig :: "(string \<Rightarrow> int option) \<Rightarrow> 's Executor \<Rightarrow> ('s, SystemConfig) eff" where
  "collectSystemConfig atoi server =
    ebind (probeField server ''uname -r'' (\<lambda>t. sc_KernelFull_update (\<lambda>_. t)) zeroSystemConfig) (\<lambda>c1.
    ebind (probeField server ''uname -a'' (\<lambda>t. sc_KernelFull_update (\<lambda>_. t)) c1) (\<lambda>c2.
    ebind (probeField server ''sysctl -n net.ipv4.tcp_congestion_control'' (\<lambda>t. sc_TCPCongestionControl_update (\<lambda>_. t)) c2) (\<lambda>c3.
    ebind (probeField server ''cat /sys/devices/system/cpu/cpu0/cpufreq/scaling_governor'' (\<lambda>t. sc_CPUGovernor_update (\<lambda>_. t)) c3) (\<lambda>c4.
    ebind (probeField server (''ip route show default | awk '' @ squote ''{print $5}'' @ '' | head -1'')
      (\<lambda>t d. if t \<noteq> [] then t else d) ''eth0'') (\<lambda>netdev.
    ebind (probeField server (''ethtool -k '' @ netdev @ '' | grep rx-udp-gro-forwarding | awk '' @ squote ''{print $2}'')
      (\<lambda>t. sc_GROUDPForwarding_update (\<lambda>_. t = ''on'')) c4) (\<lambda>c5.
    ebind (probeField server (''ip -o link show '' @ netdev @ '' | grep -oP '' @ squote (''mtu '' @ [CHR 0x5C] @ ''K[0-9]+''))
      (parsedInt atoi (\<lambda>v. sc_MTUUnderlay_update (\<lambda>_. v))) c5) (\<lambda>c6.
    ebind (probeField server (''ip -o link show tailscale0 | grep -oP '' @ squote (''mtu '' @ [CHR 0x5C] @ ''K[0-9]+''))
      (parsedInt atoi (\<lambda>v. sc_MTUTailscale_update (\<lambda>_. v))) c6) (\<lambda>c7.
    ebind (probeField server ''sysctl -n net.ipv4.tcp_rmem'' (\<lambda>t. sc_TCPRmem_update (\<lambda>_. t)) c7) (\<lambda>c8.
    ebind (probeField server ''sysctl -n net.ipv4.tcp_wmem'' (\<lambda>t. sc_TCPWmem_update (\<lambda>_. t)) c8) (\<lambda>c9.
    probeField server ''cat /proc/1/cgroup 2>/dev/null | head -5'' containerRuntimeOf c9))))))))))"

definition overheadOf :: "IPerfSummary \<Rightarrow> IPerfSummary \<Rightarrow> Overhead" where
  "overheadOf b t = \<lparr>oh_BandwidthPct = ComputeOverhead (is_BandwidthMbpsAvg b) (is_BandwidthMbpsAvg t),
     oh_RetransmitsPct = ComputeOverhead (is_RetransmitsAvg b) (is_RetransmitsAvg t)\<rparr>"

text \<open>\<^verbatim>\<open>strings.Fields\<close>, and the short kernel version: the third field of the kernel description.\<close>

definition Fields :: "string \<Rightarrow> string list" where
  "Fields t = filter (\<lambda>f. f \<noteq> []) (Split (CHR '' '') (map (\<lambda>c. if isSpace c then CHR '' '' else c) t))"

definition kernelVersionOf :: "SystemConfig \<Rightarrow> string" where
  "kernelVersionOf sys = (let parts = Fields (sc_KernelFull sys) in
     if 3 \<le> length parts then parts ! 2 else TrimSpace (sc_KernelFull sys))"

text \<open>The two iperf tests and the mtr report against one address, between the start and the stop of the server.\<close>

definition measureSide :: "'s Env \<Rightarrow> Decoders \<Rightarrow> 's Runner \<Rightarrow> RunConfig \<Rightarrow> string \<Rightarrow> string \<Rightarrow>
    ('s, IPerfRun list \<times> IPerfRun list \<times> MTRResult option) eff" where
  "measureSide env de r cfg side ip =
    (let test = (\<lambda>streams. runIPerfTest env de (rn_Client r) ip streams (g_IPerfIterations cfg) (g_IPerfDuration cfg)
           (g_CooldownSec cfg) (g_CreditRetrySec cfg)) in
     ebind (startIPerfServer env (rn_Server r)) (\<lambda>_.
     ebind (ewrap (\<lambda>e. Wrapf (side @ '' multi-stream: '') e []) (test (g_IPerfParallel cfg))) (\<lambda>multi.
     ebind (ewrap (\<lambda>e. Wrapf (side @ '' single-stream: '') e []) (test 1)) (\<lambda>single.
     ebind (ecatch (runMTR de (rn_Client r) ip (g_MTRCycles cfg))) (\<lambda>m.
     ebind (\<lambda>s. (Inr (), stopIPerfServer (rn_Server r) s)) (\<lambda>_.
     eret (multi, single, (case m of Inl _ \<Rightarrow> None | Inr x \<Rightarrow> Some x))))))))"

definition RunFull :: "'s Env \<Rightarrow> Decoders \<Rightarrow> (string \<Rightarrow> int option) \<Rightarrow> 's Runner \<Rightarrow> string \<Rightarrow> string \<Rightarrow> ('s, BenchmarkResult) eff" where
  "RunFull env de atoi r serverLANIP clientLANIP = (let cfg = RunConfig_defaults (rn_Config r) in
    ebind (ewrap (\<lambda>e. Wrapf ''LAN verification failed: '' e []) (verifyLAN env (rn_ClientTailscale r) serverLANIP)) (\<lambda>_.
    ebind (measureSide env de r cfg ''baseline'' serverLANIP) (\<lambda>(baselineMulti, baselineSingle, baselineMTR).
    ebind (if g_SkipTailscaleSetup cfg then eret ()
           else ebind (TailscaleUp env (rn_ServerTailscale r) (g_AuthKey cfg) (g_ServerHostname cfg)) (\<lambda>_.
                TailscaleUp env (rn_ClientTailscale r) (g_AuthKey cfg) (g_ClientHostname cfg))) (\<lambda>_.
    ebind (ewrap (\<lambda>e. Wrapf ''server tailscale IP: '' e []) (GetTailscaleIP env (rn_ServerTailscale r))) (\<lambda>serverTSIP.
    ebind (ewrap (\<lambda>e. Wrapf ''client tailscale IP: '' e []) (GetTailscaleIP env (rn_ClientTailscale r))) (\<lambda>_.
    ebind (WaitForPeer env (rn_ClientTailscale r) serverTSIP) (\<lambda>_.
    ebind (elift (WaitForDirect env (rn_ClientTailscale r) serverTSIP)) (\<lambda>(connType, _).
    ebind (measureSide env de r cfg ''tailscale'' serverTSIP) (\<lambda>(tsMulti, tsSingle, tsMTR).
    ebind (collectSystemConfig atoi (rn_Server r)) (\<lambda>sysCfg.
    ebind (runOut (rn_ServerTailscale r) ''tailscale version | head -1'') (\<lambda>version.
    eret (zeroResult\<lparr>br_TSVersion := TrimSpace version, br_KernelVersion := kernelVersionOf sysCfg, br_ConnectionType := connType,
      br_SystemConfig := Some sysCfg,
      br_TestConfig := Some \<lparr>tc_IPerfDurationSec = g_IPerfDuration cfg, tc_IPerfParallelStreams = g_IPerfParallel cfg,
        tc_IPerfIterations = g_IPerfIterations cfg, tc_MTRCycles = g_MTRCycles cfg, tc_PPSDatagramSizes = [], tc_PPSLossThresholdPct = 0\<rparr>,
      br_BaselineTCP := Some \<lparr>tr_Runs = baselineMulti, tr_Summary = Some (ComputeSummary baselineMulti)\<rparr>,
      br_TailscaleTCP := Some \<lparr>tr_Runs = tsMulti, tr_Summary = Some (ComputeSummary tsMulti)\<rparr>,
      br_Overhead := Some (overheadOf (ComputeSummary baselineMulti) (ComputeSummary tsMulti)),
      br_BaselineTCPSingle := Some \<lparr>tr_Runs = baselineSingle, tr_Summary = Some (ComputeSummary baselineSingle)\<rparr>,
      br_TailscaleTCPSingle := Some \<lparr>tr_Runs = tsSingle, tr_Summary = Some (ComputeSummary tsSingle)\<rparr>,
      br_OverheadSingle := Some (overheadOf (ComputeSummary baselineSingle) (ComputeSummary tsSingle)),
      br_BaselineMTR := baselineMTR, br_TailscaleMTR := tsMTR\<rparr>))))))))))))"

end
