(* ===== verification/Bench_Props.thy ===== *)
theory Bench_Props
  imports Bench_Runner
begin

text \<open>
  Properties of the measurements: what the search for the usable packet rate finds and how close it
  gets, which paths a relay measurement can be reported for, and what passes for a direct connection.
\<close>

section \<open>Decimal numbers\<close>

lemma string_of_nat_value: "foldl (\<lambda>v c. v * 10 + (of_char c - 48)) 0 (string_of_nat n) = n"
proof (induction n rule: string_of_nat.induct)
  case (1 n)
  have "of_char (char_of (48 + k) :: char) - (48 :: nat) = k" if "k < 10" for k :: nat
    using that by simp
  with 1 show ?case by (subst string_of_nat.simps) simp
qed

lemma string_of_nat_inject [simp]: "string_of_nat m = string_of_nat n \<longleftrightarrow> m = n"
  using string_of_nat_value by metis

section \<open>The search\<close>

text \<open>A result that is backed by a probe: the receiver counters are consistent and the loss is within the threshold.\<close>

definition backedBy :: "(int \<Rightarrow> ('s, UDPStats) eff) \<Rightarrow> real \<Rightarrow> int \<Rightarrow> PPSSizeResult \<Rightarrow> bool" where
  "backedBy probe threshold cap b \<longleftrightarrow> (\<exists>rate st usable s0 s1. probe rate s0 = (Inr st, s1) \<and> usableUDPResult st = Some usable \<and>
     u_LossPct st \<le> threshold \<and> 0 < rate \<and> rate \<le> cap \<and> ps_OfferedPPS b = real_of_int rate \<and> ps_UsablePPS b = usable \<and>
     ps_LossPct b = u_LossPct st)"

lemma backedBy_sizeResult:
  "probe rate s0 = (Inr st, s1) \<Longrightarrow> usableUDPResult st = Some usable \<Longrightarrow> u_LossPct st \<le> threshold \<Longrightarrow> 0 < rate \<Longrightarrow> rate \<le> cap \<Longrightarrow>
    backedBy probe threshold cap (sizeResult d rate usable st)"
  unfolding backedBy_def sizeResult_def by fastforce

lemma mid_bounds: "0 \<le> lo \<Longrightarrow> lo \<le> hi \<Longrightarrow> hi < 2 ^ 62 \<Longrightarrow>
    lo \<le> wrap64 (lo + hi) div 2 \<and> wrap64 (lo + hi) div 2 \<le> hi \<and> wrap64 (lo + hi) = lo + hi"
  for lo hi :: int
proof -
  assume a: "0 \<le> lo" "lo \<le> hi" "hi < 2 ^ 62"
  then have "wrap64 (lo + hi) = lo + hi" by (intro wrap64_id) (simp add: int64_range_def)
  moreover have "lo \<le> (lo + hi) div 2" "(lo + hi) div 2 \<le> hi" using a by presburger+
  ultimately show ?thesis by simp
qed

lemma sweepLoop_backed:
  assumes "sweepLoop probe threshold d first n lo hi best s = (Inr (Some b, h), s')"
    and "0 \<le> lo" "lo \<le> hi" "hi \<le> cap" "cap < 2 ^ 62" "\<And>b. best = Some b \<Longrightarrow> backedBy probe threshold cap b"
  shows "backedBy probe threshold cap b"
  using assms
proof (induction n arbitrary: first lo hi best s)
  case (Suc n)
  let ?rate = "if first then hi else wrap64 (lo + hi) div 2"
  have r: "lo \<le> ?rate" "?rate \<le> hi" using mid_bounds[of lo hi] Suc.prems(2-5) by auto
  show ?case
  proof (cases "?rate \<le> 0")
    case True
    then show ?thesis using Suc.prems(1,6) by simp
  next
    case False
    then obtain st s1 where p: "probe ?rate s = (Inr st, s1)"
      using Suc.prems(1) by (auto simp: Let_def ebind_Inr)
    have rest: "(case usableUDPResult st of None \<Rightarrow> sweepLoop probe threshold d False n lo ?rate best
       | Some usable \<Rightarrow> if u_LossPct st \<le> threshold then
             (if first \<or> withinTolerance ?rate hi then eret (Some (sizeResult d ?rate usable st), hi)
              else sweepLoop probe threshold d False n ?rate hi (Some (sizeResult d ?rate usable st)))
           else if withinTolerance lo ?rate then eret (best, ?rate)
           else sweepLoop probe threshold d False n lo ?rate best) s1 = (Inr (Some b, h), s')"
      using Suc.prems(1) False p by (simp add: Let_def ebind_def ewrap_def split: if_splits)
    have down: "sweepLoop probe threshold d False n lo ?rate best s1 = (Inr (Some b, h), s') \<Longrightarrow> ?thesis"
      using Suc.IH[of False lo ?rate best s1] Suc.prems(2-6) r by simp
    have bk: "usableUDPResult st = Some u \<Longrightarrow> u_LossPct st \<le> threshold \<Longrightarrow> backedBy probe threshold cap (sizeResult d ?rate u st)" for u
      using backedBy_sizeResult[where probe = probe, OF p] False r Suc.prems(4) by simp
    show ?thesis
    proof (cases "usableUDPResult st")
      case None
      with rest down show ?thesis by simp
    next
      case (Some u)
      show ?thesis
      proof (cases "u_LossPct st \<le> threshold")
        case True
        note bk = bk[OF Some True]
        show ?thesis
        proof (cases "first \<or> withinTolerance ?rate hi")
          case True
          with rest Some \<open>u_LossPct st \<le> threshold\<close> bk show ?thesis by simp
        next
          case False
          with rest Some \<open>u_LossPct st \<le> threshold\<close>
          have "sweepLoop probe threshold d False n ?rate hi (Some (sizeResult d ?rate u st)) s1 = (Inr (Some b, h), s')" by simp
          from Suc.IH[OF this] bk Suc.prems(2-5) r show ?thesis by simp
        qed
      next
        case False
        with rest Some down Suc.prems(6) show ?thesis by (cases "withinTolerance lo ?rate") simp_all
      qed
    qed
  qed
qed simp

text \<open>
  A path of a given capacity: every probe up to the ceiling succeeds with consistent counters, and the loss is within the
  threshold exactly up to the capacity.
\<close>

definition hasCapacity :: "(int \<Rightarrow> ('s, UDPStats) eff) \<Rightarrow> real \<Rightarrow> int \<Rightarrow> int \<Rightarrow> bool" where
  "hasCapacity probe threshold cap K \<longleftrightarrow> (\<forall>rate s. 0 < rate \<and> rate \<le> cap \<longrightarrow> (\<exists>st u s1. probe rate s = (Inr st, s1) \<and> usableUDPResult st = Some u \<and>
     (u_LossPct st \<le> threshold \<longleftrightarrow> rate \<le> K)))"

text \<open>
  One step of the bisection keeps the capacity in the bracket and halves the bracket: the invariant
  \<open>bracket\<close> with \<open>k\<close> halvings left to go to the width \<open>w\<close>.
\<close>

definition bracket :: "int \<Rightarrow> real \<Rightarrow> nat \<Rightarrow> int \<Rightarrow> int \<Rightarrow> PPSSizeResult option \<Rightarrow> bool" where
  "bracket K w k lo hi best \<longleftrightarrow> 0 \<le> lo \<and> lo \<le> K \<and> K < hi \<and> real_of_int (hi - lo) \<le> w * 2 ^ k + 1 \<and>
     (if lo = 0 then best = None else (\<exists>b. best = Some b \<and> ps_OfferedPPS b = real_of_int lo))"

definition closeTo :: "int \<Rightarrow> real \<Rightarrow> PPSSizeResult option \<Rightarrow> bool" where
  "closeTo K w best \<longleftrightarrow> (case best of None \<Rightarrow> real_of_int K < w + 1
     | Some b \<Rightarrow> ps_OfferedPPS b \<le> real_of_int K \<and>
        (real_of_int K - ps_OfferedPPS b < w + 1 \<or> (real_of_int K - ps_OfferedPPS b) * 100 \<le> 5 * ps_OfferedPPS b))"

lemma bracket_close: "bracket K w 0 lo hi best \<Longrightarrow> closeTo K w best"
  by (auto simp: bracket_def closeTo_def split: if_splits option.splits)

lemma tolerance_close: "bracket K w k lo hi best \<Longrightarrow> withinTolerance lo hi \<Longrightarrow> closeTo K w best"
proof -
  assume b: "bracket K w k lo hi best" and t: "withinTolerance lo hi"
  then obtain x where x: "best = Some x" "ps_OfferedPPS x = real_of_int lo" "0 < lo" "K < hi" "lo \<le> K"
    by (auto simp: bracket_def withinTolerance_def split: if_splits)
  have "real_of_int (hi - lo) * 100 \<le> 5 * real_of_int lo"
    using t x(3) by (simp add: withinTolerance_def field_simps)
  with x show ?thesis by (simp add: closeTo_def)
qed

lemma sweepLoop_close:
  assumes "hasCapacity probe threshold cap K" "0 < K" "cap < 2 ^ 62" "bracket K w n lo hi best" "hi \<le> cap"
  shows "\<exists>best' h s'. sweepLoop probe threshold d False n lo hi best s = (Inr (best', h), s') \<and> closeTo K w best'"
  using assms(4,5)
proof (induction n arbitrary: lo hi best s)
  case 0
  then show ?case using bracket_close by (fastforce simp: eret_def)
next
  case (Suc n)
  let ?rate = "wrap64 (lo + hi) div 2"
  have b: "0 \<le> lo" "lo \<le> K" "K < hi" "real_of_int (hi - lo) \<le> w * 2 ^ Suc n + 1"
    "if lo = 0 then best = None else (\<exists>b. best = Some b \<and> ps_OfferedPPS b = real_of_int lo)"
    using Suc.prems(1) unfolding bracket_def by blast+
  have r: "lo \<le> ?rate" "?rate \<le> hi" "wrap64 (lo + hi) = lo + hi" using mid_bounds[of lo hi] b Suc.prems(2) assms(3) by auto
  have pos: "0 < ?rate" using b assms(2) r(3) by (cases "lo = 0") auto
  have half: "real_of_int (hi - ?rate) \<le> w * 2 ^ n + 1" "real_of_int (?rate - lo) \<le> w * 2 ^ n + 1"
  proof -
    have "2 * (hi - ?rate) \<le> hi - lo + 1" "2 * (?rate - lo) \<le> hi - lo + 1" unfolding r(3) by presburger+
    then have "real_of_int (2 * (hi - ?rate)) \<le> real_of_int (hi - lo + 1)" "real_of_int (2 * (?rate - lo)) \<le> real_of_int (hi - lo + 1)"
      by (simp_all only: of_int_le_iff)
    then have "2 * real_of_int (hi - ?rate) \<le> real_of_int (hi - lo) + 1" "2 * real_of_int (?rate - lo) \<le> real_of_int (hi - lo) + 1"
      by (simp_all only: of_int_mult of_int_add of_int_numeral of_int_1)
    with b(4) show "real_of_int (hi - ?rate) \<le> w * 2 ^ n + 1" "real_of_int (?rate - lo) \<le> w * 2 ^ n + 1" by simp_all
  qed
  obtain st u s1 where p: "probe ?rate s = (Inr st, s1)" "usableUDPResult st = Some u" "u_LossPct st \<le> threshold \<longleftrightarrow> ?rate \<le> K"
    using assms(1) pos r(2) Suc.prems(2) unfolding hasCapacity_def by (meson order_trans)
  have step: "sweepLoop probe threshold d False (Suc n) lo hi best s =
      (if ?rate \<le> K then (if withinTolerance ?rate hi then eret (Some (sizeResult d ?rate u st), hi)
              else sweepLoop probe threshold d False n ?rate hi (Some (sizeResult d ?rate u st)))
           else if withinTolerance lo ?rate then eret (best, ?rate) else sweepLoop probe threshold d False n lo ?rate best) s1"
    using pos p by (simp add: Let_def ebind_def ewrap_def)
  show ?case
  proof (cases "?rate \<le> K")
    case True
    have br: "bracket K w n ?rate hi (Some (sizeResult d ?rate u st))"
      using True b half(1) pos unfolding bracket_def by (simp add: sizeResult_def)
    with True step Suc.IH[OF br Suc.prems(2)] tolerance_close[OF br] show ?thesis
      by (cases "withinTolerance ?rate hi") (auto simp: eret_def)
  next
    case False
    have br: "bracket K w n lo ?rate best" using False b half(2) unfolding bracket_def by simp
    have cap: "?rate \<le> cap" using r(2) Suc.prems(2) by simp
    from False step Suc.IH[OF br cap] tolerance_close[OF br] show ?thesis
      by (cases "withinTolerance lo ?rate") (auto simp: eret_def)
  qed
qed

text \<open>The search over the loop, with the ceiling probed first.\<close>

lemma sweep_capacity:
  assumes "hasCapacity probe threshold cap K" "0 < K" "0 < cap" "cap < 2 ^ 62"
  shows "\<exists>best h s'. sweepLoop probe threshold d True (Suc n) 0 cap None s = (Inr (best, h), s') \<and>
    (if cap \<le> K then \<exists>b. best = Some b \<and> ps_OfferedPPS b = real_of_int cap else closeTo K (real_of_int cap / 2 ^ n) best)"
proof -
  obtain st u s1 where p: "probe cap s = (Inr st, s1)" "usableUDPResult st = Some u" "u_LossPct st \<le> threshold \<longleftrightarrow> cap \<le> K"
    using assms(1,3) unfolding hasCapacity_def by blast
  show ?thesis
  proof (cases "cap \<le> K")
    case True
    then show ?thesis using p assms(3) by (simp add: Let_def ebind_def ewrap_def eret_def sizeResult_def)
  next
    case False
    have br: "bracket K (real_of_int cap / 2 ^ n) n 0 cap None" using False assms(2) by (simp add: bracket_def)
    have "sweepLoop probe threshold d True (Suc n) 0 cap None s = sweepLoop probe threshold d False n 0 cap None s1"
      using p assms(3) False by (simp add: Let_def ebind_def ewrap_def withinTolerance_def)
    with sweepLoop_close[OF assms(1,2,4) br order_refl, of d s1] False show ?thesis by simp
  qed
qed

section \<open>Properties\<close>

abbreviation sweepProbe :: "Decoders \<Rightarrow> 's Executor \<Rightarrow> string \<Rightarrow> int \<Rightarrow> RunConfig \<Rightarrow> int \<Rightarrow> ('s, UDPStats) eff" where
  "sweepProbe de c targetIP d cfg \<equiv> (\<lambda>rate. probeUDPRate de c targetIP d rate (g_PPSDurationSec cfg) (g_PPSWarmupSec cfg))"

lemma runUDPSweep_capacity:
  assumes "hasCapacity (sweepProbe de c targetIP d cfg) (g_PPSLossThresholdPct cfg) (g_PPSMaxRatePPS cfg) K"
    and "0 < g_PPSMaxRatePPS cfg" "g_PPSMaxRatePPS cfg < 2 ^ 62" "real_of_int (g_PPSMaxRatePPS cfg) / 4096 + 1 \<le> real_of_int K"
  shows "\<exists>b s'. runUDPSweep de c targetIP d cfg s = (Inr b, s') \<and> ps_OfferedPPS b \<le> real_of_int K \<and>
    (g_PPSMaxRatePPS cfg \<le> K \<longrightarrow> ps_OfferedPPS b = real_of_int (g_PPSMaxRatePPS cfg)) \<and>
    (K < g_PPSMaxRatePPS cfg \<longrightarrow> real_of_int K - ps_OfferedPPS b < real_of_int (g_PPSMaxRatePPS cfg) / 4096 + 1 \<or>
       (real_of_int K - ps_OfferedPPS b) * 100 \<le> 5 * ps_OfferedPPS b)"
proof -
  let ?cap = "g_PPSMaxRatePPS cfg"
  have "real_of_int 0 < real_of_int K" using assms(2,4) by simp
  then have K: "0 < K" by (simp only: of_int_less_iff)
  obtain best h s' where sw: "sweepLoop (sweepProbe de c targetIP d cfg) (g_PPSLossThresholdPct cfg) d True (Suc 12) 0 ?cap None s = (Inr (best, h), s')"
    and r: "if ?cap \<le> K then \<exists>b. best = Some b \<and> ps_OfferedPPS b = real_of_int ?cap else closeTo K (real_of_int ?cap / 2 ^ 12) best"
    using sweep_capacity[OF assms(1) K assms(2,3), of d 12 s] by blast
  have "best \<noteq> None" using r assms(4) by (cases best) (auto simp: closeTo_def split: if_splits)
  then obtain b where b: "best = Some b" by blast
  have run: "runUDPSweep de c targetIP d cfg s = (Inr b, s')"
    using sw b by (simp add: runUDPSweep_def maxSteps_def ebind_def eret_def del: sweepLoop.simps)
  show ?thesis
  proof (cases "?cap \<le> K")
    case True
    with r b run show ?thesis by auto
  next
    case False
    with r b run show ?thesis by (auto simp: closeTo_def)
  qed
qed

text \<open>
  C20 The search for the usable packet rate works within its thirteen probes: on a path that sustains
  exactly the rates up to a capacity K, with the ceiling at most 4096 times K or so, it returns a rate
  that the path sustains; a path faster than the ceiling is reported at the ceiling; and otherwise the
  rate falls short of the capacity by at most five percent, or by at most a 4096th of the ceiling (and
  one packet).
\<close>

theorem runUDPSweep_finds_capacity:
  assumes "hasCapacity (sweepProbe de c targetIP d cfg) (g_PPSLossThresholdPct cfg) (g_PPSMaxRatePPS cfg) K"
    and "0 < g_PPSMaxRatePPS cfg" "g_PPSMaxRatePPS cfg < 2 ^ 62" "real_of_int (g_PPSMaxRatePPS cfg) / 4096 + 1 \<le> real_of_int K"
  shows "\<exists>b s'. runUDPSweep de c targetIP d cfg s = (Inr b, s') \<and> ps_OfferedPPS b \<le> real_of_int K \<and>
    (g_PPSMaxRatePPS cfg \<le> K \<longrightarrow> ps_OfferedPPS b = real_of_int (g_PPSMaxRatePPS cfg)) \<and>
    (K < g_PPSMaxRatePPS cfg \<longrightarrow> real_of_int K - ps_OfferedPPS b < real_of_int (g_PPSMaxRatePPS cfg) / 4096 + 1 \<or>
       (real_of_int K - ps_OfferedPPS b) * 100 \<le> 5 * ps_OfferedPPS b)"
  using assms by (rule runUDPSweep_capacity)

text \<open>An environment in which waiting takes no time and the context never ends.\<close>

definition silentEnv :: "unit Env" where
  "silentEnv = \<lparr>ev_wait = (\<lambda>_ s. (None, s)), ev_sleep = (\<lambda>_ s. s), ev_now = (\<lambda>s. (0, s)), ev_ctxErr = (\<lambda>_. None)\<rparr>"

text \<open>An executor that echoes its command, and a decoder that reports loss beyond two packets per second.\<close>

definition echoExecutor :: "unit Executor" where
  "echoExecutor cmd s = ((cmd, None), s)"

definition echoConfig :: RunConfig where
  "echoConfig = \<lparr>g_IPerfDuration = 1, g_IPerfParallel = 1, g_IPerfIterations = 1, g_MTRCycles = 1, g_CooldownSec = 1, g_CreditRetrySec = 1,
     g_AuthKey = [], g_ServerHostname = [], g_ClientHostname = [], g_SkipTailscaleSetup = True, g_PPSDatagramSizes = [64],
     g_PPSLossThresholdPct = 1, g_PPSDurationSec = 1, g_PPSWarmupSec = 1, g_PPSMaxRatePPS = 4\<rparr>"

definition echoCmd :: "int \<Rightarrow> string" where
  "echoCmd rate = ''iperf3 -c '' @ ''ip'' @ '' -p '' @ string_of_int IPerfPort @ '' -u -l '' @ string_of_int 64 @ '' -b '' @
     string_of_int (wrap64 (wrap64 (rate * 64) * 8)) @ '' -P 1 -O '' @ string_of_int 1 @ '' -t '' @ string_of_int 1 @ '' -J''"

definition echoDecoders :: Decoders where
  "echoDecoders = \<lparr>de_tcp = (\<lambda>_. Inl (Sentinel EOF)),
     de_udp = (\<lambda>out. Inr (\<lparr>u_Packets = 10, u_LostPackets = 0, u_LossPct = (if out = echoCmd 1 \<or> out = echoCmd 2 then 0 else 50),
        u_JitterMs = 0, u_BitsPerSec = 0, u_Seconds = 1, u_Bytes = 0\<rparr>, [])),
     de_fortio = (\<lambda>_. Inl (Sentinel EOF)), de_mtrLine = (\<lambda>_. None), de_pingLatency = (\<lambda>_. None),
     de_float = (\<lambda>_. Inl (Sentinel EOF)), de_atoi = (\<lambda>_. 0)\<rparr>"

lemma echo_capacity: "hasCapacity (sweepProbe echoDecoders echoExecutor ''ip'' 64 echoConfig) 1 4 2"
proof -
  have cmds: "echoCmd 3 \<noteq> echoCmd 1" "echoCmd 3 \<noteq> echoCmd 2" "echoCmd 4 \<noteq> echoCmd 1" "echoCmd 4 \<noteq> echoCmd 2"
    by (simp_all add: echoCmd_def string_of_int_def wrap64_id int64_range_def)
  have probe: "probeUDPRate echoDecoders echoExecutor ''ip'' 64 rate 1 1 s = (Inr (fst (projr (de_udp echoDecoders (echoCmd rate)))), s)" for rate s
    unfolding probeUDPRate_def echoCmd_def[symmetric]
    by (simp add: echoDecoders_def echoExecutor_def runCmd_def ebind_def IPerfError_def udpErrField_def ParseIPerfUDPJSON_def eret_def)
  have loss: "u_LossPct (fst (projr (de_udp echoDecoders (echoCmd rate)))) \<le> 1 \<longleftrightarrow> rate \<le> 2" if "0 < rate" "rate \<le> 4" for rate
  proof -
    have "rate = 1 \<or> rate = 2 \<or> rate = 3 \<or> rate = 4" using that by arith
    then show ?thesis using cmds by (auto simp: echoDecoders_def)
  qed
  have "usableUDPResult (fst (projr (de_udp echoDecoders out))) = Some 10" for out
    by (simp add: usableUDPResult_def echoDecoders_def)
  with probe loss show ?thesis unfolding hasCapacity_def by (auto simp: echoConfig_def)
qed

theorem runUDPSweep_finds_capacity_witness:
  "\<exists>b. fst (runUDPSweep echoDecoders echoExecutor ''ip'' 64 echoConfig ()) = Inr b \<and> ps_OfferedPPS b \<le> 2"
  using runUDPSweep_finds_capacity[of echoDecoders echoExecutor "''ip''" 64 echoConfig 2 "()"] echo_capacity
  by (auto simp: echoConfig_def)

lemma runUDPSweep_backed:
  assumes "runUDPSweep de c targetIP d cfg s = (Inr b, s')" "g_PPSMaxRatePPS cfg < 2 ^ 62" "0 \<le> g_PPSMaxRatePPS cfg"
  shows "backedBy (sweepProbe de c targetIP d cfg) (g_PPSLossThresholdPct cfg) (g_PPSMaxRatePPS cfg) b"
proof -
  from assms(1) obtain h where "sweepLoop (sweepProbe de c targetIP d cfg) (g_PPSLossThresholdPct cfg) d True (maxSteps + 1) 0
      (g_PPSMaxRatePPS cfg) None s = (Inr (Some b, h), s')"
    unfolding runUDPSweep_def ebind_Inr by (auto split: prod.splits option.splits)
  from sweepLoop_backed[OF this _ assms(3) order_refl assms(2)] show ?thesis by simp
qed

lemma sweepSizes_all:
  assumes "sweepSizes sweep sizes ds s = (Inr rs, s')"
    and "\<And>d s b s'. d \<in> set ds \<Longrightarrow> sweep d s = (Inr b, s') \<Longrightarrow> P d b"
  shows "list_all2 (\<lambda>d r. \<exists>b. P d b \<and> r = b\<lparr>ps_Label := ppsSizeLabel d sizes\<rparr>) ds rs"
  using assms
proof (induction ds arbitrary: s rs)
  case (Cons d ds)
  from Cons.prems(1) obtain b s1 rest s2 where "sweep d s = (Inr b, s1)" "sweepSizes sweep sizes ds s1 = (Inr rest, s2)"
      "rs = b\<lparr>ps_Label := ppsSizeLabel d sizes\<rparr> # rest" "s2 = s'"
    by (auto simp: ebind_Inr)
  moreover have "P d b" using Cons.prems(2)[of d s b s1] calculation(1) by simp
  moreover have "list_all2 (\<lambda>d r. \<exists>b. P d b \<and> r = b\<lparr>ps_Label := ppsSizeLabel d sizes\<rparr>) ds rest"
    using Cons.IH Cons.prems(2) calculation(2,4) by simp
  ultimately show ?case by auto
qed simp

text \<open>
  A forwarding measurement reports only what was measured: for every configured datagram size, in
  order, the reported rate was offered in a probe whose receiver counters were consistent and whose
  loss was within the configured threshold, and it does not exceed the configured ceiling.
\<close>

theorem RunForwardingPPS_sound:
  assumes "RunForwardingPPS env de config client sink ip s = (Inr res, s')" "cfg = RunConfig_defaults config"
    and "0 \<le> g_PPSMaxRatePPS cfg" "g_PPSMaxRatePPS cfg < 2 ^ 62"
  shows "list_all2 (\<lambda>d r. ps_Label r = ppsSizeLabel d (g_PPSDatagramSizes cfg) \<and>
      backedBy (sweepProbe de client ip d cfg) (g_PPSLossThresholdPct cfg) (g_PPSMaxRatePPS cfg) r)
    (g_PPSDatagramSizes cfg) (pp_Sizes res) \<and> pp_LossThresholdPct res = g_PPSLossThresholdPct cfg"
proof -
  from assms(1,2) obtain s1 sizes s2 where sw: "sweepSizes (\<lambda>d. runUDPSweep de client ip d cfg) (g_PPSDatagramSizes cfg) (g_PPSDatagramSizes cfg) s1 = (Inr sizes, s2)"
      and res: "pp_Sizes res = sizes" "pp_LossThresholdPct res = g_PPSLossThresholdPct cfg"
    unfolding RunForwardingPPS_def Let_def
    by (auto simp: ebind_Inr)
  have "list_all2 (\<lambda>d r. \<exists>b. backedBy (sweepProbe de client ip d cfg) (g_PPSLossThresholdPct cfg) (g_PPSMaxRatePPS cfg) b \<and>
      r = b\<lparr>ps_Label := ppsSizeLabel d (g_PPSDatagramSizes cfg)\<rparr>) (g_PPSDatagramSizes cfg) sizes"
    by (rule sweepSizes_all[OF sw]) (rule runUDPSweep_backed[OF _ assms(4,3)])
  moreover have "backedBy p t m (b\<lparr>ps_Label := l\<rparr>) = backedBy p t m b" for p :: "int \<Rightarrow> ('a, UDPStats) eff" and t m b l
    by (simp add: backedBy_def)
  ultimately show ?thesis unfolding res by (auto elim!: list_all2_mono)
qed

theorem RunForwardingPPS_sound_witness:
  "\<exists>res. fst (RunForwardingPPS silentEnv echoDecoders echoConfig echoExecutor echoExecutor ''ip'' ()) = Inr res \<and>
    pp_LossThresholdPct res = 1 \<and> length (pp_Sizes res) = 1"
proof -
  have cfg: "echoConfig = RunConfig_defaults echoConfig" by (simp add: RunConfig_defaults_def echoConfig_def)
  obtain b where "runUDPSweep echoDecoders echoExecutor ''ip'' 64 echoConfig () = (Inr b, ())"
    using runUDPSweep_capacity[of echoDecoders echoExecutor "''ip''" 64 echoConfig 2 "()"] echo_capacity by (auto simp: echoConfig_def)
  then have sw: "sweepSizes (\<lambda>d. runUDPSweep echoDecoders echoExecutor ''ip'' d echoConfig) [64] [64] () =
      (Inr [b\<lparr>ps_Label := ppsSizeLabel 64 [64]\<rparr>], ())"
    by (simp add: ebind_def eret_def)
  obtain res where run: "RunForwardingPPS silentEnv echoDecoders echoConfig echoExecutor echoExecutor ''ip'' () = (Inr res, ())"
    using sw unfolding RunForwardingPPS_def cfg[symmetric]
    by (simp add: ebind_def ewrap_def edefer_def eret_def startIPerfServer_def runCmd_def runOut_def esleep_def echoExecutor_def
        silentEnv_def echoConfig_def[THEN arg_cong[of _ _ g_PPSDatagramSizes]] del: sweepSizes.simps)
  have "0 \<le> g_PPSMaxRatePPS echoConfig" "g_PPSMaxRatePPS echoConfig < 2 ^ 62" by (simp_all add: echoConfig_def)
  from RunForwardingPPS_sound[OF run cfg this] run show ?thesis
    by (auto simp: echoConfig_def dest: list_all2_lengthD)
qed


text \<open>A lossless direct path: every command answers with a pong line, and every measurement is clean.\<close>

definition pongExecutor :: "unit Executor" where
  "pongExecutor cmd s = ((''pong'', None), s)"

definition cleanDecoders :: Decoders where
  "cleanDecoders = echoDecoders\<lparr>de_tcp := (\<lambda>_. Inr \<lparr>rt_BitsPerSecond = 8000000, rt_Retransmits = 0, rt_Seconds = 1, rt_Bytes = 1000000, rt_Error = []\<rparr>),
     de_udp := (\<lambda>_. Inr (\<lparr>u_Packets = 4, u_LostPackets = 0, u_LossPct = 0, u_JitterMs = 0, u_BitsPerSec = 0, u_Seconds = 1, u_Bytes = 0\<rparr>, []))\<rparr>"


text \<open>
  Anything passes for a direct connection: the first ping whose output is not empty and does not
  contain ``derp'' makes the connection type ``direct'', also when the ping failed and reported no pong.
\<close>

theorem WaitForDirect_accepts_output:
  assumes "c (''tailscale ping -c 1 '' @ ip) s = ((out, err), s1)" "out \<noteq> []" "\<not> Contains (ToLower out) ''derp''"
  shows "WaitForDirect env c ip s = ((''direct'', None), s1)"
proof -
  have "attemptOut c (''tailscale ping -c 1 '' @ ip) (\<lambda>out. if directOutput out then Some () else None) s = (Some (), s1)"
    using assms by (simp add: attemptOut_def directOutput_def)
  from poll_once[where attempt = "attemptOut c (''tailscale ping -c 1 '' @ ip) (\<lambda>out. if directOutput out then Some () else None)", OF this, of 30 env "3 * second"] show ?thesis by (simp add: WaitForDirect_def)
qed

definition noReply :: "unit Executor" where
  "noReply cmd s = ((''no reply'', Some (ErrText ''exit status 1'')), s)"

theorem WaitForDirect_accepts_output_witness:
  "WaitForDirect silentEnv noReply ''100.1.2.3'' () = ((''direct'', None), ()) \<and> parsePingPath ''no reply'' = None"
proof -
  have c: "noReply cmd () = ((''no reply'', Some (ErrText ''exit status 1'')), ())" for cmd by (simp add: noReply_def)
  have "\<not> Contains (ToLower ''no reply'') ''derp''" "parsePingPath ''no reply'' = None" by code_simp+
  then show ?thesis using WaitForDirect_accepts_output[where c = noReply and out = "''no reply''", OF c] by simp
qed

end
