(* ===== verification/Orch_Types.thy ===== *)
theory Orch_Types
  imports Bench_Runner Families Runstate Config_Types Modes
begin

text \<open>
  The data of the orchestrator (internal/orchestrator and the interfaces of internal/provider), and the
  parts of it that decide without acting. The system the orchestrator acts on has four parts: the cloud
  (\<open>'c\<close>, what the provider and the tailnet service change), the machines (\<open>'m\<close>, what commands on a machine
  change, with the clock and the context), the working directory with results and caches (a disk world),
  and the run store (\<open>'r\<close>, what the state recorder changes). A provider or tailnet call may change all of
  it; a command changes the machines only, a file operation the disk only, and the recorder its store only.
\<close>

section \<open>Provider interface\<close>

record NetworkingOutput =
  no_Values :: "(string \<times> string) list"
  no_StackName :: string
  no_ProviderID :: string

record PairOptions =
  po_InstanceType :: string
  po_UserData :: string
  po_ClientUserData :: string
  po_Networking :: NetworkingOutput
  po_BenchImage :: string
  po_TSImage :: string
  po_WantRouter :: bool
  po_RouterUserData :: string
  po_RunID :: string
  po_ExpiresAt :: string

definition ClientUD :: "PairOptions \<Rightarrow> string" where
  "ClientUD opts = (if po_ClientUserData opts \<noteq> [] then po_ClientUserData opts else po_UserData opts)"

definition RouterUD :: "PairOptions \<Rightarrow> string" where
  "RouterUD opts = (if po_RouterUserData opts \<noteq> [] then po_RouterUserData opts else po_UserData opts)"

record PairOutput =
  pt_ServerName :: string
  pt_ClientName :: string
  pt_ServerIP :: string
  pt_ClientIP :: string
  pt_ServerLANIP :: string
  pt_ClientLANIP :: string
  pt_StackName :: string
  pt_ServerInstanceID :: string
  pt_ClientInstanceID :: string
  pt_ServerENIID :: string
  pt_ClientENIID :: string
  pt_RouterName :: string
  pt_RouterIP :: string
  pt_RouterLANIP :: string
  pt_RouterInstanceID :: string
  pt_Namespace :: string
  pt_Kubeconfig :: string

record InstanceInfo =
  ii_Type :: string
  ii_Family :: string
  ii_VCPUs :: int

record OperatorInstallConfig =
  oi_OAuthClientID :: string
  oi_OAuthClientSecret :: string
  oi_Hostname :: string
  oi_Tag :: string
  oi_TailnetDNS :: string
  oi_ForceReinstall :: bool

text \<open>
  A provider over a state \<open>'s\<close>. The optional interfaces are optional fields: \<open>None\<close> when the provider does
  not implement them.
\<close>

record 's Provider =
  pv_Name :: string
  pv_SetupNetworking :: "('s, NetworkingOutput) eff"
  pv_CreatePair :: "PairOptions \<Rightarrow> ('s, PairOutput) eff"
  pv_DestroyPair :: "string \<Rightarrow> 's errEff"
  pv_TeardownNetworking :: "'s errEff"
  pv_ListFamilies :: "string list"
  pv_ListInstances :: "string \<Rightarrow> ('s, InstanceInfo list) eff"
  pv_IsQuotaError :: "go_error \<Rightarrow> bool"
  pv_RunScopedResources :: "bool option"
  pv_ManagesNetworking :: "bool option"
  pv_InstallOperator :: "(OperatorInstallConfig \<Rightarrow> 's errEff) option"

definition providerRunScoped :: "'s Provider \<Rightarrow> bool" where
  "providerRunScoped p = (case pv_RunScopedResources p of None \<Rightarrow> False | Some scoped \<Rightarrow> scoped)"

definition providerManagesNetworking :: "'s Provider \<Rightarrow> bool" where
  "providerManagesNetworking p = (case pv_ManagesNetworking p of None \<Rightarrow> True | Some managed \<Rightarrow> managed)"

section \<open>The system\<close>

record ('c, 'm, 'd, 'r) system =
  y_cloud :: 'c
  y_machines :: 'm
  y_disk :: "'d world"
  y_store :: 'r

definition onMachines :: "('m \<Rightarrow> 'a \<times> 'm) \<Rightarrow> ('c, 'm, 'd, 'r) system \<Rightarrow> 'a \<times> ('c, 'm, 'd, 'r) system" where
  "onMachines f s = (case f (y_machines s) of (x, m) \<Rightarrow> (x, s\<lparr>y_machines := m\<rparr>))"

definition onFiles :: "('d world \<Rightarrow> 'a \<times> 'd world) \<Rightarrow> ('c, 'm, 'd, 'r) system \<Rightarrow> 'a \<times> ('c, 'm, 'd, 'r) system" where
  "onFiles f s = (case f (y_disk s) of (x, d) \<Rightarrow> (x, s\<lparr>y_disk := d\<rparr>))"

definition onStore :: "('r \<Rightarrow> 'a \<times> 'r) \<Rightarrow> ('c, 'm, 'd, 'r) system \<Rightarrow> 'a \<times> ('c, 'm, 'd, 'r) system" where
  "onStore f s = (case f (y_store s) of (x, r) \<Rightarrow> (x, s\<lparr>y_store := r\<rparr>))"

lemma onMachines_frame [simp]: "y_cloud (snd (onMachines f s)) = y_cloud s" "y_disk (snd (onMachines f s)) = y_disk s"
    "y_store (snd (onMachines f s)) = y_store s"
  by (simp_all add: onMachines_def split: prod.split)

lemma onFiles_frame [simp]: "y_cloud (snd (onFiles g s)) = y_cloud s" "y_machines (snd (onFiles g s)) = y_machines s"
    "y_store (snd (onFiles g s)) = y_store s" "y_disk (snd (onFiles g s)) = snd (g (y_disk s))" "fst (onFiles g s) = fst (g (y_disk s))"
  by (simp_all add: onFiles_def split: prod.split)

lemma onStore_frame [simp]: "y_cloud (snd (onStore h s)) = y_cloud s" "y_machines (snd (onStore h s)) = y_machines s"
    "y_disk (snd (onStore h s)) = y_disk s" "y_store (snd (onStore h s)) = snd (h (y_store s))" "fst (onStore h s) = fst (h (y_store s))"
  by (simp_all add: onStore_def split: prod.split)

section \<open>Outcome and inventory\<close>

record ResourceRecord =
  rd_ID :: string
  rd_Kind :: string
  rd_ProviderID :: string
  rd_StackName :: string
  rd_Hostname :: string
  rd_CleanupOwner :: string
  rd_Status :: string
  rd_OwnershipCertain :: bool
  rd_InstanceType :: string

record Outcome =
  oc_BenchmarkErr :: "go_error option"
  oc_CleanupErr :: "go_error option"
  oc_ResourcesChanged :: bool
  oc_Resources :: "ResourceRecord list"

record 'r StateRecorder =
  sr_BeforeExternalStep :: "string \<Rightarrow> string \<Rightarrow> string \<Rightarrow> 'r errEff"
  sr_AfterExternalStep :: "string \<Rightarrow> string \<Rightarrow> string \<Rightarrow> string \<Rightarrow> 'r errEff"
  sr_RecordResources :: "ResourceRecord list \<Rightarrow> 'r errEff"

definition runstateResourceCreating :: string where "runstateResourceCreating = ''creating''"
definition runstateResourceCreated :: string where "runstateResourceCreated = ''created''"
definition runstateResourceCleaning :: string where "runstateResourceCleaning = ''cleaning''"
definition runstateResourceCleaned :: string where "runstateResourceCleaned = ''cleaned''"

lemmas runstateResource_defs = runstateResourceCreating_def runstateResourceCreated_def runstateResourceCleaning_def runstateResourceCleaned_def

definition noOutcome :: Outcome where
  "noOutcome = \<lparr>oc_BenchmarkErr = None, oc_CleanupErr = None, oc_ResourcesChanged = False, oc_Resources = []\<rparr>"

definition Outcome_Err :: "Outcome \<Rightarrow> go_error option" where
  "Outcome_Err oc = errors_Join [oc_BenchmarkErr oc, oc_CleanupErr oc]"

definition Outcome_merge :: "Outcome \<Rightarrow> Outcome \<Rightarrow> Outcome" where
  "Outcome_merge a b = \<lparr>oc_BenchmarkErr = errors_Join [oc_BenchmarkErr a, oc_BenchmarkErr b],
     oc_CleanupErr = errors_Join [oc_CleanupErr a, oc_CleanupErr b],
     oc_ResourcesChanged = (oc_ResourcesChanged a \<or> oc_ResourcesChanged b),
     oc_Resources = oc_Resources a @ oc_Resources b\<rparr>"

fun upsertResource :: "ResourceRecord \<Rightarrow> ResourceRecord list \<Rightarrow> ResourceRecord list" where
  "upsertResource r [] = [r]"
| "upsertResource r (x # xs) = (if rd_ID x = rd_ID r then r # xs else x # upsertResource r xs)"

interpretation orch: keyed_upsert rd_ID "\<lambda>_ r. r" upsertResource
  by unfold_locales simp_all

text \<open>The two loops that set a status: on every record of an instance type, and on the first with an identifier.\<close>

definition setStatusOf :: "string \<Rightarrow> string \<Rightarrow> ResourceRecord list \<Rightarrow> ResourceRecord list" where
  "setStatusOf instanceType status rs = map (\<lambda>r. if rd_InstanceType r = instanceType then r\<lparr>rd_Status := status\<rparr> else r) rs"

definition resourcesForInstanceStatus :: "string \<Rightarrow> string \<Rightarrow> ResourceRecord list \<Rightarrow> ResourceRecord list \<times> ResourceRecord list" where
  "resourcesForInstanceStatus instanceType status rs = (let rs' = setStatusOf instanceType status rs in
     (filter (\<lambda>r. rd_InstanceType r = instanceType) rs', rs'))"

fun resourceWithStatus :: "string \<Rightarrow> string \<Rightarrow> ResourceRecord list \<Rightarrow> ResourceRecord option \<times> ResourceRecord list" where
  "resourceWithStatus i status [] = (None, [])"
| "resourceWithStatus i status (x # xs) = (if rd_ID x \<noteq> i
     then (case resourceWithStatus i status xs of (f, ys) \<Rightarrow> (f, x # ys))
     else (Some (x\<lparr>rd_Status := status\<rparr>), x\<lparr>rd_Status := status\<rparr> # xs))"

definition isK8sProvider :: "string \<Rightarrow> bool" where
  "isK8sProvider name \<longleftrightarrow> name = ''eks'' \<or> name = ''gke'' \<or> name = ''aks''"

definition topologyKind :: "string \<Rightarrow> string" where
  "topologyKind providerName = (if isK8sProvider providerName then ''kubernetes-topology'' else ''vm-pair'')"

definition topologyID :: "string \<Rightarrow> string \<Rightarrow> string" where
  "topologyID providerName instanceType = providerName @ ''/'' @ instanceType @ ''/topology''"

definition pairResourceRecords :: "string \<Rightarrow> string \<Rightarrow> string \<Rightarrow> PairOutput \<Rightarrow> bool \<Rightarrow> ResourceRecord list" where
  "pairResourceRecords providerName runID instanceType pair ownershipCertain =
    (let kind = (if pt_Namespace pair \<noteq> [] then ''kubernetes-workload'' else ''compute-instance'');
         member = (\<lambda>role providerID hostname. \<lparr>rd_ID = providerName @ ''/'' @ instanceType @ role, rd_Kind = kind, rd_ProviderID = providerID,
            rd_StackName = pt_StackName pair, rd_Hostname = hostname, rd_CleanupOwner = runID, rd_Status = runstateResourceCreated,
            rd_OwnershipCertain = ownershipCertain, rd_InstanceType = instanceType\<rparr>) in
     [\<lparr>rd_ID = topologyID providerName instanceType, rd_Kind = topologyKind providerName, rd_ProviderID = [],
       rd_StackName = pt_StackName pair, rd_Hostname = [], rd_CleanupOwner = runID, rd_Status = runstateResourceCreated,
       rd_OwnershipCertain = (ownershipCertain \<and> pt_StackName pair \<noteq> []), rd_InstanceType = instanceType\<rparr>,
      member ''/server'' (pt_ServerInstanceID pair) (pt_ServerName pair),
      member ''/client'' (pt_ClientInstanceID pair) (pt_ClientName pair)] @
     (if pt_RouterName pair \<noteq> [] \<or> pt_RouterInstanceID pair \<noteq> []
      then [member ''/router'' (pt_RouterInstanceID pair) (pt_RouterName pair)] else []))"

section \<open>Decisions\<close>

definition shouldCleanup :: "string \<Rightarrow> go_error option \<Rightarrow> bool" where
  "shouldCleanup policy benchmarkErr =
    (if policy = CleanupManual then False
     else if policy = CleanupOnSuccess then benchmarkErr = None
     else policy = [] \<or> policy = CleanupAlways)"

definition validateCredentials :: "Config \<Rightarrow> string \<Rightarrow> go_error option" where
  "validateCredentials cfg advice = (let missing = (if c_OAuthClientID cfg = [] then [''OAUTH_CLIENT_ID''] else []) @
       (if c_OAuthClientSecret cfg = [] then [''OAUTH_CLIENT_SECRET''] else []) in
     if missing = [] then None
     else Some (ErrText (''missing Tailscale credentials: '' @ JoinStr '' and '' missing @ advice)))"

definition validateModeNames :: "Config \<Rightarrow> go_error option" where
  "validateModeNames cfg = (case find (\<lambda>mode. \<not> IsValidMode mode) (c_Modes cfg) of
     None \<Rightarrow> None
   | Some mode \<Rightarrow> Some (ErrText (''unknown benchmark mode '' @ quoted mode @ '' in benchmark.modes; valid modes are: '' @ JoinStr '', '' ValidModes)))"

text \<open>The two builds of the binary: \<open>k8s\<close> is the build tag (k8s_enabled.go, k8s_disabled.go).\<close>

definition validateWorkloadConfig :: "bool \<Rightarrow> Config \<Rightarrow> go_error option" where
  "validateWorkloadConfig k8s cfg =
    (case find (\<lambda>mode. \<not> ModeAppliesTo mode (if k8s then ''container'' else ''vm'')) (c_Modes cfg) of
       None \<Rightarrow> None
     | Some mode \<Rightarrow> Some (ErrText (if k8s then ''vm-only benchmark mode '' @ quoted mode @ '' requires a VM binary''
         else ''kubernetes-only benchmark mode '' @ quoted mode @ '' requires a k8s-enabled binary'')))"

definition hasL7Modes :: "string list \<Rightarrow> bool" where
  "hasL7Modes modes = list_ex (\<lambda>m. ModeUsesFortio m \<and> ModeAppliesTo m ''container'') modes"

definition hasForwardPPSModes :: "string list \<Rightarrow> bool" where
  "hasForwardPPSModes modes = list_ex (\<lambda>m. ModeUsesForwardPPS m \<and> ModeAppliesTo m ''container'') modes"

definition operatorHostname :: "string \<Rightarrow> string \<Rightarrow> string" where
  "operatorHostname providerName runID = (let hostname = ''tailbench-'' @ providerName @ ''-operator''; i = LastIndex (CHR ''_'') runID in
     if 0 \<le> i \<and> i + 1 < int (length runID) then hostname @ ''-'' @ drop (nat i + 1) runID else hostname)"

definition hasL7ServeMode :: "string list \<Rightarrow> bool" where
  "hasL7ServeMode modes = list_ex (\<lambda>m. HasPrefix m ''l7-serve'') modes"

definition hasForwardMode :: "string list \<Rightarrow> bool" where
  "hasForwardMode modes = list_ex ModeUsesForwardPPS modes"

definition hasRelayMode :: "string list \<Rightarrow> bool" where
  "hasRelayMode modes = list_ex ModeUsesRelay modes"

definition hasK8sProviders :: "'s Provider list \<Rightarrow> bool" where
  "hasK8sProviders ps = list_ex (\<lambda>p. isK8sProvider (pv_Name p)) ps"

definition needsTailnetHTTPS :: "'s Provider list \<Rightarrow> Config \<Rightarrow> bool" where
  "needsTailnetHTTPS ps cfg \<longleftrightarrow> hasK8sProviders ps \<or> hasL7ServeMode (c_Modes cfg)"

definition safeHostname :: "string \<Rightarrow> string" where
  "safeHostname instanceType = map (\<lambda>c. if c = CHR ''.'' \<or> c = CHR ''_'' then CHR ''-'' else c) (ToLower instanceType)"

definition forwardPPSTestConfig :: "PPSResult option \<Rightarrow> TestConfig option" where
  "forwardPPSTestConfig pps = map_option (\<lambda>r. \<lparr>tc_IPerfDurationSec = 0, tc_IPerfParallelStreams = 0, tc_IPerfIterations = 0,
     tc_MTRCycles = 0, tc_PPSDatagramSizes = map ps_DatagramBytes (pp_Sizes r), tc_PPSLossThresholdPct = pp_LossThresholdPct r\<rparr>) pps"

definition tsnetStateDirectory :: "Config \<Rightarrow> path" where
  "tsnetStateDirectory cfg = (if c_RunID cfg \<noteq> [] then filepath_Join [''.tailbench'', ''runs'', c_RunID cfg, ''tsnet'']
     else filepath_Join [''.tailbench'', ''tsnet''])"

definition instanceCachePath :: "string \<Rightarrow> string \<Rightarrow> path" where
  "instanceCachePath providerName family =
     filepath_Join [''.tailbench'', ''instances'', providerName @ ''-'' @ (if family = [] then ''all'' else family) @ ''.json'']"

section \<open>Pending modes\<close>

definition exists :: "path \<Rightarrow> 'd world \<Rightarrow> bool \<times> 'd world" where
  "exists p w = (case os_Stat p w of (Inr _, w1) \<Rightarrow> (True, w1) | (Inl _, w1) \<Rightarrow> (False, w1))"

definition resultFile :: "string \<Rightarrow> string \<Rightarrow> string \<Rightarrow> string \<Rightarrow> path" where
  "resultFile rootDir providerName family name = filepath_Join [path_string (filepath_Join [rootDir, providerName, family, ''results'']), name]"

fun pendingModesForInstance :: "string \<Rightarrow> string \<Rightarrow> string \<Rightarrow> string \<Rightarrow> string list \<Rightarrow> string \<Rightarrow> 'd world \<Rightarrow> string list \<times> 'd world" where
  "pendingModesForInstance rootDir providerName family instanceType [] env w = ([], w)"
| "pendingModesForInstance rootDir providerName family instanceType (mode # modes) env w =
    (if \<not> ModeAppliesTo mode env then pendingModesForInstance rootDir providerName family instanceType modes env w
     else case exists (resultFile rootDir providerName family (instanceType @ ''-'' @ mode @ ''.json'')) w of
       (True, w1) \<Rightarrow> pendingModesForInstance rootDir providerName family instanceType modes env w1
     | (False, w1) \<Rightarrow>
        (case (if mode = ''l4-kernel'' then exists (resultFile rootDir providerName family (instanceType @ ''.json'')) w1 else (False, w1)) of
           (True, w2) \<Rightarrow> pendingModesForInstance rootDir providerName family instanceType modes env w2
         | (False, w2) \<Rightarrow> (case pendingModesForInstance rootDir providerName family instanceType modes env w2 of
             (pending, w3) \<Rightarrow> (mode # pending, w3))))"

end
