(* ===== verification/Orch_Bench.thy ===== *)
theory Orch_Bench
  imports Orch_Types
begin

text \<open>
  The measuring half of the orchestrator (orchestrator.go from \<^verbatim>\<open>runBenchmark\<close> on, k8s_enabled.go and
  k8s_disabled.go): connecting to the machines, choosing the measurement of a mode, filling in and writing
  the result, and the loop over the modes. SSH connections and the Kubernetes client are arguments over the
  machines. The goroutine that samples the CPU of the proxy pod is one question asked after the sweep.
\<close>

section \<open>Connections\<close>

record 'm SSH =
  ssh_Run :: "'m Executor"
  ssh_WaitForReady :: "duration \<Rightarrow> 'm errEff"
  ssh_Close :: "'m \<Rightarrow> 'm"

record 'm K8s =
  k8_Clientset :: "string \<Rightarrow> go_error option"
  k8_DiscoverIngressFQDN :: "string \<Rightarrow> string \<Rightarrow> 'm \<Rightarrow> (string \<times> go_error option) \<times> 'm"
  k8_DiscoverServiceLBFQDN :: "string \<Rightarrow> string \<Rightarrow> 'm \<Rightarrow> (string \<times> go_error option) \<times> 'm"
  k8_DiscoverPodIP :: "string \<Rightarrow> string \<Rightarrow> ('m, string) eff"
  k8_DiscoverPodName :: "string \<Rightarrow> string \<Rightarrow> ('m, string) eff"
  k8_NewExecutor :: "string \<Rightarrow> string \<Rightarrow> string \<Rightarrow> string \<Rightarrow> go_error + 'm Executor"
  k8_DeployProxyGroup :: "string \<Rightarrow> string \<Rightarrow> bool \<Rightarrow> 'm errEff"
  k8_RolloutState :: "string \<Rightarrow> ('m, string \<times> bool) eff"
  k8_WaitForProxyGroupReady :: "string \<Rightarrow> string \<times> bool \<Rightarrow> bool \<Rightarrow> duration \<Rightarrow> 'm errEff"
  k8_EnsureEgressService :: "string \<Rightarrow> string \<Rightarrow> string \<Rightarrow> string \<Rightarrow> int \<Rightarrow> ('m, string) eff"
  k8_CPUBound :: "string \<Rightarrow> 'm \<Rightarrow> bool \<times> 'm"
  k8_DeployL7Bench :: "string \<Rightarrow> string \<Rightarrow> 'm errEff"

record 'm Machines =
  mx_Env :: "'m Env"
  mx_Decoders :: Decoders
  mx_Atoi :: "string \<Rightarrow> int option"
  mx_Dial :: "string \<Rightarrow> int \<Rightarrow> ('m, 'm SSH) eff"
  mx_K8sBuild :: bool
  mx_K8s :: "'m K8s"

record modeContext =
  mc_serverHostname :: string
  mc_kubeconfig :: string

definition benchmarkRunConfig :: "Config \<Rightarrow> string \<Rightarrow> string \<Rightarrow> string \<Rightarrow> RunConfig" where
  "benchmarkRunConfig cfg authKey serverHostname clientHostname =
    \<lparr>g_IPerfDuration = c_IPerfDuration cfg, g_IPerfParallel = c_IPerfParallel cfg, g_IPerfIterations = c_IPerfIterations cfg,
     g_MTRCycles = c_MTRCycles cfg, g_CooldownSec = c_CooldownSec cfg, g_CreditRetrySec = c_CreditRetrySec cfg,
     g_AuthKey = authKey, g_ServerHostname = serverHostname, g_ClientHostname = clientHostname, g_SkipTailscaleSetup = True,
     g_PPSDatagramSizes = c_PPSDatagramSizes cfg, g_PPSLossThresholdPct = c_PPSLossThresholdPct cfg,
     g_PPSDurationSec = c_PPSDurationSec cfg, g_PPSWarmupSec = 0, g_PPSMaxRatePPS = c_PPSMaxRatePPS cfg\<rparr>"

section \<open>Endpoints\<close>

definition discoverIngressFQDN :: "'m Machines \<Rightarrow> string \<Rightarrow> string \<Rightarrow> 'm \<Rightarrow> string \<times> 'm" where
  "discoverIngressFQDN mx kubeconfig label m = (if \<not> mx_K8sBuild mx then ([], m) else
     case k8_Clientset (mx_K8s mx) kubeconfig of Some _ \<Rightarrow> ([], m)
     | None \<Rightarrow> (case k8_DiscoverIngressFQDN (mx_K8s mx) kubeconfig label m of ((fqdn, _), m1) \<Rightarrow> (fqdn, m1)))"

definition discoverServiceLBFQDN :: "'m Machines \<Rightarrow> string \<Rightarrow> string \<Rightarrow> 'm \<Rightarrow> string \<times> 'm" where
  "discoverServiceLBFQDN mx kubeconfig label m = (if \<not> mx_K8sBuild mx then ([], m) else
     case k8_Clientset (mx_K8s mx) kubeconfig of Some _ \<Rightarrow> ([], m)
     | None \<Rightarrow> (case k8_DiscoverServiceLBFQDN (mx_K8s mx) kubeconfig label m of ((fqdn, _), m1) \<Rightarrow> (fqdn, m1)))"

definition discoverEchoPodIP :: "'m Machines \<Rightarrow> string \<Rightarrow> string \<Rightarrow> 'm \<Rightarrow> string \<times> 'm" where
  "discoverEchoPodIP mx kubeconfig label m = (if \<not> mx_K8sBuild mx \<or> kubeconfig = [] then ([], m) else
     case k8_Clientset (mx_K8s mx) kubeconfig of Some _ \<Rightarrow> ([], m)
     | None \<Rightarrow> (case k8_DiscoverPodIP (mx_K8s mx) kubeconfig label m of
         (Inl _, m1) \<Rightarrow> ([], m1) | (Inr ip, m1) \<Rightarrow> (''http://'' @ ip @ '':8080'', m1)))"

definition resolveEndpoints :: "'m Machines \<Rightarrow> Config \<Rightarrow> string \<Rightarrow> string \<Rightarrow> PairOutput \<Rightarrow> modeContext \<Rightarrow> 'm \<Rightarrow> (string \<times> string) \<times> 'm" where
  "resolveEndpoints mx cfg tailnetDNS mode pair mc m =
    (if HasPrefix mode ''l7-ingress'' then
       (case (if c_IngressFQDN cfg = [] \<and> mc_kubeconfig mc \<noteq> [] then discoverIngressFQDN mx (mc_kubeconfig mc) (c_ClusterLabel cfg) m
              else (c_IngressFQDN cfg, m)) of (fqdn, m1) \<Rightarrow>
        (case discoverEchoPodIP mx (mc_kubeconfig mc) (c_ClusterLabel cfg) m1 of (baseline, m2) \<Rightarrow>
          ((if fqdn \<noteq> [] then ''https://'' @ fqdn else [], baseline), m2)))
     else if HasPrefix mode ''l7-serve'' then
       (let fqdn = (if c_ServeFQDN cfg = [] \<and> mc_serverHostname mc \<noteq> [] \<and> tailnetDNS \<noteq> []
              then mc_serverHostname mc @ ''.'' @ tailnetDNS else c_ServeFQDN cfg) in
        ((if fqdn \<noteq> [] then (if HasSuffix mode ''-h2'' then ''https://'' @ fqdn else ''http://'' @ fqdn) else [],
          ''http://'' @ pt_ServerLANIP pair @ '':8080''), m))
     else if mode = ''l4-lb'' then
       (case (if mc_kubeconfig mc \<noteq> [] then discoverServiceLBFQDN mx (mc_kubeconfig mc) (c_ClusterLabel cfg) m else ([], m)) of (found, m1) \<Rightarrow>
        (case discoverEchoPodIP mx (mc_kubeconfig mc) (c_ClusterLabel cfg) m1 of (baseline, m2) \<Rightarrow>
          ((if found \<noteq> [] then ''http://'' @ found @ '':8080'' else [], baseline), m2)))
     else (([], []), m))"

fun warmUpLoop :: "'m Env \<Rightarrow> 'm Executor \<Rightarrow> string \<Rightarrow> nat \<Rightarrow> nat \<Rightarrow> ('m, bool) eff" where
  "warmUpLoop env c cmd attempt 0 = eret False"
| "warmUpLoop env c cmd attempt (Suc n) = ebind (ecatch (runCmd c cmd)) (\<lambda>r. case r of
     Inr _ \<Rightarrow> eret True
   | Inl _ \<Rightarrow> ebind (echeck (ev_wait env (2 ^ min attempt 4 * second))) (\<lambda>_. warmUpLoop env c cmd (Suc attempt) n))"

definition warmUpEndpoint :: "'m Env \<Rightarrow> 'm Executor \<Rightarrow> string \<Rightarrow> ('m, unit) eff" where
  "warmUpEndpoint env c target =
    ebind (warmUpLoop env c (''curl '' @ (if HasPrefix target ''https://'' then ''-k '' else []) @ ''-sf --max-time 15 -o /dev/null '' @ target) 0 20) (\<lambda>ok.
     if ok then eret () else efail (ErrText (''endpoint not reachable after 20 attempts: '' @ target)))"

section \<open>Network filters of the relay measurement\<close>

definition blockDirectPair :: "'m Executor \<Rightarrow> 'm Executor \<Rightarrow> 'm errEff" where
  "blockDirectPair client server m = (case BlockDirect client m of (e1, m1) \<Rightarrow> case BlockDirect server m1 of (e2, m2) \<Rightarrow>
     (errors_Join [wrapIfError ''block client direct path'' e1, wrapIfError ''block server direct path'' e2], m2))"

definition unblockDirectPair :: "'m Executor \<Rightarrow> 'm Executor \<Rightarrow> 'm errEff" where
  "unblockDirectPair client server m = (case UnblockDirect client m of (e1, m1) \<Rightarrow> case UnblockDirect server m1 of (e2, m2) \<Rightarrow>
     (errors_Join [wrapIfError ''unblock client direct path'' e1, wrapIfError ''unblock server direct path'' e2], m2))"

definition restoreRelayNetwork :: "'m Executor \<Rightarrow> 'm Executor \<Rightarrow> 'm Executor \<Rightarrow> 'm errEff" where
  "restoreRelayNetwork client server router m = (case UnblockRelayPort router RelayUDPPort m of (e1, m1) \<Rightarrow>
     case unblockDirectPair client server m1 of (e2, m2) \<Rightarrow> (errors_Join [wrapIfError ''unblock relay port'' e1, e2], m2))"

section \<open>The measurement of a mode\<close>

text \<open>Leaving a mode with joined errors; at least one of them is not nil where the code does so.\<close>

definition failJoin :: "go_error option list \<Rightarrow> ('m, 'a) eff" where
  "failJoin es = efail (case errors_Join es of None \<Rightarrow> Joined [] | Some e \<Rightarrow> e)"

definition errOf :: "go_error + 'a \<Rightarrow> go_error option" where
  "errOf r = (case r of Inl e \<Rightarrow> Some e | Inr _ \<Rightarrow> None)"

definition runForwardPPS :: "'m Machines \<Rightarrow> Config \<Rightarrow> string \<Rightarrow> 'm Runner \<Rightarrow> PairOutput \<Rightarrow> string \<Rightarrow> modeContext \<Rightarrow> ('m, BenchmarkResult) eff" where
  "runForwardPPS mx cfg tailnetDNS runner pair mode mc =
    (if \<not> mx_K8sBuild mx then efail (ErrText ''kubernetes forwarding-pps execution requires a k8s-enabled binary'') else
     (let k = mx_K8s mx; optimizations = HasSuffix mode ''-opton'' in
      case k8_Clientset k (mc_kubeconfig mc) of Some e \<Rightarrow> efail (Wrapf ''parse kubeconfig: '' e [])
      | None \<Rightarrow>
       ebind (ecatch (k8_RolloutState k (mc_kubeconfig mc))) (\<lambda>snapshot.
       ebind (ewrap (\<lambda>e. Wrapf ''deploy ProxyGroup: '' e []) (echeck (k8_DeployProxyGroup k (mc_kubeconfig mc) (c_RootDir cfg) optimizations))) (\<lambda>_.
       ebind (ewrap (\<lambda>e. Wrapf ''wait for ProxyGroup readiness: '' e [])
         (echeck (k8_WaitForProxyGroupReady k (mc_kubeconfig mc) (case snapshot of Inl _ \<Rightarrow> ([], False) | Inr before \<Rightarrow> before) optimizations (5 * minute)))) (\<lambda>_.
       if mc_serverHostname mc = [] \<or> tailnetDNS = [] then efail (ErrText ''sink hostname and tailnet DNS are required'') else
       ebind (ewrap (\<lambda>e. Wrapf ''create egress service: '' e []) (k8_EnsureEgressService k (mc_kubeconfig mc) (pt_Namespace pair) ''tailbench-egress-sink''
         (mc_serverHostname mc @ ''.'' @ tailnetDNS) IPerfPort)) (\<lambda>target.
       ebind (ewrap (\<lambda>e. Wrapf ''run forwarding-pps sweep: '' e [])
         (RunForwardingPPS (mx_Env mx) (mx_Decoders mx) (rn_Config runner) (rn_Client runner) (rn_Server runner) target)) (\<lambda>pps.
       ebind (elift (k8_CPUBound k (mc_kubeconfig mc))) (\<lambda>cpuBound.
       eret (zeroResult\<lparr>br_ForwardPPS := Some (if cpuBound then pps\<lparr>pp_LimitingResource := ''proxy-cpu''\<rparr> else pps), br_ForwardRole := ''proxygroup'',
         br_ForwardOptimizations := (if optimizations then ''on'' else ''off'')\<rparr>)))))))))"

definition fortioMode :: "'m Machines \<Rightarrow> Config \<Rightarrow> string \<Rightarrow> 'm Runner \<Rightarrow> PairOutput \<Rightarrow> string \<Rightarrow> modeContext \<Rightarrow> ('m, BenchmarkResult) eff" where
  "fortioMode mx cfg tailnetDNS runner pair mode mc =
    ebind (elift (resolveEndpoints mx cfg tailnetDNS mode pair mc)) (\<lambda>(target, baselineTarget).
    if target = [] then efail (ErrText ''no endpoint configured or discovered'') else
    ebind (ewrap (\<lambda>e. Wrapf ''endpoint warm-up: '' e []) (warmUpEndpoint (mx_Env mx) (rn_Client runner) target)) (\<lambda>_.
    ebind (ewrap (\<lambda>e. Wrapf ''fortio benchmark: '' e []) (RunFortio (mx_Decoders mx) runner target baselineTarget (ModeIsH2 mode)
      (c_FortioConnections cfg) (c_FortioDuration cfg) (c_FortioIterations cfg) (c_FortioQPS cfg))) (\<lambda>(baseline, ts).
    eret (zeroResult\<lparr>br_FortioResult := Some ts, br_L7Overhead := Some (ComputeL7Overhead baseline ts)\<rparr>))))"

definition forwardMode :: "'m Machines \<Rightarrow> 'm Runner \<Rightarrow> PairOutput \<Rightarrow> ('m, BenchmarkResult) eff" where
  "forwardMode mx runner pair = (case rn_Router runner of
     None \<Rightarrow> efail (ErrText ''no router provisioned'')
   | Some router \<Rightarrow>
      ebind (ewrap (\<lambda>e. Wrapf ''router tailscale IP: '' e []) (GetTailscaleIP (mx_Env mx) router)) (\<lambda>routerTSIP.
      ebind (ewrap (\<lambda>e. Wrapf ''set exit node: '' e []) (SetExitNode (mx_Env mx) (rn_Client runner) routerTSIP)) (\<lambda>_.
      ebind (ecatch (RunForwardingPPS (mx_Env mx) (mx_Decoders mx) (rn_Config runner) (rn_Client runner) (rn_Server runner) (pt_ServerIP pair))) (\<lambda>r.
      ebind (elift (ClearExitNode (rn_Client runner))) (\<lambda>clearErr.
      case (r, clearErr) of
        (Inr pps, None) \<Rightarrow> eret (zeroResult\<lparr>br_ForwardPPS := Some pps, br_ForwardRole := ''exit-node'', br_TestConfig := forwardPPSTestConfig (Some pps)\<rparr>)
      | _ \<Rightarrow> ewrap (\<lambda>e. Wrapf ''forwarding-pps benchmark: '' e []) (failJoin [errOf r, wrapIfError ''clear exit node'' clearErr]))))))"

definition relayMode :: "'m Machines \<Rightarrow> 'm Runner \<Rightarrow> ('m, BenchmarkResult) eff" where
  "relayMode mx runner = (case rn_Router runner of
     None \<Rightarrow> efail (ErrText ''no relay node provisioned'')
   | Some router \<Rightarrow>
      (let client = rn_Client runner; server = rn_Server runner; unblock = unblockDirectPair client server;
           path = (\<lambda>ip want. RunRelayPath (mx_Env mx) (mx_Decoders mx) (rn_Config runner) client server ip want) in
      ebind (ewrap (\<lambda>e. Wrapf ''server tailscale IP: '' e []) (GetTailscaleIP (mx_Env mx) server)) (\<lambda>ip.
      ebind (ewrap (\<lambda>e. Wrapf ''wait for peer: '' e []) (WaitForPeer (mx_Env mx) client ip)) (\<lambda>_.
      ebind (ewrap (\<lambda>e. Wrapf ''direct relay measurement: '' e []) (path ip ''direct'')) (\<lambda>direct.
      ebind (elift (blockDirectPair client server)) (\<lambda>blockErr. case blockErr of
        Some e \<Rightarrow> ebind (elift unblock) (\<lambda>restoreErr. failJoin [Some e, restoreErr])
      | None \<Rightarrow>
      ebind (ecatch (path ip ''peer-relay'')) (\<lambda>peer. case peer of
        Inl e \<Rightarrow> ebind (elift unblock) (\<lambda>restoreErr. failJoin [Some (Wrapf ''peer-relay measurement: '' e []), restoreErr])
      | Inr peerRelay \<Rightarrow>
      ebind (elift (BlockRelayPort router RelayUDPPort)) (\<lambda>portErr. case portErr of
        Some e \<Rightarrow> ebind (elift unblock) (\<lambda>restoreErr. failJoin [Some (Wrapf ''block relay port: '' e []), restoreErr])
      | None \<Rightarrow>
      ebind (ecatch (path ip ''derp'')) (\<lambda>d.
      ebind (elift (restoreRelayNetwork client server router)) (\<lambda>restoreErr. case (d, restoreErr) of
        (Inr derp, None) \<Rightarrow> eret (zeroResult\<lparr>br_Relay := Some \<lparr>rr_RelayServerPort = RelayUDPPort, rr_Direct = Some direct, rr_PeerRelay = Some peerRelay, rr_DERP = Some derp\<rparr>,
          br_ForwardRole := ''peer-relay'', br_TestConfig := forwardPPSTestConfig (rp_PPS direct)\<rparr>)
      | _ \<Rightarrow> failJoin [wrapIfError ''DERP measurement'' (errOf d), restoreErr]))))))))))"

definition measureMode :: "'m Machines \<Rightarrow> Config \<Rightarrow> string \<Rightarrow> 'm Runner \<Rightarrow> PairOutput \<Rightarrow> string \<Rightarrow> modeContext \<Rightarrow> string \<Rightarrow> ('m, BenchmarkResult) eff" where
  "measureMode mx cfg tailnetDNS runner pair env mc mode =
    (if ModeUsesIperf mode then ewrap (\<lambda>e. Wrapf ''iperf benchmark: '' e [])
        (RunFull (mx_Env mx) (mx_Decoders mx) (mx_Atoi mx) runner (pt_ServerLANIP pair) (pt_ClientLANIP pair))
     else if ModeUsesFortio mode then fortioMode mx cfg tailnetDNS runner pair mode mc
     else if ModeUsesForwardPPS mode then
       (if env = ''container'' then ewrap (\<lambda>e. Wrapf ''forwarding-pps benchmark: '' e []) (runForwardPPS mx cfg tailnetDNS runner pair mode mc)
        else forwardMode mx runner pair)
     else if ModeUsesRelay mode then relayMode mx runner
     else if ModeUsesTsnet mode then efail (ErrText ''tsnet runner not yet implemented'')
     else efail (ErrText ''unknown benchmark mode''))"

section \<open>The result of a mode\<close>

definition regionZone :: "string \<Rightarrow> Config \<Rightarrow> BenchmarkResult \<Rightarrow> BenchmarkResult" where
  "regionZone providerName cfg br =
    (if providerName = ''gcp'' \<or> providerName = ''gke'' then (let i = LastIndex (CHR ''-'') (c_GCPZone cfg) in
       br\<lparr>br_Region := (if 0 < i then take (nat i) (c_GCPZone cfg) else c_GCPZone cfg), br_Zone := c_GCPZone cfg\<rparr>)
     else if providerName = ''aws'' \<or> providerName = ''eks'' then br\<lparr>br_Region := c_AWSRegion cfg, br_Zone := c_AWSAZ cfg\<rparr>
     else if providerName = ''azure'' \<or> providerName = ''aks'' then br\<lparr>br_Region := c_AzureLocation cfg, br_Zone := c_AzureLocation cfg\<rparr>
     else br)"

definition fillResult :: "'m Machines \<Rightarrow> Config \<Rightarrow> 'm Runner \<Rightarrow> string \<Rightarrow> InstanceInfo \<Rightarrow> string \<Rightarrow> string \<Rightarrow> string \<Rightarrow> BenchmarkResult \<Rightarrow> 'm \<Rightarrow> BenchmarkResult \<times> 'm" where
  "fillResult mx cfg runner providerName inst family env mode br m =
    (case ev_now (mx_Env mx) m of (t, m1) \<Rightarrow>
     (case (if br_TSVersion br = [] then rn_ServerTailscale runner ''tailscale version | head -1'' m1 else (([], Some (Sentinel EOF)), m1)) of
       ((out, err), m2) \<Rightarrow>
        (regionZone providerName cfg (br\<lparr>br_TransportMode := mode, br_HTTPVersion := ModeHTTPVersion mode, br_CloudProvider := providerName,
          br_InstanceFamily := family, br_InstanceType := ii_Type inst, br_VCPUs := ii_VCPUs inst, br_Date := formatDate t, br_Environment := env,
          br_TSVersion := (if br_TSVersion br = [] \<and> err = None then TrimSpace out else br_TSVersion br)\<rparr>), m2)))"

section \<open>Recording steps\<close>

definition beforeExternalStep :: "'r StateRecorder option \<Rightarrow> string \<Rightarrow> string \<Rightarrow> string \<Rightarrow> ('c, 'm, 'd, 'r) system errEff" where
  "beforeExternalStep recorder stage workID message s = (case recorder of None \<Rightarrow> (None, s)
   | Some r \<Rightarrow> (case onStore (sr_BeforeExternalStep r stage workID message) s of
       (e, s1) \<Rightarrow> (map_option (\<lambda>e. Wrapf (''persist '' @ stage @ '' start: '') e []) e, s1)))"

definition afterExternalStep :: "'r StateRecorder option \<Rightarrow> string \<Rightarrow> string \<Rightarrow> string \<Rightarrow> string \<Rightarrow> ('c, 'm, 'd, 'r) system errEff" where
  "afterExternalStep recorder stage workID status message s = (case recorder of None \<Rightarrow> (None, s)
   | Some r \<Rightarrow> (case onStore (sr_AfterExternalStep r stage workID status message) s of
       (e, s1) \<Rightarrow> (map_option (\<lambda>e. Wrapf (''persist '' @ stage @ '' finish: '') e []) e, s1)))"

text \<open>\<open>failMode\<close> and \<open>succeedMode\<close> give the errors they append.\<close>

definition failMode :: "'r StateRecorder option \<Rightarrow> string \<Rightarrow> string \<Rightarrow> go_error \<Rightarrow> ('c, 'm, 'd, 'r) system \<Rightarrow> go_error list \<times> ('c, 'm, 'd, 'r) system" where
  "failMode recorder mode workID cause s = (let modeErr = Wrapf (''mode '' @ mode @ '': '') cause [] in
     case afterExternalStep recorder ''benchmark'' workID ''failed'' (error_text modeErr) s of
       (None, s1) \<Rightarrow> ([modeErr], s1)
     | (Some e, s1) \<Rightarrow> ([modeErr, Wrapf (''mode '' @ mode @ '' state: '') e []], s1))"

definition succeedMode :: "'r StateRecorder option \<Rightarrow> string \<Rightarrow> string \<Rightarrow> ('c, 'm, 'd, 'r) system \<Rightarrow> go_error list \<times> ('c, 'm, 'd, 'r) system" where
  "succeedMode recorder mode workID s =
    (case afterExternalStep recorder ''benchmark'' workID ''succeeded'' (''result written for mode '' @ mode) s of
       (None, s1) \<Rightarrow> ([], s1)
     | (Some e, s1) \<Rightarrow> ([Wrapf (''mode '' @ mode @ '' state: '') e []], s1))"

section \<open>The loop over the modes\<close>

definition modeStep :: "'m Machines \<Rightarrow> (BenchmarkResult \<Rightarrow> 'd) \<Rightarrow> 'r StateRecorder option \<Rightarrow> Config \<Rightarrow> string \<Rightarrow> 'm Runner \<Rightarrow> string \<Rightarrow> PairOutput \<Rightarrow>
    InstanceInfo \<Rightarrow> string \<Rightarrow> string \<Rightarrow> modeContext \<Rightarrow> string \<Rightarrow> ('c, 'm, 'd, 'r) system \<Rightarrow> go_error list \<times> ('c, 'm, 'd, 'r) system" where
  "modeStep mx encode recorder cfg tailnetDNS runner providerName pair inst family env mc mode s =
    (if \<not> ModeAppliesTo mode env then ([], s) else
     let workID = ii_Type inst @ ''/'' @ mode in
     case onFiles (exists (filepath_Join [c_RootDir cfg, providerName, family, ''results'', ii_Type inst @ ''-'' @ mode @ ''.json''])) s of
       (True, s1) \<Rightarrow> ([], s1)
     | (False, s1) \<Rightarrow>
      (case beforeExternalStep recorder ''benchmark'' workID (''run mode '' @ mode) s1 of
         (Some e, s2) \<Rightarrow> ([Wrapf (''mode '' @ mode @ '' state: '') e []], s2)
       | (None, s2) \<Rightarrow>
        (case onMachines (measureMode mx cfg tailnetDNS runner pair env mc mode) s2 of
           (Inl cause, s3) \<Rightarrow> failMode recorder mode workID cause s3
         | (Inr br0, s3) \<Rightarrow>
          (case onMachines (fillResult mx cfg runner providerName inst family env mode br0) s3 of
             (br, s4) \<Rightarrow>
              (case onFiles (WriteResult encode (c_RootDir cfg) br False) s4 of
                 (Inl e, s5) \<Rightarrow> failMode recorder mode workID (Wrapf ''write result: '' e []) s5
               | (Inr _, s5) \<Rightarrow> succeedMode recorder mode workID s5)))))"

fun modeLoop :: "(string \<Rightarrow> 's \<Rightarrow> go_error list \<times> 's) \<Rightarrow> string list \<Rightarrow> 's \<Rightarrow> go_error list \<times> 's" where
  "modeLoop step [] s = ([], s)"
| "modeLoop step (mode # modes) s = (case step mode s of (es, s1) \<Rightarrow> case modeLoop step modes s1 of (rest, s2) \<Rightarrow> (es @ rest, s2))"

definition runModeLoop :: "'m Machines \<Rightarrow> (BenchmarkResult \<Rightarrow> 'd) \<Rightarrow> 'r StateRecorder option \<Rightarrow> Config \<Rightarrow> string \<Rightarrow> 'm Runner \<Rightarrow> string \<Rightarrow> PairOutput \<Rightarrow>
    InstanceInfo \<Rightarrow> string \<Rightarrow> string \<Rightarrow> modeContext \<Rightarrow> ('c, 'm, 'd, 'r) system errEff" where
  "runModeLoop mx encode recorder cfg tailnetDNS runner providerName pair inst family env mc s =
    (case modeLoop (modeStep mx encode recorder cfg tailnetDNS runner providerName pair inst family env mc) (c_Modes cfg) s of
       (es, s1) \<Rightarrow> (errors_Join (map Some es), s1))"

section \<open>Connecting\<close>

definition BenchContainer :: string where "BenchContainer = ''bench''"
definition TSContainer :: string where "TSContainer = ''tailscale''"

definition k8sRunner :: "'m Machines \<Rightarrow> Config \<Rightarrow> PairOutput \<Rightarrow> string \<Rightarrow> string \<Rightarrow> string \<Rightarrow> ('m, 'm Runner) eff" where
  "k8sRunner mx cfg pair authKey serverHostname clientHostname =
    (let k = mx_K8s mx; new = (\<lambda>pod container what. case k8_NewExecutor k (pt_Kubeconfig pair) (pt_Namespace pair) pod container of
           Inl e \<Rightarrow> efail (Wrapf (what @ '' executor: '') e []) | Inr x \<Rightarrow> eret x) in
     ebind (new (pt_ServerName pair) BenchContainer ''server bench'') (\<lambda>serverBench.
     ebind (new (pt_ClientName pair) BenchContainer ''client bench'') (\<lambda>clientBench.
     ebind (new (pt_ServerName pair) TSContainer ''server tailscale'') (\<lambda>serverTS.
     ebind (new (pt_ClientName pair) TSContainer ''client tailscale'') (\<lambda>clientTS.
     ebind (case k8_Clientset k (pt_Kubeconfig pair) of Some _ \<Rightarrow> eret None
       | None \<Rightarrow> ebind (ecatch (k8_DiscoverPodName k (pt_Kubeconfig pair) ''app.kubernetes.io/part-of=tailbench-l7-baseline'')) (\<lambda>r. case r of
           Inl _ \<Rightarrow> eret None
         | Inr baselinePod \<Rightarrow> (case k8_NewExecutor k (pt_Kubeconfig pair) (pt_Namespace pair) baselinePod ''tools'' of
             Inl _ \<Rightarrow> eret None | Inr x \<Rightarrow> eret (Some x)))) (\<lambda>baselineClient.
     eret \<lparr>rn_Server = serverBench, rn_Client = clientBench, rn_ServerTailscale = serverTS, rn_ClientTailscale = clientTS,
       rn_BaselineClient = baselineClient, rn_Router = None, rn_Config = benchmarkRunConfig cfg authKey serverHostname clientHostname\<rparr>))))))"

definition runK8sBenchmark :: "'m Machines \<Rightarrow> (BenchmarkResult \<Rightarrow> 'd) \<Rightarrow> 'r StateRecorder option \<Rightarrow> Config \<Rightarrow> string \<Rightarrow> string \<Rightarrow> PairOutput \<Rightarrow>
    InstanceInfo \<Rightarrow> string \<Rightarrow> string \<Rightarrow> string \<Rightarrow> string \<Rightarrow> ('c, 'm, 'd, 'r) system errEff" where
  "runK8sBenchmark mx encode recorder cfg tailnetDNS providerName pair inst family serverHostname clientHostname authKey s =
    (if \<not> mx_K8sBuild mx then (Some (ErrText ''kubernetes benchmark execution requires a k8s-enabled binary''), s) else
     case onMachines (k8sRunner mx cfg pair authKey serverHostname clientHostname) s of
       (Inl e, s1) \<Rightarrow> (Some e, s1)
     | (Inr runner, s1) \<Rightarrow> runModeLoop mx encode recorder cfg tailnetDNS runner providerName pair inst family ''container''
         \<lparr>mc_serverHostname = pt_ServerName pair, mc_kubeconfig = pt_Kubeconfig pair\<rparr> s1)"

text \<open>A connection that is closed when the rest of the function is left.\<close>

definition withSSH :: "'m Machines \<Rightarrow> Config \<Rightarrow> string \<Rightarrow> string \<Rightarrow> ('m SSH \<Rightarrow> ('c, 'm, 'd, 'r) system errEff) \<Rightarrow> ('c, 'm, 'd, 'r) system errEff" where
  "withSSH mx cfg role hostname body s = (case onMachines (mx_Dial mx hostname (c_SSHTimeout cfg)) s of
     (Inl e, s1) \<Rightarrow> (Some (Wrapf (''ssh dial '' @ role @ '': '') e []), s1)
   | (Inr conn, s1) \<Rightarrow> (case body conn s1 of (e, s2) \<Rightarrow> (e, snd (onMachines (\<lambda>m. ((), ssh_Close conn m)) s2))))"

definition waitReady :: "Config \<Rightarrow> string \<Rightarrow> 'm SSH \<Rightarrow> ('c, 'm, 'd, 'r) system errEff \<Rightarrow> ('c, 'm, 'd, 'r) system errEff" where
  "waitReady cfg role conn rest s = (case onMachines (ssh_WaitForReady conn (wrap64 (c_ReadyTimeout cfg * second))) s of
     (Some e, s1) \<Rightarrow> (Some (Wrapf (role @ '' ready: '') e []), s1) | (None, s1) \<Rightarrow> rest s1)"

definition runBenchmark :: "'m Machines \<Rightarrow> (BenchmarkResult \<Rightarrow> 'd) \<Rightarrow> 'r StateRecorder option \<Rightarrow> Config \<Rightarrow> string \<Rightarrow> string \<Rightarrow> PairOutput \<Rightarrow>
    InstanceInfo \<Rightarrow> string \<Rightarrow> string \<Rightarrow> string \<Rightarrow> string \<Rightarrow> string \<Rightarrow> ('c, 'm, 'd, 'r) system errEff" where
  "runBenchmark mx encode recorder cfg tailnetDNS providerName pair inst family serverHostname clientHostname routerHostname authKey =
    (if pt_Namespace pair \<noteq> []
     then runK8sBenchmark mx encode recorder cfg tailnetDNS providerName pair inst family serverHostname clientHostname authKey
     else withSSH mx cfg ''server'' serverHostname (\<lambda>server. withSSH mx cfg ''client'' clientHostname (\<lambda>client.
       waitReady cfg ''server'' server (waitReady cfg ''client'' client
        (let loop = (\<lambda>router. runModeLoop mx encode recorder cfg tailnetDNS
               \<lparr>rn_Server = ssh_Run server, rn_Client = ssh_Run client, rn_ServerTailscale = ssh_Run server, rn_ClientTailscale = ssh_Run client,
                rn_BaselineClient = None, rn_Router = router, rn_Config = benchmarkRunConfig cfg authKey serverHostname clientHostname\<rparr>
               providerName pair inst family ''vm'' \<lparr>mc_serverHostname = serverHostname, mc_kubeconfig = []\<rparr>) in
         if pt_RouterIP pair \<noteq> []
         then withSSH mx cfg ''router'' routerHostname (\<lambda>router. waitReady cfg ''router'' router (loop (Some (ssh_Run router))))
         else loop None)))))"

section \<open>Setting up the cluster\<close>

text \<open>
  The wait for the load balancer ends at a deadline of three minutes by the clock; a wait takes at least the
  ten seconds it asks for, so eighteen rounds reach the deadline, and the count \<open>n\<close> ends the loop as the deadline does.
\<close>

fun waitLB :: "'m Machines \<Rightarrow> string \<Rightarrow> string \<Rightarrow> gotime \<Rightarrow> nat \<Rightarrow> 'm errEff" where
  "waitLB mx kubeconfig label deadline 0 m = (Some (ErrText ''load balancer FQDN was not ready within 3m''), m)"
| "waitLB mx kubeconfig label deadline (Suc n) m = (case ev_now (mx_Env mx) m of (t, m1) \<Rightarrow>
     if \<not> t < deadline then (Some (ErrText ''load balancer FQDN was not ready within 3m''), m1)
     else case k8_DiscoverServiceLBFQDN (mx_K8s mx) kubeconfig label m1 of ((fqdn, err), m2) \<Rightarrow>
       if err = None \<and> fqdn \<noteq> [] then (None, m2)
       else case ev_wait (mx_Env mx) (10 * second) m2 of
         (Some e, m3) \<Rightarrow> (Some e, m3) | (None, m3) \<Rightarrow> waitLB mx kubeconfig label deadline n m3)"

definition deployWorkload :: "'m Machines \<Rightarrow> Config \<Rightarrow> string \<Rightarrow> go_error option list \<Rightarrow> 'm errEff" where
  "deployWorkload mx cfg kubeconfig setupErrors m =
    (let k = mx_K8s mx in
     case (if hasForwardPPSModes (c_Modes cfg) then (case k8_DeployProxyGroup k kubeconfig (c_RootDir cfg) False m of
             (e, m1) \<Rightarrow> (setupErrors @ [wrapIfError ''deploy ProxyGroup'' e], m1)) else (setupErrors, m)) of (es1, m1) \<Rightarrow>
     if \<not> hasL7Modes (c_Modes cfg) then (errors_Join es1, m1)
     else case k8_DeployL7Bench k kubeconfig (c_RootDir cfg) m1 of (e, m2) \<Rightarrow>
      (let es2 = es1 @ [wrapIfError ''deploy L7 benchmark manifests'' e] in
       case k8_Clientset k kubeconfig of
         Some e \<Rightarrow> (errors_Join (es2 @ [Some (Wrapf ''parse kubeconfig for load balancer readiness: '' e [])]), m2)
       | None \<Rightarrow> (case ev_now (mx_Env mx) m2 of (t, m3) \<Rightarrow>
           case waitLB mx kubeconfig (c_ClusterLabel cfg) (t + 3 * minute) 18 m3 of (e, m4) \<Rightarrow> (errors_Join (es2 @ [e]), m4))))"

definition setupK8s :: "'m Machines \<Rightarrow> Config \<Rightarrow> string \<Rightarrow> ('c, 'm, 'd, 'r) system Provider \<Rightarrow> NetworkingOutput \<Rightarrow> ('c, 'm, 'd, 'r) system errEff" where
  "setupK8s mx cfg tailnetDNS p net s =
    (if \<not> mx_K8sBuild mx then (None, s) else
     case (case pv_InstallOperator p of None \<Rightarrow> (None, s)
           | Some install \<Rightarrow> install \<lparr>oi_OAuthClientID = c_OAuthClientID cfg, oi_OAuthClientSecret = c_OAuthClientSecret cfg,
               oi_Hostname = operatorHostname (pv_Name p) (c_RunID cfg), oi_Tag = c_Tag cfg, oi_TailnetDNS = tailnetDNS,
               oi_ForceReinstall = c_CleanupNetworking cfg\<rparr> s) of (installErr, s1) \<Rightarrow>
      (let es = [wrapIfError ''install Tailscale operator'' installErr] in
       case map_of (no_Values net) ''kubeconfig'' of
         None \<Rightarrow> (errors_Join (es @ [Some (ErrText ''provider networking did not return a kubeconfig'')]), s1)
       | Some kubeconfig \<Rightarrow> if kubeconfig = [] then (errors_Join (es @ [Some (ErrText ''provider networking did not return a kubeconfig'')]), s1)
           else onMachines (deployWorkload mx cfg kubeconfig es) s1))"

end
