(* ===== verification/Orch_Run.thy ===== *)
theory Orch_Run
  imports Orch_Bench Retry Failure_Class "HOL-Library.State_Monad"
begin

text \<open>
  The provisioning half of the orchestrator: \<^verbatim>\<open>runProvider\<close> with its networking, the loop over the instance
  types (prepare, provision, measure, clean up, refresh the key), the cached instance list, and
  \<^verbatim>\<open>RunWithOutcome\<close> with the tailnet. The code threads an outcome, a set of skipped families, two flags and the
  shared authentication key through all of this; here they are the state of a state monad, together with the
  system. An early return is the end of a branch. The binary is compiled for one provider and the plan insists on
  exactly one; with several, the code starts one goroutine per provider, and the model lets them finish one after
  the other, in the order of the list.
\<close>

section \<open>The backend\<close>

definition BackendURL :: "string \<Rightarrow> string \<Rightarrow> string \<Rightarrow> string" where
  "BackendURL configured localStateDir providerName =
     (if configured \<noteq> [] then configured else TrimSuffix localStateDir ''/'' @ ''/'' @ providerName)"

definition IsRemoteBackend :: "string \<Rightarrow> bool" where
  "IsRemoteBackend backendURL \<longleftrightarrow> backendURL \<noteq> [] \<and> \<not> HasPrefix backendURL ''file://''"

definition IsPulumiCloud :: "string \<Rightarrow> bool" where
  "IsPulumiCloud backendURL \<longleftrightarrow> HasPrefix backendURL ''https://api.pulumi.com'' \<or> HasPrefix backendURL ''https://app.pulumi.com''"

text \<open>\<open>token\<close> is the environment variable, \<open>login\<close> tells whether the credentials file of the Pulumi CLI exists.\<close>

definition CheckBackendCredentials :: "string \<Rightarrow> bool \<Rightarrow> string \<Rightarrow> go_error option" where
  "CheckBackendCredentials token login backendURL =
    (if \<not> IsPulumiCloud backendURL then None else if token \<noteq> [] then None else if login then None
     else Some (ErrText (''state_backend is Pulumi Cloud ('' @ backendURL @ '') but no credentials were found: '' @
       ''set PULUMI_ACCESS_TOKEN (an entry in .env works '' @ [CHR 0xE2, CHR 0x80, CHR 0x94] @ '' it is inherited by the Pulumi CLI) or run `pulumi login`'')))"

section \<open>The orchestrator\<close>

record TailnetInfo =
  ti_DNSName :: string
  ti_OAuthClientID :: string
  ti_OAuthClientSecret :: string

record 's TailnetManager =
  tm_CreateTailnet :: "string \<Rightarrow> ('s, TailnetInfo) eff"
  tm_DeleteTailnet :: "string \<Rightarrow> 's errEff"
  tm_SetupACL :: "string \<Rightarrow> string \<Rightarrow> bool \<Rightarrow> bool \<Rightarrow> 's errEff"
  tm_EnableHTTPS :: "string \<Rightarrow> string \<Rightarrow> 's errEff"
  tm_CreateAuthKey :: "string \<Rightarrow> string \<Rightarrow> ('s, string) eff"
  tm_CleanupStaleDevices :: "string \<Rightarrow> string \<Rightarrow> string \<Rightarrow> ('s, int) eff"

record CloudInit =
  ci_AuthKey :: string
  ci_Hostname :: string
  ci_EnableSSH :: bool
  ci_EnableServe :: bool
  ci_AdvertiseExitNode :: bool
  ci_AdvertiseRoutes :: string
  ci_RelayServerPort :: int

text \<open>The documents on the disk, and the aggregation's view of them.\<close>

record 'd Codec =
  cd_Result :: "BenchmarkResult \<Rightarrow> 'd"
  cd_Instances :: "InstanceInfo list \<Rightarrow> 'd"
  cd_decodeInstances :: "'d content \<Rightarrow> go_error + InstanceInfo list"
  cd_Tailnet :: "TailnetInfo \<Rightarrow> 'd"
  cd_decodeTailnet :: "'d content \<Rightarrow> go_error + TailnetInfo"
  cd_Walk :: "path \<Rightarrow> ('d, (string \<times> BenchmarkResult) list) io"
  cd_Order :: "(forwardingGroupKey \<times> forwardingPair) list \<Rightarrow> (forwardingGroupKey \<times> forwardingPair) list"
  cd_Aggregate :: "aggregateRecord list \<Rightarrow> 'd"
  cd_Prices :: Dataset

text \<open>
  The fields of the code, then the packages it calls: the machines, the documents, the cloud-init template,
  the regular expression compiler, the tsnet server and the advice of the credentials error.
\<close>

record ('c, 'm, 'd, 'r) Orchestrator =
  or_cfg :: Config
  or_providers :: "('c, 'm, 'd, 'r) system Provider list"
  or_tailnet :: "('c, 'm, 'd, 'r) system TailnetManager"
  or_tailnetDNS :: string
  or_recorder :: "'r StateRecorder option"
  or_machines :: "'m Machines"
  or_codec :: "'d Codec"
  or_Render :: "CloudInit \<Rightarrow> go_error + string"
  or_Compile :: "string \<Rightarrow> go_error + (string \<Rightarrow> bool)"
  or_tsnetUp :: "path \<Rightarrow> string \<Rightarrow> ('c, 'm, 'd, 'r) system errEff"
  or_tsnetClose :: "('c, 'm, 'd, 'r) system errEff"
  or_Advice :: string

fun newProviders :: "(string \<Rightarrow> Config \<Rightarrow> go_error + 'p) \<Rightarrow> Config \<Rightarrow> string list \<Rightarrow> go_error + 'p list" where
  "newProviders factory cfg [] = Inr []"
| "newProviders factory cfg (name # names) = (case factory name cfg of
     Inl e \<Rightarrow> Inl (Wrapf (''provider '' @ name @ '': '') e [])
   | Inr p \<Rightarrow> (case newProviders factory cfg names of Inl e \<Rightarrow> Inl e | Inr ps \<Rightarrow> Inr (p # ps)))"

text \<open>The checks of \<^verbatim>\<open>New\<close>, in order; the result is the list of providers of the orchestrator.\<close>

definition New :: "bool \<Rightarrow> string \<Rightarrow> bool \<Rightarrow> Config \<Rightarrow> (string \<Rightarrow> Config \<Rightarrow> go_error + 'p) option \<Rightarrow> go_error + 'p list" where
  "New k8sBuild token login cfg factory = (case factory of
     None \<Rightarrow> Inl (ErrText ''provider factory is required'')
   | Some f \<Rightarrow> (case validateModeNames cfg of Some e \<Rightarrow> Inl e | None \<Rightarrow>
      (case CheckBackendCredentials token login (c_StateBackend cfg) of Some e \<Rightarrow> Inl e | None \<Rightarrow>
       (case validateWorkloadConfig k8sBuild cfg of Some e \<Rightarrow> Inl e | None \<Rightarrow>
         if \<not> c_CreateTailnet cfg \<and> c_TailnetDNSName cfg = [] then
           Inl (ErrText (''no tailnet configured: set tailscale.create_tailnet: true to create an ephemeral tailnet, or '' @
             ''tailscale.tailnet_dns_name to benchmark an existing one (for example example-name.ts.net)''))
         else newProviders f cfg (c_Providers cfg)))))"

section \<open>State\<close>

record ('c, 'm, 'd, 'r) run =
  pr_Outcome :: Outcome
  pr_skippedFamilies :: "string list"
  pr_k8sSetupComplete :: bool
  pr_authKey :: string
  pr_authKeyCreated :: gotime
  pr_sys :: "('c, 'm, 'd, 'r) system"

type_synonym ('c, 'm, 'd, 'r, 'a) act = "(('c, 'm, 'd, 'r) run, 'a) state"

abbreviation result :: "'a \<Rightarrow> ('v, 'a) state" where "result \<equiv> State_Monad.return"

definition act :: "(('c, 'm, 'd, 'r) system \<Rightarrow> 'a \<times> ('c, 'm, 'd, 'r) system) \<Rightarrow> ('c, 'm, 'd, 'r, 'a) act" where
  "act f = State (\<lambda>v. case f (pr_sys v) of (x, s) \<Rightarrow> (x, v\<lparr>pr_sys := s\<rparr>))"

definition vars :: "('v \<Rightarrow> 'a) \<Rightarrow> ('v, 'a) state" where
  "vars g = State (\<lambda>v. (g v, v))"

definition upd :: "('v \<Rightarrow> 'v) \<Rightarrow> ('v, unit) state" where
  "upd g = State (\<lambda>v. ((), g v))"

definition updOutcome :: "(Outcome \<Rightarrow> Outcome) \<Rightarrow> ('c, 'm, 'd, 'r, unit) act" where
  "updOutcome g = upd (\<lambda>v. v\<lparr>pr_Outcome := g (pr_Outcome v)\<rparr>)"

definition resourcesChanged :: "('c, 'm, 'd, 'r, unit) act" where
  "resourcesChanged = updOutcome (\<lambda>oc. oc\<lparr>oc_ResourcesChanged := True\<rparr>)"

definition recordBenchmarkFailure :: "go_error option \<Rightarrow> ('c, 'm, 'd, 'r, unit) act" where
  "recordBenchmarkFailure err = (case err of None \<Rightarrow> result ()
   | Some _ \<Rightarrow> updOutcome (\<lambda>oc. oc\<lparr>oc_BenchmarkErr := errors_Join [oc_BenchmarkErr oc, err]\<rparr>))"

definition recordCleanupFailure :: "go_error option \<Rightarrow> ('c, 'm, 'd, 'r, unit) act" where
  "recordCleanupFailure err = (case err of None \<Rightarrow> result ()
   | Some _ \<Rightarrow> updOutcome (\<lambda>oc. oc\<lparr>oc_CleanupErr := errors_Join [oc_CleanupErr oc, err]\<rparr>))"

definition recordResources :: "'r StateRecorder option \<Rightarrow> ResourceRecord list \<Rightarrow> ('c, 'm, 'd, 'r, go_error option) act" where
  "recordResources recorder resources = do {
     updOutcome (\<lambda>oc. oc\<lparr>oc_Resources := fold upsertResource resources (oc_Resources oc)\<rparr>);
     case recorder of
       None \<Rightarrow> result None
     | Some r \<Rightarrow> do {
         e \<leftarrow> act (onStore (sr_RecordResources r resources));
         result (wrapIfError ''persist resource inventory'' e) } }"

text \<open>A status change of the inventory that is also recorded: of all resources of a type, or of one resource.\<close>

definition markInstance :: "'r StateRecorder option \<Rightarrow> string \<Rightarrow> string \<Rightarrow> ('c, 'm, 'd, 'r, go_error option) act" where
  "markInstance recorder instanceType status = do {
     resources \<leftarrow> vars (\<lambda>v. fst (resourcesForInstanceStatus instanceType status (oc_Resources (pr_Outcome v))));
     updOutcome (\<lambda>oc. oc\<lparr>oc_Resources := snd (resourcesForInstanceStatus instanceType status (oc_Resources oc))\<rparr>);
     recordResources recorder resources }"

definition markResource :: "'r StateRecorder option \<Rightarrow> string \<Rightarrow> string \<Rightarrow> ('c, 'm, 'd, 'r, go_error option) act" where
  "markResource recorder resourceID status = do {
     found \<leftarrow> vars (\<lambda>v. fst (resourceWithStatus resourceID status (oc_Resources (pr_Outcome v))));
     updOutcome (\<lambda>oc. oc\<lparr>oc_Resources := snd (resourceWithStatus resourceID status (oc_Resources oc))\<rparr>);
     case found of None \<Rightarrow> result None | Some resource \<Rightarrow> recordResources recorder [resource] }"

section \<open>The instance list\<close>

text \<open>The operation that is retried assigns the captured list, which is part of the state of the retry.\<close>

definition listOperation :: "'s Provider \<Rightarrow> string \<Rightarrow> (InstanceInfo list \<times> 's) Operation" where
  "listOperation p fam attempt st = (case pv_ListInstances p fam (snd st) of
     (Inl e, s1) \<Rightarrow> (Some e, ([], s1)) | (Inr list, s1) \<Rightarrow> (None, (list, s1)))"

fun listFamilies :: "'m Env \<Rightarrow> ('c, 'm, 'd, 'r) system Provider \<Rightarrow> string list \<Rightarrow> ('c, 'm, 'd, 'r) system \<Rightarrow>
    (InstanceInfo list \<times> go_error option list) \<times> ('c, 'm, 'd, 'r) system" where
  "listFamilies env p [] s = (([], []), s)"
| "listFamilies env p (fam # fams) s =
    (case Do (\<lambda>d st. case onMachines (ev_wait env d) (snd st) of (e, s1) \<Rightarrow> (e \<noteq> None, (fst st, s1)))
        (\<lambda>st. (ev_ctxErr env (y_machines (snd st)), st))
        \<lparr>p_Idempotent = True, p_MaxAttempts = 3, p_InitialDelay = second, p_MaxDelay = 2 * second\<rparr>
        (Some (listOperation p fam)) (Some (\<lambda>e. IsTransient (Some e))) None ([], s) of
     (r, (list, s1)) \<Rightarrow>
      (case listFamilies env p fams s1 of ((rest, failures), s2) \<Rightarrow>
        (case rr_Err r of
           Some e \<Rightarrow> ((rest, Some (Wrapf (''family '' @ fam @ '' after '' @ string_of_int (rr_Attempts r) @ '' attempt(s): '') e []) # failures), s2)
         | None \<Rightarrow> ((list @ rest, failures), s2))))"

definition readInstanceCache :: "'d Codec \<Rightarrow> path \<Rightarrow> 'd world \<Rightarrow> InstanceInfo list \<times> 'd world" where
  "readInstanceCache codec cachePath w = (case os_ReadFile cachePath w of
     (Inl _, w1) \<Rightarrow> ([], w1)
   | (Inr c, w1) \<Rightarrow> ((case cd_decodeInstances codec c of Inl _ \<Rightarrow> [] | Inr cached \<Rightarrow> cached), w1))"

definition writeInstanceCache :: "'d Codec \<Rightarrow> path \<Rightarrow> InstanceInfo list \<Rightarrow> 'd world \<Rightarrow> unit \<times> 'd world" where
  "writeInstanceCache codec cachePath instances w = (case os_MkdirAll (path_parent cachePath) w of
     (Inl _, w1) \<Rightarrow> ((), w1)
   | (Inr _, w1) \<Rightarrow> ((), snd (os_WriteFile cachePath (Docs [Line (cd_Instances codec instances)]) w1)))"

definition listInstancesCached :: "('c, 'm, 'd, 'r) Orchestrator \<Rightarrow> ('c, 'm, 'd, 'r) system Provider \<Rightarrow> ('c, 'm, 'd, 'r) system \<Rightarrow>
    (InstanceInfo list \<times> go_error option) \<times> ('c, 'm, 'd, 'r) system" where
  "listInstancesCached orch p s = (let cfg = or_cfg orch; cachePath = instanceCachePath (pv_Name p) (c_Family cfg) in
    case (if c_CleanupNetworking cfg then ([], s) else onFiles (readInstanceCache (or_codec orch) cachePath) s) of (cached, s1) \<Rightarrow>
    if cached \<noteq> [] then ((cached, None), s1)
    else case listFamilies (mx_Env (or_machines orch)) p (if c_Family cfg = ''all'' then pv_ListFamilies p else [c_Family cfg]) s1 of
      ((instances, failures), s2) \<Rightarrow>
       ((instances, errors_Join failures),
        (if instances = [] then s2 else snd (onFiles (writeInstanceCache (or_codec orch) cachePath instances) s2))))"

section \<open>One instance type\<close>

definition unixSeconds :: "gotime \<Rightarrow> int" where
  "unixSeconds t = t div second - 62135596800"

definition hostnames :: "string \<Rightarrow> string \<Rightarrow> gotime \<Rightarrow> string \<times> string \<times> string" where
  "hostnames providerName instanceType t = (let name = (\<lambda>role. ''tb-'' @ providerName @ role @ safeHostname instanceType @ ''-'' @ string_of_int (unixSeconds t mod 10000)) in
     (name ''-s-'', name ''-c-'', name ''-r-''))"

definition prepareUserData :: "('c, 'm, 'd, 'r) Orchestrator \<Rightarrow> string \<Rightarrow> string \<Rightarrow> string \<Rightarrow> string list \<Rightarrow> string \<times> string \<times> string \<Rightarrow>
    go_error + (string \<times> string \<times> string)" where
  "prepareUserData orch providerName instanceType authKey pending names = (case names of (serverHostname, clientHostname, routerHostname) \<Rightarrow>
    if isK8sProvider providerName then Inr (authKey, [], [])
    else if authKey = [] then Inl (ErrText (''prepare '' @ instanceType @ '': auth key is empty''))
    else let wantServe = hasL7ServeMode (c_Modes (or_cfg orch));
             node = (\<lambda>hostname. \<lparr>ci_AuthKey = authKey, ci_Hostname = hostname, ci_EnableSSH = True, ci_EnableServe = wantServe,
               ci_AdvertiseExitNode = False, ci_AdvertiseRoutes = [], ci_RelayServerPort = 0\<rparr>);
             fail = (\<lambda>role e. Inl (Wrapf (''cloud-init '' @ role @ '' for '' @ instanceType @ '': '') e [])) in
      case or_Render orch (node serverHostname) of Inl e \<Rightarrow> fail ''server'' e
      | Inr serverUD \<Rightarrow> (case or_Render orch (node clientHostname) of Inl e \<Rightarrow> fail ''client'' e
        | Inr clientUD \<Rightarrow> if \<not> (hasForwardMode pending \<or> hasRelayMode pending) then Inr (serverUD, clientUD, [])
           else (case or_Render orch ((node routerHostname)\<lparr>ci_EnableServe := False, ci_AdvertiseExitNode := hasForwardMode pending,
                  ci_RelayServerPort := (if hasRelayMode pending then RelayUDPPort else 0)\<rparr>) of
                Inl e \<Rightarrow> fail ''router'' e | Inr routerUD \<Rightarrow> Inr (serverUD, clientUD, routerUD))))"

definition destroyFailed :: "('c, 'm, 'd, 'r) system Provider \<Rightarrow> string \<Rightarrow> string \<Rightarrow> ('c, 'm, 'd, 'r, unit) act" where
  "destroyFailed p what instanceType = do {
     resourcesChanged;
     dErr \<leftarrow> act (pv_DestroyPair p instanceType);
     recordCleanupFailure (wrapIfError (what @ instanceType) dErr) }"

definition creationFailed :: "('c, 'm, 'd, 'r) Orchestrator \<Rightarrow> ('c, 'm, 'd, 'r) system Provider \<Rightarrow> string \<Rightarrow> string \<Rightarrow> go_error \<Rightarrow> ('c, 'm, 'd, 'r, unit) act" where
  "creationFailed orch p instanceType quotaGroup err = (let createErr = Wrapf (''create pair '' @ instanceType @ '': '') err [] in do {
     recordBenchmarkFailure (Some createErr);
     e \<leftarrow> act (afterExternalStep (or_recorder orch) ''provision'' [] ''failed'' (error_text createErr));
     recordBenchmarkFailure e;
     upd (\<lambda>v. if pv_IsQuotaError p err then v\<lparr>pr_skippedFamilies := quotaGroup # pr_skippedFamilies v\<rparr> else v);
     destroyFailed p ''cleanup partially-created pair '' instanceType })"

definition measureInstance :: "('c, 'm, 'd, 'r) Orchestrator \<Rightarrow> ('c, 'm, 'd, 'r) system Provider \<Rightarrow> NetworkingOutput \<Rightarrow> PairOutput \<Rightarrow> InstanceInfo \<Rightarrow> string \<Rightarrow>
    string \<times> string \<times> string \<Rightarrow> ('c, 'm, 'd, 'r, unit) act" where
  "measureInstance orch p net pair inst family names = (case names of (serverHostname, clientHostname, routerHostname) \<Rightarrow> do {
     complete \<leftarrow> vars pr_k8sSetupComplete;
     setupErr \<leftarrow> (if isK8sProvider (pv_Name p) \<and> \<not> complete then do {
         e \<leftarrow> act (setupK8s (or_machines orch) (or_cfg orch) (or_tailnetDNS orch) p net);
         upd (\<lambda>v. if e = None then v\<lparr>pr_k8sSetupComplete := True\<rparr> else v);
         result (wrapIfError ''setup kubernetes workload'' e) }
       else result None);
     authKey \<leftarrow> vars pr_authKey;
     benchErr \<leftarrow> (if setupErr = None then act (runBenchmark (or_machines orch) (cd_Result (or_codec orch)) (or_recorder orch) (or_cfg orch)
         (or_tailnetDNS orch) (pv_Name p) pair inst family serverHostname clientHostname routerHostname authKey)
       else result setupErr);
     recordBenchmarkFailure (wrapIfError (''benchmark '' @ ii_Type inst) benchErr) })"

text \<open>The result tells whether the loop body goes on.\<close>

definition cleanupInstance :: "('c, 'm, 'd, 'r) Orchestrator \<Rightarrow> ('c, 'm, 'd, 'r) system Provider \<Rightarrow> string \<Rightarrow> ('c, 'm, 'd, 'r, bool) act" where
  "cleanupInstance orch p instanceType = do {
     benchmarkErr \<leftarrow> vars (\<lambda>v. oc_BenchmarkErr (pr_Outcome v));
     if \<not> shouldCleanup (c_CleanupPolicy (or_cfg orch)) benchmarkErr then result True else do {
     resourcesChanged;
     e \<leftarrow> markInstance (or_recorder orch) instanceType runstateResourceCleaning;
     case e of Some _ \<Rightarrow> do { recordCleanupFailure e; result False } | None \<Rightarrow> do {
     e \<leftarrow> act (beforeExternalStep (or_recorder orch) ''cleanup'' [] (''destroy topology for '' @ instanceType));
     case e of Some _ \<Rightarrow> do { recordCleanupFailure e; result False } | None \<Rightarrow> do {
     dErr \<leftarrow> act (pv_DestroyPair p instanceType);
     case dErr of
       Some d \<Rightarrow> (let destroyErr = Wrapf (''destroy pair '' @ instanceType @ '': '') d [] in do {
         recordCleanupFailure (Some destroyErr);
         e \<leftarrow> act (afterExternalStep (or_recorder orch) ''cleanup'' [] ''failed'' (error_text destroyErr));
         recordCleanupFailure e;
         result True })
     | None \<Rightarrow> do {
         e \<leftarrow> markInstance (or_recorder orch) instanceType runstateResourceCleaned;
         recordCleanupFailure e;
         e \<leftarrow> act (afterExternalStep (or_recorder orch) ''cleanup'' [] ''succeeded'' (''topology destroyed for '' @ instanceType));
         recordCleanupFailure e;
         result True } }}}}"

definition refreshAuthKey :: "('c, 'm, 'd, 'r) Orchestrator \<Rightarrow> ('c, 'm, 'd, 'r, unit) act" where
  "refreshAuthKey orch = (let cfg = or_cfg orch; clock = onMachines (ev_now (mx_Env (or_machines orch))) in
     if \<not> c_CreateTailnet cfg then result () else do {
     t \<leftarrow> act clock;
     created \<leftarrow> vars pr_authKeyCreated;
     if \<not> wrap64 (c_AuthKeyRefreshSec cfg * second) < t - created then result () else do {
     resourcesChanged;
     r \<leftarrow> act (tm_CreateAuthKey (or_tailnet orch) (c_OAuthClientID cfg) (c_OAuthClientSecret cfg));
     case r of
       Inl e \<Rightarrow> recordBenchmarkFailure (Some (Wrapf ''refresh auth key: '' e []))
     | Inr newKey \<Rightarrow> do {
         t \<leftarrow> act clock;
         upd (\<lambda>v. v\<lparr>pr_authKey := newKey, pr_authKeyCreated := t\<rparr>) } }})"

definition topologyRecord :: "('c, 'm, 'd, 'r) Orchestrator \<Rightarrow> ('c, 'm, 'd, 'r) system Provider \<Rightarrow> string \<Rightarrow> ResourceRecord" where
  "topologyRecord orch p instanceType = \<lparr>rd_ID = topologyID (pv_Name p) instanceType, rd_Kind = topologyKind (pv_Name p), rd_ProviderID = [],
     rd_StackName = [], rd_Hostname = [], rd_CleanupOwner = c_RunID (or_cfg orch), rd_Status = runstateResourceCreating,
     rd_OwnershipCertain = providerRunScoped p, rd_InstanceType = instanceType\<rparr>"

definition provisionInstance :: "('c, 'm, 'd, 'r) Orchestrator \<Rightarrow> ('c, 'm, 'd, 'r) system Provider \<Rightarrow> NetworkingOutput \<Rightarrow> InstanceInfo \<Rightarrow> string \<Rightarrow> string \<Rightarrow>
    string \<times> string \<times> string \<Rightarrow> PairOptions \<Rightarrow> ('c, 'm, 'd, 'r, unit) act" where
  "provisionInstance orch p net inst family quotaGroup names opts = (let t = ii_Type inst; recorder = or_recorder orch in do {
     destroyFailed p ''pre-cleanup '' t;
     resourcesChanged;
     e \<leftarrow> recordResources recorder [topologyRecord orch p t];
     case e of Some _ \<Rightarrow> recordBenchmarkFailure e | None \<Rightarrow> do {
     e \<leftarrow> act (beforeExternalStep recorder ''provision'' [] (''create topology for '' @ t));
     case e of Some _ \<Rightarrow> recordBenchmarkFailure e | None \<Rightarrow> do {
     r \<leftarrow> act (pv_CreatePair p opts);
     case r of Inl err \<Rightarrow> creationFailed orch p t quotaGroup err | Inr pair \<Rightarrow> do {
     e \<leftarrow> recordResources recorder (pairResourceRecords (pv_Name p) (c_RunID (or_cfg orch)) t pair (providerRunScoped p));
     case e of Some _ \<Rightarrow> do { recordBenchmarkFailure e; destroyFailed p ''cleanup unrecorded pair '' t } | None \<Rightarrow> do {
     e \<leftarrow> act (afterExternalStep recorder ''provision'' [] ''succeeded'' (''topology created for '' @ t));
     case e of Some _ \<Rightarrow> do { recordBenchmarkFailure e; destroyFailed p ''cleanup pair after state failure '' t } | None \<Rightarrow> do {
     measureInstance orch p net pair inst family names;
     goOn \<leftarrow> cleanupInstance orch p t;
     if goOn then refreshAuthKey orch else result () }}}}}})"

definition runInstance :: "('c, 'm, 'd, 'r) Orchestrator \<Rightarrow> ('c, 'm, 'd, 'r) system Provider \<Rightarrow> NetworkingOutput \<Rightarrow> InstanceInfo \<Rightarrow> ('c, 'm, 'd, 'r, unit) act" where
  "runInstance orch p net inst =
    (let cfg = or_cfg orch; name = pv_Name p; t = ii_Type inst; family = GetInstanceFamily name t; quotaGroup = InstanceFamilyGroup name t;
         env = (if isK8sProvider name then ''container'' else ''vm'') in do {
     skipped \<leftarrow> vars pr_skippedFamilies;
     if quotaGroup \<in> set skipped then result () else do {
     pending \<leftarrow> act (onFiles (pendingModesForInstance (c_RootDir cfg) name family t (c_Modes cfg) env));
     if pending = [] then result () else do {
     now \<leftarrow> act (onMachines (ev_now (mx_Env (or_machines orch))));
     authKey \<leftarrow> vars pr_authKey;
     case prepareUserData orch name t authKey pending (hostnames name t now) of
       Inl e \<Rightarrow> recordBenchmarkFailure (Some e)
     | Inr (userData, clientUserData, routerUserData) \<Rightarrow>
         provisionInstance orch p net inst family quotaGroup (hostnames name t now)
          \<lparr>po_InstanceType = t, po_UserData = userData, po_ClientUserData = clientUserData, po_Networking = net, po_BenchImage = c_BenchImage cfg,
           po_TSImage = c_TSImage cfg, po_WantRouter = (\<not> isK8sProvider name \<and> (hasForwardMode pending \<or> hasRelayMode pending)),
           po_RouterUserData = routerUserData, po_RunID = c_RunID cfg, po_ExpiresAt = c_ResourceExpiresAt cfg\<rparr> }}})"

fun instanceLoop :: "('c, 'm, 'd, 'r) Orchestrator \<Rightarrow> ('c, 'm, 'd, 'r) system Provider \<Rightarrow> NetworkingOutput \<Rightarrow> InstanceInfo list \<Rightarrow> ('c, 'm, 'd, 'r, bool) act" where
  "instanceLoop orch p net [] = result True"
| "instanceLoop orch p net (inst # insts) = do {
     ctxErr \<leftarrow> vars (\<lambda>v. ev_ctxErr (mx_Env (or_machines orch)) (y_machines (pr_sys v)));
     case ctxErr of
       Some _ \<Rightarrow> do { recordBenchmarkFailure ctxErr; result False }
     | None \<Rightarrow> do { runInstance orch p net inst; instanceLoop orch p net insts } }"

section \<open>One provider\<close>

fun staleDevices :: "('c, 'm, 'd, 'r) Orchestrator \<Rightarrow> string list \<Rightarrow> ('c, 'm, 'd, 'r, unit) act" where
  "staleDevices orch [] = result ()"
| "staleDevices orch (pre # pres) = do {
     resourcesChanged;
     r \<leftarrow> act (tm_CleanupStaleDevices (or_tailnet orch) (c_OAuthClientID (or_cfg orch)) (c_OAuthClientSecret (or_cfg orch)) pre);
     recordCleanupFailure (wrapIfError (''device cleanup '' @ pre) (errOf r));
     staleDevices orch pres }"

definition aggregateResults :: "('c, 'm, 'd, 'r) Orchestrator \<Rightarrow> ('c, 'm, 'd, 'r, unit) act" where
  "aggregateResults orch = (let codec = or_codec orch in do {
     r \<leftarrow> act (onFiles (Aggregate (cd_Walk codec) (cd_Order codec) (cd_Aggregate codec) (cd_Prices codec) (c_RootDir (or_cfg orch))));
     recordBenchmarkFailure (wrapIfError ''aggregate results'' (errOf r)) })"

definition filterInstances :: "('c, 'm, 'd, 'r) Orchestrator \<Rightarrow> InstanceInfo list \<Rightarrow> go_error + InstanceInfo list" where
  "filterInstances orch instances = (if c_Filter (or_cfg orch) = [] then Inr instances
     else case or_Compile orch (c_Filter (or_cfg orch)) of
       Inl e \<Rightarrow> Inl (Wrapf ''invalid filter regex: '' e [])
     | Inr matches \<Rightarrow> Inr (filter (\<lambda>i. matches (ii_Type i)) instances))"

definition runInstances :: "('c, 'm, 'd, 'r) Orchestrator \<Rightarrow> ('c, 'm, 'd, 'r) system Provider \<Rightarrow> NetworkingOutput \<Rightarrow> ('c, 'm, 'd, 'r, unit) act" where
  "runInstances orch p net = do {
     (if c_CreateTailnet (or_cfg orch)
      then staleDevices orch [''tb-'' @ pv_Name p @ ''-'', ''tailbench-'' @ pv_Name p @ ''-operator'']
      else result ());
     if isK8sProvider (pv_Name p) \<and> (case map_of (no_Values net) ''kubeconfig'' of None \<Rightarrow> True | Some k \<Rightarrow> k = [])
     then recordBenchmarkFailure (Some (ErrText ''setup kubernetes workload: provider networking did not return a kubeconfig''))
     else do {
     listed \<leftarrow> act (listInstancesCached orch p);
     recordBenchmarkFailure (wrapIfError ''listing instances'' (snd listed));
     case filterInstances orch (fst listed) of
       Inl e \<Rightarrow> recordBenchmarkFailure (Some e)
     | Inr instances \<Rightarrow> do {
         completed \<leftarrow> instanceLoop orch p net instances;
         if completed then aggregateResults orch else result () } }}"

definition networkRecord :: "('c, 'm, 'd, 'r) Orchestrator \<Rightarrow> ('c, 'm, 'd, 'r) system Provider \<Rightarrow> ResourceRecord" where
  "networkRecord orch p = \<lparr>rd_ID = pv_Name p @ ''/networking'', rd_Kind = ''networking'', rd_ProviderID = [], rd_StackName = [], rd_Hostname = [],
     rd_CleanupOwner = c_RunID (or_cfg orch), rd_Status = runstateResourceCreating, rd_OwnershipCertain = providerRunScoped p, rd_InstanceType = []\<rparr>"

definition setupAndRun :: "('c, 'm, 'd, 'r) Orchestrator \<Rightarrow> ('c, 'm, 'd, 'r) system Provider \<Rightarrow> ('c, 'm, 'd, 'r, unit) act" where
  "setupAndRun orch p = (let managed = providerManagesNetworking p; recorder = or_recorder orch in do {
     (if managed then resourcesChanged else result ());
     r \<leftarrow> act (pv_SetupNetworking p);
     case r of
       Inl err \<Rightarrow> (let setupErr = Wrapf ''setup networking: '' err [] in do {
         recordBenchmarkFailure (Some setupErr);
         e \<leftarrow> (if managed then act (afterExternalStep recorder ''provision-networking'' [] ''failed'' (error_text setupErr)) else result None);
         recordBenchmarkFailure e })
     | Inr net \<Rightarrow> do {
         e \<leftarrow> (if c_RunID (or_cfg orch) \<noteq> [] \<and> managed
              then recordResources recorder [(networkRecord orch p)\<lparr>rd_ProviderID := no_ProviderID net, rd_StackName := no_StackName net, rd_Status := runstateResourceCreated\<rparr>]
              else result None);
         case e of Some _ \<Rightarrow> recordBenchmarkFailure e | None \<Rightarrow> do {
         e \<leftarrow> (if managed then act (afterExternalStep recorder ''provision-networking'' [] ''succeeded'' ''provider networking ready'') else result None);
         case e of Some _ \<Rightarrow> recordBenchmarkFailure e | None \<Rightarrow> runInstances orch p net }} })"

definition teardownNetworking :: "('c, 'm, 'd, 'r) Orchestrator \<Rightarrow> ('c, 'm, 'd, 'r) system Provider \<Rightarrow> ('c, 'm, 'd, 'r, unit) act" where
  "teardownNetworking orch p = (let recorder = or_recorder orch; networkID = pv_Name p @ ''/networking'' in do {
     benchmarkErr \<leftarrow> vars (\<lambda>v. oc_BenchmarkErr (pr_Outcome v));
     if \<not> c_CleanupNetworking (or_cfg orch) \<or> \<not> shouldCleanup (c_CleanupPolicy (or_cfg orch)) benchmarkErr then result () else do {
     resourcesChanged;
     e \<leftarrow> markResource recorder networkID runstateResourceCleaning;
     recordCleanupFailure e;
     e \<leftarrow> act (beforeExternalStep recorder ''cleanup-networking'' [] ''tear down provider networking'');
     recordCleanupFailure e;
     tErr \<leftarrow> act (pv_TeardownNetworking p);
     case tErr of
       Some t \<Rightarrow> (let teardownErr = Wrapf ''teardown networking: '' t [] in do {
         recordCleanupFailure (Some teardownErr);
         e \<leftarrow> act (afterExternalStep recorder ''cleanup-networking'' [] ''failed'' (error_text teardownErr));
         recordCleanupFailure e })
     | None \<Rightarrow> do {
         e \<leftarrow> markResource recorder networkID runstateResourceCleaned;
         recordCleanupFailure e;
         e \<leftarrow> act (afterExternalStep recorder ''cleanup-networking'' [] ''succeeded'' ''provider networking destroyed'');
         recordCleanupFailure e } }})"

definition runProvider :: "('c, 'm, 'd, 'r) Orchestrator \<Rightarrow> ('c, 'm, 'd, 'r) system Provider \<Rightarrow> ('c, 'm, 'd, 'r, unit) act" where
  "runProvider orch p = (let managed = providerManagesNetworking p; recorder = or_recorder orch in do {
     e \<leftarrow> (if c_RunID (or_cfg orch) \<noteq> [] \<and> managed then recordResources recorder [networkRecord orch p] else result None);
     case e of Some _ \<Rightarrow> recordBenchmarkFailure e | None \<Rightarrow>
       if managed then do {
         e \<leftarrow> act (beforeExternalStep recorder ''provision-networking'' [] ''set up provider networking'');
         case e of Some _ \<Rightarrow> recordBenchmarkFailure e | None \<Rightarrow> do {
         setupAndRun orch p;
         teardownNetworking orch p } }
       else setupAndRun orch p })"

text \<open>The call with its own outcome and local variables; only the key outlives it.\<close>

definition callProvider :: "('c, 'm, 'd, 'r) Orchestrator \<Rightarrow> ('c, 'm, 'd, 'r) system Provider \<Rightarrow> ('c, 'm, 'd, 'r, Outcome) act" where
  "callProvider orch p = State (\<lambda>v.
     case run_state (runProvider orch p) (v\<lparr>pr_Outcome := noOutcome, pr_skippedFamilies := [], pr_k8sSetupComplete := False\<rparr>) of
       (_, v1) \<Rightarrow> (pr_Outcome v1, v1\<lparr>pr_Outcome := pr_Outcome v, pr_skippedFamilies := pr_skippedFamilies v, pr_k8sSetupComplete := pr_k8sSetupComplete v\<rparr>))"

section \<open>The whole run\<close>

definition tailnetStateFile :: path where
  "tailnetStateFile = filepath_Join [''.tailbench'', ''tailnet.json'']"

definition loadTailnetState :: "'d Codec \<Rightarrow> path \<Rightarrow> ('d, TailnetInfo) io" where
  "loadTailnetState codec p = Go_OS.bind (os_ReadFile p) (\<lambda>c. case cd_decodeTailnet codec c of
     Inl e \<Rightarrow> raise e
   | Inr info \<Rightarrow> if ti_DNSName info = [] \<or> ti_OAuthClientID info = [] then raise (ErrText ''incomplete tailnet state'') else ret info)"

definition saveTailnetState :: "'d Codec \<Rightarrow> path \<Rightarrow> TailnetInfo \<Rightarrow> ('d, unit) io" where
  "saveTailnetState codec p info = Go_OS.bind (os_MkdirAll (path_parent p)) (\<lambda>_. os_WriteFile p (Docs [Line (cd_Tailnet codec info)]))"

definition withTailnet :: "TailnetInfo \<Rightarrow> ('c, 'm, 'd, 'r) Orchestrator \<Rightarrow> ('c, 'm, 'd, 'r) Orchestrator" where
  "withTailnet info orch = orch\<lparr>or_tailnetDNS := ti_DNSName info,
     or_cfg := (or_cfg orch)\<lparr>c_OAuthClientID := ti_OAuthClientID info, c_OAuthClientSecret := ti_OAuthClientSecret info\<rparr>\<rparr>"

text \<open>The access rules, and HTTPS where it is needed. The result tells whether the run goes on.\<close>

definition setupACL :: "('c, 'm, 'd, 'r) Orchestrator \<Rightarrow> ('c, 'm, 'd, 'r, go_error option) act" where
  "setupACL orch = do {
     resourcesChanged;
     act (tm_SetupACL (or_tailnet orch) (c_OAuthClientID (or_cfg orch)) (c_OAuthClientSecret (or_cfg orch)) True (hasK8sProviders (or_providers orch))) }"

definition enableHTTPS :: "('c, 'm, 'd, 'r) Orchestrator \<Rightarrow> ('c, 'm, 'd, 'r, bool) act" where
  "enableHTTPS orch = (if \<not> needsTailnetHTTPS (or_providers orch) (or_cfg orch) then result True else do {
     e \<leftarrow> act (tm_EnableHTTPS (or_tailnet orch) (c_OAuthClientID (or_cfg orch)) (c_OAuthClientSecret (or_cfg orch)));
     recordBenchmarkFailure (wrapIfError ''enable HTTPS'' e);
     result (e = None) })"

definition aclThenHTTPS :: "('c, 'm, 'd, 'r) Orchestrator \<Rightarrow> ('c, 'm, 'd, 'r, bool) act" where
  "aclThenHTTPS orch = do {
     e \<leftarrow> setupACL orch;
     recordBenchmarkFailure (wrapIfError ''setup ACL'' e);
     if e = None then enableHTTPS orch else result False }"

definition tailnetRecord :: "('c, 'm, 'd, 'r) Orchestrator \<Rightarrow> ResourceRecord" where
  "tailnetRecord orch = \<lparr>rd_ID = ''tailscale/tailnet'', rd_Kind = ''tailnet'', rd_ProviderID = [], rd_StackName = [], rd_Hostname = [],
     rd_CleanupOwner = c_RunID (or_cfg orch), rd_Status = runstateResourceCreating, rd_OwnershipCertain = (c_RunID (or_cfg orch) \<noteq> []), rd_InstanceType = []\<rparr>"

definition tailnetName :: "string \<Rightarrow> gotime \<Rightarrow> string" where
  "tailnetName runID t = ''tailbench-'' @ (if runID = [] then string_of_int (unixSeconds t)
     else (let i = LastIndex (CHR ''_'') runID in if 0 \<le> i then drop (nat i + 1) runID else runID))"

text \<open>
  Creating the tailnet. The result is the orchestrator with what it has learned so far, and whether the run
  goes on. In a managed run each step is recorded before and after.
\<close>

definition createTailnet :: "('c, 'm, 'd, 'r) Orchestrator \<Rightarrow> ('c, 'm, 'd, 'r, ('c, 'm, 'd, 'r) Orchestrator \<times> bool) act" where
  "createTailnet orch = (let cfg = or_cfg orch; recorder = or_recorder orch; managed = (c_RunID cfg \<noteq> []) in
     case validateCredentials cfg (or_Advice orch) of Some e \<Rightarrow> do { updOutcome (\<lambda>oc. oc\<lparr>oc_BenchmarkErr := Some e\<rparr>); result (orch, False) }
     | None \<Rightarrow> do {
     t \<leftarrow> act (onMachines (ev_now (mx_Env (or_machines orch))));
     e \<leftarrow> (if managed then recordResources recorder [tailnetRecord orch] else result None);
     case e of Some _ \<Rightarrow> do { recordBenchmarkFailure e; result (orch, False) } | None \<Rightarrow> do {
     e \<leftarrow> (if managed then act (beforeExternalStep recorder ''provision-tailnet'' [] ''create run-owned tailnet'') else result None);
     case e of Some _ \<Rightarrow> do { recordBenchmarkFailure e; result (orch, False) } | None \<Rightarrow> do {
     resourcesChanged;
     r \<leftarrow> act (tm_CreateTailnet (or_tailnet orch) (tailnetName (c_RunID cfg) t));
     case r of
       Inl err \<Rightarrow> (let createErr = Wrapf ''create tailnet: '' err [] in do {
         recordBenchmarkFailure (Some createErr);
         e \<leftarrow> act (afterExternalStep recorder ''provision-tailnet'' [] ''failed'' (error_text createErr));
         recordBenchmarkFailure e;
         result (orch, False) })
     | Inr info \<Rightarrow> do {
     e \<leftarrow> (if managed then recordResources recorder [(tailnetRecord orch)\<lparr>rd_ProviderID := ti_DNSName info, rd_Status := runstateResourceCreated\<rparr>] else result None);
     case e of Some _ \<Rightarrow> do { recordBenchmarkFailure e; result (withTailnet info orch, False) } | None \<Rightarrow> do {
     e \<leftarrow> (if managed then act (afterExternalStep recorder ''provision-tailnet'' [] ''succeeded'' ''run-owned tailnet created'') else result None);
     case e of Some _ \<Rightarrow> do { recordBenchmarkFailure e; result (withTailnet info orch, False) } | None \<Rightarrow> do {
     saved \<leftarrow> (if managed then result None else act (\<lambda>s. case onFiles (saveTailnetState (or_codec orch) tailnetStateFile info) s of (x, s1) \<Rightarrow> (errOf x, s1)));
     recordBenchmarkFailure (wrapIfError ''save tailnet state'' saved);
     ok \<leftarrow> aclThenHTTPS (withTailnet info orch);
     result (withTailnet info orch, ok) }}}}}})"

definition reuseTailnet :: "('c, 'm, 'd, 'r) Orchestrator \<Rightarrow> TailnetInfo \<Rightarrow> ('c, 'm, 'd, 'r, ('c, 'm, 'd, 'r) Orchestrator \<times> bool) act" where
  "reuseTailnet orch info = do {
     e \<leftarrow> setupACL (withTailnet info orch);
     recordBenchmarkFailure (wrapIfError ''update ACL'' e);
     ok \<leftarrow> enableHTTPS (withTailnet info orch);
     result (withTailnet info orch, ok) }"

definition deleteTailnet :: "('c, 'm, 'd, 'r) Orchestrator \<Rightarrow> ('c, 'm, 'd, 'r, unit) act" where
  "deleteTailnet orch = (let cfg = or_cfg orch; recorder = or_recorder orch in do {
     benchmarkErr \<leftarrow> vars (\<lambda>v. oc_BenchmarkErr (pr_Outcome v));
     if or_tailnetDNS orch = [] \<or> \<not> shouldCleanup (c_CleanupPolicy cfg) benchmarkErr then result () else do {
     e \<leftarrow> markResource recorder ''tailscale/tailnet'' runstateResourceCleaning;
     recordCleanupFailure e;
     e \<leftarrow> act (beforeExternalStep recorder ''cleanup-tailnet'' [] ''delete run-owned tailnet'');
     recordCleanupFailure e;
     resourcesChanged;
     dErr \<leftarrow> act (tm_DeleteTailnet (or_tailnet orch) (or_tailnetDNS orch));
     (case dErr of
       Some d \<Rightarrow> (let deleteErr = Wrapf ''delete tailnet: '' d [] in do {
         recordCleanupFailure (Some deleteErr);
         e \<leftarrow> act (afterExternalStep recorder ''cleanup-tailnet'' [] ''failed'' (error_text deleteErr));
         recordCleanupFailure e })
     | None \<Rightarrow> do {
         e \<leftarrow> markResource recorder ''tailscale/tailnet'' runstateResourceCleaned;
         recordCleanupFailure e;
         e \<leftarrow> act (afterExternalStep recorder ''cleanup-tailnet'' [] ''succeeded'' ''run-owned tailnet deleted'');
         recordCleanupFailure e });
     if c_RunID cfg = [] then do {
       r \<leftarrow> act (onFiles (os_Remove tailnetStateFile));
       recordCleanupFailure (case r of Inl e \<Rightarrow> if os_IsNotExist e then None else wrapIfError ''remove tailnet state'' (Some e) | Inr _ \<Rightarrow> None) }
     else result () }})"

fun runProviders :: "('c, 'm, 'd, 'r) Orchestrator \<Rightarrow> ('c, 'm, 'd, 'r) system Provider list \<Rightarrow> ('c, 'm, 'd, 'r, unit) act" where
  "runProviders orch [] = result ()"
| "runProviders orch (p # ps) = do {
     out \<leftarrow> callProvider orch p;
     updOutcome (\<lambda>oc. Outcome_merge oc (out\<lparr>oc_BenchmarkErr := wrapIfError (''provider '' @ pv_Name p) (oc_BenchmarkErr out),
       oc_CleanupErr := wrapIfError (''provider '' @ pv_Name p) (oc_CleanupErr out)\<rparr>));
     runProviders orch ps }"

definition runAllProviders :: "('c, 'm, 'd, 'r) Orchestrator \<Rightarrow> ('c, 'm, 'd, 'r, unit) act" where
  "runAllProviders orch = (case or_providers orch of
     [p] \<Rightarrow> do { out \<leftarrow> callProvider orch p; updOutcome (\<lambda>oc. Outcome_merge oc out) }
   | ps \<Rightarrow> runProviders orch ps)"

definition joinAndRun :: "('c, 'm, 'd, 'r) Orchestrator \<Rightarrow> ('c, 'm, 'd, 'r, unit) act" where
  "joinAndRun orch = (let cfg = or_cfg orch in do {
     resourcesChanged;
     r \<leftarrow> act (tm_CreateAuthKey (or_tailnet orch) (c_OAuthClientID cfg) (c_OAuthClientSecret cfg));
     case r of Inl e \<Rightarrow> recordBenchmarkFailure (wrapIfError ''create auth key'' (Some e))
     | Inr newKey \<Rightarrow> do {
     t \<leftarrow> act (onMachines (ev_now (mx_Env (or_machines orch))));
     upd (\<lambda>v. v\<lparr>pr_authKey := newKey, pr_authKeyCreated := t\<rparr>);
     e \<leftarrow> act (or_tsnetUp orch (tsnetStateDirectory cfg) newKey);
     case e of Some _ \<Rightarrow> recordBenchmarkFailure (wrapIfError ''tsnet up'' e)
     | None \<Rightarrow> do {
     runAllProviders orch;
     e \<leftarrow> act (or_tsnetClose orch);
     recordCleanupFailure (wrapIfError ''close tsnet server'' e) }}})"

definition runOwnTailnet :: "('c, 'm, 'd, 'r) Orchestrator \<Rightarrow> ('c, 'm, 'd, 'r, unit) act" where
  "runOwnTailnet orch = do {
     loaded \<leftarrow> act (onFiles (loadTailnetState (or_codec orch) tailnetStateFile));
     joined \<leftarrow> (case loaded of
        Inr info \<Rightarrow> if c_RunID (or_cfg orch) = [] then reuseTailnet orch info else createTailnet orch
      | Inl _ \<Rightarrow> createTailnet orch);
     (if snd joined then joinAndRun (fst joined) else result ());
     if c_CleanupNetworking (or_cfg orch) then deleteTailnet (fst joined) else result () }"

definition runWithTailnet :: "('c, 'm, 'd, 'r) Orchestrator \<Rightarrow> ('c, 'm, 'd, 'r, unit) act" where
  "runWithTailnet orch = (let cfg = or_cfg orch in
     if \<not> c_CreateTailnet cfg \<and> c_TailnetDNSName cfg = [] then runAllProviders orch
     else if c_CreateTailnet cfg then runOwnTailnet orch
     else do {
       ok \<leftarrow> aclThenHTTPS (orch\<lparr>or_tailnetDNS := c_TailnetDNSName cfg\<rparr>);
       if ok then joinAndRun (orch\<lparr>or_tailnetDNS := c_TailnetDNSName cfg\<rparr>) else result () })"

definition RunWithOutcome :: "('c, 'm, 'd, 'r) Orchestrator \<Rightarrow> ('c, 'm, 'd, 'r) system \<Rightarrow> Outcome \<times> ('c, 'm, 'd, 'r) system" where
  "RunWithOutcome orch s = (let cfg = or_cfg orch; stateDir = TrimPrefix (c_StateDir cfg) ''file://'' in
     if c_DryRun cfg then (noOutcome, s)
     else case (if IsRemoteBackend (c_StateBackend cfg) then (Inr (), s) else onFiles (os_MkdirAll (Clean stateDir)) s) of
       (Inl e, s1) \<Rightarrow> (noOutcome\<lparr>oc_BenchmarkErr := Some (Wrapf (''create state dir '' @ stateDir @ '': '') e [])\<rparr>, s1)
     | (Inr _, s1) \<Rightarrow>
        (case run_state (runWithTailnet orch) \<lparr>pr_Outcome = noOutcome, pr_skippedFamilies = [], pr_k8sSetupComplete = False, pr_authKey = [],
            pr_authKeyCreated = 0, pr_sys = s1\<rparr> of (_, v) \<Rightarrow> (pr_Outcome v, pr_sys v)))"

definition Orchestrator_Run :: "('c, 'm, 'd, 'r) Orchestrator \<Rightarrow> ('c, 'm, 'd, 'r) system errEff" where
  "Orchestrator_Run orch s = (case RunWithOutcome orch s of (oc, s1) \<Rightarrow> (Outcome_Err oc, s1))"

end
