(* ===== verification/Orch_Hoare.thy ===== *)
theory Orch_Hoare
  imports Orch_Run
begin

text \<open>
  Reasoning about the orchestrator: what the cloud, the tailnet service and the recorder promise, the steps
  that respect the inventory (\<open>tame\<close> steps), and triples over the state monad for the steps that create and
  destroy topologies.
\<close>

section \<open>Triples over the state monad\<close>

definition triple :: "('v \<Rightarrow> bool) \<Rightarrow> ('v, 'a) state \<Rightarrow> ('a \<Rightarrow> 'v \<Rightarrow> bool) \<Rightarrow> bool" where
  "triple P m Q \<longleftrightarrow> (\<forall>v. P v \<longrightarrow> Q (fst (run_state m v)) (snd (run_state m v)))"

lemma tripleD: "triple P m Q \<Longrightarrow> P v \<Longrightarrow> run_state m v = (x, v') \<Longrightarrow> Q x v'"
  unfolding triple_def by (metis fst_conv snd_conv)

lemma run_bind: "run_state (State_Monad.bind m f) v = run_state (f (fst (run_state m v))) (snd (run_state m v))"
  by (simp add: State_Monad.bind_def split: prod.split)

lemma run_simps [simp]: "run_state (vars g) v = (g v, v)" "run_state (upd h) v = ((), h v)"
    "run_state (updOutcome k) w = ((), w\<lparr>pr_Outcome := k (pr_Outcome w)\<rparr>)"
    "run_state (act a) w = (fst (a (pr_sys w)), w\<lparr>pr_sys := snd (a (pr_sys w))\<rparr>)"
  by (simp_all add: vars_def upd_def updOutcome_def act_def split: prod.split)

lemma triple_bind:
  assumes "triple P m R" "\<And>x. triple (R x) (f x) Q"
  shows "triple P (State_Monad.bind m f) Q"
  using assms unfolding triple_def run_bind by blast

lemma triple_result: "(\<And>v. P v \<Longrightarrow> Q x v) \<Longrightarrow> triple P (result x) Q"
  by (simp add: triple_def)

lemma triple_weaken: "triple P m Q \<Longrightarrow> (\<And>v. P' v \<Longrightarrow> P v) \<Longrightarrow> (\<And>x v. Q x v \<Longrightarrow> Q' x v) \<Longrightarrow> triple P' m Q'"
  unfolding triple_def by blast

lemma triple_vars: "triple P (vars g) (\<lambda>x v. P v \<and> x = g v)"
  by (simp add: triple_def)

lemma triple_if: "(b \<Longrightarrow> triple P m Q) \<Longrightarrow> (\<not> b \<Longrightarrow> triple P n Q) \<Longrightarrow> triple P (if b then m else n) Q"
  by simp

lemma triple_option: "(e = None \<Longrightarrow> triple P m Q) \<Longrightarrow> (\<And>x. e = Some x \<Longrightarrow> triple P (n x) Q) \<Longrightarrow>
    triple P (case e of None \<Rightarrow> m | Some x \<Rightarrow> n x) Q"
  by (cases e) simp_all

lemma triple_sum: "(\<And>e. r = Inl e \<Longrightarrow> triple P (m e) Q) \<Longrightarrow> (\<And>x. r = Inr x \<Longrightarrow> triple P (n x) Q) \<Longrightarrow>
    triple P (case r of Inl e \<Rightarrow> m e | Inr x \<Rightarrow> n x) Q"
  by (cases r) simp_all

section \<open>Promises of the environment\<close>

text \<open>
  \<open>live\<close> is the set of instance types whose topology exists in the cloud, \<open>recorded\<close> the set of resource
  identifiers that the run store lists durably. A calm change destroys topologies at most, keeps every file but
  the saved tailnet, and every recorded identifier.
\<close>

definition keepsFiles :: "'d world \<Rightarrow> 'd world \<Rightarrow> bool" where
  "keepsFiles w w' \<longleftrightarrow> (\<forall>p. p \<noteq> tailnetStateFile \<longrightarrow> w_fs w p \<noteq> None \<longrightarrow> w_fs w' p \<noteq> None)"

definition calm :: "('c \<Rightarrow> string set) \<Rightarrow> ('r \<Rightarrow> string set) \<Rightarrow> ('c, 'm, 'd, 'r) system \<Rightarrow> ('c, 'm, 'd, 'r) system \<Rightarrow> bool" where
  "calm live recorded s s' \<longleftrightarrow> live (y_cloud s') \<subseteq> live (y_cloud s) \<and> keepsFiles (y_disk s) (y_disk s') \<and>
     recorded (y_store s) \<subseteq> recorded (y_store s')"

definition calmCall :: "('c \<Rightarrow> string set) \<Rightarrow> ('r \<Rightarrow> string set) \<Rightarrow> (('c, 'm, 'd, 'r) system \<Rightarrow> 'a \<times> ('c, 'm, 'd, 'r) system) \<Rightarrow> bool" where
  "calmCall live recorded f \<longleftrightarrow> (\<forall>s. calm live recorded s (snd (f s)))"

text \<open>Creating a topology brings at most that one to life; a topology that was destroyed without error is gone.\<close>

definition providerLaws :: "('c \<Rightarrow> string set) \<Rightarrow> ('r \<Rightarrow> string set) \<Rightarrow> ('c, 'm, 'd, 'r) system Provider \<Rightarrow> bool" where
  "providerLaws live recorded p \<longleftrightarrow>
     calmCall live recorded (pv_SetupNetworking p) \<and> calmCall live recorded (pv_TeardownNetworking p) \<and>
     (\<forall>fam. calmCall live recorded (pv_ListInstances p fam)) \<and>
     (\<forall>install cfg. pv_InstallOperator p = Some install \<longrightarrow> calmCall live recorded (install cfg)) \<and>
     (\<forall>t. calmCall live recorded (pv_DestroyPair p t)) \<and>
     (\<forall>t s. fst (pv_DestroyPair p t s) = None \<longrightarrow> t \<notin> live (y_cloud (snd (pv_DestroyPair p t s)))) \<and>
     (\<forall>opts s. live (y_cloud (snd (pv_CreatePair p opts s))) \<subseteq> insert (po_InstanceType opts) (live (y_cloud s)) \<and>
        keepsFiles (y_disk s) (y_disk (snd (pv_CreatePair p opts s))) \<and> recorded (y_store s) \<subseteq> recorded (y_store (snd (pv_CreatePair p opts s))))"

definition tailnetLaws :: "('c \<Rightarrow> string set) \<Rightarrow> ('r \<Rightarrow> string set) \<Rightarrow> ('c, 'm, 'd, 'r) Orchestrator \<Rightarrow> bool" where
  "tailnetLaws live recorded orch \<longleftrightarrow> (let tm = or_tailnet orch in
     (\<forall>n. calmCall live recorded (tm_CreateTailnet tm n)) \<and> (\<forall>n. calmCall live recorded (tm_DeleteTailnet tm n)) \<and>
     (\<forall>i k a b. calmCall live recorded (tm_SetupACL tm i k a b)) \<and> (\<forall>i k. calmCall live recorded (tm_EnableHTTPS tm i k)) \<and>
     (\<forall>i k. calmCall live recorded (tm_CreateAuthKey tm i k)) \<and> (\<forall>i k pre. calmCall live recorded (tm_CleanupStaleDevices tm i k pre)) \<and>
     (\<forall>d k. calmCall live recorded (or_tsnetUp orch d k)) \<and> calmCall live recorded (or_tsnetClose orch) \<and>
     (\<forall>p w. keepsFiles w (snd (cd_Walk (or_codec orch) p w))))"

definition recorderLaws :: "('r \<Rightarrow> string set) \<Rightarrow> 'r StateRecorder \<Rightarrow> bool" where
  "recorderLaws recorded r \<longleftrightarrow>
     (\<forall>a b c s. recorded s \<subseteq> recorded (snd (sr_BeforeExternalStep r a b c s))) \<and>
     (\<forall>a b c d s. recorded s \<subseteq> recorded (snd (sr_AfterExternalStep r a b c d s))) \<and>
     (\<forall>rs s. recorded s \<subseteq> recorded (snd (sr_RecordResources r rs s))) \<and>
     (\<forall>rs s. fst (sr_RecordResources r rs s) = None \<longrightarrow> rd_ID ` set rs \<subseteq> recorded (snd (sr_RecordResources r rs s)))"

section \<open>Calm calls\<close>

named_theorems calm_rules \<open>calls that keep topologies, files and recorded resources\<close>

lemma keepsFiles_refl [simp]: "keepsFiles w w"
  by (simp add: keepsFiles_def)

lemma keepsFiles_trans: "keepsFiles a b \<Longrightarrow> keepsFiles b c \<Longrightarrow> keepsFiles a c"
  by (simp add: keepsFiles_def)

lemma calm_refl [simp]: "calm live recorded s s"
  by (simp add: calm_def)

lemma calm_trans: "calm live recorded a b \<Longrightarrow> calm live recorded b c \<Longrightarrow> calm live recorded a c"
  unfolding calm_def using keepsFiles_trans by blast

lemma calmCallD: "calmCall live recorded f \<Longrightarrow> f s = (x, s') \<Longrightarrow> calm live recorded s s'"
  unfolding calmCall_def by (metis snd_conv)

lemma calm_onMachines [calm_rules]: "calmCall live recorded (onMachines f)"
  by (simp add: calmCall_def calm_def)

lemma calm_pure [calm_rules]: "calmCall live recorded (\<lambda>s. (x, s))"
  by (simp add: calmCall_def)

lemma calm_onFiles: "(\<And>w. keepsFiles w (snd (f w))) \<Longrightarrow> calmCall live recorded (onFiles f)"
  by (simp add: calmCall_def calm_def)

lemma calm_onStore: "(\<And>r. recorded r \<subseteq> recorded (snd (f r))) \<Longrightarrow> calmCall live recorded (onStore f)"
  by (simp add: calmCall_def calm_def)

subsection \<open>Files\<close>

named_theorems keeps_rules \<open>file operations that remove nothing\<close>

definition keepsIO :: "('d world \<Rightarrow> 'a \<times> 'd world) \<Rightarrow> bool" where
  "keepsIO f \<longleftrightarrow> (\<forall>w. keepsFiles w (snd (f w)))"

lemma keepsIO_I: "(\<And>w x w'. f w = (x, w') \<Longrightarrow> keepsFiles w w') \<Longrightarrow> keepsIO f"
  unfolding keepsIO_def by (metis prod.collapse)

lemma keepsIO_D: "keepsIO f \<Longrightarrow> f w = (x, w') \<Longrightarrow> keepsFiles w w'"
  unfolding keepsIO_def by (metis snd_conv)

lemma keepsIO_bind [keeps_rules]: "keepsIO m \<Longrightarrow> (\<And>x. keepsIO (f x)) \<Longrightarrow> keepsIO (Go_OS.bind m f)"
  by (rule keepsIO_I) (auto simp: Go_OS.bind_def split: prod.splits sum.splits dest: keepsIO_D intro: keepsFiles_trans)

lemma keepsIO_mapErr [keeps_rules]: "keepsIO m \<Longrightarrow> keepsIO (mapErr g m)"
  by (rule keepsIO_I) (auto simp: mapErr_def split: prod.splits sum.splits dest: keepsIO_D)

lemma keepsIO_onErr [keeps_rules]: "keepsIO m \<Longrightarrow> keepsIO d \<Longrightarrow> keepsIO (onErr m d)"
  by (rule keepsIO_I) (auto simp: onErr_def split: prod.splits sum.splits dest: keepsIO_D intro: keepsFiles_trans simp: keepsIO_def)

lemma keepsIO_ret [keeps_rules]: "keepsIO (ret x)" "keepsIO (raise e)"
  by (simp_all add: keepsIO_def ret_def raise_def)

lemma keepsIO_syscall:
  fixes f :: "('d, 'a) io"
  assumes "\<And>t w. keepsFiles w (broken t w)" "keepsIO f"
  shows "keepsIO (syscall broken f)"
proof (rule keepsIO_I)
  fix w :: "'d world" and x w'
  let ?w = "w\<lparr>w_calls := w_calls w + 1\<rparr>"
  assume "syscall broken f w = (x, w')"
  then have "keepsFiles ?w w'"
    using assms(1)[of ?w] keepsIO_D[OF assms(2), of ?w] by (auto simp: syscall_def Let_def split: option.splits fault.splits)
  then show "keepsFiles w w'" by (simp add: keepsFiles_def)
qed

lemma keepsFiles_set_node: "keepsFiles w (set_node p (Some n) w)"
  by (simp add: keepsFiles_def set_node_def)

lemma keepsFiles_append_node: "keepsFiles w (append_node p c w)"
  by (auto simp: append_node_def keepsFiles_set_node split: option.split node.split)

lemma keepsIO_os [keeps_rules]: "keepsIO (os_Stat p)" "keepsIO (os_ReadFile p)" "keepsIO (os_Mkdir p)" "keepsIO fd_call" "keepsIO (fd_Write p c)"
    "keepsIO (os_Truncate p)"
  unfolding os_Stat_def os_ReadFile_def os_Mkdir_def fd_call_def fd_Write_def os_Truncate_def
  by (rule keepsIO_syscall; simp add: keepsIO_def keepsFiles_append_node keepsFiles_set_node ret_def split: option.split node.split)+

lemma keepsIO_Remove [keeps_rules]: "keepsIO (os_Remove tailnetStateFile)"
  unfolding os_Remove_def by (rule keepsIO_syscall) (auto simp: keepsIO_def keepsFiles_def set_node_def split: option.split node.split)

lemma keepsIO_mkdirAll: "keepsIO (mkdirAll r cs)"
proof (induction cs)
  case Nil
  show ?case
    by (rule keepsIO_I, subst (asm) mkdirAll.simps)
      (auto split: prod.splits sum.splits node.splits dest!: keepsIO_os(1,3)[THEN keepsIO_D] intro: keepsFiles_trans)
next
  case (Cons c cs)
  show ?case
    by (rule keepsIO_I, subst (asm) mkdirAll.simps)
      (auto split: prod.splits sum.splits node.splits dest!: keepsIO_os(1,3)[THEN keepsIO_D] keepsIO_D[OF Cons.IH] intro: keepsFiles_trans)
qed

lemma keepsIO_files [keeps_rules]: "keepsIO (os_MkdirAll p)" "keepsIO (os_WriteFile p c)" "keepsIO (WriteResult encode rootDir br ena)"
    "keepsIO (exists p)"
proof -
  show "keepsIO (os_MkdirAll p)" for p by (simp add: os_MkdirAll_def keepsIO_mkdirAll)
  then show "keepsIO (WriteResult encode rootDir br ena)" unfolding WriteResult_def os_WriteFile_def by (intro keeps_rules)
  show "keepsIO (os_WriteFile p c)" unfolding os_WriteFile_def by (intro keeps_rules)
  show "keepsIO (exists p)"
    by (rule keepsIO_I) (auto simp: exists_def split: prod.splits sum.splits dest: keepsIO_os(1)[THEN keepsIO_D])
qed

lemma keepsIO_pending [keeps_rules]: "keepsIO (pendingModesForInstance rootDir name family t modes env)"
proof (induction modes)
  case Nil
  show ?case by (simp add: keepsIO_def)
next
  case (Cons mode modes)
  show ?case
    by (rule keepsIO_I) (auto split: if_splits prod.splits bool.splits dest!: keepsIO_files(4)[THEN keepsIO_D] keepsIO_D[OF Cons.IH] intro: keepsFiles_trans)
qed

lemma keepsIO_cache [keeps_rules]: "keepsIO (readInstanceCache codec p)" "keepsIO (writeInstanceCache codec p is)" "keepsIO (loadTailnetState codec p)"
    "keepsIO (saveTailnetState codec p info)"
proof -
  show "keepsIO (readInstanceCache codec p)"
    by (rule keepsIO_I) (auto simp: readInstanceCache_def split: prod.splits sum.splits dest: keepsIO_os(2)[THEN keepsIO_D])
  show "keepsIO (writeInstanceCache codec p is)"
    by (rule keepsIO_I) (auto simp: writeInstanceCache_def split: prod.splits sum.splits dest: keepsIO_files(1)[THEN keepsIO_D]
      intro: keepsFiles_trans keepsIO_files(2)[unfolded keepsIO_def, rule_format])
  show "keepsIO (loadTailnetState codec p)" unfolding loadTailnetState_def
    by (intro keeps_rules) (simp add: keepsIO_def ret_def raise_def split: sum.split)
  show "keepsIO (saveTailnetState codec p info)" unfolding saveTailnetState_def by (intro keeps_rules)
qed

lemma keepsIO_Aggregate:
  assumes "\<And>p. keepsIO (walk p)"
  shows "keepsIO (Aggregate walk order encode ds rootDir)"
proof -
  have "keepsIO (collectRecords walk ds rootDir ps)" for ps
  proof (induction ps)
    case (Cons p ps)
    have "keepsIO (Go_OS.bind (mapErr (\<lambda>e. Wrapf (''walking '' @ p @ '': '') e []) (walk (filepath_Join [rootDir, p])))
        (\<lambda>files. Go_OS.bind (collectRecords walk ds rootDir ps) (\<lambda>rest. ret (map (aggregateFile ds) files @ rest))))"
      by (intro keeps_rules assms Cons.IH)
    then show ?case
      by (intro keepsIO_I) (auto split: prod.splits if_splits dest!: keepsIO_os(1)[THEN keepsIO_D] dest: keepsIO_D keepsIO_D[OF Cons.IH] intro: keepsFiles_trans)
  qed (simp add: keepsIO_ret)
  then show ?thesis unfolding Aggregate_def by (intro keeps_rules)
qed

end
