(* ===== verification/Orch_Tame.thy ===== *)
theory Orch_Tame
  imports Orch_Hoare
begin

text \<open>
  The steps of the orchestrator that leave the inventory in order: they destroy topologies at most, never forget
  an error, and keep every entry that accounts for a topology. All steps but the creation of a topology and the
  marking of a destroyed one are of this kind.
\<close>

section \<open>The inventory\<close>

definition covered :: "string \<Rightarrow> ResourceRecord list \<Rightarrow> string \<Rightarrow> bool" where
  "covered name rs t \<longleftrightarrow> (\<exists>r \<in> set rs. rd_ID r = topologyID name t \<and> rd_InstanceType r = t \<and> rd_Status r \<noteq> runstateResourceCleaned)"

definition typed :: "string \<Rightarrow> ResourceRecord list \<Rightarrow> bool" where
  "typed name rs \<longleftrightarrow> (\<forall>r \<in> set rs. \<forall>t. rd_ID r = topologyID name t \<longrightarrow> rd_InstanceType r = t)"

definition harmless :: "string \<Rightarrow> ResourceRecord \<Rightarrow> bool" where
  "harmless name r \<longleftrightarrow> (\<forall>t. rd_ID r = topologyID name t \<longrightarrow> rd_InstanceType r = t \<and> rd_Status r \<noteq> runstateResourceCleaned)"

lemma topologyID_inject [simp]: "topologyID name t = topologyID name t' \<longleftrightarrow> t = t'"
  by (simp add: topologyID_def)

lemma last_topologyID: "last (topologyID name t) = CHR ''y''"
  by (simp add: topologyID_def)

lemma not_topologyID: "last i \<noteq> CHR ''y'' \<Longrightarrow> i \<noteq> topologyID name t"
  using last_topologyID by metis

lemma set_upsert: "set (upsertResource r xs) \<subseteq> insert r (set xs)" "r \<in> set (upsertResource r xs)"
    "x \<in> set xs \<Longrightarrow> rd_ID x \<noteq> rd_ID r \<Longrightarrow> x \<in> set (upsertResource r xs)"
  by (induction xs) auto

lemma typed_upsert: "typed name xs \<Longrightarrow> (\<And>t. rd_ID r = topologyID name t \<Longrightarrow> rd_InstanceType r = t) \<Longrightarrow> typed name (upsertResource r xs)"
  using set_upsert(1)[of r xs] unfolding typed_def by blast

lemma covered_upsert_other: "covered name xs t \<Longrightarrow> rd_ID r \<noteq> topologyID name t \<Longrightarrow> covered name (upsertResource r xs) t"
  using set_upsert(3)[of _ xs r] unfolding covered_def by metis

lemma covered_upsert_self: "harmless name r \<Longrightarrow> rd_ID r = topologyID name t \<Longrightarrow> covered name (upsertResource r xs) t"
  using set_upsert(2)[of r xs] unfolding covered_def harmless_def by blast

lemma fold_upsert_harmless:
  assumes "typed name xs" "\<forall>r \<in> set rs. harmless name r"
  shows "typed name (fold upsertResource rs xs) \<and> (\<forall>t. covered name xs t \<longrightarrow> covered name (fold upsertResource rs xs) t)"
  using assms
proof (induction rs arbitrary: xs)
  case (Cons r rs)
  have "typed name (upsertResource r xs)" using Cons.prems by (intro typed_upsert) (auto simp: harmless_def)
  moreover have "covered name xs t \<Longrightarrow> covered name (upsertResource r xs) t" for t
    using covered_upsert_other[of name xs t r] covered_upsert_self[of name r t xs] Cons.prems(2) by auto
  ultimately show ?case using Cons.IH[of "upsertResource r xs"] Cons.prems(2) by simp
qed simp

lemma fold_upsert_covers:
  assumes "\<forall>r \<in> set rs. harmless name r" "r \<in> set rs" "rd_ID r = topologyID name t" "typed name xs"
  shows "covered name (fold upsertResource rs xs) t"
  using assms
proof (induction rs arbitrary: xs)
  case (Cons x rs)
  have ty: "typed name (upsertResource x xs)" using Cons.prems by (intro typed_upsert) (auto simp: harmless_def)
  show ?case
  proof (cases "r \<in> set rs")
    case True
    with Cons ty show ?thesis by simp
  next
    case False
    with Cons.prems have "x = r" by simp
    with Cons.prems have "covered name (upsertResource x xs) t" using covered_upsert_self[of name x t] by simp
    with fold_upsert_harmless[OF ty] Cons.prems(1) show ?thesis by simp
  qed
qed simp

lemma setStatus_member: "r' \<in> set (setStatusOf t status xs) \<longleftrightarrow>
    (\<exists>r \<in> set xs. r' = (if rd_InstanceType r = t then r\<lparr>rd_Status := status\<rparr> else r))"
  unfolding setStatusOf_def set_map image_iff ..

lemma typed_setStatus:
  assumes "typed name xs"
  shows "typed name (setStatusOf t status xs)"
  unfolding typed_def
proof (intro ballI allI impI)
  fix r' t'
  assume "r' \<in> set (setStatusOf t status xs)" "rd_ID r' = topologyID name t'"
  then obtain r where "r \<in> set xs" "r' = (if rd_InstanceType r = t then r\<lparr>rd_Status := status\<rparr> else r)" "rd_ID r = topologyID name t'"
    unfolding setStatus_member by (auto split: if_splits)
  with assms show "rd_InstanceType r' = t'" unfolding typed_def by simp
qed

lemma covered_setStatus:
  assumes "covered name xs t'" "status \<noteq> runstateResourceCleaned \<or> t' \<noteq> t"
  shows "covered name (setStatusOf t status xs) t'"
proof -
  from assms(1) obtain r where r: "r \<in> set xs" "rd_ID r = topologyID name t'" "rd_InstanceType r = t'" "rd_Status r \<noteq> runstateResourceCleaned"
    unfolding covered_def by blast
  let ?r = "if rd_InstanceType r = t then r\<lparr>rd_Status := status\<rparr> else r"
  have "?r \<in> set (setStatusOf t status xs)" using r(1) unfolding setStatus_member by blast
  moreover have "rd_ID ?r = topologyID name t'" "rd_InstanceType ?r = t'" "rd_Status ?r \<noteq> runstateResourceCleaned" using r assms(2) by auto
  ultimately show ?thesis unfolding covered_def by blast
qed

lemma setStatus_members:
  assumes "r \<in> set (fst (resourcesForInstanceStatus t status xs))" "typed name xs"
  shows "rd_InstanceType r = t \<and> rd_Status r = status \<and> (\<forall>t'. rd_ID r = topologyID name t' \<longrightarrow> t' = t)"
proof -
  from assms(1) have r: "r \<in> set (setStatusOf t status xs)" "rd_InstanceType r = t" by (simp_all add: resourcesForInstanceStatus_def Let_def)
  from r(1) obtain r0 where "r0 \<in> set xs" "r = (if rd_InstanceType r0 = t then r0\<lparr>rd_Status := status\<rparr> else r0)" unfolding setStatus_member by blast
  with r(2) have "rd_Status r = status" by (simp split: if_splits)
  moreover have "rd_ID r = topologyID name t' \<Longrightarrow> t' = t" for t'
    using typed_setStatus[OF assms(2)] r unfolding typed_def by blast
  ultimately show ?thesis using r(2) by blast
qed

lemma resourceWithStatus_spec:
  assumes "resourceWithStatus i status xs = (f, ys)"
  shows "i \<noteq> topologyID name t \<Longrightarrow> covered name xs t \<Longrightarrow> covered name ys t" "typed name xs \<Longrightarrow> typed name ys" "f = Some r \<Longrightarrow> rd_ID r = i"
proof -
  have same: "\<forall>y \<in> set ys. y \<in> set xs \<or> (\<exists>x \<in> set xs. rd_ID x = i \<and> y = x\<lparr>rd_Status := status\<rparr>)"
      "\<forall>x \<in> set xs. rd_ID x \<noteq> i \<longrightarrow> x \<in> set ys" "f = Some r \<longrightarrow> rd_ID r = i" for r
    using assms by (induction xs arbitrary: ys) (auto split: if_splits prod.splits)
  show "i \<noteq> topologyID name t \<Longrightarrow> covered name xs t \<Longrightarrow> covered name ys t" using same(2) unfolding covered_def by metis
  show "typed name xs \<Longrightarrow> typed name ys" using same(1) unfolding typed_def by fastforce
  show "f = Some r \<Longrightarrow> rd_ID r = i" using same(3) by blast
qed

section \<open>Tame steps\<close>

definition tame :: "('c \<Rightarrow> string set) \<Rightarrow> ('r \<Rightarrow> string set) \<Rightarrow> string \<Rightarrow> ('c, 'm, 'd, 'r) run \<Rightarrow> ('c, 'm, 'd, 'r) run \<Rightarrow> bool" where
  "tame live recorded name v v' \<longleftrightarrow> calm live recorded (pr_sys v) (pr_sys v') \<and>
     (oc_CleanupErr (pr_Outcome v') = None \<longrightarrow> oc_CleanupErr (pr_Outcome v) = None) \<and>
     (oc_BenchmarkErr (pr_Outcome v') = None \<longrightarrow> oc_BenchmarkErr (pr_Outcome v) = None) \<and>
     (typed name (oc_Resources (pr_Outcome v)) \<longrightarrow> typed name (oc_Resources (pr_Outcome v')) \<and>
       (\<forall>t. covered name (oc_Resources (pr_Outcome v)) t \<longrightarrow> covered name (oc_Resources (pr_Outcome v')) t))"

definition tameAct :: "('c \<Rightarrow> string set) \<Rightarrow> ('r \<Rightarrow> string set) \<Rightarrow> string \<Rightarrow> ('c, 'm, 'd, 'r, 'a) act \<Rightarrow> bool" where
  "tameAct live recorded name m \<longleftrightarrow> (\<forall>v. tame live recorded name v (snd (run_state m v)))"

named_theorems tame_rules \<open>steps that respect the inventory\<close>

lemma tame_refl [simp]: "tame live recorded name v v"
  by (simp add: tame_def)

lemma tame_trans:
  assumes "tame live recorded name a b" "tame live recorded name b c"
  shows "tame live recorded name a c"
proof -
  have "calm live recorded (pr_sys a) (pr_sys c)" using assms calm_trans unfolding tame_def by blast
  then show ?thesis using assms unfolding tame_def by simp
qed

lemma tame_bind [tame_rules]: "tameAct live recorded name m \<Longrightarrow> (\<And>x. tameAct live recorded name (f x)) \<Longrightarrow> tameAct live recorded name (State_Monad.bind m f)"
  unfolding tameAct_def run_bind using tame_trans by blast

lemma tame_result [tame_rules]: "tameAct live recorded name (result x)" "tameAct live recorded name (vars g)"
  by (simp_all add: tameAct_def)

lemma tame_if [tame_rules]: "tameAct live recorded name m \<Longrightarrow> tameAct live recorded name n \<Longrightarrow> tameAct live recorded name (if b then m else n)"
  by simp

lemma tame_option [tame_rules]: "tameAct live recorded name m \<Longrightarrow> (\<And>x. tameAct live recorded name (n x)) \<Longrightarrow>
    tameAct live recorded name (case e of None \<Rightarrow> m | Some x \<Rightarrow> n x)"
  by (cases e) simp_all

lemma tame_sum [tame_rules]: "(\<And>x. tameAct live recorded name (m x)) \<Longrightarrow> (\<And>x. tameAct live recorded name (n x)) \<Longrightarrow>
    tameAct live recorded name (case r of Inl x \<Rightarrow> m x | Inr x \<Rightarrow> n x)"
  by (cases r) simp_all

lemma tame_prod [tame_rules]: "(\<And>x y. tameAct live recorded name (m x y)) \<Longrightarrow> tameAct live recorded name (case q of (x, y) \<Rightarrow> m x y)"
  by (cases q) simp

lemma tame_act: "calmCall live recorded f \<Longrightarrow> tameAct live recorded name (act f)"
  by (simp add: tameAct_def tame_def calmCall_def)

lemma tame_upd: "(\<And>v. pr_sys (g v) = pr_sys v \<and> pr_Outcome (g v) = pr_Outcome v) \<Longrightarrow> tameAct live recorded name (upd g)"
  by (simp add: tameAct_def tame_def)

lemma tame_resourcesChanged [tame_rules]: "tameAct live recorded name resourcesChanged"
  by (simp add: tameAct_def tame_def resourcesChanged_def)

lemma tame_failure [tame_rules]: "tameAct live recorded name (recordBenchmarkFailure e)" "tameAct live recorded name (recordCleanupFailure e)"
  by (simp_all add: tameAct_def tame_def recordBenchmarkFailure_def recordCleanupFailure_def split: option.split)

lemma calm_record:
  assumes "\<And>r. recorder = Some r \<Longrightarrow> recorderLaws recorded r"
  shows "calmCall live recorded (beforeExternalStep recorder a b c)" "calmCall live recorded (afterExternalStep recorder a b c d)"
proof -
  note laws = assms[unfolded recorderLaws_def]
  show "calmCall live recorded (beforeExternalStep recorder a b c)"
    using laws by (cases recorder) (simp_all add: calmCall_def beforeExternalStep_def calm_def onStore_def case_prod_beta)
  show "calmCall live recorded (afterExternalStep recorder a b c d)"
    using laws by (cases recorder) (simp_all add: calmCall_def afterExternalStep_def calm_def onStore_def case_prod_beta)
qed

lemma tame_recordResources:
  assumes "\<And>r. recorder = Some r \<Longrightarrow> recorderLaws recorded r" "\<forall>r \<in> set rs. harmless name r"
  shows "tameAct live recorded name (recordResources recorder rs)"
proof -
  have "tameAct live recorded name (updOutcome (\<lambda>oc. oc\<lparr>oc_Resources := fold upsertResource rs (oc_Resources oc)\<rparr>))"
    using fold_upsert_harmless[OF _ assms(2)] by (simp add: tameAct_def tame_def)
  moreover have "calmCall live recorded (onStore (sr_RecordResources r rs))" if "recorder = Some r" for r
    using assms(1)[OF that] by (intro calm_onStore) (simp add: recorderLaws_def)
  ultimately show ?thesis unfolding recordResources_def by (cases recorder) (auto intro!: tame_rules tame_act)
qed

lemma tame_markResource:
  assumes "\<And>r. recorder = Some r \<Longrightarrow> recorderLaws recorded r" "last i \<noteq> CHR ''y''"
  shows "tameAct live recorded name (markResource recorder i status :: ('c, 'm, 'd, 'r, go_error option) act)"
proof -
  have i: "i \<noteq> topologyID name t" for t using not_topologyID[OF assms(2)] by blast
  have "tame live recorded name v (snd (run_state (markResource recorder i status) v))" for v :: "('c, 'm, 'd, 'r) run"
  proof -
    obtain f ys where rs: "resourceWithStatus i status (oc_Resources (pr_Outcome v)) = (f, ys)" by fastforce
    let ?v = "v\<lparr>pr_Outcome := (pr_Outcome v)\<lparr>oc_Resources := ys\<rparr>\<rparr>"
    have 1: "tame live recorded name v ?v"
      using resourceWithStatus_spec(1)[OF rs i] resourceWithStatus_spec(2)[OF rs] by (simp add: tame_def)
    have 2: "tameAct live recorded name (recordResources recorder [r])" if "f = Some r" for r
      using resourceWithStatus_spec(3)[OF rs that] i by (intro tame_recordResources[OF assms(1)]) (auto simp: harmless_def)
    show ?thesis
    proof (cases f)
      case None
      with 1 rs show ?thesis by (simp add: markResource_def run_bind)
    next
      case (Some r)
      with 1 2 rs show ?thesis by (auto simp: markResource_def run_bind tameAct_def intro: tame_trans)
    qed
  qed
  then show ?thesis by (simp add: tameAct_def)
qed

text \<open>Marking the resources of a type is tame as long as the mark is not that they are cleaned.\<close>

lemma markInstance_run: "run_state (markInstance recorder t status) v =
    run_state (recordResources recorder (fst (resourcesForInstanceStatus t status (oc_Resources (pr_Outcome v)))))
      (v\<lparr>pr_Outcome := (pr_Outcome v)\<lparr>oc_Resources := setStatusOf t status (oc_Resources (pr_Outcome v))\<rparr>\<rparr>)"
  by (simp add: markInstance_def run_bind resourcesForInstanceStatus_def Let_def)

lemma tame_markInstance:
  assumes "\<And>r. recorder = Some r \<Longrightarrow> recorderLaws recorded r" "status \<noteq> runstateResourceCleaned"
  shows "tameAct live recorded name (markInstance recorder t status :: ('c, 'm, 'd, 'r, go_error option) act)"
proof -
  have "tame live recorded name v (snd (run_state (markInstance recorder t status) v))" for v :: "('c, 'm, 'd, 'r) run"
  proof (cases "typed name (oc_Resources (pr_Outcome v))")
    case True
    have "tame live recorded name v (v\<lparr>pr_Outcome := (pr_Outcome v)\<lparr>oc_Resources := setStatusOf t status (oc_Resources (pr_Outcome v))\<rparr>\<rparr>)"
      using typed_setStatus covered_setStatus assms(2) by (simp add: tame_def)
    moreover have "tameAct live recorded name (recordResources recorder (fst (resourcesForInstanceStatus t status (oc_Resources (pr_Outcome v)))))"
      using setStatus_members[OF _ True] assms(2) by (intro tame_recordResources[OF assms(1)]) (auto simp: harmless_def)
    ultimately show ?thesis unfolding markInstance_run tameAct_def by (blast intro: tame_trans)
  next
    case False
    have "calm live recorded (pr_sys v) (pr_sys (snd (run_state (recordResources recorder rs) w)))" if "pr_sys w = pr_sys v" for rs and w :: "('c, 'm, 'd, 'r) run"
      using assms(1) that by (cases recorder) (auto simp: recordResources_def run_bind calm_def recorderLaws_def)
    with False show ?thesis unfolding markInstance_run tame_def
      by (cases recorder) (auto simp: recordResources_def run_bind)
  qed
  then show ?thesis by (simp add: tameAct_def)
qed

end
