(* ===== verification/Orch_Props.thy ===== *)
theory Orch_Props
  imports Orch_Tame
begin

text \<open>
  What a run of the orchestrator leaves behind: every topology that may still exist is in the inventory and in
  the run store, a run that reports no cleanup error under a policy that cleans up has left nothing, and a
  denied quota stops a whole family.
\<close>

section \<open>Calm compositions\<close>

lemma calm_seq [calm_rules]: "calmCall live recorded f \<Longrightarrow> (\<And>x. calmCall live recorded (g x)) \<Longrightarrow>
    calmCall live recorded (\<lambda>s. case f s of (x, s1) \<Rightarrow> g x s1)"
  unfolding calmCall_def case_prod_beta using calm_trans by blast

lemma calm_if [calm_rules]: "calmCall live recorded f \<Longrightarrow> calmCall live recorded g \<Longrightarrow> calmCall live recorded (\<lambda>s. if b then f s else g s)"
  by (cases b) simp_all

lemma calm_option [calm_rules]: "calmCall live recorded f \<Longrightarrow> (\<And>x. calmCall live recorded (g x)) \<Longrightarrow>
    calmCall live recorded (\<lambda>s. case e of None \<Rightarrow> f s | Some x \<Rightarrow> g x s)"
  by (cases e) simp_all

lemma calm_sum [calm_rules]: "(\<And>x. calmCall live recorded (f x)) \<Longrightarrow> (\<And>x. calmCall live recorded (g x)) \<Longrightarrow>
    calmCall live recorded (\<lambda>s. case r of Inl x \<Rightarrow> f x s | Inr x \<Rightarrow> g x s)"
  by (cases r) simp_all

lemma calm_bool [calm_rules]: "calmCall live recorded f \<Longrightarrow> calmCall live recorded g \<Longrightarrow>
    calmCall live recorded (\<lambda>s. case b of True \<Rightarrow> f s | False \<Rightarrow> g s)"
  by (cases b) simp_all

lemma calm_prod [calm_rules]: "(\<And>x y. calmCall live recorded (f x y)) \<Longrightarrow> calmCall live recorded (\<lambda>s. case q of (x, y) \<Rightarrow> f x y s)"
  by (cases q) simp

lemma calm_files [calm_rules]: "keepsIO f \<Longrightarrow> calmCall live recorded (onFiles f)"
  by (intro calm_onFiles) (simp add: keepsIO_def)

definition recorderOK :: "('r \<Rightarrow> string set) \<Rightarrow> 'r StateRecorder option \<Rightarrow> bool" where
  "recorderOK recorded recorder \<longleftrightarrow> (\<forall>r. recorder = Some r \<longrightarrow> recorderLaws recorded r)"

lemma calm_steps [calm_rules]: "recorderOK recorded recorder \<Longrightarrow> calmCall live recorded (beforeExternalStep recorder a b c)"
    "recorderOK recorded recorder \<Longrightarrow> calmCall live recorded (afterExternalStep recorder a b c d)"
  unfolding recorderOK_def by (intro calm_record; simp)+

lemma calm_failMode [calm_rules]: "recorderOK recorded recorder \<Longrightarrow> calmCall live recorded (failMode recorder mode workID e)"
    "recorderOK recorded recorder \<Longrightarrow> calmCall live recorded (succeedMode recorder mode workID)"
  unfolding failMode_def[abs_def] succeedMode_def[abs_def] Let_def by (intro calm_rules; assumption?)+

lemma calm_modeStep: "recorderOK recorded recorder \<Longrightarrow>
    calmCall live recorded (modeStep mx encode recorder cfg dns runner name pair inst family env mc mode)"
  unfolding modeStep_def[abs_def] Let_def by (intro calm_rules keeps_rules; assumption?)+

lemma calm_modeLoop: "(\<And>mode. calmCall live recorded (step mode)) \<Longrightarrow> calmCall live recorded (modeLoop step modes)"
proof (induction modes)
  case Nil
  have "modeLoop step [] = (\<lambda>s. ([], s))" by (simp add: fun_eq_iff)
  then show ?case by (simp add: calm_pure)
next
  case (Cons mode modes)
  have "modeLoop step (mode # modes) = (\<lambda>s. case step mode s of (es, s1) \<Rightarrow> case modeLoop step modes s1 of (rest, s2) \<Rightarrow> (es @ rest, s2))"
    by (simp add: fun_eq_iff)
  moreover have "calmCall live recorded (modeLoop step modes)" "calmCall live recorded (step mode)" using Cons by blast+
  ultimately show ?case by (simp only:) (intro calm_seq calm_pure)
qed

lemma calm_runModeLoop [calm_rules]: "recorderOK recorded recorder \<Longrightarrow>
    calmCall live recorded (runModeLoop mx encode recorder cfg dns runner name pair inst family env mc)"
  unfolding runModeLoop_def[abs_def] by (intro calm_seq calm_modeLoop calm_modeStep calm_pure)

lemma calm_close [calm_rules]: "calmCall live recorded (\<lambda>s. (e, snd (onMachines f s)))"
  by (simp add: calmCall_def calm_def)

lemma calm_withSSH: "(\<And>conn. calmCall live recorded (body conn)) \<Longrightarrow> calmCall live recorded (withSSH mx cfg role host body)"
  unfolding withSSH_def[abs_def] by (intro calm_rules)

lemma calm_waitReady: "calmCall live recorded rest \<Longrightarrow> calmCall live recorded (waitReady cfg role conn rest)"
  unfolding waitReady_def[abs_def] by (intro calm_rules)

lemma calm_runBenchmark [calm_rules]: "recorderOK recorded recorder \<Longrightarrow>
    calmCall live recorded (runBenchmark mx encode recorder cfg dns name pair inst family sh ch rh key)"
proof -
  assume r: "recorderOK recorded recorder"
  have k: "calmCall live recorded (runK8sBenchmark mx encode recorder cfg dns name pair inst family sh ch key)"
    unfolding runK8sBenchmark_def[abs_def] by (intro calm_rules r)
  show ?thesis unfolding runBenchmark_def Let_def using k
    by (auto intro!: calm_withSSH calm_waitReady calm_runModeLoop[OF r])
qed

text \<open>What a run relies on.\<close>

definition lawful :: "('c \<Rightarrow> string set) \<Rightarrow> ('r \<Rightarrow> string set) \<Rightarrow> ('c, 'm, 'd, 'r) Orchestrator \<Rightarrow> ('c, 'm, 'd, 'r) system Provider \<Rightarrow> bool" where
  "lawful live recorded orch p \<longleftrightarrow> providerLaws live recorded p \<and> tailnetLaws live recorded orch \<and> recorderOK recorded (or_recorder orch)"

lemma lawful_recorder: "lawful live recorded orch p \<Longrightarrow> recorderOK recorded (or_recorder orch)"
  by (simp add: lawful_def)

lemma calm_setupK8s:
  assumes "providerLaws live recorded p"
  shows "calmCall live recorded (setupK8s mx cfg dns p net)"
proof (cases "pv_InstallOperator p")
  case None
  then show ?thesis unfolding setupK8s_def[abs_def] Let_def by (simp only: option.case) (intro calm_rules)
next
  case (Some install)
  with assms have "calmCall live recorded (install c)" for c by (simp add: providerLaws_def)
  with Some show ?thesis unfolding setupK8s_def[abs_def] Let_def by (simp only: option.case) (intro calm_rules)
qed

section \<open>The list of instances\<close>

lemma retryLoop_invariant:
  assumes "\<And>s. R s (snd (ctx s))" "\<And>n s. R s (snd (oper n s))" "\<And>d s. R s (snd (wait d s))"
    and trans: "\<And>a b c. R a b \<Longrightarrow> R b c \<Longrightarrow> R a c" and refl: "\<And>s. R s s"
  shows "R s (snd (retryLoop ctx oper retryable wait n m a d r s))"
proof (induction "nat (n + 1 - a)" arbitrary: a d r s rule: less_induct)
  case less
  have c: "ctx x = (e, y) \<Longrightarrow> R x y" and o: "oper k x = (e, y) \<Longrightarrow> R x y" and w: "wait t x = (e, y) \<Longrightarrow> R x y" for x y e k t
    using assms(1-3) by (metis snd_conv)+
  obtain e1 s1 where 1: "ctx s = (e1, s1)" by fastforce
  obtain e2 s2 where 2: "oper a s1 = (e2, s2)" by fastforce
  obtain e3 s3 where 3: "wait d s2 = (e3, s3)" by fastforce
  have r: "R s s1" "R s s2" "R s s3" using c[OF 1] o[OF 2] w[OF 3] trans by blast+
  have "a \<le> n \<Longrightarrow> R s (snd (retryLoop ctx oper retryable wait n m (a + 1) d' r' s3))" for d' r'
    by (rule trans[OF r(3)], rule less) simp
  then have step: "retryable = Some q \<Longrightarrow> \<not> n < a \<Longrightarrow> R s (snd (retryLoop ctx oper (Some q) wait n m (a + 1) d' r' s3))" for q d' r' by simp
  show ?case
    by (subst retryLoop.simps) (auto simp: 1 2 3 Let_def r refl split: option.split intro!: step)
qed

lemma Do_invariant:
  assumes "\<And>s. R s (snd (ctx s))" "\<And>n s. R s (snd (oper n s))" "\<And>d s. R s (snd (done d s))"
    and trans: "\<And>a b c. R a b \<Longrightarrow> R b c \<Longrightarrow> R a c" and refl: "\<And>s. R s s"
  shows "R s (snd (Do done ctx policy (Some oper) retryable None s))"
proof -
  have wait: "R s (snd (waitForTimer done ctx d s))" for d s
    using assms(3)[of s d] assms(1)[of "snd (done d s)"] trans unfolding waitForTimer_def by (cases "done d s") (auto split: bool.split)
  obtain e1 s1 where 1: "ctx s = (e1, s1)" by fastforce
  then have r: "R s s1" using assms(1)[of s] by simp
  have "R s (snd (retryLoop ctx oper retryable (waitForTimer done ctx) n m a d r s1))" for n m a d r
    by (rule trans[OF r], rule retryLoop_invariant[of R, OF assms(1,2) wait trans refl])
  with r show ?thesis by (cases e1) (simp_all add: Do_def 1)
qed

lemma calm_listFamilies:
  fixes p :: "('c, 'm, 'd, 'r) system Provider"
  assumes "providerLaws live recorded p"
  shows "calmCall live recorded (listFamilies env p fams)"
proof (induction fams)
  case Nil
  show ?case by (simp add: calmCall_def)
next
  case (Cons fam fams)
  let ?done = "\<lambda>d st. case onMachines (ev_wait env d) (snd st) of (e, s1) \<Rightarrow> (e \<noteq> None, (fst st, s1))"
  let ?ctx = "\<lambda>st. (ev_ctxErr env (y_machines (snd st)), st)"
  have calmM: "calm live recorded s (snd (onMachines f s))" for s :: "('c, 'm, 'd, 'r) system" and f :: "'m \<Rightarrow> 'x \<times> 'm"
    using calm_onMachines unfolding calmCall_def by blast
  have inv: "calm live recorded (snd st) (snd (snd (Do ?done ?ctx policy (Some (listOperation p fam)) retryable None st)))" for policy retryable and st :: "InstanceInfo list \<times> ('c, 'm, 'd, 'r) system"
  proof (rule Do_invariant[where R = "\<lambda>a b. calm live recorded (snd a) (snd b)"])
    show "calm live recorded (snd s) (snd (snd (listOperation p fam n s)))" for n s
      using assms unfolding listOperation_def providerLaws_def calmCall_def by (auto split: prod.split sum.split) (metis snd_conv)+
  qed (auto simp: case_prod_beta calmM intro: calm_trans)
  have do: "calm live recorded s (snd (snd (Do ?done ?ctx policy (Some (listOperation p fam)) retryable None ([], s))))" for policy retryable s
    using inv[of "([], s)"] by (simp only: snd_conv)
  show ?case unfolding calmCall_def
  proof
    fix s
    let ?d = "Do ?done ?ctx \<lparr>p_Idempotent = True, p_MaxAttempts = 3, p_InitialDelay = second, p_MaxDelay = 2 * second\<rparr>
      (Some (listOperation p fam)) (Some (\<lambda>e. IsTransient (Some e))) None ([], s)"
    have "snd (listFamilies env p (fam # fams) s) = snd (listFamilies env p fams (snd (snd ?d)))"
      by (simp add: case_prod_beta split: option.split)
    moreover have "calm live recorded (snd (snd ?d)) (snd (listFamilies env p fams (snd (snd ?d))))" using Cons.IH unfolding calmCall_def by blast
    ultimately show "calm live recorded s (snd (listFamilies env p (fam # fams) s))" using calm_trans[OF do] by (simp only:)
  qed
qed

lemma calm_unless [calm_rules]: "calmCall live recorded g \<Longrightarrow> calmCall live recorded (\<lambda>s. (x, if b then s else snd (g s)))"
  by (simp add: calmCall_def)

lemma calm_listInstancesCached:
  assumes "providerLaws live recorded p"
  shows "calmCall live recorded (listInstancesCached orch p)"
  unfolding listInstancesCached_def[abs_def] Let_def
  by (intro calm_rules calm_listFamilies[OF assms] keeps_rules)

section \<open>Tame parts of a run\<close>

lemma tame_steps [tame_rules]:
  assumes "lawful live recorded orch p"
  shows "tameAct live recorded name (act (beforeExternalStep (or_recorder orch) a b c))"
    "tameAct live recorded name (act (afterExternalStep (or_recorder orch) a b c d))"
    "tameAct live recorded name (act (pv_DestroyPair p t))"
    "tameAct live recorded name (act (pv_SetupNetworking p))"
    "tameAct live recorded name (act (pv_TeardownNetworking p))"
    "tameAct live recorded name (act (onMachines f))"
    "tameAct live recorded name (act (listInstancesCached orch p))"
    "tameAct live recorded name (act (setupK8s mx cfg dns p net))"
    "tameAct live recorded name (act (runBenchmark mx encode (or_recorder orch) cfg dns pname pair inst family sh ch rh key))"
    "tameAct live recorded name (act (tm_CreateAuthKey (or_tailnet orch) i k))"
    "tameAct live recorded name (act (tm_CleanupStaleDevices (or_tailnet orch) i k pre))"
  using assms
  by (auto intro!: tame_act calm_rules calm_listInstancesCached calm_setupK8s simp: lawful_def providerLaws_def tailnetLaws_def Let_def)

lemma tame_files: "keepsIO f \<Longrightarrow> tameAct live recorded name (act (onFiles f))"
  by (intro tame_act calm_files)

lemma tame_destroyFailed: "lawful live recorded orch p \<Longrightarrow> tameAct live recorded name (destroyFailed p what t)"
  unfolding destroyFailed_def by (intro tame_rules)

lemma tame_measureInstance: "lawful live recorded orch p \<Longrightarrow> tameAct live recorded name (measureInstance orch p net pair inst family names)"
  unfolding measureInstance_def by (intro tame_rules tame_upd; simp)+

lemma tame_refreshAuthKey: "lawful live recorded orch p \<Longrightarrow> tameAct live recorded name (refreshAuthKey orch)"
  unfolding refreshAuthKey_def Let_def by (intro tame_rules tame_upd; simp)+

lemma tame_staleDevices: "lawful live recorded orch p \<Longrightarrow> tameAct live recorded name (staleDevices orch pres)"
  by (induction pres) (auto intro!: tame_rules)

lemma tame_aggregateResults: "lawful live recorded orch p \<Longrightarrow> tameAct live recorded name (aggregateResults orch)"
  unfolding aggregateResults_def Let_def
  by (intro tame_rules tame_files keepsIO_Aggregate) (auto simp: lawful_def tailnetLaws_def keepsIO_def Let_def)

lemma recorderOK_D: "lawful live recorded orch p \<Longrightarrow> or_recorder orch = Some r \<Longrightarrow> recorderLaws recorded r"
  by (simp add: lawful_def recorderOK_def)

lemma networkRecord_harmless: "harmless name ((networkRecord orch p)\<lparr>rd_ProviderID := a, rd_StackName := b, rd_Status := c\<rparr>)"
    "harmless name (networkRecord orch p)"
  using not_topologyID[of "pv_Name p @ ''/networking''" name] by (simp_all add: harmless_def networkRecord_def)

lemma tame_teardownNetworking: "lawful live recorded orch p \<Longrightarrow> tameAct live recorded name (teardownNetworking orch p)"
  unfolding teardownNetworking_def Let_def
  by (intro tame_rules tame_markResource recorderOK_D; simp)+

section \<open>The inventory accounts for the topologies\<close>

text \<open>
  \<open>before\<close> is the set of topologies that existed when the run began. Every other live topology is listed in the
  inventory as not cleaned, and durably recorded when there is a recorder; and as long as nothing has failed to be
  cleaned up and the policy asks for it, the live topologies are within \<open>X\<close>.
\<close>

definition accounted :: "('r \<Rightarrow> string set) \<Rightarrow> ('c, 'm, 'd, 'r) Orchestrator \<Rightarrow> string \<Rightarrow> string \<Rightarrow> ('c, 'm, 'd, 'r) run \<Rightarrow> bool" where
  "accounted recorded orch name t v \<longleftrightarrow> covered name (oc_Resources (pr_Outcome v)) t \<and>
     (or_recorder orch \<noteq> None \<longrightarrow> topologyID name t \<in> recorded (y_store (pr_sys v)))"

definition inOrder :: "('c \<Rightarrow> string set) \<Rightarrow> ('r \<Rightarrow> string set) \<Rightarrow> ('c, 'm, 'd, 'r) Orchestrator \<Rightarrow> string \<Rightarrow> string set \<Rightarrow> string set \<Rightarrow>
    ('c, 'm, 'd, 'r) run \<Rightarrow> bool" where
  "inOrder live recorded orch name before X v \<longleftrightarrow> typed name (oc_Resources (pr_Outcome v)) \<and>
     (\<forall>t \<in> live (y_cloud (pr_sys v)) - before. accounted recorded orch name t v) \<and>
     (oc_CleanupErr (pr_Outcome v) = None \<and> shouldCleanup (c_CleanupPolicy (or_cfg orch)) (oc_BenchmarkErr (pr_Outcome v)) \<longrightarrow>
        live (y_cloud (pr_sys v)) \<subseteq> X)"

definition holding :: "('c \<Rightarrow> string set) \<Rightarrow> ('r \<Rightarrow> string set) \<Rightarrow> ('c, 'm, 'd, 'r) Orchestrator \<Rightarrow> string \<Rightarrow> string set \<Rightarrow> string set \<Rightarrow> string \<Rightarrow>
    ('c, 'm, 'd, 'r) run \<Rightarrow> bool" where
  "holding live recorded orch name before X t v \<longleftrightarrow> inOrder live recorded orch name before X v \<and> accounted recorded orch name t v"

lemma shouldCleanup_mono: "shouldCleanup policy e' \<Longrightarrow> (e' = None \<Longrightarrow> e = None) \<Longrightarrow> shouldCleanup policy e"
  by (auto simp: shouldCleanup_def split: if_splits)

lemma accounted_tame: "accounted recorded orch name t v \<Longrightarrow> typed name (oc_Resources (pr_Outcome v)) \<Longrightarrow> tame live recorded name v v' \<Longrightarrow>
    accounted recorded orch name t v'"
  unfolding accounted_def tame_def calm_def by blast

lemma inOrder_tame:
  assumes "inOrder live recorded orch name before X v" "tame live recorded name v v'"
  shows "inOrder live recorded orch name before X v'"
proof -
  have ty: "typed name (oc_Resources (pr_Outcome v))" "typed name (oc_Resources (pr_Outcome v'))"
    using assms unfolding inOrder_def tame_def by blast+
  have lv: "live (y_cloud (pr_sys v')) \<subseteq> live (y_cloud (pr_sys v))" using assms(2) unfolding tame_def calm_def by blast
  have "accounted recorded orch name t v'" if "t \<in> live (y_cloud (pr_sys v')) - before" for t
    using assms lv that accounted_tame[OF _ ty(1) assms(2)] unfolding inOrder_def by blast
  moreover have "live (y_cloud (pr_sys v')) \<subseteq> X"
    if "oc_CleanupErr (pr_Outcome v') = None" "shouldCleanup (c_CleanupPolicy (or_cfg orch)) (oc_BenchmarkErr (pr_Outcome v'))"
  proof -
    have "oc_CleanupErr (pr_Outcome v) = None" using that(1) assms(2) by (simp add: tame_def)
    moreover have "shouldCleanup (c_CleanupPolicy (or_cfg orch)) (oc_BenchmarkErr (pr_Outcome v))"
      by (rule shouldCleanup_mono[OF that(2)]) (use assms(2) in \<open>simp add: tame_def\<close>)
    ultimately show ?thesis using assms(1) lv unfolding inOrder_def by blast
  qed
  ultimately show ?thesis using ty(2) unfolding inOrder_def by blast
qed

lemma holding_tame:
  assumes "holding live recorded orch name before X t v" "tame live recorded name v v'"
  shows "holding live recorded orch name before X t v'"
proof -
  have "typed name (oc_Resources (pr_Outcome v))" using assms(1) by (simp add: holding_def inOrder_def)
  then show ?thesis using assms inOrder_tame accounted_tame unfolding holding_def by blast
qed

lemma triple_tame: "tameAct live recorded name m \<Longrightarrow> triple (inOrder live recorded orch name before X) m (\<lambda>_. inOrder live recorded orch name before X)"
    "tameAct live recorded name m \<Longrightarrow> triple (holding live recorded orch name before X t) m (\<lambda>_. holding live recorded orch name before X t)"
  unfolding triple_def tameAct_def using inOrder_tame holding_tame by blast+

lemma inOrder_mono: "inOrder live recorded orch name before X v \<Longrightarrow> X \<subseteq> Y \<Longrightarrow> inOrder live recorded orch name before Y v"
  unfolding inOrder_def by blast

lemma inOrder_vacuous: "inOrder live recorded orch name before X v \<Longrightarrow>
    oc_CleanupErr (pr_Outcome v) \<noteq> None \<or> \<not> shouldCleanup (c_CleanupPolicy (or_cfg orch)) (oc_BenchmarkErr (pr_Outcome v)) \<Longrightarrow>
    inOrder live recorded orch name before Y v"
  unfolding inOrder_def by blast

lemma triple_cleanupFailure:
  fixes orch :: "('c, 'm, 'd, 'r) Orchestrator"
  shows "triple (inOrder live recorded orch name before X) (recordCleanupFailure (Some e)) (\<lambda>_. inOrder live recorded orch name before Y)"
  unfolding triple_def
proof (intro allI impI)
  fix v :: "('c, 'm, 'd, 'r) run"
  let ?v = "snd (run_state (recordCleanupFailure (Some e)) v)"
  assume "inOrder live recorded orch name before X v"
  then have "inOrder live recorded orch name before X ?v"
    by (rule inOrder_tame) (rule tame_failure(2)[unfolded tameAct_def, rule_format])
  moreover have "oc_CleanupErr (pr_Outcome ?v) \<noteq> None" by (simp add: recordCleanupFailure_def)
  ultimately show "inOrder live recorded orch name before Y ?v" using inOrder_vacuous by blast
qed

text \<open>A topology is destroyed, or the failure to do so is remembered.\<close>

lemma triple_destroy:
  assumes "lawful live recorded orch p"
  shows "triple (inOrder live recorded orch name before (insert t before)) (act (pv_DestroyPair p t))
    (\<lambda>e v. inOrder live recorded orch name before (insert t before) v \<and>
      (e = None \<longrightarrow> inOrder live recorded orch name before before v \<and> t \<notin> live (y_cloud (pr_sys v))))"
proof -
  have gone: "fst (pv_DestroyPair p t s) = None \<Longrightarrow> t \<notin> live (y_cloud (snd (pv_DestroyPair p t s)))" for s
    using assms unfolding lawful_def providerLaws_def by blast
  have drop: "inOrder live recorded orch name before (insert t before) v \<Longrightarrow> t \<notin> live (y_cloud (pr_sys v)) \<Longrightarrow> inOrder live recorded orch name before before v" for v
    unfolding inOrder_def by blast
  note keep = triple_tame(1)[OF tame_steps(3)[OF assms], of orch name before "insert t before" t, unfolded triple_def]
  show ?thesis unfolding triple_def
  proof (intro allI impI conjI)
    fix v
    let ?v = "snd (run_state (act (pv_DestroyPair p t)) v)"
    assume v: "inOrder live recorded orch name before (insert t before) v"
    show v': "inOrder live recorded orch name before (insert t before) ?v" using keep v by blast
    assume "fst (run_state (act (pv_DestroyPair p t)) v) = None"
    then show g: "t \<notin> live (y_cloud (pr_sys ?v))" using gone by simp
    show "inOrder live recorded orch name before before ?v" by (rule drop[OF v' g])
  qed
qed

lemma triple_destroyFailed:
  assumes "lawful live recorded orch p"
  shows "triple (inOrder live recorded orch name before (insert t before)) (destroyFailed p what t) (\<lambda>_. inOrder live recorded orch name before before)"
proof -
  have "triple (\<lambda>v. inOrder live recorded orch name before (insert t before) v \<and> (e = None \<longrightarrow> inOrder live recorded orch name before before v \<and> t \<notin> live (y_cloud (pr_sys v))))
      (recordCleanupFailure (wrapIfError m e)) (\<lambda>_. inOrder live recorded orch name before before)" for e m
  proof (cases e)
    case None
    show ?thesis by (rule triple_weaken[OF triple_tame(1)[where X = before, OF tame_failure(2)]]) (simp_all add: None)
  next
    case (Some x)
    show ?thesis unfolding Some wrapIfError_def option.map by (rule triple_weaken[OF triple_cleanupFailure]) auto
  qed
  then show ?thesis unfolding destroyFailed_def
    by (intro triple_bind[OF triple_tame(1)[OF tame_resourcesChanged]] triple_bind[OF triple_destroy[OF assms]])
qed

text \<open>The topology is recorded before it is created.\<close>

lemma topologyRecord_harmless: "harmless name (topologyRecord orch p t)" if "name = pv_Name p"
  using that by (simp add: harmless_def topologyRecord_def runstateResource_defs)

lemma recordResources_run: "run_state (recordResources recorder rs) v = (case recorder of
     None \<Rightarrow> (None, v\<lparr>pr_Outcome := (pr_Outcome v)\<lparr>oc_Resources := fold upsertResource rs (oc_Resources (pr_Outcome v))\<rparr>\<rparr>)
   | Some r \<Rightarrow> (wrapIfError ''persist resource inventory'' (fst (onStore (sr_RecordResources r rs) (pr_sys v))),
       v\<lparr>pr_Outcome := (pr_Outcome v)\<lparr>oc_Resources := fold upsertResource rs (oc_Resources (pr_Outcome v))\<rparr>,
         pr_sys := snd (onStore (sr_RecordResources r rs) (pr_sys v))\<rparr>))"
  by (simp add: recordResources_def run_bind split: option.split)

lemma triple_recordTopology:
  fixes orch :: "('c, 'm, 'd, 'r) Orchestrator"
  assumes "lawful live recorded orch p" "name = pv_Name p"
  shows "triple (inOrder live recorded orch name before X) (recordResources (or_recorder orch) [topologyRecord orch p t])
    (\<lambda>e v. inOrder live recorded orch name before X v \<and> (e = None \<longrightarrow> holding live recorded orch name before X t v))"
  unfolding triple_def
proof (intro allI impI)
  fix v :: "('c, 'm, 'd, 'r) run"
  let ?m = "recordResources (or_recorder orch) [topologyRecord orch p t] :: ('c, 'm, 'd, 'r, go_error option) act" let ?v = "snd (run_state ?m v)"
  assume v: "inOrder live recorded orch name before X v"
  have "tameAct live recorded name ?m" using topologyRecord_harmless[OF assms(2)] recorderOK_D[OF assms(1)] by (intro tame_recordResources) auto
  then have v': "inOrder live recorded orch name before X ?v" using inOrder_tame[OF v] by (simp add: tameAct_def)
  have "covered name (oc_Resources (pr_Outcome ?v)) t"
    using covered_upsert_self[OF topologyRecord_harmless[OF assms(2)], of orch t t] assms(2)
    by (cases "or_recorder orch") (simp_all add: recordResources_run topologyRecord_def)
  moreover have "topologyID name t \<in> recorded (y_store (pr_sys ?v))" if "or_recorder orch = Some r" "fst (run_state ?m v) = None" for r
  proof -
    have "fst (sr_RecordResources r [topologyRecord orch p t] (y_store (pr_sys v))) = None" using that by (simp add: recordResources_run)
    moreover have "fst (sr_RecordResources r rs st) = None \<Longrightarrow> rd_ID ` set rs \<subseteq> recorded (snd (sr_RecordResources r rs st))" for rs st
      using recorderOK_D[OF assms(1) that(1)] unfolding recorderLaws_def by blast
    ultimately have "rd_ID ` set [topologyRecord orch p t] \<subseteq> recorded (snd (sr_RecordResources r [topologyRecord orch p t] (y_store (pr_sys v))))" by blast
    then show ?thesis using that(1) assms(2) by (simp add: recordResources_run topologyRecord_def)
  qed
  ultimately show "inOrder live recorded orch name before X ?v \<and> (fst (run_state ?m v) = None \<longrightarrow> holding live recorded orch name before X t ?v)"
    using v' by (auto simp: holding_def accounted_def)
qed

lemma triple_CreatePair:
  fixes orch :: "('c, 'm, 'd, 'r) Orchestrator"
  assumes "lawful live recorded orch p" "po_InstanceType opts = t"
  shows "triple (holding live recorded orch name before before t) (act (pv_CreatePair p opts))
    (\<lambda>_. holding live recorded orch name before (insert t before) t)"
  unfolding triple_def
proof (intro allI impI)
  fix v :: "('c, 'm, 'd, 'r) run"
  let ?s = "pr_sys v" let ?s' = "snd (pv_CreatePair p opts ?s)"
  assume v: "holding live recorded orch name before before t v"
  have laws: "live (y_cloud ?s') \<subseteq> insert t (live (y_cloud ?s))" "recorded (y_store ?s) \<subseteq> recorded (y_store ?s')"
    using assms unfolding lawful_def providerLaws_def by blast+
  then have acc: "accounted recorded orch name t' v \<Longrightarrow> accounted recorded orch name t' (v\<lparr>pr_sys := ?s'\<rparr>)" for t'
    by (auto simp: accounted_def)
  have "accounted recorded orch name t' (v\<lparr>pr_sys := ?s'\<rparr>)" if "t' \<in> live (y_cloud ?s') - before" for t'
    using that v laws(1) acc unfolding holding_def inOrder_def by blast
  moreover have "live (y_cloud ?s') \<subseteq> insert t before"
    if "oc_CleanupErr (pr_Outcome v) = None" "shouldCleanup (c_CleanupPolicy (or_cfg orch)) (oc_BenchmarkErr (pr_Outcome v))"
    using that v laws(1) unfolding holding_def inOrder_def by blast
  moreover have "typed name (oc_Resources (pr_Outcome v))" "accounted recorded orch name t v" using v by (simp_all add: holding_def inOrder_def)
  ultimately show "holding live recorded orch name before (insert t before) t (snd (run_state (act (pv_CreatePair p opts)) v))"
    using acc by (simp add: holding_def inOrder_def)
qed

lemma holding_inOrder: "holding live recorded orch name before X t v \<Longrightarrow> inOrder live recorded orch name before X v"
  by (simp add: holding_def)

lemma triple_creationFailed:
  assumes "lawful live recorded orch p"
  shows "triple (inOrder live recorded orch name before (insert t before)) (creationFailed orch p t quota err) (\<lambda>_. inOrder live recorded orch name before before)"
  unfolding creationFailed_def Let_def
  by (intro triple_bind[OF triple_tame(1)[OF tame_failure(1)]] triple_bind[OF triple_tame(1)[OF tame_steps(2)[OF assms]]]
      triple_bind[OF triple_tame(1)[OF tame_upd]] triple_destroyFailed[OF assms]) simp

lemma triple_markCleaned:
  fixes orch :: "('c, 'm, 'd, 'r) Orchestrator"
  assumes "lawful live recorded orch p"
  shows "triple (\<lambda>v. inOrder live recorded orch name before before v \<and> t \<notin> live (y_cloud (pr_sys v)))
    (markInstance (or_recorder orch) t runstateResourceCleaned) (\<lambda>_. inOrder live recorded orch name before before)"
  unfolding triple_def
proof (intro allI impI)
  fix v :: "('c, 'm, 'd, 'r) run"
  assume v: "inOrder live recorded orch name before before v \<and> t \<notin> live (y_cloud (pr_sys v))"
  let ?rs = "oc_Resources (pr_Outcome v)" let ?new = "fst (resourcesForInstanceStatus t runstateResourceCleaned ?rs)"
  let ?v = "snd (run_state (markInstance (or_recorder orch) t runstateResourceCleaned) v)"
  have ty: "typed name ?rs" using v by (simp add: inOrder_def)
  have res: "oc_Resources (pr_Outcome ?v) = fold upsertResource ?new (setStatusOf t runstateResourceCleaned ?rs)"
      "oc_CleanupErr (pr_Outcome ?v) = oc_CleanupErr (pr_Outcome v)" "oc_BenchmarkErr (pr_Outcome ?v) = oc_BenchmarkErr (pr_Outcome v)"
      "y_cloud (pr_sys ?v) = y_cloud (pr_sys v)"
    unfolding markInstance_run recordResources_run by (simp_all split: option.split)
  have store: "recorded (y_store (pr_sys v)) \<subseteq> recorded (y_store (pr_sys ?v))"
    using recorderOK_D[OF assms] unfolding markInstance_run recordResources_run by (cases "or_recorder orch") (auto simp: recorderLaws_def)
  have other: "\<forall>r \<in> set ?new. \<forall>t'. rd_ID r = topologyID name t' \<longrightarrow> t' = t \<and> rd_InstanceType r = t'"
    using setStatus_members[OF _ ty] by blast
  have upd: "typed name (fold upsertResource new xs) \<and> (\<forall>t'. t' \<noteq> t \<longrightarrow> covered name xs t' \<longrightarrow> covered name (fold upsertResource new xs) t')"
    if "typed name xs" "\<forall>r \<in> set new. \<forall>t'. rd_ID r = topologyID name t' \<longrightarrow> t' = t \<and> rd_InstanceType r = t'" for new xs
    using that
  proof (induction new arbitrary: xs)
    case (Cons r new)
    have "typed name (upsertResource r xs)" using Cons.prems by (intro typed_upsert) auto
    moreover have "covered name (upsertResource r xs) t'" if "t' \<noteq> t" "covered name xs t'" for t'
      using that Cons.prems(2) by (intro covered_upsert_other) auto
    ultimately show ?case using Cons.IH[of "upsertResource r xs"] Cons.prems(2) by simp
  qed simp
  have "accounted recorded orch name t' ?v" if "t' \<in> live (y_cloud (pr_sys v)) - before" for t'
  proof -
    have "t' \<noteq> t" and a: "accounted recorded orch name t' v" using v that unfolding inOrder_def by blast+
    then have "covered name (setStatusOf t runstateResourceCleaned ?rs) t'" by (intro covered_setStatus) (simp_all add: accounted_def)
    then have "covered name (oc_Resources (pr_Outcome ?v)) t'" unfolding res(1) using upd[OF typed_setStatus[OF ty] other] \<open>t' \<noteq> t\<close> by blast
    with a store show ?thesis unfolding accounted_def by blast
  qed
  moreover have "typed name (oc_Resources (pr_Outcome ?v))" unfolding res(1) using upd[OF typed_setStatus[OF ty] other] by blast
  ultimately show "inOrder live recorded orch name before before ?v" using v unfolding inOrder_def res(2-4) by blast
qed

lemma triple_benchFail: "triple (inOrder live recorded orch name before X) (recordBenchmarkFailure e) (\<lambda>_. inOrder live recorded orch name before X)"
  by (rule triple_tame(1)[OF tame_failure(1)])

lemma triple_stop: "triple (inOrder live recorded orch name before X) (do { recordCleanupFailure (Some e); result b }) (\<lambda>_. inOrder live recorded orch name before Y)"
  by (intro triple_bind[OF triple_cleanupFailure] triple_result)

lemma triple_cleanupInstance:
  assumes "lawful live recorded orch p"
  shows "triple (inOrder live recorded orch name before (insert t before)) (cleanupInstance orch p t) (\<lambda>_. inOrder live recorded orch name before before)"
proof -
  let ?J = "inOrder live recorded orch name before"
  have cleaning: "runstateResourceCleaning \<noteq> runstateResourceCleaned" by (simp add: runstateResource_defs)
  note mark = triple_tame(1)[OF tame_markInstance[OF recorderOK_D[OF assms] cleaning]]
  note fin = triple_bind[OF triple_tame(1)[OF tame_failure(2)]] triple_bind[OF triple_tame(1)[OF tame_steps(2)[OF assms]]]
  have failed: "triple (?J (insert t before)) (do { recordCleanupFailure (Some d); e \<leftarrow> act (afterExternalStep (or_recorder orch) a b c m);
      recordCleanupFailure e; result True }) (\<lambda>_. ?J before)" for d a b c m
    by (intro triple_bind[OF triple_cleanupFailure] fin triple_result)
  have cleaned: "triple (\<lambda>v. ?J before v \<and> t \<notin> live (y_cloud (pr_sys v))) (do { e \<leftarrow> markInstance (or_recorder orch) t runstateResourceCleaned;
      recordCleanupFailure e; e \<leftarrow> act (afterExternalStep (or_recorder orch) a b c m); recordCleanupFailure e; result True }) (\<lambda>_. ?J before)" for a b c m
    by (intro triple_bind[OF triple_markCleaned[OF assms]] fin triple_result)
  have destroy: "triple (?J (insert t before)) (do { dErr \<leftarrow> act (pv_DestroyPair p t); case dErr of
       Some d \<Rightarrow> do { recordCleanupFailure (Some (f d)); e \<leftarrow> act (afterExternalStep (or_recorder orch) ''cleanup'' [] ''failed'' (g d)); recordCleanupFailure e; result True }
     | None \<Rightarrow> do { e \<leftarrow> markInstance (or_recorder orch) t runstateResourceCleaned; recordCleanupFailure e;
         e \<leftarrow> act (afterExternalStep (or_recorder orch) ''cleanup'' [] ''succeeded'' m); recordCleanupFailure e; result True } }) (\<lambda>_. ?J before)" for f g m
    by (rule triple_bind[OF triple_destroy[OF assms]], rule triple_option) (auto intro!: triple_weaken[OF failed] triple_weaken[OF cleaned])
  have "triple (\<lambda>v. ?J (insert t before) v \<and> b = oc_BenchmarkErr (pr_Outcome v)) (result True) (\<lambda>_. ?J before)"
    if "\<not> shouldCleanup (c_CleanupPolicy (or_cfg orch)) b" for b
    using that by (intro triple_result) (auto intro: inOrder_vacuous)
  then show ?thesis unfolding cleanupInstance_def Let_def
    apply (intro triple_bind[OF triple_vars])
    apply (rule triple_if, blast)
    apply (rule triple_weaken[where P = "?J (insert t before)"])
      apply (intro triple_bind[OF triple_tame(1)[OF tame_resourcesChanged]] triple_bind[OF mark] triple_option triple_bind[OF triple_tame(1)[OF tame_steps(1)[OF assms]]])
         apply (simp_all add: destroy triple_stop)
    done
qed

lemma pairRecords_harmless: "\<forall>r \<in> set (pairResourceRecords name runID t pair own). harmless name r"
proof -
  have "harmless name r" if "last (rd_ID r) \<noteq> CHR ''y''" for r using not_topologyID[OF that] by (simp add: harmless_def)
  moreover have "harmless name r" if "rd_ID r = topologyID name t" "rd_InstanceType r = t" "rd_Status r = runstateResourceCreated" for r
    using that by (simp add: harmless_def runstateResource_defs)
  ultimately show ?thesis by (simp add: pairResourceRecords_def Let_def)
qed

lemma triple_provisionInstance:
  assumes "lawful live recorded orch p" "name = pv_Name p" "po_InstanceType opts = ii_Type inst"
  shows "triple (inOrder live recorded orch name before before) (provisionInstance orch p net inst family quota names opts)
    (\<lambda>_. inOrder live recorded orch name before before)"
proof -
  let ?J = "inOrder live recorded orch name before" let ?t = "ii_Type inst" let ?B = "insert (ii_Type inst) before"
  let ?H = "\<lambda>X. holding live recorded orch name before X ?t"
  note destroy = triple_destroyFailed[OF assms(1), of name before ?t]
  have failed: "triple (?J ?B) (do { recordBenchmarkFailure e; destroyFailed p what ?t }) (\<lambda>_. ?J before)" for e what
    by (intro triple_bind[OF triple_benchFail] destroy)
  have pairs: "triple (?J ?B) (recordResources (or_recorder orch) (pairResourceRecords (pv_Name p) a ?t pair c)) (\<lambda>_. ?J ?B)" for a pair c
    unfolding assms(2) by (rule triple_tame(1)[OF tame_recordResources[OF recorderOK_D[OF assms(1)] pairRecords_harmless]])
  have tail: "triple (?J ?B) (do { measureInstance orch p net pair inst family names; goOn \<leftarrow> cleanupInstance orch p ?t;
      if goOn then refreshAuthKey orch else result () }) (\<lambda>_. ?J before)" for pair
    by (intro triple_bind[OF triple_tame(1)[OF tame_measureInstance[OF assms(1)]]] triple_bind[OF triple_cleanupInstance[OF assms(1)]] triple_if
        triple_tame(1)[OF tame_refreshAuthKey[OF assms(1)]] triple_result)
  have created: "triple (?J ?B) (do { e \<leftarrow> recordResources (or_recorder orch) (pairResourceRecords (pv_Name p) a ?t pair c);
      case e of Some _ \<Rightarrow> do { recordBenchmarkFailure e; destroyFailed p w1 ?t } | None \<Rightarrow> do {
      e \<leftarrow> act (afterExternalStep (or_recorder orch) x y z w);
      case e of Some _ \<Rightarrow> do { recordBenchmarkFailure e; destroyFailed p w2 ?t } | None \<Rightarrow> do {
      measureInstance orch p net pair inst family names; goOn \<leftarrow> cleanupInstance orch p ?t;
      if goOn then refreshAuthKey orch else result () }}}) (\<lambda>_. ?J before)" for a pair c x y z w w1 w2
    by (intro triple_bind[OF pairs] triple_option triple_bind[OF triple_tame(1)[OF tame_steps(2)[OF assms(1)]]] failed tail)
  show ?thesis unfolding provisionInstance_def Let_def
    apply (rule triple_weaken[where P = "?J ?B" and Q = "\<lambda>_. ?J before"])
      apply (intro triple_bind[OF destroy] triple_bind[OF triple_tame(1)[OF tame_resourcesChanged]] triple_bind[OF triple_recordTopology[OF assms(1,2)]])
      apply (rule triple_option)
       apply (rule triple_weaken[where P = "?H before" and Q = "\<lambda>_. ?J before"])
         apply (intro triple_bind[OF triple_tame(2)[OF tame_steps(1)[OF assms(1)]]] triple_option triple_bind[OF triple_CreatePair[OF assms(1,3)]] triple_sum)
           apply (rule triple_weaken[OF triple_creationFailed[OF assms(1)]]; simp add: holding_inOrder)
          apply (rule triple_weaken[OF created]; simp add: holding_inOrder)
         apply (auto intro: inOrder_mono intro!: triple_weaken[OF triple_benchFail] simp: holding_inOrder)
    done
qed

lemma triple_runInstance:
  assumes "lawful live recorded orch p" "name = pv_Name p"
  shows "triple (inOrder live recorded orch name before before) (runInstance orch p net inst) (\<lambda>_. inOrder live recorded orch name before before)"
proof -
  let ?J = "inOrder live recorded orch name before before"
  have varsk: "triple ?J (vars g) (\<lambda>_. ?J)" for g :: "_ \<Rightarrow> string" by (rule triple_tame(1)[OF tame_result(2)])
  have varsl: "triple ?J (vars g) (\<lambda>_. ?J)" for g :: "_ \<Rightarrow> string list" by (rule triple_tame(1)[OF tame_result(2)])
  show ?thesis unfolding runInstance_def Let_def
    apply (intro triple_bind[OF varsl] triple_if triple_bind[OF triple_tame(1)[OF tame_files[OF keepsIO_pending]]]
        triple_bind[OF triple_tame(1)[OF tame_steps(6)[OF assms(1)]]] triple_bind[OF varsk] triple_sum triple_result triple_benchFail)
      apply (auto intro!: triple_provisionInstance[OF assms] split: prod.split)
    done
qed

lemma triple_instanceLoop:
  assumes "lawful live recorded orch p" "name = pv_Name p"
  shows "triple (inOrder live recorded orch name before before) (instanceLoop orch p net insts) (\<lambda>_. inOrder live recorded orch name before before)"
proof (induction insts)
  case Nil
  show ?case by (simp add: triple_def)
next
  case (Cons inst insts)
  show ?case unfolding instanceLoop.simps
    by (intro triple_bind[OF triple_tame(1)[OF tame_result(2)]] triple_option triple_bind[OF triple_runInstance[OF assms]] Cons.IH
        triple_bind[OF triple_benchFail] triple_result)
qed

lemma triple_runInstances:
  assumes "lawful live recorded orch p" "name = pv_Name p"
  shows "triple (inOrder live recorded orch name before before) (runInstances orch p net) (\<lambda>_. inOrder live recorded orch name before before)"
  unfolding runInstances_def
  by (intro triple_bind[OF triple_if[OF triple_tame(1)[OF tame_staleDevices[OF assms(1)]] triple_tame(1)[OF tame_result(1)]]]
      triple_bind[OF triple_tame(1)[OF tame_steps(7)[OF assms(1)]]] triple_bind[OF triple_benchFail] triple_if triple_sum triple_benchFail
      triple_bind[OF triple_instanceLoop[OF assms]] triple_tame(1)[OF tame_aggregateResults[OF assms(1)]] triple_tame(1)[OF tame_result(1)])

lemma triple_setupAndRun:
  assumes "lawful live recorded orch p" "name = pv_Name p"
  shows "triple (inOrder live recorded orch name before before) (setupAndRun orch p) (\<lambda>_. inOrder live recorded orch name before before)"
proof -
  note rec = triple_tame(1)[OF tame_recordResources[OF recorderOK_D[OF assms(1)]]]
  show ?thesis unfolding setupAndRun_def Let_def
    by (intro triple_bind[OF triple_if[OF triple_tame(1)[OF tame_resourcesChanged] triple_tame(1)[OF tame_result(1)]]]
        triple_bind[OF triple_tame(1)[OF tame_steps(4)[OF assms(1)]]] triple_sum triple_bind[OF triple_benchFail] triple_benchFail
        triple_bind[OF triple_if[OF triple_tame(1)[OF tame_steps(2)[OF assms(1)]] triple_tame(1)[OF tame_result(1)]]]
        triple_bind[OF triple_if[OF rec triple_tame(1)[OF tame_result(1)]]] triple_option triple_runInstances[OF assms])
      (simp_all add: networkRecord_harmless)
qed

lemma triple_runProvider:
  assumes "lawful live recorded orch p" "name = pv_Name p"
  shows "triple (inOrder live recorded orch name before before) (runProvider orch p) (\<lambda>_. inOrder live recorded orch name before before)"
proof -
  note rec = triple_tame(1)[OF tame_recordResources[OF recorderOK_D[OF assms(1)]]]
  show ?thesis unfolding runProvider_def Let_def
    by (intro triple_bind[OF triple_if[OF rec triple_tame(1)[OF tame_result(1)]]] triple_option triple_benchFail triple_if
        triple_bind[OF triple_tame(1)[OF tame_steps(1)[OF assms(1)]]] triple_bind[OF triple_setupAndRun[OF assms]] triple_setupAndRun[OF assms]
        triple_tame(1)[OF tame_teardownNetworking[OF assms(1)]]) (simp_all add: networkRecord_harmless)
qed

section \<open>The whole run\<close>

text \<open>The state before the provider runs: no topology beyond those that existed, and no record of one.\<close>

definition untouched :: "('c \<Rightarrow> string set) \<Rightarrow> string \<Rightarrow> string set \<Rightarrow> ('c, 'm, 'd, 'r) run \<Rightarrow> bool" where
  "untouched live name before v \<longleftrightarrow> live (y_cloud (pr_sys v)) \<subseteq> before \<and> typed name (oc_Resources (pr_Outcome v))"

lemma untouched_inOrder: "untouched live name before v \<Longrightarrow> inOrder live recorded orch name before before v"
  by (auto simp: untouched_def inOrder_def)

lemma triple_untouched: "tameAct live recorded name m \<Longrightarrow> triple (untouched live name before) m (\<lambda>_. untouched live name before)"
  unfolding triple_def tameAct_def tame_def calm_def untouched_def by blast

lemma triple_callProvider:
  fixes orch :: "('c, 'm, 'd, 'r) Orchestrator"
  assumes "lawful live recorded orch p" "name = pv_Name p"
  shows "triple (untouched live name before) (do { out \<leftarrow> callProvider orch p; updOutcome (\<lambda>oc. Outcome_merge oc out) })
    (\<lambda>_. inOrder live recorded orch name before before)"
  unfolding triple_def
proof (intro allI impI)
  fix v :: "('c, 'm, 'd, 'r) run"
  assume v: "untouched live name before v"
  let ?in = "v\<lparr>pr_Outcome := noOutcome, pr_skippedFamilies := [], pr_k8sSetupComplete := False\<rparr>"
  obtain u w where run: "run_state (runProvider orch p) ?in = (u, w)" by (rule prod.exhaust)
  have "inOrder live recorded orch name before before ?in"
    using v by (intro untouched_inOrder) (simp add: untouched_def typed_def noOutcome_def)
  from tripleD[OF triple_runProvider[OF assms] this run] have w: "inOrder live recorded orch name before before w" .
  define v' where "v' = snd (run_state (do { out \<leftarrow> callProvider orch p; updOutcome (\<lambda>oc. Outcome_merge oc out) }) v)"
  have res: "pr_Outcome v' = Outcome_merge (pr_Outcome v) (pr_Outcome w)" "pr_sys v' = pr_sys w"
    unfolding v'_def by (simp_all add: run_bind callProvider_def run)
  have "covered name (oc_Resources (pr_Outcome w)) t \<Longrightarrow> covered name (oc_Resources (pr_Outcome v')) t" for t
    by (auto simp: res covered_def Outcome_merge_def)
  moreover have "typed name (oc_Resources (pr_Outcome v'))"
    using v w by (auto simp: res typed_def Outcome_merge_def untouched_def inOrder_def)
  moreover have "oc_CleanupErr (pr_Outcome v') = None \<Longrightarrow> oc_CleanupErr (pr_Outcome w) = None"
    "oc_BenchmarkErr (pr_Outcome v') = None \<Longrightarrow> oc_BenchmarkErr (pr_Outcome w) = None" by (simp_all add: res Outcome_merge_def)
  ultimately have "tame live recorded name w v'" by (simp add: tame_def res)
  then show "inOrder live recorded orch name before before (snd (run_state (do { out \<leftarrow> callProvider orch p; updOutcome (\<lambda>oc. Outcome_merge oc out) }) v))"
    unfolding v'_def[symmetric] by (rule inOrder_tame[OF w])
qed

lemma inOrder_cong: "or_recorder orch' = or_recorder orch \<Longrightarrow> c_CleanupPolicy (or_cfg orch') = c_CleanupPolicy (or_cfg orch) \<Longrightarrow>
    inOrder live recorded orch' name before X = inOrder live recorded orch name before X"
  by (simp add: fun_eq_iff inOrder_def accounted_def)

text \<open>An orchestrator that only differs in the tailnet it has joined.\<close>

definition sameRun :: "('c, 'm, 'd, 'r) Orchestrator \<Rightarrow> ('c, 'm, 'd, 'r) Orchestrator \<Rightarrow> bool" where
  "sameRun orch orch' \<longleftrightarrow> orch' = orch\<lparr>or_tailnetDNS := or_tailnetDNS orch', or_cfg := or_cfg orch'\<rparr> \<and>
     c_CleanupPolicy (or_cfg orch') = c_CleanupPolicy (or_cfg orch)"

lemma sameRun_fields: "sameRun orch orch' \<Longrightarrow> or_recorder orch' = or_recorder orch \<and> or_providers orch' = or_providers orch \<and> or_tailnet orch' = or_tailnet orch \<and>
    or_tsnetUp orch' = or_tsnetUp orch \<and> or_tsnetClose orch' = or_tsnetClose orch \<and> or_codec orch' = or_codec orch \<and>
    c_CleanupPolicy (or_cfg orch') = c_CleanupPolicy (or_cfg orch)"
  unfolding sameRun_def by (metis (no_types, lifting) Orchestrator.select_convs Orchestrator.surjective Orchestrator.update_convs(1,4))

lemma sameRun_intros: "sameRun orch orch" "sameRun orch (withTailnet info orch)" "sameRun orch (orch\<lparr>or_tailnetDNS := d\<rparr>)"
  by (simp_all add: sameRun_def withTailnet_def)

lemma lawful_sameRun: "lawful live recorded orch p \<Longrightarrow> sameRun orch orch' \<Longrightarrow> lawful live recorded orch' p"
  using sameRun_fields[of orch orch'] by (simp add: lawful_def tailnetLaws_def Let_def)

definition returns :: "('a \<Rightarrow> bool) \<Rightarrow> ('v, 'a) state \<Rightarrow> bool" where
  "returns P m \<longleftrightarrow> (\<forall>v. P (fst (run_state m v)))"

lemma returns_rules: "P x \<Longrightarrow> returns P (result x)" "(\<And>y. returns P (f y)) \<Longrightarrow> returns P (State_Monad.bind m f)"
    "returns P m1 \<Longrightarrow> returns P m2 \<Longrightarrow> returns P (if b then m1 else m2)"
    "returns P m1 \<Longrightarrow> (\<And>y. returns P (g y)) \<Longrightarrow> returns P (case e of None \<Rightarrow> m1 | Some y \<Rightarrow> g y)"
    "(\<And>y. returns P (h y)) \<Longrightarrow> (\<And>y. returns P (k y)) \<Longrightarrow> returns P (case r of Inl y \<Rightarrow> h y | Inr y \<Rightarrow> k y)"
  unfolding returns_def run_bind by (auto split: option.split sum.split)

lemma returns_tailnet: "returns (\<lambda>r. sameRun orch (fst r)) (createTailnet orch)" "returns (\<lambda>r. sameRun orch (fst r)) (reuseTailnet orch info)"
  unfolding createTailnet_def reuseTailnet_def Let_def by (intro returns_rules; simp add: sameRun_intros)+

lemma tame_updOutcome_fail: "tameAct live recorded name (updOutcome (\<lambda>oc. oc\<lparr>oc_BenchmarkErr := Some e\<rparr>))"
  by (simp add: tameAct_def tame_def)

lemma tame_tailnet:
  assumes "lawful live recorded orch p"
  shows "tameAct live recorded name (act (tm_CreateTailnet (or_tailnet orch) n))" "tameAct live recorded name (act (tm_DeleteTailnet (or_tailnet orch) n))"
    "tameAct live recorded name (act (tm_SetupACL (or_tailnet orch) i k a b))" "tameAct live recorded name (act (tm_EnableHTTPS (or_tailnet orch) i k))"
    "tameAct live recorded name (act (or_tsnetUp orch d k))" "tameAct live recorded name (act (or_tsnetClose orch))"
  using assms by (cases d; auto intro!: tame_act simp: lawful_def tailnetLaws_def Let_def)+

lemma tame_acl:
  assumes "lawful live recorded orch p"
  shows "tameAct live recorded name (setupACL orch)" "tameAct live recorded name (enableHTTPS orch)" "tameAct live recorded name (aclThenHTTPS orch)"
proof -
  show 1: "tameAct live recorded name (setupACL orch)" unfolding setupACL_def by (intro tame_rules tame_tailnet[OF assms])
  show 2: "tameAct live recorded name (enableHTTPS orch)" unfolding enableHTTPS_def by (intro tame_rules tame_tailnet[OF assms])
  show "tameAct live recorded name (aclThenHTTPS orch)" unfolding aclThenHTTPS_def by (intro tame_rules 1 2)
qed

lemma tailnetRecord_harmless: "harmless name (tailnetRecord orch)" "harmless name ((tailnetRecord orch)\<lparr>rd_ProviderID := a, rd_Status := b\<rparr>)"
  using not_topologyID[of "''tailscale/tailnet''" name] by (simp_all add: harmless_def tailnetRecord_def)

lemma tame_createTailnet:
  assumes "lawful live recorded orch p"
  shows "tameAct live recorded name (createTailnet orch)" "tameAct live recorded name (reuseTailnet orch info)"
proof -
  note laws' = lawful_sameRun[OF assms sameRun_intros(2)]
  have rec: "tameAct live recorded name (recordResources (or_recorder orch) [r])" if "harmless name r" for r
    using that by (intro tame_recordResources[OF recorderOK_D[OF assms]]) simp_all
  have save: "calmCall live recorded (\<lambda>s. case onFiles (saveTailnetState (or_codec orch) q i) s of (x, s1) \<Rightarrow> (errOf x, s1))" for q i
    by (intro calm_rules keeps_rules)
  show "tameAct live recorded name (createTailnet orch)" unfolding createTailnet_def Let_def
    by (intro tame_rules rec tame_tailnet[OF assms] tame_steps[OF assms] tame_acl[OF laws'] tame_updOutcome_fail tame_act[OF save])
      (simp_all add: tailnetRecord_harmless)
  show "tameAct live recorded name (reuseTailnet orch info)" unfolding reuseTailnet_def by (intro tame_rules tame_acl[OF laws'])
qed

lemma triple_joinAndRun:
  assumes "lawful live recorded orch p" "or_providers orch = [p]" "name = pv_Name p"
  shows "triple (untouched live name before) (joinAndRun orch) (\<lambda>_. inOrder live recorded orch name before before)"
proof -
  have "triple (untouched live name before) (runAllProviders orch) (\<lambda>_. inOrder live recorded orch name before before)"
    unfolding runAllProviders_def assms(2) list.case by (rule triple_callProvider[OF assms(1,3)])
  then have run: "triple (untouched live name before) (do { runAllProviders orch; e \<leftarrow> act (or_tsnetClose orch); recordCleanupFailure (wrapIfError m e) })
      (\<lambda>_. inOrder live recorded orch name before before)" for m
    by (rule triple_bind) (intro triple_bind[OF triple_tame(1)[OF tame_tailnet(6)[OF assms(1)]]] triple_tame(1)[OF tame_failure(2)])
  note u = triple_untouched[where name = name and before = before]
  have fail: "triple (untouched live name before) (recordBenchmarkFailure e) (\<lambda>_. inOrder live recorded orch name before before)" for e
    by (rule triple_weaken[OF u[OF tame_failure(1)]]) (auto intro: untouched_inOrder)
  show ?thesis unfolding joinAndRun_def Let_def
    by (intro triple_bind[OF u[OF tame_resourcesChanged]] triple_bind[OF u[OF tame_steps(10)[OF assms(1)]]] triple_sum fail
        triple_bind[OF u[OF tame_steps(6)[OF assms(1)]]] triple_bind[OF u[OF tame_upd]] triple_bind[OF u[OF tame_tailnet(5)[OF assms(1)]]] triple_option run) simp_all
qed

lemma tame_deleteTailnet:
  assumes "lawful live recorded orch p"
  shows "tameAct live recorded name (deleteTailnet orch)"
  unfolding deleteTailnet_def Let_def
  by (intro tame_rules tame_markResource[OF recorderOK_D[OF assms]] tame_tailnet[OF assms] tame_steps[OF assms] tame_files keeps_rules) simp_all

lemma triple_runOwnTailnet:
  assumes "lawful live recorded orch p" "or_providers orch = [p]" "name = pv_Name p"
  shows "triple (untouched live name before) (runOwnTailnet orch) (\<lambda>_. inOrder live recorded orch name before before)"
proof -
  let ?J = "inOrder live recorded orch name before before"
  note u = triple_untouched[where name = name and before = before]
  have joined: "triple (untouched live name before) (case loaded of
        Inr info \<Rightarrow> if c_RunID (or_cfg orch) = [] then reuseTailnet orch info else createTailnet orch | Inl _ \<Rightarrow> createTailnet orch)
      (\<lambda>j v. untouched live name before v \<and> sameRun orch (fst j))" for loaded
  proof -
    have 1: "triple (untouched live name before) m (\<lambda>j v. untouched live name before v \<and> sameRun orch (fst j))"
      if "tameAct live recorded name m" "returns (\<lambda>j. sameRun orch (fst j)) m" for m
      using u[OF that(1)] that(2) unfolding triple_def returns_def by blast
    show ?thesis by (intro triple_sum triple_if 1 tame_createTailnet[OF assms(1)] returns_tailnet)
  qed
  have rest: "triple (\<lambda>v. untouched live name before v \<and> sameRun orch (fst j))
      (do { (if snd j then joinAndRun (fst j) else result ()); if b then deleteTailnet (fst j) else result () }) (\<lambda>_. ?J)" for j b
  proof (cases "sameRun orch (fst j)")
    case True
    note laws = lawful_sameRun[OF assms(1) True]
    have eq: "inOrder live recorded (fst j) name before before = ?J" using sameRun_fields[OF True] by (intro inOrder_cong) simp_all
    have run: "triple (untouched live name before) (joinAndRun (fst j)) (\<lambda>_. ?J)"
      using triple_joinAndRun[OF laws _ assms(3), of before] sameRun_fields[OF True] assms(2) unfolding eq by simp
    have skip: "triple (untouched live name before) (result ()) (\<lambda>_. ?J)" by (rule triple_result) (rule untouched_inOrder)
    show ?thesis
      by (rule triple_weaken[where P = "untouched live name before" and Q = "\<lambda>_. ?J"],
          intro triple_bind[OF triple_if[OF run skip]] triple_if triple_tame(1)[OF tame_deleteTailnet[OF laws]] triple_tame(1)[OF tame_result(1)]) simp_all
  qed (simp add: triple_def)
  show ?thesis unfolding runOwnTailnet_def
    by (intro triple_bind[OF u[OF tame_files[OF keepsIO_cache(3)]]] triple_bind[OF joined] rest)
qed

lemma triple_runWithTailnet:
  assumes "lawful live recorded orch p" "or_providers orch = [p]" "name = pv_Name p"
  shows "triple (untouched live name before) (runWithTailnet orch) (\<lambda>_. inOrder live recorded orch name before before)"
proof -
  note laws = lawful_sameRun[OF assms(1) sameRun_intros(3)]
  have eq: "inOrder live recorded (orch\<lparr>or_tailnetDNS := d\<rparr>) name before before = inOrder live recorded orch name before before" for d by (intro inOrder_cong) simp_all
  have join: "triple (untouched live name before) (joinAndRun (orch\<lparr>or_tailnetDNS := d\<rparr>)) (\<lambda>_. inOrder live recorded orch name before before)" for d
    using triple_joinAndRun[OF laws _ assms(3), of d before] assms(2) unfolding eq by simp
  have skip: "triple (untouched live name before) (result ()) (\<lambda>_. inOrder live recorded orch name before before)" by (rule triple_result) (rule untouched_inOrder)
  have all: "triple (untouched live name before) (runAllProviders orch) (\<lambda>_. inOrder live recorded orch name before before)"
    unfolding runAllProviders_def assms(2) list.case by (rule triple_callProvider[OF assms(1,3)])
  show ?thesis unfolding runWithTailnet_def Let_def
    by (intro triple_if all triple_runOwnTailnet[OF assms] triple_bind[OF triple_untouched[OF tame_acl(3)[OF laws]]] join skip)
qed

text \<open>What holds when a run with one provider returns.\<close>

lemma RunWithOutcome_inOrder:
  assumes "lawful live recorded orch p" "or_providers orch = [p]" "RunWithOutcome orch s = (oc, s')"
  shows "\<exists>v. inOrder live recorded orch (pv_Name p) (live (y_cloud s)) (live (y_cloud s)) v \<and> pr_Outcome v = oc \<and> pr_sys v = s'"
proof -
  let ?start = "\<lambda>s. \<lparr>pr_Outcome = noOutcome, pr_skippedFamilies = [], pr_k8sSetupComplete = False, pr_authKey = [], pr_authKeyCreated = 0, pr_sys = s\<rparr>"
  have idle: "\<exists>v. inOrder live recorded orch (pv_Name p) (live (y_cloud s)) (live (y_cloud s)) v \<and> pr_Outcome v = oc \<and> pr_sys v = s'"
    if "oc_Resources oc = []" "y_cloud s' = y_cloud s"
    using that by (intro exI[of _ "(?start s')\<lparr>pr_Outcome := oc\<rparr>"]) (simp add: inOrder_def typed_def)
  show ?thesis
  proof (cases "c_DryRun (or_cfg orch)")
    case True
    with assms(3) have "oc = noOutcome" "s' = s" by (simp_all add: RunWithOutcome_def)
    then show ?thesis by (intro idle) (simp_all add: noOutcome_def)
  next
    case False
    obtain r s1 where d: "(if IsRemoteBackend (c_StateBackend (or_cfg orch)) then (Inr (), s)
        else onFiles (os_MkdirAll (Clean (TrimPrefix (c_StateDir (or_cfg orch)) ''file://''))) s) = (r, s1)" by (rule prod.exhaust)
    then have cl: "y_cloud s1 = y_cloud s" by (metis onFiles_frame(1) snd_conv)
    show ?thesis
    proof (cases r)
      case (Inl e)
      with assms(3) False d cl idle show ?thesis by (auto simp: RunWithOutcome_def noOutcome_def Let_def)
    next
      case (Inr u)
      obtain x v where run: "run_state (runWithTailnet orch) (?start s1) = (x, v)" by (rule prod.exhaust)
      have "untouched live (pv_Name p) (live (y_cloud s)) (?start s1)" by (simp add: untouched_def cl noOutcome_def typed_def)
      from tripleD[OF triple_runWithTailnet[OF assms(1,2) refl] this run] have "inOrder live recorded orch (pv_Name p) (live (y_cloud s)) (live (y_cloud s)) v" .
      moreover have "pr_Outcome v = oc" "pr_sys v = s'" using assms(3) False d run Inr by (simp_all add: RunWithOutcome_def Let_def)
      ultimately show ?thesis by blast
    qed
  qed
qed

end
