(* ===== verification/Orch_Theorems.thy ===== *)
theory Orch_Theorems
  imports Orch_Props Bench_Props
begin

text \<open>
  A small system on which the properties of the orchestrator are exercised: a Kubernetes provider whose cloud is
  the list of existing topologies, machines that cannot be reached, and a disk on which every call fails.
\<close>

definition demoConfig :: Config where
  "demoConfig = \<lparr>c_Providers = [''eks''], c_Family = ''c7i'', c_Filter = [], c_CreateTailnet = False, c_TailnetDNSName = [], c_OAuthClientID = [],
     c_OAuthClientSecret = [], c_Tag = [], c_IPerfDuration = 0, c_IPerfParallel = 0, c_IPerfIterations = 0, c_MTRCycles = 0, c_CooldownSec = 0,
     c_CreditRetrySec = 0, c_SSHTimeout = 0, c_ReadyTimeout = 0, c_AWSRegion = [], c_AWSAZ = [], c_AWSKeyName = [], c_GCPProject = [], c_GCPZone = [],
     c_AzureLocation = [], c_AzureResourceGroup = [], c_AzureSSHUser = [], c_AzureSSHPubKey = [], c_CleanupNetworking = True, c_DryRun = False,
     c_AuthKeyRefreshSec = 0, c_RootDir = ''r'', c_StateDir = [], c_StateBackend = ''s3://b'', c_BenchImage = [], c_TSImage = [], c_FortioDuration = 0,
     c_FortioConnections = 0, c_FortioQPS = 0, c_FortioIterations = 0, c_PPSDatagramSizes = [], c_PPSLossThresholdPct = 0, c_PPSDurationSec = 0,
     c_PPSMaxRatePPS = 0, c_Modes = [''l4-kernel''], c_IngressFQDN = [], c_ServeFQDN = [], c_ClusterLabel = [], c_Yes = True, c_MaxCostUSD = 0,
     c_MaxCostSet = False, c_MaxDuration = 0, c_MaxInstanceTypes = 0, c_MaxConcurrentResources = 0, c_CleanupPolicy = ''always'', c_RunID = [],
     c_ResourceExpiresAt = []\<rparr>"

type_synonym 'r demoSystem = "(string list, unit, unit, 'r) system"

definition demoDisk :: "unit world" where
  "demoDisk = \<lparr>w_fs = (\<lambda>_. None), w_fault = (\<lambda>_. Some (Fault (Sentinel EOF) NoBytes)), w_calls = 0, w_rand = (\<lambda>_. 0), w_draws = 0, w_clock = (\<lambda>_. 0), w_ticks = 0\<rparr>"

definition demoSys :: "'r \<Rightarrow> 'r demoSystem" where
  "demoSys store = \<lparr>y_cloud = [], y_machines = (), y_disk = demoDisk, y_store = store\<rparr>"

text \<open>Creation times out and leaves a topology behind; \<open>stuck\<close> tells whether the cloud refuses to destroy it.\<close>

definition demoProvider :: "bool \<Rightarrow> 'r demoSystem Provider" where
  "demoProvider stuck = \<lparr>pv_Name = ''eks'', pv_SetupNetworking = (\<lambda>s. (Inr \<lparr>no_Values = [(''kubeconfig'', ''k'')], no_StackName = [], no_ProviderID = []\<rparr>, s)),
     pv_CreatePair = (\<lambda>opts s. (Inl (ErrText ''timeout''), s\<lparr>y_cloud := po_InstanceType opts # y_cloud s\<rparr>)),
     pv_DestroyPair = (\<lambda>t s. if stuck then (Some (ErrText ''busy''), s) else (None, s\<lparr>y_cloud := filter (\<lambda>x. x \<noteq> t) (y_cloud s)\<rparr>)),
     pv_TeardownNetworking = (\<lambda>s. (None, s)), pv_ListFamilies = [], pv_ListInstances = (\<lambda>fam s. (Inr [\<lparr>ii_Type = ''c7i.large'', ii_Family = fam, ii_VCPUs = 2\<rparr>], s)),
     pv_IsQuotaError = (\<lambda>_. False), pv_RunScopedResources = Some True, pv_ManagesNetworking = Some False, pv_InstallOperator = None\<rparr>"

definition demoRecorder :: "string list StateRecorder" where
  "demoRecorder = \<lparr>sr_BeforeExternalStep = (\<lambda>_ _ _ r. (None, r)), sr_AfterExternalStep = (\<lambda>_ _ _ _ r. (None, r)),
     sr_RecordResources = (\<lambda>rs r. (None, map rd_ID rs @ r))\<rparr>"

definition demoMachines :: "unit Machines" where
  "demoMachines = \<lparr>mx_Env = silentEnv, mx_Decoders = echoDecoders, mx_Atoi = (\<lambda>_. None), mx_Dial = (\<lambda>_ _ m. (Inl (ErrText ''refused''), m)), mx_K8sBuild = False,
     mx_K8s = \<lparr>k8_Clientset = (\<lambda>_. None), k8_DiscoverIngressFQDN = (\<lambda>_ _ m. (([], None), m)), k8_DiscoverServiceLBFQDN = (\<lambda>_ _ m. (([], None), m)),
       k8_DiscoverPodIP = (\<lambda>_ _ m. (Inr [], m)), k8_DiscoverPodName = (\<lambda>_ _ m. (Inr [], m)), k8_NewExecutor = (\<lambda>_ _ _ _. Inl (Sentinel EOF)),
       k8_DeployProxyGroup = (\<lambda>_ _ _ m. (None, m)), k8_RolloutState = (\<lambda>_ m. (Inl (Sentinel EOF), m)), k8_WaitForProxyGroupReady = (\<lambda>_ _ _ _ m. (None, m)),
       k8_EnsureEgressService = (\<lambda>_ _ _ _ _ m. (Inr [], m)), k8_CPUBound = (\<lambda>_ m. (False, m)), k8_DeployL7Bench = (\<lambda>_ _ m. (None, m))\<rparr>\<rparr>"

definition demoOrchestrator :: "'r StateRecorder \<Rightarrow> bool \<Rightarrow> (string list, unit, unit, 'r) Orchestrator" where
  "demoOrchestrator recorder stuck = \<lparr>or_cfg = demoConfig, or_providers = [demoProvider stuck],
     or_tailnet = \<lparr>tm_CreateTailnet = (\<lambda>_ s. (Inl (Sentinel EOF), s)), tm_DeleteTailnet = (\<lambda>_ s. (None, s)), tm_SetupACL = (\<lambda>_ _ _ _ s. (None, s)),
       tm_EnableHTTPS = (\<lambda>_ _ s. (None, s)), tm_CreateAuthKey = (\<lambda>_ _ s. (Inr ''key'', s)), tm_CleanupStaleDevices = (\<lambda>_ _ _ s. (Inr 0, s))\<rparr>,
     or_tailnetDNS = [], or_recorder = Some recorder, or_machines = demoMachines,
     or_codec = \<lparr>cd_Result = (\<lambda>_. ()), cd_Instances = (\<lambda>_. ()), cd_decodeInstances = (\<lambda>_. Inl (Sentinel EOF)), cd_Tailnet = (\<lambda>_. ()),
       cd_decodeTailnet = (\<lambda>_. Inl (Sentinel EOF)), cd_Walk = (\<lambda>_. ret []), cd_Order = id, cd_Aggregate = (\<lambda>_. ()), cd_Prices = emptyDataset\<rparr>,
     or_Render = (\<lambda>_. Inr []), or_Compile = (\<lambda>_. Inl (Sentinel EOF)), or_tsnetUp = (\<lambda>_ _ s. (None, s)), or_tsnetClose = (\<lambda>s. (None, s)), or_Advice = []\<rparr>"

text \<open>Every call fails on the disk and only counts.\<close>

definition deadDisk :: "nat \<Rightarrow> unit world" where
  "deadDisk n = demoDisk\<lparr>w_calls := n\<rparr>"

lemma dead_syscall: "syscall (\<lambda>_ w. w) f (deadDisk n) = (Inl (Sentinel EOF), deadDisk (Suc n))"
  by (simp add: syscall_def deadDisk_def demoDisk_def)

lemma dead_calls: "os_Stat p (deadDisk n) = (Inl (Sentinel EOF), deadDisk (Suc n))" "os_Mkdir p (deadDisk n) = (Inl (Sentinel EOF), deadDisk (Suc n))"
    "exists p (deadDisk n) = (False, deadDisk (Suc n))"
  by (simp_all add: os_Stat_def os_Mkdir_def exists_def dead_syscall)

lemma dead_MkdirAll: "\<exists>m. os_MkdirAll p (deadDisk n) = (Inl (Sentinel EOF), deadDisk m)"
proof -
  have "\<exists>m. mkdirAll r cs (deadDisk n) = (Inl (Sentinel EOF), deadDisk m)" for r cs n
  proof (induction cs arbitrary: n)
    case (Cons c cs)
    from Cons.IH[of "Suc n"] obtain m where "mkdirAll r cs (deadDisk (Suc n)) = (Inl (Sentinel EOF), deadDisk m)" by blast
    then show ?case by (subst mkdirAll.simps) (auto simp: dead_calls)
  qed (subst mkdirAll.simps, auto simp: dead_calls)
  then show ?thesis by (simp add: os_MkdirAll_def)
qed

definition demoInstance :: InstanceInfo where
  "demoInstance = \<lparr>ii_Type = ''c7i.large'', ii_Family = ''c7i'', ii_VCPUs = 2\<rparr>"

lemma demo_list:
  assumes "y_disk s = deadDisk n"
  shows "\<exists>m. listInstancesCached (demoOrchestrator recorder stuck) (demoProvider stuck) s = (([demoInstance], None), s\<lparr>y_disk := deadDisk m\<rparr>)"
proof -
  have fam: "listFamilies silentEnv (demoProvider stuck) [''c7i''] s = (([demoInstance], []), s)"
    by (simp add: Do_def silentEnv_def attemptLimit_def retryLoop.simps listOperation_def demoProvider_def demoInstance_def)
  obtain m where mk: "os_MkdirAll (path_parent (instanceCachePath ''eks'' ''c7i'')) (deadDisk n) = (Inl (Sentinel EOF), deadDisk m)" using dead_MkdirAll by blast
  have "listInstancesCached (demoOrchestrator recorder stuck) (demoProvider stuck) s = (([demoInstance], None), s\<lparr>y_disk := deadDisk m\<rparr>)"
    unfolding listInstancesCached_def Let_def
    using fam by (simp add: demoOrchestrator_def demoConfig_def demoMachines_def demoProvider_def onFiles_def writeInstanceCache_def assms mk errors_Join_def)
  then show ?thesis by blast
qed

lemma demo_pending: "pendingModesForInstance ''r'' ''eks'' family t [''l4-kernel''] ''container'' (deadDisk n) = ([''l4-kernel''], deadDisk (n + 2))"
  by (simp add: ModeAppliesTo_def dead_calls)

lemma demo_select [simp]: "or_cfg (demoOrchestrator recorder stuck) = demoConfig" "or_recorder (demoOrchestrator recorder stuck) = Some recorder"
    "or_providers (demoOrchestrator recorder stuck) = [demoProvider stuck]" "or_machines (demoOrchestrator recorder stuck) = demoMachines" "pv_Name (demoProvider stuck) = ''eks''" "providerRunScoped (demoProvider stuck) = True"
    "sr_BeforeExternalStep demoRecorder a b c r = (None, r)" "sr_AfterExternalStep demoRecorder a b c d r = (None, r)"
    "sr_RecordResources demoRecorder rs r = (None, map rd_ID rs @ r)" "pv_IsQuotaError (demoProvider stuck) e = False"
    "ii_Type demoInstance = ''c7i.large''" "pv_CreatePair (demoProvider stuck) opts s = (Inl (ErrText ''timeout''), s\<lparr>y_cloud := po_InstanceType opts # y_cloud s\<rparr>)"
    "pv_DestroyPair (demoProvider stuck) t s = (if stuck then (Some (ErrText ''busy''), s) else (None, s\<lparr>y_cloud := filter (\<lambda>x. x \<noteq> t) (y_cloud s)\<rparr>))"
    "mx_Env demoMachines = silentEnv" "wrapIfError what None = None" "wrapIfError what (Some e) = Some (Wrapf (what @ '': '') e [])"
  by (simp_all add: demoOrchestrator_def demoProvider_def demoRecorder_def demoInstance_def demoMachines_def wrapIfError_def providerRunScoped_def)

text \<open>The recorder accepts the two calls before the creation of the topology.\<close>

definition demoTopology :: ResourceRecord where
  "demoTopology = \<lparr>rd_ID = topologyID ''eks'' ''c7i.large'', rd_Kind = topologyKind ''eks'', rd_ProviderID = [], rd_StackName = [], rd_Hostname = [],
     rd_CleanupOwner = [], rd_Status = runstateResourceCreating, rd_OwnershipCertain = True, rd_InstanceType = ''c7i.large''\<rparr>"

definition accepts :: "'r StateRecorder \<Rightarrow> 'r \<Rightarrow> bool" where
  "accepts recorder st \<longleftrightarrow> (\<exists>st1 st2.
     sr_RecordResources recorder [demoTopology] st = (None, st1) \<and>
     sr_BeforeExternalStep recorder ''provision'' [] ''create topology for c7i.large'' st1 = (None, st2))"

lemma demo_topology: "topologyRecord (demoOrchestrator recorder stuck) (demoProvider stuck) ''c7i.large'' = demoTopology"
  by (simp add: topologyRecord_def demoTopology_def demoConfig_def)

lemma demo_accepts: "accepts demoRecorder st"
  by (simp add: accepts_def)

lemma demo_keeps: "y_cloud (pr_sys (snd (run_state (aggregateResults orch) v))) = y_cloud (pr_sys v)"
    "oc_CleanupErr (pr_Outcome (snd (run_state (aggregateResults orch) v))) = oc_CleanupErr (pr_Outcome v)"
    "y_cloud (pr_sys (snd (run_state (recordBenchmarkFailure e) v))) = y_cloud (pr_sys v)"
    "y_disk (pr_sys (snd (run_state (recordBenchmarkFailure e) v))) = y_disk (pr_sys v)"
    "pr_skippedFamilies (snd (run_state (recordBenchmarkFailure e) v)) = pr_skippedFamilies v"
    "oc_CleanupErr (pr_Outcome (snd (run_state (recordBenchmarkFailure e) v))) = oc_CleanupErr (pr_Outcome v)"
  by (simp_all add: aggregateResults_def Let_def run_bind recordBenchmarkFailure_def onFiles_def split: option.split prod.split)

lemma afterExternalStep_frame: "y_cloud (snd (afterExternalStep recorder a b c d s)) = y_cloud s" "y_disk (snd (afterExternalStep recorder a b c d s)) = y_disk s"
  by (simp_all add: afterExternalStep_def onStore_def split: option.split prod.split)

lemma demo_provision:
  assumes "accepts recorder (y_store (pr_sys v))" "y_cloud (pr_sys v) = []" "po_InstanceType opts = ''c7i.large''" "oc_CleanupErr (pr_Outcome v) = None"
  shows "let v' = snd (run_state (provisionInstance (demoOrchestrator recorder stuck) (demoProvider stuck) net demoInstance fam grp names opts) v) in
    y_cloud (pr_sys v') = (if stuck then [''c7i.large''] else []) \<and> (\<not> stuck \<longrightarrow> oc_CleanupErr (pr_Outcome v') = None) \<and> y_disk (pr_sys v') = y_disk (pr_sys v)"
  using assms(2-) assms(1)[unfolded accepts_def]
  by (clarsimp simp: demo_topology provisionInstance_def Let_def run_bind destroyFailed_def resourcesChanged_def recordResources_def beforeExternalStep_def
    afterExternalStep_frame creationFailed_def case_prod_beta recordCleanupFailure_def demo_keeps onStore_def del: upsertResource.simps)

lemma demo_runInstance:
  assumes "accepts recorder (y_store (pr_sys v))" "y_disk (pr_sys v) = deadDisk n" "pr_skippedFamilies v = []" "y_cloud (pr_sys v) = []" "oc_CleanupErr (pr_Outcome v) = None"
  shows "\<exists>m. let v' = snd (run_state (runInstance (demoOrchestrator recorder stuck) (demoProvider stuck) net demoInstance) v) in
    y_cloud (pr_sys v') = (if stuck then [''c7i.large''] else []) \<and> (\<not> stuck \<longrightarrow> oc_CleanupErr (pr_Outcome v') = None) \<and> y_disk (pr_sys v') = deadDisk m"
proof -
  have now: "ev_now silentEnv () = (0, ())" by (simp add: silentEnv_def)
  have "\<exists>fam grp names opts v1. run_state (runInstance (demoOrchestrator recorder stuck) (demoProvider stuck) net demoInstance) v
      = run_state (provisionInstance (demoOrchestrator recorder stuck) (demoProvider stuck) net demoInstance fam grp names opts) v1 \<and>
    y_cloud (pr_sys v1) = [] \<and> po_InstanceType opts = ''c7i.large'' \<and> oc_CleanupErr (pr_Outcome v1) = None \<and> y_disk (pr_sys v1) = deadDisk (n + 2) \<and> accepts recorder (y_store (pr_sys v1))"
    using assms
    by (simp add: runInstance_def Let_def demoConfig_def isK8sProvider_def onFiles_def demo_pending prepareUserData_def run_bind onMachines_def now del: pendingModesForInstance.simps split_paired_Ex)
      (intro exI conjI, rule refl, simp_all)
  then show ?thesis using demo_provision[of recorder] unfolding Let_def by metis
qed

lemma demo_runProvider:
  assumes "accepts recorder (y_store (pr_sys v))" "y_disk (pr_sys v) = deadDisk n" "pr_skippedFamilies v = []" "y_cloud (pr_sys v) = []" "oc_CleanupErr (pr_Outcome v) = None"
  shows "let v' = snd (run_state (runProvider (demoOrchestrator recorder stuck) (demoProvider stuck)) v) in
    y_cloud (pr_sys v') = (if stuck then [''c7i.large''] else []) \<and> (\<not> stuck \<longrightarrow> oc_CleanupErr (pr_Outcome v') = None)"
proof -
  have [simp]: "providerManagesNetworking (demoProvider stuck) = False" "ev_ctxErr silentEnv () = None"
    "pv_SetupNetworking (demoProvider stuck) s = (Inr \<lparr>no_Values = [(''kubeconfig'', ''k'')], no_StackName = [], no_ProviderID = []\<rparr>, s)" for s
    by (simp_all add: providerManagesNetworking_def demoProvider_def silentEnv_def)
  obtain m where list: "listInstancesCached (demoOrchestrator recorder stuck) (demoProvider stuck) (pr_sys v) = (([demoInstance], None), (pr_sys v)\<lparr>y_disk := deadDisk m\<rparr>)"
    using demo_list[OF assms(2)] by blast
  have [simp]: "filterInstances (demoOrchestrator recorder stuck) xs = Inr xs" for xs by (simp add: filterInstances_def demoConfig_def)
  show ?thesis
    using assms demo_runInstance[of recorder "v\<lparr>pr_sys := (pr_sys v)\<lparr>y_disk := deadDisk m\<rparr>\<rparr>" m stuck "\<lparr>no_Values = [(''kubeconfig'', ''k'')], no_StackName = [], no_ProviderID = []\<rparr>"]
    by (simp add: runProvider_def setupAndRun_def runInstances_def Let_def demoConfig_def run_bind list isK8sProvider_def demo_keeps recordBenchmarkFailure_def case_prod_beta)
qed

lemma demo_run:
  assumes "accepts recorder store"
  shows "let v' = RunWithOutcome (demoOrchestrator recorder stuck) (demoSys store) in
    y_cloud (snd v') = (if stuck then [''c7i.large''] else []) \<and> (\<not> stuck \<longrightarrow> oc_CleanupErr (fst v') = None)"
proof -
  let ?v = "\<lparr>pr_Outcome = noOutcome, pr_skippedFamilies = [], pr_k8sSetupComplete = False, pr_authKey = [], pr_authKeyCreated = 0, pr_sys = demoSys store\<rparr>"
  have start: "accepts recorder (y_store (pr_sys ?v))" "y_disk (pr_sys ?v) = deadDisk 0" "y_cloud (pr_sys ?v) = []" "oc_CleanupErr (pr_Outcome ?v) = None"
    by (simp_all add: assms demoSys_def deadDisk_def demoDisk_def noOutcome_def)
  obtain x v1 where run: "run_state (runProvider (demoOrchestrator recorder stuck) (demoProvider stuck)) ?v = (x, v1)" by (rule prod.exhaust)
  have v1: "y_cloud (pr_sys v1) = (if stuck then [''c7i.large''] else [])" "\<not> stuck \<longrightarrow> oc_CleanupErr (pr_Outcome v1) = None"
    using demo_runProvider[OF start(1,2) _ start(3,4), of stuck] run by (simp_all add: Let_def)
  have "RunWithOutcome (demoOrchestrator recorder stuck) (demoSys store) = (Outcome_merge noOutcome (pr_Outcome v1), pr_sys v1)"
    by (simp add: RunWithOutcome_def runWithTailnet_def Let_def demoConfig_def IsRemoteBackend_def HasPrefix_def runAllProviders_def callProvider_def run_bind run)
  moreover have "oc_CleanupErr (Outcome_merge noOutcome oc) = None" if "oc_CleanupErr oc = None" for oc
    using that by (simp add: Outcome_merge_def noOutcome_def errors_Join_def)
  ultimately show ?thesis using v1 by (simp add: Let_def)
qed

lemma demo_laws: "providerLaws set recorded (demoProvider stuck)" "tailnetLaws set recorded (demoOrchestrator recorder stuck)"
  by (simp_all add: providerLaws_def tailnetLaws_def calmCall_def calm_def demoOrchestrator_def demoProvider_def ret_def Let_def)

lemma demo_lawful: "lawful set set (demoOrchestrator demoRecorder stuck) (demoProvider stuck)"
  by (simp add: lawful_def demo_laws recorderOK_def recorderLaws_def)

section \<open>Properties\<close>

text \<open>
  C22 No topology is lost: whatever fails during a run with one provider (the cloud, the recorder, the disk, the
  machines, the tailnet), every topology that exists when the run returns and did not exist before is listed in the
  outcome under its identifier with a status other than ``cleaned'', and the run store lists it durably when the run
  has a recorder.
\<close>

theorem RunWithOutcome_loses_no_topology:
  assumes "lawful live recorded orch p" "or_providers orch = [p]" "RunWithOutcome orch s = (oc, s')"
    and "t \<in> live (y_cloud s')" "t \<notin> live (y_cloud s)"
  shows "(\<exists>r \<in> set (oc_Resources oc). rd_ID r = topologyID (pv_Name p) t \<and> rd_InstanceType r = t \<and> rd_Status r \<noteq> runstateResourceCleaned) \<and>
    (or_recorder orch \<noteq> None \<longrightarrow> topologyID (pv_Name p) t \<in> recorded (y_store s'))"
proof -
  from RunWithOutcome_inOrder[OF assms(1-3)] obtain v where
    "inOrder live recorded orch (pv_Name p) (live (y_cloud s)) (live (y_cloud s)) v" "pr_Outcome v = oc" "pr_sys v = s'" by blast
  with assms(4,5) show ?thesis unfolding inOrder_def accounted_def covered_def by blast
qed

theorem RunWithOutcome_loses_no_topology_witness:
  "\<exists>r \<in> set (oc_Resources (fst (RunWithOutcome (demoOrchestrator demoRecorder True) (demoSys [])))). rd_InstanceType r = ''c7i.large'' \<and> rd_Status r \<noteq> runstateResourceCleaned"
  using RunWithOutcome_loses_no_topology[OF demo_lawful demo_select(3) prod.collapse[symmetric], of "''c7i.large''" True "demoSys []"] demo_run[OF demo_accepts, where stuck = True and store = "[]"]
  by (auto simp: Let_def demoSys_def)

text \<open>
  C23 A clean outcome is true: when the outcome of a run carries no cleanup error and the cleanup policy asks for
  cleanup (always, or on success and the benchmark succeeded), no topology exists that did not exist before.
\<close>

theorem RunWithOutcome_clean_is_clean:
  assumes "lawful live recorded orch p" "or_providers orch = [p]" "RunWithOutcome orch s = (oc, s')"
    and "oc_CleanupErr oc = None" "shouldCleanup (c_CleanupPolicy (or_cfg orch)) (oc_BenchmarkErr oc)"
  shows "live (y_cloud s') \<subseteq> live (y_cloud s)"
proof -
  from RunWithOutcome_inOrder[OF assms(1-3)] obtain v where
    "inOrder live recorded orch (pv_Name p) (live (y_cloud s)) (live (y_cloud s)) v" "pr_Outcome v = oc" "pr_sys v = s'" by blast
  with assms(4,5) show ?thesis unfolding inOrder_def by blast
qed

theorem RunWithOutcome_clean_is_clean_witness: "y_cloud (snd (RunWithOutcome (demoOrchestrator demoRecorder False) (demoSys []))) = []"
  using RunWithOutcome_clean_is_clean[OF demo_lawful demo_select(3) prod.collapse[symmetric], of False "demoSys []"] demo_run[OF demo_accepts, where stuck = False and store = "[]"]
  by (simp add: Let_def shouldCleanup_def demoConfig_def demoSys_def)

end
