(* ===== verification/Cmd_Run.thy ===== *)
theory Cmd_Run
  imports Orch_Props Lifecycle_Theorems
begin

text \<open>
  The joint of the command between the orchestrator and the lifecycle (cmd/tailbench/main.go): the recorder that
  writes the orchestrator's inventory into the manifest of the run, the translation of the orchestrator's outcome
  into the result of an execution, and the execution with its durable log. The state of the recorder is the world
  of the run-state store.
\<close>

section \<open>The manifest recorder\<close>

text \<open>
  Both sides name their statuses by the same strings; the orchestrator writes no other strings than the texts of
  these constructors.
\<close>

definition resourceStatusOf :: "string \<Rightarrow> ResourceStatus" where
  "resourceStatusOf t = (case find (\<lambda>c. resourceStatus_text c = t) [ResourceCreating, ResourceCreated, ResourceCleaning, ResourceCleaned] of
     Some c \<Rightarrow> c | None \<Rightarrow> ResourceUnknown)"

definition workStatusOf :: "string \<Rightarrow> WorkStatus" where
  "workStatusOf t = (case find (\<lambda>c. workStatus_text c = t) [WorkRunning, WorkSucceeded, WorkSkipped, WorkFailed, WorkCleanupPending, WorkCleaned] of
     Some c \<Rightarrow> c | None \<Rightarrow> WorkPending)"

definition manifestResource :: "ResourceRecord \<Rightarrow> gotime option \<Rightarrow> Resource" where
  "manifestResource r expiresAt = \<lparr>r_ID = rd_ID r, r_Kind = rd_Kind r, r_ProviderID = rd_ProviderID r, r_StackName = rd_StackName r,
     r_Hostname = rd_Hostname r, r_CleanupOwner = rd_CleanupOwner r, r_Status = resourceStatusOf (rd_Status r), r_CreatedAt = None,
     r_CleanedAt = None, r_ExpiresAt = expiresAt, r_LastError = [], r_OwnershipCertain = rd_OwnershipCertain r\<rparr>"

definition reported :: "unit lio \<Rightarrow> lworld \<Rightarrow> go_error option \<times> lworld" where
  "reported m w = (case m w of (r, w1) \<Rightarrow> (errOf r, w1))"

text \<open>\<open>parseTime\<close> is \<^verbatim>\<open>time.Parse(time.RFC3339, _)\<close>, \<open>None\<close> when it fails.\<close>

definition manifestStateRecorder :: "(string \<Rightarrow> gotime option) \<Rightarrow> Recorder \<Rightarrow> string \<Rightarrow> lworld StateRecorder" where
  "manifestStateRecorder parseTime recorder resourceExpiresAt =
    \<lparr>sr_BeforeExternalStep = (\<lambda>stage workID message. reported (BeforeExternalStep recorder stage workID message)),
     sr_AfterExternalStep = (\<lambda>stage workID status message. reported (AfterExternalStep recorder stage workID (workStatusOf status) message)),
     sr_RecordResources = (\<lambda>resources. reported (RecordResources recorder (map (\<lambda>r. manifestResource r (parseTime resourceExpiresAt)) resources)))\<rparr>"

section \<open>The result of an execution\<close>

definition zeroFailure :: Failure where
  "zeroFailure = \<lparr>f_Code = [], f_Stage = [], f_Class = [], f_Message = [], f_WorkID = [], f_RetryCount = 0, f_Time = 0\<rparr>"

definition zeroExecution :: ExecutionResult where
  "zeroExecution = \<lparr>x_BenchmarkOutcome = OutcomeUnset, x_CleanupOutcome = OutcomeUnset, x_ResourcesChanged = False, x_Resources = None,
     x_Work = None, x_Failures = [], x_Err = None\<rparr>"

text \<open>The slice of resources stays nil when nothing is appended to it.\<close>

definition executionResult :: "(string \<Rightarrow> gotime option) \<Rightarrow> string \<Rightarrow> string \<Rightarrow> Orch_Types.Outcome \<Rightarrow> ExecutionResult" where
  "executionResult parseTime cleanupPolicy resourceExpiresAt oc =
    (let resources = map (\<lambda>r. manifestResource r (parseTime resourceExpiresAt)) (oc_Resources oc);
         benchmarkFailure = (case oc_BenchmarkErr oc of None \<Rightarrow> []
           | Some e \<Rightarrow> [zeroFailure\<lparr>f_Code := ''run-failure'', f_Stage := ''run'', f_Class := class_text (Classify ''benchmark'' (Some e)), f_Message := error_text e\<rparr>]);
         skipped = (cleanupPolicy = CleanupManual \<or> (cleanupPolicy = CleanupOnSuccess \<and> oc_BenchmarkErr oc \<noteq> None));
         cleanupFailure = (if skipped then [] else case oc_CleanupErr oc of None \<Rightarrow> []
           | Some e \<Rightarrow> [zeroFailure\<lparr>f_Code := ''cleanup-failure'', f_Stage := ''cleanup'', f_Class := class_text CleanupFailure, f_Message := error_text e\<rparr>])
     in \<lparr>x_BenchmarkOutcome = (if oc_BenchmarkErr oc = None then OutcomeSucceeded else OutcomeFailed),
         x_CleanupOutcome = (if skipped then OutcomeSkipped else if oc_CleanupErr oc = None then OutcomeSucceeded else OutcomeFailed),
         x_ResourcesChanged = oc_ResourcesChanged oc, x_Resources = (if resources = [] then None else Some resources), x_Work = None,
         x_Failures = benchmarkFailure @ cleanupFailure, x_Err = Outcome_Err oc\<rparr>)"

type_synonym ('c, 'm, 'd) managed = "('c, 'm, 'd, lworld) Orchestrator"

definition SetRunRecorder :: "(string \<Rightarrow> gotime option) \<Rightarrow> Recorder \<Rightarrow> ('c, 'm, 'd) managed \<Rightarrow> ('c, 'm, 'd) managed" where
  "SetRunRecorder parseTime recorder orch = orch\<lparr>or_recorder := Some (manifestStateRecorder parseTime recorder (c_ResourceExpiresAt (or_cfg orch)))\<rparr>"

definition RunWithResult :: "(string \<Rightarrow> gotime option) \<Rightarrow> ('c, 'm, 'd) managed \<Rightarrow> ('c, 'm, 'd, lworld) system \<Rightarrow>
    ExecutionResult \<times> ('c, 'm, 'd, lworld) system" where
  "RunWithResult parseTime orch s = (case RunWithOutcome orch s of
     (oc, s1) \<Rightarrow> (executionResult parseTime (c_CleanupPolicy (or_cfg orch)) (c_ResourceExpiresAt (or_cfg orch)) oc, s1))"

text \<open>
  \<open>newRuntime\<close> builds the orchestrator for a configuration or refuses it. The log is a file of the run; closing it
  is a system call that may fail.
\<close>

definition closeLog :: "ExecutionResult \<times> lworld \<Rightarrow> ExecutionResult \<times> lworld" where
  "closeLog rw = (case fd_call (snd rw) of
     (Inr _, w1) \<Rightarrow> (fst rw, w1)
   | (Inl e, w1) \<Rightarrow> ((fst rw)\<lparr>x_Failures := x_Failures (fst rw) @
        [zeroFailure\<lparr>f_Code := ''result-write-failure'', f_Stage := ''logging'', f_Class := class_text ResultWrite, f_Message := error_text e\<rparr>],
        x_Err := errors_Join [x_Err (fst rw), Some e]\<rparr>, w1))"

definition executionConfig :: "(gotime \<Rightarrow> string) \<Rightarrow> Recorder \<Rightarrow> gotime \<Rightarrow> Config \<Rightarrow> Config" where
  "executionConfig formatTime recorder t cfg = cfg\<lparr>c_RunID := rc_runID recorder,
     c_ResourceExpiresAt := (if c_ResourceExpiresAt cfg = [] then formatTime (t + (c_MaxDuration cfg + hour)) else c_ResourceExpiresAt cfg)\<rparr>"

definition executeWithRecorder :: "(string \<Rightarrow> gotime option) \<Rightarrow> (gotime \<Rightarrow> string) \<Rightarrow> (Config \<Rightarrow> go_error + ('c, 'm, 'd) managed) \<Rightarrow> gotime \<Rightarrow>
    Recorder \<Rightarrow> Config \<Rightarrow> ('c, 'm, 'd, lworld) system \<Rightarrow> ExecutionResult \<times> ('c, 'm, 'd, lworld) system" where
  "executeWithRecorder parseTime formatTime newRuntime t recorder cfg0 s =
    (let cfg = executionConfig formatTime recorder t cfg0 in
     case Recorder_OpenLog recorder (y_store s) of
       (Inl e, w1) \<Rightarrow> (zeroExecution\<lparr>x_BenchmarkOutcome := OutcomeFailed, x_CleanupOutcome := OutcomePending,
          x_Err := Some (Wrapf ''open durable run log: '' e [])\<rparr>, s\<lparr>y_store := w1\<rparr>)
     | (Inr _, w1) \<Rightarrow>
        (case (case newRuntime cfg of
            Inl e \<Rightarrow> (zeroExecution\<lparr>x_BenchmarkOutcome := OutcomeFailed, x_CleanupOutcome := OutcomeSkipped, x_Err := Some e,
               x_Failures := [zeroFailure\<lparr>f_Code := ''runtime-construction'', f_Stage := ''startup'', f_Class := class_text InvalidConfiguration, f_Message := error_text e\<rparr>]\<rparr>,
               s\<lparr>y_store := w1\<rparr>)
          | Inr orch \<Rightarrow> RunWithResult parseTime (SetRunRecorder parseTime recorder orch) (s\<lparr>y_store := w1\<rparr>)) of
          (res, s1) \<Rightarrow> (case closeLog (res, y_store s1) of (res', w2) \<Rightarrow> (res', s1\<lparr>y_store := w2\<rparr>))))"

end
