(* ===== verification/Orch_Keys.thy ===== *)
theory Orch_Keys
  imports Orch_Props
begin

text \<open>
  The identifiers of the inventory: the outcome of a run with one provider lists every identifier once. The outer
  part of a run only knows the tailnet, the provider never uses the identifier of the tailnet, and the merge of
  the two appends lists without a common identifier.
\<close>

definition keyed :: "string set \<Rightarrow> ('c, 'm, 'd, 'r) run \<Rightarrow> bool" where
  "keyed A v \<longleftrightarrow> distinct (map rd_ID (oc_Resources (pr_Outcome v))) \<and> rd_ID ` set (oc_Resources (pr_Outcome v)) \<subseteq> A"

definition keyedAct :: "string set \<Rightarrow> ('c, 'm, 'd, 'r, 'a) act \<Rightarrow> bool" where
  "keyedAct A m \<longleftrightarrow> triple (keyed A) m (\<lambda>_. keyed A)"

named_theorems keyed_rules \<open>steps that keep the identifiers of the inventory distinct\<close>

lemma keyed_same: "oc_Resources (pr_Outcome w) = oc_Resources (pr_Outcome v) \<Longrightarrow> keyed A v \<Longrightarrow> keyed A w"
  by (simp add: keyed_def)

lemma keyed_basic [keyed_rules]: "keyedAct A (result x)" "keyedAct A (vars g)" "keyedAct A (act f)"
  by (auto simp: keyedAct_def triple_def keyed_def)

lemma keyed_upd [keyed_rules]: "(\<And>v. oc_Resources (pr_Outcome (g v)) = oc_Resources (pr_Outcome v)) \<Longrightarrow> keyedAct A (upd g)"
  by (simp add: keyedAct_def triple_def keyed_def)

lemma keyed_bind [keyed_rules]: "keyedAct A m \<Longrightarrow> (\<And>x. keyedAct A (f x)) \<Longrightarrow> keyedAct A (State_Monad.bind m f)"
  unfolding keyedAct_def by (rule triple_bind)

lemma keyed_branch [keyed_rules]: "(b \<Longrightarrow> keyedAct A m1) \<Longrightarrow> (\<not> b \<Longrightarrow> keyedAct A m2) \<Longrightarrow> keyedAct A (if b then m1 else m2)"
    "(e = None \<Longrightarrow> keyedAct A m1) \<Longrightarrow> (\<And>y. e = Some y \<Longrightarrow> keyedAct A (g y)) \<Longrightarrow> keyedAct A (case e of None \<Rightarrow> m1 | Some y \<Rightarrow> g y)"
    "(\<And>y. r = Inl y \<Longrightarrow> keyedAct A (h y)) \<Longrightarrow> (\<And>z. r = Inr z \<Longrightarrow> keyedAct A (k z)) \<Longrightarrow> keyedAct A (case r of Inl y \<Rightarrow> h y | Inr z \<Rightarrow> k z)"
    "(\<And>a b. keyedAct A (c a b)) \<Longrightarrow> keyedAct A (case p of (a, b) \<Rightarrow> c a b)"
  by (auto split: option.split sum.split prod.split)

lemma keyed_updOutcome: "(\<And>oc. oc_Resources (g oc) = oc_Resources oc) \<Longrightarrow> keyedAct A (updOutcome g)"
  by (simp add: keyedAct_def triple_def keyed_def)

lemma keyed_failures [keyed_rules]: "keyedAct A resourcesChanged" "keyedAct A (recordBenchmarkFailure e)" "keyedAct A (recordCleanupFailure e)"
  unfolding resourcesChanged_def recordBenchmarkFailure_def recordCleanupFailure_def by (intro keyed_rules keyed_updOutcome; simp)+

lemma keyed_recordResources [keyed_rules]: "rd_ID ` set rs \<subseteq> A \<Longrightarrow> keyedAct A (recordResources recorder rs)"
  unfolding recordResources_def
proof (intro keyed_rules)
  assume "rd_ID ` set rs \<subseteq> A"
  then show "keyedAct A (updOutcome (\<lambda>oc. oc\<lparr>oc_Resources := fold upsertResource rs (oc_Resources oc)\<rparr>))"
    by (auto simp: keyedAct_def triple_def keyed_def orch.distinct_fold_upsert orch.keys_fold_upsert)
qed

lemma IDs_setStatus: "map rd_ID (setStatusOf t status xs) = map rd_ID xs"
  by (simp add: setStatusOf_def)

lemma IDs_resourceWithStatus: "map rd_ID (snd (resourceWithStatus i status xs)) = map rd_ID xs"
  by (induction xs) (auto split: prod.splits)

lemma ID_resourceWithStatus: "fst (resourceWithStatus i status xs) = Some r \<Longrightarrow> rd_ID r \<in> rd_ID ` set xs"
  by (induction xs) (auto split: prod.splits if_splits)

lemma keyed_over:
  assumes "keyed A v" "rd_ID ` set rs \<subseteq> rd_ID ` set (oc_Resources (pr_Outcome v))" "map rd_ID xs = map rd_ID (oc_Resources (pr_Outcome v))"
  shows "keyed A (snd (run_state (recordResources recorder rs) (v\<lparr>pr_Outcome := (pr_Outcome v)\<lparr>oc_Resources := xs\<rparr>\<rparr>)))"
proof -
  have "rd_ID ` set xs = rd_ID ` set (oc_Resources (pr_Outcome v))" using assms(3) by (metis list.set_map)
  with assms have "keyed A (v\<lparr>pr_Outcome := (pr_Outcome v)\<lparr>oc_Resources := xs\<rparr>\<rparr>)" "rd_ID ` set rs \<subseteq> A" by (auto simp: keyed_def)
  with keyed_recordResources[of rs A recorder] show ?thesis unfolding keyedAct_def triple_def by blast
qed

lemma keyed_markInstance [keyed_rules]: "keyedAct A (markInstance recorder t status)"
proof -
  have "rd_ID ` set (fst (resourcesForInstanceStatus t status xs)) \<subseteq> rd_ID ` set xs" for xs
    using IDs_setStatus[of t status xs] by (auto simp: resourcesForInstanceStatus_def Let_def dest!: arg_cong[of _ _ set])
  moreover have "map rd_ID (snd (resourcesForInstanceStatus t status xs)) = map rd_ID xs" for xs
    by (simp add: resourcesForInstanceStatus_def Let_def IDs_setStatus)
  ultimately show ?thesis
    unfolding keyedAct_def triple_def markInstance_def by (simp only: run_bind run_simps fst_conv snd_conv) (blast intro: keyed_over)
qed

lemma keyed_markResource [keyed_rules]: "keyedAct A (markResource recorder i status :: ('c, 'm, 'd, 'r, go_error option) act)"
proof -
  have "keyed A (snd (run_state (case fst (resourceWithStatus i status xs) of None \<Rightarrow> result None | Some resource \<Rightarrow> recordResources recorder [resource])
      (v\<lparr>pr_Outcome := (pr_Outcome v)\<lparr>oc_Resources := snd (resourceWithStatus i status xs)\<rparr>\<rparr>)))"
    if k: "keyed A v" and xs: "xs = oc_Resources (pr_Outcome v)" for v :: "('c, 'm, 'd, 'r) run" and xs
  proof (cases "fst (resourceWithStatus i status xs)")
    case None
    have "rd_ID ` set (snd (resourceWithStatus i status xs)) = rd_ID ` set xs" using IDs_resourceWithStatus by (metis list.set_map)
    with k None show ?thesis by (simp add: keyed_def IDs_resourceWithStatus xs)
  next
    case (Some r)
    with ID_resourceWithStatus[OF Some] show ?thesis by (simp add: keyed_over[OF k] IDs_resourceWithStatus xs)
  qed
  then show ?thesis unfolding keyedAct_def triple_def markResource_def by (simp only: run_bind run_simps fst_conv snd_conv) blast
qed

section \<open>The provider\<close>

definition tailnetID :: string where "tailnetID = ''tailscale/tailnet''"

lemma not_tailnet: "take 3 (rev i) \<noteq> ''ten'' \<Longrightarrow> i \<noteq> tailnetID"
  by (auto simp: tailnetID_def)

lemma provider_IDs: "topologyID name t \<noteq> tailnetID" "name @ ''/networking'' \<noteq> tailnetID"
  by (simp_all add: not_tailnet topologyID_def)

lemmas provider_IDs' = provider_IDs provider_IDs[symmetric]

lemma pair_IDs: "rd_ID ` set (pairResourceRecords name runID t pair certain) \<subseteq> - {tailnetID}"
proof -
  have "name @ ''/'' @ t @ role \<noteq> tailnetID" if "role \<in> {''/server'', ''/client'', ''/router''}" for role
    by (rule not_tailnet) (use that in auto)
  from this this[symmetric] show ?thesis using provider_IDs' by (auto simp: pairResourceRecords_def Let_def)
qed

lemma keyed_destroyFailed [keyed_rules]: "keyedAct A (destroyFailed p what t)"
  unfolding destroyFailed_def by (intro keyed_rules)

lemma keyed_creationFailed [keyed_rules]: "keyedAct A (creationFailed orch p t grp e)"
  unfolding creationFailed_def Let_def by (intro keyed_rules) simp

lemma keyed_measureInstance [keyed_rules]: "keyedAct A (measureInstance orch p net pair inst fam names)"
  unfolding measureInstance_def by (intro keyed_rules) simp

lemma keyed_cleanupInstance [keyed_rules]: "keyedAct A (cleanupInstance orch p t)"
  unfolding cleanupInstance_def Let_def by (intro keyed_rules)

lemma keyed_refreshAuthKey [keyed_rules]: "keyedAct A (refreshAuthKey orch)"
  unfolding refreshAuthKey_def Let_def by (intro keyed_rules) simp

lemma keyed_provisionInstance [keyed_rules]: "keyedAct (- {tailnetID}) (provisionInstance orch p net inst fam grp names opts)"
  unfolding provisionInstance_def Let_def by (intro keyed_rules pair_IDs) (simp add: topologyRecord_def provider_IDs')

lemma keyed_runInstance [keyed_rules]: "keyedAct (- {tailnetID}) (runInstance orch p net inst)"
  unfolding runInstance_def Let_def by (intro keyed_rules)

lemma keyed_instanceLoop [keyed_rules]: "keyedAct (- {tailnetID}) (instanceLoop orch p net insts)"
  by (induction insts) (simp_all only: instanceLoop.simps, (intro keyed_rules; assumption)+)

lemma keyed_staleDevices [keyed_rules]: "keyedAct A (staleDevices orch ps)"
  by (induction ps) (simp_all only: staleDevices.simps, (intro keyed_rules; assumption)+)

lemma keyed_runProvider: "keyedAct (- {tailnetID}) (runProvider orch p)"
  unfolding runProvider_def setupAndRun_def teardownNetworking_def runInstances_def aggregateResults_def Let_def
  by (intro keyed_rules; simp add: networkRecord_def provider_IDs')

section \<open>The whole run\<close>

lemma keyed_callProvider:
  fixes orch :: "('c, 'm, 'd, 'r) Orchestrator"
  shows "triple (keyed {tailnetID}) (do { out \<leftarrow> callProvider orch p; updOutcome (\<lambda>oc. Outcome_merge oc out) }) (\<lambda>_. keyed UNIV)"
  unfolding triple_def
proof (intro allI impI)
  fix v :: "('c, 'm, 'd, 'r) run"
  assume k: "keyed {tailnetID} v"
  let ?v0 = "v\<lparr>pr_Outcome := noOutcome, pr_skippedFamilies := [], pr_k8sSetupComplete := False\<rparr>"
  obtain x v1 where run: "run_state (runProvider orch p) ?v0 = (x, v1)" by (rule prod.exhaust)
  have "keyed (- {tailnetID}) ?v0" by (simp add: keyed_def noOutcome_def)
  from tripleD[OF keyed_runProvider[unfolded keyedAct_def] this run] have "keyed (- {tailnetID}) v1" .
  with k show "keyed UNIV (snd (run_state (do { out \<leftarrow> callProvider orch p; updOutcome (\<lambda>oc. Outcome_merge oc out) }) v))"
    by (auto simp: run_bind callProvider_def run Outcome_merge_def keyed_def)
qed

lemma keyed_setupACL [keyed_rules]: "keyedAct A (setupACL orch)" "keyedAct A (enableHTTPS orch)" "keyedAct A (aclThenHTTPS orch)"
  unfolding setupACL_def enableHTTPS_def aclThenHTTPS_def by (intro keyed_rules)+

lemma keyed_tailnet: "keyedAct {tailnetID} (createTailnet orch)" "keyedAct {tailnetID} (reuseTailnet orch info)" "keyedAct UNIV (deleteTailnet orch)"
  unfolding createTailnet_def reuseTailnet_def deleteTailnet_def Let_def
  by (intro keyed_rules keyed_updOutcome; simp add: tailnetRecord_def tailnetID_def)+

lemma keyed_UNIV: "keyed A v \<Longrightarrow> keyed UNIV v"
  by (simp add: keyed_def)

lemma keyedAct_UNIV: "keyedAct A m \<Longrightarrow> triple (keyed A) m (\<lambda>_. keyed UNIV)"
  unfolding keyedAct_def triple_def by (blast intro: keyed_UNIV)

lemma keyedActD: "keyedAct A m \<Longrightarrow> triple (keyed A) m (\<lambda>_. keyed A)"
  by (simp add: keyedAct_def)

lemma keyed_runAllProviders: "or_providers orch = [p] \<Longrightarrow> triple (keyed {tailnetID}) (runAllProviders orch) (\<lambda>_. keyed UNIV)"
  unfolding runAllProviders_def using keyed_callProvider by simp

lemma keyed_joinAndRun:
  assumes "or_providers orch = [p]"
  shows "triple (keyed {tailnetID}) (joinAndRun orch) (\<lambda>_. keyed UNIV)"
proof -
  have last: "keyedAct UNIV (do { e \<leftarrow> act (or_tsnetClose orch); recordCleanupFailure (wrapIfError ''close tsnet server'' e) })"
    by (intro keyed_rules)
  show ?thesis unfolding joinAndRun_def Let_def
    by (rule triple_bind[OF keyedActD[OF keyed_failures(1)]], rule triple_bind[OF keyedActD[OF keyed_basic(3)]],
        rule triple_sum[OF keyedAct_UNIV[OF keyed_failures(2)]], rule triple_bind[OF keyedActD[OF keyed_basic(3)]],
        rule triple_bind[OF keyedActD[OF keyed_upd]], simp, rule triple_bind[OF keyedActD[OF keyed_basic(3)]],
        rule triple_option[OF triple_bind[OF keyed_runAllProviders[OF assms] keyedActD[OF last]] keyedAct_UNIV[OF keyed_failures(2)]])
qed

lemma keyed_runWithTailnet:
  assumes "or_providers orch = [p]"
  shows "triple (keyed {tailnetID}) (runWithTailnet orch) (\<lambda>_. keyed UNIV)"
proof -
  have skip: "triple (keyed {tailnetID}) (result ()) (\<lambda>_. keyed UNIV)" by (rule keyedAct_UNIV[OF keyed_basic(1)])
  have join: "triple (keyed {tailnetID}) (joinAndRun orch') (\<lambda>_. keyed UNIV)" if "sameRun orch orch'" for orch'
    by (rule keyed_joinAndRun) (use sameRun_fields[OF that] assms in simp)
  have joined: "triple (keyed {tailnetID}) (case loaded of
        Inr info \<Rightarrow> if c_RunID (or_cfg orch) = [] then reuseTailnet orch info else createTailnet orch | Inl _ \<Rightarrow> createTailnet orch)
      (\<lambda>j v. keyed {tailnetID} v \<and> sameRun orch (fst j))" for loaded
  proof -
    have 1: "triple (keyed {tailnetID}) m (\<lambda>j v. keyed {tailnetID} v \<and> sameRun orch (fst j))"
      if "keyedAct {tailnetID} m" "returns (\<lambda>j. sameRun orch (fst j)) m" for m
      using that unfolding keyedAct_def triple_def returns_def by blast
    show ?thesis by (intro triple_sum triple_if 1 keyed_tailnet returns_tailnet)
  qed
  have rest: "triple (\<lambda>v. keyed {tailnetID} v \<and> sameRun orch (fst j))
      (do { (if snd j then joinAndRun (fst j) else result ()); if b then deleteTailnet (fst j) else result () }) (\<lambda>_. keyed UNIV)" for j b
  proof (cases "sameRun orch (fst j)")
    case True
    show ?thesis
      by (rule triple_weaken[where P = "keyed {tailnetID}" and Q = "\<lambda>_. keyed UNIV"],
          intro triple_bind[OF triple_if[OF join[OF True] skip]] triple_if keyedActD[OF keyed_tailnet(3)] keyedActD[OF keyed_basic(1)]) simp_all
  qed (simp add: triple_def)
  have own: "triple (keyed {tailnetID}) (runOwnTailnet orch) (\<lambda>_. keyed UNIV)" unfolding runOwnTailnet_def
    by (intro triple_bind[OF keyedActD[OF keyed_basic(3)]] triple_bind[OF joined] rest)
  show ?thesis unfolding runWithTailnet_def Let_def
    by (intro triple_if keyed_runAllProviders[OF assms] own triple_bind[OF keyedActD[OF keyed_setupACL(3)]] join[OF sameRun_intros(3)] skip)
qed

theorem RunWithOutcome_distinct:
  assumes "or_providers orch = [p]" "RunWithOutcome orch s = (oc, s')"
  shows "distinct (map rd_ID (oc_Resources oc))"
proof -
  let ?start = "\<lambda>s. \<lparr>pr_Outcome = noOutcome, pr_skippedFamilies = [], pr_k8sSetupComplete = False, pr_authKey = [], pr_authKeyCreated = 0, pr_sys = s\<rparr>"
  have "keyed UNIV (snd (run_state (runWithTailnet orch) (?start s1)))" for s1
    using keyed_runWithTailnet[OF assms(1)] unfolding triple_def by (simp add: keyed_def noOutcome_def)
  then have run: "distinct (map rd_ID (oc_Resources (pr_Outcome v)))" if "run_state (runWithTailnet orch) (?start s1) = (x, v)" for s1 x v
    using that unfolding keyed_def by (metis snd_conv)
  have none: "distinct (map rd_ID (oc_Resources noOutcome))" by (simp add: noOutcome_def)
  show ?thesis using assms(2) run none
    by (auto simp: RunWithOutcome_def Let_def split: if_splits prod.splits sum.splits)
qed

end
