(* ===== verification/Cmd_Theorems.thy ===== *)
theory Cmd_Theorems
  imports Cmd_Run Orch_Keys Orch_Theorems
begin

text \<open>
  The manifest recorder keeps the promises the orchestrator needs of a recorder, so that what a managed run leaves
  behind is in the manifest of the run.
\<close>

section \<open>The manifest as a recorder\<close>

definition manifestIDs :: "Store \<Rightarrow> string \<Rightarrow> lworld \<Rightarrow> string set" where
  "manifestIDs s runID w = (case persisted s runID w of None \<Rightarrow> {} | Some m \<Rightarrow> r_ID ` set (m_Resources m))"

lemma manifestIDs_steps: "(lifecycleStep s runID)\<^sup>*\<^sup>* w w' \<Longrightarrow> manifestIDs s runID w \<subseteq> manifestIDs s runID w'"
proof (cases "persisted s runID w")
  case (Some m)
  assume steps: "(lifecycleStep s runID)\<^sup>*\<^sup>* w w'"
  have "\<exists>m'. persisted s runID w' = Some m' \<and> r_ID ` set (m_Resources m) \<subseteq> r_ID ` set (m_Resources m')"
  proof (rule lifecycle_invariant[OF steps Some])
    fix f k w1 m1 w2
    assume "lifecycleUpdate runID f" "r_ID ` set (m_Resources m) \<subseteq> r_ID ` set (m_Resources k)" "f k w1 = (Inr m1, w2)"
    with update_keeps_IDs show "r_ID ` set (m_Resources m) \<subseteq> r_ID ` set (m_Resources (bumpRevision m1))" by fastforce
  qed simp
  then obtain m' where "persisted s runID w' = Some m'" "r_ID ` set (m_Resources m) \<subseteq> r_ID ` set (m_Resources m')" by blast
  with Some show ?thesis by (simp add: manifestIDs_def)
qed (simp add: manifestIDs_def)

lemma manifestIDs_stepwise: "stepwise s runID m \<Longrightarrow> manifestIDs s runID w \<subseteq> manifestIDs s runID (snd (reported m w))"
  using manifestIDs_steps[of s runID w "snd (m w)"] by (simp add: stepwise_def reported_def case_prod_beta)

lemma manifestIDs_recorded:
  assumes "RecordResources \<lparr>rc_store = s, rc_runID = runID\<rparr> rs w = (Inr (), w1)"
  shows "r_ID ` set rs \<subseteq> manifestIDs s runID w1"
proof (cases "rs = []")
  case False
  obtain m t ns where r: "persisted s runID w = Some m" "normalizeResources runID t rs = Inr ns"
      "persisted s runID w1 = Some (bumpRevision (fold upsertManifestResource ns (m\<lparr>m_ResourcesChanged := True\<rparr>)))"
    by (rule RecordResources_ok_persisted[OF assms False])
  have "r_ID ` set ns = r_ID ` set rs" using normalizeResources_props[OF r(2)] by (metis list.set_map)
  with r(3) show ?thesis by (auto simp: manifestIDs_def bumpRevision_def fold_upsertManifest mr.keys_fold_upsert)
qed simp

lemma manifest_recorderLaws: "recorderLaws (manifestIDs s runID) (manifestStateRecorder parseTime \<lparr>rc_store = s, rc_runID = runID\<rparr> e)"
proof -
  have ok: "rd_ID ` set rs \<subseteq> manifestIDs s runID (snd (reported (RecordResources \<lparr>rc_store = s, rc_runID = runID\<rparr> (map (\<lambda>r. manifestResource r x) rs)) w))"
    if "fst (reported (RecordResources \<lparr>rc_store = s, rc_runID = runID\<rparr> (map (\<lambda>r. manifestResource r x) rs)) w) = None" for rs w x
  proof -
    obtain r w1 where run: "RecordResources \<lparr>rc_store = s, rc_runID = runID\<rparr> (map (\<lambda>r. manifestResource r x) rs) w = (r, w1)" by (rule prod.exhaust)
    with that have "r = Inr ()" by (simp add: reported_def errOf_def split: sum.splits)
    from manifestIDs_recorded[OF run[unfolded this]] run show ?thesis by (simp add: reported_def image_image manifestResource_def)
  qed
  show ?thesis unfolding recorderLaws_def manifestStateRecorder_def StateRecorder.select_convs
    by (intro conjI allI impI manifestIDs_stepwise stepwise_RecordResources stepwise_external ok)
qed

section \<open>The final manifest\<close>

lemma upserted_stays: "x \<in> set xs \<Longrightarrow> r_ID x \<notin> r_ID ` set rs \<Longrightarrow> x \<in> set (fold upsertResources rs xs)"
proof (induction rs arbitrary: xs)
  case (Cons r rs)
  have "x \<in> set ys \<Longrightarrow> r_ID x \<noteq> r_ID r \<Longrightarrow> x \<in> set (upsertResources r ys)" for ys by (induction ys) auto
  with Cons show ?case by simp
qed simp

lemma upserted_status: "distinct (map r_ID rs) \<Longrightarrow> r \<in> set rs \<Longrightarrow>
    \<exists>r' \<in> set (fold upsertResources rs xs). r_ID r' = r_ID r \<and> r_Status r' = r_Status r"
proof (induction rs arbitrary: xs)
  case (Cons a rs)
  show ?case
  proof (cases "r = a")
    case True
    have "\<exists>r' \<in> set (upsertResources a xs). r_ID r' = r_ID a \<and> r_Status r' = r_Status a" by (induction xs) (auto simp: combineResource_def)
    with Cons.prems(1) True show ?thesis using upserted_stays[of _ "upsertResources a xs" rs] by auto
  next
    case False
    with Cons show ?thesis by simp
  qed
qed simp

lemma resourceStatusOf_cleaned: "resourceStatusOf t = ResourceCleaned \<Longrightarrow> t = runstateResourceCleaned"
  by (simp add: resourceStatusOf_def runstateResourceCleaned_def split: if_splits)

lemma applied_unclean:
  assumes "distinct (map rd_ID rs)" "r \<in> set rs" "rd_Status r \<noteq> runstateResourceCleaned"
    and "x_Resources res = Some (map (\<lambda>r. manifestResource r e) rs)"
  shows "m_Recoverable (applyExecutionResult m res endedAt) \<and> rd_ID r \<in> r_ID ` set (uncleanResources (m_Resources (applyExecutionResult m res endedAt)))"
proof -
  let ?rs = "map (\<lambda>r. manifestResource r e) rs"
  have "distinct (map r_ID ?rs)" using assms(1) by (simp add: comp_def manifestResource_def)
  moreover have "manifestResource r e \<in> set ?rs" using assms(2) by simp
  ultimately obtain r' where r': "r' \<in> set (fold upsertResources ?rs (m_Resources m))" "r_ID r' = rd_ID r" "r_Status r' = resourceStatusOf (rd_Status r)"
    using upserted_status[of ?rs "manifestResource r e" "m_Resources m"] by (auto simp: manifestResource_def)
  have unclean: "r_Status r' \<noteq> ResourceCleaned" using r'(3) resourceStatusOf_cleaned assms(3) by metis
  obtain bo co where o: "executionOutcomes res = (bo, co)" by (rule prod.exhaust)
  have rs: "m_Resources (applyExecutionResult m res endedAt) = fold upsertResources ?rs (m_Resources m)"
    using applyExecutionResult_fields(7)[OF o] assms(4) by simp
  have "hasUncleanResources (m_Resources (applyExecutionResult m res endedAt))"
    using r'(1) unclean unfolding rs hasUncleanResources_def list_ex_iff by blast
  then have "m_Recoverable (applyExecutionResult m res endedAt)"
    using o by (simp add: applyExecutionResult_def Let_def)
  with r' unclean rs show ?thesis by (auto simp: uncleanResources_def image_iff)
qed

section \<open>The whole execution\<close>

lemma manifestIDs_OpenLog: "Recorder_OpenLog \<lparr>rc_store = s, rc_runID = runID\<rparr> w = (r, w1) \<Longrightarrow> manifestIDs s runID w1 = manifestIDs s runID w"
proof -
  assume run: "Recorder_OpenLog \<lparr>rc_store = s, rc_runID = runID\<rparr> w = (r, w1)"
  have "touches {} (Recorder_OpenLog \<lparr>rc_store = s, rc_runID = runID\<rparr>)"
    unfolding Recorder_OpenLog_def OpenLog_def Let_def by (intro touch touches_RunDirectory)
  from persisted_cong[OF touchesD[OF this run]] show ?thesis by (simp add: manifestIDs_def)
qed

lemma manifestIDs_closeLog: "closeLog (r, w) = (r', w1) \<Longrightarrow> manifestIDs s runID w1 = manifestIDs s runID w \<and> x_Resources r' = x_Resources r"
proof -
  assume run: "closeLog (r, w) = (r', w1)"
  obtain c w2 where fd: "fd_call w = (c, w2)" by (rule prod.exhaust)
  have "touches {} fd_call" by (intro touch)
  from persisted_cong[OF touchesD[OF this fd]] run fd show ?thesis by (auto simp: closeLog_def manifestIDs_def split: sum.splits)
qed

lemma SetRunRecorder_fields: "or_cfg (SetRunRecorder pt rec orch) = or_cfg orch" "or_providers (SetRunRecorder pt rec orch) = or_providers orch"
    "or_recorder (SetRunRecorder pt rec orch) = Some (manifestStateRecorder pt rec (c_ResourceExpiresAt (or_cfg orch)))"
    "tailnetLaws live recorded (SetRunRecorder pt rec orch) = tailnetLaws live recorded orch"
  by (simp_all add: SetRunRecorder_def tailnetLaws_def)

lemma SetRunRecorder_lawful:
  assumes "providerLaws live (manifestIDs s runID) p" "tailnetLaws live (manifestIDs s runID) orch"
  shows "lawful live (manifestIDs s runID) (SetRunRecorder pt \<lparr>rc_store = s, rc_runID = runID\<rparr> orch) p"
  using assms manifest_recorderLaws by (simp add: lawful_def SetRunRecorder_fields recorderOK_def)

section \<open>A managed run whose topology stays behind\<close>

abbreviation demoLog :: path where
  "demoLog \<equiv> path_join (runFile exampleStore exampleID ''logs'') ''tailbench.log''"

definition demoRuns :: "path \<Rightarrow> FinalSummary document node option" where
  "demoRuns = createdRuns(demoLog := Some (Regular (Docs [])))"

lemma demoLog_other: "demoLog \<noteq> runFile exampleStore exampleID name" "demoLog \<noteq> filepath_Join [s_root exampleStore, exampleID]"
proof -
  show "demoLog \<noteq> runFile exampleStore exampleID name" by (simp add: runFile_def)
  have "length (snd demoLog) = length (snd (filepath_Join [s_root exampleStore, exampleID])) + 2" by (simp add: runFile_def path_join_def)
  then show "demoLog \<noteq> filepath_Join [s_root exampleStore, exampleID]" by (metis add_eq_self_zero zero_neq_numeral)
qed

lemma demoRuns_ready: "runReady exampleStore exampleID demoRuns"
  using createdRuns_ready demoLog_other demoLog_other[symmetric] unfolding runReady_def demoRuns_def by (simp del: exampleStore_root)

lemma completes_Before:
  assumes "noFaults w" "runReady s runID (w_fs w)" "clockSet w"
  shows "\<exists>w'. BeforeExternalStep \<lparr>rc_store = s, rc_runID = runID\<rparr> stage [] message w = (Inr (), w')"
proof -
  have pure: "workMutator [] g = (\<lambda>m. ret m)" for g by (simp add: workMutator_def fun_eq_iff)
  have ids: "m_RunID (storedManifest s runID (w_fs w)) = runID" "m_SchemaVersion (storedManifest s runID (w_fs w)) = SchemaVersion"
    using runReady_stored(3,4)[OF assms(2)] .
  have up: "completes s runID (Update s runID (Some (workMutator [] startItem))) w (bumpRevision (storedManifest s runID (w_fs w)))
      (bumpRevision (storedManifest s runID (w_fs w))) []"
    unfolding pure by (rule completes_Update_pure[where g = "\<lambda>m. m", OF assms(1,2) ids])
  from completesD[OF up] obtain w1 where w1: "Update s runID (Some (workMutator [] startItem)) w = (Inr (bumpRevision (storedManifest s runID (w_fs w))), w1)"
      "noFaults w1" "runReady s runID (w_fs w1)" "w_clock w1 = w_clock w" by blast
  from completesD[OF completes_now[OF w1(2,3)]] obtain w2 where w2: "now w1 = (Inr (w_clock w1 (w_ticks w1)), w2)" "noFaults w2" "runReady s runID (w_fs w2)" by blast
  let ?e = "zeroEvent\<lparr>e_Time := w_clock w1 (w_ticks w1), e_Kind := EventStepStarted, e_Stage := stage, e_WorkID := [], e_Message := message,
     e_To := workStatus_text WorkRunning\<rparr>"
  have "e_RunID ?e = []" "e_Time ?e \<noteq> 0" using w1(4) assms(3) by (simp_all add: zeroEvent_def clockSet_def)
  from completesD[OF completes_AppendEvent[OF w2(2,3) this]] obtain w3 where "AppendEvent s runID ?e w2 = (Inr (), w3)" by blast
  with w1(1) w2(1) show ?thesis by (simp add: BeforeExternalStep_def Go_OS.bind_def)
qed

lemma demoTopology_normalized: "\<exists>r. normalizeResources exampleID t [manifestResource demoTopology x] = Inr [r]"
  by (simp add: normalizeResource_def manifestResource_def demoTopology_def topologyID_def Let_def)

abbreviation demoManifestRecorder :: "lworld StateRecorder" where
  "demoManifestRecorder \<equiv> manifestStateRecorder (\<lambda>_. None) exampleRecorder []"

lemma demo_accepts_manifest:
  assumes "noFaults w" "runReady exampleStore exampleID (w_fs w)" "clockSet w"
  shows "accepts demoManifestRecorder w"
proof -
  have ne: "[manifestResource demoTopology None] \<noteq> []" "w_clock w (w_ticks w) \<noteq> 0" using assms(3) by (simp_all add: clockSet_def)
  obtain r where r: "normalizeResources exampleID (w_clock w (w_ticks w)) [manifestResource demoTopology None] = Inr [r]" using demoTopology_normalized by blast
  obtain w1 where w1: "RecordResources exampleRecorder [manifestResource demoTopology None] w = (Inr (), w1)" "noFaults w1"
      "runReady exampleStore exampleID (w_fs w1)" "w_clock w1 = w_clock w"
    using completesD[OF completes_RecordResources[OF assms(1,2) ne r]] by blast
  have "clockSet w1" using assms(3) w1(4) by (simp add: clockSet_def)
  from completes_Before[OF w1(2,3) this] obtain w2 where "BeforeExternalStep exampleRecorder ''provision'' [] ''create topology for c7i.large'' w1 = (Inr (), w2)" by blast
  with w1(1) show ?thesis by (simp add: accepts_def manifestStateRecorder_def reported_def errOf_def)
qed

lemma demo_OpenLog: "\<exists>w. Recorder_OpenLog exampleRecorder (worldOf demoRuns) = (Inr demoLog, w) \<and> noFaults w \<and> w_fs w = demoRuns \<and> clockSet w"
proof -
  have ready: "noFaults (worldOf demoRuns)" "runReady exampleStore exampleID (w_fs (worldOf demoRuns))" using demoRuns_ready by simp_all
  have log: "succeeds (Go_OS.bind (mapErr e (os_OpenAppend demoLog)) (\<lambda>_. ret demoLog)) w demoLog demoRuns" if "noFaults w" "w_fs w = demoRuns" for e w
  proof -
    have "succeeds (os_OpenAppend demoLog) w () demoRuns"
      using succeeds_OpenAppend[OF that(1), of demoLog "Docs []"] that(2) by (simp add: demoRuns_def)
    from succeeds_bind[OF succeeds_mapErr[OF this]] show ?thesis by (metis succeeds_ret)
  qed
  have "succeeds (Recorder_OpenLog exampleRecorder) (worldOf demoRuns) demoLog demoRuns"
    unfolding Recorder_OpenLog_def OpenLog_def Recorder.select_convs Let_def runFile_def[symmetric]
    by (rule succeeds_bind[OF succeeds_RunDirectory[OF ready, unfolded worldOf_simps]], fold runFile_def, rule log)
  then show ?thesis by (auto simp: succeeds_def clockSet_def worldOf_def)
qed

text \<open>The orchestrator of the example with the recorder of the example run; its configuration is not the one of the run.\<close>

abbreviation demoRuntime :: "Config \<Rightarrow> go_error + (string list, unit, unit) managed" where
  "demoRuntime \<equiv> (\<lambda>_. Inr (demoOrchestrator demoManifestRecorder True))"

lemma demo_SetRunRecorder: "SetRunRecorder (\<lambda>_. None) exampleRecorder (demoOrchestrator demoManifestRecorder True) = demoOrchestrator demoManifestRecorder True"
  by (simp add: SetRunRecorder_def) (simp add: demoOrchestrator_def demoConfig_def)

lemma demo_execution: "y_cloud (snd (executeWithRecorder (\<lambda>_. None) (\<lambda>_. []) demoRuntime 0 exampleRecorder demoConfig (demoSys (worldOf demoRuns)))) = [''c7i.large'']"
proof -
  obtain w where w: "Recorder_OpenLog exampleRecorder (worldOf demoRuns) = (Inr demoLog, w)" "noFaults w" "w_fs w = demoRuns" "clockSet w"
    using demo_OpenLog by blast
  have "accepts demoManifestRecorder w" using demo_accepts_manifest[OF w(2) _ w(4)] demoRuns_ready w(3) by simp
  from demo_run[OF this, of True] have "y_cloud (snd (RunWithOutcome (demoOrchestrator demoManifestRecorder True) (demoSys w))) = [''c7i.large'']"
    by (simp add: Let_def)
  moreover have "(demoSys (worldOf demoRuns))\<lparr>y_store := w\<rparr> = demoSys w" "y_store (demoSys (worldOf demoRuns)) = worldOf demoRuns"
    by (simp_all add: demoSys_def)
  ultimately show ?thesis
    using w(1) by (simp add: executeWithRecorder_def Let_def demo_SetRunRecorder RunWithResult_def case_prod_beta)
qed

section \<open>Property\<close>

text \<open>
  C27 The manifest accounts for what a managed run leaves behind: whatever fails during the execution, a topology
  that exists afterwards and did not exist before is listed in the manifest on disk, and the manifest that the
  lifecycle computes from the result is recoverable and lists the topology among the resources still to be
  cleaned. So the command \<open>cleanup\<close> finds it.
\<close>

theorem managed_run_accounts_for_topologies:
  assumes "executeWithRecorder parseTime formatTime newRuntime t \<lparr>rc_store = s, rc_runID = runID\<rparr> cfg y = (res, y')"
    and "providerLaws live (manifestIDs s runID) p"
    and "\<And>c orch. newRuntime c = Inr orch \<Longrightarrow> or_providers orch = [p] \<and> tailnetLaws live (manifestIDs s runID) orch"
    and "i \<in> live (y_cloud y')" "i \<notin> live (y_cloud y)"
  shows "topologyID (pv_Name p) i \<in> manifestIDs s runID (y_store y') \<and>
    m_Recoverable (applyExecutionResult m res endedAt) \<and>
    topologyID (pv_Name p) i \<in> r_ID ` set (uncleanResources (m_Resources (applyExecutionResult m res endedAt)))"
proof -
  let ?rec = "\<lparr>rc_store = s, rc_runID = runID\<rparr>"
  obtain l w1 where log: "Recorder_OpenLog ?rec (y_store y) = (l, w1)" by (rule prod.exhaust)
  from assms(1,4,5) log obtain u where u: "l = Inr u" by (cases l) (auto simp: executeWithRecorder_def Let_def)
  obtain orch where orch: "newRuntime (executionConfig formatTime ?rec t cfg) = Inr orch"
    using assms(1,4,5) log u by (cases "newRuntime (executionConfig formatTime ?rec t cfg)")
      (auto simp: executeWithRecorder_def Let_def split: prod.splits)
  let ?orch = "SetRunRecorder parseTime ?rec orch"
  obtain oc y1 where run: "RunWithOutcome ?orch (y\<lparr>y_store := w1\<rparr>) = (oc, y1)" by (rule prod.exhaust)
  let ?res = "executionResult parseTime (c_CleanupPolicy (or_cfg orch)) (c_ResourceExpiresAt (or_cfg orch)) oc"
  obtain res' w2 where close: "closeLog (?res, y_store y1) = (res', w2)" by (rule prod.exhaust)
  have end_eq: "res = res'" "y' = y1\<lparr>y_store := w2\<rparr>"
    using assms(1) log u orch run close by (simp_all add: executeWithRecorder_def RunWithResult_def SetRunRecorder_fields Let_def)
  have law: "lawful live (manifestIDs s runID) ?orch p" "or_providers ?orch = [p]"
    using assms(3)[OF orch] SetRunRecorder_lawful[OF assms(2)] by (simp_all add: SetRunRecorder_fields)
  from RunWithOutcome_inOrder[OF law run] obtain v where v: "pr_Outcome v = oc" "pr_sys v = y1"
      "inOrder live (manifestIDs s runID) ?orch (pv_Name p) (live (y_cloud y)) (live (y_cloud y)) v" by auto
  have alive: "i \<in> live (y_cloud y1)" using assms(4) end_eq(2) by simp
  with v assms(5) have "accounted (manifestIDs s runID) ?orch (pv_Name p) i v" unfolding inOrder_def by blast
  then obtain r where r: "r \<in> set (oc_Resources oc)" "rd_ID r = topologyID (pv_Name p) i" "rd_Status r \<noteq> runstateResourceCleaned"
      and id: "topologyID (pv_Name p) i \<in> manifestIDs s runID (y_store y1)"
    using v by (auto simp: accounted_def covered_def SetRunRecorder_fields)
  have "x_Resources res = Some (map (\<lambda>r. manifestResource r (parseTime (c_ResourceExpiresAt (or_cfg orch)))) (oc_Resources oc))"
    using manifestIDs_closeLog[OF close] r(1) end_eq(1) by (auto simp: executionResult_def Let_def)
  from applied_unclean[OF RunWithOutcome_distinct[OF law(2) run] r(1,3) this] r(2) id manifestIDs_closeLog[OF close] end_eq(2)
  show ?thesis by simp
qed

theorem managed_run_accounts_for_topologies_witness:
  "topologyID ''eks'' ''c7i.large'' \<in> manifestIDs exampleStore exampleID (y_store (snd (executeWithRecorder (\<lambda>_. None) (\<lambda>_. []) demoRuntime 0 exampleRecorder
     demoConfig (demoSys (worldOf demoRuns)))))"
proof -
  obtain res y' where run: "executeWithRecorder (\<lambda>_. None) (\<lambda>_. []) demoRuntime 0 exampleRecorder demoConfig (demoSys (worldOf demoRuns)) = (res, y')"
    by (rule prod.exhaust)
  have "''c7i.large'' \<in> set (y_cloud y')" "''c7i.large'' \<notin> set (y_cloud (demoSys (worldOf demoRuns)))"
    using demo_execution run by (simp_all add: demoSys_def)
  from managed_run_accounts_for_topologies[OF run demo_laws(1)[of "manifestIDs exampleStore exampleID" True] _ this, where m = interruptedManifest and endedAt = 0] have "topologyID (pv_Name (demoProvider True)) ''c7i.large'' \<in> manifestIDs exampleStore exampleID (y_store y')"
    by (simp add: demo_laws(2))
  then show ?thesis using run by simp
qed

end
