(* ===== verification/Go_Regexp.thy ===== *)
theory Go_Regexp
  imports Go_Lib
begin

text \<open>
  The part of package regexp the sources' fixed patterns need: an expression over ASCII classes and word boundaries,
  the positions a match can end at in the order of preference (leftmost, first alternative, longest repetition
  first), and the replacement of all matches. A cursor is the byte before the position and the text after it.
\<close>

definition isWord :: "char \<Rightarrow> bool" where
  "isWord c = (c = CHR ''_'' \<or> isDigit c \<or> (let code = of_char c :: nat in code \<in> {65..90} \<union> {97..122}))"

datatype regex = Eps | Sym "char \<Rightarrow> bool" | WordBoundary | Seq regex regex | Alt regex regex | Star regex

type_synonym cursor = "char option \<times> string"

definition atBoundary :: "cursor \<Rightarrow> bool" where
  "atBoundary k = ((case fst k of None \<Rightarrow> False | Some c \<Rightarrow> isWord c) \<noteq> (case snd k of [] \<Rightarrow> False | c # _ \<Rightarrow> isWord c))"

function ends :: "regex \<Rightarrow> cursor \<Rightarrow> cursor list" where
  "ends Eps k = [k]"
| "ends (Sym P) k = (case snd k of [] \<Rightarrow> [] | c # cs \<Rightarrow> if P c then [(Some c, cs)] else [])"
| "ends WordBoundary k = (if atBoundary k then [k] else [])"
| "ends (Seq a b) k = concat (map (ends b) (ends a k))"
| "ends (Alt a b) k = ends a k @ ends b k"
| "ends (Star a) k = concat (map (\<lambda>k1. if length (snd k1) < length (snd k) then ends (Star a) k1 else []) (ends a k)) @ [k]"
  by pat_completeness auto
termination by (relation "measures [\<lambda>(r, k). size r, \<lambda>(r, k). length (snd k)]") auto

definition Plus :: "regex \<Rightarrow> regex" where
  "Plus r = Seq r (Star r)"

definition Opt :: "regex \<Rightarrow> regex" where
  "Opt r = Alt r Eps"

fun Literal :: "string \<Rightarrow> regex" where
  "Literal [] = Eps"
| "Literal (c # cs) = Seq (Sym (\<lambda>x. x = c)) (Literal cs)"

text \<open>\<^verbatim>\<open>(?i)\<close> for a lower-case literal.\<close>

fun AnyCase :: "string \<Rightarrow> regex" where
  "AnyCase [] = Eps"
| "AnyCase (c # cs) = Seq (Sym (\<lambda>x. lowerChar x = c)) (AnyCase cs)"

text \<open>\<^verbatim>\<open>\\s\<close> has no vertical tab.\<close>

definition reSpace :: "char \<Rightarrow> bool" where
  "reSpace c \<longleftrightarrow> c \<in> {CHR 0x09, CHR 0x0A, CHR 0x0C, CHR 0x0D, CHR '' ''}"

text \<open>
  \<^verbatim>\<open>ReplaceAllString\<close> for a pattern in two parts, of which the first is kept and the second replaced. The patterns
  match no empty text.
\<close>

definition firstMatch :: "regex \<Rightarrow> regex \<Rightarrow> cursor \<Rightarrow> (cursor \<times> cursor) option" where
  "firstMatch kept dropped k = (case concat (map (\<lambda>k1. map (Pair k1) (ends dropped k1)) (ends kept k)) of [] \<Rightarrow> None | m # _ \<Rightarrow> Some m)"

function replaceFrom :: "regex \<Rightarrow> regex \<Rightarrow> string \<Rightarrow> cursor \<Rightarrow> string" where
  "replaceFrom kept dropped new (prev, []) = []"
| "replaceFrom kept dropped new (prev, c # cs) = (case firstMatch kept dropped (prev, c # cs) of
     Some (k1, k2) \<Rightarrow> if length (snd k2) < length (c # cs)
        then take (length (c # cs) - length (snd k1)) (c # cs) @ new @ replaceFrom kept dropped new k2
        else c # replaceFrom kept dropped new (Some c, cs)
   | None \<Rightarrow> c # replaceFrom kept dropped new (Some c, cs))"
  by pat_completeness auto
termination by (relation "measure (\<lambda>(_, _, _, k). length (snd k))") auto

definition ReplaceMatches :: "regex \<Rightarrow> regex \<Rightarrow> string \<Rightarrow> string \<Rightarrow> string" where
  "ReplaceMatches kept dropped new s = replaceFrom kept dropped new (None, s)"

end
