(* ===== verification/Config_Load.thy ===== *)
theory Config_Load
  imports Config_Types Go_OS Go_Fmt Go_Regexp
begin

text \<open>
  Loading the configuration (internal/config): the flags, the YAML document, the environment file, the defaults and
  their checks, and the redacted snapshot that a run keeps for its recovery. The decoding of YAML and the parsing of
  numbers and durations are arguments (\<open>Parsers\<close>), the process environment is a record. Logging is left out.
\<close>

section \<open>Errors\<close>

datatype ErrorKind = ErrorReadConfig | ErrorParseConfig | ErrorEnvironmentFile

record LoadError =
  le_Kind :: ErrorKind
  le_Path :: string
  le_Err :: go_error

fun loadPrefix :: "ErrorKind \<Rightarrow> string" where
  "loadPrefix ErrorReadConfig = ''read configuration ''"
| "loadPrefix ErrorParseConfig = ''parse configuration ''"
| "loadPrefix ErrorEnvironmentFile = ''load environment file ''"

definition LoadError_Error :: "LoadError option \<Rightarrow> string" where
  "LoadError_Error eo = (case eo of None \<Rightarrow> [] | Some e \<Rightarrow> loadPrefix (le_Kind e) @ le_Path e @ '': '' @ error_text (le_Err e))"

definition LoadError_Unwrap :: "LoadError option \<Rightarrow> go_error option" where
  "LoadError_Unwrap eo = map_option le_Err eo"

text \<open>An error of the loader, a plain one or a \<open>LoadError\<close>, which callers tell apart with \<^verbatim>\<open>errors.As\<close>.\<close>

datatype config_error = PlainError go_error | LoadFailed LoadError

section \<open>Environment expansion\<close>

text \<open>\<^verbatim>\<open>envVarRe\<close>: a dollar sign and a non-empty word in braces; the rest after the match.\<close>

definition envVar :: "string \<Rightarrow> (string \<times> string) option" where
  "envVar s = (case s of CHR ''$'' # CHR ''{'' # rest \<Rightarrow>
      (let key = takeWhile isWord rest in case dropWhile isWord rest of
         CHR ''}'' # after \<Rightarrow> if key = [] then None else Some (key, after) | _ \<Rightarrow> None)
    | _ \<Rightarrow> None)"

lemma envVar_shorter: "envVar s = Some (key, rest) \<Longrightarrow> length rest < length s"
proof -
  assume "envVar s = Some (key, rest)"
  then obtain cs where s: "s = CHR ''$'' # CHR ''{'' # cs" and d: "dropWhile isWord cs = CHR ''}'' # rest"
    by (auto simp: envVar_def Let_def split: list.splits char.splits bool.splits if_splits)
  have "length (dropWhile isWord cs) \<le> length cs" by (rule length_dropWhile_le)
  with s d show ?thesis by simp
qed

function expandEnvVars :: "string \<Rightarrow> (string \<Rightarrow> string option) \<Rightarrow> string" where
  "expandEnvVars [] lookup = []"
| "expandEnvVars (c # cs) lookup = (case envVar (c # cs) of
     Some (key, rest) \<Rightarrow> (case lookup key of None \<Rightarrow> [] | Some v \<Rightarrow> v) @ expandEnvVars rest lookup
   | None \<Rightarrow> c # expandEnvVars cs lookup)"
  by pat_completeness auto

termination by (relation "measure (length \<circ> fst)") (auto dest: envVar_shorter)

fun envLines :: "string list \<Rightarrow> (string \<Rightarrow> string option) \<Rightarrow> string \<Rightarrow> string option" where
  "envLines [] values = values"
| "envLines (raw # rest) values = (let line = TrimSpace raw in
     if line = [] \<or> HasPrefix line ''#'' then envLines rest values
     else case Cut (CHR ''='') line of (k, v, ok) \<Rightarrow>
       if \<not> ok \<or> TrimSpace k = [] then envLines rest values
       else envLines rest (values(TrimSpace k \<mapsto> TrimSpace v)))"

section \<open>Flags\<close>

text \<open>
  The flag set of \<^verbatim>\<open>parseArgs\<close> and the loop of \<^verbatim>\<open>FlagSet.Parse\<close>: a name after one or two dashes, a value after an equals
  sign or, for flags that are not boolean, in the next argument. \<open>fg_Specified\<close> are the names that were set.
\<close>

record Parsers =
  ps_ParseFloat :: "string \<Rightarrow> go_error + real"
  ps_ParseInt :: "string \<Rightarrow> go_error + int"
  ps_ParseDuration :: "string \<Rightarrow> go_error + duration"

record Flags =
  fg_config :: string
  fg_provider :: string
  fg_family :: string
  fg_filter :: string
  fg_dryRun :: bool
  fg_cleanupNetworking :: bool
  fg_yes :: bool
  fg_maxCostUSD :: real
  fg_maxDuration :: duration
  fg_maxInstanceTypes :: int
  fg_maxConcurrentResources :: int
  fg_cleanupPolicy :: string
  fg_stateBackend :: string
  fg_Specified :: "string list"

definition defaultFlags :: Flags where
  "defaultFlags = \<lparr>fg_config = ''config.yaml'', fg_provider = [], fg_family = [], fg_filter = [], fg_dryRun = False, fg_cleanupNetworking = False,
     fg_yes = False, fg_maxCostUSD = 0, fg_maxDuration = 0, fg_maxInstanceTypes = 0, fg_maxConcurrentResources = 0, fg_cleanupPolicy = [],
     fg_stateBackend = [], fg_Specified = []\<rparr>"

definition ParseBool :: "string \<Rightarrow> go_error + bool" where
  "ParseBool v = (if v \<in> {''1'', ''t'', ''T'', ''true'', ''TRUE'', ''True''} then Inr True
     else if v \<in> {''0'', ''f'', ''F'', ''false'', ''FALSE'', ''False''} then Inr False else Inl (ErrText ''parse error''))"

definition boolFlags :: "string list" where
  "boolFlags = [''dry-run'', ''cleanup-networking'', ''yes'']"

definition stringFlags :: "string list" where
  "stringFlags = [''config'', ''provider'', ''family'', ''filter'', ''cleanup-policy'', ''state-backend'']"

definition valueFlags :: "string list" where
  "valueFlags = [''max-cost-usd'', ''max-duration'', ''max-instance-types'', ''max-concurrent-resources'']"

definition setFlag :: "Parsers \<Rightarrow> string \<Rightarrow> string \<Rightarrow> Flags \<Rightarrow> go_error + Flags" where
  "setFlag ps name v f =
    (let b = (\<lambda>put. case ParseBool v of Inl e \<Rightarrow> Inl e | Inr x \<Rightarrow> Inr (put x)) in
     if name = ''config'' then Inr (f\<lparr>fg_config := v\<rparr>)
     else if name = ''provider'' then Inr (f\<lparr>fg_provider := v\<rparr>)
     else if name = ''family'' then Inr (f\<lparr>fg_family := v\<rparr>)
     else if name = ''filter'' then Inr (f\<lparr>fg_filter := v\<rparr>)
     else if name = ''dry-run'' then b (\<lambda>x. f\<lparr>fg_dryRun := x\<rparr>)
     else if name = ''cleanup-networking'' then b (\<lambda>x. f\<lparr>fg_cleanupNetworking := x\<rparr>)
     else if name = ''yes'' then b (\<lambda>x. f\<lparr>fg_yes := x\<rparr>)
     else if name = ''max-cost-usd'' then map_sum id (\<lambda>x. f\<lparr>fg_maxCostUSD := x\<rparr>) (ps_ParseFloat ps v)
     else if name = ''max-duration'' then map_sum id (\<lambda>x. f\<lparr>fg_maxDuration := x\<rparr>) (ps_ParseDuration ps v)
     else if name = ''max-instance-types'' then map_sum id (\<lambda>x. f\<lparr>fg_maxInstanceTypes := x\<rparr>) (ps_ParseInt ps v)
     else if name = ''max-concurrent-resources'' then map_sum id (\<lambda>x. f\<lparr>fg_maxConcurrentResources := x\<rparr>) (ps_ParseInt ps v)
     else if name = ''cleanup-policy'' then Inr (f\<lparr>fg_cleanupPolicy := v\<rparr>)
     else Inr (f\<lparr>fg_stateBackend := v\<rparr>))"

definition assignFlag :: "Parsers \<Rightarrow> string \<Rightarrow> string \<Rightarrow> Flags \<Rightarrow> go_error + Flags" where
  "assignFlag ps name v f = (case setFlag ps name v f of
     Inl e \<Rightarrow> Inl (ErrText ((if name \<in> set boolFlags then ''invalid boolean value '' @ quoted v @ '' for -'' @ name
         else ''invalid value '' @ quoted v @ '' for flag -'' @ name) @ '': '' @ error_text e))
   | Inr f1 \<Rightarrow> Inr (f1\<lparr>fg_Specified := name # fg_Specified f1\<rparr>))"

fun parseFlags :: "Parsers \<Rightarrow> string list \<Rightarrow> Flags \<Rightarrow> go_error + Flags" where
  "parseFlags ps [] f = Inr f"
| "parseFlags ps (s # args) f =
    (if length s < 2 \<or> hd s \<noteq> CHR ''-'' then Inr f else if s = ''--'' then Inr f
     else let name0 = (if HasPrefix s ''--'' then drop 2 s else drop 1 s) in
      if HasPrefix name0 ''-'' \<or> HasPrefix name0 ''='' then Inl (ErrText (''bad flag syntax: '' @ s))
      else case Cut (CHR ''='') name0 of (name, v, hasValue) \<Rightarrow>
       if name \<notin> set (boolFlags @ stringFlags @ valueFlags) then
         Inl (if name = ''help'' \<or> name = ''h'' then ErrText ''flag: help requested'' else ErrText (''flag provided but not defined: -'' @ name))
       else if hasValue \<or> name \<in> set boolFlags then
         (case assignFlag ps name (if hasValue then v else ''true'') f of Inl e \<Rightarrow> Inl e | Inr f1 \<Rightarrow> parseFlags ps args f1)
       else (case args of [] \<Rightarrow> Inl (ErrText (''flag needs an argument: -'' @ name))
         | v1 # rest \<Rightarrow> (case assignFlag ps name v1 f of Inl e \<Rightarrow> Inl e | Inr f1 \<Rightarrow> parseFlags ps rest f1)))"

section \<open>The document\<close>

record yamlConfig =
  yc_EnvFile :: string
  yc_Providers :: "string list"
  yc_Family :: string
  yc_Filter :: string
  yc_StateBackend :: string
  yc_CreateTailnet :: bool
  yc_TailnetDNSName :: string
  yc_OAuthClientID :: string
  yc_OAuthClientSecret :: string
  yc_Tag :: string
  yc_IPerfDuration :: int
  yc_IPerfParallel :: int
  yc_IPerfIterations :: int
  yc_MTRCycles :: int
  yc_CooldownSec :: int
  yc_FortioDuration :: int
  yc_FortioConnections :: int
  yc_FortioQPS :: int
  yc_FortioIterations :: int
  yc_PPSDatagramSizes :: "int list"
  yc_PPSLossThresholdPct :: real
  yc_PPSDurationSec :: int
  yc_PPSMaxRatePPS :: int
  yc_Modes :: "string list"
  yc_Timeout :: int
  yc_ReadyTimeout :: int
  yc_AWSRegion :: string
  yc_AWSAZ :: string
  yc_AWSKeyName :: string
  yc_GCPProject :: string
  yc_GCPZone :: string
  yc_AzureLocation :: string
  yc_AzureResourceGroup :: string
  yc_AzureSSHUser :: string
  yc_AzureSSHPubKeyFile :: string
  yc_BenchImage :: string
  yc_TSImage :: string
  yc_IngressFQDN :: string
  yc_ServeFQDN :: string
  yc_ClusterLabel :: string
  yc_CleanupNetworking :: bool
  yc_DryRun :: bool
  yc_MaxCostUSD :: "real option"
  yc_MaxDuration :: string
  yc_MaxInstanceTypes :: int
  yc_MaxConcurrentResources :: int
  yc_CleanupPolicy :: string

fun orStr :: "string list \<Rightarrow> string" where
  "orStr [] = []"
| "orStr (v # vs) = (if v \<noteq> [] then v else orStr vs)"

fun orInt :: "int list \<Rightarrow> int" where
  "orInt [] = 0"
| "orInt (v # vs) = (if v \<noteq> 0 then v else orInt vs)"

definition backendSchemes :: "string list" where
  "backendSchemes = [''file://'', ''s3://'', ''gs://'', ''azblob://'', ''https://'', ''http://'']"

definition normalizeStateBackend :: "string \<Rightarrow> go_error + string" where
  "normalizeStateBackend s0 = (let s = TrimSpace s0 in
     if s = [] then Inr []
     else if TrimSuffix s ''/'' \<in> {''pulumi.com'', ''app.pulumi.com'', ''https://pulumi.com'', ''https://app.pulumi.com''} then Inr ''https://api.pulumi.com''
     else if list_ex (HasPrefix s) backendSchemes then Inr s
     else Inl (ErrText (''invalid state_backend '' @ quoted s @ '': use '' @ quoted ''pulumi.com'' @
       '' for Pulumi Cloud, or a URL with one of these schemes: '' @ JoinStr '' '' backendSchemes)))"

section \<open>Limits\<close>

text \<open>The four limits and the policy, in the order of the code: a flag that was given wins over the document, the document over the default.\<close>

definition costLimit :: "yamlConfig \<Rightarrow> Flags \<Rightarrow> go_error + (real \<times> bool)" where
  "costLimit yc f =
    (let (cost, given) = (if ''max-cost-usd'' \<in> set (fg_Specified f) then (fg_maxCostUSD f, True)
       else case yc_MaxCostUSD yc of None \<Rightarrow> (DefaultMaxCostUSD, False) | Some c \<Rightarrow> (c, True)) in
     if cost \<le> 0 then Inl (ErrText ''max_cost_usd must be greater than zero'') else Inr (cost, given))"

definition durationLimit :: "Parsers \<Rightarrow> yamlConfig \<Rightarrow> Flags \<Rightarrow> go_error + duration" where
  "durationLimit ps yc f =
    (case (if yc_MaxDuration yc = [] then Inr DefaultMaxDuration else ps_ParseDuration ps (yc_MaxDuration yc)) of
       Inl e \<Rightarrow> Inl (Wrapf (''invalid max_duration '' @ quoted (yc_MaxDuration yc) @ '': '') e [])
     | Inr d \<Rightarrow> (let limit = (if ''max-duration'' \<in> set (fg_Specified f) then fg_maxDuration f else d) in
         if limit \<le> 0 then Inl (ErrText ''max_duration must be greater than zero'') else Inr limit))"

definition countLimit :: "string \<Rightarrow> string \<Rightarrow> int \<Rightarrow> int \<Rightarrow> int \<Rightarrow> Flags \<Rightarrow> go_error + int" where
  "countLimit name flag documented fallback given f =
    (let limit = (if flag \<in> set (fg_Specified f) then given else orInt [documented, fallback]) in
     if limit \<le> 0 then Inl (ErrText (name @ '' must be greater than zero'')) else Inr limit)"

definition chosenPolicy :: "yamlConfig \<Rightarrow> Flags \<Rightarrow> go_error + string" where
  "chosenPolicy yc f =
    (let policy = (if fg_cleanupNetworking f \<or> yc_CleanupNetworking yc \<and> yc_CleanupPolicy yc = [] then CleanupAlways
       else if ''cleanup-policy'' \<in> set (fg_Specified f) then fg_cleanupPolicy f else orStr [yc_CleanupPolicy yc, CleanupAlways]) in
     if policy \<in> {CleanupAlways, CleanupOnSuccess, CleanupManual} then Inr policy
     else Inl (ErrText (''invalid cleanup_policy '' @ quoted policy @ ''; expected always, on-success, or manual'')))"

section \<open>Files\<close>

record parseOptions =
  op_resolveSecrets :: bool
  op_loadSSHKeys :: bool

text \<open>What the process has around it, and how the files decode.\<close>

record 'd Process =
  pc_LookupEnv :: "string \<Rightarrow> string option"
  pc_Getwd :: string
  pc_Home :: "go_error + string"
  pc_decodeConfig :: "'d content \<Rightarrow> go_error + yamlConfig"
  pc_text :: "'d content \<Rightarrow> string"
  pc_Parsers :: Parsers

definition filepath_Dir :: "string \<Rightarrow> path" where
  "filepath_Dir s = Clean (take (nat (LastIndex (CHR ''/'') s + 1)) s)"

definition besideConfig :: "string \<Rightarrow> string \<Rightarrow> string" where
  "besideConfig configFile p = (if HasPrefix p ''/'' then p else path_string (filepath_Join [path_string (filepath_Dir configFile), p]))"

text \<open>
  The lines of the scanner: split at line feeds, without a carriage return at the end. A line that fills the buffer of the scanner
  stops it with an error.
\<close>

definition maxScanTokenSize :: nat where "maxScanTokenSize = 65536"

definition scanLines :: "string \<Rightarrow> string list" where
  "scanLines t = map (\<lambda>l. TrimSuffix l [CHR 0x0D]) (Split (CHR 0x0A) t)"

definition readEnvFile :: "'d Process \<Rightarrow> string \<Rightarrow> ('d, string \<Rightarrow> string option) io" where
  "readEnvFile pc p = bind (os_ReadFile (Clean p)) (\<lambda>c.
     if list_ex (\<lambda>l. maxScanTokenSize \<le> length l) (Split (CHR 0x0A) (pc_text pc c)) then raise (ErrText ''bufio.Scanner: token too long'')
     else ret (envLines (scanLines (pc_text pc c)) (\<lambda>_. None)))"

fun homeKey :: "'d Process \<Rightarrow> string \<Rightarrow> string list \<Rightarrow> 'd world \<Rightarrow> string \<times> 'd world" where
  "homeKey pc home [] w = ([], w)"
| "homeKey pc home (name # names) w = (case os_ReadFile (filepath_Join [home, ''.ssh'', name]) w of
     (Inl _, w1) \<Rightarrow> homeKey pc home names w1
   | (Inr c, w1) \<Rightarrow> (let key = TrimSpace (pc_text pc c) in if key \<noteq> [] then (key, w1) else homeKey pc home names w1))"

definition sshKey :: "'d Process \<Rightarrow> string \<Rightarrow> yamlConfig \<Rightarrow> ('d, string) io" where
  "sshKey pc configFile yc =
    (if yc_AzureSSHPubKeyFile yc \<noteq> [] then
      (let pubKeyFile = besideConfig configFile (yc_AzureSSHPubKeyFile yc) in
       bind (mapErr (\<lambda>e. Wrapf (''read azure.ssh_pub_key_file '' @ pubKeyFile @ '': '') e []) (os_ReadFile (Clean pubKeyFile))) (\<lambda>c.
         let key = TrimSpace (pc_text pc c) in
         if key = [] then raise (ErrText (''azure.ssh_pub_key_file '' @ pubKeyFile @ '' is empty'')) else ret key))
     else case pc_Home pc of Inl _ \<Rightarrow> ret []
       | Inr home \<Rightarrow> (\<lambda>w. case homeKey pc home [''id_ed25519.pub'', ''id_rsa.pub''] w of (k, w1) \<Rightarrow> (Inr k, w1)))"

section \<open>The configuration\<close>

definition orFirst :: "string \<Rightarrow> string \<Rightarrow> string" where
  "orFirst a b = orStr [a, b]"

definition configOf :: "yamlConfig \<Rightarrow> Flags \<Rightarrow> string \<Rightarrow> string \<Rightarrow> string \<Rightarrow> real \<times> bool \<Rightarrow> duration \<Rightarrow> int \<Rightarrow> int \<Rightarrow> string \<Rightarrow> string \<Rightarrow> Config" where
  "configOf yc f rootDir clientID clientSecret cost duration types concurrent policy backend =
    \<lparr>c_Providers = yc_Providers yc, c_Family = orStr [fg_family f, yc_Family yc, ''all''], c_Filter = orFirst (fg_filter f) (yc_Filter yc),
     c_CreateTailnet = yc_CreateTailnet yc, c_TailnetDNSName = TrimSpace (yc_TailnetDNSName yc), c_OAuthClientID = clientID,
     c_OAuthClientSecret = clientSecret, c_Tag = orFirst (yc_Tag yc) ''tag:bench'', c_IPerfDuration = orInt [yc_IPerfDuration yc, 30],
     c_IPerfParallel = orInt [yc_IPerfParallel yc, 4], c_IPerfIterations = orInt [yc_IPerfIterations yc, 3], c_MTRCycles = orInt [yc_MTRCycles yc, 100],
     c_CooldownSec = orInt [yc_CooldownSec yc, 30], c_CreditRetrySec = 60, c_SSHTimeout = orInt [yc_Timeout yc, 120],
     c_ReadyTimeout = orInt [yc_ReadyTimeout yc, 300], c_AWSRegion = orFirst (yc_AWSRegion yc) ''us-west-2'', c_AWSAZ = orFirst (yc_AWSAZ yc) ''us-west-2a'',
     c_AWSKeyName = yc_AWSKeyName yc, c_GCPProject = orFirst (yc_GCPProject yc) ''tailscale-sandbox'', c_GCPZone = orFirst (yc_GCPZone yc) ''us-central1-a'',
     c_AzureLocation = orFirst (yc_AzureLocation yc) ''eastus'', c_AzureResourceGroup = orFirst (yc_AzureResourceGroup yc) ''tailbench-rg'',
     c_AzureSSHUser = orFirst (yc_AzureSSHUser yc) ''azureuser'', c_AzureSSHPubKey = [], c_CleanupNetworking = (policy \<noteq> CleanupManual),
     c_DryRun = (yc_DryRun yc \<or> fg_dryRun f), c_AuthKeyRefreshSec = 1800, c_RootDir = rootDir, c_StateDir = ''file://'' @ rootDir @ ''/state'',
     c_StateBackend = backend, c_BenchImage = orFirst (yc_BenchImage yc) ''ghcr.io/rajsinghtech/tailbench-tools:latest'',
     c_TSImage = orFirst (yc_TSImage yc) ''ghcr.io/tailscale/tailscale:latest'', c_FortioDuration = orInt [yc_FortioDuration yc, 30],
     c_FortioConnections = orInt [yc_FortioConnections yc, 16], c_FortioQPS = yc_FortioQPS yc, c_FortioIterations = orInt [yc_FortioIterations yc, 3],
     c_PPSDatagramSizes = yc_PPSDatagramSizes yc, c_PPSLossThresholdPct = yc_PPSLossThresholdPct yc, c_PPSDurationSec = yc_PPSDurationSec yc,
     c_PPSMaxRatePPS = yc_PPSMaxRatePPS yc, c_Modes = yc_Modes yc, c_IngressFQDN = yc_IngressFQDN yc, c_ServeFQDN = yc_ServeFQDN yc,
     c_ClusterLabel = orFirst (yc_ClusterLabel yc) ''app.kubernetes.io/part-of=tailbench-l7'', c_Yes = fg_yes f, c_MaxCostUSD = fst cost,
     c_MaxCostSet = snd cost, c_MaxDuration = duration, c_MaxInstanceTypes = types, c_MaxConcurrentResources = concurrent, c_CleanupPolicy = policy,
     c_RunID = [], c_ResourceExpiresAt = []\<rparr>"

text \<open>Everything between the reading of the files and the key: the limits, the policy and the backend.\<close>

definition checkedConfig :: "'d Process \<Rightarrow> parseOptions \<Rightarrow> Flags \<Rightarrow> yamlConfig \<Rightarrow> (string \<Rightarrow> string option) \<Rightarrow> go_error + Config" where
  "checkedConfig pc options f yc fileEnvironment =
    (let lookup = (\<lambda>key. case pc_LookupEnv pc key of Some v \<Rightarrow> Some v | None \<Rightarrow> fileEnvironment key);
         secret = (\<lambda>v. if op_resolveSecrets options then expandEnvVars v lookup else []) in
     case costLimit yc f of Inl e \<Rightarrow> Inl e | Inr cost \<Rightarrow>
     (case durationLimit (pc_Parsers pc) yc f of Inl e \<Rightarrow> Inl e | Inr duration \<Rightarrow>
     (case countLimit ''max_instance_types'' ''max-instance-types'' (yc_MaxInstanceTypes yc) DefaultMaxInstanceTypes (fg_maxInstanceTypes f) f of Inl e \<Rightarrow> Inl e | Inr types \<Rightarrow>
     (case countLimit ''max_concurrent_resources'' ''max-concurrent-resources'' (yc_MaxConcurrentResources yc) DefaultMaxConcurrentResources (fg_maxConcurrentResources f) f of
        Inl e \<Rightarrow> Inl e | Inr concurrent \<Rightarrow>
     (case chosenPolicy yc f of Inl e \<Rightarrow> Inl e | Inr policy \<Rightarrow>
     (case normalizeStateBackend (orFirst (fg_stateBackend f) (expandEnvVars (yc_StateBackend yc) lookup)) of Inl e \<Rightarrow> Inl e | Inr backend \<Rightarrow>
       Inr (configOf yc f (pc_Getwd pc) (secret (yc_OAuthClientID yc)) (secret (yc_OAuthClientSecret yc)) cost duration types concurrent policy backend)))))))"

definition withDefaults :: "string \<Rightarrow> Flags \<Rightarrow> Config \<Rightarrow> Config" where
  "withDefaults defaultProvider f cfg =
    (let modes = (if c_Modes cfg = [] then [''l4-kernel''] else c_Modes cfg);
         named = (if fg_provider f \<noteq> [] then Split (CHR '','') (fg_provider f) else c_Providers cfg) in
     cfg\<lparr>c_Modes := modes, c_Providers := (if named = [] then [defaultProvider] else named)\<rparr>)"

definition parseArgs :: "'d Process \<Rightarrow> string \<Rightarrow> string list \<Rightarrow> parseOptions \<Rightarrow> 'd world \<Rightarrow> (config_error + Config) \<times> 'd world" where
  "parseArgs pc defaultProvider args options w =
    (case parseFlags (pc_Parsers pc) args defaultFlags of
       Inl e \<Rightarrow> (Inl (PlainError e), w)
     | Inr f \<Rightarrow> (case os_ReadFile (Clean (fg_config f)) w of
       (Inl e, w1) \<Rightarrow> (Inl (LoadFailed \<lparr>le_Kind = ErrorReadConfig, le_Path = fg_config f, le_Err = e\<rparr>), w1)
     | (Inr c, w1) \<Rightarrow> (case pc_decodeConfig pc c of
       Inl e \<Rightarrow> (Inl (LoadFailed \<lparr>le_Kind = ErrorParseConfig, le_Path = fg_config f, le_Err = e\<rparr>), w1)
     | Inr yc \<Rightarrow> (let envPath = besideConfig (fg_config f) (yc_EnvFile yc) in
       case (if op_resolveSecrets options \<and> yc_EnvFile yc \<noteq> [] then readEnvFile pc envPath w1 else (Inr (\<lambda>_. None), w1)) of
       (Inl e, w2) \<Rightarrow> (Inl (LoadFailed \<lparr>le_Kind = ErrorEnvironmentFile, le_Path = envPath, le_Err = e\<rparr>), w2)
     | (Inr fileEnvironment, w2) \<Rightarrow> (case checkedConfig pc options f yc fileEnvironment of
       Inl e \<Rightarrow> (Inl (PlainError e), w2)
     | Inr cfg \<Rightarrow> (case (if op_loadSSHKeys options then sshKey pc (fg_config f) yc w2 else (Inr [], w2)) of
       (Inl e, w3) \<Rightarrow> (Inl (PlainError e), w3)
     | (Inr key, w3) \<Rightarrow> (Inr (withDefaults defaultProvider f (cfg\<lparr>c_AzureSSHPubKey := key\<rparr>)), w3)))))))"

definition ParseArgs :: "'d Process \<Rightarrow> string \<Rightarrow> string list \<Rightarrow> 'd world \<Rightarrow> (config_error + Config) \<times> 'd world" where
  "ParseArgs pc defaultProvider args = parseArgs pc defaultProvider args \<lparr>op_resolveSecrets = True, op_loadSSHKeys = True\<rparr>"

definition ParseLocalArgs :: "'d Process \<Rightarrow> string \<Rightarrow> string list \<Rightarrow> 'd world \<Rightarrow> (config_error + Config) \<times> 'd world" where
  "ParseLocalArgs pc defaultProvider args = parseArgs pc defaultProvider args \<lparr>op_resolveSecrets = False, op_loadSSHKeys = False\<rparr>"

section \<open>The redacted snapshot\<close>

record redactedSnapshot =
  sn_SchemaVersion :: int
  sn_MaxDuration :: string
  sn_Config :: "Config option"

definition redactedSnapshotSchemaVersion :: int where "redactedSnapshotSchemaVersion = 1"

definition redact :: "Config \<Rightarrow> Config" where
  "redact cfg = cfg\<lparr>c_OAuthClientID := [], c_OAuthClientSecret := [], c_AzureSSHPubKey := [], c_Yes := False, c_DryRun := False\<rparr>"

text \<open>\<open>marshal\<close> and \<open>unmarshal\<close> are the YAML package.\<close>

definition MarshalRedacted :: "(redactedSnapshot \<Rightarrow> go_error + string) \<Rightarrow> Config option \<Rightarrow> go_error + string" where
  "MarshalRedacted marshal cfg = (case cfg of
     None \<Rightarrow> Inl (ErrText ''configuration is required'')
   | Some c \<Rightarrow> (case marshal \<lparr>sn_SchemaVersion = redactedSnapshotSchemaVersion, sn_MaxDuration = Duration_String (c_MaxDuration c),
        sn_Config = Some ((redact c)\<lparr>c_MaxDuration := 0\<rparr>)\<rparr> of
       Inl e \<Rightarrow> Inl (Wrapf ''marshal redacted effective configuration: '' e []) | Inr data \<Rightarrow> Inr data))"

definition ParseRedacted :: "(string \<Rightarrow> go_error + redactedSnapshot) \<Rightarrow> (string \<Rightarrow> go_error + duration) \<Rightarrow> string \<Rightarrow> go_error + Config" where
  "ParseRedacted unmarshal parseDuration data = (case unmarshal data of
     Inl e \<Rightarrow> Inl (Wrapf ''parse redacted effective configuration: '' e [])
   | Inr snapshot \<Rightarrow> if sn_SchemaVersion snapshot \<noteq> redactedSnapshotSchemaVersion then
       Inl (ErrText (''unsupported effective configuration schema '' @ string_of_int (sn_SchemaVersion snapshot) @ ''; expected '' @ string_of_int redactedSnapshotSchemaVersion))
     else (case sn_Config snapshot of
       None \<Rightarrow> Inl (ErrText ''effective configuration is missing'')
     | Some c \<Rightarrow> (let bad = Inl (ErrText (''invalid recorded max_duration '' @ quoted (sn_MaxDuration snapshot))) in
         case parseDuration (sn_MaxDuration snapshot) of
           Inl _ \<Rightarrow> bad
         | Inr d \<Rightarrow> if d \<le> 0 then bad else Inr (redact (c\<lparr>c_MaxDuration := d\<rparr>)))))"

end
