(* ===== verification/Recovery.thy ===== *)
theory Recovery
  imports Go_OS
begin

text \<open>
  The recovery of Pulumi locks (internal/recovery): the locks of the recorded stacks are found under the lock
  directory of the provider's local backend and removed, and nothing else is touched. What the system knows beyond
  the nodes of the world (the working directory, the type of a file, what \<^verbatim>\<open>filepath.WalkDir\<close> visits) is a record.
\<close>

section \<open>Paths\<close>

text \<open>\<^verbatim>\<open>filepath.Base\<close>: the last element without trailing slashes.\<close>

definition filepath_Base :: "string \<Rightarrow> string" where
  "filepath_Base s = (if s = [] then ''.'' else
     let t = rev (dropWhile (\<lambda>c. c = CHR ''/'') (rev s)) in if t = [] then ''/'' else last (Split (CHR ''/'') t))"

text \<open>\<^verbatim>\<open>filepath.Rel\<close> of two clean paths: up from the base to the common part, then down to the target.\<close>

fun commonRest :: "string list \<Rightarrow> string list \<Rightarrow> string list \<times> string list" where
  "commonRest (b # bs) (t # ts) = (if b = t then commonRest bs ts else (b # bs, t # ts))"
| "commonRest bs ts = (bs, ts)"

definition filepath_Rel :: "path \<Rightarrow> path \<Rightarrow> go_error + path" where
  "filepath_Rel base targ = (let (bs, ts) = commonRest (snd base) (snd targ);
       failed = Inl (ErrText (''Rel: can'' @ [CHR 0x27] @ ''t make '' @ path_string targ @ '' relative to '' @ path_string base)) in
     if fst base \<noteq> fst targ \<or> (bs \<noteq> [] \<and> hd bs = ''..'') then failed
     else Inr (False, replicate (length bs) ''..'' @ ts))"

section \<open>The surroundings\<close>

datatype fileType = RegularFile | Symlink | SpecialFile

record Visit =
  vs_Path :: path
  vs_Err :: "go_error option"
  vs_IsDir :: bool
  vs_Symlink :: bool
  vs_Info :: "go_error + fileType"

text \<open>\<open>pe_Walk\<close> are the calls of the callback of \<^verbatim>\<open>filepath.WalkDir\<close> in their order, as long as it returns nil.\<close>

record PathEnv =
  pe_Getwd :: "go_error + path"
  pe_Type :: "path \<Rightarrow> fileType"
  pe_Walk :: "path \<Rightarrow> Visit list"

definition filepath_Abs :: "PathEnv \<Rightarrow> string \<Rightarrow> go_error + path" where
  "filepath_Abs env s = (if HasPrefix s ''/'' then Inr (Clean s)
     else case pe_Getwd env of Inl e \<Rightarrow> Inl e | Inr wd \<Rightarrow> Inr (filepath_Join [path_string wd, s]))"

section \<open>Scope\<close>

definition validStack :: "string \<Rightarrow> bool" where
  "validStack stack \<longleftrightarrow> stack \<noteq> [] \<and> stack \<noteq> ''.'' \<and> stack \<noteq> ''..'' \<and> filepath_Base stack = stack"

definition validatedLockScope :: "PathEnv \<Rightarrow> string \<Rightarrow> string list \<Rightarrow> go_error + (path \<times> string set)" where
  "validatedLockScope env providerStateDir stackNames =
    (if TrimSpace providerStateDir = [] then Inl (ErrText ''provider state directory is required'')
     else let stacks = map TrimSpace stackNames in
       case find (\<lambda>stack. \<not> validStack stack) stacks of
         Some stack \<Rightarrow> Inl (ErrText (''invalid recorded Pulumi stack name '' @ quoted stack))
       | None \<Rightarrow> if stacks = [] then Inl (ErrText ''at least one recorded Pulumi stack name is required'')
         else case filepath_Abs env providerStateDir of
             Inl e \<Rightarrow> Inl (Wrapf ''resolve provider state directory: '' e [])
           | Inr rootDir \<Rightarrow> Inr (filepath_Join [path_string rootDir, ''.pulumi'', ''locks''], set stacks))"

definition pathContainsStack :: "path \<Rightarrow> string set \<Rightarrow> bool" where
  "pathContainsStack p stacks \<longleftrightarrow> list_ex (\<lambda>component. component \<in> stacks) (Split (CHR ''/'') (path_string p))"

definition isWithin :: "path \<Rightarrow> path \<Rightarrow> bool" where
  "isWithin base p = (case filepath_Rel base p of Inl _ \<Rightarrow> False
     | Inr rel \<Rightarrow> (let relative = path_string rel in relative \<noteq> ''..'' \<and> relative \<noteq> ''.'' \<and> \<not> HasPrefix relative ''../''))"

section \<open>Finding\<close>

text \<open>The callback of the walk; it collects the absolute paths of the locks.\<close>

definition visitLock :: "PathEnv \<Rightarrow> path \<Rightarrow> string set \<Rightarrow> Visit \<Rightarrow> string list \<Rightarrow> go_error + string list" where
  "visitLock env locksRoot stacks v found =
    (case vs_Err v of Some e \<Rightarrow> Inl e
     | None \<Rightarrow> if vs_IsDir v then Inr found
       else case filepath_Rel locksRoot (vs_Path v) of Inl e \<Rightarrow> Inl e
       | Inr relative \<Rightarrow> if \<not> pathContainsStack relative stacks then Inr found
         else if vs_Symlink v then Inl (ErrText (''refuse symlinked Pulumi lock '' @ path_string (vs_Path v)))
         else case vs_Info v of Inl e \<Rightarrow> Inl e
         | Inr t \<Rightarrow> if t \<noteq> RegularFile then Inl (ErrText (''refuse non-regular Pulumi lock '' @ path_string (vs_Path v)))
           else case filepath_Abs env (path_string (vs_Path v)) of Inl e \<Rightarrow> Inl e
           | Inr absolute \<Rightarrow> Inr (found @ [path_string absolute]))"

fun walkLocks :: "PathEnv \<Rightarrow> path \<Rightarrow> string set \<Rightarrow> Visit list \<Rightarrow> string list \<Rightarrow> go_error + string list" where
  "walkLocks env locksRoot stacks [] found = Inr found"
| "walkLocks env locksRoot stacks (v # vs) found = (case visitLock env locksRoot stacks v found of
     Inl e \<Rightarrow> Inl e | Inr found1 \<Rightarrow> walkLocks env locksRoot stacks vs found1)"

definition FindPulumiLocks :: "PathEnv \<Rightarrow> string \<Rightarrow> string list \<Rightarrow> ('d, string list) io" where
  "FindPulumiLocks env providerStateDir stackNames w = (case validatedLockScope env providerStateDir stackNames of
     Inl e \<Rightarrow> (Inl e, w)
   | Inr (locksRoot, stacks) \<Rightarrow> (case os_Stat locksRoot w of
       (Inl e, w1) \<Rightarrow> if errors_Is e ErrNotExist then (Inr [], w1)
          else (Inl (Wrapf (''inspect Pulumi lock root '' @ path_string locksRoot @ '': '') e []), w1)
     | (Inr _, w1) \<Rightarrow> (case walkLocks env locksRoot stacks (pe_Walk env locksRoot) [] of
         Inl e \<Rightarrow> (Inl (Wrapf (''discover Pulumi locks under '' @ path_string locksRoot @ '': '') e []), w1)
       | Inr found \<Rightarrow> (Inr (sort found), w1))))"

section \<open>Removing\<close>

text \<open>Every path is validated before the first removal.\<close>

fun validateLocks :: "PathEnv \<Rightarrow> path \<Rightarrow> string list \<Rightarrow> path list \<Rightarrow> ('d, path list) io" where
  "validateLocks env locksRoot [] files w = (Inr files, w)"
| "validateLocks env locksRoot (p # ps) files w = (case filepath_Abs env p of
     Inl e \<Rightarrow> (Inl (Wrapf (''resolve Pulumi lock '' @ quoted p @ '': '') e []), w)
   | Inr absolute \<Rightarrow>
       if \<not> isWithin locksRoot absolute then
         (Inl (ErrText (''refuse Pulumi lock outside provider backend '' @ path_string locksRoot @ '': '' @ path_string absolute)), w)
       else if absolute \<in> set files then validateLocks env locksRoot ps files w
       else (case os_Stat absolute w of
         (Inl e, w1) \<Rightarrow> (Inl (Wrapf (''inspect Pulumi lock '' @ path_string absolute @ '': '') e []), w1)
       | (Inr n, w1) \<Rightarrow> if n = Dir \<or> pe_Type env absolute \<noteq> RegularFile
           then (Inl (ErrText (''refuse non-regular Pulumi lock '' @ path_string absolute)), w1)
           else validateLocks env locksRoot ps (files @ [absolute]) w1))"

fun removeLocks :: "path list \<Rightarrow> string list \<Rightarrow> 'd world \<Rightarrow> (string list \<times> go_error option) \<times> 'd world" where
  "removeLocks [] removed w = ((removed, None), w)"
| "removeLocks (p # ps) removed w = (case os_Remove p w of
     (Inl e, w1) \<Rightarrow> ((removed, Some (Wrapf (''remove Pulumi lock '' @ path_string p @ '': '') e [])), w1)
   | (Inr _, w1) \<Rightarrow> removeLocks ps (removed @ [path_string p]) w1)"

definition RemovePulumiLocks :: "PathEnv \<Rightarrow> string \<Rightarrow> string list \<Rightarrow> 'd world \<Rightarrow> (string list \<times> go_error option) \<times> 'd world" where
  "RemovePulumiLocks env providerStateDir paths w = (case validatedLockScope env providerStateDir [''validation-only''] of
     Inl e \<Rightarrow> (([], Some e), w)
   | Inr (locksRoot, _) \<Rightarrow> (case validateLocks env locksRoot paths [] w of
       (Inl e, w1) \<Rightarrow> (([], Some e), w1)
     | (Inr files, w1) \<Rightarrow> removeLocks (sort_key path_string files) [] w1))"

end
