(* ===== verification/Recovery_Props.thy ===== *)
theory Recovery_Props
  imports Recovery
begin

text \<open>
  What the recovery of locks may remove: nothing outside the lock directory whatever fails, and in a world without
  faults exactly the regular files below it that belong to a recorded stack.
\<close>

section \<open>Relative paths\<close>

definition below :: "path \<Rightarrow> path \<Rightarrow> bool" where
  "below base p \<longleftrightarrow> (\<exists>rest. rest \<noteq> [] \<and> p = (fst base, snd base @ rest))"

lemma commonRest_split: "commonRest bs ts = (bs', ts') \<Longrightarrow> \<exists>c. bs = c @ bs' \<and> ts = c @ ts'"
proof (induction bs ts rule: commonRest.induct)
  case (1 b bs t ts)
  then show ?case by (cases "b = t") (fastforce intro: exI[of _ "b # _"])+
qed auto

lemma commonRest_below: "commonRest bs (bs @ rest) = ([], rest)"
  by (induction bs) auto

lemma filepath_Rel_below: "filepath_Rel base (fst base, snd base @ rest) = Inr (False, rest)"
  by (simp add: filepath_Rel_def commonRest_below)

lemma path_string_dots: "path_string (False, ''..'' # cs) = ''..'' \<or> HasPrefix (path_string (False, ''..'' # cs)) ''../''"
  by (cases cs) (simp_all add: path_string_def HasPrefix_def)

lemma isWithin_below: "isWithin base p \<Longrightarrow> below base p"
proof -
  assume within: "isWithin base p"
  then obtain rel where rel: "filepath_Rel base p = Inr rel"
    and r: "path_string rel \<noteq> ''..''" "path_string rel \<noteq> ''.''" "\<not> HasPrefix (path_string rel) ''../''"
    by (auto simp: isWithin_def Let_def split: sum.splits)
  obtain bs ts where c: "commonRest (snd base) (snd p) = (bs, ts)" by (rule prod.exhaust)
  with rel have f: "fst base = fst p" "rel = (False, replicate (length bs) ''..'' @ ts)"
    by (auto simp: filepath_Rel_def Let_def split: if_splits)
  from c obtain k where k: "snd base = k @ bs" "snd p = k @ ts" using commonRest_split by blast
  have "bs = []"
  proof (rule ccontr)
    assume "bs \<noteq> []"
    then obtain cs where "rel = (False, ''..'' # cs)" using f(2) by (cases bs) auto
    with path_string_dots[of cs] r show False by simp
  qed
  moreover from this have "ts \<noteq> []" using f(2) r(2) by (auto simp: path_string_def)
  ultimately show "below base p" using f(1) k by (auto simp: below_def prod_eq_iff intro!: exI[of _ ts])
qed

lemma plain_relative:
  assumes "list_all plainComp rest" "rest \<noteq> []"
  shows "path_string (False, rest) \<noteq> ''..'' \<and> path_string (False, rest) \<noteq> ''.'' \<and> \<not> HasPrefix (path_string (False, rest)) ''../''"
proof -
  obtain c cs where r: "rest = c # cs" using assms(2) by (cases rest) auto
  have c: "c \<noteq> []" "c \<noteq> ''.''" "c \<noteq> ''..''" "CHR ''/'' \<notin> set c" using assms(1) r by (auto simp: plainComp_def)
  have split: "Split (CHR ''/'') (path_string (False, rest)) = rest"
    using assms r Split_JoinStr[of rest "CHR ''/''"] by (auto simp: path_string_def list_all_iff plainComp_def)
  have "path_string (False, rest) \<noteq> s" if "hd (Split (CHR ''/'') s) \<noteq> c" for s using split r that by auto
  moreover have "\<not> HasPrefix (path_string (False, rest)) ''../''"
  proof
    assume "HasPrefix (path_string (False, rest)) ''../''"
    then obtain t where "path_string (False, rest) = ''..'' @ CHR ''/'' # t" by (auto simp: HasPrefix_iff)
    then have "hd (Split (CHR ''/'') (path_string (False, rest))) = ''..''" by simp
    with split r c(3) show False by simp
  qed
  ultimately show ?thesis using c by simp
qed

lemma below_isWithin: "below base p \<Longrightarrow> cleanList True (snd p) \<Longrightarrow> isWithin base p"
proof -
  assume b: "below base p" and clean: "cleanList True (snd p)"
  from b obtain rest where rest: "rest \<noteq> []" "p = (fst base, snd base @ rest)" by (auto simp: below_def)
  from clean rest(2) have "list_all plainComp rest" using cleanList_rooted_no_dots by fastforce
  from plain_relative[OF this rest(1)] rest(2) show ?thesis by (simp add: isWithin_def filepath_Rel_below Let_def)
qed

section \<open>Validation and removal\<close>

definition validLock :: "PathEnv \<Rightarrow> path \<Rightarrow> string list \<Rightarrow> 'd world \<Rightarrow> path \<Rightarrow> bool" where
  "validLock env locksRoot ps w q \<longleftrightarrow> isWithin locksRoot q \<and> (\<exists>p \<in> set ps. filepath_Abs env p = Inr q) \<and>
     (\<exists>c. w_fs w q = Some (Regular c)) \<and> pe_Type env q = RegularFile"

lemma os_Stat_frame: "os_Stat p w = (r, w1) \<Longrightarrow> w_fs w1 = w_fs w"
  using touchesD[OF touches_pure(1)[of "{}"]] by (fastforce simp: evolves_def)

lemma os_Stat_found: "os_Stat p w = (Inr n, w1) \<Longrightarrow> w_fs w p = Some n"
  by (auto simp: os_Stat_def syscall_def Let_def split: option.splits fault.splits)

lemma validateLocks_valid:
  "validateLocks env locksRoot ps files w = (r, w1) \<Longrightarrow> w_fs w1 = w_fs w \<and>
    (\<forall>fs. r = Inr fs \<longrightarrow> (\<forall>q \<in> set fs. q \<in> set files \<or> validLock env locksRoot ps w q) \<and> (distinct files \<longrightarrow> distinct fs))"
proof (induction env locksRoot ps files w rule: validateLocks.induct)
  case (2 env locksRoot p ps files w)
  note step = "2.prems"[unfolded validateLocks.simps(2)]
  have weaken: "validLock env locksRoot ps v q \<Longrightarrow> w_fs v = w_fs w \<Longrightarrow> validLock env locksRoot (p # ps) w q" for v q
    by (auto simp: validLock_def)
  show ?case
  proof (cases "filepath_Abs env p")
    case (Inr absolute)
    show ?thesis
    proof (cases "isWithin locksRoot absolute \<and> absolute \<notin> set files")
      case True
      obtain s w2 where st: "os_Stat absolute w = (s, w2)" by (rule prod.exhaust)
      note frame = os_Stat_frame[OF st]
      show ?thesis
      proof (cases "\<exists>n. s = Inr n \<and> n \<noteq> Dir \<and> pe_Type env absolute = RegularFile")
        case ok: True
        then obtain n where n: "s = Inr n" "n \<noteq> Dir" "pe_Type env absolute = RegularFile" by blast
        with st os_Stat_found obtain c where "w_fs w absolute = Some (Regular c)" by (metis node.exhaust)
        then have valid: "validLock env locksRoot (p # ps) w absolute" using Inr True n by (simp add: validLock_def)
        have run: "validateLocks env locksRoot ps (files @ [absolute]) w2 = (r, w1)" using step Inr True st n by simp
        from "2.IH"(2)[OF Inr _ _ st[symmetric] n(1) _ run] True n frame weaken valid show ?thesis by fastforce
      qed (use step Inr True st frame in \<open>auto split: sum.splits if_splits\<close>)
    next
      case False
      show ?thesis
      proof (cases "isWithin locksRoot absolute")
        case True
        with False step Inr have seen: "\<not> \<not> isWithin locksRoot absolute" "absolute \<in> set files"
          and run: "validateLocks env locksRoot ps files w = (r, w1)" by simp_all
        from "2.IH"(1)[OF Inr seen run] weaken[of w] show ?thesis by blast
      qed (use step Inr in auto)
    qed
  qed (use step in auto)
qed auto

lemma removeLocks_frame:
  "removeLocks ps removed w = ((rm, e), w1) \<Longrightarrow> set removed \<subseteq> set rm \<and>
    (\<forall>q. w_fs w1 q \<noteq> w_fs w q \<longrightarrow> q \<in> set ps \<and> w_fs w1 q = None \<and> path_string q \<in> set rm)"
proof (induction ps removed w rule: removeLocks.induct)
  case (2 p ps removed w)
  obtain r w2 where rem: "os_Remove p w = (r, w2)" by (rule prod.exhaust)
  show ?case
  proof (cases r)
    case (Inl _)
    with rem have "w_fs w2 = w_fs w" by (auto simp: os_Remove_def syscall_def Let_def split: option.splits fault.splits)
    with "2.prems" rem Inl show ?thesis by simp
  next
    case (Inr _)
    with rem have fs: "w_fs w2 = (w_fs w)(p := None)" by (auto simp: os_Remove_def syscall_def Let_def split: option.splits fault.splits)
    have "removeLocks ps (removed @ [path_string p]) w2 = ((rm, e), w1)" using "2.prems" rem Inr by simp
    from "2.IH"[OF rem[symmetric] Inr this] fs show ?thesis by (auto split: if_splits)
  qed
qed simp

lemma removeLocks_all:
  "noFaults w \<Longrightarrow> distinct ps \<Longrightarrow> \<forall>q \<in> set ps. w_fs w q \<noteq> None \<Longrightarrow>
    \<exists>w1. removeLocks ps removed w = ((removed @ map path_string ps, None), w1) \<and> w_fs w1 = (\<lambda>q. if q \<in> set ps then None else w_fs w q)"
proof (induction ps arbitrary: removed w)
  case (Cons p ps)
  let ?w2 = "set_node p None (w\<lparr>w_calls := w_calls w + 1\<rparr>)"
  have rem: "os_Remove p w = (Inr (), ?w2)" using Cons.prems by (auto simp: os_Remove_def syscall_ok)
  have "noFaults ?w2" "distinct ps" "\<forall>q \<in> set ps. w_fs ?w2 q \<noteq> None" using Cons.prems by auto
  from Cons.IH[OF this, of "removed @ [path_string p]"] obtain w1 where
    "removeLocks ps (removed @ [path_string p]) ?w2 = ((removed @ map path_string (p # ps), None), w1)"
    "w_fs w1 = (\<lambda>q. if q \<in> set ps then None else w_fs ?w2 q)" by auto
  with rem show ?case by (auto simp: fun_eq_iff)
qed simp

section \<open>Finding\<close>

text \<open>What the documentation of \<^verbatim>\<open>filepath.WalkDir\<close> promises of the visits below a directory of a world.\<close>

definition visitLaw :: "PathEnv \<Rightarrow> 'd world \<Rightarrow> path \<Rightarrow> Visit \<Rightarrow> bool" where
  "visitLaw env w base v \<longleftrightarrow> vs_Err v = None \<and> (vs_Path v = base \<or> below base (vs_Path v)) \<and>
     cleanList (fst (vs_Path v)) (snd (vs_Path v)) \<and> w_fs w (vs_Path v) \<noteq> None \<and> (vs_IsDir v \<longleftrightarrow> w_fs w (vs_Path v) = Some Dir) \<and>
     vs_Info v = Inr (pe_Type env (vs_Path v)) \<and> (vs_Symlink v \<longleftrightarrow> pe_Type env (vs_Path v) = Symlink)"

definition walkLaws :: "PathEnv \<Rightarrow> 'd world \<Rightarrow> bool" where
  "walkLaws env w \<longleftrightarrow> (\<forall>base. list_all (visitLaw env w base) (pe_Walk env base) \<and>
     (\<forall>q c. below base q \<and> w_fs w q = Some (Regular c) \<longrightarrow> q \<in> vs_Path ` set (pe_Walk env base)))"

text \<open>A lock of a recorded stack: a file below the lock directory on whose relative path the stack occurs.\<close>

definition recordedLock :: "'d world \<Rightarrow> path \<Rightarrow> string set \<Rightarrow> path \<Rightarrow> bool" where
  "recordedLock w locksRoot stacks q \<longleftrightarrow> below locksRoot q \<and> (\<exists>c. w_fs w q = Some (Regular c)) \<and>
     (\<exists>relative. filepath_Rel locksRoot q = Inr relative \<and> pathContainsStack relative stacks)"

lemma path_string_rooted: "HasPrefix (path_string (True, cs)) ''/''"
  by (simp add: path_string_def HasPrefix_def)

lemma filepath_Abs_rooted: "fst q \<Longrightarrow> cleanList (fst q) (snd q) \<Longrightarrow> filepath_Abs env (path_string q) = Inr q"
  using Clean_path_string[of q] path_string_rooted[of "snd q"] by (cases q) (simp add: filepath_Abs_def)

lemma visitLock_found:
  assumes "visitLock env locksRoot stacks v found = Inr found1" "visitLaw env w locksRoot v" "w_fs w locksRoot = Some Dir" "fst locksRoot"
  shows "recordedLock w locksRoot stacks (vs_Path v) \<and> pe_Type env (vs_Path v) = RegularFile \<and> found1 = found @ [path_string (vs_Path v)] \<or>
    \<not> recordedLock w locksRoot stacks (vs_Path v) \<and> found1 = found"
proof (cases "vs_IsDir v")
  case True
  with assms show ?thesis by (auto simp: visitLock_def recordedLock_def visitLaw_def)
next
  case False
  with assms(2) obtain c where c: "w_fs w (vs_Path v) = Some (Regular c)" unfolding visitLaw_def by (metis node.exhaust option.exhaust)
  then have b: "below locksRoot (vs_Path v)" using assms(2,3) by (auto simp: visitLaw_def)
  then have rooted: "fst (vs_Path v)" using assms(4) by (auto simp: below_def)
  from b obtain rel where rel: "filepath_Rel locksRoot (vs_Path v) = Inr rel" by (auto simp: below_def filepath_Rel_below)
  show ?thesis
  proof (cases "pathContainsStack rel stacks")
    case True
    then have "recordedLock w locksRoot stacks (vs_Path v)" using b c rel by (auto simp: recordedLock_def)
    moreover have "pe_Type env (vs_Path v) = RegularFile \<and> found1 = found @ [path_string (vs_Path v)]"
      using assms(1,2) False rel True filepath_Abs_rooted[OF rooted] by (simp add: visitLock_def visitLaw_def split: if_splits)
    ultimately show ?thesis by blast
  next
    case noStack: False
    with rel have "\<not> recordedLock w locksRoot stacks (vs_Path v)" by (auto simp: recordedLock_def)
    with assms(1,2) False rel noStack show ?thesis by (simp add: visitLock_def visitLaw_def)
  qed
qed

lemma walkLocks_found:
  assumes "walkLocks env locksRoot stacks vs found = Inr found1" "list_all (visitLaw env w locksRoot) vs"
    and "w_fs w locksRoot = Some Dir" "fst locksRoot"
  shows "\<exists>qs. found1 = found @ map path_string qs \<and> set qs = {q \<in> vs_Path ` set vs. recordedLock w locksRoot stacks q} \<and>
    (\<forall>q \<in> set qs. pe_Type env q = RegularFile)"
  using assms(1,2)
proof (induction vs arbitrary: found)
  case (Cons v vs)
  from Cons.prems(1) obtain found2 where step: "visitLock env locksRoot stacks v found = Inr found2"
    and rest: "walkLocks env locksRoot stacks vs found2 = Inr found1" by (auto split: sum.splits)
  have "visitLaw env w locksRoot v" "list_all (visitLaw env w locksRoot) vs" using Cons.prems(2) by simp_all
  from Cons.IH[OF rest this(2)] obtain qs where qs: "found1 = found2 @ map path_string qs"
    "set qs = {q \<in> vs_Path ` set vs. recordedLock w locksRoot stacks q}" "\<forall>q \<in> set qs. pe_Type env q = RegularFile" by blast
  from visitLock_found[OF step \<open>visitLaw env w locksRoot v\<close> assms(3,4)] show ?case
  proof
    assume "recordedLock w locksRoot stacks (vs_Path v) \<and> pe_Type env (vs_Path v) = RegularFile \<and> found2 = found @ [path_string (vs_Path v)]"
    with qs show ?thesis by (intro exI[of _ "vs_Path v # qs"]) auto
  next
    assume "\<not> recordedLock w locksRoot stacks (vs_Path v) \<and> found2 = found"
    with qs show ?thesis by (intro exI[of _ qs]) auto
  qed
qed simp

section \<open>Both together\<close>

lemma validation_only: "TrimSpace ''validation-only'' = ''validation-only'' \<and> validStack ''validation-only''"
  by code_simp

lemma validatedLockScope_root: "validatedLockScope env dir names = Inr (locksRoot, stacks) \<Longrightarrow>
    validatedLockScope env dir [''validation-only''] = Inr (locksRoot, {''validation-only''})"
  using validation_only by (auto simp: validatedLockScope_def Let_def split: if_splits option.splits sum.splits)

lemma Clean_rooted: "fst (Clean s) \<longleftrightarrow> HasPrefix s ''/''"
  by (simp add: Clean_def Let_def)

lemma filepath_Join_first: "path_string q \<noteq> [] \<Longrightarrow> fst q \<Longrightarrow> fst (filepath_Join (path_string q # ss))"
proof -
  assume q: "fst q" and ne: "path_string q \<noteq> []"
  obtain t where "path_string q = CHR ''/'' # t" using q by (cases q) (simp add: path_string_def)
  moreover have "HasPrefix (JoinStr ''/'' ((CHR ''/'' # t) # rs)) ''/''" for rs by (cases rs) (simp_all add: HasPrefix_def)
  ultimately show ?thesis by (simp add: filepath_Join_def Clean_rooted)
qed

lemma path_string_ne: "fst q \<Longrightarrow> path_string q \<noteq> []"
  by (cases q) (simp add: path_string_def)

lemma filepath_Abs_fst: "filepath_Abs env s = Inr q \<Longrightarrow> \<forall>wd. pe_Getwd env = Inr wd \<longrightarrow> fst wd \<Longrightarrow> fst q"
  by (auto simp: filepath_Abs_def Clean_rooted filepath_Join_first path_string_ne split: if_splits sum.splits)

lemma lockRoot_rooted: "validatedLockScope env dir names = Inr (locksRoot, stacks) \<Longrightarrow> \<forall>wd. pe_Getwd env = Inr wd \<longrightarrow> fst wd \<Longrightarrow> fst locksRoot"
  by (auto simp: validatedLockScope_def Let_def split: if_splits option.splits sum.splits
      dest!: filepath_Abs_fst intro!: filepath_Join_first path_string_ne)

lemma validateLocks_ok:
  assumes "noFaults w" "\<And>p. p \<in> set ps \<Longrightarrow> \<exists>q c. filepath_Abs env p = Inr q \<and> isWithin locksRoot q \<and> w_fs w q = Some (Regular c) \<and> pe_Type env q = RegularFile"
  shows "\<exists>fs w1. validateLocks env locksRoot ps files w = (Inr fs, w1) \<and> set fs = set files \<union> {q. \<exists>p \<in> set ps. filepath_Abs env p = Inr q} \<and> noFaults w1"
  using assms
proof (induction ps arbitrary: files w)
  case (Cons p ps)
  obtain q c where q: "filepath_Abs env p = Inr q" "isWithin locksRoot q" "w_fs w q = Some (Regular c)" "pe_Type env q = RegularFile"
    using Cons.prems(2)[of p] by auto
  let ?w2 = "w\<lparr>w_calls := w_calls w + 1\<rparr>"
  have st: "os_Stat q w = (Inr (Regular c), ?w2)" using Cons.prems(1) q(3) by (simp add: os_Stat_def syscall_ok)
  let ?files = "if q \<in> set files then files else files @ [q]"
  let ?w = "if q \<in> set files then w else ?w2"
  have step: "validateLocks env locksRoot (p # ps) files w = validateLocks env locksRoot ps ?files ?w"
    using q st by simp
  have rest: "\<exists>q c. filepath_Abs env p' = Inr q \<and> isWithin locksRoot q \<and> w_fs ?w q = Some (Regular c) \<and> pe_Type env q = RegularFile" if "p' \<in> set ps" for p'
    using Cons.prems(2)[of p'] that by auto
  have "noFaults ?w" using Cons.prems(1) by simp
  from Cons.IH[OF this rest, where files = ?files] obtain fs w1 where
    "validateLocks env locksRoot ps ?files ?w = (Inr fs, w1)" "set fs = set ?files \<union> {q. \<exists>p \<in> set ps. filepath_Abs env p = Inr q}" "noFaults w1" by blast
  with step q(1) show ?case by auto
qed simp

text \<open>A successful search returns the paths of exactly the recorded locks, each of which passes the validation.\<close>

lemma FindPulumiLocks_found:
  assumes "noFaults w" "walkLaws env w" "fst locksRoot"
    and "validatedLockScope env dir names = Inr (locksRoot, stacks)" "w_fs w locksRoot = Some Dir"
    and "FindPulumiLocks env dir names w = (Inr found, w1)"
  shows "w1 = w\<lparr>w_calls := w_calls w + 1\<rparr> \<and> set found = path_string ` {q. recordedLock w locksRoot stacks q} \<and>
    (\<forall>q. recordedLock w locksRoot stacks q \<longrightarrow> filepath_Abs env (path_string q) = Inr q \<and> isWithin locksRoot q \<and> pe_Type env q = RegularFile)"
proof -
  have st: "os_Stat locksRoot w = (Inr Dir, w\<lparr>w_calls := w_calls w + 1\<rparr>)" using assms(1,5) by (simp add: os_Stat_def syscall_ok)
  from assms(4,6) st obtain fs where walk: "walkLocks env locksRoot stacks (pe_Walk env locksRoot) [] = Inr fs" and found: "found = sort fs"
    and w1: "w1 = w\<lparr>w_calls := w_calls w + 1\<rparr>" by (auto simp: FindPulumiLocks_def split: sum.splits)
  have law: "list_all (visitLaw env w locksRoot) (pe_Walk env locksRoot)"
    "\<And>q c. below locksRoot q \<Longrightarrow> w_fs w q = Some (Regular c) \<Longrightarrow> q \<in> vs_Path ` set (pe_Walk env locksRoot)"
    using assms(2) by (auto simp: walkLaws_def)
  from walkLocks_found[OF walk law(1) assms(5,3)] obtain qs where qs: "fs = map path_string qs"
    "set qs = {q \<in> vs_Path ` set (pe_Walk env locksRoot). recordedLock w locksRoot stacks q}" "\<forall>q \<in> set qs. pe_Type env q = RegularFile" by auto
  have all: "set qs = {q. recordedLock w locksRoot stacks q}" using qs(2) law(2) by (auto simp: recordedLock_def)
  have "filepath_Abs env (path_string q) = Inr q \<and> isWithin locksRoot q \<and> pe_Type env q = RegularFile" if "recordedLock w locksRoot stacks q" for q
  proof -
    have b: "below locksRoot q" "fst q" using that assms(3) by (auto simp: recordedLock_def below_def)
    have q: "q \<in> set qs" using that all by simp
    with qs(2) law(1) have clean: "cleanList (fst q) (snd q)" by (auto simp: list_all_iff visitLaw_def)
    then have "cleanList True (snd q)" using b(2) by simp
    with below_isWithin[OF b(1)] filepath_Abs_rooted[OF b(2) clean] q qs(3) show ?thesis by auto
  qed
  with found qs(1) all w1 show ?thesis by simp
qed

section \<open>An example\<close>

abbreviation exampleLocks :: path where
  "exampleLocks \<equiv> (True, [''state'', ''aws'', ''.pulumi'', ''locks''])"

abbreviation exampleLock :: path where
  "exampleLock \<equiv> (True, [''state'', ''aws'', ''.pulumi'', ''locks'', ''bench'', ''7.json''])"

definition lockNodes :: "(path \<times> unit node) list" where
  "lockNodes = [(exampleLocks, Dir), (exampleLock, Regular (Docs []))]"

definition lockWorld :: "unit world" where
  "lockWorld = \<lparr>w_fs = map_of lockNodes, w_fault = (\<lambda>_. None), w_calls = 0, w_rand = (\<lambda>_. 0), w_draws = 0, w_clock = (\<lambda>_. 0), w_ticks = 0\<rparr>"

definition atOrBelow :: "path \<Rightarrow> path \<Rightarrow> bool" where
  "atOrBelow base p \<longleftrightarrow> fst base = fst p \<and> take (length (snd base)) (snd p) = snd base"

definition lockEnv :: PathEnv where
  "lockEnv = \<lparr>pe_Getwd = Inr (True, []), pe_Type = (\<lambda>_. RegularFile), pe_Walk = (\<lambda>base. map (\<lambda>(p, n). \<lparr>vs_Path = p, vs_Err = None,
     vs_IsDir = (n = Dir), vs_Symlink = False, vs_Info = Inr RegularFile\<rparr>) (filter (\<lambda>(p, n). atOrBelow base p) lockNodes))\<rparr>"

lemma atOrBelow_iff: "atOrBelow base p \<longleftrightarrow> p = base \<or> below base p"
proof
  assume a: "atOrBelow base p"
  then have p: "p = (fst base, snd base @ drop (length (snd base)) (snd p))" 
    using append_take_drop_id[of "length (snd base)" "snd p", symmetric] by (cases p) (simp add: atOrBelow_def del: append_take_drop_id)
  show "p = base \<or> below base p"
  proof (cases "drop (length (snd base)) (snd p) = []")
    case True
    with p have "p = (fst base, snd base @ [])" by simp
    then show ?thesis by simp
  qed (use p in \<open>auto simp only: below_def\<close>)
qed (auto simp: atOrBelow_def below_def)

lemma lockNodes_clean: "list_all (\<lambda>(p, n). cleanList (fst p) (snd p) \<and> map_of lockNodes p = Some n) lockNodes"
proof -
  have "list_all (\<lambda>(p, n). list_all (\<lambda>c. c \<noteq> [] \<and> c \<noteq> ''.'' \<and> c \<noteq> ''..'' \<and> CHR ''/'' \<notin> set c) (snd p) \<and> map_of lockNodes p = Some n) lockNodes"
    unfolding lockNodes_def by code_simp
  moreover have "cleanList r cs" if "list_all (\<lambda>c. c \<noteq> [] \<and> c \<noteq> ''.'' \<and> c \<noteq> ''..'' \<and> CHR ''/'' \<notin> set c) cs" for r cs
    using that unfolding cleanList_def plainComp_def[abs_def] by (intro exI[of _ 0] exI[of _ cs]) simp
  ultimately show ?thesis by (fastforce simp: list_all_iff)
qed

lemma lockEnv_laws: "walkLaws lockEnv lockWorld" "noFaults lockWorld" "\<forall>wd. pe_Getwd lockEnv = Inr wd \<longrightarrow> fst wd"
proof -
  have "list_all (visitLaw lockEnv lockWorld base) (pe_Walk lockEnv base)" for base
    using lockNodes_clean by (auto simp: lockEnv_def visitLaw_def lockWorld_def list_all_iff atOrBelow_iff split: if_splits)
  moreover have "q \<in> vs_Path ` set (pe_Walk lockEnv base)" if "below base q" "w_fs lockWorld q = Some (Regular c)" for base q c
    using that map_of_SomeD[of lockNodes q] by (force simp: lockEnv_def lockWorld_def atOrBelow_iff)
  ultimately show "walkLaws lockEnv lockWorld" by (simp add: walkLaws_def)
qed (simp_all add: lockEnv_def lockWorld_def noFaults_def)

lemma lockScope: "validatedLockScope lockEnv ''/state/aws'' [''bench''] = Inr (exampleLocks, {''bench''})"
proof -
  have "TrimSpace ''/state/aws'' = ''/state/aws'' \<and> TrimSpace ''bench'' = ''bench'' \<and> validStack ''bench'' \<and>
      filepath_Join [path_string (Clean ''/state/aws''), ''.pulumi'', ''locks''] = exampleLocks \<and> HasPrefix ''/state/aws'' ''/''"
    by code_simp
  then show ?thesis by (simp add: validatedLockScope_def filepath_Abs_def Let_def)
qed

lemma lockWalk: "walkLocks lockEnv exampleLocks {''bench''} (pe_Walk lockEnv exampleLocks) [] = Inr [path_string exampleLock]"
proof -
  have "walkLocks lockEnv exampleLocks (set [''bench'']) (pe_Walk lockEnv exampleLocks) [] = Inr [path_string exampleLock]"
    by code_simp
  then show ?thesis by simp
qed

lemma lockFound: "FindPulumiLocks lockEnv ''/state/aws'' [''bench''] lockWorld = (Inr [path_string exampleLock], lockWorld\<lparr>w_calls := 1\<rparr>)"
proof -
  have "os_Stat exampleLocks lockWorld = (Inr Dir, lockWorld\<lparr>w_calls := 1\<rparr>)"
    by (simp add: os_Stat_def syscall_ok lockEnv_laws(2)) (simp add: lockWorld_def lockNodes_def)
  then show ?thesis by (simp add: FindPulumiLocks_def lockScope lockWalk)
qed

lemma lockRecorded: "recordedLock lockWorld exampleLocks {''bench''} exampleLock"
proof -
  have "atOrBelow exampleLocks exampleLock \<and> exampleLock \<noteq> exampleLocks" by (simp add: atOrBelow_def)
  then have "below exampleLocks exampleLock" unfolding atOrBelow_iff by blast
  moreover have "w_fs lockWorld exampleLock = Some (Regular (Docs []))" by (simp add: lockWorld_def lockNodes_def)
  moreover have "filepath_Rel exampleLocks exampleLock = Inr (False, [''bench'', ''7.json'']) \<and> pathContainsStack (False, [''bench'', ''7.json'']) (set [''bench''])"
    by code_simp
  ultimately show ?thesis by (auto simp: recordedLock_def)
qed

section \<open>Properties\<close>

text \<open>
  C24 The removal of locks is confined: whichever system calls fail, a node that changed is strictly below the lock
  directory of the provider's backend, was a regular file, was named by one of the given paths, is gone, and is
  among the reported removals.
\<close>

theorem RemovePulumiLocks_confined:
  assumes "RemovePulumiLocks env dir paths w = ((removed, e), w')" "w_fs w' q \<noteq> w_fs w q"
  shows "\<exists>locksRoot stacks c. validatedLockScope env dir [''validation-only''] = Inr (locksRoot, stacks) \<and> below locksRoot q \<and>
    (\<exists>p \<in> set paths. filepath_Abs env p = Inr q) \<and> w_fs w q = Some (Regular c) \<and> pe_Type env q = RegularFile \<and>
    w_fs w' q = None \<and> path_string q \<in> set removed"
proof -
  from assms obtain locksRoot stacks where scope: "validatedLockScope env dir [''validation-only''] = Inr (locksRoot, stacks)"
    by (auto simp: RemovePulumiLocks_def split: sum.splits)
  obtain r w1 where v: "validateLocks env locksRoot paths [] w = (r, w1)" by (rule prod.exhaust)
  note valid = validateLocks_valid[OF v]
  from assms scope v valid obtain files where r: "r = Inr files" by (cases r) (auto simp: RemovePulumiLocks_def)
  with assms(1) scope v have "removeLocks (sort_key path_string files) [] w1 = ((removed, e), w')" by (simp add: RemovePulumiLocks_def)
  from removeLocks_frame[OF this] assms(2) valid have q: "q \<in> set files" "w_fs w' q = None" "path_string q \<in> set removed" by auto
  with valid r have "validLock env locksRoot paths w q" by auto
  with scope q isWithin_below[of locksRoot q] show ?thesis by (auto simp: validLock_def)
qed

theorem RemovePulumiLocks_confined_witness:
  "below exampleLocks exampleLock \<and> w_fs (snd (RemovePulumiLocks lockEnv ''/state/aws'' [path_string exampleLock] lockWorld)) exampleLock = None"
proof -
  obtain rm e w' where run: "RemovePulumiLocks lockEnv ''/state/aws'' [path_string exampleLock] lockWorld = ((rm, e), w')" by (metis surj_pair)
  have "w_fs (snd (RemovePulumiLocks lockEnv ''/state/aws'' [path_string exampleLock] lockWorld)) exampleLock = None" by code_simp
  moreover have "w_fs lockWorld exampleLock = Some (Regular (Docs []))" by (simp add: lockWorld_def lockNodes_def)
  ultimately have "w_fs w' exampleLock \<noteq> w_fs lockWorld exampleLock" using run by simp
  from RemovePulumiLocks_confined[OF run this] validatedLockScope_root[OF lockScope] run show ?thesis by auto
qed

text \<open>
  C25 Finding and then removing recovers exactly the locks of the recorded stacks: without faults, the removal of
  what was found succeeds, removes every regular file below the lock directory on whose path a recorded stack
  occurs, and leaves everything else as it was. A search that meets such an entry which is not a regular file fails
  and nothing is removed.
\<close>

theorem lock_recovery_exact:
  assumes "noFaults w" "walkLaws env w" "\<forall>wd. pe_Getwd env = Inr wd \<longrightarrow> fst wd"
    and "validatedLockScope env dir names = Inr (locksRoot, stacks)" "w_fs w locksRoot = Some Dir"
    and "FindPulumiLocks env dir names w = (Inr found, w1)"
  shows "\<exists>removed w2. RemovePulumiLocks env dir found w1 = ((removed, None), w2) \<and> set removed = set found \<and>
    w_fs w2 = (\<lambda>q. if recordedLock w locksRoot stacks q then None else w_fs w q)"
proof -
  note scope = assms(4)
  note found = FindPulumiLocks_found[OF assms(1,2) lockRoot_rooted[OF scope assms(3)] scope assms(5,6)]
  then have w1: "noFaults w1" "w_fs w1 = w_fs w" using assms(1) by auto
  have ok: "\<exists>q c. filepath_Abs env p = Inr q \<and> isWithin locksRoot q \<and> w_fs w1 q = Some (Regular c) \<and> pe_Type env q = RegularFile" if "p \<in> set found" for p
  proof -
    from that found obtain q where q: "p = path_string q" "recordedLock w locksRoot stacks q" by auto
    moreover from q(2) obtain c where "w_fs w1 q = Some (Regular c)" using w1(2) by (auto simp: recordedLock_def)
    ultimately show ?thesis using found by blast
  qed
  obtain files w2 where v: "validateLocks env locksRoot found [] w1 = (Inr files, w2)"
      "set files = {q. \<exists>p \<in> set found. filepath_Abs env p = Inr q}" "noFaults w2"
    using validateLocks_ok[where files = "[]" and ps = found, OF w1(1) ok] by auto
  have files: "set files = {q. recordedLock w locksRoot stacks q}" using v(2) found by force
  note valid = validateLocks_valid[OF v(1)]
  let ?files = "sort_key path_string files"
  have fs2: "w_fs w2 = w_fs w" and "distinct ?files" using valid w1(2) by auto
  moreover have "\<forall>q \<in> set ?files. w_fs w2 q \<noteq> None" using files fs2 by (auto simp: recordedLock_def)
  ultimately obtain w3 where
    "removeLocks ?files [] w2 = ((map path_string ?files, None), w3)" "w_fs w3 = (\<lambda>q. if q \<in> set ?files then None else w_fs w2 q)"
    using removeLocks_all[OF v(3), of ?files "[]"] by auto
  with validatedLockScope_root[OF scope] v(1) files found fs2 show ?thesis
    by (intro exI[of _ "map path_string ?files"] exI[of _ w3]) (simp add: RemovePulumiLocks_def fun_eq_iff)
qed

theorem lock_recovery_exact_witness:
  "\<exists>removed w2. RemovePulumiLocks lockEnv ''/state/aws'' [path_string exampleLock] (lockWorld\<lparr>w_calls := 1\<rparr>) = ((removed, None), w2) \<and> w_fs w2 exampleLock = None"
proof -
  have "w_fs lockWorld exampleLocks = Some Dir" by (simp add: lockWorld_def lockNodes_def)
  from lock_recovery_exact[OF lockEnv_laws(2,1,3) lockScope this lockFound] lockRecorded show ?thesis by force
qed

end
