(* ===== verification/Preflight.thy ===== *)
theory Preflight
  imports Go_Fmt
begin

text \<open>
  The checks before a run (internal/preflight): required tools, the read-only checks of the cloud and of the state
  backend by commands, and those of the tailnet by HTTP. Finding a program, running a command and sending a request
  act on an arbitrary state and may fail; the decoding of JSON and of URLs is an argument.
\<close>

section \<open>Reports\<close>

definition PreflightSchemaVersion :: int where "PreflightSchemaVersion = 1"

datatype CheckStatus = CheckPassed | CheckFailed | CheckWarning | CheckSkipped

fun checkStatus_text :: "CheckStatus \<Rightarrow> string" where
  "checkStatus_text CheckPassed = ''passed''"
| "checkStatus_text CheckFailed = ''failed''"
| "checkStatus_text CheckWarning = ''warning''"
| "checkStatus_text CheckSkipped = ''skipped''"

record PreflightCheck =
  ck_Name :: string
  ck_Status :: CheckStatus
  ck_Detail :: string
  ck_Remediation :: string
  ck_Remote :: bool

record RemoteIdentity =
  ri_Account :: string
  ri_Project :: string
  ri_Subscription :: string

record PreflightReport =
  pf_SchemaVersion :: int
  pf_Provider :: string
  pf_Workload :: string
  pf_Remote :: bool
  pf_Ready :: bool
  pf_Checks :: "PreflightCheck list"
  pf_Identity :: RemoteIdentity

record TailscaleRequest =
  tr_OAuthClientID :: string
  tr_OAuthClientSecret :: string
  tr_CreateTailnet :: bool
  tr_Modes :: "string list"
  tr_Workload :: string

type_synonym 's Finder = "string \<Rightarrow> 's \<Rightarrow> (go_error + string) \<times> 's"
type_synonym 's RemoteChecker = "string \<Rightarrow> 's \<Rightarrow> (PreflightCheck list \<times> RemoteIdentity \<times> go_error option) \<times> 's"
type_synonym 's TailscaleChecker = "TailscaleRequest \<Rightarrow> 's \<Rightarrow> PreflightCheck list \<times> 's"

record 's PreflightRequest =
  rq_Provider :: string
  rq_Workload :: string
  rq_Finder :: "'s Finder"
  rq_Remote :: bool
  rq_RemoteChecker :: "'s RemoteChecker option"
  rq_Tailscale :: TailscaleRequest
  rq_TailscaleChecker :: "'s TailscaleChecker option"

definition noIdentity :: RemoteIdentity where
  "noIdentity = \<lparr>ri_Account = [], ri_Project = [], ri_Subscription = []\<rparr>"

definition newCheck :: "string \<Rightarrow> CheckStatus \<Rightarrow> string \<Rightarrow> string \<Rightarrow> bool \<Rightarrow> PreflightCheck" where
  "newCheck name st detail remediation remote =
    \<lparr>ck_Name = name, ck_Status = st, ck_Detail = detail, ck_Remediation = remediation, ck_Remote = remote\<rparr>"

section \<open>The doctor\<close>

definition providerCLI :: "string \<Rightarrow> string" where
  "providerCLI provider = (if provider \<in> {''aws'', ''eks''} then ''aws'' else if provider \<in> {''gcp'', ''gke''} then ''gcloud''
     else if provider \<in> {''azure'', ''aks''} then ''az'' else provider)"

definition doctorTools :: "string \<Rightarrow> string \<Rightarrow> string list" where
  "doctorTools provider workload = [''pulumi'', providerCLI provider] @ (if workload = ''kubernetes'' then [''kubectl'', ''helm''] else [])"

definition addCheck :: "PreflightCheck \<Rightarrow> PreflightReport \<Rightarrow> PreflightReport" where
  "addCheck c r = r\<lparr>pf_Checks := pf_Checks r @ [c], pf_Ready := pf_Ready r \<and> ck_Status c \<noteq> CheckFailed\<rparr>"

fun checkTools :: "'s Finder \<Rightarrow> string list \<Rightarrow> PreflightReport \<Rightarrow> 's \<Rightarrow> PreflightReport \<times> 's" where
  "checkTools finder [] r s = (r, s)"
| "checkTools finder (tool # tools) r s = (case finder tool s of
     (Inl _, s1) \<Rightarrow> checkTools finder tools (addCheck (newCheck tool CheckFailed ''executable not found on PATH''
        (''install '' @ tool @ '' and ensure it is available on PATH'') False) r) s1
   | (Inr p, s1) \<Rightarrow> checkTools finder tools (addCheck (newCheck tool CheckPassed p [] False) r) s1)"

definition credentialCheck :: "bool \<Rightarrow> PreflightCheck" where
  "credentialCheck remote = (if remote
     then newCheck ''credentials'' CheckPassed ''required credential values were supplied; values are not displayed'' [] True
     else newCheck ''credentials'' CheckSkipped ''credential values are not read during local checks'' [] False)"

definition remoteChecks :: "'s RemoteChecker option \<Rightarrow> string \<Rightarrow> PreflightReport \<Rightarrow> 's \<Rightarrow> PreflightReport \<times> 's" where
  "remoteChecks checker provider r s = (case checker of
     None \<Rightarrow> (addCheck (newCheck ''remote'' CheckFailed ''remote checker is unavailable for this build''
        ''use a provider binary that supports remote preflight'' True) r, s)
   | Some check \<Rightarrow> (case check provider s of ((checks, identity, err), s1) \<Rightarrow> (case err of
       Some e \<Rightarrow> (addCheck (newCheck ''remote'' CheckFailed (error_text e)
          ''repair authentication or connectivity and rerun doctor --remote'' True) r, s1)
     | None \<Rightarrow> (fold (\<lambda>c. addCheck (c\<lparr>ck_Remote := True\<rparr>)) checks (r\<lparr>pf_Identity := identity\<rparr>), s1))))"

definition tailscaleChecks :: "'s TailscaleChecker option \<Rightarrow> TailscaleRequest \<Rightarrow> PreflightReport \<Rightarrow> 's \<Rightarrow> PreflightReport \<times> 's" where
  "tailscaleChecks checker request r s = (case checker of None \<Rightarrow> (r, s)
   | Some check \<Rightarrow> (case check request s of (checks, s1) \<Rightarrow> (fold (\<lambda>c. addCheck (c\<lparr>ck_Remote := True\<rparr>)) checks r, s1)))"

definition Doctor :: "'s PreflightRequest \<Rightarrow> 's \<Rightarrow> PreflightReport \<times> 's" where
  "Doctor request s =
    (let r0 = \<lparr>pf_SchemaVersion = PreflightSchemaVersion, pf_Provider = rq_Provider request, pf_Workload = rq_Workload request,
         pf_Remote = rq_Remote request, pf_Ready = True, pf_Checks = [], pf_Identity = noIdentity\<rparr> in
     case checkTools (rq_Finder request) (doctorTools (rq_Provider request) (rq_Workload request)) r0 s of (r1, s1) \<Rightarrow>
       let r2 = addCheck (credentialCheck (rq_Remote request)) r1 in
       if \<not> rq_Remote request then (r2, s1)
       else case remoteChecks (rq_RemoteChecker request) (rq_Provider request) r2 s1 of (r3, s2) \<Rightarrow>
         tailscaleChecks (rq_TailscaleChecker request) (rq_Tailscale request) r3 s2)"

definition CheckNamed :: "PreflightReport option \<Rightarrow> string \<Rightarrow> PreflightCheck option" where
  "CheckNamed ro name = (case ro of None \<Rightarrow> None | Some r \<Rightarrow> find (\<lambda>c. ck_Name c = name) (pf_Checks r))"

definition upperChar :: "char \<Rightarrow> char" where
  "upperChar c = (let k = of_char c :: nat in if 97 \<le> k \<and> k \<le> 122 then char_of (k - 32) else c)"

definition emDash :: string where
  "emDash = [CHR 0xE2, CHR 0x80, CHR 0x94]"

definition checkLines :: "PreflightCheck \<Rightarrow> string list" where
  "checkLines c = (''['' @ map upperChar (checkStatus_text (ck_Status c)) @ ''] '' @ ck_Name c @ '' ('' @
       (if ck_Remote c then ''remote'' else ''local'') @ ''): '' @ ck_Detail c @ newline)
     # (if ck_Remediation c = [] then [] else [''  next: '' @ ck_Remediation c @ newline])"

definition PreflightReport_WriteText :: "PreflightReport option \<Rightarrow> 's Writer \<Rightarrow> 's \<Rightarrow> go_error option \<times> 's" where
  "PreflightReport_WriteText ro dst s = (case ro of None \<Rightarrow> (Some (ErrText ''doctor report is nil''), s)
   | Some r \<Rightarrow> writeAll dst ([''TAILBENCH DOCTOR '' @ emDash @ '' '' @ (if pf_Remote r then ''LOCAL AND EXPLICIT REMOTE CHECKS'' else ''LOCAL CHECKS ONLY'') @ newline,
       ''provider: '' @ pf_Provider r @ newline @ ''workload: '' @ pf_Workload r @ newline @ ''ready: '' @ (if pf_Ready r then ''true'' else ''false'') @ newline]
       @ concat (map checkLines (pf_Checks r))) s)"

end
