(* ===== verification/Preflight_Remote.thy ===== *)
theory Preflight_Remote
  imports Preflight
begin

text \<open>
  The remote checkers of internal/preflight: commands that verify the state backend and the cloud account
  (remote.go), and HTTP requests that verify the Tailscale credentials and the HTTPS setting of the tailnet
  (tailscale.go). A request is a record of what the code puts in it; the client encodes and sends it.
\<close>

section \<open>Commands\<close>

type_synonym 's CommandRunner = "string \<Rightarrow> string list \<Rightarrow> 's \<Rightarrow> (go_error + string) \<times> 's"

text \<open>The decoders: the field \<^verbatim>\<open>url\<close>, the field \<^verbatim>\<open>Account\<close>, and the host with and without the port of a URL.\<close>

record Decoders =
  dj_URL :: "string \<Rightarrow> go_error + string"
  dj_Account :: "string \<Rightarrow> go_error + string"
  dj_ParseURL :: "string \<Rightarrow> go_error + (string \<times> string)"

definition pulumiBackendHostsMatch :: "string \<Rightarrow> string \<Rightarrow> bool" where
  "pulumiBackendHostsMatch expected0 selected0 = (let expected = ToLower expected0; selected = ToLower selected0; prefixes = [''api.'', ''app.''] in
     expected = selected \<or>
     list_ex (\<lambda>p. case CutPrefix expected p of (expectedSuffix, expectedMatch) \<Rightarrow> expectedMatch \<and>
       list_ex (\<lambda>q. case CutPrefix selected q of (selectedSuffix, selectedMatch) \<Rightarrow> selectedMatch \<and> expectedSuffix = selectedSuffix) prefixes) prefixes)"

definition verifyPulumiBackend :: "Decoders \<Rightarrow> string \<Rightarrow> string \<Rightarrow> go_error option" where
  "verifyPulumiBackend dj output configured = (case dj_URL dj output of
     Inl e \<Rightarrow> Some (Wrapf ''parse Pulumi backend identity: '' e [])
   | Inr u \<Rightarrow> (case dj_ParseURL dj (TrimSpace u) of
       Inl _ \<Rightarrow> Some (ErrText ''parse Pulumi backend identity: backend URL is unavailable'')
     | Inr (selectedHost, selectedName) \<Rightarrow> if selectedHost = [] then Some (ErrText ''parse Pulumi backend identity: backend URL is unavailable'')
       else (case dj_ParseURL dj configured of
         Inl _ \<Rightarrow> Some (ErrText ''parse configured Pulumi state backend'')
       | Inr (expectedHost, expectedName) \<Rightarrow> if expectedHost = [] then Some (ErrText ''parse configured Pulumi state backend'')
         else if pulumiBackendHostsMatch expectedName selectedName then None
         else Some (ErrText ''pulumi authentication check selected a different state backend''))))"

definition checkPulumiBackend :: "Decoders \<Rightarrow> 's CommandRunner \<Rightarrow> string \<Rightarrow> 's \<Rightarrow> PreflightCheck \<times> 's" where
  "checkPulumiBackend dj runner stateBackend0 s = (let stateBackend = TrimSpace stateBackend0; check = newCheck ''pulumi-auth'' in
     if stateBackend = [] \<or> HasPrefix stateBackend ''file://'' then
       (check CheckSkipped ''Pulumi authentication is not required for the local state backend'' [] True, s)
     else if HasPrefix stateBackend ''s3://'' \<or> HasPrefix stateBackend ''gs://'' \<or> HasPrefix stateBackend ''azblob://'' then
       (check CheckSkipped ''Pulumi account authentication is not required for the object-store state backend'' [] True, s)
     else case runner ''pulumi'' [''whoami'', ''--verbose'', ''--output'', ''json''] s of
       (Inl e, s1) \<Rightarrow> (check CheckFailed (''pulumi authentication check failed: '' @ error_text e)
          (''run pulumi login '' @ stateBackend @ '' and verify the selected backend'') True, s1)
     | (Inr output, s1) \<Rightarrow> (case verifyPulumiBackend dj output stateBackend of
         Some e \<Rightarrow> (check CheckFailed (error_text e) (''run pulumi login '' @ stateBackend @ '' so the configured state backend is selected'') True, s1)
       | None \<Rightarrow> (check CheckPassed ''Pulumi authentication succeeded for the configured state backend'' [] True, s1)))"

definition runRemoteCheck :: "'s CommandRunner \<Rightarrow> string \<Rightarrow> string \<Rightarrow> string list \<Rightarrow> string \<Rightarrow> string \<Rightarrow> 's \<Rightarrow> (PreflightCheck \<times> string) \<times> 's" where
  "runRemoteCheck runner checkName executable args successDetail remediation s = (case runner executable args s of
     (Inl e, s1) \<Rightarrow> ((newCheck checkName CheckFailed (executable @ '' authentication check failed: '' @ error_text e) remediation True, []), s1)
   | (Inr output, s1) \<Rightarrow> ((newCheck checkName CheckPassed successDetail [] True, output), s1))"

record CloudCommand =
  cc_Name :: string
  cc_Args :: "string list"
  cc_Detail :: string
  cc_Remediation :: string

definition cloudIdentityCommand :: "string \<Rightarrow> go_error + CloudCommand" where
  "cloudIdentityCommand provider =
    (if provider \<in> {''aws'', ''eks''} then Inr \<lparr>cc_Name = ''aws'', cc_Args = [''sts'', ''get-caller-identity'', ''--output'', ''json''],
       cc_Detail = ''AWS authentication succeeded'', cc_Remediation = ''authenticate the AWS CLI and verify sts:GetCallerIdentity permission''\<rparr>
     else if provider \<in> {''gcp'', ''gke''} then Inr \<lparr>cc_Name = ''gcloud'', cc_Args = [''auth'', ''list'', ''--filter=status:ACTIVE'', ''--format=value(account)''],
       cc_Detail = ''Google Cloud authentication succeeded'', cc_Remediation = ''authenticate gcloud and select an account and project''\<rparr>
     else if provider \<in> {''azure'', ''aks''} then Inr \<lparr>cc_Name = ''az'', cc_Args = [''account'', ''show'', ''--query'', ''id'', ''--output'', ''tsv''],
       cc_Detail = ''Azure authentication succeeded'', cc_Remediation = ''authenticate the Azure CLI and select a subscription''\<rparr>
     else Inl (ErrText (''unsupported provider '' @ quoted provider)))"

definition parseCloudIdentity :: "Decoders \<Rightarrow> string \<Rightarrow> string \<Rightarrow> go_error + RemoteIdentity" where
  "parseCloudIdentity dj provider output =
    (if provider \<in> {''aws'', ''eks''} then (case dj_Account dj output of
        Inl e \<Rightarrow> Inl (Wrapf ''parse AWS account identity: '' e [])
      | Inr a \<Rightarrow> if TrimSpace a = [] then Inl (ErrText ''parse AWS account identity: account is empty'') else Inr (noIdentity\<lparr>ri_Account := TrimSpace a\<rparr>))
     else if provider \<in> {''azure'', ''aks''} then
       (if TrimSpace output = [] then Inl (ErrText ''parse Azure subscription identity: subscription is empty'')
        else Inr (noIdentity\<lparr>ri_Subscription := TrimSpace output\<rparr>))
     else if provider \<in> {''gcp'', ''gke''} then Inr noIdentity
     else Inl (ErrText (''parse cloud identity: unsupported provider '' @ quoted provider)))"

definition CheckWithIdentity :: "Decoders \<Rightarrow> 's CommandRunner \<Rightarrow> string \<Rightarrow> 's RemoteChecker" where
  "CheckWithIdentity dj runner stateBackend provider s = (case checkPulumiBackend dj runner stateBackend s of (pulumiCheck, s1) \<Rightarrow>
     (case cloudIdentityCommand provider of
       Inl e \<Rightarrow> (([pulumiCheck], noIdentity, Some e), s1)
     | Inr cmd \<Rightarrow> (case runRemoteCheck runner ''cloud-auth'' (cc_Name cmd) (cc_Args cmd) (cc_Detail cmd) (cc_Remediation cmd) s1 of ((cloudCheck, output), s2) \<Rightarrow>
         if ck_Status cloudCheck \<noteq> CheckPassed then (([pulumiCheck, cloudCheck], noIdentity, None), s2)
         else (case parseCloudIdentity dj provider output of
           Inl e \<Rightarrow> (([pulumiCheck, cloudCheck\<lparr>ck_Status := CheckFailed, ck_Detail := error_text e, ck_Remediation := cc_Remediation cmd\<rparr>], noIdentity, None), s2)
         | Inr identity \<Rightarrow> (([pulumiCheck, cloudCheck], identity, None), s2)))))"

section \<open>Diagnostics of the control plane\<close>

function ReplaceAll :: "string \<Rightarrow> string \<Rightarrow> string \<Rightarrow> string" where
  "ReplaceAll [] old new = []"
| "ReplaceAll (c # cs) old new = (if old \<noteq> [] \<and> HasPrefix (c # cs) old then new @ ReplaceAll (drop (length old) (c # cs)) old new
     else c # ReplaceAll cs old new)"
  by pat_completeness auto
termination by (relation "measure (\<lambda>(s, _, _). length s)") (auto simp: neq_Nil_conv)

fun redactSecrets :: "string \<Rightarrow> string list \<Rightarrow> string" where
  "redactSecrets t [] = t"
| "redactSecrets t (raw # secrets) = (let secret = TrimSpace raw in
     redactSecrets (if length secret < 4 then t else ReplaceAll t secret ''[redacted]'') secrets)"

text \<open>\<^verbatim>\<open>strings.Fields\<close>: the non-empty pieces between spaces; \<open>field\<close> is the piece read so far, reversed.\<close>

fun fieldsFrom :: "string \<Rightarrow> string \<Rightarrow> string list" where
  "fieldsFrom field [] = (if field = [] then [] else [rev field])"
| "fieldsFrom field (c # cs) = (if isSpace c then (if field = [] then [] else [rev field]) @ fieldsFrom [] cs else fieldsFrom (c # field) cs)"

definition Fields :: "string \<Rightarrow> string list" where
  "Fields = fieldsFrom []"

definition apiFailureDetail :: "string \<Rightarrow> string list \<Rightarrow> string" where
  "apiFailureDetail body secrets = (if TrimSpace body = [] then []
     else let message = JoinStr '' '' (Fields (TrimSpace body)) in
       '': '' @ redactSecrets (if 200 < length message then take 200 message @ ''...'' else message) secrets)"

section \<open>Requests\<close>

record HttpRequest =
  hq_Method :: string
  hq_URL :: string
  hq_Header :: "(string \<times> string) list"
  hq_Form :: "(string \<times> string) list"

text \<open>
  A response is its status and its body: nothing, or the bytes the server sends and the error that ends them. The
  client may also refuse to build a request.
\<close>

record 's HttpClient =
  hc_Build :: "HttpRequest \<Rightarrow> go_error option"
  hc_Do :: "HttpRequest \<Rightarrow> 's \<Rightarrow> (go_error + int \<times> (string \<times> go_error option) option) \<times> 's"
  hc_BaseURL :: string
  hc_AccessToken :: "string \<Rightarrow> go_error + string"
  hc_Settings :: "string \<Rightarrow> go_error + (string \<Rightarrow> string option)"
  hc_Bool :: "string \<Rightarrow> go_error + bool"

definition tailscaleBodyLimit :: nat where "tailscaleBodyLimit = 4096"
definition tailscaleOAuthConsole :: string where "tailscaleOAuthConsole = ''https://login.tailscale.com/admin/settings/oauth''"
definition tailscaleDNSConsole :: string where "tailscaleDNSConsole = ''https://login.tailscale.com/admin/dns''"

definition tailscaleAuthRemediation :: string where
  "tailscaleAuthRemediation = ''verify the Tailscale OAuth client at '' @ tailscaleOAuthConsole @
     '' is current and unrevoked, then set OAUTH_CLIENT_ID and OAUTH_CLIENT_SECRET to its values''"

definition tailscaleHTTPSRemediation :: string where
  "tailscaleHTTPSRemediation = ''enable HTTPS certificates for the tailnet at '' @ tailscaleDNSConsole @
     '' (HTTPS Certificates -> Enable), or remove the l7-serve modes from benchmark.modes''"

definition endpoint :: "'s HttpClient \<Rightarrow> string \<Rightarrow> string" where
  "endpoint c p = (let base = TrimSpace (hc_BaseURL c) in TrimSuffix (if base = [] then ''https://api.tailscale.com'' else base) ''/'' @ p)"

definition sendRequest :: "'s HttpClient \<Rightarrow> HttpRequest \<Rightarrow> 's \<Rightarrow> (go_error + int \<times> string) \<times> 's" where
  "sendRequest c req s = (case hc_Do c req s of
     (Inl e, s1) \<Rightarrow> (Inl e, s1)
   | (Inr (st, None), s1) \<Rightarrow> (Inr (st, []), s1)
   | (Inr (st, Some (bytes, err)), s1) \<Rightarrow> (case err of
       Some e \<Rightarrow> if length bytes < tailscaleBodyLimit then (Inl (Wrapf ''read Tailscale API response: '' e []), s1)
          else (Inr (st, take tailscaleBodyLimit bytes), s1)
     | None \<Rightarrow> (Inr (st, take tailscaleBodyLimit bytes), s1)))"

section \<open>Checks\<close>

definition checkAuth :: "'s HttpClient \<Rightarrow> TailscaleRequest \<Rightarrow> 's \<Rightarrow> (string \<times> PreflightCheck) \<times> 's" where
  "checkAuth c request s =
    (let check = (\<lambda>st detail remediation. newCheck ''tailscale-auth'' st detail remediation True);
         failed = (\<lambda>detail. ([], check CheckFailed detail tailscaleAuthRemediation));
         clientID = TrimSpace (tr_OAuthClientID request); clientSecret = TrimSpace (tr_OAuthClientSecret request);
         req = \<lparr>hq_Method = ''POST'', hq_URL = endpoint c ''/api/v2/oauth/token'', hq_Header = [(''Content-Type'', ''application/x-www-form-urlencoded'')],
           hq_Form = [(''grant_type'', ''client_credentials''), (''client_id'', clientID), (''client_secret'', clientSecret)]\<rparr> in
     if clientID = [] \<or> clientSecret = [] then
       (([], check CheckSkipped ''no Tailscale OAuth client credentials were supplied'' tailscaleAuthRemediation), s)
     else case hc_Build c req of Some e \<Rightarrow> (failed (''build Tailscale OAuth token request: '' @ error_text e), s)
     | None \<Rightarrow> (case sendRequest c req s of
         (Inl e, s1) \<Rightarrow> (failed (''Tailscale OAuth token exchange failed: '' @ redactSecrets (error_text e) [clientID, clientSecret]), s1)
       | (Inr (st, body), s1) \<Rightarrow>
         if st \<noteq> 200 then (failed (''Tailscale rejected the OAuth client credentials (HTTP '' @ string_of_int st @ '')'' @
            apiFailureDetail body [clientID, clientSecret]), s1)
         else case hc_AccessToken c body of
           Inl _ \<Rightarrow> (failed ''Tailscale OAuth token response was not valid JSON'', s1)
         | Inr raw \<Rightarrow> (let token = TrimSpace raw in
             if token = [] then (failed ''Tailscale OAuth token response contained no access token'', s1)
             else ((token, check CheckPassed (''OAuth client credentials were exchanged for a Tailscale API token; '' @
               ''credential and token values are not displayed'') []), s1))))"

definition requiresTailnetHTTPS :: "TailscaleRequest \<Rightarrow> bool" where
  "requiresTailnetHTTPS request \<longleftrightarrow> tr_Workload request = ''kubernetes'' \<or> list_ex (\<lambda>mode. HasPrefix (TrimSpace mode) ''l7-serve'') (tr_Modes request)"

definition checkHTTPS :: "'s HttpClient \<Rightarrow> TailscaleRequest \<Rightarrow> string \<Rightarrow> 's \<Rightarrow> PreflightCheck \<times> 's" where
  "checkHTTPS c request token s =
    (let check = (\<lambda>st detail remediation. newCheck ''tailscale-https'' st detail remediation True);
         unknown = (\<lambda>detail. check CheckWarning detail tailscaleHTTPSRemediation);
         secrets = [token, tr_OAuthClientID request, tr_OAuthClientSecret request];
         req = \<lparr>hq_Method = ''GET'', hq_URL = endpoint c ''/api/v2/tailnet/-/settings'', hq_Header = [(''Authorization'', ''Bearer '' @ token)], hq_Form = []\<rparr> in
     if \<not> requiresTailnetHTTPS request then
       (check CheckSkipped (''no l7-serve benchmark mode is configured, '' @ ''so tailnet HTTPS certificates are not required'') [], s)
     else if tr_CreateTailnet request then
       (check CheckSkipped (''create_tailnet is true: Tailbench creates the benchmark tailnet '' @
          ''and enables HTTPS on it, so the credential'' @ [CHR 0x27] @ ''s current tailnet is not the one that serves'') [], s)
     else if token = [] then
       (check CheckSkipped ''tailnet HTTPS state was not read because the OAuth token exchange did not succeed'' tailscaleAuthRemediation, s)
     else case hc_Build c req of Some e \<Rightarrow> (unknown (''build tailnet settings request: '' @ error_text e), s)
     | None \<Rightarrow> (case sendRequest c req s of
         (Inl e, s1) \<Rightarrow> (unknown (''tailnet settings request failed, so HTTPS state is unknown: '' @ redactSecrets (error_text e) secrets), s1)
       | (Inr (st, body), s1) \<Rightarrow>
         if st \<noteq> 200 then (unknown (''tailnet settings could not be read (HTTP '' @ string_of_int st @ ''), so HTTPS state is unknown'' @
            apiFailureDetail body secrets), s1)
         else case hc_Settings c body of
           Inl _ \<Rightarrow> (unknown ''tailnet settings response was not a JSON object, so HTTPS state is unknown'', s1)
         | Inr settings \<Rightarrow> (case settings ''httpsEnabled'' of
             None \<Rightarrow> (unknown ''tailnet settings response did not report httpsEnabled, so HTTPS state is unknown'', s1)
           | Some raw \<Rightarrow> (case hc_Bool c raw of
               Inl _ \<Rightarrow> (unknown ''tailnet settings reported a non-boolean httpsEnabled, so HTTPS state is unknown'', s1)
             | Inr enabled \<Rightarrow> if enabled then (check CheckPassed ''HTTPS certificates are enabled on the tailnet'' [], s1)
                 else (check CheckFailed (''HTTPS certificates are disabled on the tailnet. Cloud-init runs '' @ [CHR 0x60] @
                   ''tailscale serve --bg --https=443'' @ [CHR 0x60] @ '', which blocks until HTTPS is enabled, so no node '' @
                   ''ever writes /tmp/tailbench-ready and every instance bills for the whole run'') tailscaleHTTPSRemediation, s1)))))"

definition tailnetCreateCheck :: "TailscaleRequest \<Rightarrow> PreflightCheck" where
  "tailnetCreateCheck request = (if \<not> tr_CreateTailnet request then newCheck ''tailscale-tailnet-create'' CheckSkipped
       (''create_tailnet is false: Tailbench joins the configured '' @ ''tailscale.tailnet_dns_name and never creates a tailnet'') [] True
     else newCheck ''tailscale-tailnet-create'' CheckSkipped
       (''cannot be verified read-only: Tailscale has no permission-introspection '' @
        ''endpoint, and the only proof is POST /api/v2/organizations/-/tailnets, which really '' @
        ''creates a tailnet. A tailnet-scoped OAuth client reports scope '' @ quoted ''all'' @ '' and still fails '' @
        ''at that call with '' @ [CHR 0x60] @ ''403 actor does not have permission to create tailnets'' @ [CHR 0x60])
       (''create the OAuth client at the organization level ('' @ tailscaleOAuthConsole @ ''), or set tailscale.create_tailnet: false and '' @
        ''tailscale.tailnet_dns_name to an existing benchmark tailnet'') True)"

definition CheckTailscale :: "'s HttpClient \<Rightarrow> 's TailscaleChecker" where
  "CheckTailscale c request s = (case checkAuth c request s of ((token, authCheck), s1) \<Rightarrow>
     (case checkHTTPS c request token s1 of (httpsCheck, s2) \<Rightarrow> ([authCheck, httpsCheck, tailnetCreateCheck request], s2)))"

end
