(* ===== verification/Preflight_Props.thy ===== *)
theory Preflight_Props
  imports Preflight_Remote
begin

text \<open>
  When the doctor reports readiness, and what the diagnostics of the control plane let through.
\<close>

section \<open>Readiness\<close>

definition readyAsChecked :: "PreflightReport \<Rightarrow> bool" where
  "readyAsChecked r \<longleftrightarrow> (pf_Ready r \<longleftrightarrow> (\<forall>c \<in> set (pf_Checks r). ck_Status c \<noteq> CheckFailed))"

lemma readyAsChecked_addCheck: "readyAsChecked r \<Longrightarrow> readyAsChecked (addCheck c r)"
  by (auto simp: readyAsChecked_def addCheck_def)

lemma readyAsChecked_fold: "readyAsChecked r \<Longrightarrow> readyAsChecked (fold (\<lambda>c. addCheck (f c)) cs r)"
  by (induction cs arbitrary: r) (auto intro: readyAsChecked_addCheck)

lemma readyAsChecked_tools: "readyAsChecked r \<Longrightarrow> readyAsChecked (fst (checkTools finder tools r s))"
proof (induction tools arbitrary: r s)
  case (Cons tool tools)
  have "readyAsChecked (fst (checkTools finder tools (addCheck c r) s'))" for c s'
    using Cons.IH readyAsChecked_addCheck[OF Cons.prems] by blast
  then show ?case by (simp split: prod.split sum.split)
qed simp

lemma readyAsChecked_remote: "readyAsChecked r \<Longrightarrow> readyAsChecked (fst (remoteChecks checker provider r s))"
proof -
  assume r: "readyAsChecked r"
  then have "readyAsChecked (r\<lparr>pf_Identity := i\<rparr>)" for i by (simp add: readyAsChecked_def)
  with r show ?thesis
    by (auto simp: remoteChecks_def split: option.split prod.split intro: readyAsChecked_addCheck readyAsChecked_fold)
qed

lemma readyAsChecked_tailscale: "readyAsChecked r \<Longrightarrow> readyAsChecked (fst (tailscaleChecks checker request r s))"
  by (auto simp: tailscaleChecks_def split: option.split prod.split intro: readyAsChecked_fold)

text \<open>
  The doctor reports readiness exactly when none of the checks it lists has failed, whatever the finder and
  the checkers return.
\<close>

theorem Doctor_ready_iff:
  "pf_Ready (fst (Doctor request s)) \<longleftrightarrow> \<not> list_ex (\<lambda>c. ck_Status c = CheckFailed) (pf_Checks (fst (Doctor request s)))"
proof -
  have "readyAsChecked (fst (Doctor request s))"
    unfolding Doctor_def Let_def case_prod_beta
    by (auto intro!: readyAsChecked_tailscale readyAsChecked_remote readyAsChecked_addCheck readyAsChecked_tools simp: readyAsChecked_def[of "\<lparr>pf_SchemaVersion = _, pf_Provider = _, pf_Workload = _, pf_Remote = _, pf_Ready = _, pf_Checks = _, pf_Identity = _\<rparr>"])
  then show ?thesis by (simp add: readyAsChecked_def list_ex_iff)
qed

section \<open>Redaction\<close>

lemma ReplaceAll_absent: "\<not> Contains t old \<Longrightarrow> ReplaceAll t old new = t"
  by (induction t) auto

lemma fieldsFrom_plain: "list_all (\<lambda>c. \<not> isSpace c) cs \<Longrightarrow> field \<noteq> [] \<or> cs \<noteq> [] \<Longrightarrow> fieldsFrom field cs = [rev field @ cs]"
  by (induction cs arbitrary: field) auto

lemma dropWhile_plain: "list_all (\<lambda>c. \<not> isSpace c) cs \<Longrightarrow> dropWhile isSpace cs = cs"
  by (cases cs) auto

lemma TrimSpace_plain: "list_all (\<lambda>c. \<not> isSpace c) cs \<Longrightarrow> TrimSpace cs = cs"
  by (simp add: TrimSpace_def dropWhile_plain)

text \<open>
  C26 The diagnostic of a failed request is cut to its length before the secrets are replaced: a secret that
  straddles the cut is not recognised any more, and its part before the cut is shown. The comment promises a
  suffix free of credentials.
\<close>

theorem apiFailureDetail_leaks:
  assumes "list_all (\<lambda>c. \<not> isSpace c) (before @ secret @ after)" "4 \<le> length secret"
    and "length before < 200" "200 < length before + length secret"
    and "\<not> Contains (take 200 (before @ secret) @ ''...'') secret"
  shows "apiFailureDetail (before @ secret @ after) [secret] = '': '' @ before @ take (200 - length before) secret @ ''...''"
proof -
  let ?body = "before @ secret @ after"
  have plain: "TrimSpace ?body = ?body" "Fields ?body = [?body]" "TrimSpace secret = secret"
    using assms(1,2) fieldsFrom_plain[OF assms(1), of "[]"] by (cases secret; simp add: TrimSpace_plain Fields_def)+
  have cut: "take 200 ?body = before @ take (200 - length before) secret" "take 200 (before @ secret) = take 200 ?body"
    using assms(3,4) by simp_all
  have kept: "ReplaceAll (take 200 ?body @ ''...'') secret ''[redacted]'' = take 200 ?body @ ''...''"
    using ReplaceAll_absent[OF assms(5)] unfolding cut(2) .
  have "200 < length ?body" "\<not> length secret < 4" "?body \<noteq> []" using assms(2,4) by auto
  with plain kept have "apiFailureDetail ?body [secret] = '': '' @ take 200 ?body @ ''...''"
    unfolding apiFailureDetail_def Let_def by (simp only: plain redactSecrets.simps JoinStr.simps if_True if_False Let_def)
  then show ?thesis by (simp only: cut(1) append_assoc)
qed

theorem apiFailureDetail_leaks_witness:
  "\<exists>secret. length secret = 40 \<and> apiFailureDetail (replicate 170 (CHR ''.'') @ secret) [secret] = '': '' @ replicate 170 (CHR ''.'') @ take 30 secret @ ''...''"
proof -
  let ?secret = "replicate 40 (CHR ''k'')" and ?before = "replicate 170 (CHR ''.'')"
  have plain: "list_all (\<lambda>c. \<not> isSpace c) (?before @ ?secret @ [])" by (simp add: list_all_iff isSpace_def)
  have absent: "\<not> Contains (take 200 (?before @ ?secret) @ ''...'') ?secret"
  proof
    assume "Contains (take 200 (?before @ ?secret) @ ''...'') ?secret"
    then obtain a b where "take 200 (?before @ ?secret) @ ''...'' = a @ ?secret @ b" unfolding Contains_iff by blast
    from arg_cong[OF this, of "\<lambda>t. length (filter (\<lambda>c. c = CHR ''k'') t)"] show False by simp
  qed
  from apiFailureDetail_leaks[OF plain _ _ _ absent] show ?thesis by (intro exI[of _ ?secret]) simp
qed

end
