(* ===== verification/Summary.thy ===== *)
theory Summary
  imports Runstate Go_Fmt
begin

text \<open>
  The views of a persisted run (internal/summary): the status report and the results report of a manifest, and
  their text. JSON rendering is left to the encoder. Empty slices and nil slices are the same list here; they only
  differ in JSON.
\<close>

definition SummarySchemaVersion :: int where "SummarySchemaVersion = 1"

section \<open>Status\<close>

record RecoveryCommands =
  rv_Status :: string
  rv_Resume :: string
  rv_Cleanup :: string

record WorkCounts =
  wc_Pending :: int
  wc_Running :: int
  wc_Succeeded :: int
  wc_Skipped :: int
  wc_Failed :: int
  wc_CleanupPending :: int
  wc_Cleaned :: int

record StatusReport =
  sp_SchemaVersion :: int
  sp_RunID :: string
  sp_Status :: RunStatus
  sp_Recoverable :: bool
  sp_Provider :: string
  sp_Workload :: string
  sp_Region :: string
  sp_Zone :: string
  sp_Identity :: CloudIdentity
  sp_PlanHash :: string
  sp_BenchmarkOutcome :: OutcomeStatus
  sp_CleanupOutcome :: OutcomeStatus
  sp_Work :: WorkCounts
  sp_Resources :: "Resource list"
  sp_Failures :: "Failure list"
  sp_Commands :: RecoveryCommands

definition noCounts :: WorkCounts where
  "noCounts = \<lparr>wc_Pending = 0, wc_Running = 0, wc_Succeeded = 0, wc_Skipped = 0, wc_Failed = 0, wc_CleanupPending = 0, wc_Cleaned = 0\<rparr>"

fun countItem :: "WorkStatus \<Rightarrow> WorkCounts \<Rightarrow> WorkCounts" where
  "countItem WorkPending c = c\<lparr>wc_Pending := wc_Pending c + 1\<rparr>"
| "countItem WorkRunning c = c\<lparr>wc_Running := wc_Running c + 1\<rparr>"
| "countItem WorkSucceeded c = c\<lparr>wc_Succeeded := wc_Succeeded c + 1\<rparr>"
| "countItem WorkSkipped c = c\<lparr>wc_Skipped := wc_Skipped c + 1\<rparr>"
| "countItem WorkFailed c = c\<lparr>wc_Failed := wc_Failed c + 1\<rparr>"
| "countItem WorkCleanupPending c = c\<lparr>wc_CleanupPending := wc_CleanupPending c + 1\<rparr>"
| "countItem WorkCleaned c = c\<lparr>wc_Cleaned := wc_Cleaned c + 1\<rparr>"

definition countWork :: "WorkItem list \<Rightarrow> WorkCounts" where
  "countWork items = fold (\<lambda>item. countItem (wi_Status item)) items noCounts"

definition recoveryCommands :: "Manifest \<Rightarrow> RecoveryCommands" where
  "recoveryCommands m = (let binary = (if bi_Name (m_Binary m) = [] then ''tailbench-'' @ m_Provider m else bi_Name (m_Binary m)) in
     \<lparr>rv_Status = binary @ '' status '' @ m_RunID m, rv_Resume = binary @ '' resume '' @ m_RunID m, rv_Cleanup = binary @ '' cleanup '' @ m_RunID m\<rparr>)"

definition NewStatusReport :: "Manifest \<Rightarrow> StatusReport" where
  "NewStatusReport m = \<lparr>sp_SchemaVersion = SummarySchemaVersion, sp_RunID = m_RunID m, sp_Status = m_Status m, sp_Recoverable = m_Recoverable m,
     sp_Provider = m_Provider m, sp_Workload = m_Workload m, sp_Region = m_Region m, sp_Zone = m_Zone m, sp_Identity = m_Identity m,
     sp_PlanHash = m_PlanHash m, sp_BenchmarkOutcome = m_BenchmarkOutcome m, sp_CleanupOutcome = m_CleanupOutcome m,
     sp_Work = countWork (m_Work m), sp_Resources = m_Resources m, sp_Failures = m_Failures m, sp_Commands = recoveryCommands m\<rparr>"

definition identityLines :: "CloudIdentity \<Rightarrow> string list" where
  "identityLines i = map (\<lambda>(label, value). label @ '': '' @ value @ newline) (filter (\<lambda>(label, value). value \<noteq> [])
     [(''cloud account'', ci_Account i), (''cloud project'', ci_Project i), (''cloud subscription'', ci_Subscription i)])"

definition reportYesNo :: "bool \<Rightarrow> string" where
  "reportYesNo value = (if value then ''yes'' else ''no'')"

definition countsLine :: "WorkCounts \<Rightarrow> string" where
  "countsLine c = ''work: pending '' @ string_of_int (wc_Pending c) @ '', running '' @ string_of_int (wc_Running c) @ '', succeeded '' @
     string_of_int (wc_Succeeded c) @ '', skipped '' @ string_of_int (wc_Skipped c) @ '', failed '' @ string_of_int (wc_Failed c) @
     '', cleanup pending: '' @ string_of_int (wc_CleanupPending c) @ '', cleaned '' @ string_of_int (wc_Cleaned c) @ newline"

definition failureLine :: "Failure \<Rightarrow> string" where
  "failureLine f = ''  '' @ f_Code f @ '' ['' @ f_Stage f @ ''/'' @ f_Class f @ '']: '' @ f_Message f @ newline"

definition statusLines :: "StatusReport \<Rightarrow> string list" where
  "statusLines r = [''TAILBENCH RUN STATUS'' @ newline, ''run ID: '' @ sp_RunID r @ newline, ''status: '' @ runStatus_text (sp_Status r) @ newline,
       ''provider: '' @ sp_Provider r @ newline, ''workload: '' @ sp_Workload r @ newline]
     @ identityLines (sp_Identity r)
     @ [''benchmark: '' @ outcome_text (sp_BenchmarkOutcome r) @ newline, ''cleanup: '' @ outcome_text (sp_CleanupOutcome r) @ newline,
        ''recoverable: '' @ reportYesNo (sp_Recoverable r) @ newline, countsLine (sp_Work r)]
     @ (if sp_Resources r = [] then [] else [''tracked resources: '' @ string_of_nat (length (sp_Resources r)) @ newline])
     @ (if sp_Failures r = [] then [] else (''failures:'' @ newline) # map failureLine (sp_Failures r))
     @ (if \<not> sp_Recoverable r then [] else [''recovery commands:'' @ newline,
          ''  '' @ rv_Status (sp_Commands r) @ newline @ ''  '' @ rv_Resume (sp_Commands r) @ newline @ ''  '' @ rv_Cleanup (sp_Commands r) @ newline])"

definition StatusReport_WriteText :: "StatusReport \<Rightarrow> 's Writer \<Rightarrow> 's \<Rightarrow> go_error option \<times> 's" where
  "StatusReport_WriteText r dst = writeAll dst (statusLines r)"

section \<open>Results\<close>

record ResultEntry =
  re_WorkID :: string
  re_Family :: string
  re_InstanceType :: string
  re_Mode :: string
  re_Status :: WorkStatus
  re_ResultPath :: string

record ResultsReport =
  rr_SchemaVersion :: int
  rr_RunID :: string
  rr_Status :: RunStatus
  rr_Provider :: string
  rr_Workload :: string
  rr_Region :: string
  rr_Zone :: string
  rr_Identity :: CloudIdentity
  rr_PlanHash :: string
  rr_Binary :: BinaryInfo
  rr_Images :: "ImageInfo list"
  rr_Results :: "ResultEntry list"

definition resultEntry :: "WorkItem \<Rightarrow> ResultEntry" where
  "resultEntry w = \<lparr>re_WorkID = wi_ID w, re_Family = wi_Family w, re_InstanceType = wi_InstanceType w, re_Mode = wi_Mode w,
     re_Status = wi_Status w, re_ResultPath = wi_ResultPath w\<rparr>"

definition NewResultsReport :: "Manifest \<Rightarrow> ResultsReport" where
  "NewResultsReport m = \<lparr>rr_SchemaVersion = SummarySchemaVersion, rr_RunID = m_RunID m, rr_Status = m_Status m, rr_Provider = m_Provider m,
     rr_Workload = m_Workload m, rr_Region = m_Region m, rr_Zone = m_Zone m, rr_Identity = m_Identity m, rr_PlanHash = m_PlanHash m,
     rr_Binary = m_Binary m, rr_Images = m_Images m, rr_Results = map resultEntry (filter (\<lambda>w. wi_ResultPath w \<noteq> []) (m_Work m))\<rparr>"

definition resultLine :: "ResultEntry \<Rightarrow> string" where
  "resultLine r = ''  '' @ re_InstanceType r @ '' '' @ re_Mode r @ '' ['' @ workStatus_text (re_Status r) @ '']: '' @ re_ResultPath r @ newline"

definition resultsLines :: "ResultsReport \<Rightarrow> string list" where
  "resultsLines r = [''TAILBENCH RESULTS'' @ newline, ''run ID: '' @ rr_RunID r @ newline, ''status: '' @ runStatus_text (rr_Status r) @ newline,
       ''provider: '' @ rr_Provider r @ newline]
     @ identityLines (rr_Identity r)
     @ [''binary: '' @ bi_Name (rr_Binary r) @ '' '' @ bi_Version (rr_Binary r) @ newline, ''commit: '' @ bi_Commit (rr_Binary r) @ newline,
        ''plan hash: '' @ rr_PlanHash r @ newline]
     @ (if rr_Results r = [] then [''results: none'' @ newline] else (''results:'' @ newline) # map resultLine (rr_Results r))"

definition ResultsReport_WriteText :: "ResultsReport \<Rightarrow> 's Writer \<Rightarrow> 's \<Rightarrow> go_error option \<times> 's" where
  "ResultsReport_WriteText r dst = writeAll dst (resultsLines r)"

section \<open>Counting\<close>

text \<open>The seven counters partition the work.\<close>

lemma countWork_total:
  "wc_Pending (countWork ws) + wc_Running (countWork ws) + wc_Succeeded (countWork ws) + wc_Skipped (countWork ws) + wc_Failed (countWork ws)
     + wc_CleanupPending (countWork ws) + wc_Cleaned (countWork ws) = int (length ws)"
proof -
  define sum where "sum = (\<lambda>c :: WorkCounts. wc_Pending c + wc_Running c + wc_Succeeded c + wc_Skipped c + wc_Failed c + wc_CleanupPending c + wc_Cleaned c)"
  have item: "sum (countItem st c) = sum c + 1" for st c by (cases st) (simp_all add: sum_def)
  have "sum (fold (\<lambda>item. countItem (wi_Status item)) ws c) = sum c + int (length ws)" for c
    by (induction ws arbitrary: c) (simp_all add: item)
  then have "sum (countWork ws) = int (length ws)" by (simp add: countWork_def) (simp add: sum_def noCounts_def)
  then show ?thesis by (simp add: sum_def)
qed

end
