(* ===== verification/App_Types.thy ===== *)
theory App_Types
  imports Go_Regexp Go_Fmt
begin

text \<open>
  The vocabulary of the command boundary (internal/app/types.go), the redaction of what it writes (redact.go) and
  its final reports and diagnostics (render.go).
\<close>

section \<open>Outcomes\<close>

definition ExitOK :: int where "ExitOK = 0"
definition ExitRunFailed :: int where "ExitRunFailed = 1"
definition ExitUsage :: int where "ExitUsage = 2"
definition ExitPrerequisite :: int where "ExitPrerequisite = 3"
definition ExitRefused :: int where "ExitRefused = 4"
definition ExitRecovery :: int where "ExitRecovery = 5"
definition ExitInterrupted :: int where "ExitInterrupted = 130"

datatype Status = StatusUnset | StatusSucceeded | StatusPartial | StatusFailed | StatusInterrupted

datatype ComponentStatus = ComponentUnset | ComponentPending | ComponentSucceeded | ComponentSkipped | ComponentFailed

fun status_text :: "Status \<Rightarrow> string" where
  "status_text StatusUnset = []"
| "status_text StatusSucceeded = ''succeeded''"
| "status_text StatusPartial = ''partial''"
| "status_text StatusFailed = ''failed''"
| "status_text StatusInterrupted = ''interrupted''"

fun component_text :: "ComponentStatus \<Rightarrow> string" where
  "component_text ComponentUnset = []"
| "component_text ComponentPending = ''pending''"
| "component_text ComponentSucceeded = ''succeeded''"
| "component_text ComponentSkipped = ''skipped''"
| "component_text ComponentFailed = ''failed''"

record BuildInfo =
  bd_Version :: string
  bd_Commit :: string
  bd_Date :: string

record UserError =
  ue_Code :: string
  ue_ExitStatus :: int
  ue_Stage :: string
  ue_Cause :: "go_error option"
  ue_Remediation :: string
  ue_ResourcesChanged :: bool
  ue_RunID :: string
  ue_LogLocation :: string

definition UserError_Error :: "UserError option \<Rightarrow> string" where
  "UserError_Error eo = (case eo of None \<Rightarrow> [] | Some e \<Rightarrow> (case ue_Cause e of None \<Rightarrow> ue_Stage e @ '' failed''
     | Some c \<Rightarrow> ue_Stage e @ '': '' @ error_text c))"

definition UserError_Unwrap :: "UserError option \<Rightarrow> go_error option" where
  "UserError_Unwrap eo = (case eo of None \<Rightarrow> None | Some e \<Rightarrow> ue_Cause e)"

text \<open>A new error changes no resources and names no run, as every literal of the sources that leaves the fields out.\<close>

definition newUserError :: "string \<Rightarrow> int \<Rightarrow> string \<Rightarrow> go_error option \<Rightarrow> string \<Rightarrow> UserError" where
  "newUserError code exitStatus stage cause remediation = \<lparr>ue_Code = code, ue_ExitStatus = exitStatus, ue_Stage = stage, ue_Cause = cause,
     ue_Remediation = remediation, ue_ResourcesChanged = False, ue_RunID = [], ue_LogLocation = []\<rparr>"

text \<open>\<open>'p\<close> are the reports an outcome can carry.\<close>

record 'p RunOutcome =
  ro_Status :: Status
  ro_Started :: bool
  ro_Stage :: string
  ro_Message :: string
  ro_ResourcesChanged :: bool
  ro_RunID :: string
  ro_LogLocation :: string
  ro_BenchmarkStatus :: ComponentStatus
  ro_CleanupStatus :: ComponentStatus
  ro_SelectedProvider :: string
  ro_SelectedWorkload :: string
  ro_Report :: "'p option"
  ro_Error :: "UserError option"

definition zeroOutcome :: "'p RunOutcome" where
  "zeroOutcome = \<lparr>ro_Status = StatusUnset, ro_Started = False, ro_Stage = [], ro_Message = [], ro_ResourcesChanged = False, ro_RunID = [],
     ro_LogLocation = [], ro_BenchmarkStatus = ComponentUnset, ro_CleanupStatus = ComponentUnset, ro_SelectedProvider = [],
     ro_SelectedWorkload = [], ro_Report = None, ro_Error = None\<rparr>"

definition failedWith :: "UserError \<Rightarrow> 'p RunOutcome" where
  "failedWith e = zeroOutcome\<lparr>ro_Status := StatusFailed, ro_Error := Some e\<rparr>"

definition ExitStatus :: "'p RunOutcome \<Rightarrow> int" where
  "ExitStatus oc = (case ro_Error oc of
       Some e \<Rightarrow> if ue_ExitStatus e \<noteq> 0 then ue_ExitStatus e
          else (case ro_Status oc of StatusSucceeded \<Rightarrow> ExitOK | StatusInterrupted \<Rightarrow> ExitInterrupted | _ \<Rightarrow> ExitRunFailed)
     | None \<Rightarrow> (case ro_Status oc of StatusSucceeded \<Rightarrow> ExitOK | StatusInterrupted \<Rightarrow> ExitInterrupted | _ \<Rightarrow> ExitRunFailed))"

section \<open>Redaction\<close>

definition valueChar :: "char \<Rightarrow> bool" where
  "valueChar c \<longleftrightarrow> \<not> reSpace c \<and> c \<noteq> CHR '','' \<and> c \<noteq> CHR '';''"

definition bearerPattern :: regex where
  "bearerPattern = Seq WordBoundary (Seq (AnyCase ''bearer'') (Seq (Plus (Sym reSpace)) (Plus (Sym valueChar))))"

definition dashOrScore :: regex where
  "dashOrScore = Opt (Sym (\<lambda>c. c = CHR ''_'' \<or> c = CHR ''-''))"

text \<open>The names of secrets in the order of the pattern's alternatives, and the sign between name and value.\<close>

definition secretName :: regex where
  "secretName = Alt (AnyCase ''authorization'') (Alt (Seq (AnyCase ''auth'') (Seq dashOrScore (AnyCase ''key'')))
     (Alt (Seq (AnyCase ''access'') (Seq dashOrScore (AnyCase ''token'')))
     (Alt (Seq (AnyCase ''oauth'') (Seq dashOrScore (Seq (AnyCase ''client'') (Seq dashOrScore (AnyCase ''secret'')))))
     (Alt (Seq (AnyCase ''client'') (Seq dashOrScore (AnyCase ''secret'')))
     (Alt (AnyCase ''password'') (Alt (AnyCase ''secret'') (AnyCase ''token'')))))))"

definition assignmentHead :: regex where
  "assignmentHead = Seq WordBoundary (Seq secretName (Seq (Star (Sym reSpace)) (Seq (Sym (\<lambda>c. c = CHR '':'' \<or> c = CHR ''='')) (Star (Sym reSpace)))))"

definition quotedValue :: "char \<Rightarrow> regex" where
  "quotedValue q = Seq (Sym (\<lambda>c. c = q)) (Seq (Star (Sym (\<lambda>c. c \<noteq> q))) (Sym (\<lambda>c. c = q)))"

definition assignmentValue :: regex where
  "assignmentValue = Alt (quotedValue (CHR 0x22)) (Alt (quotedValue (CHR 0x27)) (Plus (Sym valueChar)))"

definition authKeyPattern :: regex where
  "authKeyPattern = Seq WordBoundary (Seq (Literal ''tskey-'') (Seq (Plus (Sym (\<lambda>c. isWord c \<or> c = CHR ''-''))) WordBoundary))"

definition isUpperOrDigit :: "char \<Rightarrow> bool" where
  "isUpperOrDigit c \<longleftrightarrow> isDigit c \<or> (let k = of_char c :: nat in 65 \<le> k \<and> k \<le> 90)"

definition awsKeyPattern :: regex where
  "awsKeyPattern = Seq WordBoundary (Seq (Literal ''AKIA'') (Seq (foldr Seq (replicate 16 (Sym isUpperOrDigit)) Eps) WordBoundary))"

definition redacted :: string where "redacted = ''[REDACTED]''"

definition maxRenderedCauseBytes :: nat where "maxRenderedCauseBytes = 2048"

definition ellipsis :: string where "ellipsis = [CHR 0xE2, CHR 0x80, CHR 0xA6]"

definition sanitize :: "string \<Rightarrow> nat \<Rightarrow> string" where
  "sanitize value limit =
    (let safe = ReplaceMatches Eps awsKeyPattern redacted (ReplaceMatches Eps authKeyPattern redacted
       (ReplaceMatches assignmentHead assignmentValue redacted (ReplaceMatches Eps bearerPattern redacted value))) in
     if 0 < limit \<and> limit < length safe then TrimSpace (take limit safe) @ '' '' @ ellipsis @ '' [truncated]'' else safe)"

text \<open>Every write is sanitized on its own; \<open>None\<close> is the nil destination.\<close>

definition redactingWriter :: "'s Writer option \<Rightarrow> 's Writer" where
  "redactingWriter dst p s = (case dst of None \<Rightarrow> (None, s) | Some d \<Rightarrow> d (sanitize p 0) s)"

section \<open>Reports\<close>

definition yesNo :: "bool \<Rightarrow> string" where
  "yesNo value = (if value then ''yes'' else ''no'')"

record failureReport =
  fr_Code :: string
  fr_ExitStatus :: int
  fr_Stage :: string
  fr_Cause :: string
  fr_Remediation :: string

record finalReport =
  fp_Status :: Status
  fp_Stage :: string
  fp_Message :: string
  fp_Provider :: string
  fp_Workload :: string
  fp_ResourcesChanged :: bool
  fp_Benchmark :: ComponentStatus
  fp_Cleanup :: ComponentStatus
  fp_RunID :: string
  fp_LogLocation :: string
  fp_Failure :: "failureReport option"

text \<open>Go's \<open>valueOr\<close>.\<close>

definition orElse :: "string \<Rightarrow> string \<Rightarrow> string" where
  "orElse value fallback = (if value \<noteq> [] then value else fallback)"

definition newReport :: "'p RunOutcome \<Rightarrow> finalReport" where
  "newReport oc = (let value = \<lparr>fp_Status = ro_Status oc, fp_Stage = ro_Stage oc, fp_Message = sanitize (ro_Message oc) maxRenderedCauseBytes,
       fp_Provider = ro_SelectedProvider oc, fp_Workload = ro_SelectedWorkload oc, fp_ResourcesChanged = ro_ResourcesChanged oc,
       fp_Benchmark = ro_BenchmarkStatus oc, fp_Cleanup = ro_CleanupStatus oc, fp_RunID = ro_RunID oc, fp_LogLocation = ro_LogLocation oc,
       fp_Failure = None\<rparr> in
     case ro_Error oc of None \<Rightarrow> value
     | Some e \<Rightarrow> value\<lparr>fp_Stage := orElse (ro_Stage oc) (ue_Stage e), fp_RunID := orElse (ro_RunID oc) (ue_RunID e),
         fp_LogLocation := orElse (ro_LogLocation oc) (ue_LogLocation e), fp_ResourcesChanged := ro_ResourcesChanged oc \<or> ue_ResourcesChanged e,
         fp_Failure := Some \<lparr>fr_Code = ue_Code e, fr_ExitStatus = ue_ExitStatus e, fr_Stage = ue_Stage e,
           fr_Cause = (case ue_Cause e of None \<Rightarrow> [] | Some c \<Rightarrow> sanitize (error_text c) maxRenderedCauseBytes),
           fr_Remediation = sanitize (ue_Remediation e) maxRenderedCauseBytes\<rparr>\<rparr>)"

definition labelled :: "string \<Rightarrow> string \<Rightarrow> string list" where
  "labelled label value = (if value = [] then [] else [label @ '': '' @ value @ newline])"

definition reportLines :: "finalReport \<Rightarrow> string list" where
  "reportLines v = [''status: '' @ status_text (fp_Status v) @ newline] @ labelled ''stage'' (fp_Stage v) @ labelled ''summary'' (fp_Message v)
     @ labelled ''provider'' (fp_Provider v) @ labelled ''workload'' (fp_Workload v)
     @ [''resources changed: '' @ yesNo (fp_ResourcesChanged v) @ newline] @ labelled ''benchmark'' (component_text (fp_Benchmark v))
     @ labelled ''cleanup'' (component_text (fp_Cleanup v)) @ labelled ''run ID'' (fp_RunID v) @ labelled ''log'' (fp_LogLocation v)"

text \<open>What the reports can do: encode themselves as JSON, with the newline of the encoder, and write their text.\<close>

record ('p, 's) Reporting =
  rp_Encode :: "'p \<Rightarrow> go_error + string"
  rp_WriteText :: "'p \<Rightarrow> 's Writer \<Rightarrow> 's \<Rightarrow> go_error option \<times> 's"
  rp_EncodeFinal :: "finalReport \<Rightarrow> go_error + string"

definition writeEncoded :: "'s Writer \<Rightarrow> go_error + string \<Rightarrow> 's \<Rightarrow> go_error option \<times> 's" where
  "writeEncoded dst encoded s = (case encoded of Inl e \<Rightarrow> (Some e, s) | Inr t \<Rightarrow> dst t s)"

definition renderReport :: "('p, 's) Reporting \<Rightarrow> 's Writer \<Rightarrow> string \<Rightarrow> 'p RunOutcome \<Rightarrow> 's \<Rightarrow> go_error option \<times> 's" where
  "renderReport rp dst fmt oc s = (case ro_Report oc of
     Some r \<Rightarrow> if fmt = ''json'' then writeEncoded dst (rp_Encode rp r) s else rp_WriteText rp r dst s
   | None \<Rightarrow> if fmt = ''json'' then writeEncoded dst (rp_EncodeFinal rp (newReport oc)) s else writeAll dst (reportLines (newReport oc)) s)"

definition diagnosticText :: "UserError option \<Rightarrow> string" where
  "diagnosticText eo = (case eo of None \<Rightarrow> []
   | Some e \<Rightarrow> ''['' @ sanitize (orElse (ue_Code e) ''TB_FAILED'') 128 @ ''] stage: '' @ sanitize (orElse (ue_Stage e) ''unknown'') 128 @ newline
      @ (case ue_Cause e of None \<Rightarrow> [] | Some c \<Rightarrow> ''cause: '' @ sanitize (error_text c) maxRenderedCauseBytes @ newline)
      @ ''resources changed: '' @ yesNo (ue_ResourcesChanged e) @ newline
      @ (if ue_Remediation e = [] then [] else ''next: '' @ sanitize (ue_Remediation e) maxRenderedCauseBytes @ newline)
      @ (if ue_RunID e = [] then [] else ''run ID: '' @ sanitize (ue_RunID e) 256 @ newline)
      @ (if ue_LogLocation e = [] then [] else ''log: '' @ sanitize (ue_LogLocation e) 1024 @ newline))"

end
