(* ===== verification/App.thy ===== *)
theory App
  imports App_Types
begin

text \<open>
  The application (internal/app/app.go, runtime.go): front options, the choice of the command, its execution and
  the rendering of its outcome. The destinations of the output, the log file and the context are an argument over an
  arbitrary state, so a write may fail; executors act on the same state.
\<close>

section \<open>The application\<close>

text \<open>
  \<open>co_progress\<close> is what an executor writes to; \<open>co_required\<close> is the channel that \<^verbatim>\<open>RequiredWriter\<close> finds in it,
  which stays visible under \<^verbatim>\<open>--quiet\<close>.
\<close>

record 's CommandOutput =
  co_progress :: "'s Writer"
  co_required :: "'s Writer"

type_synonym ('s, 'p) Executor = "string list \<Rightarrow> 's CommandOutput \<Rightarrow> 's \<Rightarrow> 'p RunOutcome \<times> 's"

record ('s, 'p) Application =
  ap_Name :: string
  ap_Provider :: string
  ap_Build :: BuildInfo
  ap_Execute :: "('s, 'p) Executor option"
  ap_Commands :: "(string \<times> ('s, 'p) Executor) list"
  ap_SelectCommand :: "(string list \<Rightarrow> 's \<Rightarrow> (UserError + string) \<times> 's) option"

record ('s, 'p) Terminal =
  tt_stdout :: "'s Writer"
  tt_stderr :: "'s Writer"
  tt_OpenLog :: "string \<Rightarrow> 's \<Rightarrow> (go_error + 's Writer) \<times> 's"
  tt_CloseLog :: "'s \<Rightarrow> 's"
  tt_Cancelled :: "'s \<Rightarrow> bool"
  tt_Reporting :: "('p, 's) Reporting"

section \<open>Arguments\<close>

record frontOptions =
  fo_outputFormat :: string
  fo_logFile :: string
  fo_quiet :: bool

definition hasArg :: "string list \<Rightarrow> string list \<Rightarrow> bool" where
  "hasArg args names = list_ex (\<lambda>a. a \<in> set names) args"

definition hasLogFileFlag :: "string list \<Rightarrow> bool" where
  "hasLogFileFlag args = list_ex (\<lambda>a. a = ''--log-file'' \<or> HasPrefix a ''--log-file='') args"

definition argumentError :: "string \<Rightarrow> string \<Rightarrow> UserError" where
  "argumentError cause remediation = newUserError ''TB_USAGE'' ExitUsage ''arguments'' (Some (ErrText cause)) remediation"

text \<open>The loop over the arguments; the flag says whether the loop ended at \<^verbatim>\<open>--\<close>.\<close>

fun frontLoop :: "string list \<Rightarrow> frontOptions \<Rightarrow> string list \<Rightarrow> UserError + (frontOptions \<times> string list \<times> bool)" where
  "frontLoop [] options acc = Inr (options, acc, False)"
| "frontLoop (arg # rest) options acc =
    (if arg = ''--'' then Inr (options, acc @ arg # rest, True)
     else if arg = ''--quiet'' then frontLoop rest (options\<lparr>fo_quiet := True\<rparr>) acc
     else if arg = ''--output'' then (case rest of
         [] \<Rightarrow> Inl (argumentError ''--output requires text or json'' ''use --output text or --output json'')
       | v # rest1 \<Rightarrow> frontLoop rest1 (options\<lparr>fo_outputFormat := v\<rparr>) acc)
     else if HasPrefix arg ''--output='' then frontLoop rest (options\<lparr>fo_outputFormat := TrimPrefix arg ''--output=''\<rparr>) acc
     else if arg = ''--log-file'' then (case rest of
         [] \<Rightarrow> Inl (argumentError ''--log-file requires a path'' ''pass a non-empty writable path with --log-file PATH'')
       | v # rest1 \<Rightarrow> frontLoop rest1 (options\<lparr>fo_logFile := v\<rparr>) acc)
     else if HasPrefix arg ''--log-file='' then frontLoop rest (options\<lparr>fo_logFile := TrimPrefix arg ''--log-file=''\<rparr>) acc
     else frontLoop rest options (acc @ [arg]))"

definition parseFrontOptions :: "string list \<Rightarrow> UserError + (frontOptions \<times> string list)" where
  "parseFrontOptions args = (case frontLoop args \<lparr>fo_outputFormat = ''text'', fo_logFile = [], fo_quiet = False\<rparr> [] of
     Inl e \<Rightarrow> Inl e
   | Inr (options, executeArgs, stopped) \<Rightarrow>
      if stopped then Inr (options, executeArgs)
      else if fo_outputFormat options \<noteq> ''text'' \<and> fo_outputFormat options \<noteq> ''json'' then
        Inl (argumentError (''invalid --output value '' @ quoted (fo_outputFormat options)) ''use --output text or --output json'')
      else if fo_logFile options = [] \<and> hasLogFileFlag args then
        Inl (argumentError ''--log-file requires a non-empty path'' ''pass a non-empty writable path with --log-file PATH'')
      else Inr (options, executeArgs))"

section \<open>The command\<close>

definition resolveDefaultExecutor :: "('s, 'p) Application \<Rightarrow> string list \<Rightarrow> 's \<Rightarrow> (UserError + (('s, 'p) Executor option \<times> string list)) \<times> 's" where
  "resolveDefaultExecutor a args s = (case ap_SelectCommand a of
     None \<Rightarrow> (Inr (ap_Execute a, args), s)
   | Some select \<Rightarrow> (case select args s of
       (Inl e, s1) \<Rightarrow> (Inl e, s1)
     | (Inr command, s1) \<Rightarrow> if command = [] then (Inr (ap_Execute a, args), s1)
         else (case map_of (ap_Commands a) command of
           Some execute \<Rightarrow> (Inr (Some execute, args), s1)
         | None \<Rightarrow> (Inl (newUserError ''TB_INTERNAL'' ExitRunFailed ''command'' (Some (ErrText (''selected command '' @ quoted command @ '' is not configured'')))
             ''reinstall Tailbench or report this defect''), s1))))"

definition resolveExecutor :: "('s, 'p) Application \<Rightarrow> string list \<Rightarrow> 's \<Rightarrow> (UserError + (('s, 'p) Executor option \<times> string list)) \<times> 's" where
  "resolveExecutor a args s =
    (let fallback = (if hasArg args [''--dry-run''] then (case map_of (ap_Commands a) ''plan'' of
           Some execute \<Rightarrow> (Inr (Some execute, args), s) | None \<Rightarrow> resolveDefaultExecutor a args s)
         else resolveDefaultExecutor a args s) in
     case args of [] \<Rightarrow> fallback
     | command # rest \<Rightarrow> if HasPrefix command ''-'' then fallback
       else if command = ''run'' then resolveDefaultExecutor a rest s
       else (case map_of (ap_Commands a) command of
           Some execute \<Rightarrow> (Inr (Some execute, rest), s)
         | None \<Rightarrow> if ap_Commands a \<noteq> [] then
             (Inl (newUserError ''TB_USAGE'' ExitUsage ''command'' (Some (ErrText (''unknown command '' @ quoted command)))
                ''run --help to list supported commands''), s)
           else fallback))"

definition executeWith :: "('s, 'p) Executor option \<Rightarrow> ('s, 'p) Executor" where
  "executeWith execute args out s = (case execute of
     None \<Rightarrow> (failedWith (newUserError ''TB_INTERNAL'' ExitRunFailed ''startup'' (Some (ErrText ''application executor is not configured''))
        ''reinstall Tailbench or report this defect''), s)
   | Some f \<Rightarrow> f args out s)"

section \<open>Output\<close>

definition multiWriter :: "'s Writer list \<Rightarrow> 's Writer" where
  "multiWriter ws p = fold (\<lambda>w (e, s). case e of None \<Rightarrow> w p s | Some _ \<Rightarrow> (e, s)) ws \<circ> Pair None"

definition progressWriter :: "'s Writer \<Rightarrow> 's Writer option \<Rightarrow> bool \<Rightarrow> 's CommandOutput" where
  "progressWriter stderr logFile quiet =
    (let toLog = (case logFile of None \<Rightarrow> [] | Some l \<Rightarrow> [redactingWriter (Some l)]) in
     \<lparr>co_progress = multiWriter ((if quiet then [] else [redactingWriter (Some stderr)]) @ toLog),
      co_required = multiWriter (redactingWriter (Some stderr) # toLog)\<rparr>)"

definition writeDiagnostic :: "'s Writer \<Rightarrow> 's Writer option \<Rightarrow> UserError \<Rightarrow> 's \<Rightarrow> 's" where
  "writeDiagnostic stderr logFile e s = (let t = diagnosticText (Some e); s1 = snd (stderr t s) in
     case logFile of None \<Rightarrow> s1 | Some l \<Rightarrow> snd (redactingWriter (Some l) t s1))"

definition attachLogLocation :: "string \<Rightarrow> 'p RunOutcome \<Rightarrow> 'p RunOutcome" where
  "attachLogLocation p oc = (if p = [] then oc
     else oc\<lparr>ro_LogLocation := orElse (ro_LogLocation oc) p,
       ro_Error := map_option (\<lambda>e. e\<lparr>ue_LogLocation := orElse (ue_LogLocation e) p\<rparr>) (ro_Error oc)\<rparr>)"

text \<open>The steps of \<^verbatim>\<open>normalizeOutcome\<close> in their order: a missing status, the fields of the error, an interruption without an error, a cancelled context.\<close>

definition withStatus :: "'p RunOutcome \<Rightarrow> 'p RunOutcome" where
  "withStatus oc = (if ro_Status oc \<noteq> StatusUnset then oc
     else (case ro_Error oc of
       None \<Rightarrow> oc\<lparr>ro_Status := StatusFailed, ro_Error := Some ((newUserError ''TB_INTERNAL'' ExitRunFailed ''complete''
          (Some (ErrText ''executor returned no outcome status'')) ''report this defect'')\<lparr>ue_ResourcesChanged := ro_ResourcesChanged oc\<rparr>)\<rparr>
     | Some _ \<Rightarrow> oc\<lparr>ro_Status := StatusFailed\<rparr>))"

definition withErrorFields :: "'p RunOutcome \<Rightarrow> 'p RunOutcome" where
  "withErrorFields oc = (case ro_Error oc of None \<Rightarrow> oc
     | Some e \<Rightarrow> oc\<lparr>ro_Stage := orElse (ro_Stage oc) (ue_Stage e), ro_ResourcesChanged := ro_ResourcesChanged oc \<or> ue_ResourcesChanged e\<rparr>)"

definition withInterruption :: "'p RunOutcome \<Rightarrow> 'p RunOutcome" where
  "withInterruption oc = (if ro_Status oc = StatusInterrupted \<and> ro_Error oc = None
     then oc\<lparr>ro_Error := Some \<lparr>ue_Code = ''TB_INTERRUPTED'', ue_ExitStatus = ExitInterrupted, ue_Stage = orElse (ro_Stage oc) ''interrupted'',
        ue_Cause = Some (Sentinel Canceled), ue_Remediation = ''inspect run status before resuming or cleaning up'',
        ue_ResourcesChanged = ro_ResourcesChanged oc, ue_RunID = ro_RunID oc, ue_LogLocation = ro_LogLocation oc\<rparr>\<rparr> else oc)"

definition withCancellation :: "bool \<Rightarrow> 'p RunOutcome \<Rightarrow> 'p RunOutcome" where
  "withCancellation cancelled oc = (case ro_Error oc of None \<Rightarrow> oc
     | Some e \<Rightarrow> if cancelled \<and> errors_Is_opt (ue_Cause e) Canceled
         then oc\<lparr>ro_Status := StatusInterrupted, ro_Error := Some (e\<lparr>ue_ExitStatus := ExitInterrupted\<rparr>)\<rparr> else oc)"

definition normalizeOutcome :: "bool \<Rightarrow> 'p RunOutcome \<Rightarrow> 'p RunOutcome" where
  "normalizeOutcome cancelled oc = withCancellation cancelled (withInterruption (withErrorFields (withStatus oc)))"

definition renderVersion :: "('s, 'p) Application \<Rightarrow> string" where
  "renderVersion a = orElse (ap_Name a) ''tailbench'' @ '' '' @ orElse (bd_Version (ap_Build a)) ''dev'' @ '' (commit '' @
     orElse (bd_Commit (ap_Build a)) ''unknown'' @ '', built '' @ orElse (bd_Date (ap_Build a)) ''unknown'' @ '')'' @ newline"

definition renderHelp :: "('s, 'p) Application \<Rightarrow> string" where
  "renderHelp a = (let name = orElse (ap_Name a) ''tailbench''; provider = orElse (ap_Provider a) ''unknown'' in concat (map (\<lambda>l. l @ newline)
    [''Usage: '' @ name @ '' [flags]'',
     ''       '' @ name @ '' <command> [flags]'',
     [],
     ''Compiled provider: '' @ provider,
     [],
     ''Commands:'',
     ''  init                   Create safe configuration and secret templates'',
     ''  run                    Execute the configured benchmark (default)'',
     ''  plan                   Build a side-effect-free local plan'',
     ''  doctor                 Check local prerequisites; --remote is explicit'',
     ''  status RUN_ID          Read persisted run and recovery state'',
     ''  results RUN_ID         Render persisted result metadata and paths'',
     ''  resume RUN_ID          Continue only unfinished work from a run'',
     ''  cleanup RUN_ID         Destroy resources owned by a named run'',
     [],
     ''Recovery options:'',
     ''  cleanup RUN_ID --recover-pulumi-locks'',
     ''                         Remove only locks for stacks recorded by the named run'',
     [],
     ''Command output:'',
     ''  --help, -h             Show help without loading configuration'',
     ''  --version              Show version without loading configuration'',
     ''  --output text|json     Select the primary report format (default text)'',
     ''  --log-file PATH        Write redacted progress diagnostics to PATH'',
     ''  --quiet                Suppress progress; fatal diagnostics remain visible'',
     [],
     ''Run selection:'',
     ''  --config PATH          Configuration file (default config.yaml)'',
     ''  --provider NAME        Provider override; must match this binary'',
     ''  --family NAME          Instance family override'',
     ''  --filter REGEX         Instance-type filter'',
     ''  --dry-run              Compatibility preview flag'',
     ''  --cleanup-networking   Tear down provider networking after the run'',
     ''  --state-backend URL    Pulumi state backend: pulumi.com, or an s3://, gs://,'',
     ''                          azblob://, or file:// URL (default: local ./state)'',
     ''  --max-cost-usd USD     Set the required automation cost ceiling'',
     ''  --max-duration DURATION'',
     ''                          Bound total execution time (default 45m)'',
     ''  --max-instance-types N Bound instance types with pending work (default 1)'',
     ''  --max-concurrent-resources N'',
     ''                          Bound concurrent benchmark topologies (default 1)'',
     ''  --cleanup-policy MODE  Use always, on-success, or manual'',
     ''  --yes                  Approve a bounded noninteractive run'']))"

section \<open>A run of the application\<close>

definition finishOutcome :: "('s, 'p) Terminal \<Rightarrow> 's Writer option \<Rightarrow> frontOptions \<Rightarrow> 'p RunOutcome \<Rightarrow> 's \<Rightarrow> int \<times> 's" where
  "finishOutcome t logFile options oc s =
    (let render = (ro_Report oc \<noteq> None \<or> ro_Started oc \<or> ro_Status oc = StatusSucceeded) in
     case (if render then renderReport (tt_Reporting t) (tt_stdout t) (fo_outputFormat options) oc s else (None, s)) of
       (Some err, s1) \<Rightarrow> (let outputErr = \<lparr>ue_Code = ''TB_OUTPUT'', ue_ExitStatus = ExitRunFailed, ue_Stage = ''output'',
           ue_Cause = Some (Wrapf ''write final report: '' err []), ue_Remediation = ''verify the output destination and rerun the report'',
           ue_ResourcesChanged = ro_ResourcesChanged oc, ue_RunID = ro_RunID oc, ue_LogLocation = ro_LogLocation oc\<rparr> in
         (ExitRunFailed, writeDiagnostic (tt_stderr t) logFile outputErr s1))
     | (None, s1) \<Rightarrow> (ExitStatus oc, case ro_Error oc of None \<Rightarrow> s1 | Some e \<Rightarrow> writeDiagnostic (tt_stderr t) logFile e s1))"

definition runExecutor :: "('s, 'p) Terminal \<Rightarrow> frontOptions \<Rightarrow> ('s, 'p) Executor option \<Rightarrow> string list \<Rightarrow> 's Writer option \<Rightarrow> 's \<Rightarrow> int \<times> 's" where
  "runExecutor t options execute args logFile s =
    (case executeWith execute args (progressWriter (tt_stderr t) logFile (fo_quiet options)) s of (oc, s1) \<Rightarrow>
       finishOutcome t logFile options (normalizeOutcome (tt_Cancelled t s1) (attachLogLocation (fo_logFile options) oc)) s1)"

definition refused :: "('s, 'p) Terminal \<Rightarrow> UserError \<Rightarrow> 's \<Rightarrow> int \<times> 's" where
  "refused t e s = (ue_ExitStatus e, snd (tt_stderr t (diagnosticText (Some e)) s))"

definition Application_Run :: "('s, 'p) Terminal \<Rightarrow> ('s, 'p) Application \<Rightarrow> string list \<Rightarrow> 's \<Rightarrow> int \<times> 's" where
  "Application_Run t a args s =
    (if hasArg args [''-h'', ''--help''] then (ExitOK, snd (tt_stdout t (renderHelp a) s))
     else if hasArg args [''--version''] then (ExitOK, snd (tt_stdout t (renderVersion a) s))
     else case parseFrontOptions args of Inl e \<Rightarrow> refused t e s
     | Inr (options, executeArgs0) \<Rightarrow> (case resolveExecutor a executeArgs0 s of
         (Inl e, s1) \<Rightarrow> refused t e s1
       | (Inr (execute, executeArgs), s1) \<Rightarrow>
         if fo_logFile options = [] then runExecutor t options execute executeArgs None s1
         else (case tt_OpenLog t (fo_logFile options) s1 of
           (Inl err, s2) \<Rightarrow> refused t (newUserError ''TB_LOG_FILE'' ExitUsage ''output''
              (Some (Wrapf (''open log file '' @ quoted (fo_logFile options) @ '': '') err [])) ''choose a writable --log-file path'') s2
         | (Inr l, s2) \<Rightarrow> (case runExecutor t options execute executeArgs (Some l) s2 of (code, s3) \<Rightarrow> (code, tt_CloseLog t s3)))))"

section \<open>Runtimes (runtime.go)\<close>

text \<open>An error of the configuration loader is a user error, which \<^verbatim>\<open>errors.As\<close> finds, or a plain one.\<close>

record 'v PreparedRun =
  pp_Value :: 'v
  pp_MissingPrerequisites :: "string list"

record ('v, 's) RuntimeDependencies =
  rn_Provider :: string
  rn_Workload :: string
  rn_LoadConfig :: "(string list \<Rightarrow> 's \<Rightarrow> (UserError + go_error) + 'v PreparedRun) option"
  rn_NewRuntime :: "('v \<Rightarrow> 's CommandOutput \<Rightarrow> go_error + ('s \<Rightarrow> go_error option \<times> 's) option) option"

definition internalDependencyFailure :: "string \<Rightarrow> 'p RunOutcome" where
  "internalDependencyFailure name = failedWith (newUserError ''TB_INTERNAL'' ExitRunFailed ''startup'' (Some (ErrText (name @ '' is not configured'')))
     ''reinstall Tailbench or report this defect'')"

fun normalizedFrom :: "string list \<Rightarrow> string list \<Rightarrow> string list" where
  "normalizedFrom seen [] = []"
| "normalizedFrom seen (raw # values) = (let value = TrimSpace raw in
     if value = [] \<or> value \<in> set seen then normalizedFrom seen values else value # normalizedFrom (value # seen) values)"

definition normalizedNames :: "string list \<Rightarrow> string list" where
  "normalizedNames = normalizedFrom []"

definition runtimeOutcome :: "string \<Rightarrow> string \<Rightarrow> go_error option \<Rightarrow> 'p RunOutcome" where
  "runtimeOutcome provider workload err =
    (let started = zeroOutcome\<lparr>ro_Started := True, ro_ResourcesChanged := True, ro_SelectedProvider := provider, ro_SelectedWorkload := workload\<rparr>;
         failed = started\<lparr>ro_Stage := ''run'', ro_BenchmarkStatus := ComponentFailed\<rparr>;
         changed = (\<lambda>e. e\<lparr>ue_ResourcesChanged := True\<rparr>) in
     case err of
       None \<Rightarrow> started\<lparr>ro_Status := StatusSucceeded, ro_Stage := ''complete'', ro_Message := ''requested work completed'', ro_BenchmarkStatus := ComponentSucceeded\<rparr>
     | Some e \<Rightarrow> if errors_Is e Canceled
         then failed\<lparr>ro_Status := StatusInterrupted, ro_Message := ''run interrupted; inspect local state before continuing'',
            ro_Error := Some (changed (newUserError ''TB_INTERRUPTED'' ExitInterrupted ''run'' (Some e) ''inspect recoverable state before resuming or cleaning up''))\<rparr>
         else failed\<lparr>ro_Status := StatusFailed, ro_Message := ''requested work failed'',
            ro_Error := Some (changed (newUserError ''TB_RUN_FAILED'' ExitRunFailed ''run'' (Some e) ''inspect the diagnostic, verify existing resources, and retry''))\<rparr>)"

definition NewRuntimeExecutor :: "('v, 's) RuntimeDependencies \<Rightarrow> ('s, 'p) Executor" where
  "NewRuntimeExecutor dependencies args out s = (case rn_LoadConfig dependencies of
     None \<Rightarrow> (internalDependencyFailure ''configuration loader'', s)
   | Some load \<Rightarrow> (case rn_NewRuntime dependencies of
     None \<Rightarrow> (internalDependencyFailure ''runtime constructor'', s)
   | Some new \<Rightarrow> (case load args s of
       Inl (Inl e) \<Rightarrow> (failedWith e, s)
     | Inl (Inr e) \<Rightarrow> (failedWith (newUserError ''TB_CONFIG'' ExitUsage ''configuration'' (Some e) ''fix the named flag or configuration path and retry''), s)
     | Inr prepared \<Rightarrow> (let missing = normalizedNames (pp_MissingPrerequisites prepared) in
         if missing \<noteq> [] then (failedWith (newUserError ''TB_PREREQUISITE'' ExitPrerequisite ''preflight''
            (Some (ErrText (''required values are missing: '' @ JoinStr '', '' missing))) (''set the required values before running: '' @ JoinStr '', '' missing)), s)
         else (case new (pp_Value prepared) out of
           Inl e \<Rightarrow> (failedWith (newUserError ''TB_CONFIG'' ExitUsage ''configuration'' (Some e) ''correct the provider or workload configuration and retry''), s)
         | Inr None \<Rightarrow> (internalDependencyFailure ''runtime'', s)
         | Inr (Some run) \<Rightarrow> (case run s of (err, s1) \<Rightarrow> (runtimeOutcome (rn_Provider dependencies) (rn_Workload dependencies) err, s1)))))))"

end
