(* ===== verification/Cmd_Base.thy ===== *)
theory Cmd_Base
  imports Cmd_Run Config_Load Recovery Summary App Preflight_Remote Plan_Render Guardrail
begin

text \<open>
  The commands of the program that act on local files only (cmd/tailbench/main.go): init, plan, doctor, status and
  results, and what all commands share. The state of an executor is the world of the run store, which also holds the
  configuration; the cloud, the machines and the result files the process starts with are part of its surroundings.
\<close>

section \<open>The surroundings\<close>

datatype commandReport = PlanReport Plan | DoctorReport PreflightReport | StatusView StatusReport | ResultsView ResultsReport

type_synonym commandOutcome = "commandReport RunOutcome"
type_synonym commandExecutor = "(lworld, commandReport) Executor"

text \<open>
  The linked names of the build, the process, and the packages the commands call: regular expressions, prices, the
  standard input as the line a prompt reads, the orchestrator without its configuration, the provider that is
  compiled in, the checkers of the doctor, and the encodings of times, plans and snapshots. \<open>cm_System\<close> gives the
  parts of the system outside the run store.
\<close>

record ('c, 'm, 'd) Command =
  cm_compiledProviderName :: string
  cm_Build :: BuildInfo
  cm_Process :: "FinalSummary document Process"
  cm_PathEnv :: PathEnv
  cm_Compile :: "string \<Rightarrow> go_error + (string \<Rightarrow> bool)"
  cm_QuoteMeta :: "string \<Rightarrow> string"
  cm_Prices :: Dataset
  cm_stdin :: "string \<times> go_error option"
  cm_Orchestrator :: "('c, 'm, 'd) managed"
  cm_newCompiledProvider :: "Config \<Rightarrow> ('c, 'm, 'd, lworld) system Provider"
  cm_Tailnet :: "string \<Rightarrow> string \<Rightarrow> string \<Rightarrow> ('c, 'm, 'd, lworld) system TailnetManager"
  cm_KubernetesBuild :: bool
  cm_PulumiToken :: string
  cm_PulumiLogin :: bool
  cm_Finder :: "lworld Finder"
  cm_Runner :: "lworld CommandRunner"
  cm_Decoders :: Decoders
  cm_Http :: "lworld HttpClient"
  cm_newRunID :: "string lio"
  cm_parseTime :: "string \<Rightarrow> gotime option"
  cm_formatTime :: "gotime \<Rightarrow> string"
  cm_encodePlan :: "Plan \<Rightarrow> go_error + string"
  cm_sha256hex :: "string \<Rightarrow> string"
  cm_marshal :: "redactedSnapshot \<Rightarrow> go_error + string"
  cm_unmarshal :: "string \<Rightarrow> go_error + redactedSnapshot"
  cm_System :: "('c, 'm, 'd, lworld) system"

definition systemWith :: "('c, 'm, 'd) Command \<Rightarrow> lworld \<Rightarrow> ('c, 'm, 'd, lworld) system" where
  "systemWith cm w = (cm_System cm)\<lparr>y_store := w\<rparr>"

definition planStat :: "('c, 'm, 'd) Command \<Rightarrow> path \<Rightarrow> bool option" where
  "planStat cm p = map_option (\<lambda>n. n = Dir) (w_fs (y_disk (cm_System cm)) p)"

section \<open>Failures\<close>

definition commandFailure :: "string \<Rightarrow> int \<Rightarrow> string \<Rightarrow> go_error \<Rightarrow> string \<Rightarrow> 'p RunOutcome" where
  "commandFailure code exitStatus stage cause remediation = failedWith (newUserError code exitStatus stage (Some cause) remediation)"

definition forRun :: "string \<Rightarrow> 'p RunOutcome \<Rightarrow> 'p RunOutcome" where
  "forRun runID oc = oc\<lparr>ro_Error := map_option (\<lambda>e. e\<lparr>ue_RunID := runID\<rparr>) (ro_Error oc)\<rparr>"

definition recoveryFailure :: "string \<Rightarrow> string \<Rightarrow> go_error \<Rightarrow> 'p RunOutcome" where
  "recoveryFailure stage runID cause = forRun runID (commandFailure ''TB_RECOVERY'' ExitRecovery stage cause
     (if errors_Is cause ErrRunNotFound \<or> errors_Is cause ErrInvalidRunID
      then ''verify the run ID and inspect .tailbench/runs for a versioned manifest''
      else ''restore or repair the named manifest before resuming or cleaning up resources''))"

text \<open>A load error as the cause of a user error: what it says, and what it wraps.\<close>

definition loadCause :: "config_error \<Rightarrow> go_error" where
  "loadCause e = (case e of PlainError c \<Rightarrow> c | LoadFailed l \<Rightarrow> Wrapf (loadPrefix (le_Kind l) @ le_Path l @ '': '') (le_Err l) [])"

definition configurationFailure :: "string \<Rightarrow> config_error \<Rightarrow> 'p RunOutcome" where
  "configurationFailure remediation e = commandFailure ''TB_CONFIG'' ExitUsage ''configuration'' (loadCause e) remediation"

section \<open>Names\<close>

definition binaryNameForProvider :: "string \<Rightarrow> string" where
  "binaryNameForProvider p = (if p = ''aws'' then ''tailbench-aws'' else if p = ''eks'' then ''tailbench-aws-k8s''
     else if p = ''azure'' then ''tailbench-azure'' else if p = ''aks'' then ''tailbench-azure-k8s''
     else if p = ''gcp'' then ''tailbench-gcp'' else if p = ''gke'' then ''tailbench-gcp-k8s'' else ''tailbench'')"

definition commandWorkload :: "string \<Rightarrow> string" where
  "commandWorkload p = (if p \<in> {''eks'', ''aks'', ''gke''} then ''kubernetes'' else ''vm'')"

definition compiledProviderFactory :: "('c, 'm, 'd) Command \<Rightarrow> string \<Rightarrow> Config \<Rightarrow> go_error + ('c, 'm, 'd, lworld) system Provider" where
  "compiledProviderFactory cm name cfg = (if name \<noteq> cm_compiledProviderName cm
     then Inl (ErrText (''requested provider '' @ quoted name @ '', but this binary was compiled for provider '' @ quoted (cm_compiledProviderName cm)))
     else Inr (cm_newCompiledProvider cm cfg))"

section \<open>Configuration\<close>

definition selectConfiguredCommand :: "('c, 'm, 'd) Command \<Rightarrow> string list \<Rightarrow> lworld \<Rightarrow> (UserError + string) \<times> lworld" where
  "selectConfiguredCommand cm args w = (case ParseLocalArgs (cm_Process cm) (cm_compiledProviderName cm) args w of
     (Inl e, w1) \<Rightarrow> (Inl (newUserError ''TB_CONFIG'' ExitUsage ''configuration'' (Some (loadCause e))
        ''fix the named flag or configuration path and rerun the command''), w1)
   | (Inr cfg, w1) \<Rightarrow> (Inr (if c_DryRun cfg then ''plan'' else []), w1))"

text \<open>A missing environment file is a user error of its own, every other error is returned as it is.\<close>

definition parseExecutionConfig :: "('c, 'm, 'd) Command \<Rightarrow> string list \<Rightarrow> lworld \<Rightarrow> ((UserError + config_error) + Config) \<times> lworld" where
  "parseExecutionConfig cm args w = (case ParseArgs (cm_Process cm) (cm_compiledProviderName cm) args w of
     (Inr cfg, w1) \<Rightarrow> (Inr cfg, w1)
   | (Inl e, w1) \<Rightarrow> (case e of
       LoadFailed l \<Rightarrow> if le_Kind l = ErrorEnvironmentFile
         then (Inl (Inl (newUserError ''TB_PREREQUISITE'' ExitPrerequisite ''preflight'' (Some (loadCause e))
           ''create the environment file, or remove env_file and supply the required values another way'')), w1)
         else (Inl (Inr e), w1)
     | PlainError _ \<Rightarrow> (Inl (Inr e), w1)))"

definition missingRunPrerequisites :: "Config \<Rightarrow> string list" where
  "missingRunPrerequisites cfg = (if TrimSpace (c_OAuthClientID cfg) = [] then [''OAUTH_CLIENT_ID''] else [])
     @ (if TrimSpace (c_OAuthClientSecret cfg) = [] then [''OAUTH_CLIENT_SECRET''] else [])"

definition missingCleanupPrerequisites :: "Config \<Rightarrow> bool \<Rightarrow> string list" where
  "missingCleanupPrerequisites cfg needsTailscale = (if \<not> needsTailscale then [] else missingRunPrerequisites cfg)"

definition prerequisiteFailure :: "string list \<Rightarrow> string \<Rightarrow> 'p RunOutcome" where
  "prerequisiteFailure missing remediation = commandFailure ''TB_PREREQUISITE'' ExitPrerequisite ''preflight''
     (ErrText (''required values are missing: '' @ JoinStr '', '' missing)) remediation"

definition validateCompiledProvider :: "('c, 'm, 'd) Command \<Rightarrow> Config \<Rightarrow> go_error option" where
  "validateCompiledProvider cm cfg = (if length (c_Providers cfg) \<noteq> 1
     then Some (ErrText (''exactly one provider is required; got '' @ string_of_nat (length (c_Providers cfg))))
     else case find (\<lambda>p. p \<noteq> cm_compiledProviderName cm) (c_Providers cfg) of
       Some p \<Rightarrow> Some (ErrText (''requested provider '' @ quoted p @ '', but this binary was compiled for provider '' @ quoted (cm_compiledProviderName cm)))
     | None \<Rightarrow> None)"

text \<open>The plan of the local configuration, or the outcome that says why there is none.\<close>

definition buildLocalPlan :: "('c, 'm, 'd) Command \<Rightarrow> string list \<Rightarrow> lworld \<Rightarrow> (commandOutcome + (Config \<times> Plan)) \<times> lworld" where
  "buildLocalPlan cm args w = (case ParseLocalArgs (cm_Process cm) (cm_compiledProviderName cm) args w of
     (Inl e, w1) \<Rightarrow> (Inl (configurationFailure ''fix the named flag or configuration path and rerun'' e), w1)
   | (Inr cfg, w1) \<Rightarrow> (case Build (cm_Compile cm) (cm_Prices cm) (planStat cm) None
         \<lparr>rq_CompiledProvider = cm_compiledProviderName cm, rq_Config = Some cfg, rq_Catalog = None\<rparr> of
       Inl e \<Rightarrow> (Inl (commandFailure ''TB_PLAN'' ExitUsage ''plan'' e ''correct the selector, provider, or benchmark modes and rerun plan''), w1)
     | Inr localPlan \<Rightarrow> (Inr (cfg, localPlan), w1)))"

section \<open>init\<close>

definition textLines :: "string list \<Rightarrow> string" where
  "textLines ls = concat (map (\<lambda>l. l @ newline) ls)"

definition providerSection :: "string \<Rightarrow> string list" where
  "providerSection providerName = (if providerName \<in> {''aws'', ''eks''} then [''aws:'',
     ''  region: us-west-2'',
     ''  az: us-west-2a'',
     ''  key_name: YOUR_AWS_KEY_PAIR'']
     else if providerName \<in> {''azure'', ''aks''} then [''azure:'',
     ''  location: eastus'',
     ''  resource_group: tailbench-example'',
     ''  ssh_user: azureuser'']
     else if providerName \<in> {''gcp'', ''gke''} then [''gcp:'',
     ''  project: YOUR_GCP_PROJECT_ID'',
     ''  zone: us-central1-a'']
     else [])"

definition initialConfig :: "string \<Rightarrow> string" where
  "initialConfig providerName = textLines (
    [''# Safe configuration for the provider compiled into this binary.'',
     ''# Local doctor and plan do not open env_file or contact remote services.'',
     ''env_file: .env'',
     [],
     ''providers:'',
     ''  - '' @ providerName,
     ''family: all'',
     ''filter: '' @ [CHR 0x22] @ [CHR 0x22],
     [],
     ''tailscale:'',
     ''  # Create and delete a throwaway tailnet for each run. Requires an'',
     ''  # organization-level OAuth client; a tailnet-scoped client fails with'',
     ''  # '' @ [CHR 0x22] @ ''403 actor does not have permission to create tailnets'' @ [CHR 0x22] @ ''.'',
     ''  create_tailnet: true'',
     ''  # Alternative: benchmark an existing tailnet instead of creating one. Use this'',
     ''  # when your OAuth client cannot create tailnets. Set create_tailnet: false and'',
     ''  # uncomment the line below. Warning: Tailbench REPLACES that tailnet'' @ [CHR 0x27] @ ''s policy'',
     ''  # file, so point it only at a tailnet dedicated to benchmarking.'',
     ''  # tailnet_dns_name: example-name.ts.net'',
     ''  oauth_client_id: ${OAUTH_CLIENT_ID}'',
     ''  oauth_client_secret: ${OAUTH_CLIENT_SECRET}'',
     ''  tag: tag:bench'',
     [],
     ''benchmark:'',
     ''  modes:'',
     ''    - l4-kernel'',
     ''  iperf_duration: 30'',
     ''  iperf_parallel: 4'',
     ''  iperf_iterations: 3'',
     ''  cooldown_sec: 30'',
     []]
     @ providerSection providerName @ [[]] @
    [''# Safe compatibility default: an unqualified invocation plans instead of provisioning.'',
     ''dry_run: true'',
     ''max_cost_usd: 10'',
     ''max_duration: 45m'',
     ''max_instance_types: 1'',
     ''max_concurrent_resources: 1'',
     ''cleanup_policy: always''])"

definition initialEnv :: string where
  "initialEnv = textLines [''# Copy to .env and keep the resulting file private.'', ''OAUTH_CLIENT_ID='', ''OAUTH_CLIENT_SECRET='']"

definition initFiles :: "string \<Rightarrow> (string \<times> string) list" where
  "initFiles providerName = [(''config.yaml'', initialConfig providerName), (''.env.example'', initialEnv)]"

definition initFailure :: "string \<Rightarrow> go_error \<Rightarrow> string \<Rightarrow> commandOutcome" where
  "initFailure what e remediation = commandFailure ''TB_INIT'' ExitUsage ''init'' (Wrapf (what @ '': '') e []) remediation"

fun checkAbsent :: "(string \<times> string) list \<Rightarrow> lworld \<Rightarrow> commandOutcome option \<times> lworld" where
  "checkAbsent [] w = (None, w)"
| "checkAbsent ((p, _) # files) w = (case os_Stat (Clean p) w of
     (Inr _, w1) \<Rightarrow> (Some (commandFailure ''TB_INIT_EXISTS'' ExitRefused ''init'' (ErrText (p @ '' already exists''))
        ''preserve the existing file or move it aside, then rerun init''), w1)
   | (Inl e, w1) \<Rightarrow> if errors_Is e ErrNotExist then checkAbsent files w1
       else (Some (initFailure (''inspect '' @ p) e ''choose a writable directory and retry''), w1))"

fun removeAll :: "string list \<Rightarrow> lworld \<Rightarrow> lworld" where
  "removeAll [] w = w"
| "removeAll (p # ps) w = removeAll ps (snd (os_Remove (Clean p) w))"

text \<open>The writing and the closing of a file are both tried; the errors are joined.\<close>

definition writeAndClose :: "string \<Rightarrow> string \<Rightarrow> lworld \<Rightarrow> go_error option \<times> lworld" where
  "writeAndClose p text w = (case fd_Write (Clean p) (Bytes text) w of (r, w1) \<Rightarrow>
     (case fd_call w1 of (r2, w2) \<Rightarrow> (errors_Join [errOf r, errOf r2], w2)))"

fun createFiles :: "(string \<times> string) list \<Rightarrow> string list \<Rightarrow> lworld \<Rightarrow> commandOutcome option \<times> lworld" where
  "createFiles [] created w = (None, w)"
| "createFiles ((p, text) # files) created w = (case os_CreateExcl (Clean p) w of
     (Inl e, w1) \<Rightarrow> (Some (initFailure (''create '' @ p) e ''choose a writable directory, verify no template exists, and retry''), removeAll created w1)
   | (Inr _, w1) \<Rightarrow> (case writeAndClose p text w1 of
       (Some e, w2) \<Rightarrow> (Some (initFailure (''write '' @ p) e ''verify available disk space and directory permissions, then retry''),
          removeAll created (snd (os_Remove (Clean p) w2)))
     | (None, w2) \<Rightarrow> createFiles files (created @ [p]) w2))"

definition localOutcome :: "('c, 'm, 'd) Command \<Rightarrow> string \<Rightarrow> string \<Rightarrow> commandReport option \<Rightarrow> commandOutcome" where
  "localOutcome cm stage message report = zeroOutcome\<lparr>ro_Status := StatusSucceeded, ro_Stage := stage, ro_Message := message,
     ro_SelectedProvider := cm_compiledProviderName cm, ro_SelectedWorkload := commandWorkload (cm_compiledProviderName cm), ro_Report := report\<rparr>"

definition initExecutor :: "('c, 'm, 'd) Command \<Rightarrow> commandExecutor" where
  "initExecutor cm args out w =
    (if args \<noteq> [] then (commandFailure ''TB_USAGE'' ExitUsage ''init'' (ErrText (''init does not accept arguments: '' @ JoinStr '' '' args))
        ''run init in the directory where config.yaml should be created'', w)
     else let files = initFiles (cm_compiledProviderName cm) in
       case checkAbsent files w of (Some oc, w1) \<Rightarrow> (oc, w1)
       | (None, w1) \<Rightarrow> (case createFiles files [] w1 of (Some oc, w2) \<Rightarrow> (oc, w2)
         | (None, w2) \<Rightarrow> (localOutcome cm ''init'' ''created config.yaml and .env.example; local doctor and plan remain credential-free'' None, w2)))"

section \<open>plan\<close>

definition planExecutor :: "('c, 'm, 'd) Command \<Rightarrow> commandExecutor" where
  "planExecutor cm args out w = (case buildLocalPlan cm args w of
     (Inl oc, w1) \<Rightarrow> (oc, w1)
   | (Inr (_, localPlan), w1) \<Rightarrow> (localOutcome cm ''plan'' ''local plan completed without side effects'' (Some (PlanReport localPlan)), w1))"

section \<open>doctor\<close>

definition tailscalePreflightRequest :: "('c, 'm, 'd) Command \<Rightarrow> Config \<Rightarrow> TailscaleRequest" where
  "tailscalePreflightRequest cm cfg = \<lparr>tr_OAuthClientID = c_OAuthClientID cfg, tr_OAuthClientSecret = c_OAuthClientSecret cfg,
     tr_CreateTailnet = c_CreateTailnet cfg, tr_Modes = c_Modes cfg, tr_Workload = commandWorkload (cm_compiledProviderName cm)\<rparr>"

definition emptyTailscaleRequest :: TailscaleRequest where
  "emptyTailscaleRequest = \<lparr>tr_OAuthClientID = [], tr_OAuthClientSecret = [], tr_CreateTailnet = False, tr_Modes = [], tr_Workload = []\<rparr>"

text \<open>The request of a doctor; both flags of the remote preflight before a run are on or the second one is off.\<close>

definition preflightRequest :: "('c, 'm, 'd) Command \<Rightarrow> Config \<Rightarrow> bool \<Rightarrow> bool \<Rightarrow> lworld PreflightRequest" where
  "preflightRequest cm cfg remote checkTailscale = \<lparr>rq_Provider = cm_compiledProviderName cm, rq_Workload = commandWorkload (cm_compiledProviderName cm),
     rq_Finder = cm_Finder cm, rq_Remote = remote,
     rq_RemoteChecker = (if remote then Some (CheckWithIdentity (cm_Decoders cm) (cm_Runner cm) (c_StateBackend cfg)) else None),
     rq_Tailscale = (if checkTailscale then tailscalePreflightRequest cm cfg else emptyTailscaleRequest),
     rq_TailscaleChecker = (if checkTailscale then Some (CheckTailscale (cm_Http cm)) else None)\<rparr>"

definition runRemotePreflight :: "('c, 'm, 'd) Command \<Rightarrow> Config \<Rightarrow> bool \<Rightarrow> lworld \<Rightarrow> PreflightReport \<times> lworld" where
  "runRemotePreflight cm cfg checkTailscale = Doctor (preflightRequest cm cfg True checkTailscale)"

fun splitDoctorArgs :: "string list \<Rightarrow> go_error + (bool \<times> string list)" where
  "splitDoctorArgs args = foldl (\<lambda>acc arg. case acc of Inl e \<Rightarrow> Inl e
     | Inr (remote, configArgs) \<Rightarrow> if arg = ''--remote'' then Inr (True, configArgs)
        else if arg = ''--remote=false'' then Inr (False, configArgs)
        else if HasPrefix arg ''--remote='' then Inl (ErrText (''invalid --remote value '' @ quoted (TrimPrefix arg ''--remote='')))
        else Inr (remote, configArgs @ [arg])) (Inr (False, [])) args"

definition doctorConfig :: "('c, 'm, 'd) Command \<Rightarrow> bool \<Rightarrow> string list \<Rightarrow> lworld \<Rightarrow> ((UserError + config_error) + Config) \<times> lworld" where
  "doctorConfig cm remote configArgs w = (if remote then parseExecutionConfig cm configArgs w
     else case ParseLocalArgs (cm_Process cm) (cm_compiledProviderName cm) configArgs w of
       (Inl e, w1) \<Rightarrow> (Inl (Inr e), w1) | (Inr cfg, w1) \<Rightarrow> (Inr cfg, w1))"

definition doctorExecutor :: "('c, 'm, 'd) Command \<Rightarrow> commandExecutor" where
  "doctorExecutor cm args out w = (case splitDoctorArgs args of
     Inl e \<Rightarrow> (commandFailure ''TB_USAGE'' ExitUsage ''arguments'' e ''use doctor [--remote] with normal configuration flags'', w)
   | Inr (remote, configArgs) \<Rightarrow> (case doctorConfig cm remote configArgs w of
       (Inl (Inl userErr), w1) \<Rightarrow> (failedWith userErr, w1)
     | (Inl (Inr e), w1) \<Rightarrow> (configurationFailure ''fix the named flag or configuration path and rerun doctor'' e, w1)
     | (Inr cfg, w1) \<Rightarrow> (case validateCompiledProvider cm cfg of
         Some e \<Rightarrow> (commandFailure ''TB_CONFIG'' ExitUsage ''configuration'' e ''use the provider binary that matches the configured provider'', w1)
       | None \<Rightarrow> if remote \<and> missingRunPrerequisites cfg \<noteq> []
           then (prerequisiteFailure (missingRunPrerequisites cfg) ''set the required values before running doctor --remote'', w1)
         else (case Doctor (preflightRequest cm cfg remote remote) w1 of (report, w2) \<Rightarrow>
           if pf_Ready report then (localOutcome cm ''doctor'' ''prerequisite checks passed'' (Some (DoctorReport report)), w2)
           else ((commandFailure ''TB_PREREQUISITE'' ExitPrerequisite ''doctor'' (ErrText ''one or more prerequisite checks failed'')
              ''follow each failed check remediation and rerun doctor'')\<lparr>ro_Report := Some (DoctorReport report)\<rparr>, w2)))))"

section \<open>status and results\<close>

text \<open>The store below the working directory.\<close>

definition runsStore :: "('c, 'm, 'd) Command \<Rightarrow> go_error + Store" where
  "runsStore cm = map_sum id (\<lambda>wd. \<lparr>s_root = path_string (filepath_Join [path_string wd, ''.tailbench'', ''runs''])\<rparr>) (pe_Getwd (cm_PathEnv cm))"

definition runReport :: "string \<Rightarrow> Manifest \<Rightarrow> commandReport option" where
  "runReport command manifest = (if command = ''status'' then Some (StatusView (NewStatusReport manifest))
     else if command = ''results'' then Some (ResultsView (NewResultsReport manifest)) else None)"

definition runReportExecutor :: "string \<Rightarrow> ('c, 'm, 'd) Command \<Rightarrow> commandExecutor" where
  "runReportExecutor command cm args out w =
    (if length args \<noteq> 1 \<or> HasPrefix (hd args) ''-''
     then (commandFailure ''TB_USAGE'' ExitUsage command (ErrText (command @ '' requires exactly one run ID'')) (''use '' @ command @ '' RUN_ID''), w)
     else let runID = hd args in
       case runsStore cm of Inl e \<Rightarrow> (recoveryFailure command runID (Wrapf ''resolve working directory: '' e []), w)
       | Inr store \<Rightarrow> (case Load store runID w of
           (Inl e, w1) \<Rightarrow> (recoveryFailure command runID e, w1)
         | (Inr manifest, w1) \<Rightarrow> (case runReport command manifest of
             None \<Rightarrow> (commandFailure ''TB_INTERNAL'' ExitRunFailed command (ErrText (''unsupported local report command '' @ quoted command))
                ''reinstall Tailbench or report this defect'', w1)
           | Some report \<Rightarrow> (zeroOutcome\<lparr>ro_Status := StatusSucceeded, ro_Stage := command, ro_Message := command @ '' report loaded'',
               ro_RunID := m_RunID manifest, ro_SelectedProvider := m_Provider manifest, ro_SelectedWorkload := m_Workload manifest,
               ro_Report := Some report\<rparr>, w1))))"

end
