(* ===== verification/Cmd_Exec.thy ===== *)
theory Cmd_Exec
  imports Cmd_Base
begin

text \<open>
  The commands that act on the cloud (cmd/tailbench/main.go): run, resume and cleanup, from the guardrail to the final
  outcome, and the program that chooses among all commands. An execution starts from the system around the process;
  what it leaves of the run store is the state that goes on.
\<close>

section \<open>Outcomes of managed runs\<close>

definition componentStatus :: "OutcomeStatus \<Rightarrow> ComponentStatus" where
  "componentStatus st = (case st of OutcomeSucceeded \<Rightarrow> ComponentSucceeded | OutcomeFailed \<Rightarrow> ComponentFailed
     | OutcomeSkipped \<Rightarrow> ComponentSkipped | _ \<Rightarrow> ComponentPending)"

fun runOutcomeHead :: "RunStatus \<Rightarrow> Status \<times> string \<times> string" where
  "runOutcomeHead RunSucceeded = (StatusSucceeded, ''complete'', ''requested work completed'')"
| "runOutcomeHead RunCleaned = (StatusSucceeded, ''cleanup'', ''cleanup completed for the named run'')"
| "runOutcomeHead RunPartial = (StatusPartial, ''cleanup'', ''benchmark work completed but cleanup failed'')"
| "runOutcomeHead RunInterrupted = (StatusInterrupted, ''run'', ''run interrupted; recoverable state was saved'')"
| "runOutcomeHead RunRunning = (StatusFailed, ''run'', ''requested work failed; recoverable state was saved'')"
| "runOutcomeHead RunFailed = (StatusFailed, ''run'', ''requested work failed; recoverable state was saved'')"

definition recoveryRemediation :: "Manifest \<Rightarrow> string" where
  "recoveryRemediation m = (let binary = (if bi_Name (m_Binary m) = [] then binaryNameForProvider (m_Provider m) else bi_Name (m_Binary m)) in
     binary @ '' status '' @ m_RunID m @ ''; '' @ binary @ '' resume '' @ m_RunID m @ '' --yes; or '' @ binary @ '' cleanup '' @ m_RunID m @ '' --yes'')"

definition managedRunOutcome :: "Lifecycle.Outcome \<Rightarrow> commandOutcome" where
  "managedRunOutcome managed =
    (let m = o_Manifest managed; (st, stage, message) = runOutcomeHead (m_Status m);
         oc = zeroOutcome\<lparr>ro_Started := True, ro_Status := st, ro_Stage := stage, ro_Message := message, ro_ResourcesChanged := m_ResourcesChanged m,
           ro_RunID := m_RunID m, ro_LogLocation := path_string (o_LogPath managed), ro_BenchmarkStatus := componentStatus (m_BenchmarkOutcome m),
           ro_CleanupStatus := componentStatus (m_CleanupOutcome m), ro_SelectedProvider := m_Provider m, ro_SelectedWorkload := m_Workload m\<rparr> in
     if o_ExecutionError managed = None \<and> st = StatusSucceeded then oc
     else let cause = (case o_ExecutionError managed of Some e \<Rightarrow> e
            | None \<Rightarrow> ErrText ''run did not complete successfully; inspect the persisted failure list'');
          err = (\<lambda>code exitStatus stage. (newUserError code exitStatus stage (Some cause) (recoveryRemediation m))\<lparr>
            ue_ResourcesChanged := m_ResourcesChanged m, ue_RunID := m_RunID m, ue_LogLocation := path_string (o_LogPath managed)\<rparr>) in
       if m_BenchmarkOutcome m = OutcomeSucceeded \<and> m_CleanupOutcome m = OutcomeFailed then
         oc\<lparr>ro_Error := Some (err ''TB_CLEANUP_FAILED'' ExitRunFailed ''cleanup'')\<rparr>
       else if errors_Is cause DeadlineExceeded then
         oc\<lparr>ro_Status := StatusFailed, ro_Message := ''run stopped at the configured duration limit; recoverable state was saved'',
            ro_Error := Some (err ''TB_DURATION_LIMIT'' ExitRunFailed ''run'')\<rparr>
       else if errors_Is cause Canceled then oc\<lparr>ro_Error := Some (err ''TB_INTERRUPTED'' ExitInterrupted ''run'')\<rparr>
       else oc\<lparr>ro_Error := Some (err ''TB_RUN_FAILED'' ExitRunFailed ''run'')\<rparr>)"

section \<open>Preflight and confirmation\<close>

definition runDoctorHint :: string where
  "runDoctorHint = ''run doctor --remote, repair the reported prerequisite, and retry''"

definition preflightFailureDetail :: "PreflightReport option \<Rightarrow> string \<times> go_error" where
  "preflightFailureDetail ro = (case ro of None \<Rightarrow> (runDoctorHint, ErrText ''remote preflight returned no report'')
   | Some report \<Rightarrow>
      (let failed = filter (\<lambda>c. ck_Status c = CheckFailed) (pf_Checks report);
           causes = map (\<lambda>c. ck_Name c @ '': '' @ orElse (ck_Detail c) ''check failed'') failed;
           remediations = filter (\<lambda>r. r \<noteq> []) (map ck_Remediation failed) in
       (JoinStr ''; '' (if remediations = [] then [runDoctorHint] else remediations),
        ErrText (JoinStr ''; '' (if causes = [] then [''remote preflight did not report a ready state''] else causes)))))"

definition remotePreflightFailure :: "PreflightReport option \<Rightarrow> string \<Rightarrow> commandOutcome option" where
  "remotePreflightFailure ro runID = (case ro of
     Some report \<Rightarrow> if pf_Ready report then None
       else (case preflightFailureDetail ro of (remediation, cause) \<Rightarrow> Some (forRun runID (commandFailure ''TB_PREREQUISITE'' ExitPrerequisite ''preflight'' cause remediation)))
   | None \<Rightarrow> (case preflightFailureDetail ro of (remediation, cause) \<Rightarrow> Some (forRun runID (commandFailure ''TB_PREREQUISITE'' ExitPrerequisite ''preflight'' cause remediation))))"

datatype answer = Approved | Declined | Unreadable go_error

text \<open>The answer to a prompt, after the line break that follows it; an end of file ends the line.\<close>

definition readAnswer :: "string \<times> go_error option \<Rightarrow> answer" where
  "readAnswer line = (let answer = ToLower (TrimSpace (fst line)) in
     case snd line of
       Some e \<Rightarrow> if \<not> errors_Is e EOF then Unreadable e else if answer \<noteq> ''y'' \<and> answer \<noteq> ''yes'' then Declined else Approved
     | None \<Rightarrow> if answer \<noteq> ''y'' \<and> answer \<noteq> ''yes'' then Declined else Approved)"

definition declined :: "string \<Rightarrow> string \<Rightarrow> commandOutcome" where
  "declined what remediation = commandFailure ''TB_DECLINED'' ExitRefused ''confirmation'' (ErrText (''user declined '' @ what @ '' confirmation'')) remediation"

text \<open>The confirmation of a run is refused when it cannot be written; \<open>None\<close> is the approval.\<close>

definition confirmRun :: "('c, 'm, 'd) Command \<Rightarrow> lworld CommandOutput \<Rightarrow> Plan \<Rightarrow> Config \<Rightarrow> Decision \<Rightarrow> lworld \<Rightarrow> commandOutcome option \<times> lworld" where
  "confirmRun cm out localPlan cfg decision w =
    (if c_Yes cfg then (None, w)
     else case WriteConfirmation (co_required out) (Some localPlan) (Some cfg) decision w of
       (Some e, w1) \<Rightarrow> (Some (commandFailure ''TB_CONFIRMATION'' ExitRefused ''confirmation'' (Wrapf ''write confirmation: '' e [])
          ''verify the terminal is writable and retry''), w1)
     | (None, w1) \<Rightarrow> (let w2 = snd (co_required out newline w1) in
         case readAnswer (cm_stdin cm) of
           Unreadable e \<Rightarrow> (Some (commandFailure ''TB_CONFIRMATION'' ExitRefused ''confirmation'' (Wrapf ''read confirmation: '' e [])
              ''retry from an interactive terminal or use --yes with an explicit --max-cost-usd''), w2)
         | Declined \<Rightarrow> (Some (declined ''execution'' ''review the plan and rerun only when the bounded work is approved''), w2)
         | Approved \<Rightarrow> (None, w2)))"

text \<open>The prompts of resume and cleanup are written without a check.\<close>

definition confirmRecovery :: "('c, 'm, 'd) Command \<Rightarrow> lworld CommandOutput \<Rightarrow> bool \<Rightarrow> string \<Rightarrow> string \<Rightarrow> string list \<Rightarrow> string \<Rightarrow>
    lworld \<Rightarrow> commandOutcome option \<times> lworld" where
  "confirmRecovery cm out approved command runID texts remediation w =
    (if approved then (None, w)
     else let w1 = fold (\<lambda>t v. snd (co_required out t v)) (texts @ [newline]) w in
       case readAnswer (cm_stdin cm) of
         Unreadable e \<Rightarrow> (Some (recoveryFailure command runID (Wrapf ''read confirmation: '' e [])), w1)
       | Declined \<Rightarrow> (Some (forRun runID (declined command remediation)), w1)
       | Approved \<Rightarrow> (None, w1))"

section \<open>run\<close>

definition guardrailFailure :: "Decision \<Rightarrow> commandOutcome" where
  "guardrailFailure decision = commandFailure ''TB_SAFETY_LIMIT'' ExitRefused ''guardrails''
     (ErrText (JoinStr ''; '' (map (\<lambda>v. v_Code v @ '': '' @ v_Message v) (dc_Violations decision))))
     (JoinStr ''; '' (map v_Remediation (dc_Violations decision)))"

definition manifestCloudIdentity :: "('c, 'm, 'd) Command \<Rightarrow> PreflightReport \<Rightarrow> Config \<Rightarrow> CloudIdentity" where
  "manifestCloudIdentity cm report cfg = (let i = pf_Identity report in
     \<lparr>ci_Account = ri_Account i, ci_Project = (if cm_compiledProviderName cm \<in> {''gcp'', ''gke''} then c_GCPProject cfg else ri_Project i),
      ci_Subscription = ri_Subscription i\<rparr>)"

text \<open>\<^verbatim>\<open>newRuntime\<close> of the default dependencies: the orchestrator for a configuration, with the provider that is compiled in.\<close>

definition newRuntime :: "('c, 'm, 'd) Command \<Rightarrow> Config \<Rightarrow> go_error + ('c, 'm, 'd) managed" where
  "newRuntime cm cfg = map_sum id (\<lambda>ps. (cm_Orchestrator cm)\<lparr>or_cfg := cfg, or_providers := ps\<rparr>)
     (New (cm_KubernetesBuild cm) (cm_PulumiToken cm) (cm_PulumiLogin cm) cfg (Some (compiledProviderFactory cm)))"

definition executeCommand :: "('c, 'm, 'd) Command \<Rightarrow> Config \<Rightarrow> gotime \<Rightarrow> ExecuteFunc" where
  "executeCommand cm cfg t recorder w =
    (case executeWithRecorder (cm_parseTime cm) (cm_formatTime cm) (newRuntime cm) t recorder cfg (systemWith cm w) of (res, y) \<Rightarrow> (res, y_store y))"

definition clockNow :: "lworld \<Rightarrow> gotime" where
  "clockNow w = w_clock w (w_ticks w)"

definition runRequest :: "('c, 'm, 'd) Command \<Rightarrow> string list \<Rightarrow> PreflightReport \<Rightarrow> Plan \<Rightarrow> Config \<Rightarrow> string \<Rightarrow> LifecycleRequest" where
  "runRequest cm args report localPlan cfg effectiveConfig =
    (let binary = binaryNameForProvider (cm_compiledProviderName cm) in
     \<lparr>lr_CommandLine = [binary, ''run''] @ args,
      lr_Binary = \<lparr>bi_Name = binary, bi_Version = bd_Version (cm_Build cm), bi_Commit = bd_Commit (cm_Build cm), bi_BuildDate = bd_Date (cm_Build cm)\<rparr>,
      lr_Identity = manifestCloudIdentity cm report cfg, lr_Plan = Some localPlan, lr_EffectiveConfigYAML = effectiveConfig,
      lr_Images = [\<lparr>ii_Name = ''bench'', ii_Value = c_BenchImage cfg, ii_Digest = []\<rparr>, \<lparr>ii_Name = ''tailscale'', ii_Value = c_TSImage cfg, ii_Digest = []\<rparr>],
      lr_Execute = Some (\<lambda>recorder w. executeCommand cm cfg (clockNow w) recorder w)\<rparr>)"

definition managerFor :: "('c, 'm, 'd) Command \<Rightarrow> Store \<Rightarrow> Manager" where
  "managerFor cm store = \<lparr>mg_Store = Some store, mg_NewRunID = cm_newRunID cm\<rparr>"

definition startRun :: "('c, 'm, 'd) Command \<Rightarrow> string list \<Rightarrow> PreflightReport \<Rightarrow> Plan \<Rightarrow> Config \<Rightarrow> lworld \<Rightarrow> commandOutcome \<times> lworld" where
  "startRun cm args report localPlan cfg w =
    (let failed = commandFailure ''TB_RUN_STATE'' ExitRunFailed ''run-state'' in
     case runsStore cm of Inl e \<Rightarrow> (failed (Wrapf ''resolve working directory: '' e []) ''choose a writable working directory and retry'', w)
     | Inr store \<Rightarrow> (case MarshalRedacted (cm_marshal cm) (Some cfg) of
         Inl e \<Rightarrow> (failed e ''fix the effective configuration before starting a recoverable run'', w)
       | Inr effectiveConfig \<Rightarrow>
         (case Lifecycle.Run (cm_encodePlan cm) (cm_sha256hex cm) (managerFor cm store) (runRequest cm args report localPlan cfg effectiveConfig) w of
           (Inl e, w1) \<Rightarrow> (failed e ''inspect .tailbench/runs, preserve any existing state, and retry'', w1)
         | (Inr managed, w1) \<Rightarrow> (managedRunOutcome managed, w1))))"

definition executionExecutor :: "('c, 'm, 'd) Command \<Rightarrow> commandExecutor" where
  "executionExecutor cm args out w = (case buildLocalPlan cm args w of
     (Inl oc, w1) \<Rightarrow> (oc, w1)
   | (Inr (cfg, localPlan), w1) \<Rightarrow> (let decision = Check (Some localPlan) (Some cfg) in
       if \<not> dc_Allowed decision then (guardrailFailure decision, w1)
       else case parseExecutionConfig cm args w1 of
         (Inl (Inl userErr), w2) \<Rightarrow> (failedWith userErr, w2)
       | (Inl (Inr e), w2) \<Rightarrow> (configurationFailure ''fix the named flag or configuration path and rerun'' e, w2)
       | (Inr execConfig, w2) \<Rightarrow> (let missing = missingRunPrerequisites execConfig in
           if missing \<noteq> [] then (prerequisiteFailure missing (''set the required values before running: '' @ JoinStr '', '' missing), w2)
           else case confirmRun cm out localPlan execConfig decision w2 of
             (Some oc, w3) \<Rightarrow> (oc, w3)
           | (None, w3) \<Rightarrow> (case runRemotePreflight cm execConfig True w3 of (report, w4) \<Rightarrow>
               (case remotePreflightFailure (Some report) [] of Some oc \<Rightarrow> (oc, w4)
               | None \<Rightarrow> startRun cm args report localPlan execConfig w4)))))"

end
