(* ===== verification/Cmd_Recover.thy ===== *)
theory Cmd_Recover
  imports Cmd_Exec
begin

text \<open>
  The recovery commands (cmd/tailbench/main.go): resume and cleanup, the removal of recorded Pulumi locks, the cleanup
  of the resources a manifest names, and the program that chooses among all commands. A deadline on a context is part
  of what the cloud and the machines answer.
\<close>

section \<open>Steps that may stop with an outcome\<close>

type_synonym 'a step = "lworld \<Rightarrow> (commandOutcome + 'a) \<times> lworld"

definition goOn :: "'a \<Rightarrow> 'a step" where
  "goOn x w = (Inr x, w)"

definition stopWith :: "commandOutcome \<Rightarrow> 'a step" where
  "stopWith oc w = (Inl oc, w)"

definition andThen :: "'a step \<Rightarrow> ('a \<Rightarrow> 'b step) \<Rightarrow> 'b step" where
  "andThen m f w = (case m w of (Inl oc, w1) \<Rightarrow> (Inl oc, w1) | (Inr x, w1) \<Rightarrow> f x w1)"

definition refuseIf :: "bool \<Rightarrow> commandOutcome \<Rightarrow> unit step" where
  "refuseIf c oc = (if c then stopWith oc else goOn ())"

definition orRecovery :: "string \<Rightarrow> string \<Rightarrow> 'a lio \<Rightarrow> 'a step" where
  "orRecovery command runID m w = (case m w of (Inl e, w1) \<Rightarrow> (Inl (recoveryFailure command runID e), w1) | (Inr x, w1) \<Rightarrow> (Inr x, w1))"

definition orRecoveryPure :: "string \<Rightarrow> string \<Rightarrow> go_error + 'a \<Rightarrow> 'a step" where
  "orRecoveryPure command runID r = orRecovery command runID (\<lambda>w. (r, w))"

definition unlessStopped :: "(lworld \<Rightarrow> commandOutcome option \<times> lworld) \<Rightarrow> unit step" where
  "unlessStopped m w = (case m w of (Some oc, w1) \<Rightarrow> (Inl oc, w1) | (None, w1) \<Rightarrow> (Inr (), w1))"

definition settle :: "commandOutcome step \<Rightarrow> lworld \<Rightarrow> commandOutcome \<times> lworld" where
  "settle m w = (case m w of (Inl oc, w1) \<Rightarrow> (oc, w1) | (Inr oc, w1) \<Rightarrow> (oc, w1))"

section \<open>Arguments and selections\<close>

definition recoveryArg :: "string \<Rightarrow> string \<Rightarrow> string \<times> bool \<times> bool \<Rightarrow> go_error + (string \<times> bool \<times> bool)" where
  "recoveryArg command arg = (\<lambda>(runID, approved, recoverLocks).
     if arg \<in> {''--yes'', ''--yes=true''} then Inr (runID, True, recoverLocks)
     else if arg = ''--yes=false'' then Inr (runID, False, recoverLocks)
     else if arg \<in> {''--recover-pulumi-locks'', ''--recover-pulumi-locks=true''} then
       (if command \<noteq> ''cleanup'' then Inl (ErrText ''--recover-pulumi-locks is only valid with cleanup'')
        else Inr (runID, approved, True))
     else if arg = ''--recover-pulumi-locks=false'' then Inr (runID, approved, False)
     else if HasPrefix arg ''-'' then Inl (ErrText (''unknown '' @ command @ '' flag '' @ quoted arg))
     else if runID \<noteq> [] then Inl (ErrText (command @ '' requires exactly one run ID''))
     else Inr (arg, approved, recoverLocks))"

fun recoveryArgs :: "string \<Rightarrow> string list \<Rightarrow> string \<times> bool \<times> bool \<Rightarrow> go_error + (string \<times> bool \<times> bool)" where
  "recoveryArgs command [] acc = Inr acc"
| "recoveryArgs command (arg # args) acc = (case recoveryArg command arg acc of Inl e \<Rightarrow> Inl e | Inr acc1 \<Rightarrow> recoveryArgs command args acc1)"

definition parseRecoveryArgs :: "string \<Rightarrow> string list \<Rightarrow> go_error + (string \<times> bool \<times> bool)" where
  "parseRecoveryArgs command args = (case recoveryArgs command args ([], False, False) of
     Inl e \<Rightarrow> Inl e
   | Inr (runID, flags) \<Rightarrow> if runID = [] then Inl (ErrText (command @ '' requires a run ID'')) else Inr (runID, flags))"

definition sortedSet :: "string list \<Rightarrow> string list" where
  "sortedSet xs = sort (remdups xs)"

definition recordedStackNames :: "Manifest \<Rightarrow> string list" where
  "recordedStackNames m = sortedSet (map r_StackName
     (filter (\<lambda>r. r_StackName r \<noteq> [] \<and> r_CleanupOwner r = m_RunID m \<and> r_OwnershipCertain r) (m_Resources m)))"

definition providerStatePath :: "string \<Rightarrow> string \<Rightarrow> string" where
  "providerStatePath baseDir providerName = path_string (filepath_Join [path_string (Clean (TrimPrefix baseDir ''file://'')), providerName])"

definition recordedExecutionArgs :: "string list \<Rightarrow> string list" where
  "recordedExecutionArgs commandLine = (if 2 \<le> length commandLine \<and> commandLine ! 1 = ''run'' then drop 2 commandLine else drop 1 commandLine)"

definition resumable :: "WorkItem \<Rightarrow> bool" where
  "resumable w \<longleftrightarrow> wi_Status w \<in> {WorkPending, WorkRunning, WorkFailed}"

definition configureResumeSelection :: "(string \<Rightarrow> string) \<Rightarrow> Config \<Rightarrow> Manifest \<Rightarrow> go_error + (Config \<times> nat)" where
  "configureResumeSelection quoteMeta cfg m =
    (let unfinished = filter resumable (m_Work m);
         instanceTypes = remdups (filter (\<lambda>t. t \<noteq> []) (map wi_InstanceType unfinished));
         modes = remdups (filter (\<lambda>t. t \<noteq> []) (map wi_Mode unfinished)) in
     if instanceTypes = [] \<or> modes = [] then Inl (Wrapf [] (Sentinel ErrNotRecoverable) ('': '' @ m_RunID m))
     else Inr (cfg\<lparr>c_Family := ''all'', c_Filter := ''^(?:'' @ JoinStr ''|'' (sort (map quoteMeta instanceTypes)) @ '')$'',
       c_Modes := sort modes, c_MaxInstanceTypes := max (c_MaxInstanceTypes cfg) (int (length instanceTypes))\<rparr>, length instanceTypes))"

definition manifestHasUncleanTailnet :: "Manifest \<Rightarrow> bool" where
  "manifestHasUncleanTailnet m \<longleftrightarrow> list_ex (\<lambda>r. r_Kind r = ''tailnet'' \<and> r_Status r \<noteq> ResourceCleaned) (m_Resources m)"

section \<open>Loading a run\<close>

definition recoveryStore :: "('c, 'm, 'd) Command \<Rightarrow> string \<Rightarrow> string \<Rightarrow> Store step" where
  "recoveryStore cm command runID = orRecoveryPure command runID (runsStore cm)"

definition recoveryManifest :: "('c, 'm, 'd) Command \<Rightarrow> Store \<Rightarrow> string \<Rightarrow> string \<Rightarrow> Manifest step" where
  "recoveryManifest cm store command runID = andThen (orRecovery command runID (Load store runID)) (\<lambda>m.
     if m_Provider m \<noteq> cm_compiledProviderName cm then stopWith (recoveryFailure command runID
       (ErrText (''run provider '' @ quoted (m_Provider m) @ '' does not match compiled provider '' @ quoted (cm_compiledProviderName cm))))
     else goOn m)"

definition recordedConfig :: "('c, 'm, 'd) Command \<Rightarrow> Store \<Rightarrow> string \<Rightarrow> string \<Rightarrow> Config step" where
  "recordedConfig cm store command runID = andThen (orRecovery command runID (ReadEffectiveConfig store runID)) (\<lambda>data.
     orRecoveryPure command runID (ParseRedacted (cm_unmarshal cm) (ps_ParseDuration (pc_Parsers (cm_Process cm))) (pc_text (cm_Process cm) data)))"

text \<open>The configuration that the recorded arguments give now; its credentials complete the recorded one.\<close>

definition currentConfig :: "('c, 'm, 'd) Command \<Rightarrow> string \<Rightarrow> string \<Rightarrow> Manifest \<Rightarrow> Config step" where
  "currentConfig cm command runID m w = (case parseExecutionConfig cm (recordedExecutionArgs (m_CommandLine m)) w of
     (Inl (Inl userErr), w1) \<Rightarrow> (Inl (failedWith (userErr\<lparr>ue_RunID := runID\<rparr>)), w1)
   | (Inl (Inr e), w1) \<Rightarrow> (Inl (recoveryFailure command runID (loadCause e)), w1)
   | (Inr cfg, w1) \<Rightarrow> (Inr cfg, w1))"

definition requireValues :: "string \<Rightarrow> string \<Rightarrow> string list \<Rightarrow> unit step" where
  "requireValues runID doing missing = refuseIf (missing \<noteq> [])
     (forRun runID (prerequisiteFailure missing (''set the required values before '' @ doing @ '': '' @ JoinStr '', '' missing)))"

definition requireReady :: "('c, 'm, 'd) Command \<Rightarrow> Config \<Rightarrow> bool \<Rightarrow> string \<Rightarrow> unit step" where
  "requireReady cm cfg checkTailscale runID = unlessStopped (\<lambda>w. case runRemotePreflight cm cfg checkTailscale w of
     (report, w1) \<Rightarrow> (remotePreflightFailure (Some report) runID, w1))"

section \<open>resume\<close>

definition resumeConfig :: "Config \<Rightarrow> Config \<Rightarrow> Config" where
  "resumeConfig recorded current = recorded\<lparr>c_OAuthClientID := c_OAuthClientID current, c_OAuthClientSecret := c_OAuthClientSecret current,
     c_AzureSSHPubKey := c_AzureSSHPubKey current, c_Yes := True, c_DryRun := False\<rparr>"

definition resumePrompt :: "string \<Rightarrow> Manifest \<Rightarrow> nat \<Rightarrow> Config \<Rightarrow> string" where
  "resumePrompt runID m unfinished cfg = ''TAILBENCH RESUME CONFIRMATION'' @ newline @ ''run ID: '' @ runID @ newline @ ''provider: '' @ m_Provider m @ newline
     @ ''unfinished work: '' @ string_of_nat unfinished @ newline @ ''duration limit: '' @ Duration_String (c_MaxDuration cfg) @ newline
     @ ''cleanup policy: '' @ c_CleanupPolicy cfg @ newline @ ''Proceed? [y/N]: ''"

definition resumeRun :: "('c, 'm, 'd) Command \<Rightarrow> Store \<Rightarrow> string \<Rightarrow> Config \<Rightarrow> commandOutcome step" where
  "resumeRun cm store runID cfg = andThen (orRecovery ''resume'' runID (Resume (managerFor cm store) runID
       (Some (\<lambda>recorder _ w. executeCommand cm cfg (clockNow w) recorder w)))) (\<lambda>managed. goOn (managedRunOutcome managed))"

definition resumeExecutor :: "('c, 'm, 'd) Command \<Rightarrow> commandExecutor" where
  "resumeExecutor cm args out = (case parseRecoveryArgs ''resume'' args of
     Inl e \<Rightarrow> Pair (commandFailure ''TB_USAGE'' ExitUsage ''resume'' e ''use resume RUN_ID [--yes]'')
   | Inr (runID, approved, _) \<Rightarrow> settle (
       andThen (recoveryStore cm ''resume'' runID) (\<lambda>store.
       andThen (recoveryManifest cm store ''resume'' runID) (\<lambda>m.
       andThen (recordedConfig cm store ''resume'' runID) (\<lambda>recorded.
       andThen (currentConfig cm ''resume'' runID m) (\<lambda>current.
       let cfg0 = resumeConfig recorded current in
       andThen (requireValues runID ''resuming'' (missingRunPrerequisites cfg0)) (\<lambda>_.
       andThen (orRecoveryPure ''resume'' runID (configureResumeSelection (cm_QuoteMeta cm) cfg0 m)) (\<lambda>(cfg, unfinished).
       andThen (unlessStopped (confirmRecovery cm out approved ''resume'' runID [resumePrompt runID m unfinished cfg]
         ''inspect status and rerun resume only when the unfinished work is approved'')) (\<lambda>_.
       andThen (requireReady cm cfg True runID) (\<lambda>_. resumeRun cm store runID cfg))))))))))"

section \<open>Pulumi locks\<close>

definition lockFailure :: "go_error \<Rightarrow> Failure list" where
  "lockFailure e = [zeroFailure\<lparr>f_Code := ''pulumi-lock-recovery'', f_Stage := ''recover-pulumi-locks'', f_Class := class_text StateConflict, f_Message := error_text e\<rparr>]"

definition recoverRecordedPulumiLocks :: "PathEnv \<Rightarrow> Recorder \<Rightarrow> string \<Rightarrow> string list \<Rightarrow> bool \<Rightarrow> lworld \<Rightarrow> ExecutionResult \<times> lworld" where
  "recoverRecordedPulumiLocks env recorder providerStateDir lockPaths requested w =
    (if \<not> requested then (zeroExecution, w)
     else let message = (if lockPaths = [] then ''no matching recorded-stack Pulumi locks found''
            else ''remove recorded-stack Pulumi locks: '' @ JoinStr '', '' lockPaths) in
       case BeforeExternalStep recorder ''recover-pulumi-locks'' [] message w of
         (Inl e, w1) \<Rightarrow> (zeroExecution\<lparr>x_CleanupOutcome := OutcomeFailed, x_Err := Some e, x_Failures := lockFailure e\<rparr>, w1)
       | (Inr _, w1) \<Rightarrow> (case RemovePulumiLocks env providerStateDir lockPaths w1 of ((removed, removeErr), w2) \<Rightarrow>
           let finished = (if removed = [] then ''no matching recorded-stack Pulumi locks required removal'' else ''removed Pulumi locks: '' @ JoinStr '', '' removed);
               (status, text) = (case removeErr of None \<Rightarrow> (WorkSucceeded, finished) | Some e \<Rightarrow> (WorkFailed, error_text e)) in
           case AfterExternalStep recorder ''recover-pulumi-locks'' [] status text w2 of (r, w3) \<Rightarrow>
             let err = errors_Join [removeErr, errOf r]; res = zeroExecution\<lparr>x_ResourcesChanged := removed \<noteq> [], x_Err := err\<rparr> in
             (case err of None \<Rightarrow> res | Some e \<Rightarrow> res\<lparr>x_CleanupOutcome := OutcomeFailed, x_Failures := lockFailure e\<rparr>, w3)))"

section \<open>cleanup\<close>

text \<open>A line of progress; its write error is dropped.\<close>

definition report :: "lworld CommandOutput \<Rightarrow> string \<Rightarrow> ('c, 'm, 'd, lworld) system \<Rightarrow> ('c, 'm, 'd, lworld) system" where
  "report out text s = s\<lparr>y_store := snd (co_progress out (text @ newline) (y_store s))\<rparr>"

fun destroyTypes :: "lworld CommandOutput \<Rightarrow> ('c, 'm, 'd, lworld) system Provider \<Rightarrow> string list \<Rightarrow> go_error list \<Rightarrow>
    ('c, 'm, 'd, lworld) system \<Rightarrow> go_error list \<times> ('c, 'm, 'd, lworld) system" where
  "destroyTypes out p [] failures s = (failures, s)"
| "destroyTypes out p (t # ts) failures s = (case pv_DestroyPair p t (report out (''[cleanup] destroy '' @ t) s) of
     (None, s1) \<Rightarrow> destroyTypes out p ts failures s1
   | (Some e, s1) \<Rightarrow> destroyTypes out p ts (failures @ [Wrapf (''destroy '' @ t @ '': '') e []]) s1)"

definition teardownManaged :: "lworld CommandOutput \<Rightarrow> ('c, 'm, 'd, lworld) system Provider \<Rightarrow> go_error list \<Rightarrow>
    ('c, 'm, 'd, lworld) system \<Rightarrow> go_error list \<times> ('c, 'm, 'd, lworld) system" where
  "teardownManaged out p failures s = (if \<not> providerManagesNetworking p then (failures, s)
     else case pv_TeardownNetworking p (report out ''[cleanup] teardown networking'' s) of
       (None, s1) \<Rightarrow> (failures, s1) | (Some e, s1) \<Rightarrow> (failures @ [Wrapf ''teardown networking: '' e []], s1))"

fun deleteTailnets :: "lworld CommandOutput \<Rightarrow> ('c, 'm, 'd, lworld) system TailnetManager \<Rightarrow> Resource list \<Rightarrow> go_error list \<Rightarrow>
    ('c, 'm, 'd, lworld) system \<Rightarrow> go_error list \<times> ('c, 'm, 'd, lworld) system" where
  "deleteTailnets out tm [] failures s = (failures, s)"
| "deleteTailnets out tm (r # rs) failures s =
    (if r_Kind r \<noteq> ''tailnet'' then deleteTailnets out tm rs failures s
     else if r_ProviderID r = [] then deleteTailnets out tm rs
       (failures @ [ErrText (''tailnet resource '' @ quoted (r_ID r) @ '' has no DNS cleanup identifier'')]) s
     else case tm_DeleteTailnet tm (r_ProviderID r) (report out (''[cleanup] delete tailnet '' @ r_ProviderID r) s) of
       (None, s1) \<Rightarrow> deleteTailnets out tm rs failures s1
     | (Some e, s1) \<Rightarrow> deleteTailnets out tm rs (failures @ [Wrapf (''delete tailnet '' @ r_ProviderID r @ '': '') e []]) s1)"

definition plannedTypes :: "Manifest \<Rightarrow> string list" where
  "plannedTypes m = sortedSet (filter (\<lambda>t. t \<noteq> []) (map wi_InstanceType (m_Work m)))"

definition defaultCleanup :: "('c, 'm, 'd) Command \<Rightarrow> lworld CommandOutput \<Rightarrow> Config \<Rightarrow> Manifest \<Rightarrow> Resource list \<Rightarrow>
    ('c, 'm, 'd, lworld) system \<Rightarrow> ExecutionResult \<times> ('c, 'm, 'd, lworld) system" where
  "defaultCleanup cm out cfg m resources s =
    (let start = zeroExecution\<lparr>x_CleanupOutcome := OutcomeSucceeded, x_ResourcesChanged := resources \<noteq> []\<rparr> in
     if resources = [] then
       let e = ErrText ''manifest has no provider resource inventory with certain ownership'' in
       (start\<lparr>x_CleanupOutcome := OutcomeFailed, x_Err := Some e, x_Failures :=
          [zeroFailure\<lparr>f_Code := ''cleanup-ownership'', f_Stage := ''cleanup'', f_Class := class_text StateConflict, f_Message := error_text e\<rparr>]\<rparr>, s)
     else case compiledProviderFactory cm (m_Provider m) cfg of
       Inl e \<Rightarrow> (start\<lparr>x_CleanupOutcome := OutcomeFailed, x_Err := Some e\<rparr>, s)
     | Inr p \<Rightarrow>
       (case destroyTypes out p (plannedTypes m) [] s of (failures1, s1) \<Rightarrow>
       (case teardownManaged out p failures1 s1 of (failures2, s2) \<Rightarrow>
       (case deleteTailnets out (cm_Tailnet cm (c_OAuthClientID cfg) (c_OAuthClientSecret cfg) (c_Tag cfg)) resources failures2 s2 of (failures3, s3) \<Rightarrow>
         (case errors_Join (map Some failures3) of None \<Rightarrow> start
          | Some e \<Rightarrow> start\<lparr>x_CleanupOutcome := OutcomeFailed, x_Err := Some e, x_Failures :=
              [zeroFailure\<lparr>f_Code := ''cleanup-failure'', f_Stage := ''cleanup'', f_Class := class_text CleanupFailure, f_Message := error_text e\<rparr>]\<rparr>, s3)))))"

definition appendSlice :: "'a list option \<Rightarrow> 'a list option \<Rightarrow> 'a list option" where
  "appendSlice a b = (case b of None \<Rightarrow> a | Some [] \<Rightarrow> a | Some ys \<Rightarrow> Some ((case a of None \<Rightarrow> [] | Some xs \<Rightarrow> xs) @ ys))"

definition mergeCleanup :: "ExecutionResult \<Rightarrow> ExecutionResult \<Rightarrow> ExecutionResult" where
  "mergeCleanup res cleanupRes = (let err = errors_Join [x_Err res, x_Err cleanupRes] in
     res\<lparr>x_BenchmarkOutcome := x_BenchmarkOutcome cleanupRes,
       x_CleanupOutcome := (if err \<noteq> None then OutcomeFailed else if x_CleanupOutcome cleanupRes \<noteq> OutcomeUnset then x_CleanupOutcome cleanupRes else x_CleanupOutcome res),
       x_ResourcesChanged := x_ResourcesChanged res \<or> x_ResourcesChanged cleanupRes,
       x_Resources := appendSlice (x_Resources res) (x_Resources cleanupRes), x_Work := appendSlice (x_Work res) (x_Work cleanupRes),
       x_Failures := x_Failures res @ x_Failures cleanupRes, x_Err := err\<rparr>)"

definition cleanupFunc :: "('c, 'm, 'd) Command \<Rightarrow> lworld CommandOutput \<Rightarrow> Config \<Rightarrow> Manifest \<Rightarrow> string list \<Rightarrow> bool \<Rightarrow> CleanupExecuteFunc" where
  "cleanupFunc cm out cfg m lockPaths recoverLocks recorder resources w =
    (case recoverRecordedPulumiLocks (cm_PathEnv cm) recorder (providerStatePath (c_StateDir cfg) (m_Provider m)) lockPaths recoverLocks w of
       (res, w1) \<Rightarrow> (case defaultCleanup cm out cfg m resources (systemWith cm w1) of
         (cleanupRes, s) \<Rightarrow> (mergeCleanup res cleanupRes, y_store s)))"

definition uncertainResource :: "Manifest \<Rightarrow> string \<Rightarrow> Resource option" where
  "uncertainResource m runID = find (\<lambda>r. r_Status r \<noteq> ResourceCleaned \<and> (r_CleanupOwner r \<noteq> runID \<or> \<not> r_OwnershipCertain r)) (m_Resources m)"

definition requireOwnership :: "Manifest \<Rightarrow> string \<Rightarrow> unit step" where
  "requireOwnership m runID = (case uncertainResource m runID of None \<Rightarrow> goOn ()
     | Some r \<Rightarrow> stopWith (recoveryFailure ''cleanup'' runID (ErrText (''resource '' @ quoted (r_ID r) @ '' lacks certain cleanup ownership for run '' @ runID))))"

definition cleanupConfig :: "('c, 'm, 'd) Command \<Rightarrow> Store \<Rightarrow> string \<Rightarrow> Manifest \<Rightarrow> Config step" where
  "cleanupConfig cm store runID m = andThen (recordedConfig cm store ''cleanup'' runID) (\<lambda>recorded.
     let final = (\<lambda>cfg. cfg\<lparr>c_Yes := True, c_DryRun := False, c_RunID := runID\<rparr>) in
     if \<not> manifestHasUncleanTailnet m then goOn (final recorded)
     else andThen (currentConfig cm ''cleanup'' runID m) (\<lambda>current.
       goOn (final (recorded\<lparr>c_OAuthClientID := c_OAuthClientID current, c_OAuthClientSecret := c_OAuthClientSecret current\<rparr>))))"

definition recordedLocks :: "('c, 'm, 'd) Command \<Rightarrow> string \<Rightarrow> Manifest \<Rightarrow> Config \<Rightarrow> bool \<Rightarrow> string list step" where
  "recordedLocks cm runID m cfg recoverLocks = (if \<not> recoverLocks then goOn []
     else if recordedStackNames m = [] then stopWith (recoveryFailure ''cleanup'' runID (ErrText ''run manifest has no recorded Pulumi stack names''))
     else orRecovery ''cleanup'' runID (FindPulumiLocks (cm_PathEnv cm) (providerStatePath (c_StateDir cfg) (m_Provider m)) (recordedStackNames m)))"

definition cleanupPrompt :: "string \<Rightarrow> Manifest \<Rightarrow> bool \<Rightarrow> string list \<Rightarrow> string list" where
  "cleanupPrompt runID m recoverLocks lockPaths =
    [''TAILBENCH CLEANUP CONFIRMATION'' @ newline @ ''run ID: '' @ runID @ newline @ ''provider: '' @ m_Provider m @ newline
       @ ''tracked resources: '' @ string_of_nat (length (uncleanResources (m_Resources m))) @ newline]
    @ (if \<not> recoverLocks then []
       else if lockPaths = [] then [''Pulumi lock recovery: no matching recorded-stack locks found'' @ newline]
       else (''Pulumi lock recovery will remove:'' @ newline) # map (\<lambda>p. ''  - '' @ p @ newline) lockPaths)
    @ [''This action destroys resources owned by the named run.'' @ newline @ ''Proceed? [y/N]: '']"

definition cleanupRun :: "('c, 'm, 'd) Command \<Rightarrow> lworld CommandOutput \<Rightarrow> Store \<Rightarrow> string \<Rightarrow> Config \<Rightarrow> Manifest \<Rightarrow> string list \<Rightarrow> bool \<Rightarrow> commandOutcome step" where
  "cleanupRun cm out store runID cfg m lockPaths recoverLocks = andThen (orRecovery ''cleanup'' runID (Cleanup (managerFor cm store) runID
       (Some (cleanupFunc cm out cfg m lockPaths recoverLocks)))) (\<lambda>managed. goOn (managedRunOutcome managed))"

definition cleanupExecutor :: "('c, 'm, 'd) Command \<Rightarrow> commandExecutor" where
  "cleanupExecutor cm args out = (case parseRecoveryArgs ''cleanup'' args of
     Inl e \<Rightarrow> Pair (commandFailure ''TB_USAGE'' ExitUsage ''cleanup'' e ''use cleanup RUN_ID [--recover-pulumi-locks] [--yes]'')
   | Inr (runID, approved, recoverLocks) \<Rightarrow> settle (
       andThen (recoveryStore cm ''cleanup'' runID) (\<lambda>store.
       andThen (recoveryManifest cm store ''cleanup'' runID) (\<lambda>m.
       andThen (requireOwnership m runID) (\<lambda>_.
       andThen (cleanupConfig cm store runID m) (\<lambda>cfg.
       andThen (requireValues runID ''cleaning up'' (missingCleanupPrerequisites cfg (manifestHasUncleanTailnet m))) (\<lambda>_.
       andThen (recordedLocks cm runID m cfg recoverLocks) (\<lambda>lockPaths.
       andThen (unlessStopped (confirmRecovery cm out approved ''cleanup'' runID (cleanupPrompt runID m recoverLocks lockPaths)
         ''inspect status and rerun cleanup only for the intended run'')) (\<lambda>_.
       andThen (requireReady cm cfg (manifestHasUncleanTailnet m) runID) (\<lambda>_.
         cleanupRun cm out store runID cfg m lockPaths recoverLocks))))))))))"

section \<open>The program\<close>

definition application :: "('c, 'm, 'd) Command \<Rightarrow> (lworld, commandReport) Application" where
  "application cm = \<lparr>ap_Name = binaryNameForProvider (cm_compiledProviderName cm), ap_Provider = cm_compiledProviderName cm, ap_Build = cm_Build cm,
     ap_Execute = Some (executionExecutor cm),
     ap_Commands = [(''init'', initExecutor cm), (''plan'', planExecutor cm), (''doctor'', doctorExecutor cm), (''status'', runReportExecutor ''status'' cm),
       (''results'', runReportExecutor ''results'' cm), (''resume'', resumeExecutor cm), (''cleanup'', cleanupExecutor cm)],
     ap_SelectCommand = Some (selectConfiguredCommand cm)\<rparr>"

definition runWithDependencies :: "('c, 'm, 'd) Command \<Rightarrow> (lworld, commandReport) Terminal \<Rightarrow> string list \<Rightarrow> lworld \<Rightarrow> int \<times> lworld" where
  "runWithDependencies cm terminal args = Application_Run terminal (application cm) args"

end
