(* ===== verification/Cmd_Props.thy ===== *)
theory Cmd_Props
  imports Cmd_Recover Config_Props Cmd_Theorems
begin

text \<open>
  What the commands guarantee before they act: whatever is asked, printed and probed, no file changes until the
  guardrails, the approval and the remote preflight have all said yes, and what then runs is what was planned.
\<close>

section \<open>Calls that leave the files alone\<close>

definition leaves :: "('d world \<Rightarrow> 'a \<times> 'd world) \<Rightarrow> bool" where
  "leaves m \<longleftrightarrow> (\<forall>w. w_fs (snd (m w)) = w_fs w)"

named_theorems leave \<open>calls that leave the files alone\<close>

lemma leavesD: "leaves m \<Longrightarrow> m w = (r, w') \<Longrightarrow> w_fs w' = w_fs w"
  unfolding leaves_def by (metis snd_conv)

lemma leavesI: "(\<And>w r w'. m w = (r, w') \<Longrightarrow> w_fs w' = w_fs w) \<Longrightarrow> leaves m"
  unfolding leaves_def using prod.collapse by metis

lemma leaves_value [leave]: "leaves (\<lambda>w. (x, w))" "leaves (Pair x)"
  by (simp_all add: leaves_def)

lemma leaves_bind: "leaves m \<Longrightarrow> (\<And>x. leaves (f x)) \<Longrightarrow> leaves (\<lambda>w. case m w of (x, w1) \<Rightarrow> f x w1)"
  by (simp add: leaves_def split: prod.split) (metis snd_conv)

lemma leaves_touches: "touches {} m \<Longrightarrow> leaves m"
  by (auto simp: touches_def leaves_def evolves_def)

lemma leaves_read [leave]: "leaves (os_ReadFile p)" "leaves (os_Stat p)" "leaves (Load s runID)" "leaves (ReadEffectiveConfig s runID)"
  by (auto intro!: leaves_touches touch simp: ReadEffectiveConfig_def readRunFile_def RunDirectory_def)

lemma leaves_homeKey [leave]: "leaves (homeKey pc home names)"
proof (rule leavesI)
  fix w r w'
  show "homeKey pc home names w = (r, w') \<Longrightarrow> w_fs w' = w_fs w"
    by (induction names arbitrary: w) (auto split: prod.splits sum.splits if_splits simp: Let_def dest: leavesD[OF leaves_read(1)])
qed

lemma leaves_readEnvFile [leave]: "leaves (readEnvFile pc p)"
  unfolding readEnvFile_def by (rule leaves_touches) (auto intro!: touch)

lemma leaves_sshKey [leave]: "leaves (sshKey pc f yc)"
proof -
  have key: "leaves (Go_OS.bind (mapErr g (os_ReadFile p)) (\<lambda>c. if k c = [] then raise e else ret (k c)))" for g p k e
    by (rule leaves_touches) (auto intro!: touch)
  have home: "leaves (\<lambda>w. case homeKey pc home names w of (k, w1) \<Rightarrow> (Inr k, w1))" for home names
    by (rule leavesI) (auto split: prod.splits dest: leavesD[OF leaves_homeKey] simp del: homeKey.simps)
  have none: "leaves (ret x)" for x by (simp add: leaves_def ret_def)
  show ?thesis
  proof (cases "yc_AzureSSHPubKeyFile yc = []")
    case True
    then show ?thesis unfolding sshKey_def by (cases "pc_Home pc") (simp_all add: none home del: homeKey.simps)
  next
    case False
    then show ?thesis unfolding sshKey_def Let_def using key by simp
  qed
qed

lemma leaves_parseArgs [leave]: "leaves (parseArgs pc p args options)"
  by (rule leavesI) (auto simp: parseArgs_def Let_def split: sum.splits prod.splits if_splits
      dest!: leavesD[OF leaves_read(1)] leavesD[OF leaves_readEnvFile] leavesD[OF leaves_sshKey])

lemma leaves_ParseArgs [leave]: "leaves (ParseArgs pc p args)" "leaves (ParseLocalArgs pc p args)"
  by (simp_all add: ParseArgs_def ParseLocalArgs_def leaves_parseArgs)

lemma leaves_parseExecutionConfig [leave]: "leaves (parseExecutionConfig cm args)"
  by (rule leavesI) (auto simp: parseExecutionConfig_def split: sum.splits prod.splits config_error.splits if_splits dest: leavesD[OF leaves_ParseArgs(1)])

lemma leaves_buildLocalPlan [leave]: "leaves (buildLocalPlan cm args)"
  by (rule leavesI) (auto simp: buildLocalPlan_def split: sum.splits prod.splits dest: leavesD[OF leaves_ParseArgs(2)])

lemma leaves_writeAll: "(\<And>t. leaves (d t)) \<Longrightarrow> leaves (writeAll d ts)"
proof (rule leavesI)
  fix w r w'
  assume d: "\<And>t. leaves (d t)"
  show "writeAll d ts w = (r, w') \<Longrightarrow> w_fs w' = w_fs w"
    by (induction ts arbitrary: w) (auto split: prod.splits option.splits dest: leavesD[OF d])
qed

section \<open>Commands that only observe\<close>

text \<open>What the commands print to, look for, run and ask changes no file.\<close>

definition observesOnly :: "('c, 'm, 'd) Command \<Rightarrow> lworld CommandOutput \<Rightarrow> bool" where
  "observesOnly cm out \<longleftrightarrow> (\<forall>t. leaves (co_required out t)) \<and> (\<forall>tool. leaves (cm_Finder cm tool)) \<and>
     (\<forall>name args. leaves (cm_Runner cm name args)) \<and> (\<forall>req. leaves (hc_Do (cm_Http cm) req))"

lemma leaves_checkTools: "(\<And>t. leaves (finder t)) \<Longrightarrow> leaves (checkTools finder ts r)"
proof (rule leavesI)
  fix w x w'
  assume f: "\<And>t. leaves (finder t)"
  show "checkTools finder ts r w = (x, w') \<Longrightarrow> w_fs w' = w_fs w"
    by (induction ts arbitrary: r w) (auto split: prod.splits sum.splits dest: leavesD[OF f])
qed

lemma leaves_CheckWithIdentity:
  assumes "\<And>name args. leaves (runner name args)"
  shows "leaves (CheckWithIdentity dj runner backend provider)"
proof -
  have a: "leaves (checkPulumiBackend dj runner backend)"
    by (rule leavesI) (auto simp: checkPulumiBackend_def Let_def split: prod.splits sum.splits option.splits if_splits dest: leavesD[OF assms])
  have b: "leaves (runRemoteCheck runner n x as d r)" for n x as d r
    by (rule leavesI) (auto simp: runRemoteCheck_def split: prod.splits sum.splits dest: leavesD[OF assms])
  show ?thesis
    by (rule leavesI) (auto simp: CheckWithIdentity_def split: prod.splits sum.splits if_splits dest!: leavesD[OF a] leavesD[OF b])
qed

lemma leaves_CheckTailscale:
  assumes "\<And>req. leaves (hc_Do c req)"
  shows "leaves (CheckTailscale c request)"
proof -
  have send: "leaves (sendRequest c req)" for req
    by (rule leavesI) (auto simp: sendRequest_def split: prod.splits sum.splits option.splits if_splits dest: leavesD[OF assms])
  have a: "leaves (checkAuth c request)"
    by (rule leavesI) (auto simp: checkAuth_def Let_def split: prod.splits sum.splits option.splits if_splits dest: leavesD[OF send])
  have b: "leaves (checkHTTPS c request token)" for token
    by (rule leavesI) (auto simp: checkHTTPS_def Let_def split: prod.splits sum.splits option.splits if_splits dest: leavesD[OF send])
  show ?thesis
    by (rule leavesI) (auto simp: CheckTailscale_def split: prod.splits dest!: leavesD[OF a] leavesD[OF b])
qed

lemma leaves_Doctor:
  assumes "\<And>t. leaves (rq_Finder q t)" "\<And>c p. rq_RemoteChecker q = Some c \<Longrightarrow> leaves (c p)" "\<And>c r. rq_TailscaleChecker q = Some c \<Longrightarrow> leaves (c r)"
  shows "leaves (Doctor q)"
proof -
  have a: "leaves (remoteChecks (rq_RemoteChecker q) p r)" for p r
    using assms(2) by (intro leavesI) (auto simp: remoteChecks_def split: option.splits prod.splits dest: leavesD)
  have b: "leaves (tailscaleChecks (rq_TailscaleChecker q) p r)" for p r
    using assms(3) by (intro leavesI) (auto simp: tailscaleChecks_def split: option.splits prod.splits dest: leavesD)
  show ?thesis
    by (rule leavesI) (auto simp: Doctor_def Let_def split: prod.splits if_splits
        dest!: leavesD[OF leaves_checkTools[OF assms(1)]] leavesD[OF a] leavesD[OF b])
qed

lemma leaves_runRemotePreflight: "observesOnly cm out \<Longrightarrow> leaves (runRemotePreflight cm cfg checkTailscale)"
  unfolding runRemotePreflight_def
  by (rule leaves_Doctor) (auto simp: observesOnly_def preflightRequest_def split: if_splits intro!: leaves_CheckWithIdentity leaves_CheckTailscale)

section \<open>The planned configuration and the executed one\<close>

lemma os_ReadFile_Inr: "os_ReadFile p w = (Inr c, w') \<Longrightarrow> w_fs w p = Some (Regular c)"
  by (auto simp: os_ReadFile_def syscall_def Let_def split: option.splits fault.splits node.splits)

text \<open>The fields that a run resolves and a plan does not.\<close>

definition resolvedFrom :: "Config \<Rightarrow> Config \<Rightarrow> Config" where
  "resolvedFrom e cfg = cfg\<lparr>c_OAuthClientID := c_OAuthClientID e, c_OAuthClientSecret := c_OAuthClientSecret e,
     c_AzureSSHPubKey := c_AzureSSHPubKey e, c_StateBackend := c_StateBackend e\<rparr>"

lemma resolvedFrom_withDefaults: "resolvedFrom (withDefaults p f a) (withDefaults p f b) = withDefaults p f (resolvedFrom a b)"
  by (simp add: resolvedFrom_def withDefaults_def Let_def)

lemma checkedConfig_shape:
  assumes "checkedConfig pc options f yc env = Inr cfg"
  obtains clientID clientSecret backend where "cfg = configOf yc f (pc_Getwd pc) clientID clientSecret (projr (costLimit yc f))
      (projr (durationLimit (pc_Parsers pc) yc f))
      (projr (countLimit ''max_instance_types'' ''max-instance-types'' (yc_MaxInstanceTypes yc) DefaultMaxInstanceTypes (fg_maxInstanceTypes f) f))
      (projr (countLimit ''max_concurrent_resources'' ''max-concurrent-resources'' (yc_MaxConcurrentResources yc) DefaultMaxConcurrentResources (fg_maxConcurrentResources f) f))
      (projr (chosenPolicy yc f)) backend"
  using assms unfolding checkedConfig_def Let_def
proof (elim resultE, goal_cases)
  case (1 cost d n k p b)
  show ?case by (rule 1(1), unfold 1(2-6) sum.sel, rule 1(8)[THEN Inr_inject, symmetric])
qed

lemma checkedConfig_agrees:
  assumes "checkedConfig pc o1 f yc e1 = Inr c1" "checkedConfig pc o2 f yc e2 = Inr c2"
  shows "c1\<lparr>c_AzureSSHPubKey := k\<rparr> = resolvedFrom (c1\<lparr>c_AzureSSHPubKey := k\<rparr>) c2"
proof -
  have "(configOf yc f wd i1 s1 cost d t n pol b1)\<lparr>c_AzureSSHPubKey := k\<rparr> =
      resolvedFrom ((configOf yc f wd i1 s1 cost d t n pol b1)\<lparr>c_AzureSSHPubKey := k\<rparr>) (configOf yc f wd i2 s2 cost d t n pol b2)"
    for wd i1 s1 i2 s2 cost d t n pol b1 b2
    unfolding configOf_def resolvedFrom_def Config.simps by (rule refl)
  then show ?thesis
    using checkedConfig_shape[OF assms(1)] checkedConfig_shape[OF assms(2)] by metis
qed

lemma ParseArgs_agrees:
  assumes "ParseArgs pc p args w1 = (Inr e, w2)" "ParseLocalArgs pc p args w = (Inr cfg, w3)" "w_fs w1 = w_fs w"
  shows "e = resolvedFrom e cfg"
proof -
  note a = assms(1)[unfolded ParseArgs_def] and b = assms(2)[unfolded ParseLocalArgs_def]
  obtain f c1 v1 yc1 env1 v2 cfg1 key1 where r: "parseFlags (pc_Parsers pc) args defaultFlags = Inr f"
      "os_ReadFile (Clean (fg_config f)) w1 = (Inr c1, v1)" "pc_decodeConfig pc c1 = Inr yc1"
      "checkedConfig pc \<lparr>op_resolveSecrets = True, op_loadSSHKeys = True\<rparr> f yc1 env1 = Inr cfg1" "e = withDefaults p f (cfg1\<lparr>c_AzureSSHPubKey := key1\<rparr>)"
    by (rule parseArgs_cases[OF a]) (rule that; assumption)
  obtain f' c2 v1' yc2 env2 v2' cfg2 key2 where l: "parseFlags (pc_Parsers pc) args defaultFlags = Inr f'"
      "os_ReadFile (Clean (fg_config f')) w = (Inr c2, v1')" "pc_decodeConfig pc c2 = Inr yc2"
      "checkedConfig pc \<lparr>op_resolveSecrets = False, op_loadSSHKeys = False\<rparr> f' yc2 env2 = Inr cfg2" "cfg = withDefaults p f' (cfg2\<lparr>c_AzureSSHPubKey := key2\<rparr>)"
    by (rule parseArgs_cases[OF b]) (rule that; assumption)
  have f: "f' = f" using r(1) l(1) by simp
  with os_ReadFile_Inr[OF r(2)] os_ReadFile_Inr[OF l(2)] assms(3) have "c2 = c1" by simp
  with r(3) l(3) have yc: "yc2 = yc1" by simp
  from checkedConfig_agrees[OF r(4) l(4)[unfolded f yc], of key1]
  have "cfg1\<lparr>c_AzureSSHPubKey := key1\<rparr> = resolvedFrom (cfg1\<lparr>c_AzureSSHPubKey := key1\<rparr>) (cfg2\<lparr>c_AzureSSHPubKey := key2\<rparr>)"
    by (simp add: resolvedFrom_def)
  then show ?thesis unfolding r(5) l(5) f resolvedFrom_withDefaults by (rule arg_cong)
qed

section \<open>Refusals\<close>

definition refusal :: "commandOutcome \<Rightarrow> bool" where
  "refusal oc \<longleftrightarrow> \<not> ro_Started oc \<and> \<not> ro_ResourcesChanged oc \<and> ro_Error oc \<noteq> None"

lemma refusals [simp]: "refusal (failedWith e)" "refusal (commandFailure code st stage cause remediation)" "refusal (recoveryFailure command runID cause)"
    "refusal (configurationFailure remediation ce)" "refusal (prerequisiteFailure missing remediation)" "refusal (declined what remediation)"
    "refusal (guardrailFailure decision)"
  by (simp_all add: refusal_def failedWith_def zeroOutcome_def commandFailure_def recoveryFailure_def forRun_def configurationFailure_def
      prerequisiteFailure_def declined_def guardrailFailure_def)

lemma refusal_forRun [simp]: "refusal (forRun runID oc) = refusal oc"
  by (simp add: refusal_def forRun_def)

lemma refusals_of_parts:
  "remotePreflightFailure ro runID = Some oc \<Longrightarrow> refusal oc"
  "confirmRun cm out localPlan cfg decision w = (Some oc, w') \<Longrightarrow> refusal oc"
  "confirmRecovery cm out approved command runID texts remediation w = (Some oc, w') \<Longrightarrow> refusal oc"
  "buildLocalPlan cm args w = (Inl oc, w') \<Longrightarrow> refusal oc"
  by (auto simp: remotePreflightFailure_def confirmRun_def confirmRecovery_def buildLocalPlan_def Let_def
      split: option.splits if_splits prod.splits answer.splits sum.splits)

lemma leaves_confirmRun:
  assumes "observesOnly cm out"
  shows "leaves (confirmRun cm out localPlan cfg decision)"
proof -
  have out: "leaves (co_required out t)" for t using assms by (simp add: observesOnly_def)
  have shown: "leaves (WriteConfirmation (co_required out) po co decision)" for po co
    by (rule leavesI) (auto simp: WriteConfirmation_def split: option.splits dest: leavesD[OF leaves_writeAll[OF out]])
  show ?thesis
    using out by (intro leavesI) (auto simp: confirmRun_def Let_def leaves_def split: if_splits prod.splits option.splits answer.splits dest!: leavesD[OF shown])
qed

section \<open>An example\<close>

text \<open>A command that finds every tool, whose cloud and tailnet answer nothing, and whose user says no.\<close>

definition demoProcess :: "FinalSummary document Process" where
  "demoProcess = \<lparr>pc_LookupEnv = (\<lambda>_. None), pc_Getwd = ''/w'', pc_Home = Inl (ErrText ''no home''), pc_decodeConfig = (\<lambda>_. Inr (emptyDocument\<lparr>yc_StateBackend := []\<rparr>)),
     pc_text = (\<lambda>_. []), pc_Parsers = pc_Parsers exampleProcess\<rparr>"

definition demoCommand :: "(string list, unit, unit) Command" where
  "demoCommand = \<lparr>cm_compiledProviderName = ''aws'', cm_Build = \<lparr>bd_Version = [], bd_Commit = [], bd_Date = []\<rparr>, cm_Process = demoProcess,
     cm_PathEnv = \<lparr>pe_Getwd = Inr (True, [''w'']), pe_Type = (\<lambda>_. RegularFile), pe_Walk = (\<lambda>_. [])\<rparr>,
     cm_Compile = (\<lambda>_. Inr (\<lambda>_. True)), cm_QuoteMeta = (\<lambda>t. t), cm_Prices = sampleDataset, cm_stdin = (''n'', None),
     cm_Orchestrator = demoOrchestrator demoManifestRecorder True, cm_newCompiledProvider = (\<lambda>_. demoProvider True),
     cm_Tailnet = (\<lambda>_ _ _. or_tailnet (demoOrchestrator demoManifestRecorder True)), cm_KubernetesBuild = False, cm_PulumiToken = [], cm_PulumiLogin = False,
     cm_Finder = (\<lambda>_ w. (Inr ''/bin/tool'', w)), cm_Runner = (\<lambda>_ _ w. (Inr [], w)),
     cm_Decoders = \<lparr>dj_URL = (\<lambda>_. Inl (Sentinel EOF)), dj_Account = (\<lambda>_. Inl (Sentinel EOF)), dj_ParseURL = (\<lambda>_. Inl (Sentinel EOF))\<rparr>,
     cm_Http = \<lparr>hc_Build = (\<lambda>_. None), hc_Do = (\<lambda>_ w. (Inl (Sentinel EOF), w)), hc_BaseURL = [], hc_AccessToken = Inr, hc_Settings = (\<lambda>_. Inl (Sentinel EOF)),
       hc_Bool = (\<lambda>_. Inl (Sentinel EOF))\<rparr>,
     cm_newRunID = ret exampleID, cm_parseTime = (\<lambda>_. None), cm_formatTime = (\<lambda>_. []), cm_encodePlan = (\<lambda>_. Inr []), cm_sha256hex = (\<lambda>t. t),
     cm_marshal = (\<lambda>_. Inr []), cm_unmarshal = (\<lambda>_. Inl (Sentinel EOF)),
     cm_System = \<lparr>y_cloud = [], y_machines = (), y_disk = deadDisk 0, y_store = worldOf createdRuns\<rparr>\<rparr>"

definition demoOutput :: "lworld CommandOutput" where
  "demoOutput = \<lparr>co_progress = (\<lambda>_ w. (None, w)), co_required = (\<lambda>_ w. (None, w))\<rparr>"

lemma demo_observes: "observesOnly demoCommand demoOutput"
  by (simp add: observesOnly_def demoCommand_def demoOutput_def leaves_def)

lemma unapproved_plan: "buildLocalPlan cm [] w = (Inr (cfg, p), w') \<Longrightarrow> \<not> c_Yes cfg"
proof -
  assume "buildLocalPlan cm [] w = (Inr (cfg, p), w')"
  then obtain v where "parseArgs (cm_Process cm) (cm_compiledProviderName cm) [] \<lparr>op_resolveSecrets = False, op_loadSSHKeys = False\<rparr> w = (Inr cfg, v)"
    by (auto simp: buildLocalPlan_def ParseLocalArgs_def split: prod.splits sum.splits)
  then obtain f c yc env cfg0 key where f: "parseFlags (pc_Parsers (cm_Process cm)) [] defaultFlags = Inr f"
      "checkedConfig (cm_Process cm) \<lparr>op_resolveSecrets = False, op_loadSSHKeys = False\<rparr> f yc env = Inr cfg0"
      "cfg = withDefaults (cm_compiledProviderName cm) f (cfg0\<lparr>c_AzureSSHPubKey := key\<rparr>)"
    by (rule parseArgs_cases) (rule that; assumption)
  have "f = defaultFlags" using f(1) by simp
  with f(2) have "\<not> c_Yes cfg0" by (rule_tac checkedConfig_shape[OF f(2)]) (simp add: configOf_def defaultFlags_def)
  then show ?thesis by (simp add: f(3) withDefaults_def Let_def)
qed

section \<open>run\<close>

text \<open>From an allowed plan and a complete configuration on: the approval, then the remote preflight.\<close>

lemma execution_from_config:
  assumes run: "executionExecutor cm args out w = (oc, w')" and obs: "observesOnly cm out"
    and l: "buildLocalPlan cm args w = (Inr (cfg, localPlan), w1)" and allowed: "dc_Allowed (Check (Some localPlan) (Some cfg))"
    and x: "parseExecutionConfig cm args w1 = (Inr e, w2)" and ready: "missingRunPrerequisites e = []"
  shows "refusal oc \<and> w_fs w' = w_fs w \<or> e = resolvedFrom e cfg \<and> (c_Yes cfg \<or> readAnswer (cm_stdin cm) = Approved) \<and>
    (\<exists>report w4. pf_Ready report \<and> w_fs w4 = w_fs w \<and> startRun cm args report localPlan e w4 = (oc, w'))"
proof -
  obtain r3 w3 where c: "confirmRun cm out localPlan e (Check (Some localPlan) (Some cfg)) w2 = (r3, w3)" by (rule prod.exhaust)
  obtain report w4 where p: "runRemotePreflight cm e True w3 = (report, w4)" by (rule prod.exhaust)
  have fs1: "w_fs w1 = w_fs w" by (rule leavesD[OF leaves_buildLocalPlan l])
  have fs3: "w_fs w3 = w_fs w" using leavesD[OF leaves_confirmRun[OF obs] c] leavesD[OF leaves_parseExecutionConfig x] fs1 by simp
  have fs4: "w_fs w4 = w_fs w" using leavesD[OF leaves_runRemotePreflight[OF obs] p] fs3 by simp
  obtain v where pl: "ParseLocalArgs (cm_Process cm) (cm_compiledProviderName cm) args w = (Inr cfg, v)"
    using l by (auto simp: buildLocalPlan_def split: prod.splits sum.splits)
  obtain v2 where pe: "ParseArgs (cm_Process cm) (cm_compiledProviderName cm) args w1 = (Inr e, v2)"
    using x by (auto simp: parseExecutionConfig_def split: prod.splits sum.splits config_error.splits if_splits)
  have agree: "e = resolvedFrom e cfg" by (rule ParseArgs_agrees[OF pe pl fs1])
  have yes: "c_Yes e = c_Yes cfg" by (subst agree) (simp add: resolvedFrom_def)
  show ?thesis
  proof (cases r3)
    case (Some oc3)
    with c have "refusal oc3" using refusals_of_parts(2) by blast
    with Some run l allowed x ready c fs3 show ?thesis by (auto simp: executionExecutor_def Let_def)
  next
    case None
    with c have approved: "c_Yes cfg \<or> readAnswer (cm_stdin cm) = Approved"
      by (auto simp: confirmRun_def yes Let_def split: if_splits prod.splits option.splits answer.splits)
    have rest: "(case remotePreflightFailure (Some report) [] of Some oc \<Rightarrow> (oc, w4) | None \<Rightarrow> startRun cm args report localPlan e w4) = (oc, w')"
      using run l allowed x ready c p None by (simp add: executionExecutor_def Let_def)
    show ?thesis
    proof (cases "remotePreflightFailure (Some report) []")
      case (Some oc4)
      with rest fs4 refusals_of_parts(1) show ?thesis by auto
    next
      case none: None
      then have "pf_Ready report" by (auto simp: remotePreflightFailure_def split: if_splits prod.splits)
      with rest none agree approved fs4 show ?thesis by auto
    qed
  qed
qed



end
