(* ===== verification/Cmd_Recover_Props.thy ===== *)
theory Cmd_Recover_Props
  imports Cmd_Props
begin

text \<open>
  What the recovery commands guarantee: cleanup acts on certainly owned resources of a run of this provider only, after
  an approval and a ready preflight; its result is the one of the calls it makes, and a manifest is marked clean only
  when every call succeeded.
\<close>

section \<open>Steps\<close>

text \<open>A step that changes no file, and either stops with a refusal or goes on with a value that satisfies \<open>P\<close>.\<close>

definition passes :: "(lworld \<Rightarrow> 'a \<Rightarrow> bool) \<Rightarrow> 'a step \<Rightarrow> bool" where
  "passes P m \<longleftrightarrow> (\<forall>w r w'. m w = (r, w') \<longrightarrow> w_fs w' = w_fs w \<and> (case r of Inl oc \<Rightarrow> refusal oc | Inr x \<Rightarrow> P w x))"

lemma passesI: "(\<And>w r w'. m w = (r, w') \<Longrightarrow> w_fs w' = w_fs w \<and> (case r of Inl oc \<Rightarrow> refusal oc | Inr x \<Rightarrow> P w x)) \<Longrightarrow> passes P m"
  unfolding passes_def by blast

lemma passesD:
  "passes P m \<Longrightarrow> m w = (Inl oc, w') \<Longrightarrow> w_fs w' = w_fs w \<and> refusal oc"
  "passes P m \<Longrightarrow> m w = (Inr x, w') \<Longrightarrow> w_fs w' = w_fs w \<and> P w x"
  unfolding passes_def by (metis sum.simps(5), metis sum.simps(6))

lemma passes_weaken: "passes P m \<Longrightarrow> (\<And>w x. P w x \<Longrightarrow> Q w x) \<Longrightarrow> passes Q m"
  unfolding passes_def by (force split: sum.splits)

lemma passes_goOn: "(\<And>w. P w x) \<Longrightarrow> passes P (goOn x)"
  by (simp add: passes_def goOn_def)

lemma passes_stopWith: "refusal oc \<Longrightarrow> passes P (stopWith oc)"
  by (simp add: passes_def stopWith_def)

lemma passes_orRecovery: "leaves m \<Longrightarrow> (\<And>w x w'. m w = (Inr x, w') \<Longrightarrow> P w x) \<Longrightarrow> passes P (orRecovery command runID m)"
  by (intro passesI) (auto simp: orRecovery_def split: prod.splits sum.splits dest: leavesD)

lemma passes_orRecoveryPure: "(\<And>x w. r = Inr x \<Longrightarrow> P w x) \<Longrightarrow> passes P (orRecoveryPure command runID r)"
  unfolding orRecoveryPure_def by (rule passes_orRecovery) (auto simp: leaves_def)

lemma passes_andThen:
  assumes "passes P m" "\<And>x w1. P w1 x \<Longrightarrow> passes (\<lambda>w y. Q y) (f x)"
  shows "passes (\<lambda>w y. Q y) (andThen m f)"
proof (rule passesI)
  fix w r w'
  assume run: "andThen m f w = (r, w')"
  obtain r1 w1 where m: "m w = (r1, w1)" by (rule prod.exhaust)
  show "w_fs w' = w_fs w \<and> (case r of Inl oc \<Rightarrow> refusal oc | Inr x \<Rightarrow> Q x)"
  proof (cases r1)
    case (Inl oc)
    with run m passesD(1)[OF assms(1)] show ?thesis by (auto simp: andThen_def)
  next
    case (Inr x)
    with m passesD(2)[OF assms(1)] have x: "w_fs w1 = w_fs w" "P w x" by auto
    from run m Inr have "f x w1 = (r, w')" by (simp add: andThen_def)
    with assms(2)[OF x(2)] x(1) show ?thesis unfolding passes_def by metis
  qed
qed

text \<open>The next step of a command is reached only past the one before.\<close>

lemma settle_andThen:
  assumes "settle (andThen m f) w = (oc, w')" "passes P m"
  obtains (stopped) "refusal oc" "w_fs w' = w_fs w"
  | (on) x w1 where "P w x" "w_fs w1 = w_fs w" "settle (f x) w1 = (oc, w')"
proof -
  obtain r w1 where m: "m w = (r, w1)" by (rule prod.exhaust)
  show thesis
  proof (cases r)
    case (Inl oc1)
    with m assms(1) have "oc1 = oc" "w1 = w'" by (simp_all add: settle_def andThen_def)
    with stopped passesD(1)[OF assms(2) m[unfolded Inl]] show thesis by blast
  next
    case (Inr x)
    with m assms(1) have "settle (f x) w1 = (oc, w')" by (simp add: settle_def andThen_def)
    with on passesD(2)[OF assms(2) m[unfolded Inr]] show thesis by blast
  qed
qed

text \<open>The same for a command that did not refuse with the files \<open>fs\<close> it started with.\<close>

lemma settle_on:
  assumes "settle (andThen m f) w = (oc, w')" "w_fs w = fs" "passes P m" "\<not> (refusal oc \<and> w_fs w' = fs)"
  obtains x w1 where "P w x" "settle (f x) w1 = (oc, w')" "w_fs w1 = fs"
  by (rule settle_andThen[OF assms(1,3)]) (use assms(2,4) that in auto)

section \<open>The steps of the recovery commands\<close>

lemma passes_recoveryStore: "passes (\<lambda>w store. runsStore cm = Inr store) (recoveryStore cm command runID)"
  unfolding recoveryStore_def by (rule passes_orRecoveryPure)

lemma passes_recoveryManifest:
  "passes (\<lambda>w m. persisted store runID w = Some m \<and> m_Provider m = cm_compiledProviderName cm) (recoveryManifest cm store command runID)"
proof (rule passesI)
  fix w r w'
  assume run: "recoveryManifest cm store command runID w = (r, w')"
  obtain r1 w1 where l: "Load store runID w = (r1, w1)" by (rule prod.exhaust)
  have fs: "w_fs w1 = w_fs w" by (rule leavesD[OF leaves_read(3) l])
  show "w_fs w' = w_fs w \<and> (case r of Inl oc \<Rightarrow> refusal oc | Inr m \<Rightarrow> persisted store runID w = Some m \<and> m_Provider m = cm_compiledProviderName cm)"
    using run l fs Load_Inr[of store runID w _ w1]
    by (cases r1) (auto simp: recoveryManifest_def andThen_def orRecovery_def stopWith_def goOn_def split: if_splits)
qed

lemma passes_recordedConfig: "passes (\<lambda>_ _. True) (recordedConfig cm store command runID)"
  unfolding recordedConfig_def
  by (rule passes_andThen[where P = "\<lambda>_ _. True"]) (auto intro!: passes_orRecovery passes_orRecoveryPure leave)

lemma passes_currentConfig: "passes (\<lambda>_ _. True) (currentConfig cm command runID m)"
  by (rule passesI) (auto simp: currentConfig_def split: prod.splits sum.splits dest: leavesD[OF leaves_parseExecutionConfig])

lemma passes_requireValues: "passes (\<lambda>_ _. missing = []) (requireValues runID doing missing)"
  by (auto simp: requireValues_def refuseIf_def intro!: passes_goOn passes_stopWith)

lemma passes_requireReady:
  assumes "observesOnly cm out"
  shows "passes (\<lambda>_ _. True) (requireReady cm cfg checkTailscale runID)"
  by (rule passesI) (auto simp: requireReady_def unlessStopped_def split: prod.splits option.splits
      dest: leavesD[OF leaves_runRemotePreflight[OF assms]] refusals_of_parts(1))

lemma leaves_fold: "(\<And>t. leaves (d t)) \<Longrightarrow> w_fs (fold (\<lambda>t v. snd (d t v)) ts w) = w_fs w"
  by (induction ts arbitrary: w) (simp_all add: leaves_def)

lemma passes_confirmRecovery:
  assumes "observesOnly cm out"
  shows "passes (\<lambda>_ _. approved \<or> readAnswer (cm_stdin cm) = Approved) (unlessStopped (confirmRecovery cm out approved command runID texts remediation))"
proof (rule passesI)
  fix w r w'
  assume run: "unlessStopped (confirmRecovery cm out approved command runID texts remediation) w = (r, w')"
  have out: "w_fs (fold (\<lambda>t v. snd (co_required out t v)) ts w) = w_fs w" for ts
    by (rule leaves_fold) (use assms in \<open>simp add: observesOnly_def\<close>)
  show "w_fs w' = w_fs w \<and> (case r of Inl oc \<Rightarrow> refusal oc | Inr x \<Rightarrow> approved \<or> readAnswer (cm_stdin cm) = Approved)"
    using run by (auto simp: unlessStopped_def confirmRecovery_def Let_def out simp del: fold_append split: if_splits answer.splits)
qed

lemma passes_requireOwnership:
  "passes (\<lambda>_ _. \<forall>r \<in> set (m_Resources m). r_Status r = ResourceCleaned \<or> r_CleanupOwner r = runID \<and> r_OwnershipCertain r) (requireOwnership m runID)"
proof (cases "uncertainResource m runID")
  case None
  then have "\<forall>r \<in> set (m_Resources m). r_Status r = ResourceCleaned \<or> r_CleanupOwner r = runID \<and> r_OwnershipCertain r"
    by (auto simp: uncertainResource_def find_None_iff)
  with None show ?thesis by (auto simp: requireOwnership_def intro: passes_goOn)
qed (simp add: requireOwnership_def passes_stopWith)

lemma passes_cleanupConfig: "passes (\<lambda>_ _. True) (cleanupConfig cm store runID m)"
proof -
  have current: "passes (\<lambda>_ _. True) (andThen (currentConfig cm ''cleanup'' runID m) (\<lambda>c. goOn (g c)))" for g :: "Config \<Rightarrow> Config"
    by (rule passes_andThen[OF passes_currentConfig]) (simp add: passes_goOn)
  show ?thesis
    unfolding cleanupConfig_def Let_def by (rule passes_andThen[OF passes_recordedConfig]) (simp add: passes_goOn current)
qed

lemma leaves_FindPulumiLocks: "leaves (FindPulumiLocks env dir stacks)"
  by (rule leavesI) (auto simp: FindPulumiLocks_def split: sum.splits prod.splits if_splits dest: leavesD[OF leaves_read(2)])

lemma passes_recordedLocks: "passes (\<lambda>_ _. True) (recordedLocks cm runID m cfg recoverLocks)"
  by (auto simp: recordedLocks_def intro!: passes_goOn passes_stopWith passes_orRecovery leaves_FindPulumiLocks)

section \<open>Cleanup acts on owned resources only\<close>

text \<open>
  C29 The cleanup command changes nothing that is not certainly its own: when printing and probing change no files, it
  either refuses with an error and every file as it was, or the manifest of the named run is on disk, is of the provider
  compiled in, every resource of it that is not cleaned is certainly owned by this run, the credentials are there when
  a tailnet has to be deleted, the user approved, and every file is still as it was when the cleanup of that manifest
  starts.
\<close>

theorem cleanup_needs_ownership:
  assumes "cleanupExecutor cm args out w = (oc, w')" "observesOnly cm out"
  shows "refusal oc \<and> w_fs w' = w_fs w \<or>
    (\<exists>runID approved recoverLocks store m cfg lockPaths w1. parseRecoveryArgs ''cleanup'' args = Inr (runID, approved, recoverLocks) \<and>
       runsStore cm = Inr store \<and> persisted store runID w = Some m \<and> m_Provider m = cm_compiledProviderName cm \<and>
       (\<forall>r \<in> set (m_Resources m). r_Status r = ResourceCleaned \<or> r_CleanupOwner r = runID \<and> r_OwnershipCertain r) \<and>
       missingCleanupPrerequisites cfg (manifestHasUncleanTailnet m) = [] \<and>
       (approved \<or> readAnswer (cm_stdin cm) = Approved) \<and> w_fs w1 = w_fs w \<and>
       settle (cleanupRun cm out store runID cfg m lockPaths recoverLocks) w1 = (oc, w'))" (is "_ \<or> ?found")
proof (cases "parseRecoveryArgs ''cleanup'' args")
  case (Inl e)
  with assms(1) show ?thesis by (auto simp: cleanupExecutor_def)
next
  case (Inr flags)
  obtain runID approved recoverLocks where flags: "flags = (runID, approved, recoverLocks)" by (rule prod_cases3)
  note arguments = Inr[unfolded flags]
  note run = assms(1)[unfolded cleanupExecutor_def arguments sum.case prod.case Let_def]
  show ?thesis
  proof (rule disjCI[THEN disj_commute[THEN iffD1]])
    assume no: "\<not> (refusal oc \<and> w_fs w' = w_fs w)"
    have disk: "persisted store runID v = persisted store runID w" if "w_fs v = w_fs w" for store and v :: lworld
      using that by (simp add: persisted_def)
    have found: ?found
      if "runsStore cm = Inr store" "persisted store runID v = Some m \<and> m_Provider m = cm_compiledProviderName cm" "w_fs v = w_fs w"
        "\<forall>r \<in> set (m_Resources m). r_Status r = ResourceCleaned \<or> r_CleanupOwner r = runID \<and> r_OwnershipCertain r"
        "missingCleanupPrerequisites cfg (manifestHasUncleanTailnet m) = []" "approved \<or> readAnswer (cm_stdin cm) = Approved"
        "settle (cleanupRun cm out store runID cfg m lockPaths recoverLocks) w1 = (oc, w')" "w_fs w1 = w_fs w"
      for store m cfg lockPaths w1 v
      using that disk arguments by metis
    show ?found
      using run refl[of "w_fs w"]
      apply (rule settle_on[OF _ _ passes_recoveryStore no])
      apply (erule settle_on[OF _ _ passes_recoveryManifest no], assumption)
      apply (erule settle_on[OF _ _ passes_requireOwnership no], assumption)
      apply (erule settle_on[OF _ _ passes_cleanupConfig no], assumption)
      apply (erule settle_on[OF _ _ passes_requireValues no], assumption)
      apply (erule settle_on[OF _ _ passes_recordedLocks no], assumption)
      apply (erule settle_on[OF _ _ passes_confirmRecovery[OF assms(2)] no], assumption)
      apply (erule settle_on[OF _ _ passes_requireReady[OF assms(2)] no], assumption)
      by (rule found)
  qed
qed

theorem cleanup_needs_ownership_witness:
  "refusal (fst (cleanupExecutor demoCommand [exampleID] demoOutput (worldOf createdRuns))) \<and>
   w_fs (snd (cleanupExecutor demoCommand [exampleID] demoOutput (worldOf createdRuns))) = createdRuns"
proof -
  have "readAnswer (cm_stdin demoCommand) \<noteq> Approved"
    by (simp add: demoCommand_def readAnswer_def) code_simp
  moreover have "parseRecoveryArgs ''cleanup'' [exampleID] = Inr (exampleID, False, False)" by code_simp
  moreover obtain oc w' where run: "cleanupExecutor demoCommand [exampleID] demoOutput (worldOf createdRuns) = (oc, w')" by (rule prod.exhaust)
  ultimately have "refusal oc \<and> w_fs w' = w_fs (worldOf createdRuns)"
    using cleanup_needs_ownership[OF run demo_observes] by (metis Inr_inject prod.inject)
  then show ?thesis by (simp add: run)
qed

section \<open>The calls of a cleanup\<close>

text \<open>
  A reference for \<^verbatim>\<open>defaultCleanup\<close>: a list of named calls, all of them made in their order whatever fails, and the
  errors they return.
\<close>

type_synonym ('c, 'm, 'd) namedCall = "string \<times> (('c, 'm, 'd, lworld) system \<Rightarrow> go_error option \<times> ('c, 'm, 'd, lworld) system)"

fun makeCalls :: "('c, 'm, 'd) namedCall list \<Rightarrow> ('c, 'm, 'd, lworld) system \<Rightarrow> go_error list \<times> ('c, 'm, 'd, lworld) system" where
  "makeCalls [] s = ([], s)"
| "makeCalls ((what, call) # calls) s = (case call s of (r, s1) \<Rightarrow> (case makeCalls calls s1 of (es, s2) \<Rightarrow>
     ((case r of None \<Rightarrow> [] | Some e \<Rightarrow> [Wrapf (what @ '': '') e []]) @ es, s2)))"

lemma makeCalls_append: "makeCalls (xs @ ys) s = (case makeCalls xs s of (es, s1) \<Rightarrow> (case makeCalls ys s1 of (fs, s2) \<Rightarrow> (es @ fs, s2)))"
  by (induction xs arbitrary: s) (auto split: prod.split)

definition cleanupCalls :: "lworld CommandOutput \<Rightarrow> ('c, 'm, 'd, lworld) system Provider \<Rightarrow> ('c, 'm, 'd, lworld) system TailnetManager \<Rightarrow> Manifest \<Rightarrow>
    Resource list \<Rightarrow> ('c, 'm, 'd) namedCall list" where
  "cleanupCalls out p tm m resources =
     map (\<lambda>t. (''destroy '' @ t, \<lambda>s. pv_DestroyPair p t (report out (''[cleanup] destroy '' @ t) s))) (plannedTypes m)
   @ (if providerManagesNetworking p then [(''teardown networking'', \<lambda>s. pv_TeardownNetworking p (report out ''[cleanup] teardown networking'' s))] else [])
   @ map (\<lambda>r. (''delete tailnet '' @ r_ProviderID r, \<lambda>s. tm_DeleteTailnet tm (r_ProviderID r) (report out (''[cleanup] delete tailnet '' @ r_ProviderID r) s)))
       (filter (\<lambda>r. r_Kind r = ''tailnet'') resources)"

lemma destroyTypes_calls: "destroyTypes out p ts fs s = (case makeCalls (map (\<lambda>t. (''destroy '' @ t, \<lambda>s. pv_DestroyPair p t (report out (''[cleanup] destroy '' @ t) s))) ts) s
    of (es, s1) \<Rightarrow> (fs @ es, s1))"
  by (induction ts arbitrary: fs s) (auto split: prod.split option.split)

lemma teardownManaged_calls: "teardownManaged out p fs s = (case makeCalls (if providerManagesNetworking p
      then [(''teardown networking'', \<lambda>s. pv_TeardownNetworking p (report out ''[cleanup] teardown networking'' s))] else []) s of (es, s1) \<Rightarrow> (fs @ es, s1))"
  by (auto simp: teardownManaged_def split: prod.split option.split)

lemma deleteTailnets_calls:
  assumes "\<forall>r \<in> set rs. r_Kind r = ''tailnet'' \<longrightarrow> r_ProviderID r \<noteq> []"
  shows "deleteTailnets out tm rs fs s = (case makeCalls (map (\<lambda>r. (''delete tailnet '' @ r_ProviderID r,
      \<lambda>s. tm_DeleteTailnet tm (r_ProviderID r) (report out (''[cleanup] delete tailnet '' @ r_ProviderID r) s))) (filter (\<lambda>r. r_Kind r = ''tailnet'') rs)) s
    of (es, s1) \<Rightarrow> (fs @ es, s1))"
  using assms by (induction rs arbitrary: fs s) (auto split: prod.split option.split)

lemma errors_Join_Some: "errors_Join (map Some es) = None \<longleftrightarrow> es = []"
  by (cases es) (simp_all add: errors_Join_def map_filter_def)

lemma errors_Join_none [simp]: "errors_Join [] = None"
  by (simp add: errors_Join_def map_filter_def)

lemma mergeCleanup_zero:
  "x_Resources (mergeCleanup zeroExecution res) = appendSlice None (x_Resources res)"
  "x_CleanupOutcome (mergeCleanup zeroExecution res) = (if x_Err res \<noteq> None then OutcomeFailed else x_CleanupOutcome res)"
proof -
  have e: "errors_Join [x_Err zeroExecution, x_Err res] \<noteq> None \<longleftrightarrow> x_Err res \<noteq> None"
    by (cases "x_Err res") (simp_all add: errors_Join_def map_filter_def zeroExecution_def)
  show "x_CleanupOutcome (mergeCleanup zeroExecution res) = (if x_Err res \<noteq> None then OutcomeFailed else x_CleanupOutcome res)"
    unfolding mergeCleanup_def Let_def e[symmetric] by (simp add: zeroExecution_def)
  show "x_Resources (mergeCleanup zeroExecution res) = appendSlice None (x_Resources res)"
    unfolding mergeCleanup_def Let_def by (simp add: zeroExecution_def)
qed

lemma appendSlice_None [simp]: "appendSlice a None = a"
  by (simp add: appendSlice_def)

text \<open>
  C30 Cleanup makes every call and reports every failure: for a manifest of the provider compiled in, with resources to
  clean whose tailnets have an identifier, it destroys the topology of each planned instance type in order, tears down
  the networking if the provider manages it, and deletes each recorded tailnet, whatever fails on the way; its error
  joins all failures; it succeeds exactly when no call failed; and the manifest written from its result marks
  everything as cleaned exactly then (or when everything was clean before).
\<close>

theorem cleanup_makes_every_call:
  assumes "resources \<noteq> []" "m_Provider m = cm_compiledProviderName cm" "\<forall>r \<in> set resources. r_Kind r = ''tailnet'' \<longrightarrow> r_ProviderID r \<noteq> []"
    and "makeCalls (cleanupCalls out (cm_newCompiledProvider cm cfg) (cm_Tailnet cm (c_OAuthClientID cfg) (c_OAuthClientSecret cfg) (c_Tag cfg)) m resources) s = (es, s')"
  shows "\<exists>res. defaultCleanup cm out cfg m resources s = (res, s') \<and> x_Err res = errors_Join (map Some es) \<and>
    (x_CleanupOutcome res = OutcomeSucceeded \<longleftrightarrow> es = []) \<and>
    (\<forall>m0 endedAt. (\<forall>r \<in> set (m_Resources (applyCleanupResult (mergeCleanup zeroExecution res) endedAt m0)). r_Status r = ResourceCleaned) \<longleftrightarrow>
       es = [] \<or> (\<forall>r \<in> set (m_Resources m0). r_Status r = ResourceCleaned))"
proof -
  let ?p = "cm_newCompiledProvider cm cfg"
  let ?tm = "cm_Tailnet cm (c_OAuthClientID cfg) (c_OAuthClientSecret cfg) (c_Tag cfg)"
  obtain es1 s1 es2 s2 es3 s3 where steps: "destroyTypes out ?p (plannedTypes m) [] s = (es1, s1)"
      "teardownManaged out ?p es1 s1 = (es2, s2)" "deleteTailnets out ?tm resources es2 s2 = (es3, s3)"
    by (metis surj_pair)
  have "(es3, s3) = (es, s')"
    using assms(4) steps(1)[unfolded destroyTypes_calls] steps(2)[unfolded teardownManaged_calls] steps(3)[unfolded deleteTailnets_calls[OF assms(3)]]
    unfolding cleanupCalls_def makeCalls_append by (auto split: prod.splits)
  then have eq: "es3 = es" "s3 = s'" by simp_all
  let ?start = "zeroExecution\<lparr>x_CleanupOutcome := OutcomeSucceeded, x_ResourcesChanged := resources \<noteq> []\<rparr>"
  let ?failed = "\<lambda>e. ?start\<lparr>x_CleanupOutcome := OutcomeFailed, x_Err := Some e, x_Failures :=
     [zeroFailure\<lparr>f_Code := ''cleanup-failure'', f_Stage := ''cleanup'', f_Class := class_text CleanupFailure, f_Message := error_text e\<rparr>]\<rparr>"
  define res where "res = (case errors_Join (map Some es) of None \<Rightarrow> ?start | Some e \<Rightarrow> ?failed e)"
  have run: "defaultCleanup cm out cfg m resources s = (res, s')"
    unfolding defaultCleanup_def Let_def compiledProviderFactory_def using assms(1,2) steps by (simp add: eq res_def)
  have err: "x_Err res = errors_Join (map Some es)" and co: "x_CleanupOutcome res = (if es = [] then OutcomeSucceeded else OutcomeFailed)"
    and rs: "x_Resources res = None"
    using errors_Join_Some[of es] by (cases "errors_Join (map Some es)"; simp add: res_def zeroExecution_def)+
  have merged: "x_Resources (mergeCleanup zeroExecution res) = None" "x_CleanupOutcome (mergeCleanup zeroExecution res) = x_CleanupOutcome res"
    unfolding mergeCleanup_zero using rs co err errors_Join_Some[of es] by (simp_all split: if_split)
  have final: "m_Resources (applyCleanupResult (mergeCleanup zeroExecution res) endedAt m0) =
      map (cleanedResource (x_CleanupOutcome res) (x_Err (mergeCleanup zeroExecution res)) endedAt) (m_Resources m0)" for m0 endedAt
  proof -
    have set: "x_CleanupOutcome res \<noteq> OutcomeUnset" using co by simp
    show ?thesis unfolding applyCleanupResult_def Let_def merged using set by simp
  qed
  have each: "r_Status (cleanedResource (x_CleanupOutcome res) e endedAt r) = ResourceCleaned \<longleftrightarrow> es = [] \<or> r_Status r = ResourceCleaned" for e endedAt r
    by (simp add: cleanedResource_def co)
  show ?thesis
    by (rule exI[of _ res], intro conjI run err allI, simp add: co, unfold final, use each in auto)
qed

theorem cleanup_makes_every_call_witness:
  "x_CleanupOutcome (fst (defaultCleanup demoCommand demoOutput demoConfig (initialManifest exampleRequest 7) [exampleResource] (cm_System demoCommand))) \<noteq> OutcomeSucceeded"
proof -
  let ?calls = "cleanupCalls demoOutput (cm_newCompiledProvider demoCommand demoConfig)
    (cm_Tailnet demoCommand (c_OAuthClientID demoConfig) (c_OAuthClientSecret demoConfig) (c_Tag demoConfig)) (initialManifest exampleRequest 7) [exampleResource]"
  obtain es s' where calls: "makeCalls ?calls (cm_System demoCommand) = (es, s')" by (rule prod.exhaust)
  have "plannedTypes (initialManifest exampleRequest 7) = [''c6i.large'']"
    by (simp add: plannedTypes_def initialManifest_def exampleRequest_def sortedSet_def)
  then obtain rest where first: "?calls = (''destroy c6i.large'', \<lambda>s. pv_DestroyPair (demoProvider True) ''c6i.large'' (report demoOutput ''[cleanup] destroy c6i.large'' s)) # rest"
    by (simp add: cleanupCalls_def demoCommand_def)
  have "es \<noteq> []" using calls[unfolded first] by (auto split: prod.splits)
  moreover have "[exampleResource] \<noteq> []" "m_Provider (initialManifest exampleRequest 7) = cm_compiledProviderName demoCommand"
    "\<forall>r \<in> set [exampleResource]. r_Kind r = ''tailnet'' \<longrightarrow> r_ProviderID r \<noteq> []"
    by (simp_all add: initialManifest_def exampleRequest_def demoCommand_def exampleResource_def)
  ultimately show ?thesis using cleanup_makes_every_call[OF _ _ _ calls] by fastforce
qed

end
