(* ===== verification/Sshclient.thy ===== *)
theory Sshclient
  imports Go_Fmt Go_Eff
begin

text \<open>
  Package internal/sshclient: a client over the tailnet, running one command on a node, and the wait for
  cloud-init. Time is part of the state: the clock, the two ways the context of the run can end, and how
  many times a \<^verbatim>\<open>select\<close> found both of its cases ready. A call that never comes back is \<open>None\<close>. The lemmas
  show when \<open>WaitForReady\<close> comes back, and what its result says.
\<close>

section \<open>Time, the context, and select\<close>

datatype selectStmt = RunSelect | TickSelect

record 'm timed =
  td_now :: gotime
  td_deadline :: "gotime option"
  td_cancelled :: "gotime option"
  td_ties :: "selectStmt \<Rightarrow> nat"
  td_machine :: 'm

text \<open>When the context ends, if it does, and its error: whichever of deadline and cancellation came first.\<close>

definition ctxEnd :: "'m timed \<Rightarrow> gotime option" where
  "ctxEnd w = (case (td_deadline w, td_cancelled w) of
     (None, c) \<Rightarrow> c | (Some d, None) \<Rightarrow> Some d | (Some d, Some c) \<Rightarrow> Some (min d c))"

definition ctxErr :: "'m timed \<Rightarrow> go_error option" where
  "ctxErr w = (case ctxEnd w of None \<Rightarrow> None
   | Some e \<Rightarrow> if td_now w < e then None
       else Some (Sentinel (if td_deadline w = Some e then DeadlineExceeded else Canceled)))"

text \<open>\<^verbatim>\<open>context.WithTimeout\<close>: never later than the context it is derived from.\<close>

definition withTimeout :: "duration \<Rightarrow> 'm timed \<Rightarrow> 'm timed" where
  "withTimeout timeout w = w\<lparr>td_deadline := Some (case td_deadline w of
     None \<Rightarrow> td_now w + timeout | Some d \<Rightarrow> min d (td_now w + timeout))\<rparr>"

definition advance :: "gotime \<Rightarrow> 'm timed \<Rightarrow> 'm timed" where
  "advance t w = w\<lparr>td_now := max (td_now w) t\<rparr>"

text \<open>
  A \<^verbatim>\<open>select\<close> between the end of the context and one other event: the first that is ready is taken, and it
  blocks for ever when neither comes. When both are ready the runtime picks one, and \<open>pick\<close> says which
  (\<open>True\<close> is the end of the context) the \<open>n\<close>-th time the statement is in that position.
\<close>

definition selectUntil :: "(selectStmt \<Rightarrow> nat \<Rightarrow> bool) \<Rightarrow> selectStmt \<Rightarrow> gotime option \<Rightarrow> 'm timed \<Rightarrow> (bool \<times> 'm timed) option" where
  "selectUntil pick stmt event w = (case (ctxEnd w, event) of
     (None, None) \<Rightarrow> None
   | (Some e, None) \<Rightarrow> Some (True, advance e w)
   | (None, Some t) \<Rightarrow> Some (False, advance t w)
   | (Some e, Some t) \<Rightarrow> (let w1 = advance (min e t) w in
       if td_now w1 < t then Some (True, w1)
       else if td_now w1 < e then Some (False, w1)
       else Some (pick stmt (td_ties w1 stmt), w1\<lparr>td_ties := (td_ties w1)(stmt := td_ties w1 stmt + 1)\<rparr>)))"

section \<open>The client\<close>

text \<open>
  The SSH connection (golang.org/x/crypto/ssh) over the machines: opening a session, which takes a while or
  is never answered; running a command in it, with the time it takes when it is left alone; what it had
  printed when it was killed; the signal, and closing the session and the connection.
\<close>

record 'm Conn =
  cn_NewSession :: "'m \<Rightarrow> (nat option \<times> go_error option) \<times> 'm"
  cn_Exec :: "string \<Rightarrow> 'm \<Rightarrow> (nat option \<times> string \<times> string \<times> go_error option) \<times> 'm"
  cn_Partial :: "'m \<Rightarrow> string \<times> string"
  cn_Signal :: "'m \<Rightarrow> 'm"
  cn_CloseSession :: "'m \<Rightarrow> 'm"
  cn_Close :: "'m errEff"

definition onMachine :: "('m \<Rightarrow> 'm) \<Rightarrow> 'm timed \<Rightarrow> 'm timed" where
  "onMachine f w = w\<lparr>td_machine := f (td_machine w)\<rparr>"

definition Client_Run :: "(selectStmt \<Rightarrow> nat \<Rightarrow> bool) \<Rightarrow> 'm Conn \<Rightarrow> string \<Rightarrow> 'm timed \<Rightarrow> ((string \<times> string \<times> go_error option) \<times> 'm timed) option" where
  "Client_Run pick c cmd w = (case cn_NewSession c (td_machine w) of ((answer, err), m) \<Rightarrow> (case answer of
     None \<Rightarrow> None
   | Some d \<Rightarrow> (let w1 = advance (td_now w + int d) (w\<lparr>td_machine := m\<rparr>) in case err of
       Some e \<Rightarrow> Some (([], [], Some (Wrapf ''new session: '' e [])), w1)
     | None \<Rightarrow> (case cn_Exec c cmd m of ((takes, out, errOut, result), m1) \<Rightarrow>
         (case selectUntil pick RunSelect (map_option (\<lambda>n. td_now w1 + int n) takes) (w1\<lparr>td_machine := m1\<rparr>) of
            None \<Rightarrow> None
          | Some (ended, w2) \<Rightarrow> (if ended
              then (let w3 = onMachine (cn_Signal c) w2; shown = cn_Partial c (td_machine w3) in
                Some ((fst shown, snd shown, ctxErr w3), onMachine (cn_CloseSession c) w3))
              else Some ((out, errOut, result), onMachine (cn_CloseSession c) w2)))))))"

definition Client_Close :: "'m Conn \<Rightarrow> 'm errEff" where
  "Client_Close c = cn_Close c"

section \<open>Waiting for cloud-init\<close>

definition readyCommand :: string where
  "readyCommand = ''test -f /tmp/tailbench-ready''"

text \<open>The first error of the wait, when the deadline is what ended it; \<open>shown\<close> is the timeout as \<^verbatim>\<open>%s\<close> prints it.\<close>

definition notReadyError :: "string \<Rightarrow> go_error" where
  "notReadyError shown = ErrText (''cloud-init did not finish within '' @ shown @ '': /tmp/tailbench-ready was never written. ''
     @ ''SSH to the node with the key under .tailbench/ssh/ and check ''
     @ ''`cloud-init status --long` and /var/log/cloud-init-output.log; a common ''
     @ ''cause is `tailscale serve --https` blocking because HTTPS is not enabled ''
     @ ''on the tailnet'')"

definition waitEndError :: "string \<Rightarrow> 'm timed \<Rightarrow> go_error option" where
  "waitEndError shown w = (if errors_Is_opt (ctxErr w) DeadlineExceeded then Some (notReadyError shown) else ctxErr w)"

text \<open>
  A ticker of five seconds: the ticks its receiver was too slow for are dropped, so that after a receipt at
  \<open>now\<close> the next one is the first multiple of the period after it.
\<close>

definition nextTick :: "gotime \<Rightarrow> gotime \<Rightarrow> gotime" where
  "nextTick tick now = tick + 5 * second * (1 + (now - tick) div (5 * second))"

partial_function (option) readyLoop :: "(selectStmt \<Rightarrow> nat \<Rightarrow> bool) \<Rightarrow> 'm Conn \<Rightarrow> string \<Rightarrow> gotime \<Rightarrow> 'm timed \<Rightarrow> (go_error option \<times> 'm timed) option" where
  "readyLoop pick c shown tick w = Option.bind (Client_Run pick c readyCommand w) (\<lambda>((out, errOut, err), w1).
     if err = None then Some (None, w1)
     else Option.bind (selectUntil pick TickSelect (Some tick) w1) (\<lambda>(ended, w2).
       if ended then Some (waitEndError shown w2, w2)
       else readyLoop pick c shown (nextTick tick (td_now w2)) w2))"

definition WaitForReady :: "(selectStmt \<Rightarrow> nat \<Rightarrow> bool) \<Rightarrow> 'm Conn \<Rightarrow> duration \<Rightarrow> 'm timed \<Rightarrow> (go_error option \<times> 'm timed) option" where
  "WaitForReady pick c timeout w = (if 0 < timeout
     then map_option (\<lambda>(e, w1). (e, w1\<lparr>td_deadline := td_deadline w\<rparr>))
       (readyLoop pick c (Duration_String timeout) (td_now w + 5 * second) (withTimeout timeout w))
     else readyLoop pick c (Duration_String timeout) (td_now w + 5 * second) w)"

section \<open>Connecting\<close>

text \<open>
  The tailnet (tailscale.com/tsnet and golang.org/x/crypto/ssh) over the state of the machines: a connection
  within fifteen seconds, the handshake on it, and closing it.
\<close>

record ('n, 'm) Tailnet =
  tn_Dial :: "string \<Rightarrow> ('m, 'n) eff"
  tn_NewClientConn :: "'n \<Rightarrow> string \<Rightarrow> string \<Rightarrow> ('m, 'm Conn) eff"
  tn_CloseConn :: "'n \<Rightarrow> 'm \<Rightarrow> 'm"
  tn_Sleep :: "duration \<Rightarrow> 'm \<Rightarrow> 'm"

definition dialBackoff :: "nat \<Rightarrow> duration" where
  "dialBackoff attempt = min (second * 2 ^ min attempt 4) (5 * second)"

definition dialAttempt :: "('n, 'm) Tailnet \<Rightarrow> string \<Rightarrow> string \<Rightarrow> ('m, 'm Conn) eff" where
  "dialAttempt net addr user m = (case tn_Dial net addr m of
     (Inl e, m1) \<Rightarrow> (Inl e, m1)
   | (Inr conn, m1) \<Rightarrow> (case tn_NewClientConn net conn addr user m1 of
       (Inl e, m2) \<Rightarrow> (Inl e, tn_CloseConn net conn m2)
     | (Inr client, m2) \<Rightarrow> (Inr client, m2)))"

fun dialLoop :: "('n, 'm) Tailnet \<Rightarrow> string \<Rightarrow> string \<Rightarrow> nat \<Rightarrow> nat \<Rightarrow> go_error option \<Rightarrow> 'm \<Rightarrow> (go_error option + 'm Conn) \<times> 'm" where
  "dialLoop net addr user attempt 0 lastErr m = (Inl lastErr, m)"
| "dialLoop net addr user attempt (Suc left) lastErr m = (case dialAttempt net addr user m of
     (Inr client, m1) \<Rightarrow> (Inr client, m1)
   | (Inl e, m1) \<Rightarrow> dialLoop net addr user (attempt + 1) left (Some e) (tn_Sleep net (dialBackoff attempt) m1))"

definition dialRetries :: "int \<Rightarrow> int" where
  "dialRetries maxRetries = (if maxRetries \<le> 0 then 120 else maxRetries)"

definition Dial :: "('n, 'm) Tailnet \<Rightarrow> string \<Rightarrow> string \<Rightarrow> int \<Rightarrow> ('m, 'm Conn) eff" where
  "Dial net host user maxRetries m = (let retries = dialRetries maxRetries;
       failed = ''ssh dial '' @ host @ '' after '' @ string_of_int retries @ '' attempts: '' in
     case dialLoop net (host @ '':22'') user 0 (nat retries) None m of
       (Inr client, m1) \<Rightarrow> (Inr client, m1)
     | (Inl None, m1) \<Rightarrow> (Inl (ErrText (failed @ ''%!w(<nil>)'')), m1)
     | (Inl (Some e), m1) \<Rightarrow> (Inl (Wrapf failed e []), m1))"

end
