(* ===== verification/Sshclient_Props.thy ===== *)
theory Sshclient_Props
  imports Sshclient
begin

text \<open>
  What the SSH client promises. Once the context of a wait can end, \<open>WaitForReady\<close> comes back: its ticks are
  at least five seconds apart, so one of them lies past the end of the context, and from then on every
  \<^verbatim>\<open>select\<close> has the end of the context among its ready cases. What it does not cover is a session request
  that is never answered. \<open>Dial\<close> makes the number of attempts it is given and waits after every one of them.
\<close>

section \<open>Select keeps the context and moves the clock forward\<close>

lemma advance_simps [simp]: "ctxEnd (advance t w) = ctxEnd w" "td_ties (advance t w) = td_ties w"
    "td_now (advance t w) = max (td_now w) t" "ctxEnd (onMachine f w) = ctxEnd w" "td_ties (onMachine f w) = td_ties w"
    "td_now (onMachine f w) = td_now w" "ctxEnd (w\<lparr>td_machine := m\<rparr>) = ctxEnd w" "ctxEnd (w\<lparr>td_ties := n\<rparr>) = ctxEnd w"
  by (simp_all add: advance_def onMachine_def ctxEnd_def)

lemma selectUntil_ends:
  assumes "ctxEnd w = Some e"
  shows "\<exists>ended w1. selectUntil pick stmt event w = Some (ended, w1) \<and> ctxEnd w1 = Some e
    \<and> (\<forall>s. s \<noteq> stmt \<longrightarrow> td_ties w1 s = td_ties w s)"
  using assms by (cases event) (auto simp: selectUntil_def Let_def)

lemma tick_select:
  assumes end_: "ctxEnd w = Some e" and sel: "selectUntil pick TickSelect (Some t) w = Some (ended, w1)"
  shows "ctxEnd w1 = Some e \<and> (\<not> ended \<longrightarrow> t \<le> td_now w1) \<and> (ended \<longrightarrow> e \<le> td_now w1)
    \<and> (e < t \<and> \<not> ended \<longrightarrow> \<not> pick TickSelect (td_ties w TickSelect) \<and> td_ties w1 TickSelect = td_ties w TickSelect + 1)"
  using sel by (auto simp: end_ selectUntil_def Let_def split: if_splits)

lemma Client_Run_ends:
  assumes end_: "ctxEnd w = Some e" and answered: "fst (fst (cn_NewSession c (td_machine w))) \<noteq> None"
  shows "\<exists>out errOut r w1. Client_Run pick c cmd w = Some ((out, errOut, r), w1) \<and> ctxEnd w1 = Some e
    \<and> td_ties w1 TickSelect = td_ties w TickSelect"
proof -
  obtain d err m where a: "cn_NewSession c (td_machine w) = ((Some d, err), m)"
    using answered by (cases "cn_NewSession c (td_machine w)") auto
  define w1 where "w1 = advance (td_now w + int d) (w\<lparr>td_machine := m\<rparr>)"
  obtain takes out errOut res m1 where x: "cn_Exec c cmd m = ((takes, out, errOut, res), m1)"
    by (metis prod.exhaust)
  have w1: "ctxEnd (w1\<lparr>td_machine := m1\<rparr>) = Some e" "td_ties (w1\<lparr>td_machine := m1\<rparr>) = td_ties w" "ctxEnd w1 = Some e" "td_ties w1 = td_ties w"
    by (simp_all add: w1_def end_)
  have now: "td_now w1 = td_now w + int d" by (simp add: w1_def advance_def)
  obtain ended w2 where s: "selectUntil pick RunSelect (map_option (\<lambda>n. td_now w + int d + int n) takes) (w1\<lparr>td_machine := m1\<rparr>) = Some (ended, w2)"
    and w2: "ctxEnd w2 = Some e" "td_ties w2 TickSelect = td_ties w TickSelect"
    using selectUntil_ends[OF w1(1), of pick RunSelect "map_option (\<lambda>n. td_now w + int d + int n) takes"] w1(2) by auto
  show ?thesis
    by (cases err) (simp_all add: Client_Run_def a x s w1 w2 now w1_def[symmetric] Let_def)
qed

section \<open>The wait comes back\<close>

lemmas readyLoop_unfold = readyLoop.simps

text \<open>One round: the node is ready, the wait is over, or the next round has made progress.\<close>

lemma readyLoop_round:
  assumes end_: "ctxEnd w = Some e" and answered: "\<And>m. fst (fst (cn_NewSession c m)) \<noteq> None"
  shows "(\<exists>r. readyLoop pick c shown tick w = Some r) \<or>
    (\<exists>w2. readyLoop pick c shown tick w = readyLoop pick c shown (nextTick tick (td_now w2)) w2 \<and> ctxEnd w2 = Some e \<and> tick \<le> td_now w2
      \<and> (e < tick \<longrightarrow> \<not> pick TickSelect (td_ties w TickSelect) \<and> td_ties w2 TickSelect = td_ties w TickSelect + 1))"
proof -
  obtain out errOut r w1 where run: "Client_Run pick c readyCommand w = Some ((out, errOut, r), w1)"
    and w1: "ctxEnd w1 = Some e" "td_ties w1 TickSelect = td_ties w TickSelect"
    using Client_Run_ends[OF end_ answered] by blast
  show ?thesis
  proof (cases r)
    case None
    then show ?thesis by (simp add: readyLoop_unfold[of pick c shown tick w] run)
  next
    case (Some x)
    obtain ended w2 where sel: "selectUntil pick TickSelect (Some tick) w1 = Some (ended, w2)"
      using selectUntil_ends[OF w1(1)] by blast
    have "readyLoop pick c shown tick w = (if ended then Some (waitEndError shown w2, w2) else readyLoop pick c shown (nextTick tick (td_now w2)) w2)"
      by (subst readyLoop_unfold) (simp add: run Some sel)
    with tick_select[OF w1(1) sel] w1(2) show ?thesis by (cases ended) auto
  qed
qed

lemma nextTick_later: "tick \<le> now \<Longrightarrow> tick + 5 * second \<le> nextTick tick now"
  using pos_imp_zdiv_nonneg_iff[of "5 * second" "now - tick"] by (simp add: nextTick_def)

text \<open>A tick past the end of the context: the runtime picks the end of the context after \<open>k\<close> more ties at most.\<close>

lemma readyLoop_late:
  assumes answered: "\<And>m. fst (fst (cn_NewSession c m)) \<noteq> None"
  shows "ctxEnd w = Some e \<Longrightarrow> e < tick \<Longrightarrow> pick TickSelect (td_ties w TickSelect + k) \<Longrightarrow> \<exists>r. readyLoop pick c shown tick w = Some r"
proof (induction k arbitrary: tick w)
  case 0
  then show ?case using readyLoop_round[OF 0(1) answered, where pick=pick and tick=tick and shown=shown] by auto
next
  case (Suc k)
  show ?case
  proof (rule disjE[OF readyLoop_round[OF Suc.prems(1) answered, where pick=pick and tick=tick and shown=shown]], assumption)
    assume "\<exists>w2. readyLoop pick c shown tick w = readyLoop pick c shown (nextTick tick (td_now w2)) w2 \<and> ctxEnd w2 = Some e \<and> tick \<le> td_now w2
      \<and> (e < tick \<longrightarrow> \<not> pick TickSelect (td_ties w TickSelect) \<and> td_ties w2 TickSelect = td_ties w TickSelect + 1)"
    then obtain w2 where w2: "readyLoop pick c shown tick w = readyLoop pick c shown (nextTick tick (td_now w2)) w2" "ctxEnd w2 = Some e"
      "tick \<le> td_now w2" "td_ties w2 TickSelect = td_ties w TickSelect + 1" using Suc.prems(2) by blast
    have "e < nextTick tick (td_now w2)" using nextTick_later[OF w2(3)] Suc.prems(2) by linarith
    with Suc.IH[OF w2(2)] Suc.prems(3) w2(1,4) show ?thesis by simp
  qed
qed

lemma readyLoop_returns:
  assumes answered: "\<And>m. fst (fst (cn_NewSession c m)) \<noteq> None"
    and fair: "\<And>n. \<exists>k. pick TickSelect (n + k)"
  shows "ctxEnd w = Some e \<Longrightarrow> \<exists>r. readyLoop pick c shown tick w = Some r"
proof (induction "nat (e + 1 - tick)" arbitrary: tick w rule: less_induct)
  case less
  show ?case
  proof (cases "e < tick")
    case True
    with readyLoop_late[OF answered less.prems] fair show ?thesis by blast
  next
    case False
    from readyLoop_round[OF less.prems answered, where pick=pick and tick=tick and shown=shown] show ?thesis
    proof
      assume "\<exists>w2. readyLoop pick c shown tick w = readyLoop pick c shown (nextTick tick (td_now w2)) w2 \<and> ctxEnd w2 = Some e \<and> tick \<le> td_now w2
        \<and> (e < tick \<longrightarrow> \<not> pick TickSelect (td_ties w TickSelect) \<and> td_ties w2 TickSelect = td_ties w TickSelect + 1)"
      then obtain w2 where w2: "readyLoop pick c shown tick w = readyLoop pick c shown (nextTick tick (td_now w2)) w2" "ctxEnd w2 = Some e"
        "tick \<le> td_now w2" by blast
      have "nat (e + 1 - nextTick tick (td_now w2)) < nat (e + 1 - tick)" using nextTick_later[OF w2(3)] False by linarith
      from less.hyps[OF this w2(2)] w2(1) show ?thesis by simp
    qed
  qed
qed

section \<open>What the result says\<close>

definition sameContext :: "'m timed \<Rightarrow> 'm timed \<Rightarrow> bool" where
  "sameContext w w1 \<longleftrightarrow> td_deadline w1 = td_deadline w \<and> td_cancelled w1 = td_cancelled w"

lemma sameContext_trans: "sameContext w w1 \<Longrightarrow> sameContext w1 w2 \<Longrightarrow> sameContext w w2"
  by (simp add: sameContext_def)

lemma ctxErr_None_iff: "ctxErr w = None \<longleftrightarrow> (case ctxEnd w of None \<Rightarrow> True | Some e \<Rightarrow> td_now w < e)"
  by (simp add: ctxErr_def split: option.split)

lemma selectUntil_context:
  assumes "selectUntil pick stmt event w = Some (ended, w1)"
  shows "sameContext w w1 \<and> (ended \<longrightarrow> ctxErr w1 \<noteq> None)"
proof -
  have same: "sameContext w w1"
    using assms by (cases "ctxEnd w"; cases event) (auto simp: selectUntil_def sameContext_def advance_def Let_def split: if_splits)
  have "ended \<longrightarrow> ctxErr w1 \<noteq> None"
    using assms by (cases "ctxEnd w"; cases event) (auto simp: selectUntil_def ctxErr_None_iff Let_def simp del: not_None_eq split: if_splits)
  with same show ?thesis by simp
qed

lemma Client_Run_context:
  assumes "Client_Run pick c cmd w = Some (r, w1)"
  shows "sameContext w w1"
proof -
  obtain d err m where a: "cn_NewSession c (td_machine w) = ((Some d, err), m)"
    using assms by (auto simp: Client_Run_def split: prod.splits option.splits)
  define w0 where "w0 = advance (td_now w + int d) (w\<lparr>td_machine := m\<rparr>)"
  have w0: "sameContext w w0" by (simp add: sameContext_def w0_def advance_def)
  show ?thesis
  proof (cases err)
    case (Some x)
    with assms w0 show ?thesis by (auto simp: Client_Run_def a w0_def Let_def)
  next
    case None
    obtain takes out errOut res m1 where x: "cn_Exec c cmd m = ((takes, out, errOut, res), m1)"
      by (metis prod.exhaust)
    have run: "Client_Run pick c cmd w = (case selectUntil pick RunSelect (map_option (\<lambda>n. td_now w0 + int n) takes) (w0\<lparr>td_machine := m1\<rparr>) of
        None \<Rightarrow> None
      | Some (ended, w2) \<Rightarrow> (if ended
          then (let w3 = onMachine (cn_Signal c) w2; shown = cn_Partial c (td_machine w3) in
            Some ((fst shown, snd shown, ctxErr w3), onMachine (cn_CloseSession c) w3))
          else Some ((out, errOut, res), onMachine (cn_CloseSession c) w2)))"
      by (simp only: Client_Run_def a x None prod.case option.case w0_def Let_def)
    then obtain ended w2 where sel: "selectUntil pick RunSelect (map_option (\<lambda>n. td_now w0 + int n) takes) (w0\<lparr>td_machine := m1\<rparr>) = Some (ended, w2)"
      using assms by (auto split: option.splits)
    have "sameContext (w0\<lparr>td_machine := m1\<rparr>) w2" using selectUntil_context[OF sel] by simp
    then have "sameContext w w2" using w0 by (simp add: sameContext_def)
    moreover have "sameContext w2 w1" using run sel assms by (auto simp: sameContext_def onMachine_def Let_def split: if_splits)
    ultimately show ?thesis by (rule sameContext_trans)
  qed
qed

definition nodeReady :: "(selectStmt \<Rightarrow> nat \<Rightarrow> bool) \<Rightarrow> 'm Conn \<Rightarrow> 'm timed \<Rightarrow> bool" where
  "nodeReady pick c w1 \<longleftrightarrow> (\<exists>w out errOut. Client_Run pick c readyCommand w = Some ((out, errOut, None), w1))"

lemma readyLoop_result:
  assumes "readyLoop pick c shown tick w = Some r"
  shows "sameContext w (snd r) \<and> (fst r = None \<and> nodeReady pick c (snd r)
    \<or> fst r = waitEndError shown (snd r) \<and> ctxErr (snd r) \<noteq> None)"
proof (rule readyLoop.raw_induct[OF _ assms])
  fix loop :: "(selectStmt \<Rightarrow> nat \<Rightarrow> bool) \<Rightarrow> 'm Conn \<Rightarrow> string \<Rightarrow> gotime \<Rightarrow> 'm timed \<Rightarrow> (go_error option \<times> 'm timed) option"
  fix pick :: "selectStmt \<Rightarrow> nat \<Rightarrow> bool" and c :: "'m Conn" and shown tick and w :: "'m timed" and r :: "go_error option \<times> 'm timed"
  assume IH: "\<And>pick c shown tick w r. loop pick c shown tick w = Some r \<Longrightarrow>
      sameContext w (snd r) \<and> (fst r = None \<and> nodeReady pick c (snd r) \<or> fst r = waitEndError shown (snd r) \<and> ctxErr (snd r) \<noteq> None)"
    and eq: "Option.bind (Client_Run pick c readyCommand w) (\<lambda>((out, errOut, err), w1).
       if err = None then Some (None, w1)
       else Option.bind (selectUntil pick TickSelect (Some tick) w1) (\<lambda>(ended, w2).
         if ended then Some (waitEndError shown w2, w2) else loop pick c shown (nextTick tick (td_now w2)) w2)) = Some r"
  from eq obtain out errOut err w1 where run: "Client_Run pick c readyCommand w = Some ((out, errOut, err), w1)"
    by (auto simp: bind_eq_Some_conv)
  note same1 = Client_Run_context[OF run]
  show "sameContext w (snd r) \<and> (fst r = None \<and> nodeReady pick c (snd r) \<or> fst r = waitEndError shown (snd r) \<and> ctxErr (snd r) \<noteq> None)"
  proof (cases err)
    case None
    with eq run have "r = (None, w1)" by simp
    moreover have "nodeReady pick c w1" using run None unfolding nodeReady_def by blast
    ultimately show ?thesis using same1 by simp
  next
    case (Some x)
    with eq run obtain ended w2 where sel: "selectUntil pick TickSelect (Some tick) w1 = Some (ended, w2)"
      by (auto simp: bind_eq_Some_conv)
    note sel' = selectUntil_context[OF sel]
    have same2: "sameContext w w2" using same1 sel' sameContext_trans by blast
    show ?thesis
    proof (cases ended)
      case True
      with eq run Some sel have "r = (waitEndError shown w2, w2)" by simp
      with same2 sel' True show ?thesis by simp
    next
      case False
      with eq run Some sel have "loop pick c shown (nextTick tick (td_now w2)) w2 = Some r" by simp
      from IH[OF this] same2 sameContext_trans show ?thesis by blast
    qed
  qed
qed

lemma readyLoop_no_session:
  assumes "fst (fst (cn_NewSession c (td_machine w))) = None"
  shows "readyLoop pick c shown tick w = None"
  using assms by (subst readyLoop_unfold) (auto simp: Client_Run_def split: prod.splits option.splits)

section \<open>The wait as a whole\<close>

definition answers :: "'m Conn \<Rightarrow> 'm \<Rightarrow> bool" where
  "answers c m \<longleftrightarrow> fst (fst (cn_NewSession c m)) \<noteq> None"

lemma waitEndError_cases:
  assumes "ctxErr w \<noteq> None"
  shows "waitEndError shown w \<in> {Some (notReadyError shown), Some (Sentinel Canceled)} \<and> (\<exists>e. ctxEnd w = Some e \<and> e \<le> td_now w)"
  using assms by (auto simp: waitEndError_def ctxErr_def split: option.splits if_splits)

lemma readyLoop_outcome:
  assumes "readyLoop pick c shown tick w = Some (err, w1)" and "ctxEnd w = Some e"
  shows "err = None \<and> nodeReady pick c w1 \<or> err \<in> {Some (notReadyError shown), Some (Sentinel Canceled)} \<and> e \<le> td_now w1"
proof -
  note r = readyLoop_result[OF assms(1), simplified]
  have "ctxEnd w1 = Some e" using r assms(2) by (simp add: sameContext_def ctxEnd_def)
  with r waitEndError_cases[of w1 shown] show ?thesis by auto
qed

lemma WaitForReady_timed: "0 < timeout \<Longrightarrow> WaitForReady pick c timeout w = map_option (\<lambda>(e, w1). (e, w1\<lparr>td_deadline := td_deadline w\<rparr>))
    (readyLoop pick c (Duration_String timeout) (td_now w + 5 * second) (withTimeout timeout w))"
  by (simp only: WaitForReady_def if_True)

lemma withTimeout_machine [simp]: "td_machine (withTimeout timeout w) = td_machine w"
  by (simp add: withTimeout_def)

lemma withTimeout_ends: "\<exists>e. ctxEnd (withTimeout timeout w) = Some e"
  by (auto simp: withTimeout_def ctxEnd_def split: option.split)


text \<open>
  A node that becomes ready after two failed checks, and one that never does: with a timeout of one second
  the first wait ends without an error only when the node is ready in time.
\<close>

definition slowNode :: "nat Conn" where
  "slowNode = \<lparr>cn_NewSession = (\<lambda>m. ((Some 1000, None), m)),
     cn_Exec = (\<lambda>cmd m. ((Some 1000, [], [], if m = 0 then None else Some (ErrText ''exit status 1'')), m - 1)),
     cn_Partial = (\<lambda>m. ([], [])), cn_Signal = id, cn_CloseSession = id, cn_Close = (\<lambda>m. (None, m))\<rparr>"

definition atStart :: "'m \<Rightarrow> 'm timed" where
  "atStart m = \<lparr>td_now = 1, td_deadline = None, td_cancelled = None, td_ties = (\<lambda>_. 0), td_machine = m\<rparr>"


section \<open>Dial\<close>

text \<open>The waits of a \<open>Dial\<close> whose attempts all fail: one after each, the last one included.\<close>

lemma dialBackoff_values: "dialBackoff 0 = second" "dialBackoff 1 = 2 * second" "dialBackoff 2 = 4 * second"
    "3 \<le> n \<Longrightarrow> dialBackoff n = 5 * second"
proof -
  assume "3 \<le> n"
  then have "(2::int) ^ 3 \<le> 2 ^ min n 4" by (intro power_increasing) auto
  then show "dialBackoff n = 5 * second" by (simp add: dialBackoff_def)
qed (simp_all add: dialBackoff_def)

lemma dialBackoff_sum: "3 \<le> n \<Longrightarrow> (\<Sum>k<n. dialBackoff k) = (5 * int n - 8) * second"
proof (induction n rule: nat_induct_at_least)
  case base
  show ?case by (simp add: numeral_3_eq_3 dialBackoff_values(1-3)[unfolded One_nat_def numeral_2_eq_2])
next
  case (Suc n)
  then show ?case by (simp add: dialBackoff_values(4) algebra_simps)
qed

text \<open>The sleeping of a run, when nothing else moves the clock of the state.\<close>

lemma dialLoop_sleeps:
  assumes fails: "\<And>m. \<exists>e. dialAttempt net addr user m = (Inl e, m)"
    and sleep: "\<And>d m. clock (tn_Sleep net d m) = clock m + d"
  shows "clock (snd (dialLoop net addr user n k e m)) = clock m + (\<Sum>i<k. dialBackoff (n + i))"
proof (induction k arbitrary: n e m)
  case (Suc k)
  obtain x where x: "dialAttempt net addr user m = (Inl x, m)" using fails by blast
  have "(\<Sum>i<Suc k. dialBackoff (n + i)) = dialBackoff n + (\<Sum>i<k. dialBackoff (Suc n + i))"
    by (simp add: sum.lessThan_Suc_shift del: sum.lessThan_Suc)
  with Suc.IH[of "Suc n"] show ?case by (simp add: x sleep)
qed simp

lemma Dial_state: "snd (Dial net host user maxRetries m) = snd (dialLoop net (host @ '':22'') user 0 (nat (dialRetries maxRetries)) None m)"
  by (simp add: Dial_def Let_def split: prod.split sum.split option.split)

lemma Dial_default_sleeps:
  assumes "\<And>m. \<exists>e. dialAttempt net (host @ '':22'') user m = (Inl e, m)"
    and "\<And>d m. clock (tn_Sleep net d m) = clock m + d" and "maxRetries \<le> 0"
  shows "clock (snd (Dial net host user maxRetries m)) = clock m + 592 * second"
  using dialLoop_sleeps[where net=net and addr="host @ '':22''" and user=user and clock=clock and n=0 and k=120 and e=None and m=m, OF assms(1,2)]
    dialBackoff_sum[of 120] assms(3)
  by (simp add: Dial_state dialRetries_def)

end
