(* ===== verification/Logger.thy ===== *)
theory Logger
  imports Go_Fmt
begin

text \<open>
  Package internal/logger: the lines a logger writes, and the writer it puts between Pulumi and the log. The
  log is the list of its lines, without the time stamp the standard logger puts in front; the format and its
  arguments are the text they give. The writer keeps the text of an unfinished line between two writes.
\<close>

section \<open>Log lines\<close>

definition padTo :: "nat \<Rightarrow> string \<Rightarrow> string" where
  "padTo n s = s @ replicate (n - length s) (CHR '' '')"

definition leftPadTo :: "nat \<Rightarrow> string \<Rightarrow> string" where
  "leftPadTo n s = replicate (n - length s) (CHR '' '') @ s"

definition newLogger :: "string \<Rightarrow> string" where
  "newLogger provider = ''['' @ padTo 5 provider @ '']''"

definition Infof :: "string \<Rightarrow> string \<Rightarrow> string list \<Rightarrow> string list" where
  "Infof pfx msg out = out @ [pfx @ '' '' @ msg]"

definition Warnf :: "string \<Rightarrow> string \<Rightarrow> string list \<Rightarrow> string list" where
  "Warnf pfx msg out = out @ [pfx @ '' WARN  '' @ msg]"

definition Errf :: "string \<Rightarrow> string \<Rightarrow> string list \<Rightarrow> string list" where
  "Errf pfx msg out = out @ [pfx @ '' ERROR '' @ msg]"

definition logStep :: "string \<Rightarrow> string \<Rightarrow> string \<Rightarrow> string list \<Rightarrow> string list" where
  "logStep pfx phase detail out = out @ [pfx @ '' '' @ padTo 12 phase @ '' '' @ detail]"

definition logResult :: "string \<Rightarrow> string \<Rightarrow> real \<Rightarrow> int \<Rightarrow> string list \<Rightarrow> string list" where
  "logResult pfx label bwMbps retransmits out = out @ [pfx @ ''   '' @ padTo 28 label @ '' '' @ leftPadTo 8 (fmtFixed 1 bwMbps)
     @ '' Mbps  '' @ string_of_int retransmits @ '' retransmits'']"

section \<open>The writer of Pulumi's progress\<close>

record pulumiWriter =
  pw_prefix :: string
  pw_buf :: string

definition Writer :: "string \<Rightarrow> pulumiWriter" where
  "Writer pfx = \<lparr>pw_prefix = pfx, pw_buf = []\<rparr>"

definition isNoisy :: "string \<Rightarrow> bool" where
  "isNoisy line = (let trimmed = TrimSpace (dropWhile (\<lambda>c. c = CHR ''.'' \<or> c = CHR ''@'') line) in
     if trimmed = [] \<or> HasPrefix trimmed ''updating'' \<or> HasPrefix trimmed ''destroying'' then True
     else HasPrefix trimmed ''Downloading'')"

definition logLine :: "string \<Rightarrow> string \<Rightarrow> string list \<Rightarrow> string list" where
  "logLine pfx text out = (let line = TrimSpace text in
     if line = [] then out else if isNoisy line then out else out @ [pfx @ '' pulumi: '' @ line])"

lemma Cut_shorter: "Cut c s = (a, b, True) \<Longrightarrow> length b < length s"
  by (induction s arbitrary: a) (auto split: if_splits prod.splits)

text \<open>The loop of \<^verbatim>\<open>Write\<close>: every complete line of the buffer is taken off and logged.\<close>

function drainLines :: "string \<Rightarrow> string \<Rightarrow> string list \<Rightarrow> string \<times> string list" where
  "drainLines pfx buf out = (case Cut (CHR 0x0A) buf of (line, rest, found) \<Rightarrow>
     if \<not> found then (buf, out) else drainLines pfx rest (logLine pfx line out))"
  by pat_completeness auto
termination
  by (relation "measure (\<lambda>(_, buf, _). length buf)") (auto dest: Cut_shorter[OF sym])

declare drainLines.simps [simp del]

definition pulumiWrite :: "string \<Rightarrow> pulumiWriter \<times> string list \<Rightarrow> pulumiWriter \<times> string list" where
  "pulumiWrite p st = (case st of (w, out) \<Rightarrow> (case drainLines (pw_prefix w) (pw_buf w @ p) out of
     (buf, log1) \<Rightarrow> (w\<lparr>pw_buf := buf\<rparr>, log1)))"

section \<open>The log does not depend on how the output is cut into writes\<close>

text \<open>The reference: the complete lines of the whole text are logged in order, and the rest is kept.\<close>

definition shownLine :: "string \<Rightarrow> string \<Rightarrow> string option" where
  "shownLine pfx text = (let line = TrimSpace text in
     if line = [] \<or> isNoisy line then None else Some (pfx @ '' pulumi: '' @ line))"

definition loggedText :: "string \<Rightarrow> string \<Rightarrow> string \<times> string list" where
  "loggedText pfx text = (let lines = Split (CHR 0x0A) text in (last lines, List.map_filter (shownLine pfx) (butlast lines)))"

lemma logLine_shown: "logLine pfx text out = out @ (case shownLine pfx text of None \<Rightarrow> [] | Some l \<Rightarrow> [l])"
  by (simp add: logLine_def shownLine_def Let_def)

lemma Cut_Split: "Split c s = (case Cut c s of (a, b, found) \<Rightarrow> if found then a # Split c b else [s])"
  by (induction s) (auto split: prod.splits)

lemma drainLines_text: "drainLines pfx buf out = (fst (loggedText pfx buf), out @ snd (loggedText pfx buf))"
proof (induction pfx buf out rule: drainLines.induct)
  case (1 pfx buf out)
  obtain a b found where cut: "Cut (CHR 0x0A) buf = (a, b, found)" by (metis prod.exhaust)
  show ?case
  proof (cases found)
    case True
    then have "drainLines pfx buf out = (fst (loggedText pfx b), logLine pfx a out @ snd (loggedText pfx b))"
      using 1[OF cut[symmetric] refl] cut by (simp add: drainLines.simps[of pfx buf])
    with cut True show ?thesis
      by (simp add: loggedText_def Cut_Split[of _ buf] logLine_shown Let_def List.map_filter_simps split: option.split)
  next
    case False
    with cut show ?thesis by (simp add: drainLines.simps[of pfx buf] loggedText_def Cut_Split[of _ buf] List.map_filter_simps)
  qed
qed

lemma Split_append: "Split c (a @ b) = butlast (Split c a) @ Split c (last (Split c a) @ b)"
  by (induction a) (auto split: list.splits)

lemma map_filter_append: "List.map_filter f (xs @ ys) = List.map_filter f xs @ List.map_filter f ys"
  by (induction xs) (simp_all add: List.map_filter_simps split: option.split)

lemma loggedText_append:
  "loggedText pfx (a @ b) = (let r = loggedText pfx a; r2 = loggedText pfx (fst r @ b) in (fst r2, snd r @ snd r2))"
  by (simp add: loggedText_def Let_def Split_append[of _ a b] butlast_append map_filter_append)

text \<open>
  C0: however Pulumi cuts its output into writes, the log holds exactly the lines the whole output has: the
  complete ones that are neither blank nor progress noise, in order, each once; the text after the last line
  break stays in the buffer.
\<close>

theorem pulumiWrite_chunks:
  "fold pulumiWrite chunks (Writer pfx, out) =
     ((Writer pfx)\<lparr>pw_buf := fst (loggedText pfx (concat chunks))\<rparr>, out @ snd (loggedText pfx (concat chunks)))"
proof (induction chunks rule: rev_induct)
  case Nil
  show ?case by (simp add: Writer_def loggedText_def List.map_filter_simps)
next
  case (snoc p chunks)
  then show ?case
    by (simp add: pulumiWrite_def drainLines_text loggedText_append[of pfx "concat chunks" p] Writer_def Let_def)
qed

end
