(* ===== verification/Pulumi.thy ===== *)
theory Pulumi
  imports Orch_Run
begin

text \<open>
  What the cloud providers of internal/provider share: names scoped to a run (run_scope.go), the working
  directory of a backend (backend.go), the key pair of a run (sshkey.go), and the calls of the Pulumi
  Automation API that every provider makes in the same order. Pulumi itself is an argument, over the state
  of the cloud; an infrastructure program is the list of resources it declares with their arguments, and a
  failure to create one of them is a failure of the update that runs the program.
\<close>

section \<open>Names of a run\<close>

definition isLetter :: "char \<Rightarrow> bool" where
  "isLetter c \<longleftrightarrow> (let n = (of_char c :: nat) in 65 \<le> n \<and> n \<le> 90 \<or> 97 \<le> n \<and> n \<le> 122)"

text \<open>The loop over the characters: letters and digits are kept, a run of anything else is one dash.\<close>

fun safeChars :: "bool \<Rightarrow> string \<Rightarrow> string" where
  "safeChars previousDash [] = []"
| "safeChars previousDash (c # cs) = (if isLetter c \<or> isDigit c then c # safeChars False cs
     else if previousDash then safeChars True cs else CHR ''-'' # safeChars True cs)"

definition trimDashes :: "string \<Rightarrow> string" where
  "trimDashes s = rev (dropWhile (\<lambda>c. c = CHR ''-'') (rev (dropWhile (\<lambda>c. c = CHR ''-'') s)))"

definition runSuffix :: "string \<Rightarrow> string" where
  "runSuffix runID = (let i = LastIndex (CHR ''_'') runID;
       v = (if 0 \<le> i \<and> i + 1 < int (length runID) then drop (nat (i + 1)) runID else runID) in
     trimDashes (safeChars False (ToLower v)))"

definition scopedName :: "string \<Rightarrow> string \<Rightarrow> string" where
  "scopedName base runID = (let suffix = runSuffix runID in if suffix = [] then base else base @ ''-'' @ suffix)"

text \<open>\<^verbatim>\<open>strings.ReplaceAll\<close> of one character by another.\<close>

definition replaceChar :: "char \<Rightarrow> char \<Rightarrow> string \<Rightarrow> string" where
  "replaceChar a b s = map (\<lambda>c. if c = a then b else c) s"

definition dashed :: "string \<Rightarrow> string" where
  "dashed instanceType = replaceChar (CHR ''.'') (CHR ''-'') instanceType"

definition dashedBoth :: "string \<Rightarrow> string" where
  "dashedBoth instanceType = replaceChar (CHR ''_'') (CHR ''-'') (replaceChar (CHR ''.'') (CHR ''-'') instanceType)"

section \<open>Infrastructure programs\<close>

text \<open>
  A value given to a resource: a constant, a list, named fields, the output of a resource of the program (by
  its name in the program) and the result of a look-up.
\<close>

datatype pinput =
    PStr string
  | PInt int
  | PBool bool
  | PList "pinput list"
  | PMap "(string \<times> pinput) list"
  | POut string string
  | PLookup string "(string \<times> pinput) list" string

record Declared =
  de_Kind :: string
  de_Name :: string
  de_Args :: "(string \<times> pinput) list"

record Program =
  pg_Resources :: "Declared list"
  pg_Exports :: "(string \<times> pinput) list"

definition declared :: "string \<Rightarrow> string \<Rightarrow> (string \<times> pinput) list \<Rightarrow> Declared" where
  "declared kind name args = \<lparr>de_Kind = kind, de_Name = name, de_Args = args\<rparr>"

definition emptyProgram :: Program where
  "emptyProgram = \<lparr>pg_Resources = [], pg_Exports = []\<rparr>"

section \<open>The Automation API\<close>

record Workspace =
  ws_Project :: string
  ws_Backend :: string
  ws_WorkDir :: path
  ws_Env :: "(string \<times> string) list"

text \<open>
  Stacks are named within the project of the workspace. \<open>pl_Up\<close> has the program and whether it refreshes
  first, \<open>pl_Destroy\<close> whether it goes on after an error; the outputs are those of the update, in which a
  string is \<open>PStr\<close>.
\<close>

type_synonym outputs = "(string \<times> pinput) list"

record 'c Pulumi =
  pl_Upsert :: "Workspace \<Rightarrow> string \<Rightarrow> 'c errEff"
  pl_Select :: "Workspace \<Rightarrow> string \<Rightarrow> 'c errEff"
  pl_Is404 :: "go_error \<Rightarrow> bool"
  pl_SetConfig :: "string \<Rightarrow> string \<Rightarrow> string \<Rightarrow> 'c errEff"
  pl_Up :: "string \<Rightarrow> Program \<Rightarrow> bool \<Rightarrow> ('c, outputs) eff"
  pl_Cancel :: "string \<Rightarrow> 'c errEff"
  pl_Destroy :: "string \<Rightarrow> bool \<Rightarrow> 'c errEff"
  pl_RemoveStack :: "string \<Rightarrow> 'c errEff"

definition getOutput :: "outputs \<Rightarrow> string \<Rightarrow> string" where
  "getOutput outs key = (case map_of outs key of Some (PStr s) \<Rightarrow> s | _ \<Rightarrow> [])"

definition onCloud :: "('c \<Rightarrow> 'a \<times> 'c) \<Rightarrow> ('c, 'm, 'd, 'r) system \<Rightarrow> 'a \<times> ('c, 'm, 'd, 'r) system" where
  "onCloud f s = (case f (y_cloud s) of (x, c) \<Rightarrow> (x, s\<lparr>y_cloud := c\<rparr>))"

text \<open>A call whose error is wrapped in a text.\<close>

definition failing :: "string \<Rightarrow> 's errEff \<Rightarrow> ('s, unit) eff" where
  "failing msg m = ewrap (\<lambda>e. Wrapf msg e []) (echeck m)"

section \<open>The working directory\<close>

definition workDirPath :: "string \<Rightarrow> string \<Rightarrow> path" where
  "workDirPath backendURL providerName = (case CutPrefix backendURL ''file://'' of (dir, isFile) \<Rightarrow>
     if isFile then Clean dir else Clean (path_string (filepath_Join [''.tailbench'', ''pulumi'', providerName])))"

definition WorkDir :: "string \<Rightarrow> string \<Rightarrow> 'd world \<Rightarrow> path \<times> 'd world" where
  "WorkDir backendURL providerName w = (workDirPath backendURL providerName, snd (os_MkdirAll (workDirPath backendURL providerName) w))"

definition projectOpts :: "string \<Rightarrow> string \<Rightarrow> (('c, 'm, 'd, 'r) system, Workspace) eff" where
  "projectOpts stateDir providerName = ebind (elift (onFiles (WorkDir stateDir providerName))) (\<lambda>dir.
     eret \<lparr>ws_Project = ''tailbench'', ws_Backend = stateDir, ws_WorkDir = dir, ws_Env = [(''PULUMI_CONFIG_PASSPHRASE'', [])]\<rparr>)"

section \<open>Creating and destroying a stack\<close>

fun setConfigs :: "'c Pulumi \<Rightarrow> string \<Rightarrow> (string \<times> string) list \<Rightarrow> (('c, 'm, 'd, 'r) system, unit) eff" where
  "setConfigs pl stack [] = eret ()"
| "setConfigs pl stack ((k, v) # kvs) = ebind (failing (''set '' @ k @ '': '') (onCloud (pl_SetConfig pl stack k v))) (\<lambda>_. setConfigs pl stack kvs)"

definition upStack :: "'c Pulumi \<Rightarrow> string \<Rightarrow> string \<Rightarrow> string \<Rightarrow> string \<Rightarrow> string \<Rightarrow> (string \<times> string) list \<Rightarrow> Program \<Rightarrow> bool \<Rightarrow>
    (('c, 'm, 'd, 'r) system, outputs) eff" where
  "upStack pl stateDir providerName stack createMsg upMsg configs program refresh =
     ebind (projectOpts stateDir providerName) (\<lambda>ws.
     ebind (failing createMsg (onCloud (pl_Upsert pl ws stack))) (\<lambda>_.
     ebind (setConfigs pl stack configs) (\<lambda>_.
     ewrap (\<lambda>e. Wrapf upMsg e []) (onCloud (pl_Up pl stack program refresh)))))"

text \<open>Selecting a stack: \<open>False\<close> when there is none.\<close>

definition selectStack :: "'c Pulumi \<Rightarrow> string \<Rightarrow> string \<Rightarrow> string \<Rightarrow> string \<Rightarrow> (('c, 'm, 'd, 'r) system, bool) eff" where
  "selectStack pl stateDir providerName stack selectMsg =
     ebind (projectOpts stateDir providerName) (\<lambda>ws. ebind (elift (onCloud (pl_Select pl ws stack))) (\<lambda>err. case err of
       None \<Rightarrow> eret True
     | Some e \<Rightarrow> if pl_Is404 pl e then eret False else efail (Wrapf selectMsg e [])))"

definition destroyPairStack :: "'c Pulumi \<Rightarrow> string \<Rightarrow> string \<Rightarrow> string \<Rightarrow> (('c, 'm, 'd, 'r) system) errEff" where
  "destroyPairStack pl stateDir providerName stack =
     eerr (ebind (selectStack pl stateDir providerName stack (''select stack '' @ stack @ '': '')) (\<lambda>found. if \<not> found then eret () else
       ebind (failing (''cancel stack '' @ stack @ '': '') (onCloud (pl_Cancel pl stack))) (\<lambda>_.
       ebind (failing (''destroy stack '' @ stack @ '': '') (onCloud (pl_Destroy pl stack True))) (\<lambda>_.
       failing (''remove stack '' @ stack @ '': '') (onCloud (pl_RemoveStack pl stack))))))"

definition teardownStack :: "'c Pulumi \<Rightarrow> string \<Rightarrow> string \<Rightarrow> string \<Rightarrow> string \<Rightarrow> string \<Rightarrow> (('c, 'm, 'd, 'r) system) errEff" where
  "teardownStack pl stateDir providerName stack selectMsg destroyMsg =
     eerr (ebind (selectStack pl stateDir providerName stack selectMsg) (\<lambda>found. if \<not> found then eret () else
       ebind (failing destroyMsg (onCloud (pl_Destroy pl stack False))) (\<lambda>_.
       echeck (onCloud (pl_RemoveStack pl stack)))))"

section \<open>The SSH key of a run\<close>

text \<open>
  The cryptographic packages: a key from a random number, its PEM form, the line of its public half, and
  reading the public half back from a PEM file.
\<close>

record ('k, 'd) SSHKeys =
  ky_Generate :: "nat \<Rightarrow> go_error + 'k"
  ky_Marshal :: "'k \<Rightarrow> go_error + 'd content"
  ky_Public :: "'k \<Rightarrow> go_error + string"
  ky_Parse :: "'d content \<Rightarrow> go_error + string"

definition SSHKeyPath :: "string \<Rightarrow> string \<Rightarrow> path" where
  "SSHKeyPath rootDir keyName = filepath_Join [rootDir, ''.tailbench/ssh'', keyName @ ''.pem'']"

definition lift_sum :: "string \<Rightarrow> go_error + 'a \<Rightarrow> ('s, 'a) eff" where
  "lift_sum msg r = (case r of Inl e \<Rightarrow> efail (Wrapf msg e []) | Inr x \<Rightarrow> eret x)"

definition randomKey :: "('k, 'd) SSHKeys \<Rightarrow> 'd world \<Rightarrow> (go_error + 'k) \<times> 'd world" where
  "randomKey ky w = (ky_Generate ky (w_rand w (w_draws w)), w\<lparr>w_draws := w_draws w + 1\<rparr>)"

definition generateSSHKey :: "('k, 'd) SSHKeys \<Rightarrow> path \<Rightarrow> ('d, string) io" where
  "generateSSHKey ky keyPath =
     ebind (ewrap (\<lambda>e. Wrapf ''generate SSH key: '' e []) (randomKey ky)) (\<lambda>key.
     ebind (lift_sum ''marshal SSH key: '' (ky_Marshal ky key)) (\<lambda>pem.
     ebind (ewrap (\<lambda>e. Wrapf ''create SSH key directory: '' e []) (os_MkdirAll (path_parent keyPath))) (\<lambda>_.
     ebind (ewrap (\<lambda>e. Wrapf (''write SSH key '' @ path_string keyPath @ '': '') e []) (os_WriteFile keyPath pem)) (\<lambda>_.
     lift_sum ''derive SSH public key: '' (ky_Public ky key)))))"

definition EnsureSSHKey :: "('k, 'd) SSHKeys \<Rightarrow> string \<Rightarrow> string \<Rightarrow> ('d, string) io" where
  "EnsureSSHKey ky rootDir keyName = (let keyPath = SSHKeyPath rootDir keyName in
     ebind (ecatch (os_ReadFile keyPath)) (\<lambda>r. case r of
       Inr data \<Rightarrow> lift_sum (''parse existing SSH key '' @ path_string keyPath @ '': '') (ky_Parse ky data)
     | Inl e \<Rightarrow> if \<not> errors_Is e ErrNotExist then efail (Wrapf (''read SSH key '' @ path_string keyPath @ '': '') e [])
         else generateSSHKey ky keyPath))"

definition ResolveSSHPublicKey :: "('k, 'd) SSHKeys \<Rightarrow> string \<Rightarrow> string \<Rightarrow> string \<Rightarrow> ('d, string) io" where
  "ResolveSSHPublicKey ky rootDir keyName configured = (let trimmed = TrimSpace configured in
     if trimmed \<noteq> [] then eret trimmed
     else ebind (EnsureSSHKey ky rootDir keyName) (\<lambda>generated. eret (TrimSpace generated)))"

text \<open>The error of the VM providers' \<^verbatim>\<open>resolveSSHPubKey\<close>.\<close>

definition resolveSSHPubKey :: "('k, 'd) SSHKeys \<Rightarrow> string \<Rightarrow> string \<Rightarrow> (('c, 'm, 'd, 'r) system, string) eff" where
  "resolveSSHPubKey ky runID configured =
     ewrap (\<lambda>e. Wrapf ''prepare SSH key: '' e []) (onFiles (ResolveSSHPublicKey ky ''.'' (scopedName ''tailbench'' runID) configured))"

end
