(* ===== verification/Provider_AWS.thy ===== *)
theory Provider_AWS
  imports Pulumi
begin

text \<open>
  The EC2 provider (internal/provider/aws.go and aws_instances.go): its stacks, the programs of the network
  and of a pair of machines, and the provider interface it fills in. The resources are listed in the order
  the code declares them, with the arguments the code gives; the exports are those read back afterwards.
\<close>

record AWSProvider =
  aw_Region :: string
  aw_AZ :: string
  aw_KeyName :: string
  aw_SSHUser :: string
  aw_StateDir :: string
  aw_RunID :: string
  aw_ExpiresAt :: string

definition aws_networkStackName :: "AWSProvider \<Rightarrow> string" where
  "aws_networkStackName p = (let suffix = runSuffix (aw_RunID p) in
     if suffix \<noteq> [] then ''tailbench-aws-networking-'' @ suffix else ''tailbench-aws-networking'')"

definition aws_pairStackName :: "AWSProvider \<Rightarrow> string \<Rightarrow> string" where
  "aws_pairStackName p instanceType = (let name = ''tailbench-aws-'' @ dashed instanceType; suffix = runSuffix (aw_RunID p) in
     if suffix \<noteq> [] then name @ ''-'' @ suffix else name)"

definition aws_resourceTags :: "AWSProvider \<Rightarrow> string \<Rightarrow> pinput" where
  "aws_resourceTags p name = PMap ([(''Project'', PStr ''tailbench''), (''TailbenchProvider'', PStr ''aws'')]
     @ (if name \<noteq> [] then [(''Name'', PStr name)] else [])
     @ (if aw_RunID p \<noteq> [] then [(''TailbenchRunID'', PStr (aw_RunID p))] else [])
     @ (if aw_ExpiresAt p \<noteq> [] then [(''TailbenchExpiresAt'', PStr (aw_ExpiresAt p))] else []))"

section \<open>Networking\<close>

definition aws_ingress :: "string \<Rightarrow> int \<Rightarrow> string \<Rightarrow> pinput" where
  "aws_ingress protocol port description = PMap [(''Protocol'', PStr protocol), (''FromPort'', PInt port), (''ToPort'', PInt port),
     (''CidrBlocks'', PList [PStr ''0.0.0.0/0'']), (''Description'', PStr description)]"

definition aws_ingressRules :: "pinput list" where
  "aws_ingressRules =
    [aws_ingress ''tcp'' 22 ''SSH'',
     aws_ingress ''udp'' 41641 ''WireGuard'',
     aws_ingress ''tcp'' 15201 ''iperf3 control (forwarding-pps sink, routed via exit node)'',
     aws_ingress ''udp'' 15201 ''iperf3 UDP data (forwarding-pps sink, routed via exit node)'',
     aws_ingress ''udp'' 41642 ''Tailscale peer-relay (relay-throughput benchmark)'',
     PMap [(''Protocol'', PStr ''-1''), (''FromPort'', PInt 0), (''ToPort'', PInt 0), (''Self'', PBool True), (''Description'', PStr ''Internal'')]]"

definition aws_networkProgram :: "AWSProvider \<Rightarrow> string \<Rightarrow> string \<Rightarrow> Program" where
  "aws_networkProgram p generatedKeyName authorizedKey =
    (let tags = (\<lambda>name. (''Tags'', aws_resourceTags p name)); vpc = (''VpcId'', POut ''tailbench-vpc'' ''ID'') in
     \<lparr>pg_Resources = (if generatedKeyName \<noteq> [] then [declared ''ec2.KeyPair'' ''tailbench-keypair''
         [(''KeyName'', PStr generatedKeyName), (''PublicKey'', PStr authorizedKey), tags generatedKeyName]] else [])
       @ [declared ''ec2.Vpc'' ''tailbench-vpc'' [(''CidrBlock'', PStr ''10.0.0.0/16''), (''EnableDnsHostnames'', PBool True),
            (''EnableDnsSupport'', PBool True), tags ''tailbench-vpc''],
          declared ''ec2.Subnet'' ''tailbench-subnet'' [vpc, (''CidrBlock'', PStr ''10.0.1.0/24''), (''AvailabilityZone'', PStr (aw_AZ p)),
            (''MapPublicIpOnLaunch'', PBool True), tags ''tailbench-subnet''],
          declared ''ec2.InternetGateway'' ''tailbench-igw'' [vpc, tags ''tailbench-igw''],
          declared ''ec2.RouteTable'' ''tailbench-rtb'' [vpc, (''Routes'', PList [PMap [(''CidrBlock'', PStr ''0.0.0.0/0''),
            (''GatewayId'', POut ''tailbench-igw'' ''ID'')]]), tags ''tailbench-rtb''],
          declared ''ec2.RouteTableAssociation'' ''tailbench-rtb-assoc'' [(''SubnetId'', POut ''tailbench-subnet'' ''ID''),
            (''RouteTableId'', POut ''tailbench-rtb'' ''ID'')],
          declared ''ec2.SecurityGroup'' ''tailbench-sg'' [(''Name'', PStr ''tailbench-sg''),
            (''Description'', PStr ''tailbench benchmark security group''), vpc, (''Ingress'', PList aws_ingressRules),
            (''Egress'', PList [PMap [(''Protocol'', PStr ''-1''), (''FromPort'', PInt 0), (''ToPort'', PInt 0),
              (''CidrBlocks'', PList [PStr ''0.0.0.0/0''])]]), tags ''tailbench-sg''],
          declared ''ec2.PlacementGroup'' ''tailbench-pg'' [(''Strategy'', PStr ''cluster''), tags ''tailbench-pg'']],
      pg_Exports = [(''vpc_id'', POut ''tailbench-vpc'' ''ID''), (''subnet_id'', POut ''tailbench-subnet'' ''ID''),
        (''sg_id'', POut ''tailbench-sg'' ''ID''), (''placement_group_name'', POut ''tailbench-pg'' ''Name''),
        (''key_name'', PStr (if aw_KeyName p = [] then generatedKeyName else aw_KeyName p))]\<rparr>)"

text \<open>The generated key name and its public line: both empty when a key pair is configured.\<close>

definition aws_generatedKey :: "('k, 'd) SSHKeys \<Rightarrow> AWSProvider \<Rightarrow> (('c, 'm, 'd, 'r) system, string \<times> string) eff" where
  "aws_generatedKey ky p = (if aw_KeyName p \<noteq> [] then eret ([], [])
     else let name = scopedName ''tailbench'' (aw_RunID p) in
       ebind (ewrap (\<lambda>e. Wrapf ''prepare SSH key pair: '' e []) (onFiles (EnsureSSHKey ky ''.'' name))) (\<lambda>authorizedKey.
         eret (name, authorizedKey)))"

definition aws_networkingOutput :: "string \<Rightarrow> outputs \<Rightarrow> NetworkingOutput" where
  "aws_networkingOutput stackName outs = \<lparr>
     no_Values = map (\<lambda>k. (k, getOutput outs k)) [''vpc_id'', ''subnet_id'', ''sg_id'', ''placement_group_name'', ''key_name''],
     no_StackName = stackName, no_ProviderID = getOutput outs ''vpc_id''\<rparr>"

definition aws_SetupNetworking :: "'c Pulumi \<Rightarrow> ('k, 'd) SSHKeys \<Rightarrow> AWSProvider \<Rightarrow> (('c, 'm, 'd, 'r) system, NetworkingOutput) eff" where
  "aws_SetupNetworking pl ky p = (let stackName = aws_networkStackName p in
     ebind (aws_generatedKey ky p) (\<lambda>(generatedKeyName, authorizedKey).
     ebind (upStack pl (aw_StateDir p) ''aws'' stackName (''create stack '' @ stackName @ '': '') (''stack up '' @ stackName @ '': '')
       [(''aws:region'', aw_Region p)] (aws_networkProgram p generatedKeyName authorizedKey) True) (\<lambda>outs.
     eret (aws_networkingOutput stackName outs))))"

section \<open>A pair of machines\<close>

text \<open>The value of a networking output: empty when it is missing.\<close>

definition netValue :: "NetworkingOutput \<Rightarrow> string \<Rightarrow> string" where
  "netValue net key = (case map_of (no_Values net) key of None \<Rightarrow> [] | Some v \<Rightarrow> v)"

definition aws_serverName :: "string \<Rightarrow> string" where "aws_serverName t = ''tb-'' @ dashed t @ ''-server''"
definition aws_clientName :: "string \<Rightarrow> string" where "aws_clientName t = ''tb-'' @ dashed t @ ''-client''"
definition aws_routerName :: "string \<Rightarrow> string" where "aws_routerName t = ''tb-'' @ dashed t @ ''-router''"

definition aws_imageFilter :: "string \<Rightarrow> string" where
  "aws_imageFilter instanceType = (if IsGraviton instanceType then ''ubuntu/images/hvm-ssd-gp3/ubuntu-noble-24.04-arm64-server-*''
     else ''ubuntu/images/hvm-ssd-gp3/ubuntu-noble-24.04-amd64-server-*'')"

definition aws_ami :: "string \<Rightarrow> pinput" where
  "aws_ami instanceType = PLookup ''ec2.LookupAmi'' [(''MostRecent'', PBool True), (''Owners'', PList [PStr ''099720109477'']),
     (''Filters'', PList [PMap [(''Name'', PStr ''name''), (''Values'', PList [PStr (aws_imageFilter instanceType)])],
       PMap [(''Name'', PStr ''state''), (''Values'', PList [PStr ''available''])]])] ''Id''"

text \<open>What distinguishes the nodes of a pair: the server is the one that is neither client nor router.\<close>

definition nodeData :: "PairOptions \<Rightarrow> string \<Rightarrow> string \<Rightarrow> string \<Rightarrow> string" where
  "nodeData opts clientName routerName name = (if name = clientName then ClientUD opts
     else if name = routerName then RouterUD opts else po_UserData opts)"

definition nodePrefix :: "string \<Rightarrow> string \<Rightarrow> string \<Rightarrow> string" where
  "nodePrefix clientName routerName name = (if name = clientName then ''client'' else if name = routerName then ''router'' else ''server'')"

definition pairNodes :: "PairOptions \<Rightarrow> string \<Rightarrow> string \<Rightarrow> string \<Rightarrow> string list" where
  "pairNodes opts serverName clientName routerName = [serverName, clientName] @ (if po_WantRouter opts then [routerName] else [])"

definition aws_instance :: "AWSProvider \<Rightarrow> PairOptions \<Rightarrow> string \<Rightarrow> Declared" where
  "aws_instance p opts name = (let t = po_InstanceType opts; net = po_Networking opts in
     declared ''ec2.Instance'' name ([(''Ami'', aws_ami t), (''InstanceType'', PStr t),
       (''SubnetId'', PStr (netValue net ''subnet_id'')), (''VpcSecurityGroupIds'', PList [PStr (netValue net ''sg_id'')]),
       (''PlacementGroup'', PStr (netValue net ''placement_group_name'')),
       (''UserData'', PStr (nodeData opts (aws_clientName t) (aws_routerName t) name)),
       (''RootBlockDevice'', PMap [(''VolumeSize'', PInt 50), (''VolumeType'', PStr ''gp3'')]),
       (''Tags'', aws_resourceTags p name)]
      @ (if netValue net ''key_name'' \<noteq> [] then [(''KeyName'', PStr (netValue net ''key_name''))] else [])))"

definition aws_pairProgram :: "AWSProvider \<Rightarrow> PairOptions \<Rightarrow> Program" where
  "aws_pairProgram p opts = (let t = po_InstanceType opts; nodes = pairNodes opts (aws_serverName t) (aws_clientName t) (aws_routerName t) in
     \<lparr>pg_Resources = map (aws_instance p opts) nodes,
      pg_Exports = concat (map (\<lambda>name. let pre = nodePrefix (aws_clientName t) (aws_routerName t) name in
        [(pre @ ''_ip'', POut name ''PublicIp''), (pre @ ''_lan_ip'', POut name ''PrivateIp''),
         (pre @ ''_instance_id'', POut name ''ID''), (pre @ ''_eni_id'', POut name ''PrimaryNetworkInterfaceId'')]) nodes)\<rparr>)"

definition aws_pairOutput :: "PairOptions \<Rightarrow> string \<Rightarrow> outputs \<Rightarrow> PairOutput" where
  "aws_pairOutput opts stackName outs = (let t = po_InstanceType opts; out = getOutput outs; router = (\<lambda>v. if po_WantRouter opts then v else []) in \<lparr>
     pt_ServerName = aws_serverName t, pt_ClientName = aws_clientName t, pt_ServerIP = out ''server_ip'', pt_ClientIP = out ''client_ip'',
     pt_ServerLANIP = out ''server_lan_ip'', pt_ClientLANIP = out ''client_lan_ip'', pt_StackName = stackName,
     pt_ServerInstanceID = out ''server_instance_id'', pt_ClientInstanceID = out ''client_instance_id'',
     pt_ServerENIID = out ''server_eni_id'', pt_ClientENIID = out ''client_eni_id'',
     pt_RouterName = router (aws_routerName t), pt_RouterIP = router (out ''router_ip''), pt_RouterLANIP = router (out ''router_lan_ip''),
     pt_RouterInstanceID = router (out ''router_instance_id''), pt_Namespace = [], pt_Kubeconfig = []\<rparr>)"

definition aws_CreatePair :: "'c Pulumi \<Rightarrow> AWSProvider \<Rightarrow> PairOptions \<Rightarrow> (('c, 'm, 'd, 'r) system, PairOutput) eff" where
  "aws_CreatePair pl p opts = (let stackName = aws_pairStackName p (po_InstanceType opts) in
     ebind (upStack pl (aw_StateDir p) ''aws'' stackName (''create stack '' @ stackName @ '': '') (''stack up '' @ stackName @ '': '')
       [(''aws:region'', aw_Region p)] (aws_pairProgram p opts) True) (\<lambda>outs. eret (aws_pairOutput opts stackName outs)))"

definition aws_DestroyPair :: "'c Pulumi \<Rightarrow> AWSProvider \<Rightarrow> string \<Rightarrow> ('c, 'm, 'd, 'r) system errEff" where
  "aws_DestroyPair pl p instanceType = destroyPairStack pl (aw_StateDir p) ''aws'' (aws_pairStackName p instanceType)"

definition aws_TeardownNetworking :: "'c Pulumi \<Rightarrow> AWSProvider \<Rightarrow> ('c, 'm, 'd, 'r) system errEff" where
  "aws_TeardownNetworking pl p = (let stackName = aws_networkStackName p in
     teardownStack pl (aw_StateDir p) ''aws'' stackName (''select stack '' @ stackName @ '': '') (''destroy stack '' @ stackName @ '': ''))"

section \<open>Instance types\<close>

definition listAWSFamilies :: "string list" where
  "listAWSFamilies = [''c8gn'', ''c6in'', ''c7i'', ''c7gn'', ''c8g'', ''c6i'', ''m6i'', ''c7g'', ''m7g'']"

text \<open>
  The AWS command line: a call with its arguments gives the output or an error. The answer to the listing is
  decoded into rows of JSON values, of which the code reads the first as a string and the second as a number.
  \<^verbatim>\<open>strconv.Atoi\<close> gives a number next to its error.
\<close>

record 's CloudCLI =
  cl_Output :: "string \<Rightarrow> string list \<Rightarrow> ('s, string) eff"
  cl_Rows :: "string \<Rightarrow> go_error + string list list"
  cl_String :: "string \<Rightarrow> string option"
  cl_Int :: "string \<Rightarrow> int option"
  cl_Atoi :: "string \<Rightarrow> int \<times> go_error option"

text \<open>\<^verbatim>\<open>sort.Slice\<close> by the number of processors; equal ones in an order the library does not fix, here as listed.\<close>

definition byVCPUs :: "InstanceInfo list \<Rightarrow> InstanceInfo list" where
  "byVCPUs is = sort_key ii_VCPUs is"

definition aws_row :: "'s CloudCLI \<Rightarrow> string list \<Rightarrow> InstanceInfo option" where
  "aws_row cli row = (case row of a # b # _ \<Rightarrow> (case (cl_String cli a, cl_Int cli b) of
       (Some name, Some vcpus) \<Rightarrow> Some \<lparr>ii_Type = name, ii_Family = GetInstanceFamily ''aws'' name, ii_VCPUs = vcpus\<rparr>
     | _ \<Rightarrow> None)
   | _ \<Rightarrow> None)"

definition listAWSInstances :: "'s CloudCLI \<Rightarrow> string \<Rightarrow> string \<Rightarrow> ('s, InstanceInfo list) eff" where
  "listAWSInstances cli region family =
     ebind (ewrap (\<lambda>e. Wrapf (''aws describe-instance-types ('' @ family @ ''): '') e []) (cl_Output cli ''aws''
       [''ec2'', ''describe-instance-types'', ''--region'', region, ''--filters'', ''Name=instance-type,Values='' @ family @ ''.*'',
        ''--query'', ''sort_by(InstanceTypes,&VCpuInfo.DefaultVCpus)[].[InstanceType,VCpuInfo.DefaultVCpus]'', ''--output'', ''json''])) (\<lambda>out.
     ebind (lift_sum ''parse instance types: '' (cl_Rows cli out)) (\<lambda>raw.
     eret (byVCPUs (List.map_filter (aws_row cli) raw))))"

definition getAWSVCPUs :: "'s CloudCLI \<Rightarrow> string \<Rightarrow> string \<Rightarrow> ('s, int) eff" where
  "getAWSVCPUs cli region instanceType =
     ebind (ewrap (\<lambda>e. Wrapf ''aws describe-instance-types: '' e []) (cl_Output cli ''aws''
       [''ec2'', ''describe-instance-types'', ''--region'', region, ''--instance-types'', instanceType,
        ''--query'', ''InstanceTypes[0].VCpuInfo.DefaultVCpus'', ''--output'', ''text''])) (\<lambda>out.
     (\<lambda>s. (case cl_Atoi cli (TrimSpace out) of (n, None) \<Rightarrow> Inr n | (_, Some e) \<Rightarrow> Inl e, s)))"

definition isAWSQuotaError :: "go_error \<Rightarrow> bool" where
  "isAWSQuotaError err \<longleftrightarrow> Contains (error_text err) ''VcpuLimitExceeded'' \<or> Contains (error_text err) ''InstanceLimitExceeded''"

section \<open>The provider\<close>

definition AWS_Provider :: "'c Pulumi \<Rightarrow> ('k, 'd) SSHKeys \<Rightarrow> ('c, 'm, 'd, 'r) system CloudCLI \<Rightarrow> AWSProvider \<Rightarrow> ('c, 'm, 'd, 'r) system Provider" where
  "AWS_Provider pl ky cli p = \<lparr>pv_Name = ''aws'', pv_SetupNetworking = aws_SetupNetworking pl ky p, pv_CreatePair = aws_CreatePair pl p,
     pv_DestroyPair = aws_DestroyPair pl p, pv_TeardownNetworking = aws_TeardownNetworking pl p, pv_ListFamilies = listAWSFamilies,
     pv_ListInstances = listAWSInstances cli (aw_Region p), pv_IsQuotaError = isAWSQuotaError,
     pv_RunScopedResources = Some (aw_RunID p \<noteq> []), pv_ManagesNetworking = Some True, pv_InstallOperator = None\<rparr>"

text \<open>The provider the command builds from the configuration (cmd/tailbench/aws.go).\<close>

definition newAWSProvider :: "Config \<Rightarrow> AWSProvider" where
  "newAWSProvider cfg = \<lparr>aw_Region = c_AWSRegion cfg, aw_AZ = c_AWSAZ cfg, aw_KeyName = c_AWSKeyName cfg, aw_SSHUser = [],
     aw_StateDir = BackendURL (c_StateBackend cfg) (c_StateDir cfg) ''aws'', aw_RunID = c_RunID cfg, aw_ExpiresAt = c_ResourceExpiresAt cfg\<rparr>"

end
