(* ===== verification/Provider_GCP.thy ===== *)
theory Provider_GCP
  imports Provider_AWS
begin

text \<open>
  The Compute Engine provider (internal/provider/gcp.go and gcp_instances.go). The network is the user's own,
  so setting up and tearing down networking make no cloud call; the key of the run rides in the metadata of
  each machine.
\<close>

record GCPProvider =
  gp_Project :: string
  gp_Zone :: string
  gp_Region :: string
  gp_Network :: string
  gp_Subnet :: string
  gp_SSHPubKey :: string
  gp_SSHUser :: string
  gp_StateDir :: string
  gp_RunID :: string
  gp_ExpiresAt :: string

definition gcp_pairStackName :: "GCPProvider \<Rightarrow> string \<Rightarrow> string" where
  "gcp_pairStackName p instanceType = scopedName (''tailbench-gcp-'' @ dashed instanceType) (gp_RunID p)"

definition gcp_resourceLabels :: "GCPProvider \<Rightarrow> pinput" where
  "gcp_resourceLabels p = (let suffix = runSuffix (gp_RunID p); expiry = runSuffix (gp_ExpiresAt p) in
     PMap ([(''project'', PStr ''tailbench''), (''tailbench_provider'', PStr ''gcp'')]
       @ (if suffix \<noteq> [] then [(''tailbench_run_id'', PStr suffix)] else [])
       @ (if expiry \<noteq> [] then [(''tailbench_expires_at'', PStr expiry)] else [])))"

definition gcp_sshUser :: "GCPProvider \<Rightarrow> string" where
  "gcp_sshUser p = (if gp_SSHUser p \<noteq> [] then gp_SSHUser p else ''ubuntu'')"

definition gcp_resolveSSHPubKey :: "('k, 'd) SSHKeys \<Rightarrow> GCPProvider \<Rightarrow> (('c, 'm, 'd, 'r) system, string) eff" where
  "gcp_resolveSSHPubKey ky p = resolveSSHPubKey ky (gp_RunID p) (gp_SSHPubKey p)"

definition gcp_SetupNetworking :: "('k, 'd) SSHKeys \<Rightarrow> GCPProvider \<Rightarrow> (('c, 'm, 'd, 'r) system, NetworkingOutput) eff" where
  "gcp_SetupNetworking ky p = ebind (gcp_resolveSSHPubKey ky p) (\<lambda>authorizedKey.
     eret \<lparr>no_Values = [(''network'', gp_Network p), (''subnet'', gp_Subnet p), (''ssh_user'', gcp_sshUser p), (''ssh_public_key'', authorizedKey)],
       no_StackName = [], no_ProviderID = []\<rparr>)"

definition gcp_family :: "string \<Rightarrow> string" where
  "gcp_family machineType = fst (Cut (CHR ''-'') machineType)"

definition gcp_diskType :: "string \<Rightarrow> string" where
  "gcp_diskType machineType = (if gcp_family machineType \<in> {''c4'', ''n4'', ''c4a''} then ''hyperdisk-balanced'' else ''pd-ssd'')"

definition gcp_imageFamily :: "string \<Rightarrow> string" where
  "gcp_imageFamily machineType = (if gcp_family machineType = ''c4a'' then ''ubuntu-2404-lts-arm64'' else ''ubuntu-2404-lts-amd64'')"

section \<open>A pair of machines\<close>

definition gcp_nodeName :: "GCPProvider \<Rightarrow> string \<Rightarrow> string \<Rightarrow> string" where
  "gcp_nodeName p instanceType role = scopedName (''tb-'' @ dashed instanceType @ role) (gp_RunID p)"

definition gcp_serverName :: "GCPProvider \<Rightarrow> string \<Rightarrow> string" where "gcp_serverName p t = gcp_nodeName p t ''-server''"
definition gcp_clientName :: "GCPProvider \<Rightarrow> string \<Rightarrow> string" where "gcp_clientName p t = gcp_nodeName p t ''-client''"
definition gcp_routerName :: "GCPProvider \<Rightarrow> string \<Rightarrow> string" where "gcp_routerName p t = gcp_nodeName p t ''-router''"

definition gcp_allow :: "string \<Rightarrow> string \<Rightarrow> pinput" where
  "gcp_allow protocol port = PMap [(''Protocol'', PStr protocol), (''Ports'', PList [PStr port])]"

definition gcp_firewall :: "GCPProvider \<Rightarrow> PairOptions \<Rightarrow> Declared" where
  "gcp_firewall p opts = declared ''compute.Firewall'' (gcp_nodeName p (po_InstanceType opts) ''-pps'')
     [(''Network'', PStr (gp_Network p)), (''Direction'', PStr ''INGRESS''),
      (''Allows'', PList [gcp_allow ''tcp'' ''15201'', gcp_allow ''udp'' ''15201'', gcp_allow ''udp'' ''41642'']),
      (''SourceRanges'', PList [PStr ''0.0.0.0/0''])]"

definition gcp_instance :: "GCPProvider \<Rightarrow> PairOptions \<Rightarrow> string \<Rightarrow> string \<Rightarrow> Declared" where
  "gcp_instance p opts authorizedKey name = (let t = po_InstanceType opts in
     declared ''compute.Instance'' name [(''MachineType'', PStr t), (''Zone'', PStr (gp_Zone p)),
       (''BootDisk'', PMap [(''InitializeParams'', PMap [(''Image'', PStr (''projects/ubuntu-os-cloud/global/images/family/'' @ gcp_imageFamily t)),
         (''Size'', PInt 50), (''Type'', PStr (gcp_diskType t))])]),
       (''NetworkInterfaces'', PList [PMap [(''Network'', PStr (gp_Network p)), (''Subnetwork'', PStr (gp_Subnet p)), (''AccessConfigs'', PList [PMap []])]]),
       (''MetadataStartupScript'', PStr (nodeData opts (gcp_clientName p t) (gcp_routerName p t) name)),
       (''Metadata'', PMap [(''ssh-keys'', PStr (gcp_sshUser p @ '':'' @ authorizedKey))]),
       (''Labels'', gcp_resourceLabels p)])"

definition gcp_pairProgram :: "GCPProvider \<Rightarrow> PairOptions \<Rightarrow> string \<Rightarrow> Program" where
  "gcp_pairProgram p opts authorizedKey = (let t = po_InstanceType opts; nodes = pairNodes opts (gcp_serverName p t) (gcp_clientName p t) (gcp_routerName p t) in
     \<lparr>pg_Resources = (if po_WantRouter opts then [gcp_firewall p opts] else []) @ map (gcp_instance p opts authorizedKey) nodes,
      pg_Exports = concat (map (\<lambda>name. let pre = nodePrefix (gcp_clientName p t) (gcp_routerName p t) name in
        [(pre @ ''_ip'', POut name ''NetworkInterfaces[0].AccessConfigs[0].NatIp''), (pre @ ''_lan_ip'', POut name ''NetworkInterfaces[0].NetworkIp'')]) nodes)\<rparr>)"

text \<open>The output of a pair of machines that have no identifiers beside their names.\<close>

definition vmPairOutput :: "PairOptions \<Rightarrow> string \<Rightarrow> string \<Rightarrow> string \<Rightarrow> string \<Rightarrow> outputs \<Rightarrow> PairOutput" where
  "vmPairOutput opts serverName clientName routerName stackName outs = (let out = getOutput outs; router = (\<lambda>v. if po_WantRouter opts then v else []) in \<lparr>
     pt_ServerName = serverName, pt_ClientName = clientName, pt_ServerIP = out ''server_ip'', pt_ClientIP = out ''client_ip'',
     pt_ServerLANIP = out ''server_lan_ip'', pt_ClientLANIP = out ''client_lan_ip'', pt_StackName = stackName,
     pt_ServerInstanceID = [], pt_ClientInstanceID = [], pt_ServerENIID = [], pt_ClientENIID = [],
     pt_RouterName = router routerName, pt_RouterIP = router (out ''router_ip''), pt_RouterLANIP = router (out ''router_lan_ip''),
     pt_RouterInstanceID = [], pt_Namespace = [], pt_Kubeconfig = []\<rparr>)"

definition gcp_CreatePair :: "'c Pulumi \<Rightarrow> ('k, 'd) SSHKeys \<Rightarrow> GCPProvider \<Rightarrow> PairOptions \<Rightarrow> (('c, 'm, 'd, 'r) system, PairOutput) eff" where
  "gcp_CreatePair pl ky p opts = (let t = po_InstanceType opts; stackName = gcp_pairStackName p t; given = netValue (po_Networking opts) ''ssh_public_key'' in
     ebind (if given = [] then gcp_resolveSSHPubKey ky p else eret given) (\<lambda>authorizedKey.
     ebind (upStack pl (gp_StateDir p) ''gcp'' stackName (''create stack '' @ stackName @ '': '') (''stack up '' @ stackName @ '': '')
       [(''gcp:project'', gp_Project p), (''gcp:zone'', gp_Zone p), (''gcp:region'', gp_Region p)] (gcp_pairProgram p opts authorizedKey) True) (\<lambda>outs.
     eret (vmPairOutput opts (gcp_serverName p t) (gcp_clientName p t) (gcp_routerName p t) stackName outs))))"

definition gcp_DestroyPair :: "'c Pulumi \<Rightarrow> GCPProvider \<Rightarrow> string \<Rightarrow> ('c, 'm, 'd, 'r) system errEff" where
  "gcp_DestroyPair pl p instanceType = destroyPairStack pl (gp_StateDir p) ''gcp'' (gcp_pairStackName p instanceType)"

definition gcp_TeardownNetworking :: "('c, 'm, 'd, 'r) system errEff" where
  "gcp_TeardownNetworking s = (None, s)"

section \<open>Instance types\<close>

definition listGCPFamilies :: "string list" where
  "listGCPFamilies = [''c4'', ''c4a'', ''c3d'', ''n4'', ''c3'', ''n2'', ''c2'']"

definition getGCPVCPUs :: "(string \<Rightarrow> int \<times> go_error option) \<Rightarrow> string \<Rightarrow> int \<times> go_error option" where
  "getGCPVCPUs atoi instanceType = (let parts = Split (CHR ''-'') instanceType in
     if 3 \<le> length parts then atoi (last parts) else (0, Some (ErrText (''cannot parse vcpus from '' @ instanceType))))"

definition gcp_listed :: "(string \<Rightarrow> int \<times> go_error option) \<Rightarrow> string \<Rightarrow> InstanceInfo option" where
  "gcp_listed atoi line = (if line = [] then None else
     Some \<lparr>ii_Type = line, ii_Family = GetInstanceFamily ''gcp'' line, ii_VCPUs = fst (getGCPVCPUs atoi line)\<rparr>)"

definition listGCPInstances :: "'s CloudCLI \<Rightarrow> string \<Rightarrow> string \<Rightarrow> string \<Rightarrow> ('s, InstanceInfo list) eff" where
  "listGCPInstances cli project zone family =
     ebind (ewrap (\<lambda>e. Wrapf ''gcloud list machine-types: '' e []) (cl_Output cli ''gcloud''
       [''compute'', ''machine-types'', ''list'', ''--project='' @ project,
        ''--filter='' @ ''zone:'' @ zone @ '' AND name ~ '' @ [CHR 0x27] @ ''^'' @ family @ ''-standard-[0-9]+$'' @ [CHR 0x27], ''--format=value(name)''])) (\<lambda>out.
     eret (byVCPUs (List.map_filter (gcp_listed (cl_Atoi cli)) (Split (CHR 0x0A) (TrimSpace out)))))"

definition isGCPQuotaError :: "go_error \<Rightarrow> bool" where
  "isGCPQuotaError err \<longleftrightarrow> (let s = error_text err in Contains s ''QUOTA_EXCEEDED'' \<or> Contains s ''ZONE_RESOURCE_POOL_EXHAUSTED''
     \<or> Contains s ''Quota'' \<and> Contains s ''exceeded'' \<or> Contains s ''increase quotas'')"

section \<open>The provider\<close>

definition GCP_Provider :: "'c Pulumi \<Rightarrow> ('k, 'd) SSHKeys \<Rightarrow> ('c, 'm, 'd, 'r) system CloudCLI \<Rightarrow> GCPProvider \<Rightarrow> ('c, 'm, 'd, 'r) system Provider" where
  "GCP_Provider pl ky cli p = \<lparr>pv_Name = ''gcp'', pv_SetupNetworking = gcp_SetupNetworking ky p, pv_CreatePair = gcp_CreatePair pl ky p,
     pv_DestroyPair = gcp_DestroyPair pl p, pv_TeardownNetworking = gcp_TeardownNetworking, pv_ListFamilies = listGCPFamilies,
     pv_ListInstances = listGCPInstances cli (gp_Project p) (gp_Zone p), pv_IsQuotaError = isGCPQuotaError,
     pv_RunScopedResources = Some (gp_RunID p \<noteq> []), pv_ManagesNetworking = Some False, pv_InstallOperator = None\<rparr>"

text \<open>The provider the command builds from the configuration (cmd/tailbench/gcp.go): the region is the zone without its last part.\<close>

definition newGCPProvider :: "Config \<Rightarrow> GCPProvider" where
  "newGCPProvider cfg = (let zone = c_GCPZone cfg; i = LastIndex (CHR ''-'') zone in
     \<lparr>gp_Project = c_GCPProject cfg, gp_Zone = zone, gp_Region = (if 0 < i then take (nat i) zone else zone), gp_Network = ''default'', gp_Subnet = ''default'',
      gp_SSHPubKey = [], gp_SSHUser = [], gp_StateDir = BackendURL (c_StateBackend cfg) (c_StateDir cfg) ''gcp'',
      gp_RunID = c_RunID cfg, gp_ExpiresAt = c_ResourceExpiresAt cfg\<rparr>)"

end
