(* ===== verification/Provider_Azure.thy ===== *)
theory Provider_Azure
  imports Provider_GCP
begin

text \<open>
  The Azure provider (internal/provider/azure.go and azure_instances.go): a virtual network with its
  security rules, and pairs of machines with a public address and an interface each.
\<close>

record AzureProvider =
  az_Location :: string
  az_ResourceGroup :: string
  az_SSHUser :: string
  az_SSHPubKey :: string
  az_StateDir :: string
  az_RunID :: string
  az_ExpiresAt :: string

definition azure_networkStackName :: "AzureProvider \<Rightarrow> string" where
  "azure_networkStackName p = scopedName ''tailbench-azure-networking'' (az_RunID p)"

definition azure_pairStackName :: "AzureProvider \<Rightarrow> string \<Rightarrow> string" where
  "azure_pairStackName p instanceType = scopedName (''tailbench-azure-'' @ dashedBoth instanceType) (az_RunID p)"

definition azure_resourceTags :: "AzureProvider \<Rightarrow> string \<times> pinput" where
  "azure_resourceTags p = (''Tags'', PMap ([(''Project'', PStr ''tailbench''), (''TailbenchProvider'', PStr ''azure'')]
     @ (if az_RunID p \<noteq> [] then [(''TailbenchRunID'', PStr (az_RunID p))] else [])
     @ (if az_ExpiresAt p \<noteq> [] then [(''TailbenchExpiresAt'', PStr (az_ExpiresAt p))] else [])))"

definition azure_sshUser :: "AzureProvider \<Rightarrow> string" where
  "azure_sshUser p = (if az_SSHUser p \<noteq> [] then az_SSHUser p else ''azureuser'')"

definition azure_resolveSSHPubKey :: "('k, 'd) SSHKeys \<Rightarrow> AzureProvider \<Rightarrow> (('c, 'm, 'd, 'r) system, string) eff" where
  "azure_resolveSSHPubKey ky p = resolveSSHPubKey ky (az_RunID p) (az_SSHPubKey p)"

section \<open>Networking\<close>

definition azure_group :: "AzureProvider \<Rightarrow> string \<times> pinput" where
  "azure_group p = (''ResourceGroupName'', PStr (az_ResourceGroup p))"

definition azure_rule :: "AzureProvider \<Rightarrow> string \<Rightarrow> string \<Rightarrow> int \<Rightarrow> string \<Rightarrow> string \<Rightarrow> string \<Rightarrow> Declared" where
  "azure_rule p nsgName name priority protocol peers port = declared ''network.SecurityRule'' name
     [azure_group p, (''NetworkSecurityGroupName'', POut nsgName ''Name''), (''SecurityRuleName'', PStr name), (''Priority'', PInt priority),
      (''Protocol'', PStr protocol), (''Access'', PStr ''Allow''), (''Direction'', PStr ''Inbound''), (''SourceAddressPrefix'', PStr peers),
      (''SourcePortRange'', PStr ''*''), (''DestinationAddressPrefix'', PStr peers), (''DestinationPortRange'', PStr port)]"

definition azure_networkProgram :: "AzureProvider \<Rightarrow> Program" where
  "azure_networkProgram p =
    (let vnetName = scopedName ''tailbench-vnet'' (az_RunID p); subnetName = scopedName ''tailbench-subnet'' (az_RunID p);
         nsgName = scopedName ''tailbench-nsg'' (az_RunID p); location = (''Location'', PStr (az_Location p)); rule = azure_rule p nsgName in
     \<lparr>pg_Resources =
        [declared ''network.VirtualNetwork'' vnetName [azure_group p, (''VirtualNetworkName'', PStr vnetName), location,
           (''AddressSpace'', PMap [(''AddressPrefixes'', PList [PStr ''10.0.0.0/16''])]), azure_resourceTags p],
         declared ''network.Subnet'' subnetName [azure_group p, (''VirtualNetworkName'', POut vnetName ''Name''),
           (''SubnetName'', PStr subnetName), (''AddressPrefix'', PStr ''10.0.1.0/24'')],
         declared ''network.NetworkSecurityGroup'' nsgName [azure_group p, (''NetworkSecurityGroupName'', PStr nsgName), location, azure_resourceTags p],
         rule ''AllowSSH'' 1000 ''Tcp'' ''*'' ''22'',
         rule ''AllowVNetInternal'' 1100 ''*'' ''VirtualNetwork'' ''*'',
         rule ''AllowWireGuardUDP'' 1200 ''Udp'' ''*'' ''41641'',
         rule ''AllowIperfPPS'' 1300 ''*'' ''*'' ''15201'',
         rule ''AllowRelayUDP'' 1400 ''Udp'' ''*'' ''41642''],
      pg_Exports = [(''vnet_name'', POut vnetName ''Name''), (''subnet_id'', POut subnetName ''ID''), (''nsg_id'', POut nsgName ''ID'')]\<rparr>)"

definition azure_networkingOutput :: "AzureProvider \<Rightarrow> string \<Rightarrow> string \<Rightarrow> outputs \<Rightarrow> NetworkingOutput" where
  "azure_networkingOutput p stackName authorizedKey outs = \<lparr>
     no_Values = map (\<lambda>k. (k, getOutput outs k)) [''vnet_name'', ''subnet_id'', ''nsg_id'']
       @ [(''ssh_user'', azure_sshUser p), (''ssh_public_key'', authorizedKey)],
     no_StackName = stackName, no_ProviderID = getOutput outs ''vnet_name''\<rparr>"

definition azure_SetupNetworking :: "'c Pulumi \<Rightarrow> ('k, 'd) SSHKeys \<Rightarrow> AzureProvider \<Rightarrow> (('c, 'm, 'd, 'r) system, NetworkingOutput) eff" where
  "azure_SetupNetworking pl ky p = (let stackName = azure_networkStackName p in
     ebind (azure_resolveSSHPubKey ky p) (\<lambda>authorizedKey.
     ebind (upStack pl (az_StateDir p) ''azure'' stackName ''create networking stack: '' ''networking stack up: ''
       [(''azure-native:location'', az_Location p)] (azure_networkProgram p) False) (\<lambda>outs.
     eret (azure_networkingOutput p stackName authorizedKey outs))))"

section \<open>A pair of machines\<close>

definition azure_nodeName :: "AzureProvider \<Rightarrow> string \<Rightarrow> string \<Rightarrow> string" where
  "azure_nodeName p instanceType role = scopedName (''tb-'' @ dashedBoth instanceType @ role) (az_RunID p)"

definition azure_serverName :: "AzureProvider \<Rightarrow> string \<Rightarrow> string" where "azure_serverName p t = azure_nodeName p t ''-server''"
definition azure_clientName :: "AzureProvider \<Rightarrow> string \<Rightarrow> string" where "azure_clientName p t = azure_nodeName p t ''-client''"
definition azure_routerName :: "AzureProvider \<Rightarrow> string \<Rightarrow> string" where "azure_routerName p t = azure_nodeName p t ''-router''"

definition isAzureARM :: "string \<Rightarrow> bool" where
  "isAzureARM instanceType \<longleftrightarrow> (let lower = ToLower instanceType in
     Contains lower ''ps_'' \<or> Contains lower ''pds_'' \<or> Contains lower ''pls_'' \<or> Contains lower ''pas_'')"

definition azureImageRef :: "string \<Rightarrow> pinput" where
  "azureImageRef instanceType = PMap [(''Publisher'', PStr ''Canonical''), (''Offer'', PStr ''ubuntu-24_04-lts''),
     (''Sku'', PStr (if isAzureARM instanceType then ''server-arm64'' else ''server'')), (''Version'', PStr ''latest'')]"

text \<open>\<open>enc\<close> is the standard base 64 encoding of encoding/base64.\<close>

definition azure_machine :: "(string \<Rightarrow> string) \<Rightarrow> AzureProvider \<Rightarrow> PairOptions \<Rightarrow> string \<Rightarrow> string \<Rightarrow> Declared list" where
  "azure_machine enc p opts authorizedKey name =
    (let t = po_InstanceType opts; location = (''Location'', PStr (az_Location p)); net = po_Networking opts;
         data = enc (nodeData opts (azure_clientName p t) (azure_routerName p t) name) in
     [declared ''network.PublicIPAddress'' (name @ ''-pip'') [azure_group p, (''PublicIpAddressName'', PStr (name @ ''-pip'')), location,
        (''PublicIPAllocationMethod'', PStr ''Static''), (''Sku'', PMap [(''Name'', PStr ''Standard'')]), azure_resourceTags p],
      declared ''network.NetworkInterface'' (name @ ''-nic'') [azure_group p, (''NetworkInterfaceName'', PStr (name @ ''-nic'')), location,
        (''IpConfigurations'', PList [PMap [(''Name'', PStr ''ipconfig1''), (''PrivateIPAllocationMethod'', PStr ''Dynamic''),
          (''Subnet'', PMap [(''Id'', PStr (netValue net ''subnet_id''))]), (''PublicIPAddress'', PMap [(''Id'', POut (name @ ''-pip'') ''ID'')])]]),
        (''NetworkSecurityGroup'', PMap [(''Id'', PStr (netValue net ''nsg_id''))]), azure_resourceTags p],
      declared ''compute.VirtualMachine'' name [azure_group p, (''VmName'', PStr name), location, (''HardwareProfile'', PMap [(''VmSize'', PStr t)]),
        (''StorageProfile'', PMap [(''ImageReference'', azureImageRef t), (''OsDisk'', PMap [(''CreateOption'', PStr ''FromImage''), (''DiskSizeGB'', PInt 50),
          (''ManagedDisk'', PMap [(''StorageAccountType'', PStr ''Premium_LRS'')])])]),
        (''OsProfile'', PMap [(''ComputerName'', PStr name), (''AdminUsername'', PStr (azure_sshUser p)), (''CustomData'', PStr data),
          (''LinuxConfiguration'', PMap [(''DisablePasswordAuthentication'', PBool True), (''Ssh'', PMap [(''PublicKeys'', PList [PMap
            [(''Path'', PStr (''/home/'' @ azure_sshUser p @ ''/.ssh/authorized_keys'')), (''KeyData'', PStr authorizedKey)]])])])]),
        (''NetworkProfile'', PMap [(''NetworkInterfaces'', PList [PMap [(''Id'', POut (name @ ''-nic'') ''ID''), (''Primary'', PBool True)]])]),
        azure_resourceTags p]])"

definition azure_pairProgram :: "(string \<Rightarrow> string) \<Rightarrow> AzureProvider \<Rightarrow> PairOptions \<Rightarrow> string \<Rightarrow> Program" where
  "azure_pairProgram enc p opts authorizedKey =
    (let t = po_InstanceType opts; nodes = pairNodes opts (azure_serverName p t) (azure_clientName p t) (azure_routerName p t) in
     \<lparr>pg_Resources = concat (map (azure_machine enc p opts authorizedKey) nodes),
      pg_Exports = concat (map (\<lambda>name. let pre = nodePrefix (azure_clientName p t) (azure_routerName p t) name in
        [(pre @ ''_ip'', POut (name @ ''-pip'') ''IpAddress''), (pre @ ''_lan_ip'', POut (name @ ''-nic'') ''IpConfigurations[0].PrivateIPAddress'')]) nodes)\<rparr>)"

definition azure_CreatePair :: "'c Pulumi \<Rightarrow> ('k, 'd) SSHKeys \<Rightarrow> (string \<Rightarrow> string) \<Rightarrow> AzureProvider \<Rightarrow> PairOptions \<Rightarrow> (('c, 'm, 'd, 'r) system, PairOutput) eff" where
  "azure_CreatePair pl ky enc p opts = (let t = po_InstanceType opts; stackName = azure_pairStackName p t; given = netValue (po_Networking opts) ''ssh_public_key'' in
     ebind (if given = [] then azure_resolveSSHPubKey ky p else eret given) (\<lambda>authorizedKey.
     ebind (upStack pl (az_StateDir p) ''azure'' stackName (''create stack '' @ stackName @ '': '') (''stack up '' @ stackName @ '': '')
       [(''azure-native:location'', az_Location p)] (azure_pairProgram enc p opts authorizedKey) True) (\<lambda>outs.
     eret (vmPairOutput opts (azure_serverName p t) (azure_clientName p t) (azure_routerName p t) stackName outs))))"

definition azure_DestroyPair :: "'c Pulumi \<Rightarrow> AzureProvider \<Rightarrow> string \<Rightarrow> ('c, 'm, 'd, 'r) system errEff" where
  "azure_DestroyPair pl p instanceType = destroyPairStack pl (az_StateDir p) ''azure'' (azure_pairStackName p instanceType)"

definition azure_TeardownNetworking :: "'c Pulumi \<Rightarrow> AzureProvider \<Rightarrow> ('c, 'm, 'd, 'r) system errEff" where
  "azure_TeardownNetworking pl p = teardownStack pl (az_StateDir p) ''azure'' (azure_networkStackName p) ''select networking stack: '' ''destroy networking stack: ''"

section \<open>Instance types\<close>

record azureSKU =
  sku_Name :: string
  sku_Family :: string

definition azureFamilyToSKU :: "string \<Rightarrow> string option" where
  "azureFamilyToSKU = map_of
    [(''dsv5'', ''standardDSv5Family''), (''dasv5'', ''standardDASv5Family''), (''dpsv6'', ''StandardDpsv6Family''),
     (''dsv4'', ''standardDSv4Family''), (''fsv2'', ''standardFSv2Family''), (''fasv6'', ''StandardFasv6Family''),
     (''falsv6'', ''StandardFalsv6Family''), (''famsv6'', ''StandardFamsv6Family''), (''fasv7'', ''StandardFasv7Family''),
     (''falsv7'', ''StandardFalsv7Family''), (''famsv7'', ''StandardFamsv7Family''), (''esv4'', ''standardESv4Family'')]"

definition listAzureFamilies :: "string list" where
  "listAzureFamilies = [''dsv5'', ''dasv5'', ''dpsv6'', ''dsv4'', ''fsv2'', ''fasv6'', ''falsv6'', ''famsv6'', ''fasv7'', ''falsv7'', ''famsv7'', ''esv4'']"

text \<open>The two regular expressions: a digit, a dash and a digit somewhere; the first run of digits.\<close>

fun azureConstrained :: "string \<Rightarrow> bool" where
  "azureConstrained (a # b # c # cs) = (isDigit a \<and> b = CHR ''-'' \<and> isDigit c \<or> azureConstrained (b # c # cs))"
| "azureConstrained _ = False"

definition firstDigits :: "string \<Rightarrow> string" where
  "firstDigits s = takeWhile isDigit (dropWhile (\<lambda>c. \<not> isDigit c) s)"

definition getAzureVCPUs :: "(string \<Rightarrow> int \<times> go_error option) \<Rightarrow> string \<Rightarrow> int \<times> go_error option" where
  "getAzureVCPUs atoi instanceType = (let m = firstDigits (TrimPrefix instanceType ''Standard_'') in
     if m = [] then (0, Some (ErrText (''cannot parse vcpus from '' @ instanceType))) else atoi m)"

text \<open>The list of SKUs is loaded once: \<open>None\<close> is the nil slice of a provider that has not loaded it.\<close>

definition loadAzureSKUs :: "'s CloudCLI \<Rightarrow> (string \<Rightarrow> go_error + azureSKU list option) \<Rightarrow> string \<Rightarrow> azureSKU list option \<Rightarrow> ('s, azureSKU list option) eff" where
  "loadAzureSKUs cli unmarshal location cache = (case cache of Some _ \<Rightarrow> eret cache
   | None \<Rightarrow> ebind (ewrap (\<lambda>e. Wrapf ''az vm list-skus: '' e []) (cl_Output cli ''az''
       [''vm'', ''list-skus'', ''--location'', location, ''--resource-type'', ''virtualMachines'', ''--query'', ''[].{name:name,family:family}'', ''--output'', ''json''])) (\<lambda>out.
     lift_sum ''parse SKU list: '' (unmarshal out)))"

definition azure_listed :: "(string \<Rightarrow> int \<times> go_error option) \<Rightarrow> string \<Rightarrow> azureSKU \<Rightarrow> InstanceInfo option" where
  "azure_listed atoi skuFamily sku = (if sku_Family sku \<noteq> skuFamily \<or> azureConstrained (sku_Name sku) \<or> Contains (sku_Name sku) ''is_v'' then None
     else Some \<lparr>ii_Type = sku_Name sku, ii_Family = GetInstanceFamily ''azure'' (sku_Name sku),
       ii_VCPUs = fst (getAzureVCPUs atoi (sku_Name sku))\<rparr>)"

definition listAzureInstances :: "'s CloudCLI \<Rightarrow> (string \<Rightarrow> go_error + azureSKU list option) \<Rightarrow> string \<Rightarrow> string \<Rightarrow> azureSKU list option \<Rightarrow> ('s, InstanceInfo list) eff" where
  "listAzureInstances cli unmarshal location family cache = (case azureFamilyToSKU (ToLower family) of
     None \<Rightarrow> efail (ErrText (''unknown azure family: '' @ family))
   | Some skuFamily \<Rightarrow> ebind (loadAzureSKUs cli unmarshal location cache) (\<lambda>skus.
       eret (byVCPUs (List.map_filter (azure_listed (cl_Atoi cli) skuFamily) (case skus of None \<Rightarrow> [] | Some l \<Rightarrow> l)))))"

definition isAzureQuotaError :: "go_error \<Rightarrow> bool" where
  "isAzureQuotaError err \<longleftrightarrow> (let s = error_text err in Contains s ''QuotaExceeded'' \<or> Contains s ''SkuNotAvailable'' \<or> Contains s ''AllocationFailed''
     \<or> Contains s ''PublicIPCountLimitReached'' \<or> Contains s ''OperationNotAllowed'' \<and> Contains s ''quota'' \<or> Contains s ''sufficient capacity'')"

section \<open>The provider\<close>

text \<open>\<open>cache\<close> is what the provider has cached of the SKUs when the instances are listed; the cache is not carried from one call to the next.\<close>

definition Azure_Provider :: "'c Pulumi \<Rightarrow> ('k, 'd) SSHKeys \<Rightarrow> (string \<Rightarrow> string) \<Rightarrow> ('c, 'm, 'd, 'r) system CloudCLI \<Rightarrow> (string \<Rightarrow> go_error + azureSKU list option) \<Rightarrow>
    azureSKU list option \<Rightarrow> AzureProvider \<Rightarrow> ('c, 'm, 'd, 'r) system Provider" where
  "Azure_Provider pl ky enc cli unmarshal cache p = \<lparr>pv_Name = ''azure'', pv_SetupNetworking = azure_SetupNetworking pl ky p,
     pv_CreatePair = azure_CreatePair pl ky enc p, pv_DestroyPair = azure_DestroyPair pl p, pv_TeardownNetworking = azure_TeardownNetworking pl p,
     pv_ListFamilies = listAzureFamilies, pv_ListInstances = (\<lambda>family. listAzureInstances cli unmarshal (az_Location p) family cache),
     pv_IsQuotaError = isAzureQuotaError, pv_RunScopedResources = Some (az_RunID p \<noteq> []), pv_ManagesNetworking = Some True, pv_InstallOperator = None\<rparr>"

definition newAzureProvider :: "Config \<Rightarrow> AzureProvider" where
  "newAzureProvider cfg = \<lparr>az_Location = c_AzureLocation cfg, az_ResourceGroup = c_AzureResourceGroup cfg, az_SSHUser = c_AzureSSHUser cfg,
     az_SSHPubKey = c_AzureSSHPubKey cfg, az_StateDir = BackendURL (c_StateBackend cfg) (c_StateDir cfg) ''azure'',
     az_RunID = c_RunID cfg, az_ExpiresAt = c_ResourceExpiresAt cfg\<rparr>"

end
