(* ===== verification/Provider_Contract.thy ===== *)
theory Provider_Contract
  imports Provider_Azure
begin

text \<open>
  The contract of a cloud provider, whatever fails: it touches the stacks of its own run only, and no resource
  is ever left in the cloud without the stack that knows of it. Pulumi's documented behaviour is a hypothesis
  on its calls: which of them may change the set of stacks and the set of stacks that have resources in the
  cloud. The contract is a locale; the theories of the providers interpret it.
\<close>

section \<open>Laws of the Automation API\<close>

record 'c View =
  vw_stacks :: "'c \<Rightarrow> string set"
  vw_live :: "'c \<Rightarrow> string set"

definition keeps :: "'c View \<Rightarrow> 'c \<Rightarrow> 'c \<Rightarrow> bool" where
  "keeps v c c' \<longleftrightarrow> vw_stacks v c' = vw_stacks v c \<and> vw_live v c' = vw_live v c"

definition selectLaw :: "'c Pulumi \<Rightarrow> 'c View \<Rightarrow> bool" where
  "selectLaw pl v \<longleftrightarrow> (\<forall>ws n c. case pl_Select pl ws n c of (err, c') \<Rightarrow> keeps v c c' \<and>
     (case err of None \<Rightarrow> n \<in> vw_stacks v c | Some e \<Rightarrow> pl_Is404 pl e \<longrightarrow> n \<notin> vw_stacks v c))"

definition upsertLaw :: "'c Pulumi \<Rightarrow> 'c View \<Rightarrow> bool" where
  "upsertLaw pl v \<longleftrightarrow> (\<forall>ws n c. case pl_Upsert pl ws n c of (err, c') \<Rightarrow> vw_live v c' = vw_live v c \<and>
     vw_stacks v c' \<in> {vw_stacks v c, insert n (vw_stacks v c)} \<and> (err = None \<longrightarrow> n \<in> vw_stacks v c'))"

definition configLaw :: "'c Pulumi \<Rightarrow> 'c View \<Rightarrow> bool" where
  "configLaw pl v \<longleftrightarrow> (\<forall>n k x c. keeps v c (snd (pl_SetConfig pl n k x c))) \<and> (\<forall>n c. keeps v c (snd (pl_Cancel pl n c)))"

definition upLaw :: "'c Pulumi \<Rightarrow> 'c View \<Rightarrow> bool" where
  "upLaw pl v \<longleftrightarrow> (\<forall>n program refresh c. let c' = snd (pl_Up pl n program refresh c) in
     vw_stacks v c' = vw_stacks v c \<and> vw_live v c' - {n} = vw_live v c - {n})"

definition destroyLaw :: "'c Pulumi \<Rightarrow> 'c View \<Rightarrow> bool" where
  "destroyLaw pl v \<longleftrightarrow> (\<forall>n goOn c. case pl_Destroy pl n goOn c of (err, c') \<Rightarrow> vw_stacks v c' = vw_stacks v c \<and>
     vw_live v c' \<in> {vw_live v c, vw_live v c - {n}} \<and> (err = None \<longrightarrow> n \<notin> vw_live v c'))"

definition removeLaw :: "'c Pulumi \<Rightarrow> 'c View \<Rightarrow> bool" where
  "removeLaw pl v \<longleftrightarrow> (\<forall>n c. case pl_RemoveStack pl n c of (err, c') \<Rightarrow> vw_live v c' = vw_live v c \<and>
     vw_stacks v c' \<in> {vw_stacks v c, vw_stacks v c - {n}} \<and> (err = None \<longrightarrow> n \<notin> vw_stacks v c'))"

definition pulumiLaws :: "'c Pulumi \<Rightarrow> 'c View \<Rightarrow> bool" where
  "pulumiLaws pl v \<longleftrightarrow> selectLaw pl v \<and> upsertLaw pl v \<and> configLaw pl v \<and> upLaw pl v \<and> destroyLaw pl v \<and> removeLaw pl v"

section \<open>The contract of a provider call\<close>

definition orphanFree :: "'c View \<Rightarrow> 'c \<Rightarrow> bool" where
  "orphanFree v c \<longleftrightarrow> vw_live v c \<subseteq> vw_stacks v c"

text \<open>\<open>c'\<close> is orphan-free when \<open>c\<close> is, and differs from it in stacks of \<open>own\<close> only.\<close>

definition confined :: "'c View \<Rightarrow> string set \<Rightarrow> 'c \<Rightarrow> 'c \<Rightarrow> bool" where
  "confined v own c c' \<longleftrightarrow> (orphanFree v c \<longrightarrow> orphanFree v c') \<and>
     vw_stacks v c' - own = vw_stacks v c - own \<and> vw_live v c' - own = vw_live v c - own"

lemma confined_refl [simp]: "confined v own c c"
  by (simp add: confined_def)

lemma confined_trans: "confined v own a b \<Longrightarrow> confined v own b c \<Longrightarrow> confined v own a c"
  by (simp add: confined_def)

lemma keeps_confined: "keeps v c c' \<Longrightarrow> confined v own c c'"
  by (simp add: keeps_def confined_def orphanFree_def)

text \<open>
  A call from a cloud that satisfies \<open>P\<close> is confined, and when it succeeds its value and the cloud it leaves
  satisfy \<open>Q\<close>.
\<close>

definition spec :: "'c View \<Rightarrow> string set \<Rightarrow> ('c \<Rightarrow> bool) \<Rightarrow> (('c, 'm, 'd, 'r) system, 'a) eff \<Rightarrow> ('a \<Rightarrow> 'c \<Rightarrow> bool) \<Rightarrow> bool" where
  "spec v own P m Q \<longleftrightarrow> (\<forall>s. P (y_cloud s) \<longrightarrow> confined v own (y_cloud s) (y_cloud (snd (m s))) \<and>
     (\<forall>x. fst (m s) = Inr x \<longrightarrow> Q x (y_cloud (snd (m s)))))"

lemma onCloud_cloud [simp]: "y_cloud (snd (onCloud f s)) = snd (f (y_cloud s))" "fst (onCloud f s) = fst (f (y_cloud s))"
  by (simp_all add: onCloud_def split: prod.split)

lemma eff_results [simp]: "snd (ewrap g m s) = snd (m s)" "snd (echeck k s) = snd (k s)" "snd (eerr m s) = snd (m s)"
    "snd (elift h s) = snd (h s)" "fst (elift h s) = Inr (fst (h s))" "fst (echeck k s) = Inr () \<longleftrightarrow> fst (k s) = None"
    "fst (ewrap g m s) = Inr x \<longleftrightarrow> fst (m s) = Inr x" "fst (eerr m s) = None \<longleftrightarrow> (\<exists>x. fst (m s) = Inr x)"
  by (auto simp: ewrap_def echeck_def eerr_def elift_def split: prod.split sum.split option.split)

lemma spec_ebind [intro]:
  fixes m :: "(('c, 'm, 'd, 'r) system, 'a) eff"
  assumes m: "spec v own P m Q" and f: "\<And>x. spec v own (Q x) (f x) R"
  shows "spec v own P (ebind m f) R"
  unfolding spec_def
proof (intro allI impI)
  fix s :: "('c, 'm, 'd, 'r) system" assume P: "P (y_cloud s)"
  obtain r s1 where ms: "m s = (r, s1)" by fastforce
  from m P ms have a: "confined v own (y_cloud s) (y_cloud s1)" and q: "\<And>x. r = Inr x \<Longrightarrow> Q x (y_cloud s1)"
    by (force simp: spec_def)+
  show "confined v own (y_cloud s) (y_cloud (snd (ebind m f s))) \<and> (\<forall>x. fst (ebind m f s) = Inr x \<longrightarrow> R x (y_cloud (snd (ebind m f s))))"
  proof (cases r)
    case (Inl e)
    with a ms show ?thesis by (simp add: ebind_def)
  next
    case (Inr x)
    with q f[of x] have "confined v own (y_cloud s1) (y_cloud (snd (f x s1))) \<and> (\<forall>y. fst (f x s1) = Inr y \<longrightarrow> R y (y_cloud (snd (f x s1))))"
      by (simp add: spec_def)
    with confined_trans[OF a] ms Inr show ?thesis by (simp add: ebind_def)
  qed
qed

lemma spec_ewrap [intro]: "spec v own P m Q \<Longrightarrow> spec v own P (ewrap g m) Q"
  by (simp add: spec_def)

lemma spec_weaken: "spec v own P m Q \<Longrightarrow> (\<And>c. P' c \<Longrightarrow> P c) \<Longrightarrow> (\<And>x c. Q x c \<Longrightarrow> Q' x c) \<Longrightarrow> spec v own P' m Q'"
  by (auto simp: spec_def)

lemma spec_eret: "(\<And>c. P c \<Longrightarrow> Q x c) \<Longrightarrow> spec v own P (eret x) Q"
  by (simp add: spec_def eret_def)

lemma spec_efail: "spec v own P (efail e) Q"
  by (simp add: spec_def efail_def)

lemma spec_files: "spec v own P (onFiles g) (\<lambda>_. P)"
  by (simp add: spec_def)

lemma spec_elift_files: "spec v own P (elift (onFiles g)) (\<lambda>_. P)"
  by (simp add: spec_def)

text \<open>A call of the Automation API whose error is its only result.\<close>

lemma spec_cloud:
  assumes "\<And>c. P c \<Longrightarrow> confined v own c (snd (f c)) \<and> (fst (f c) = None \<longrightarrow> Q (snd (f c)))"
  shows "spec v own P (failing msg (onCloud f)) (\<lambda>_. Q)" "spec v own P (echeck (onCloud f)) (\<lambda>_. Q)"
  using assms by (simp_all add: spec_def failing_def)

section \<open>The shared calls\<close>

lemma projectOpts_spec: "spec v own P (projectOpts stateDir name) (\<lambda>_. P)"
  unfolding projectOpts_def by (rule spec_ebind[OF spec_elift_files]) (rule spec_eret)

lemma upsert_spec:
  assumes "upsertLaw pl v" and "n \<in> own"
  shows "spec v own (\<lambda>_. True) (failing msg (onCloud (pl_Upsert pl ws n))) (\<lambda>_ c. n \<in> vw_stacks v c)"
proof (rule spec_cloud)
  fix c
  have "case pl_Upsert pl ws n c of (err, c') \<Rightarrow> vw_live v c' = vw_live v c \<and>
     vw_stacks v c' \<in> {vw_stacks v c, insert n (vw_stacks v c)} \<and> (err = None \<longrightarrow> n \<in> vw_stacks v c')"
    using assms(1) by (simp add: upsertLaw_def)
  then show "confined v own c (snd (pl_Upsert pl ws n c)) \<and> (fst (pl_Upsert pl ws n c) = None \<longrightarrow> n \<in> vw_stacks v (snd (pl_Upsert pl ws n c)))"
    using assms(2) by (cases "pl_Upsert pl ws n c") (auto simp: confined_def orphanFree_def)
qed

lemma setConfigs_spec:
  assumes "configLaw pl v"
  shows "spec v own (\<lambda>c. n \<in> vw_stacks v c) (setConfigs pl n kvs) (\<lambda>_ c. n \<in> vw_stacks v c)"
proof (induction kvs)
  case Nil
  show ?case by (simp add: spec_eret)
next
  case (Cons kv kvs)
  obtain k x where kv: "kv = (k, x)" by fastforce
  have "keeps v c (snd (pl_SetConfig pl n k x c))" for c using assms by (simp add: configLaw_def)
  then have "spec v own (\<lambda>c. n \<in> vw_stacks v c) (failing (''set '' @ k @ '': '') (onCloud (pl_SetConfig pl n k x))) (\<lambda>_ c. n \<in> vw_stacks v c)"
    by (intro spec_cloud) (auto intro: keeps_confined simp: keeps_def)
  from spec_ebind[OF this Cons] show ?case by (simp add: kv)
qed

lemma up_spec:
  assumes "upLaw pl v" and "n \<in> own"
  shows "spec v own (\<lambda>c. n \<in> vw_stacks v c) (ewrap g (onCloud (pl_Up pl n program refresh))) (\<lambda>_ _. True)"
proof -
  have "confined v own c (snd (pl_Up pl n program refresh c))" if "n \<in> vw_stacks v c" for c
  proof -
    from assms(1) have "vw_stacks v (snd (pl_Up pl n program refresh c)) = vw_stacks v c"
      "vw_live v (snd (pl_Up pl n program refresh c)) - {n} = vw_live v c - {n}" by (simp_all add: upLaw_def Let_def)
    with assms(2) that show ?thesis unfolding confined_def orphanFree_def by blast
  qed
  then show ?thesis by (auto simp: spec_def)
qed

lemma upStack_spec:
  assumes laws: "pulumiLaws pl v" and own: "n \<in> own"
  shows "spec v own (\<lambda>_. True) (upStack pl stateDir name n cmsg umsg configs program refresh) (\<lambda>_ _. True)"
proof -
  have l: "upsertLaw pl v" "configLaw pl v" "upLaw pl v" using laws by (simp_all add: pulumiLaws_def)
  show ?thesis
    unfolding upStack_def
    by (rule spec_ebind[OF projectOpts_spec] spec_ebind[OF upsert_spec[OF l(1) own]] spec_ebind[OF setConfigs_spec[OF l(2)]] up_spec[OF l(3) own])+
qed

lemma selectStack_spec:
  assumes "selectLaw pl v"
  shows "spec v own (\<lambda>_. True) (selectStack pl stateDir name n msg) (\<lambda>found c. \<not> found \<longrightarrow> n \<notin> vw_stacks v c)"
  unfolding selectStack_def
proof (rule spec_ebind[OF projectOpts_spec])
  fix ws
  have law: "keeps v c (snd (pl_Select pl ws n c)) \<and> (\<forall>e. fst (pl_Select pl ws n c) = Some e \<longrightarrow> pl_Is404 pl e \<longrightarrow> n \<notin> vw_stacks v c)" for c
    using assms by (auto simp: selectLaw_def split: prod.splits option.splits) (metis (no_types, lifting) prod.collapse)+
  have "spec v own (\<lambda>_. True) (elift (onCloud (pl_Select pl ws n))) (\<lambda>err c. \<forall>e. err = Some e \<longrightarrow> pl_Is404 pl e \<longrightarrow> n \<notin> vw_stacks v c)"
    using law by (auto simp: spec_def keeps_def intro: keeps_confined)
  then show "spec v own (\<lambda>_. True) (ebind (elift (onCloud (pl_Select pl ws n))) (\<lambda>err. case err of
       None \<Rightarrow> eret True | Some e \<Rightarrow> if pl_Is404 pl e then eret False else efail (Wrapf msg e [])))
     (\<lambda>found c. \<not> found \<longrightarrow> n \<notin> vw_stacks v c)"
    by (rule spec_ebind) (auto split: option.split intro!: spec_eret spec_efail)
qed

lemma destroy_specs:
  assumes "destroyLaw pl v" "removeLaw pl v" "configLaw pl v" and own: "n \<in> own"
  shows "spec v own (\<lambda>_. True) (failing msg (onCloud (pl_Destroy pl n goOn))) (\<lambda>_ c. n \<notin> vw_live v c)"
    and "spec v own (\<lambda>c. n \<notin> vw_live v c) (failing msg (onCloud (pl_RemoveStack pl n))) (\<lambda>_ c. n \<notin> vw_stacks v c)"
    and "spec v own (\<lambda>c. n \<notin> vw_live v c) (echeck (onCloud (pl_RemoveStack pl n))) (\<lambda>_ c. n \<notin> vw_stacks v c)"
    and "spec v own (\<lambda>_. True) (failing msg (onCloud (pl_Cancel pl n))) (\<lambda>_ _. True)"
proof -
  have d: "confined v own c (snd (pl_Destroy pl n goOn c)) \<and> (fst (pl_Destroy pl n goOn c) = None \<longrightarrow> n \<notin> vw_live v (snd (pl_Destroy pl n goOn c)))" for c
  proof -
    have "case pl_Destroy pl n goOn c of (err, c') \<Rightarrow> vw_stacks v c' = vw_stacks v c \<and>
       vw_live v c' \<in> {vw_live v c, vw_live v c - {n}} \<and> (err = None \<longrightarrow> n \<notin> vw_live v c')" using assms(1) by (simp add: destroyLaw_def)
    then show ?thesis using own by (cases "pl_Destroy pl n goOn c") (auto simp: confined_def orphanFree_def)
  qed
  have r: "confined v own c (snd (pl_RemoveStack pl n c)) \<and> (fst (pl_RemoveStack pl n c) = None \<longrightarrow> n \<notin> vw_stacks v (snd (pl_RemoveStack pl n c)))"
    if "n \<notin> vw_live v c" for c
  proof -
    have "case pl_RemoveStack pl n c of (err, c') \<Rightarrow> vw_live v c' = vw_live v c \<and>
       vw_stacks v c' \<in> {vw_stacks v c, vw_stacks v c - {n}} \<and> (err = None \<longrightarrow> n \<notin> vw_stacks v c')" using assms(2) by (simp add: removeLaw_def)
    then show ?thesis using own that by (cases "pl_RemoveStack pl n c") (auto simp: confined_def orphanFree_def)
  qed
  show "spec v own (\<lambda>_. True) (failing msg (onCloud (pl_Destroy pl n goOn))) (\<lambda>_ c. n \<notin> vw_live v c)"
    by (rule spec_cloud) (rule d)
  show "spec v own (\<lambda>c. n \<notin> vw_live v c) (failing msg (onCloud (pl_RemoveStack pl n))) (\<lambda>_ c. n \<notin> vw_stacks v c)"
    "spec v own (\<lambda>c. n \<notin> vw_live v c) (echeck (onCloud (pl_RemoveStack pl n))) (\<lambda>_ c. n \<notin> vw_stacks v c)"
    by (rule spec_cloud, erule r)+
  show "spec v own (\<lambda>_. True) (failing msg (onCloud (pl_Cancel pl n))) (\<lambda>_ _. True)"
    using assms(3) by (intro spec_cloud) (auto simp: configLaw_def intro: keeps_confined)
qed

text \<open>What destroying a stack promises: confined, and the stack is gone when there was no error.\<close>

definition destroysStack :: "'c View \<Rightarrow> string set \<Rightarrow> string \<Rightarrow> ('c, 'm, 'd, 'r) system errEff \<Rightarrow> bool" where
  "destroysStack v own n m \<longleftrightarrow> (\<forall>s. confined v own (y_cloud s) (y_cloud (snd (m s))) \<and>
     (fst (m s) = None \<longrightarrow> n \<notin> vw_stacks v (y_cloud (snd (m s)))))"

lemma destroysStack_confined: "destroysStack v own n m \<Longrightarrow> confined v own (y_cloud s) (y_cloud (snd (m s)))"
  by (simp add: destroysStack_def)

lemma destroysStack_eerr: "spec v own (\<lambda>_. True) m (\<lambda>_ c. n \<notin> vw_stacks v c) \<Longrightarrow> destroysStack v own n (eerr m)"
  by (auto simp: destroysStack_def spec_def)

lemma destroyPairStack_spec:
  assumes laws: "pulumiLaws pl v" and own: "n \<in> own"
  shows "destroysStack v own n (destroyPairStack pl stateDir name n)"
proof -
  have l: "selectLaw pl v" "destroyLaw pl v" "removeLaw pl v" "configLaw pl v" using laws by (simp_all add: pulumiLaws_def)
  note d = destroy_specs[OF l(2-4) own]
  have all: "spec v own (\<lambda>_. True) (ebind (failing m1 (onCloud (pl_Cancel pl n))) (\<lambda>_. ebind (failing m2 (onCloud (pl_Destroy pl n True))) (\<lambda>_.
       failing m3 (onCloud (pl_RemoveStack pl n))))) (\<lambda>_ c. n \<notin> vw_stacks v c)" for m1 m2 m3
    by (rule spec_ebind[OF d(4)] spec_ebind[OF d(1)] d(2))+
  show ?thesis
    unfolding destroyPairStack_def
    by (rule destroysStack_eerr, rule spec_ebind[OF selectStack_spec[OF l(1)]]) (auto intro: spec_eret spec_weaken[OF all])
qed

lemma teardownStack_spec:
  assumes laws: "pulumiLaws pl v" and own: "n \<in> own"
  shows "destroysStack v own n (teardownStack pl stateDir name n selectMsg destroyMsg)"
proof -
  have l: "selectLaw pl v" "destroyLaw pl v" "removeLaw pl v" "configLaw pl v" using laws by (simp_all add: pulumiLaws_def)
  note d = destroy_specs[OF l(2-4) own]
  have all: "spec v own (\<lambda>_. True) (ebind (failing destroyMsg (onCloud (pl_Destroy pl n False))) (\<lambda>_.
       echeck (onCloud (pl_RemoveStack pl n)))) (\<lambda>_ c. n \<notin> vw_stacks v c)"
    by (rule spec_ebind[OF d(1)] d(3))+
  show ?thesis
    unfolding teardownStack_def
    by (rule destroysStack_eerr, rule spec_ebind[OF selectStack_spec[OF l(1)]]) (auto intro: spec_eret spec_weaken[OF all])
qed

section \<open>The names of a run\<close>

lemma isHexLower_safe: "isHexLower c \<Longrightarrow> (isLetter c \<or> isDigit c) \<and> c \<noteq> CHR ''-'' \<and> c \<noteq> CHR ''_'' \<and> lowerChar c = c"
  by (auto simp: isHexLower_def isLetter_def isDigit_def lowerChar_def Let_def)

lemma safeChars_id: "\<forall>c \<in> set s. isLetter c \<or> isDigit c \<Longrightarrow> safeChars b s = s"
  by (induction s arbitrary: b) auto

lemma trimDashes_id: "CHR ''-'' \<notin> set s \<Longrightarrow> trimDashes s = s"
proof -
  have drop: "dropWhile (\<lambda>c. c = CHR ''-'') t = t" if "CHR ''-'' \<notin> set t" for t
    using that by (cases t) auto
  assume "CHR ''-'' \<notin> set s"
  then show ?thesis by (simp add: trimDashes_def drop)
qed

text \<open>The random part of a run identifier is what scopes its names.\<close>

lemma runSuffix_valid:
  assumes "validateRunID runID = None"
  shows "runSuffix runID = drop 14 runID" "CHR ''-'' \<notin> set (drop 14 runID)" "drop 14 runID \<noteq> []"
proof -
  have pat: "runIDPattern runID" using assms by (simp add: validateRunID_def split: if_splits)
  then have len: "20 \<le> length runID" and us: "runID ! 13 = CHR ''_''" and hex: "\<forall>c \<in> set (drop 14 runID). isHexLower c"
    by (simp_all add: runIDPattern_def list_all_iff)
  have split: "runID = take 13 runID @ CHR ''_'' # drop 14 runID"
    using id_take_nth_drop[of 13 runID] len us by simp
  have "LastIndex (CHR ''_'') runID = int (length (take 13 runID))"
    using LastIndex_append[of "CHR ''_''" "drop 14 runID" "take 13 runID"] hex isHexLower_safe split by metis
  then have i: "LastIndex (CHR ''_'') runID = 13" using len by simp
  have low: "ToLower (drop 14 runID) = drop 14 runID" using hex isHexLower_safe by (simp add: ToLower_def map_idI)
  show dash: "CHR ''-'' \<notin> set (drop 14 runID)" using hex isHexLower_safe by blast
  show "drop 14 runID \<noteq> []" using len by simp
  have "safeChars False (drop 14 runID) = drop 14 runID" using hex isHexLower_safe by (intro safeChars_id) blast
  then show "runSuffix runID = drop 14 runID" using len dash by (simp add: runSuffix_def i low trimDashes_id)
qed

lemma scopedName_valid: "validateRunID runID = None \<Longrightarrow> scopedName base runID = base @ CHR ''-'' # drop 14 runID"
  using runSuffix_valid[of runID] by (simp add: scopedName_def)

lemma scopedName_inj:
  assumes "validateRunID a = None" "validateRunID b = None" "scopedName x a = scopedName y b"
  shows "x = y \<and> drop 14 a = drop 14 b"
proof -
  have eq: "x @ CHR ''-'' # drop 14 a = y @ CHR ''-'' # drop 14 b" using assms by (simp add: scopedName_valid)
  have "last (Split (CHR ''-'') (x @ CHR ''-'' # drop 14 a)) = drop 14 a" "last (Split (CHR ''-'') (y @ CHR ''-'' # drop 14 b)) = drop 14 b"
    using runSuffix_valid(2) assms(1,2) by (simp_all add: Split_append_sep Split_no_sep)
  with eq have "drop 14 a = drop 14 b" by simp
  with eq show ?thesis by simp
qed

lemma aws_names: "aws_networkStackName p = scopedName ''tailbench-aws-networking'' (aw_RunID p)"
    "aws_pairStackName p t = scopedName (''tailbench-aws-'' @ dashed t) (aw_RunID p)"
  by (simp_all add: aws_networkStackName_def aws_pairStackName_def scopedName_def Let_def)

definition stacksOfRun :: "string \<Rightarrow> string set" where
  "stacksOfRun runID = range (\<lambda>base. scopedName base runID)"
section \<open>Sequences\<close>

lemma spec_then: "spec v own P m Q \<Longrightarrow> (\<And>x. spec v own (\<lambda>_. True) (f x) R) \<Longrightarrow> spec v own P (ebind m f) R"
  by (rule spec_ebind) (auto intro: spec_weaken)

lemma spec_done: "spec v own P (eret x) (\<lambda>_ _. True)"
  by (rule spec_eret) simp

lemma resolveSSHPubKey_spec: "spec v own P (resolveSSHPubKey ky runID key) (\<lambda>_. P)"
  unfolding resolveSSHPubKey_def by (intro spec_ewrap spec_files)

lemma stacksOfRunI [intro]: "scopedName base runID \<in> stacksOfRun runID"
  by (simp add: stacksOfRun_def)

lemma confined_outside: "confined v own c c' \<Longrightarrow> n \<notin> own \<Longrightarrow> (n \<in> vw_stacks v c' \<longleftrightarrow> n \<in> vw_stacks v c) \<and> (n \<in> vw_live v c' \<longleftrightarrow> n \<in> vw_live v c)"
  unfolding confined_def by blast

lemma other_run_outside:
  assumes "validateRunID a = None" "validateRunID b = None" "drop 14 b \<noteq> drop 14 a"
  shows "scopedName base b \<notin> stacksOfRun a"
  using assms scopedName_inj[of b a base] by (auto simp: stacksOfRun_def)

section \<open>Histories of calls\<close>

datatype providerCall = CallSetup | CallCreate PairOptions | CallDestroy string | CallTeardown

fun runCall :: "('c, 'm, 'd, 'r) system Provider \<Rightarrow> providerCall \<Rightarrow> ('c, 'm, 'd, 'r) system \<Rightarrow> ('c, 'm, 'd, 'r) system" where
  "runCall p CallSetup s = snd (pv_SetupNetworking p s)"
| "runCall p (CallCreate opts) s = snd (pv_CreatePair p opts s)"
| "runCall p (CallDestroy t) s = snd (pv_DestroyPair p t s)"
| "runCall p CallTeardown s = snd (pv_TeardownNetworking p s)"

section \<open>The contract\<close>

text \<open>
  A provider with the stacks \<open>own\<close> of its run and the stack of each pair; \<open>env\<close> stands for the laws of what it
  calls. Its setup and teardown are confined, a created pair reports its stack, and a pair that is destroyed
  without an error has no stack any more.
\<close>

locale cloud_provider =
  fixes env :: bool and v :: "'c View" and own :: "string set" and pairStack :: "string \<Rightarrow> string"
    and p :: "('c, 'm, 'd, 'r) system Provider"
  assumes setup_law: "env \<Longrightarrow> spec v own (\<lambda>_. True) (pv_SetupNetworking p) (\<lambda>_ _. True)"
    and create_law: "env \<Longrightarrow> spec v own (\<lambda>_. True) (pv_CreatePair p opts) (\<lambda>out _. pt_StackName out = pairStack (po_InstanceType opts))"
    and destroy_law: "env \<Longrightarrow> destroysStack v own (pairStack t) (pv_DestroyPair p t)"
    and teardown_law: "env \<Longrightarrow> confined v own (y_cloud s) (y_cloud (snd (pv_TeardownNetworking p s)))"
begin

lemma call_confined: "env \<Longrightarrow> confined v own (y_cloud s) (y_cloud (runCall p call s))"
  using setup_law create_law destroy_law teardown_law by (cases call) (simp_all add: spec_def destroysStack_def)

lemma history_confined:
  assumes env
  shows "confined v own (y_cloud s) (y_cloud (fold (runCall p) calls s))"
proof (induction calls arbitrary: s)
  case (Cons call calls)
  show ?case using confined_trans[OF call_confined[OF assms] Cons] by simp
qed simp

lemma pair_gone:
  assumes env and created: "pv_CreatePair p opts s1 = (Inr out, s2)" and destroyed: "pv_DestroyPair p (po_InstanceType opts) s3 = (None, s4)"
  shows "pt_StackName out \<notin> vw_stacks v (y_cloud s4) \<and> (orphanFree v (y_cloud s3) \<longrightarrow> pt_StackName out \<notin> vw_live v (y_cloud s4))"
proof -
  have name: "pt_StackName out = pairStack (po_InstanceType opts)"
    using create_law[OF \<open>env\<close>, of opts] created by (simp add: spec_def) (metis fst_conv)
  have "pairStack (po_InstanceType opts) \<notin> vw_stacks v (y_cloud s4)" "confined v own (y_cloud s3) (y_cloud s4)"
    using destroy_law[OF \<open>env\<close>, of "po_InstanceType opts"] destroyed by (simp_all add: destroysStack_def) (metis fst_conv snd_conv)+
  with name show ?thesis by (auto simp: confined_def orphanFree_def)
qed

text \<open>What a run can rely on, with the names of the other runs of the backend.\<close>

lemma history:
  assumes env and own: "own = stacksOfRun runID" and valid: "validateRunID runID = None"
  shows "(orphanFree v (y_cloud s) \<longrightarrow> orphanFree v (y_cloud (fold (runCall p) calls s)))
    \<and> (\<forall>other base. validateRunID other = None \<and> drop 14 other \<noteq> drop 14 runID \<longrightarrow>
         (scopedName base other \<in> vw_stacks v (y_cloud (fold (runCall p) calls s)) \<longleftrightarrow> scopedName base other \<in> vw_stacks v (y_cloud s))
       \<and> (scopedName base other \<in> vw_live v (y_cloud (fold (runCall p) calls s)) \<longleftrightarrow> scopedName base other \<in> vw_live v (y_cloud s)))
    \<and> (\<forall>opts out s1 s2 s3 s4. pv_CreatePair p opts s1 = (Inr out, s2) \<longrightarrow> pv_DestroyPair p (po_InstanceType opts) s3 = (None, s4) \<longrightarrow>
         pt_StackName out \<notin> vw_stacks v (y_cloud s4) \<and> (orphanFree v (y_cloud s3) \<longrightarrow> pt_StackName out \<notin> vw_live v (y_cloud s4)))"
proof (intro conjI)
  note all = history_confined[OF \<open>env\<close>, of s calls, unfolded own]
  show "orphanFree v (y_cloud s) \<longrightarrow> orphanFree v (y_cloud (fold (runCall p) calls s))"
    using all by (simp add: confined_def)
  show "\<forall>other base. validateRunID other = None \<and> drop 14 other \<noteq> drop 14 runID \<longrightarrow>
         (scopedName base other \<in> vw_stacks v (y_cloud (fold (runCall p) calls s)) \<longleftrightarrow> scopedName base other \<in> vw_stacks v (y_cloud s))
       \<and> (scopedName base other \<in> vw_live v (y_cloud (fold (runCall p) calls s)) \<longleftrightarrow> scopedName base other \<in> vw_live v (y_cloud s))"
    using confined_outside[OF all other_run_outside[OF valid]] by blast
qed (use pair_gone[OF \<open>env\<close>] in blast)

end

end
