(* ===== verification/Provider_Props.thy ===== *)
theory Provider_Props
  imports Provider_Contract
begin

text \<open>
  The machine providers of AWS, GCP and Azure satisfy the contract of a cloud provider, under the laws of the
  Automation API: the interpretations of the locale, and what a run can rely on.
\<close>

section \<open>The three machine providers\<close>

lemma aws_generatedKey_spec: "spec v own P (aws_generatedKey ky p) (\<lambda>_. P)"
  unfolding aws_generatedKey_def Let_def
  by (cases "aw_KeyName p = []") (auto intro!: spec_eret spec_ebind[OF spec_ewrap[OF spec_files]])

lemma aws_pairStack_own: "aws_networkStackName p \<in> stacksOfRun (aw_RunID p)" "aws_pairStackName p t \<in> stacksOfRun (aw_RunID p)"
  by (auto simp: aws_names)

interpretation aws: cloud_provider "pulumiLaws pl v" v "stacksOfRun (aw_RunID p)" "aws_pairStackName p" "AWS_Provider pl ky cli p"
  for pl :: "'c Pulumi" and v and ky and cli :: "('c, 'm, 'd, 'r) system CloudCLI" and p
proof (unfold_locales, unfold AWS_Provider_def Provider.simps)
  assume laws: "pulumiLaws pl v"
  note up = upStack_spec[OF laws aws_pairStack_own(1)] upStack_spec[OF laws aws_pairStack_own(2)]
  show "spec v (stacksOfRun (aw_RunID p)) (\<lambda>_. True) (aws_SetupNetworking pl ky p) (\<lambda>_ _. True)"
    unfolding aws_SetupNetworking_def Let_def
    by (rule spec_then[OF aws_generatedKey_spec], simp only: split_beta, rule spec_then[OF up(1) spec_done])
  show "spec v (stacksOfRun (aw_RunID p)) (\<lambda>_. True) (aws_CreatePair pl p opts) (\<lambda>out _. pt_StackName out = aws_pairStackName p (po_InstanceType opts))" for opts
    unfolding aws_CreatePair_def Let_def
    by (rule spec_then[OF up(2)], rule spec_eret) (simp add: aws_pairOutput_def aws_names Let_def)
  show "destroysStack v (stacksOfRun (aw_RunID p)) (aws_pairStackName p t) (aws_DestroyPair pl p t)" for t
    unfolding aws_DestroyPair_def by (rule destroyPairStack_spec[OF laws aws_pairStack_own(2)])
  show "confined v (stacksOfRun (aw_RunID p)) (y_cloud s) (y_cloud (snd (aws_TeardownNetworking pl p s)))" for s
    unfolding aws_TeardownNetworking_def Let_def by (rule destroysStack_confined[OF teardownStack_spec[OF laws aws_pairStack_own(1)]])
qed

lemma gcp_pairStack_own: "gcp_pairStackName p t \<in> stacksOfRun (gp_RunID p)"
  by (auto simp: gcp_pairStackName_def)

lemma gcp_key_spec: "spec v own P (if given = [] then gcp_resolveSSHPubKey ky p else eret given) (\<lambda>_. P)"
  by (simp add: gcp_resolveSSHPubKey_def resolveSSHPubKey_spec spec_eret)

interpretation gcp: cloud_provider "pulumiLaws pl v" v "stacksOfRun (gp_RunID p)" "gcp_pairStackName p" "GCP_Provider pl ky cli p"
  for pl :: "'c Pulumi" and v and ky and cli :: "('c, 'm, 'd, 'r) system CloudCLI" and p
proof (unfold_locales, unfold GCP_Provider_def Provider.simps)
  assume laws: "pulumiLaws pl v"
  show "spec v (stacksOfRun (gp_RunID p)) (\<lambda>_. True) (gcp_SetupNetworking ky p) (\<lambda>_ _. True)"
    unfolding gcp_SetupNetworking_def gcp_resolveSSHPubKey_def by (rule spec_then[OF resolveSSHPubKey_spec spec_done])
  show "spec v (stacksOfRun (gp_RunID p)) (\<lambda>_. True) (gcp_CreatePair pl ky p opts) (\<lambda>out _. pt_StackName out = gcp_pairStackName p (po_InstanceType opts))" for opts
    unfolding gcp_CreatePair_def Let_def
    by (rule spec_then[OF gcp_key_spec spec_then[OF upStack_spec[OF laws gcp_pairStack_own]]], rule spec_eret)
      (simp add: vmPairOutput_def gcp_pairStackName_def Let_def)
  show "destroysStack v (stacksOfRun (gp_RunID p)) (gcp_pairStackName p t) (gcp_DestroyPair pl p t)" for t
    unfolding gcp_DestroyPair_def by (rule destroyPairStack_spec[OF laws gcp_pairStack_own])
qed (simp add: gcp_TeardownNetworking_def)

lemma azure_pairStack_own: "azure_networkStackName p \<in> stacksOfRun (az_RunID p)" "azure_pairStackName p t \<in> stacksOfRun (az_RunID p)"
  by (auto simp: azure_networkStackName_def azure_pairStackName_def)

lemma azure_key_spec: "spec v own P (if given = [] then azure_resolveSSHPubKey ky p else eret given) (\<lambda>_. P)"
  by (simp add: azure_resolveSSHPubKey_def resolveSSHPubKey_spec spec_eret)

interpretation azure: cloud_provider "pulumiLaws pl v" v "stacksOfRun (az_RunID p)" "azure_pairStackName p" "Azure_Provider pl ky enc cli unmarshal cache p"
  for pl :: "'c Pulumi" and v and ky and enc and cli :: "('c, 'm, 'd, 'r) system CloudCLI" and unmarshal and cache and p
proof (unfold_locales, unfold Azure_Provider_def Provider.simps)
  assume laws: "pulumiLaws pl v"
  note up = upStack_spec[OF laws azure_pairStack_own(1)] upStack_spec[OF laws azure_pairStack_own(2)]
  show "spec v (stacksOfRun (az_RunID p)) (\<lambda>_. True) (azure_SetupNetworking pl ky p) (\<lambda>_ _. True)"
    unfolding azure_SetupNetworking_def azure_resolveSSHPubKey_def Let_def
    by (rule spec_then[OF resolveSSHPubKey_spec spec_then[OF up(1) spec_done]])
  show "spec v (stacksOfRun (az_RunID p)) (\<lambda>_. True) (azure_CreatePair pl ky enc p opts) (\<lambda>out _. pt_StackName out = azure_pairStackName p (po_InstanceType opts))" for opts
    unfolding azure_CreatePair_def Let_def
    by (rule spec_then[OF azure_key_spec spec_then[OF up(2)]], rule spec_eret) (simp add: vmPairOutput_def azure_pairStackName_def Let_def)
  show "destroysStack v (stacksOfRun (az_RunID p)) (azure_pairStackName p t) (azure_DestroyPair pl p t)" for t
    unfolding azure_DestroyPair_def by (rule destroyPairStack_spec[OF laws azure_pairStack_own(2)])
  show "confined v (stacksOfRun (az_RunID p)) (y_cloud s) (y_cloud (snd (azure_TeardownNetworking pl p s)))" for s
    unfolding azure_TeardownNetworking_def by (rule destroysStack_confined[OF teardownStack_spec[OF laws azure_pairStack_own(1)]])
qed

text \<open>
  C35: whatever sequence of calls the provider of a run receives (networking, pairs created and destroyed,
  teardown) and whichever of Pulumi's calls fail on the way, no cloud resource is left without the stack that
  knows of it, and no stack and no resource of a run with another random part is touched. The stack name a
  created pair reports, which is the one the manifest records, is gone after a destruction without error, and
  its resources with it when every resource had a stack before.
\<close>

theorem provider_history_confined:
  assumes laws: "pulumiLaws pl v"
    and runs: "aw_RunID a = runID" "gp_RunID g = runID" "az_RunID z = runID" and valid: "validateRunID runID = None"
    and p: "p \<in> {AWS_Provider pl ky cli a, GCP_Provider pl ky cli g, Azure_Provider pl ky enc cli unmarshal cache z}"
  shows "(orphanFree v (y_cloud s) \<longrightarrow> orphanFree v (y_cloud (fold (runCall p) calls s)))
    \<and> (\<forall>other base. validateRunID other = None \<and> drop 14 other \<noteq> drop 14 runID \<longrightarrow>
         (scopedName base other \<in> vw_stacks v (y_cloud (fold (runCall p) calls s)) \<longleftrightarrow> scopedName base other \<in> vw_stacks v (y_cloud s))
       \<and> (scopedName base other \<in> vw_live v (y_cloud (fold (runCall p) calls s)) \<longleftrightarrow> scopedName base other \<in> vw_live v (y_cloud s)))
    \<and> (\<forall>opts out s1 s2 s3 s4. pv_CreatePair p opts s1 = (Inr out, s2) \<longrightarrow> pv_DestroyPair p (po_InstanceType opts) s3 = (None, s4) \<longrightarrow>
         pt_StackName out \<notin> vw_stacks v (y_cloud s4) \<and> (orphanFree v (y_cloud s3) \<longrightarrow> pt_StackName out \<notin> vw_live v (y_cloud s4)))"
  using p
proof (elim insertE emptyE)
  assume "p = AWS_Provider pl ky cli a"
  then show ?thesis using aws.history[OF laws, of a runID] runs(1) valid by simp
next
  assume "p = GCP_Provider pl ky cli g"
  then show ?thesis using gcp.history[OF laws, of g runID] runs(2) valid by simp
next
  assume "p = Azure_Provider pl ky enc cli unmarshal cache z"
  then show ?thesis using azure.history[OF laws, of z runID] runs(3) valid by simp
qed

text \<open>A backend that keeps the names of its stacks and of those that have resources in two lists.\<close>

definition examplePulumi :: "(string list \<times> string list) Pulumi" where
  "examplePulumi = \<lparr>pl_Upsert = (\<lambda>ws n (stacks, live). (None, (n # stacks, live))),
     pl_Select = (\<lambda>ws n (stacks, live). (if n \<in> set stacks then None else Some (ErrText ''no stack''), (stacks, live))),
     pl_Is404 = (\<lambda>e. e = ErrText ''no stack''), pl_SetConfig = (\<lambda>n k x c. (None, c)),
     pl_Up = (\<lambda>n program refresh (stacks, live). (Inr [], (stacks, n # live))), pl_Cancel = (\<lambda>n c. (None, c)),
     pl_Destroy = (\<lambda>n goOn (stacks, live). (None, (stacks, filter (\<lambda>x. x \<noteq> n) live))),
     pl_RemoveStack = (\<lambda>n (stacks, live). if n \<in> set live then (Some (ErrText ''stack has resources''), (stacks, live))
       else (None, (filter (\<lambda>x. x \<noteq> n) stacks, live)))\<rparr>"

definition exampleView :: "(string list \<times> string list) View" where
  "exampleView = \<lparr>vw_stacks = set \<circ> fst, vw_live = set \<circ> snd\<rparr>"

lemma examplePulumi_laws: "pulumiLaws examplePulumi exampleView"
  unfolding pulumiLaws_def selectLaw_def upsertLaw_def configLaw_def upLaw_def destroyLaw_def removeLaw_def keeps_def examplePulumi_def exampleView_def
  by (auto split: prod.splits)

definition exampleKeys :: "(string, string) SSHKeys" where
  "exampleKeys = \<lparr>ky_Generate = (\<lambda>n. Inr (string_of_nat n)), ky_Marshal = (\<lambda>k. Inr (Bytes k)),
     ky_Public = (\<lambda>k. Inr (''ssh-ed25519 '' @ k)), ky_Parse = (\<lambda>c. case c of Bytes k \<Rightarrow> Inr (''ssh-ed25519 '' @ k) | _ \<Rightarrow> Inl (ErrText ''not a key''))\<rparr>"

definition exampleCLI :: "'s CloudCLI" where
  "exampleCLI = \<lparr>cl_Output = (\<lambda>_ _ s. (Inr [], s)), cl_Rows = (\<lambda>_. Inr []), cl_String = (\<lambda>_. None), cl_Int = (\<lambda>_. None), cl_Atoi = (\<lambda>_. (0, None))\<rparr>"

definition exampleAWS :: AWSProvider where
  "exampleAWS = \<lparr>aw_Region = ''us-east-1'', aw_AZ = ''us-east-1a'', aw_KeyName = [], aw_SSHUser = [], aw_StateDir = ''state'', aw_RunID = ''tb_2025-01-02_abcdef'', aw_ExpiresAt = []\<rparr>"

definition exampleGCP :: GCPProvider where
  "exampleGCP = \<lparr>gp_Project = [], gp_Zone = ''us-central1-a'', gp_Region = [], gp_Network = [], gp_Subnet = [], gp_SSHPubKey = [], gp_SSHUser = [], gp_StateDir = [],
    gp_RunID = ''tb_2025-01-02_abcdef'', gp_ExpiresAt = []\<rparr>"

definition exampleAzure :: AzureProvider where
  "exampleAzure = \<lparr>az_Location = ''eastus'', az_ResourceGroup = ''rg'', az_SSHUser = [], az_SSHPubKey = [], az_StateDir = [], az_RunID = ''tb_2025-01-02_abcdef'', az_ExpiresAt = []\<rparr>"

definition examplePair :: PairOptions where
  "examplePair = \<lparr>po_InstanceType = ''c7i.large'', po_UserData = [], po_ClientUserData = [], po_Networking = \<lparr>no_Values = [], no_StackName = [], no_ProviderID = []\<rparr>,
     po_BenchImage = [], po_TSImage = [], po_WantRouter = False, po_RouterUserData = [], po_RunID = [], po_ExpiresAt = []\<rparr>"

text \<open>A cloud in which another run has its network.\<close>

definition exampleCloud :: "(string list \<times> string list, unit, string, unit) system" where
  "exampleCloud = \<lparr>y_cloud = ([''tailbench-aws-networking-123456''], [''tailbench-aws-networking-123456'']), y_machines = (),
     y_disk = \<lparr>w_fs = (\<lambda>_. Some Dir), w_fault = (\<lambda>_. None), w_calls = 0, w_rand = id, w_draws = 0, w_clock = int, w_ticks = 0\<rparr>, y_store = ()\<rparr>"

definition exampleHistory :: "(string list \<times> string list, unit, string, unit) system" where
  "exampleHistory = fold (runCall (AWS_Provider examplePulumi exampleKeys exampleCLI exampleAWS))
     [CallSetup, CallCreate examplePair, CallDestroy ''c7i.large'', CallTeardown] exampleCloud"

theorem provider_history_confined_witness:
  "orphanFree exampleView (y_cloud exampleHistory) \<and> ''tailbench-aws-networking-123456'' \<in> vw_live exampleView (y_cloud exampleHistory)"
proof -
  have valid: "validateRunID ''tb_2025-01-02_abcdef'' = None" "validateRunID ''tb_2025-01-02_123456'' = None \<and> drop 14 ''tb_2025-01-02_123456'' \<noteq> drop 14 ''tb_2025-01-02_abcdef''"
    "scopedName ''tailbench-aws-networking'' ''tb_2025-01-02_123456'' = ''tailbench-aws-networking-123456''" by code_simp+
  have start: "orphanFree exampleView (y_cloud exampleCloud)" "''tailbench-aws-networking-123456'' \<in> vw_live exampleView (y_cloud exampleCloud)"
    by (simp_all add: orphanFree_def exampleView_def exampleCloud_def)
  have runs: "aw_RunID exampleAWS = ''tb_2025-01-02_abcdef''" "gp_RunID exampleGCP = ''tb_2025-01-02_abcdef''" "az_RunID exampleAzure = ''tb_2025-01-02_abcdef''"
    by (simp_all add: exampleAWS_def exampleGCP_def exampleAzure_def)
  note t = provider_history_confined[
      where ky=exampleKeys and cli=exampleCLI and enc=id and unmarshal="\<lambda>_. Inr None" and cache=None and s=exampleCloud
        and calls="[CallSetup, CallCreate examplePair, CallDestroy ''c7i.large'', CallTeardown]",
      OF examplePulumi_laws runs valid(1) insertI1, folded exampleHistory_def]
  show ?thesis
    using t[THEN conjunct1] start(1) t[THEN conjunct2, THEN conjunct1, rule_format, OF valid(2), of "''tailbench-aws-networking''", unfolded valid(3)] start(2) by blast
qed

end
