(* ===== verification/SSHKey_Props.thy ===== *)
theory SSHKey_Props
  imports Pulumi Runstate_Props
begin

text \<open>
  The key of a run is generated once: later calls read it back. The cryptographic packages are an argument;
  their documented round trip, that a marshalled private key parses to its own public half, is a hypothesis.
\<close>

lemma append_to_empty: "append_content (Docs []) c = c"
  by (cases c) (simp_all add: glue_def)

lemma os_WriteFile_content:
  assumes "os_WriteFile p c w = (Inr (), w')"
  shows "w_fs w' p = Some (Regular c)"
proof -
  from assms obtain w1 w2 where t: "os_Truncate p w = (Inr (), w1)" and wr: "fd_Write p c w1 = (Inr (), w2)" and cl: "fd_call w2 = (Inr (), w')"
    by (auto simp: os_WriteFile_def bind_def onErr_def split: prod.splits sum.splits)
  have "w_fs w1 p = Some (Regular (Docs []))"
    using t by (auto simp: os_Truncate_def syscall_def set_node_def Let_def split: option.splits fault.splits node.splits if_splits)
  then have "w_fs w2 p = Some (Regular c)"
    using wr by (auto simp: fd_Write_def syscall_def append_node_def set_node_def append_to_empty Let_def split: option.splits fault.splits)
  then show ?thesis using cl by (auto simp: fd_call_def syscall_def ret_def Let_def split: option.splits fault.splits)
qed

lemma lift_sum_Inr [simp]: "lift_sum msg r s = (Inr x, s') \<longleftrightarrow> r = Inr x \<and> s' = s"
  by (auto simp: lift_sum_def efail_def eret_def split: sum.split)

definition keyRoundTrip :: "('k, 'd) SSHKeys \<Rightarrow> bool" where
  "keyRoundTrip ky \<longleftrightarrow> (\<forall>k c l. ky_Marshal ky k = Inr c \<longrightarrow> ky_Public ky k = Inr l \<longrightarrow> ky_Parse ky c = Inr l)"

text \<open>What a successful call leaves: a key file that parses to the line it returned.\<close>

lemma EnsureSSHKey_file:
  assumes ok: "EnsureSSHKey ky rootDir keyName w = (Inr line, w1)"
    and rt: "keyRoundTrip ky"
  shows "\<exists>c. w_fs w1 (SSHKeyPath rootDir keyName) = Some (Regular c) \<and> ky_Parse ky c = Inr line"
proof -
  let ?p = "SSHKeyPath rootDir keyName"
  obtain r w0 where read: "os_ReadFile ?p w = (r, w0)" by fastforce
  show ?thesis
  proof (cases r)
    case (Inr c)
    with read have "w_fs w0 ?p = Some (Regular c)"
      by (auto simp: os_ReadFile_def syscall_def Let_def split: option.splits fault.splits node.splits)
    with ok read Inr show ?thesis by (auto simp: EnsureSSHKey_def Let_def ebind_Inr ecatch_def)
  next
    case (Inl e)
    with ok read have "generateSSHKey ky ?p w0 = (Inr line, w1)"
      by (auto simp: EnsureSSHKey_def Let_def ebind_Inr ecatch_def split: if_splits)
    then obtain key pem w2 where "ky_Marshal ky key = Inr pem" "os_WriteFile ?p pem w2 = (Inr (), w1)" "ky_Public ky key = Inr line"
      by (auto simp: generateSSHKey_def ebind_Inr)
    with os_WriteFile_content rt show ?thesis unfolding keyRoundTrip_def by blast
  qed
qed

lemma EnsureSSHKey_reads:
  assumes "noFaults w" and "w_fs w (SSHKeyPath rootDir keyName) = Some (Regular c)"
  shows "EnsureSSHKey ky rootDir keyName w = (case ky_Parse ky c of
       Inl e \<Rightarrow> (Inl (Wrapf (''parse existing SSH key '' @ path_string (SSHKeyPath rootDir keyName) @ '': '') e []), w\<lparr>w_calls := w_calls w + 1\<rparr>)
     | Inr line \<Rightarrow> (Inr line, w\<lparr>w_calls := w_calls w + 1\<rparr>))"
  using assms by (simp add: EnsureSSHKey_def Let_def ebind_def ecatch_def os_ReadFile_def syscall_def noFaults_def lift_sum_def efail_def eret_def split: sum.split)

text \<open>
  C34: once \<open>EnsureSSHKey\<close> has returned a key, every later call that finds the key file as it was left returns
  the same line and changes no file, so no cloud key pair is replaced. A key file that does not parse, as an
  interrupted write leaves it, fails every call, and none of them repairs it.
\<close>

theorem EnsureSSHKey_stable:
  assumes "EnsureSSHKey ky rootDir keyName w = (Inr line, w1)"
    and "keyRoundTrip ky"
    and "noFaults w2" and "w_fs w2 (SSHKeyPath rootDir keyName) = w_fs w1 (SSHKeyPath rootDir keyName)"
    and "noFaults w3" "w_fs w3 (SSHKeyPath rootDir keyName) = Some (Regular torn)" "ky_Parse ky torn = Inl e"
  shows "fst (EnsureSSHKey ky rootDir keyName w2) = Inr line \<and> w_fs (snd (EnsureSSHKey ky rootDir keyName w2)) = w_fs w2
    \<and> (\<exists>err. fst (EnsureSSHKey ky rootDir keyName w3) = Inl err) \<and> w_fs (snd (EnsureSSHKey ky rootDir keyName w3)) = w_fs w3"
proof -
  obtain c where c: "w_fs w2 (SSHKeyPath rootDir keyName) = Some (Regular c)" "ky_Parse ky c = Inr line"
    using EnsureSSHKey_file[OF assms(1,2)] assms(4) by auto
  from EnsureSSHKey_reads[where ky=ky, OF assms(3) c(1)] EnsureSSHKey_reads[where ky=ky, OF assms(5,6)] show ?thesis by (simp add: c(2) assms(7))
qed

definition plainKeys :: "(nat, string) SSHKeys" where
  "plainKeys = \<lparr>ky_Generate = Inr, ky_Marshal = (\<lambda>k. Inr (Bytes (string_of_nat k))), ky_Public = (\<lambda>k. Inr (''ssh-ed25519 '' @ string_of_nat k)),
     ky_Parse = (\<lambda>c. case c of Bytes t \<Rightarrow> Inr (''ssh-ed25519 '' @ t) | Docs _ \<Rightarrow> Inl (ErrText ''no key found''))\<rparr>"

text \<open>A working directory with the key directory, without a key and with an empty one.\<close>

definition keyWorld :: "string node option \<Rightarrow> string world" where
  "keyWorld n = \<lparr>w_fs = (\<lambda>q. if q = SSHKeyPath ''.'' ''tailbench-abcdef'' then n else Some Dir), w_fault = (\<lambda>_. None), w_calls = 0,
     w_rand = (\<lambda>_. 7), w_draws = 0, w_clock = int, w_ticks = 0\<rparr>"

lemma keyWorld_parent: "path_parent (SSHKeyPath ''.'' ''tailbench-abcdef'') \<noteq> SSHKeyPath ''.'' ''tailbench-abcdef''"
  by code_simp

lemma keyWorld_first: "\<exists>w1. EnsureSSHKey plainKeys ''.'' ''tailbench-abcdef'' (keyWorld None) = (Inr ''ssh-ed25519 7'', w1)"
proof -
  let ?p = "SSHKeyPath ''.'' ''tailbench-abcdef''"
  have seven: "string_of_nat 7 = ''7''" by code_simp
  have mk: "os_MkdirAll (path_parent ?p) (w :: string world) = (Inr (), w\<lparr>w_calls := w_calls w + 1\<rparr>)"
    if "w_fs w = w_fs (keyWorld None)" "w_fault w = (\<lambda>_. None)" for w
    using that keyWorld_parent
    by (simp add: os_MkdirAll_def mkdirAll.simps[of "fst (path_parent ?p)"] os_Stat_def syscall_def keyWorld_def)
  show ?thesis
    using keyWorld_parent
    by (auto simp: EnsureSSHKey_def generateSSHKey_def Let_def ebind_def ecatch_def ewrap_def os_ReadFile_def syscall_def randomKey_def plainKeys_def
        lift_sum_def eret_def os_WriteFile_def os_Truncate_def bind_def onErr_def fd_Write_def append_node_def set_node_def fd_call_def ret_def seven mk keyWorld_def)
qed

theorem EnsureSSHKey_stable_witness:
  "\<exists>w1. EnsureSSHKey plainKeys ''.'' ''tailbench-abcdef'' (keyWorld None) = (Inr ''ssh-ed25519 7'', w1) \<and>
     fst (EnsureSSHKey plainKeys ''.'' ''tailbench-abcdef'' ((keyWorld None)\<lparr>w_fs := w_fs w1\<rparr>)) = Inr ''ssh-ed25519 7'' \<and>
     (\<exists>err. fst (EnsureSSHKey plainKeys ''.'' ''tailbench-abcdef'' (keyWorld (Some (Regular (Docs []))))) = Inl err)"
proof -
  obtain w1 where w1: "EnsureSSHKey plainKeys ''.'' ''tailbench-abcdef'' (keyWorld None) = (Inr ''ssh-ed25519 7'', w1)"
    using keyWorld_first by blast
  have rt: "keyRoundTrip plainKeys" by (auto simp: keyRoundTrip_def plainKeys_def)
  have n: "noFaults ((keyWorld None)\<lparr>w_fs := w_fs w1\<rparr>)" "noFaults (keyWorld (Some (Regular (Docs []))))"
    "w_fs ((keyWorld None)\<lparr>w_fs := w_fs w1\<rparr>) (SSHKeyPath ''.'' ''tailbench-abcdef'') = w_fs w1 (SSHKeyPath ''.'' ''tailbench-abcdef'')"
    "w_fs (keyWorld (Some (Regular (Docs [])))) (SSHKeyPath ''.'' ''tailbench-abcdef'') = Some (Regular (Docs []))"
    "ky_Parse plainKeys (Docs []) = Inl (ErrText ''no key found'')" by (simp_all add: noFaults_def keyWorld_def plainKeys_def)
  note t = EnsureSSHKey_stable[OF w1 rt n(1) n(3) n(2) n(4) n(5)]
  show ?thesis by (intro exI[of _ w1] conjI w1 t[THEN conjunct1] t[THEN conjunct2, THEN conjunct2, THEN conjunct1])
qed

end
