(* ===== verification/Tailnet.thy ===== *)
theory Tailnet
  imports Orch_Run
begin

text \<open>
  Package internal/tailnet: the ephemeral tailnet of a run, its access policy, the removal of stale devices
  and the authentication key. The HTTP client, the JSON decoders and the client of the Tailscale API are
  arguments over an arbitrary state. The lemmas fix which devices are removed and what the policy grants.
\<close>

section \<open>HTTP\<close>

record Request =
  rq_Method :: string
  rq_URL :: string
  rq_Header :: "(string \<times> string) list"
  rq_Body :: string

record Response =
  rs_StatusCode :: int
  rs_Body :: string

record 's HTTP =
  ht_BadURL :: "string \<Rightarrow> go_error option"
  ht_Do :: "Request \<Rightarrow> ('s, Response) eff"
  ht_Token :: "string \<Rightarrow> go_error + string"
  ht_Tailnet :: "string \<Rightarrow> go_error + TailnetInfo"
  ht_DisplayName :: "string \<Rightarrow> string"

record Manager =
  ma_OrgClientID :: string
  ma_OrgClientSecret :: string
  ma_Tag :: string
  ma_BaseURL :: string

definition baseURL :: "Manager \<Rightarrow> string" where
  "baseURL m = (if ma_BaseURL m = [] then ''https://api.tailscale.com'' else ma_BaseURL m)"

text \<open>A request that cannot be built fails before it is sent.\<close>

definition sendRequest :: "'s HTTP \<Rightarrow> Request \<Rightarrow> ('s, Response) eff" where
  "sendRequest h r = (case ht_BadURL h (rq_URL r) of Some e \<Rightarrow> efail e | None \<Rightarrow> ht_Do h r)"

definition httpFailed :: "string \<Rightarrow> Response \<Rightarrow> go_error" where
  "httpFailed what r = ErrText (what @ '' failed (HTTP '' @ string_of_int (rs_StatusCode r) @ ''): '' @ rs_Body r)"

definition lift_json :: "go_error + 'a \<Rightarrow> ('s, 'a) eff" where
  "lift_json r = (case r of Inl e \<Rightarrow> efail e | Inr x \<Rightarrow> eret x)"

definition getOrgToken :: "'s HTTP \<Rightarrow> Manager \<Rightarrow> ('s, string) eff" where
  "getOrgToken h m =
     ebind (sendRequest h \<lparr>rq_Method = ''POST'', rq_URL = baseURL m @ ''/api/v2/oauth/token'',
       rq_Header = [(''Content-Type'', ''application/x-www-form-urlencoded'')],
       rq_Body = ''grant_type=client_credentials&client_id='' @ ma_OrgClientID m @ ''&client_secret='' @ ma_OrgClientSecret m\<rparr>) (\<lambda>resp.
     if rs_StatusCode resp \<noteq> 200 then efail (httpFailed ''oauth token'' resp) else lift_json (ht_Token h (rs_Body resp)))"

definition CreateTailnet :: "'s HTTP \<Rightarrow> Manager \<Rightarrow> string \<Rightarrow> ('s, TailnetInfo) eff" where
  "CreateTailnet h m name =
     ebind (ewrap (\<lambda>e. Wrapf ''get org token: '' e []) (getOrgToken h m)) (\<lambda>token.
     ebind (sendRequest h \<lparr>rq_Method = ''POST'', rq_URL = baseURL m @ ''/api/v2/organizations/-/tailnets'',
       rq_Header = [(''Authorization'', ''Bearer '' @ token), (''Content-Type'', ''application/json'')], rq_Body = ht_DisplayName h name\<rparr>) (\<lambda>resp.
     if rs_StatusCode resp \<noteq> 200 then efail (httpFailed ''tailnet creation'' resp) else lift_json (ht_Tailnet h (rs_Body resp))))"

definition DeleteTailnet :: "'s HTTP \<Rightarrow> Manager \<Rightarrow> string \<Rightarrow> 's errEff" where
  "DeleteTailnet h m dnsName = eerr (
     ebind (ewrap (\<lambda>e. Wrapf ''get org token: '' e []) (getOrgToken h m)) (\<lambda>token.
     ebind (sendRequest h \<lparr>rq_Method = ''DELETE'', rq_URL = baseURL m @ ''/api/v2/tailnet/'' @ dnsName,
       rq_Header = [(''Authorization'', ''Bearer '' @ token)], rq_Body = []\<rparr>) (\<lambda>resp.
     if rs_StatusCode resp = 404 then eret ()
     else if rs_StatusCode resp \<noteq> 200 then efail (httpFailed ''tailnet deletion'' resp) else eret ())))"

section \<open>The access policy\<close>

record ACLEntry =
  ae_Action :: string
  ae_Source :: "string list"
  ae_Destination :: "string list"

record ACLSSH =
  as_Action :: string
  as_Source :: "string list"
  as_Destination :: "string list"
  as_Users :: "string list"

text \<open>The application capabilities of a grant: per capability a list of objects, here with named lists of strings inside.\<close>

record Grant =
  gr_Source :: "string list"
  gr_Destination :: "string list"
  gr_IP :: "string list"
  gr_App :: "(string \<times> (string \<times> (string \<times> string list) list) list list) list"

record ACL =
  acl_ACLs :: "ACLEntry list"
  acl_TagOwners :: "string \<rightharpoonup> string list"
  acl_SSH :: "ACLSSH list"
  acl_ExitNode :: "string list"
  acl_Routes :: "string \<rightharpoonup> string list"
  acl_Grants :: "Grant list"

definition tagOwners :: "string \<Rightarrow> bool \<Rightarrow> string \<rightharpoonup> string list" where
  "tagOwners tag k8sOperator = (let owners = [tag \<mapsto> [tag], ''tag:bench-service'' \<mapsto> [tag]] in
     if k8sOperator then owners(''tag:k8s'' \<mapsto> [tag]) else owners)"

definition kubernetesGrants :: "string \<Rightarrow> Grant list" where
  "kubernetesGrants tag =
    [\<lparr>gr_Source = [tag], gr_Destination = [tag], gr_IP = [''*''],
      gr_App = [(''tailscale.com/cap/kubernetes'', [[(''impersonate'', [(''groups'', [''system:masters''])])]])]\<rparr>,
     \<lparr>gr_Source = [tag], gr_Destination = [''tag:bench-service''], gr_IP = [''*''], gr_App = []\<rparr>]"

definition buildACL :: "string \<Rightarrow> bool \<Rightarrow> bool \<Rightarrow> ACL" where
  "buildACL tag tsnetSSH k8sOperator = \<lparr>
     acl_ACLs = [\<lparr>ae_Action = ''accept'', ae_Source = [''*''], ae_Destination = [''*:*'']\<rparr>],
     acl_TagOwners = tagOwners tag k8sOperator,
     acl_SSH = (if tsnetSSH then [\<lparr>as_Action = ''accept'', as_Source = [tag], as_Destination = [tag], as_Users = [''root'', ''autogroup:nonroot'']\<rparr>] else []),
     acl_ExitNode = [tag],
     acl_Routes = (if k8sOperator then [''0.0.0.0/0'' \<mapsto> [tag]] else Map.empty),
     acl_Grants = \<lparr>gr_Source = [tag], gr_Destination = [tag], gr_IP = [], gr_App = [(''tailscale.com/cap/relay'', [])]\<rparr>
       # (if k8sOperator then kubernetesGrants tag else [])\<rparr>"

section \<open>The client of the Tailscale API\<close>

record Device =
  dv_ID :: string
  dv_Hostname :: string

record KeyRequest =
  kr_Reusable :: bool
  kr_Ephemeral :: bool
  kr_Preauthorized :: bool
  kr_Tags :: "string list"
  kr_ExpirySeconds :: int

text \<open>Every call has the OAuth client it authenticates with.\<close>

record 's TailscaleAPI =
  ta_SetPolicy :: "string \<times> string \<Rightarrow> ACL \<Rightarrow> 's errEff"
  ta_Devices :: "string \<times> string \<Rightarrow> ('s, Device list) eff"
  ta_DeleteDevice :: "string \<times> string \<Rightarrow> string \<Rightarrow> 's errEff"
  ta_EnableHTTPS :: "string \<times> string \<Rightarrow> bool \<Rightarrow> 's errEff"
  ta_CreateKey :: "string \<times> string \<Rightarrow> KeyRequest \<Rightarrow> ('s, string) eff"

definition SetupACL :: "'s TailscaleAPI \<Rightarrow> Manager \<Rightarrow> string \<Rightarrow> string \<Rightarrow> bool \<Rightarrow> bool \<Rightarrow> 's errEff" where
  "SetupACL api m clientID clientSecret tsnetSSH k8sOperator =
     ta_SetPolicy api (clientID, clientSecret) (buildACL (ma_Tag m) tsnetSSH k8sOperator)"

text \<open>The loop over the devices: it stops at the first one that cannot be deleted, with the count so far.\<close>

fun deleteStale :: "'s TailscaleAPI \<Rightarrow> string \<times> string \<Rightarrow> string \<Rightarrow> Device list \<Rightarrow> int \<Rightarrow> 's \<Rightarrow> (int \<times> go_error option) \<times> 's" where
  "deleteStale api client hostnamePrefix [] cleaned s = ((cleaned, None), s)"
| "deleteStale api client hostnamePrefix (d # ds) cleaned s =
    (if dv_Hostname d \<noteq> [] \<and> hostnamePrefix \<noteq> [] \<and> HasPrefix (dv_Hostname d) hostnamePrefix then
       (case ta_DeleteDevice api client (dv_ID d) s of
          (Some e, s1) \<Rightarrow> ((cleaned, Some (Wrapf (''delete device '' @ dv_Hostname d @ '' ('' @ dv_ID d @ ''): '') e [])), s1)
        | (None, s1) \<Rightarrow> deleteStale api client hostnamePrefix ds (cleaned + 1) s1)
     else deleteStale api client hostnamePrefix ds cleaned s)"

definition CleanupStaleDevices :: "'s TailscaleAPI \<Rightarrow> string \<Rightarrow> string \<Rightarrow> string \<Rightarrow> 's \<Rightarrow> (int \<times> go_error option) \<times> 's" where
  "CleanupStaleDevices api clientID clientSecret hostnamePrefix s = (case ta_Devices api (clientID, clientSecret) s of
     (Inl e, s1) \<Rightarrow> ((0, Some (Wrapf ''list devices: '' e [])), s1)
   | (Inr devices, s1) \<Rightarrow> deleteStale api (clientID, clientSecret) hostnamePrefix devices 0 s1)"

definition EnableHTTPS :: "'s TailscaleAPI \<Rightarrow> string \<Rightarrow> string \<Rightarrow> 's errEff" where
  "EnableHTTPS api clientID clientSecret = ta_EnableHTTPS api (clientID, clientSecret) True"

definition CreateAuthKey :: "'s TailscaleAPI \<Rightarrow> Manager \<Rightarrow> string \<Rightarrow> string \<Rightarrow> ('s, string) eff" where
  "CreateAuthKey api m clientID clientSecret = ewrap (\<lambda>e. Wrapf ''create auth key: '' e [])
     (ta_CreateKey api (clientID, clientSecret) \<lparr>kr_Reusable = True, kr_Ephemeral = True, kr_Preauthorized = True, kr_Tags = [ma_Tag m], kr_ExpirySeconds = 3600\<rparr>)"

text \<open>The manager as the orchestrator uses it: of a clean-up it looks at the error, or at the count.\<close>

definition tailnetManager :: "'s HTTP \<Rightarrow> 's TailscaleAPI \<Rightarrow> Manager \<Rightarrow> 's TailnetManager" where
  "tailnetManager h api m = \<lparr>tm_CreateTailnet = CreateTailnet h m, tm_DeleteTailnet = DeleteTailnet h m, tm_SetupACL = SetupACL api m,
     tm_EnableHTTPS = EnableHTTPS api, tm_CreateAuthKey = CreateAuthKey api m,
     tm_CleanupStaleDevices = (\<lambda>clientID clientSecret pre s. case CleanupStaleDevices api clientID clientSecret pre s of
       ((_, Some e), s1) \<Rightarrow> (Inl e, s1) | ((n, None), s1) \<Rightarrow> (Inr n, s1))\<rparr>"

section \<open>Lemmas\<close>

definition staleDevices :: "string \<Rightarrow> Device list \<Rightarrow> Device list" where
  "staleDevices hostnamePrefix ds = filter (\<lambda>d. dv_Hostname d \<noteq> [] \<and> hostnamePrefix \<noteq> [] \<and> HasPrefix (dv_Hostname d) hostnamePrefix) ds"

text \<open>The deletions of a clean-up, as a trace of the identifiers it asked for.\<close>

definition tracedAPI :: "'s TailscaleAPI \<Rightarrow> ('s \<times> string list) TailscaleAPI" where
  "tracedAPI api = \<lparr>ta_SetPolicy = (\<lambda>c a (s, t). case ta_SetPolicy api c a s of (e, s1) \<Rightarrow> (e, s1, t)),
     ta_Devices = (\<lambda>c (s, t). case ta_Devices api c s of (r, s1) \<Rightarrow> (r, s1, t)),
     ta_DeleteDevice = (\<lambda>c i (s, t). case ta_DeleteDevice api c i s of (e, s1) \<Rightarrow> (e, s1, t @ [i])),
     ta_EnableHTTPS = (\<lambda>c b (s, t). case ta_EnableHTTPS api c b s of (e, s1) \<Rightarrow> (e, s1, t)),
     ta_CreateKey = (\<lambda>c k (s, t). case ta_CreateKey api c k s of (r, s1) \<Rightarrow> (r, s1, t))\<rparr>"

lemma deleteStale_trace:
  assumes "deleteStale (tracedAPI api) client pre ds n (s, t) = ((k, err), s', t')"
  shows "\<exists>m. t' = t @ map dv_ID (take m (staleDevices pre ds)) \<and> m \<le> length (staleDevices pre ds)
    \<and> (err = None \<longrightarrow> m = length (staleDevices pre ds) \<and> k = n + int m) \<and> (err \<noteq> None \<longrightarrow> 0 < m \<and> k = n + int m - 1)"
  using assms
proof (induction ds arbitrary: n s t)
  case (Cons d ds)
  show ?case
  proof (cases "dv_Hostname d \<noteq> [] \<and> pre \<noteq> [] \<and> HasPrefix (dv_Hostname d) pre")
    case stale: True
    obtain e s1 where del: "ta_DeleteDevice api client (dv_ID d) s = (e, s1)" by fastforce
    show ?thesis
    proof (cases e)
      case None
      with Cons.prems stale del have "deleteStale (tracedAPI api) client pre ds (n + 1) (s1, t @ [dv_ID d]) = ((k, err), s', t')"
        by (simp add: tracedAPI_def)
      from Cons.IH[OF this] obtain m where "t' = t @ dv_ID d # map dv_ID (take m (staleDevices pre ds))" "m \<le> length (staleDevices pre ds)"
        "err = None \<longrightarrow> m = length (staleDevices pre ds) \<and> k = n + 1 + int m" "err \<noteq> None \<longrightarrow> 0 < m \<and> k = n + 1 + int m - 1" by auto
      with stale show ?thesis by (intro exI[of _ "Suc m"]) (auto simp: staleDevices_def)
    next
      case (Some x)
      with Cons.prems stale del show ?thesis by (intro exI[of _ 1]) (auto simp: tracedAPI_def staleDevices_def)
    qed
  next
    case False
    with Cons.prems have "deleteStale (tracedAPI api) client pre ds n (s, t) = ((k, err), s', t')" by auto
    from Cons.IH[OF this] False show ?thesis by (auto simp: staleDevices_def)
  qed
qed (auto simp: staleDevices_def)

lemma staleDevices_no_prefix: "staleDevices [] ds = []"
  by (simp add: staleDevices_def)

text \<open>Without the operator the policy has no Kubernetes capability, and it has an SSH rule only when asked for one.\<close>

lemma buildACL_least: "(\<exists>g \<in> set (acl_Grants (buildACL tag tsnetSSH k8s)). ''tailscale.com/cap/kubernetes'' \<in> fst ` set (gr_App g)) \<longleftrightarrow> k8s"
    "acl_SSH (buildACL tag tsnetSSH k8s) \<noteq> [] \<longleftrightarrow> tsnetSSH" "acl_Routes (buildACL tag tsnetSSH k8s) \<noteq> Map.empty \<longleftrightarrow> k8s"
  by (cases k8s; simp add: buildACL_def kubernetesGrants_def)+

end
