(* ===== verification/K8s_Pods.thy ===== *)
theory K8s_Pods
  imports Pulumi
begin

text \<open>
  Package internal/k8s: the pods of a benchmark (pods.go) and the look-ups of addresses (ingress.go). The
  Kubernetes API is an argument over an arbitrary state, as are the clock and the context. The loops that
  wait for a condition end at a deadline by the clock; every round waits for a fixed time, so a number of
  rounds computed from the timeout is enough, which the last section shows.
\<close>

section \<open>The Kubernetes API\<close>

record Pod =
  pd_Name :: string
  pd_Phase :: string
  pd_IP :: string

record ServicePort =
  sp_Name :: string
  sp_Protocol :: string
  sp_Port :: int

record Service =
  sv_Name :: string
  sv_Namespace :: string
  sv_Annotations :: "string \<rightharpoonup> string"
  sv_Labels :: "string \<rightharpoonup> string"
  sv_Type :: string
  sv_ExternalName :: string
  sv_Ports :: "ServicePort list"
  sv_Conditions :: "(string \<times> string) list"
  sv_LoadBalancer :: "(string \<times> string) list"

record StatefulSet =
  st_Name :: string
  st_Replicas :: "int option"
  st_Env :: "(string \<times> string) list list"
  st_Selector :: "go_error + string"
  st_ReadyReplicas :: int
  st_CurrentRevision :: string
  st_UpdateRevision :: string

text \<open>A pod as it is submitted: its containers as nested fields, the node labels it asks for and the role it stays away from.\<close>

record PodManifest =
  mp_Name :: string
  mp_Namespace :: string
  mp_Labels :: "(string \<times> string) list"
  mp_InitContainers :: "pinput list"
  mp_Containers :: "pinput list"
  mp_RestartPolicy :: string
  mp_NodeSelector :: "(string \<times> string) list"
  mp_AvoidRole :: "string option"

text \<open>Conditions are pairs of type and status, load balancer entries pairs of host name and address.\<close>

record 's Kube =
  kb_GetNamespace :: "string \<Rightarrow> 's errEff"
  kb_CreateNamespace :: "string \<Rightarrow> 's errEff"
  kb_GetSecret :: "string \<Rightarrow> string \<Rightarrow> 's errEff"
  kb_CreateSecret :: "string \<Rightarrow> string \<Rightarrow> (string \<times> string) list \<Rightarrow> 's errEff"
  kb_UpdateSecret :: "string \<Rightarrow> string \<Rightarrow> (string \<times> string) list \<Rightarrow> 's errEff"
  kb_GetPod :: "string \<Rightarrow> string \<Rightarrow> ('s, Pod) eff"
  kb_ListPods :: "string \<Rightarrow> string \<Rightarrow> ('s, Pod list) eff"
  kb_CreatePod :: "string \<Rightarrow> PodManifest \<Rightarrow> 's errEff"
  kb_DeletePod :: "string \<Rightarrow> string \<Rightarrow> 's errEff"
  kb_ListNodes :: "string \<Rightarrow> ('s, (string \<times> string) list list) eff"
  kb_ListIngresses :: "string \<Rightarrow> string \<Rightarrow> ('s, (string \<times> string) list list) eff"
  kb_GetService :: "string \<Rightarrow> string \<Rightarrow> ('s, Service) eff"
  kb_ListServices :: "string \<Rightarrow> string \<Rightarrow> ('s, Service list) eff"
  kb_CreateService :: "string \<Rightarrow> Service \<Rightarrow> 's errEff"
  kb_UpdateService :: "string \<Rightarrow> Service \<Rightarrow> 's errEff"
  kb_DeleteService :: "string \<Rightarrow> string \<Rightarrow> 's errEff"
  kb_GetSTS :: "string \<Rightarrow> string \<Rightarrow> ('s, StatefulSet) eff"
  kb_ListSTS :: "string \<Rightarrow> ('s, StatefulSet list) eff"
  kb_IsNotFound :: "go_error \<Rightarrow> bool"

definition Namespace :: string where "Namespace = ''tailbench''"
definition BenchContainer :: string where "BenchContainer = ''bench''"
definition TSContainer :: string where "TSContainer = ''tailscale''"
definition AuthSecretName :: string where "AuthSecretName = ''tailbench-auth''"
definition AuthSecretKey :: string where "AuthSecretKey = ''TS_AUTHKEY''"

section \<open>Building a pod\<close>

record PodConfig =
  pc_BenchImage :: string
  pc_TSImage :: string
  pc_AuthKey :: string
  pc_Hostname :: string
  pc_Userspace :: bool

definition envVar :: "string \<Rightarrow> string \<Rightarrow> pinput" where
  "envVar name v = PMap [(''Name'', PStr name), (''Value'', PStr v)]"

definition podEnv :: "PodConfig \<Rightarrow> pinput list" where
  "podEnv cfg =
    [envVar ''TS_USERSPACE'' (if pc_Userspace cfg then ''true'' else ''false''),
     envVar ''TS_KUBE_SECRET'' [],
     envVar ''TS_STATE_DIR'' ''/dev/shm'',
     envVar ''TS_DEBUG_FIREWALL_MODE'' ''auto'',
     PMap [(''Name'', PStr ''TS_AUTHKEY''), (''SecretKeyRef'', PMap [(''Name'', PStr AuthSecretName), (''Key'', PStr AuthSecretKey)])],
     envVar ''TS_HOSTNAME'' (pc_Hostname cfg),
     envVar ''TS_EXTRA_ARGS'' ''--advertise-tags=tag:bench --accept-routes'',
     envVar ''TS_ACCEPT_DNS'' ''true'']"

definition privilegedContext :: "string \<times> pinput" where
  "privilegedContext = (''SecurityContext'', PMap [(''Privileged'', PBool True)])"

definition BuildPod :: "string \<Rightarrow> PodConfig \<Rightarrow> PodManifest" where
  "BuildPod name cfg = \<lparr>mp_Name = name, mp_Namespace = Namespace, mp_Labels = [(''app'', ''tailbench''), (''role'', name)],
     mp_InitContainers = [PMap [(''Name'', PStr ''sysctler''), (''Image'', PStr (pc_TSImage cfg)), (''Command'', PList [PStr ''/bin/sh'', PStr ''-c'']),
       (''Args'', PList [PStr (''sysctl -w net.ipv4.ip_forward=1 && if sysctl net.ipv6.conf.all.forwarding; then sysctl -w net.ipv6.conf.all.forwarding=1; fi'')]),
       privilegedContext]],
     mp_Containers = [PMap [(''Name'', PStr BenchContainer), (''Image'', PStr (pc_BenchImage cfg)), (''ImagePullPolicy'', PStr ''Always''),
         (''Command'', PList [PStr ''sleep'', PStr ''infinity''])],
       PMap [(''Name'', PStr TSContainer), (''Image'', PStr (pc_TSImage cfg)), privilegedContext, (''Env'', PList (podEnv cfg))]],
     mp_RestartPolicy = ''Never'', mp_NodeSelector = [], mp_AvoidRole = None\<rparr>"

definition SetAntiAffinity :: "string \<Rightarrow> PodManifest \<Rightarrow> PodManifest" where
  "SetAntiAffinity avoidLabel pod = pod\<lparr>mp_AvoidRole := Some avoidLabel\<rparr>"

section \<open>Namespace and secret\<close>

definition EnsureNamespace :: "'s Kube \<Rightarrow> 's errEff" where
  "EnsureNamespace kb s = (case kb_GetNamespace kb Namespace s of
     (None, s1) \<Rightarrow> (None, s1) | (Some _, s1) \<Rightarrow> kb_CreateNamespace kb Namespace s1)"

definition CreateAuthSecret :: "'s Kube \<Rightarrow> string \<Rightarrow> 's errEff" where
  "CreateAuthSecret kb authKey s = (let data = [(AuthSecretKey, authKey)] in case kb_GetSecret kb Namespace AuthSecretName s of
     (Some _, s1) \<Rightarrow> kb_CreateSecret kb Namespace AuthSecretName data s1
   | (None, s1) \<Rightarrow> kb_UpdateSecret kb Namespace AuthSecretName data s1)"

section \<open>Waiting until a deadline\<close>

text \<open>
  The two shapes of the waits: \<open>waitBefore\<close> looks at the clock before every check, \<open>waitPast\<close> after it. A check
  gives the result of the wait, or \<open>None\<close> to go on.
\<close>

fun waitBefore :: "'s Env \<Rightarrow> duration \<Rightarrow> gotime \<Rightarrow> go_error \<Rightarrow> ('s \<Rightarrow> go_error option option \<times> 's) \<Rightarrow> nat \<Rightarrow> 's errEff" where
  "waitBefore env d deadline late check 0 s = (Some late, s)"
| "waitBefore env d deadline late check (Suc n) s = (case ev_now env s of (t, s1) \<Rightarrow>
     if \<not> t < deadline then (Some late, s1)
     else case check s1 of (Some r, s2) \<Rightarrow> (r, s2)
       | (None, s2) \<Rightarrow> (case ev_wait env d s2 of (Some e, s3) \<Rightarrow> (Some e, s3)
           | (None, s3) \<Rightarrow> waitBefore env d deadline late check n s3))"

fun waitPast :: "'s Env \<Rightarrow> duration \<Rightarrow> gotime \<Rightarrow> go_error \<Rightarrow> ('s \<Rightarrow> go_error option option \<times> 's) \<Rightarrow> nat \<Rightarrow> 's errEff" where
  "waitPast env d deadline late check 0 s = (Some late, s)"
| "waitPast env d deadline late check (Suc n) s = (case check s of (Some r, s1) \<Rightarrow> (r, s1)
   | (None, s1) \<Rightarrow> (case ev_now env s1 of (t, s2) \<Rightarrow>
       if deadline < t then (Some late, s2)
       else case ev_wait env d s2 of (Some e, s3) \<Rightarrow> (Some e, s3)
         | (None, s3) \<Rightarrow> waitPast env d deadline late check n s3))"

text \<open>The number of rounds a timeout leaves time for, and one more.\<close>

definition rounds :: "duration \<Rightarrow> duration \<Rightarrow> nat" where
  "rounds timeout d = nat (timeout div d) + 2"

section \<open>Pods and nodes\<close>

definition podCheck :: "'s Kube \<Rightarrow> string \<Rightarrow> 's \<Rightarrow> go_error option option \<times> 's" where
  "podCheck kb name s = (case kb_GetPod kb Namespace name s of
     (Inr pod, s1) \<Rightarrow> (if pd_Phase pod = ''Running'' then Some None
       else if pd_Phase pod = ''Failed'' then Some (Some (ErrText (''pod '' @ name @ '' failed''))) else None, s1)
   | (Inl _, s1) \<Rightarrow> (None, s1))"

definition WaitForPodRunning :: "'s Env \<Rightarrow> 's Kube \<Rightarrow> string \<Rightarrow> duration \<Rightarrow> 's errEff" where
  "WaitForPodRunning env kb name timeout s = (case ev_now env s of (t, s1) \<Rightarrow>
     waitBefore env (5 * second) (t + timeout) (ErrText (''pod '' @ name @ '' not running after '' @ Duration_String timeout))
       (podCheck kb name) (rounds timeout (5 * second)) s1)"

text \<open>The wait for a leftover pod to go: at most thirty looks, two seconds apart.\<close>

fun waitGone :: "'s Env \<Rightarrow> 's Kube \<Rightarrow> string \<Rightarrow> nat \<Rightarrow> 's \<Rightarrow> 's" where
  "waitGone env kb name 0 s = s"
| "waitGone env kb name (Suc n) s = (case kb_GetPod kb Namespace name s of
     (Inl _, s1) \<Rightarrow> s1 | (Inr _, s1) \<Rightarrow> waitGone env kb name n (ev_sleep env (2 * second) s1))"

definition DeployPod :: "'s Env \<Rightarrow> 's Kube \<Rightarrow> PodManifest \<Rightarrow> duration \<Rightarrow> 's errEff" where
  "DeployPod env kb pod timeout s =
    (let s1 = snd (kb_DeletePod kb Namespace (mp_Name pod) s); s2 = waitGone env kb (mp_Name pod) 30 s1 in
     case kb_CreatePod kb Namespace pod s2 of
       (Some e, s3) \<Rightarrow> (Some (Wrapf (''create pod '' @ mp_Name pod @ '': '') e []), s3)
     | (None, s3) \<Rightarrow> WaitForPodRunning env kb (mp_Name pod) timeout s3)"

definition GetPodIP :: "'s Kube \<Rightarrow> string \<Rightarrow> ('s, string) eff" where
  "GetPodIP kb name = ebind (kb_GetPod kb Namespace name) (\<lambda>pod.
     if pd_IP pod = [] then efail (ErrText (''pod '' @ name @ '' has no IP'')) else eret (pd_IP pod))"

definition DeletePod :: "'s Kube \<Rightarrow> string \<Rightarrow> 's errEff" where
  "DeletePod kb name = kb_DeletePod kb Namespace name"

text \<open>A node counts once for each of its conditions that says it is ready.\<close>

definition readyNodes :: "(string \<times> string) list list \<Rightarrow> int" where
  "readyNodes nodes = int (length (filter (\<lambda>c. c = (''Ready'', ''True'')) (concat nodes)))"

definition nodesCheck :: "'s Kube \<Rightarrow> string \<Rightarrow> int \<Rightarrow> 's \<Rightarrow> go_error option option \<times> 's" where
  "nodesCheck kb labelSelector n s = (case kb_ListNodes kb labelSelector s of
     (Inr nodes, s1) \<Rightarrow> (if n \<le> readyNodes nodes then Some None else None, s1)
   | (Inl _, s1) \<Rightarrow> (None, s1))"

definition WaitForNodes :: "'s Env \<Rightarrow> 's Kube \<Rightarrow> string \<Rightarrow> int \<Rightarrow> duration \<Rightarrow> 's errEff" where
  "WaitForNodes env kb labelSelector n timeout s = (case ev_now env s of (t, s1) \<Rightarrow>
     waitBefore env (10 * second) (t + timeout)
       (ErrText (''expected '' @ string_of_int n @ '' ready nodes, timed out after '' @ Duration_String timeout))
       (nodesCheck kb labelSelector n) (rounds timeout (10 * second)) s1)"

section \<open>Looking up addresses\<close>

text \<open>The first entry with a host name or an address, the host name first.\<close>

fun lbAddress :: "(string \<times> string) list \<Rightarrow> string option" where
  "lbAddress [] = None"
| "lbAddress ((hostname, ip) # rest) = (if hostname \<noteq> [] then Some hostname else if ip \<noteq> [] then Some ip else lbAddress rest)"

definition found_or :: "go_error \<Rightarrow> string option \<Rightarrow> ('s, string) eff" where
  "found_or missing r = (case r of None \<Rightarrow> efail missing | Some x \<Rightarrow> eret x)"

definition DiscoverIngressFQDN :: "'s Kube \<Rightarrow> string \<Rightarrow> ('s, string) eff" where
  "DiscoverIngressFQDN kb labelSelector =
     ebind (ewrap (\<lambda>e. Wrapf ''listing ingresses: '' e []) (kb_ListIngresses kb Namespace labelSelector)) (\<lambda>ingresses.
     found_or (ErrText (''no Ingress with label '' @ quoted labelSelector @ '' has a LoadBalancer hostname in namespace '' @ Namespace))
       (lbAddress (concat ingresses)))"

definition DiscoverServiceLBFQDN :: "'s Kube \<Rightarrow> string \<Rightarrow> ('s, string) eff" where
  "DiscoverServiceLBFQDN kb labelSelector =
     ebind (ewrap (\<lambda>e. Wrapf ''listing services: '' e []) (kb_ListServices kb Namespace labelSelector)) (\<lambda>services.
     found_or (ErrText (''no Service LB with label '' @ quoted labelSelector @ '' has a LoadBalancer hostname in namespace '' @ Namespace))
       (lbAddress (concat (map sv_LoadBalancer (filter (\<lambda>v. sv_Type v = ''LoadBalancer'') services)))))"

definition noRunningPod :: "string \<Rightarrow> go_error" where
  "noRunningPod labelSelector = ErrText (''no running pod with label '' @ quoted labelSelector @ '' found in namespace '' @ Namespace)"

definition DiscoverPodName :: "'s Kube \<Rightarrow> string \<Rightarrow> ('s, string) eff" where
  "DiscoverPodName kb labelSelector =
     ebind (ewrap (\<lambda>e. Wrapf ''listing pods: '' e []) (kb_ListPods kb Namespace labelSelector)) (\<lambda>pods.
     found_or (noRunningPod labelSelector) (map_option pd_Name (find (\<lambda>p. pd_Phase p = ''Running'') pods)))"

definition DiscoverPodIP :: "'s Kube \<Rightarrow> string \<Rightarrow> ('s, string) eff" where
  "DiscoverPodIP kb labelSelector =
     ebind (ewrap (\<lambda>e. Wrapf ''listing pods: '' e []) (kb_ListPods kb Namespace labelSelector)) (\<lambda>pods.
     found_or (noRunningPod labelSelector) (map_option pd_IP (find (\<lambda>p. pd_IP p \<noteq> [] \<and> pd_Phase p = ''Running'') pods)))"

section \<open>The waits end by the clock\<close>

text \<open>The clock of a state: waiting moves it by what was asked for at least, and nothing moves it back.\<close>

definition clockLaws :: "'s Env \<Rightarrow> ('s \<Rightarrow> gotime) \<Rightarrow> bool" where
  "clockLaws env clock \<longleftrightarrow> (\<forall>s. fst (ev_now env s) = clock s \<and> clock s \<le> clock (snd (ev_now env s)))
     \<and> (\<forall>d s. fst (ev_wait env d s) = None \<longrightarrow> clock s + d \<le> clock (snd (ev_wait env d s)))"

definition noEarlier :: "('s \<Rightarrow> gotime) \<Rightarrow> ('s \<Rightarrow> 'a \<times> 's) \<Rightarrow> bool" where
  "noEarlier clock check \<longleftrightarrow> (\<forall>s. clock s \<le> clock (snd (check s)))"

text \<open>More rounds than the time to the deadline allows change nothing: the loop of the code has no bound of its own.\<close>

lemma waitBefore_rounds:
  assumes laws: "clockLaws env clock" "noEarlier clock check" and d: "0 < d"
  shows "deadline \<le> clock s + int n * d \<Longrightarrow> waitBefore env d deadline late check (Suc n + k) s = waitBefore env d deadline late check (Suc n) s"
proof (induction n arbitrary: s)
  case 0
  obtain t s1 where t: "ev_now env s = (t, s1)" by fastforce
  with laws(1) have "t = clock s" by (metis clockLaws_def fst_conv)
  with 0 t show ?case by simp
next
  case (Suc n)
  obtain t s1 where t: "ev_now env s = (t, s1)" by fastforce
  obtain r s2 where c: "check s1 = (r, s2)" by fastforce
  obtain e s3 where wt: "ev_wait env d s2 = (e, s3)" by fastforce
  have "clock s \<le> clock s1" "clock s1 \<le> clock s2" "e = None \<Longrightarrow> clock s2 + d \<le> clock s3"
    using laws t c wt by (metis clockLaws_def snd_conv, metis noEarlier_def snd_conv, metis clockLaws_def fst_conv snd_conv)
  then have "e = None \<Longrightarrow> deadline \<le> clock s3 + int n * d" using Suc.prems by (simp add: algebra_simps)
  from Suc.IH[OF this] show ?case
    by (simp add: t c wt split: option.split)
qed

lemma waitPast_rounds:
  assumes laws: "clockLaws env clock" "noEarlier clock check" and d: "0 < d"
  shows "deadline < clock s + int n * d \<Longrightarrow> waitPast env d deadline late check (Suc n + k) s = waitPast env d deadline late check (Suc n) s"
proof (induction n arbitrary: s)
  case 0
  obtain r s1 where c: "check s = (r, s1)" by fastforce
  obtain t s2 where t: "ev_now env s1 = (t, s2)" by fastforce
  have "clock s \<le> t" using laws c t by (metis clockLaws_def fst_conv noEarlier_def snd_conv)
  with 0 c t show ?case by (simp split: option.split)
next
  case (Suc n)
  obtain r s1 where c: "check s = (r, s1)" by fastforce
  obtain t s2 where t: "ev_now env s1 = (t, s2)" by fastforce
  obtain e s3 where wt: "ev_wait env d s2 = (e, s3)" by fastforce
  have "clock s \<le> clock s1" "clock s1 \<le> clock s2" "e = None \<Longrightarrow> clock s2 + d \<le> clock s3"
    using laws t c wt by (metis noEarlier_def snd_conv, metis clockLaws_def snd_conv, metis clockLaws_def fst_conv snd_conv)
  then have "e = None \<Longrightarrow> deadline < clock s3 + int n * d" using Suc.prems by (simp add: algebra_simps)
  from Suc.IH[OF this] show ?case
    by (simp add: t c wt split: option.split)
qed

lemma rounds_enough: "0 < d \<Longrightarrow> timeout < int (rounds timeout d - 1) * d"
proof -
  assume d: "0 < d"
  have "timeout < (timeout div d + 1) * d"
    using div_mult_mod_eq[of timeout d] pos_mod_bound[OF d, of timeout] by (simp only: distrib_right mult_1)
  also have "\<dots> \<le> int (rounds timeout d - 1) * d" using d by (intro mult_right_mono) (simp_all add: rounds_def)
  finally show ?thesis .
qed

end
