(* ===== verification/Proxy_Props.thy ===== *)
theory Proxy_Props
  imports Proxy_Group
begin

text \<open>
  What the waits of the ProxyGroup and of its egress service promise when they succeed: the benchmark runs on
  a rolled-out set with the requested setting, never on the revision it was told is stale, and the service that
  is stored is the one that was asked for, and ready.
\<close>

section \<open>A wait that succeeds\<close>

text \<open>An invariant that every part of the wait keeps holds at its end, where the last check succeeded.\<close>

definition stays :: "('s \<Rightarrow> bool) \<Rightarrow> ('s \<Rightarrow> 'a \<times> 's) \<Rightarrow> bool" where
  "stays I m \<longleftrightarrow> (\<forall>s. I s \<longrightarrow> I (snd (m s)))"

lemma stays_step: "stays I m \<Longrightarrow> m s = (x, s1) \<Longrightarrow> I s \<Longrightarrow> I s1"
  unfolding stays_def by (metis snd_conv)

lemma waitPast_success:
  assumes "stays I (ev_now env)" "\<And>d. stays I (ev_wait env d)" "stays I check"
  shows "I s \<Longrightarrow> waitPast env d deadline late check n s = (None, s') \<Longrightarrow> \<exists>s0. I s0 \<and> check s0 = (Some None, s')"
proof (induction n arbitrary: s)
  case (Suc n)
  obtain r s1 where c: "check s = (r, s1)" by fastforce
  obtain t s2 where t: "ev_now env s1 = (t, s2)" by fastforce
  obtain e s3 where wt: "ev_wait env d s2 = (e, s3)" by fastforce
  show ?case
  proof (cases r)
    case (Some x)
    with Suc.prems c show ?thesis by auto
  next
    case None
    have "I s3" using stays_step[OF assms(3) c Suc.prems(1)] stays_step[OF assms(1) t] stays_step[OF assms(2) wt] by blast
    moreover have "waitPast env d deadline late check n s3 = (None, s')"
      using Suc.prems(2) None c t wt by (auto split: if_splits option.splits)
    ultimately show ?thesis by (rule Suc.IH)
  qed
qed simp

section \<open>Rollout\<close>

lemma rolloutCheck_ready:
  "rolloutCheck kb name before optimizations s = (Some None, s') \<Longrightarrow>
   \<exists>sts. findProxyGroupSTS kb name s = (Inr sts, s') \<and> proxyGroupRolloutReady sts before optimizations"
  by (auto simp: rolloutCheck_def split: prod.splits sum.splits if_splits)

lemma proxyGroupRolloutReady_fresh:
  assumes "proxyGroupRolloutReady sts before optimizations"
  shows "st_ReadyReplicas sts = replicasOf sts \<and> st_CurrentRevision sts = st_UpdateRevision sts \<and> st_CurrentRevision sts \<noteq> []
    \<and> forwardingOptimizationsEnabled sts = optimizations
    \<and> (ro_UpdateRevision before \<noteq> [] \<and> ro_ForwardingOptimizations before \<noteq> optimizations \<longrightarrow> st_CurrentRevision sts \<noteq> ro_UpdateRevision before)"
  using assms by (auto simp: proxyGroupRolloutReady_def Let_def)

lemma WaitForProxyGroupReady_checked:
  assumes "WaitForProxyGroupReady env kb name before optimizations timeout s = (None, s')"
  shows "\<exists>s0 sts. findProxyGroupSTS kb name s0 = (Inr sts, s') \<and> proxyGroupRolloutReady sts before optimizations"
proof -
  obtain t s1 where t: "ev_now env s = (t, s1)" by fastforce
  note wait = assms[unfolded WaitForProxyGroupReady_def t prod.case]
  obtain s0 where "rolloutCheck kb name before optimizations s0 = (Some None, s')"
    using waitPast_success[OF _ _ _ TrueI wait] by (auto simp: stays_def)
  from rolloutCheck_ready[OF this] show ?thesis by blast
qed

text \<open>
  A rollout measured before and after: when \<^verbatim>\<open>GetProxyGroupRolloutState\<close> saw a revision with the other setting,
  and the wait after the update succeeds, the set it accepted runs a different revision, with the requested
  setting, on all replicas.
\<close>

lemma rollout_is_fresh:
  assumes "GetProxyGroupRolloutState kb name s0 = (Inr before, s1)"
    and "WaitForProxyGroupReady env kb name before optimizations timeout s2 = (None, s')"
  shows "\<exists>old s3 sts. findProxyGroupSTS kb name s0 = (Inr old, s1) \<and> findProxyGroupSTS kb name s3 = (Inr sts, s')
    \<and> st_ReadyReplicas sts = replicasOf sts \<and> st_CurrentRevision sts = st_UpdateRevision sts
    \<and> forwardingOptimizationsEnabled sts = optimizations
    \<and> (st_UpdateRevision old \<noteq> [] \<and> forwardingOptimizationsEnabled old \<noteq> optimizations \<longrightarrow> st_CurrentRevision sts \<noteq> st_UpdateRevision old)"
proof -
  from assms(1) obtain old where old: "findProxyGroupSTS kb name s0 = (Inr old, s1)"
    "before = \<lparr>ro_UpdateRevision = st_UpdateRevision old, ro_ForwardingOptimizations = forwardingOptimizationsEnabled old\<rparr>"
    by (auto simp: GetProxyGroupRolloutState_def ebind_Inr)
  from WaitForProxyGroupReady_checked[OF assms(2)] obtain s3 sts where
    "findProxyGroupSTS kb name s3 = (Inr sts, s')" "proxyGroupRolloutReady sts before optimizations" by blast
  with proxyGroupRolloutReady_fresh[of sts before optimizations] old show ?thesis by auto
qed

section \<open>The egress service\<close>

text \<open>What the program decides of a service, beside what the operator writes into it.\<close>

definition essence :: "Service \<Rightarrow> string \<times> string \<times> string \<times> ServicePort list" where
  "essence svc = (sv_Type svc, annotation svc TailnetFQDNAnnotation, annotation svc ProxyGroupAnnotation, sv_Ports svc)"

text \<open>
  The laws of the API for one service: a service that is read is the one stored; storing one, when it
  succeeds, leaves a service with its essence; reading, waiting and the clock leave the essence of what is
  stored alone, whatever the operator does in the meantime.
\<close>

definition serviceLaws :: "'s Env \<Rightarrow> 's Kube \<Rightarrow> string \<Rightarrow> string \<Rightarrow> ('s \<Rightarrow> Service option) \<Rightarrow> bool" where
  "serviceLaws env kb namespace name stored \<longleftrightarrow>
     (\<forall>s svc s1. kb_GetService kb namespace name s = (Inr svc, s1) \<longrightarrow> stored s1 = Some svc)
   \<and> (\<forall>s. map_option essence (stored (snd (kb_GetService kb namespace name s))) = map_option essence (stored s))
   \<and> (\<forall>svc s s1. kb_CreateService kb namespace svc s = (None, s1) \<longrightarrow> map_option essence (stored s1) = Some (essence svc))
   \<and> (\<forall>svc s s1. kb_UpdateService kb namespace svc s = (None, s1) \<longrightarrow> map_option essence (stored s1) = Some (essence svc))
   \<and> (\<forall>s. map_option essence (stored (snd (ev_now env s))) = map_option essence (stored s))
   \<and> (\<forall>d s. map_option essence (stored (snd (ev_wait env d s))) = map_option essence (stored s))"

lemma recreateService_stores:
  assumes "\<And>s s1. kb_CreateService kb namespace svc s = (None, s1) \<Longrightarrow> P s1"
    and "recreateService env kb namespace name svc s = Some (None, s')"
  shows "P s'"
  using assms by (auto simp: recreateService_def split: prod.splits option.splits)

lemma reconcileService_stores:
  assumes laws: "serviceLaws env kb namespace name stored"
    and ok: "reconcileService env kb namespace name tailnetFQDN port s = Some (None, s')"
  shows "map_option essence (stored s') = Some (essence (newEgressService namespace name tailnetFQDN port))"
proof -
  let ?new = "newEgressService namespace name tailnetFQDN port"
  have create: "\<And>svc s s1. kb_CreateService kb namespace svc s = (None, s1) \<Longrightarrow> map_option essence (stored s1) = Some (essence svc)"
    and update: "\<And>svc s s1. kb_UpdateService kb namespace svc s = (None, s1) \<Longrightarrow> map_option essence (stored s1) = Some (essence svc)"
    and get: "\<And>s svc s1. kb_GetService kb namespace name s = (Inr svc, s1) \<Longrightarrow> stored s1 = Some svc"
    using laws unfolding serviceLaws_def by blast+
  obtain r s1 where g: "kb_GetService kb namespace name s = (r, s1)" by fastforce
  show ?thesis
  proof (cases r)
    case (Inl e)
    with ok g create show ?thesis by (auto simp: reconcileService_def Let_def split: if_splits prod.splits option.splits)
  next
    case (Inr old)
    show ?thesis
    proof (cases "sv_Type old \<noteq> ''ExternalName''")
      case True
      with ok g Inr have "recreateService env kb namespace name ?new s1 = Some (None, s')" by (simp add: reconcileService_def Let_def)
      from recreateService_stores[where P="\<lambda>s. map_option essence (stored s) = Some (essence ?new)", OF create this] show ?thesis .
    next
      case ext: False
      show ?thesis
      proof (cases "annotation old TailnetFQDNAnnotation \<noteq> tailnetFQDN \<or> annotation old ProxyGroupAnnotation \<noteq> ProxyGroupName \<or> sv_Ports old \<noteq> sv_Ports ?new")
        case True
        let ?upd = "old\<lparr>sv_Annotations := sv_Annotations ?new, sv_ExternalName := sv_ExternalName ?new, sv_Ports := sv_Ports ?new\<rparr>"
        have "essence ?upd = essence ?new" using ext by (simp add: essence_def annotation_def newEgressService_def)
        moreover have "kb_UpdateService kb namespace ?upd s1 = (None, s')"
          using ok g Inr ext True by (auto simp: reconcileService_def Let_def split: prod.splits option.splits)
        ultimately show ?thesis using update by metis
      next
        case False
        with ok g Inr ext have "s' = s1" by (simp add: reconcileService_def Let_def)
        moreover have "essence old = essence ?new"
          using False ext by (simp add: essence_def annotation_def newEgressService_def TailnetFQDNAnnotation_def ProxyGroupAnnotation_def)
        ultimately show ?thesis using get g Inr by simp
      qed
    qed
  qed
qed

lemma EnsureEgressService_parts:
  assumes "EnsureEgressService env kb namespace name tailnetFQDN port s = Some (Inr target, s')"
  shows "\<exists>s1. reconcileService env kb namespace name tailnetFQDN port s = Some (None, s1)
    \<and> waitForEgressServiceReady env kb namespace name (5 * minute) s1 = (None, s') \<and> target = name @ ''.'' @ namespace @ ''.svc.cluster.local''"
proof (cases "reconcileService env kb namespace name tailnetFQDN port s")
  case (Some r)
  then obtain e s1 where r: "reconcileService env kb namespace name tailnetFQDN port s = Some (e, s1)" by (cases r) simp
  obtain e2 s2 where wt: "waitForEgressServiceReady env kb namespace name (5 * minute) s1 = (e2, s2)" by fastforce
  from assms show ?thesis
    unfolding EnsureEgressService_def r wt option.case prod.case by (cases e; cases e2) (simp_all add: wt[simplified])
qed (use assms in \<open>simp add: EnsureEgressService_def\<close>)

lemma egressCheck_ready:
  "egressCheck kb namespace name s = (Some None, s') \<Longrightarrow> \<exists>svc. kb_GetService kb namespace name s = (Inr svc, s') \<and> egressServiceReady svc"
  by (auto simp: egressCheck_def split: prod.splits sum.splits if_splits)

lemma egressCheck_state: "snd (egressCheck kb namespace name s) = snd (kb_GetService kb namespace name s)"
  by (simp add: egressCheck_def split: prod.split sum.split)

lemma serviceLaws_stay:
  assumes "serviceLaws env kb namespace name stored"
  shows "stays (\<lambda>s. map_option essence (stored s) = x) (ev_now env)" "stays (\<lambda>s. map_option essence (stored s) = x) (ev_wait env d)"
    "stays (\<lambda>s. map_option essence (stored s) = x) (egressCheck kb namespace name)"
proof -
  have "map_option essence (stored (snd (ev_now env s))) = map_option essence (stored s)"
    "map_option essence (stored (snd (ev_wait env d s))) = map_option essence (stored s)"
    "map_option essence (stored (snd (kb_GetService kb namespace name s))) = map_option essence (stored s)" for s
    using assms unfolding serviceLaws_def by blast+
  then show "stays (\<lambda>s. map_option essence (stored s) = x) (ev_now env)" "stays (\<lambda>s. map_option essence (stored s) = x) (ev_wait env d)"
    "stays (\<lambda>s. map_option essence (stored s) = x) (egressCheck kb namespace name)"
    by (simp_all only: stays_def egressCheck_state simp_thms)
qed

text \<open>
  C36: when \<open>EnsureEgressService\<close> gives a target, the service stored under its name has the type, the two
  annotations and the ports that were asked for, whatever was there before, it has been seen ready, and the
  target is its name in the cluster.
\<close>

theorem EnsureEgressService_correct:
  assumes laws: "serviceLaws env kb namespace name stored"
    and ok: "EnsureEgressService env kb namespace name tailnetFQDN port s = Some (Inr target, s')"
  shows "\<exists>svc. stored s' = Some svc \<and> essence svc = (''ExternalName'', tailnetFQDN, ProxyGroupName, sv_Ports (newEgressService namespace name tailnetFQDN port))
    \<and> egressServiceReady svc \<and> target = name @ ''.'' @ namespace @ ''.svc.cluster.local''"
proof -
  let ?new = "newEgressService namespace name tailnetFQDN port"
  let ?I = "\<lambda>s. map_option essence (stored s) = Some (essence ?new)"
  obtain s1 where rec: "reconcileService env kb namespace name tailnetFQDN port s = Some (None, s1)"
    and wait: "waitForEgressServiceReady env kb namespace name (5 * minute) s1 = (None, s')"
    and target: "target = name @ ''.'' @ namespace @ ''.svc.cluster.local''"
    using EnsureEgressService_parts[OF ok] by (elim exE conjE)
  note inv = serviceLaws_stay[OF laws, where x="Some (essence ?new)"]
  obtain t s2 where t: "ev_now env s1 = (t, s2)" by fastforce
  have I2: "?I s2" using stays_step[OF inv(1) t reconcileService_stores[OF laws rec]] .
  note wait' = wait[unfolded waitForEgressServiceReady_def t prod.case]
  obtain s0 where s0: "?I s0" "egressCheck kb namespace name s0 = (Some None, s')"
    using waitPast_success[OF inv I2 wait'] by blast
  obtain svc where svc: "kb_GetService kb namespace name s0 = (Inr svc, s')" "egressServiceReady svc"
    using egressCheck_ready[OF s0(2)] by blast
  have "stored s' = Some svc" using laws svc(1) by (simp add: serviceLaws_def)
  moreover have "?I s'" using stays_step[OF inv(3) s0(2,1)] .
  moreover have "essence ?new = (''ExternalName'', tailnetFQDN, ProxyGroupName, sv_Ports ?new)"
    by (simp add: essence_def annotation_def newEgressService_def TailnetFQDNAnnotation_def ProxyGroupAnnotation_def)
  ultimately show ?thesis using svc(2) target by simp
qed

text \<open>A cluster with one service and an operator that acts while the program waits.\<close>

definition operatorActs :: "Service \<Rightarrow> Service" where
  "operatorActs svc = svc\<lparr>sv_ExternalName := ''ts-egress.tailscale.svc'', sv_Conditions := [(egressServiceReadyCondition, ''True'')]\<rparr>"

definition exampleKubeEnv :: "(gotime \<times> Service option) Env" where
  "exampleKubeEnv = \<lparr>ev_wait = (\<lambda>d (t, svc). (None, (t + d, map_option operatorActs svc))), ev_sleep = (\<lambda>d (t, svc). (t + d, svc)),
     ev_now = (\<lambda>(t, svc). (t, (t, svc))), ev_ctxErr = (\<lambda>_. None)\<rparr>"

definition exampleKube :: "(gotime \<times> Service option) Kube" where
  "exampleKube = \<lparr>kb_GetNamespace = (\<lambda>_ s. (None, s)), kb_CreateNamespace = (\<lambda>_ s. (None, s)), kb_GetSecret = (\<lambda>_ _ s. (None, s)),
     kb_CreateSecret = (\<lambda>_ _ _ s. (None, s)), kb_UpdateSecret = (\<lambda>_ _ _ s. (None, s)), kb_GetPod = (\<lambda>_ _ s. (Inl (ErrText ''no pod''), s)),
     kb_ListPods = (\<lambda>_ _ s. (Inr [], s)), kb_CreatePod = (\<lambda>_ _ s. (None, s)), kb_DeletePod = (\<lambda>_ _ s. (None, s)), kb_ListNodes = (\<lambda>_ s. (Inr [], s)),
     kb_ListIngresses = (\<lambda>_ _ s. (Inr [], s)),
     kb_GetService = (\<lambda>_ _ (t, svc). (case svc of None \<Rightarrow> Inl (ErrText ''not found'') | Some v \<Rightarrow> Inr v, (t, svc))),
     kb_ListServices = (\<lambda>_ _ s. (Inr [], s)), kb_CreateService = (\<lambda>_ v (t, svc). (None, (t, Some v))), kb_UpdateService = (\<lambda>_ v (t, svc). (None, (t, Some v))),
     kb_DeleteService = (\<lambda>_ _ (t, svc). (None, (t, None))), kb_GetSTS = (\<lambda>_ _ s. (Inl (ErrText ''no set''), s)), kb_ListSTS = (\<lambda>_ s. (Inr [], s)),
     kb_IsNotFound = (\<lambda>e. e = ErrText ''not found'')\<rparr>"

lemma essence_operatorActs: "essence (operatorActs v) = essence v"
  by (cases v) (simp only: essence_def operatorActs_def annotation_def Service.simps Service.update_convs Service.select_convs)

lemma example_operations:
  "kb_GetService exampleKube namespace name (t, svc) = (case svc of None \<Rightarrow> Inl (ErrText ''not found'') | Some v \<Rightarrow> Inr v, (t, svc))"
  "kb_CreateService exampleKube namespace v (t, svc) = (None, (t, Some v))"
  "kb_UpdateService exampleKube namespace v (t, svc) = (None, (t, Some v))"
  "ev_now exampleKubeEnv (t, svc) = (t, (t, svc))"
  "ev_wait exampleKubeEnv d (t, svc) = (None, (t + d, map_option operatorActs svc))"
  by (simp_all only: exampleKube_def exampleKubeEnv_def Kube.simps Env.simps prod.case)

lemma example_serviceLaws: "serviceLaws exampleKubeEnv exampleKube namespace name snd"
  unfolding serviceLaws_def
proof (intro conjI allI impI)
  fix s :: "gotime \<times> Service option" and svc s1 d
  obtain t v where s: "s = (t, v)" by (cases s)
  show "kb_GetService exampleKube namespace name s = (Inr svc, s1) \<Longrightarrow> snd s1 = Some svc"
    by (cases v) (simp_all only: s example_operations option.case prod.inject sum.distinct sum.inject snd_conv simp_thms, auto)
  show "map_option essence (snd (snd (kb_GetService exampleKube namespace name s))) = map_option essence (snd s)"
    by (simp only: s example_operations snd_conv)
  show "kb_CreateService exampleKube namespace svc s = (None, s1) \<Longrightarrow> map_option essence (snd s1) = Some (essence svc)"
    by (simp only: s example_operations prod.inject) auto
  show "kb_UpdateService exampleKube namespace svc s = (None, s1) \<Longrightarrow> map_option essence (snd s1) = Some (essence svc)"
    by (simp only: s example_operations prod.inject) auto
  show "map_option essence (snd (snd (ev_now exampleKubeEnv s))) = map_option essence (snd s)"
    by (simp only: s example_operations snd_conv)
  show "map_option essence (snd (snd (ev_wait exampleKubeEnv d s))) = map_option essence (snd s)"
    by (cases v) (simp_all only: s example_operations snd_conv option.map essence_operatorActs)
qed

lemma example_reconciled: "reconcileService exampleKubeEnv exampleKube ns n fqdn port (t, None) = Some (None, (t, Some (newEgressService ns n fqdn port)))"
proof -
  have "kb_IsNotFound exampleKube (ErrText ''not found'')" by (simp only: exampleKube_def Kube.simps)
  then show ?thesis by (simp only: reconcileService_def Let_def example_operations option.case prod.case sum.case if_True)
qed

lemma example_not_ready: "egressCheck exampleKube ns n (t, Some (newEgressService ns n fqdn port)) = (None, (t, Some (newEgressService ns n fqdn port)))"
proof -
  have "\<not> egressServiceReady (newEgressService ns n fqdn port)" by (simp add: egressServiceReady_def newEgressService_def)
  then show ?thesis by (simp only: egressCheck_def example_operations option.case prod.case sum.case if_False)
qed

lemma example_ready: "egressCheck exampleKube ns n (t, Some (operatorActs (newEgressService ns n fqdn port)))
    = (Some None, (t, Some (operatorActs (newEgressService ns n fqdn port))))"
proof -
  have "egressServiceReady (operatorActs (newEgressService ns n fqdn port))"
    by (simp add: egressServiceReady_def newEgressService_def operatorActs_def)
  then show ?thesis by (simp only: egressCheck_def example_operations option.case prod.case sum.case if_True)
qed

lemma example_wait: "waitForEgressServiceReady exampleKubeEnv exampleKube ns n (5 * minute) (t, Some (newEgressService ns n fqdn port))
    = (None, (t + 2 * second, Some (operatorActs (newEgressService ns n fqdn port))))"
proof -
  have "\<not> t + 5 * minute < t" by simp
  then show ?thesis
    by (simp only: waitForEgressServiceReady_def rounds_def add_2_eq_Suc' waitPast.simps example_not_ready example_ready example_operations
      prod.case option.case option.map if_False)
qed

theorem EnsureEgressService_correct_witness:
  "\<exists>s' svc. EnsureEgressService exampleKubeEnv exampleKube ''tailbench'' ''egress'' ''sink.example.ts.net'' 15201 (0, None)
       = Some (Inr (''egress'' @ ''.'' @ ''tailbench'' @ ''.svc.cluster.local''), s')
     \<and> snd s' = Some svc \<and> annotation svc TailnetFQDNAnnotation = ''sink.example.ts.net'' \<and> egressServiceReady svc"
proof -
  let ?s = "(0 + 2 * second, Some (operatorActs (newEgressService ''tailbench'' ''egress'' ''sink.example.ts.net'' 15201)))"
  have run: "EnsureEgressService exampleKubeEnv exampleKube ''tailbench'' ''egress'' ''sink.example.ts.net'' 15201 (0, None)
      = Some (Inr (''egress'' @ ''.'' @ ''tailbench'' @ ''.svc.cluster.local''), ?s)"
    by (simp only: EnsureEgressService_def example_reconciled example_wait option.case prod.case)
  from EnsureEgressService_correct[OF example_serviceLaws run] obtain svc where svc: "snd ?s = Some svc"
    "essence svc = (''ExternalName'', ''sink.example.ts.net'', ProxyGroupName, sv_Ports (newEgressService ''tailbench'' ''egress'' ''sink.example.ts.net'' 15201))"
    "egressServiceReady svc" by (elim exE conjE)
  from svc(2) have "annotation svc TailnetFQDNAnnotation = ''sink.example.ts.net''" unfolding essence_def prod.inject by (elim conjE)
  with run svc(1,3) show ?thesis by (intro exI[of _ ?s] exI[of _ svc] conjI)
qed

end
