(* ===== verification/Operator.thy ===== *)
theory Operator
  imports Proxy_Group
begin

text \<open>
  Package internal/k8s, operator.go and kubeexec.go, and the client of pods.go: installing the Tailscale operator of a cluster
  with helm, after everything a previous installation left behind is deleted, and waiting for its proxy. The
  calls to the API that only this file makes are a second record; parsing a kubeconfig and creating a client
  are an argument.
\<close>

definition OperatorRelease :: string where "OperatorRelease = ''tailscale-operator''"
definition OperatorChartRepo :: string where "OperatorChartRepo = ''https://pkgs.tailscale.com/helmcharts''"

record OperatorConfig =
  op_OAuthClientID :: string
  op_OAuthClientSecret :: string
  op_Hostname :: string
  op_Tag :: string
  op_ForceReinstall :: bool

section \<open>Clients\<close>

record RoleBinding =
  rb_Name :: string
  rb_Subjects :: "(string \<times> string) list"
  rb_RoleRef :: "string \<times> string \<times> string"

text \<open>Lists are lists of names; those without a namespace are of the whole cluster.\<close>

record 's KubeAdmin =
  ka_DeleteSTS :: "string \<Rightarrow> string \<Rightarrow> 's errEff"
  ka_ListSecrets :: "string \<Rightarrow> ('s, string list) eff"
  ka_DeleteSecret :: "string \<Rightarrow> string \<Rightarrow> 's errEff"
  ka_ListServiceAccounts :: "string \<Rightarrow> ('s, string list) eff"
  ka_DeleteServiceAccount :: "string \<Rightarrow> string \<Rightarrow> 's errEff"
  ka_ListRoleBindings :: "('s, string list) eff"
  ka_GetRoleBinding :: "string \<Rightarrow> 's errEff"
  ka_CreateRoleBinding :: "RoleBinding \<Rightarrow> 's errEff"
  ka_UpdateRoleBinding :: "RoleBinding \<Rightarrow> 's errEff"
  ka_DeleteRoleBinding :: "string \<Rightarrow> 's errEff"
  ka_ListRoles :: "('s, string list) eff"
  ka_DeleteRole :: "string \<Rightarrow> 's errEff"

record 's Cluster =
  cu_Kube :: "'s Kube"
  cu_Admin :: "'s KubeAdmin"

text \<open>
  What the package works with: the operating system, time, the client libraries (the bytes of a kubeconfig
  parsed into a configuration, of which a client is made; either can fail) and an HTTPS request to the proxy
  of an operator, over the tailnet, with the status code of its answer.
\<close>

record 's KubeTools =
  kn_Shell :: "'s Shell"
  kn_Env :: "'s Env"
  kn_REST :: "string \<Rightarrow> go_error + (go_error + 's Cluster)"
  kn_Probe :: "string \<Rightarrow> ('s, int) eff"

text \<open>A kubeconfig that is not in base 64 is taken as it is.\<close>

definition kubeconfigBytes :: "'s KubeTools \<Rightarrow> string \<Rightarrow> string" where
  "kubeconfigBytes k kubeconfigData = (case ku_Decode (kn_Shell k) kubeconfigData of Inl _ \<Rightarrow> kubeconfigData | Inr data \<Rightarrow> data)"

definition ClientsetFromKubeconfig :: "'s KubeTools \<Rightarrow> string \<Rightarrow> go_error + 's Cluster" where
  "ClientsetFromKubeconfig k kubeconfigData = (case kn_REST k (kubeconfigBytes k kubeconfigData) of
     Inl e \<Rightarrow> Inl (Wrapf ''parse kubeconfig: '' e []) | Inr client \<Rightarrow> client)"

section \<open>A running operator\<close>

definition IsOperatorRunning :: "'s KubeTools \<Rightarrow> string \<Rightarrow> 's \<Rightarrow> bool \<times> 's" where
  "IsOperatorRunning k kubeconfigData s = (case ClientsetFromKubeconfig k kubeconfigData of
     Inl _ \<Rightarrow> (False, s)
   | Inr cs \<Rightarrow> (case kb_ListPods (cu_Kube cs) OperatorNamespace ''app.kubernetes.io/name=tailscale-operator'' s of
       (Inl _, s1) \<Rightarrow> (False, s1)
     | (Inr pods, s1) \<Rightarrow> (list_ex (\<lambda>p. pd_Phase p = ''Running'') pods, s1)))"

section \<open>Removing a previous installation\<close>

definition kubeconfigFile :: "gotime \<Rightarrow> string" where
  "kubeconfigFile t = ''/tmp/tailbench-kubeconfig-'' @ string_of_int t"

definition UninstallOperator :: "'s KubeTools \<Rightarrow> string \<Rightarrow> 's errEff" where
  "UninstallOperator k kubeconfigData s = (case ev_now (kn_Env k) s of (t, s1) \<Rightarrow>
     case ku_WriteFile (kn_Shell k) (kubeconfigFile t) (kubeconfigBytes k kubeconfigData) s1 of
       (Some e, s2) \<Rightarrow> (Some e, s2)
     | (None, s2) \<Rightarrow> runCmd (kn_Shell k) [''helm'', ''uninstall'', OperatorRelease, ''--namespace'', OperatorNamespace,
         ''--kubeconfig'', kubeconfigFile t] s2)"

text \<open>Deleting what a list has and a condition selects; a list that cannot be had and a failed deletion are passed over.\<close>

definition deleteListed :: "('s, string list) eff \<Rightarrow> (string \<Rightarrow> bool) \<Rightarrow> (string \<Rightarrow> 's errEff) \<Rightarrow> 's \<Rightarrow> 's" where
  "deleteListed names chosen delete s = (case names s of
     (Inl _, s1) \<Rightarrow> s1 | (Inr ns, s1) \<Rightarrow> fold (\<lambda>n s. snd (delete n s)) (filter chosen ns) s1)"

definition enames :: "('x \<Rightarrow> string) \<Rightarrow> ('s, 'x list) eff \<Rightarrow> ('s, string list) eff" where
  "enames name m = ebind m (\<lambda>xs. eret (map name xs))"

definition cleanupPreviousOperator :: "'s KubeTools \<Rightarrow> 's Cluster \<Rightarrow> string \<Rightarrow> 's \<Rightarrow> 's" where
  "cleanupPreviousOperator k cs kubeconfigData s =
    (let kb = cu_Kube cs; ka = cu_Admin cs; ns = OperatorNamespace;
         s1 = snd (UninstallOperator k kubeconfigData s);
         s2 = deleteListed (enames st_Name (kb_ListSTS kb ns)) (\<lambda>n. HasPrefix n ''ts-'') (ka_DeleteSTS ka ns) s1;
         s3 = deleteListed (enames sv_Name (kb_ListServices kb ns [])) (\<lambda>n. HasPrefix n ''ts-'') (kb_DeleteService kb ns) s2;
         s4 = deleteListed (ka_ListSecrets ka ns) (\<lambda>_. True) (ka_DeleteSecret ka ns) s3;
         s5 = deleteListed (ka_ListServiceAccounts ka ns) (\<lambda>n. n \<noteq> ''default'') (ka_DeleteServiceAccount ka ns) s4;
         s6 = deleteListed (ka_ListRoleBindings ka) (\<lambda>n. n = ''tailbench-admin'' \<or> HasPrefix n ''tailscale-operator'') (ka_DeleteRoleBinding ka) s5 in
     deleteListed (ka_ListRoles ka) (\<lambda>n. HasPrefix n ''tailscale-operator'') (ka_DeleteRole ka) s6)"

section \<open>Installing\<close>

definition adminBinding :: "string \<Rightarrow> RoleBinding" where
  "adminBinding tag = \<lparr>rb_Name = ''tailbench-admin'', rb_Subjects = [(''Group'', tag)],
     rb_RoleRef = (''rbac.authorization.k8s.io'', ''ClusterRole'', ''cluster-admin'')\<rparr>"

definition createOperatorRBAC :: "'s KubeAdmin \<Rightarrow> string \<Rightarrow> 's errEff" where
  "createOperatorRBAC ka tag s = (case ka_GetRoleBinding ka (rb_Name (adminBinding tag)) s of
     (Some _, s1) \<Rightarrow> ka_CreateRoleBinding ka (adminBinding tag) s1
   | (None, s1) \<Rightarrow> ka_UpdateRoleBinding ka (adminBinding tag) s1)"

definition helmUpgrade :: "string \<Rightarrow> OperatorConfig \<Rightarrow> string list" where
  "helmUpgrade tmpFile cfg = [''helm'', ''upgrade'', ''--install'', OperatorRelease, ''tailscale/tailscale-operator'',
     ''--namespace'', OperatorNamespace, ''--create-namespace'', ''--kubeconfig'', tmpFile,
     ''--set'', ''apiServerProxyConfig.mode=true'', ''--set'', ''apiServerProxyConfig.allowImpersonation=true'',
     ''--set'', ''operatorConfig.hostname='' @ op_Hostname cfg, ''--set'', ''operatorConfig.logging=debug'',
     ''--set'', ''operatorConfig.defaultTags={'' @ op_Tag cfg @ ''}'', ''--set'', ''proxyConfig.defaultTags=tag:bench-service'',
     ''--set'', ''oauth.clientId='' @ op_OAuthClientID cfg, ''--set'', ''oauth.clientSecret='' @ op_OAuthClientSecret cfg,
     ''--wait'', ''--timeout'', ''5m'']"

definition helmCommands :: "string \<Rightarrow> OperatorConfig \<Rightarrow> string list list" where
  "helmCommands tmpFile cfg = [[''helm'', ''repo'', ''add'', ''tailscale'', OperatorChartRepo, ''--force-update''],
     [''helm'', ''repo'', ''update'', ''tailscale''], helmUpgrade tmpFile cfg]"

fun runCommands :: "'s Shell \<Rightarrow> string list list \<Rightarrow> 's errEff" where
  "runCommands sh [] s = (None, s)"
| "runCommands sh (cmd # cmds) s = (case runCmd sh cmd s of
     (Some e, s1) \<Rightarrow> (Some (Wrapf (hd cmd @ '': '') e []), s1)
   | (None, s1) \<Rightarrow> runCommands sh cmds s1)"

definition helmInstallOperator :: "'s KubeTools \<Rightarrow> string \<Rightarrow> OperatorConfig \<Rightarrow> 's errEff" where
  "helmInstallOperator k kubeconfigData cfg s = (case ev_now (kn_Env k) s of (t, s1) \<Rightarrow>
     case ku_WriteFile (kn_Shell k) (kubeconfigFile t) (kubeconfigBytes k kubeconfigData) s1 of
       (Some e, s2) \<Rightarrow> (Some (Wrapf ''write kubeconfig: '' e []), s2)
     | (None, s2) \<Rightarrow> runCommands (kn_Shell k) (helmCommands (kubeconfigFile t) cfg) s2)"

definition operatorNamespaceReady :: "'s Kube \<Rightarrow> 's errEff" where
  "operatorNamespaceReady kb s = (case kb_GetNamespace kb OperatorNamespace s of
     (None, s1) \<Rightarrow> (None, s1)
   | (Some _, s1) \<Rightarrow> (case kb_CreateNamespace kb OperatorNamespace s1 of
       (Some e, s2) \<Rightarrow> (Some (Wrapf (''create namespace '' @ OperatorNamespace @ '': '') e []), s2) | (None, s2) \<Rightarrow> (None, s2)))"

definition InstallOperator :: "'s KubeTools \<Rightarrow> string \<Rightarrow> OperatorConfig \<Rightarrow> 's errEff" where
  "InstallOperator k kubeconfigData cfg s = (case ClientsetFromKubeconfig k kubeconfigData of
     Inl e \<Rightarrow> (Some (Wrapf ''create clientset: '' e []), s)
   | Inr cs \<Rightarrow> (case (if op_ForceReinstall cfg then (False, s) else IsOperatorRunning k kubeconfigData s) of (running, s1) \<Rightarrow>
       if running then (None, s1)
       else (case operatorNamespaceReady (cu_Kube cs) (cleanupPreviousOperator k cs kubeconfigData s1) of
           (Some e, s2) \<Rightarrow> (Some e, s2)
         | (None, s2) \<Rightarrow> (case createOperatorRBAC (cu_Admin cs) (op_Tag cfg) s2 of
             (Some e, s3) \<Rightarrow> (Some (Wrapf ''create RBAC: '' e []), s3)
           | (None, s3) \<Rightarrow> (case helmInstallOperator k kubeconfigData cfg s3 of
               (Some e, s4) \<Rightarrow> (Some (Wrapf ''helm install: '' e []), s4) | (None, s4) \<Rightarrow> (None, s4))))))"

section \<open>The proxy of the operator\<close>

definition proxyCheck :: "'s KubeTools \<Rightarrow> string \<Rightarrow> 's \<Rightarrow> go_error option option \<times> 's" where
  "proxyCheck k fqdn s = (case kn_Probe k (''https://'' @ fqdn @ ''/healthz'') s of
     (Inr status, s1) \<Rightarrow> (if status = 200 \<or> status = 401 \<or> status = 403 then Some None else None, s1)
   | (Inl _, s1) \<Rightarrow> (None, s1))"

definition WaitForOperatorProxy :: "'s KubeTools \<Rightarrow> string \<Rightarrow> string \<Rightarrow> duration \<Rightarrow> ('s, string) eff" where
  "WaitForOperatorProxy k hostname tailnetDNS timeout s = (let fqdn = hostname @ ''.'' @ tailnetDNS in
     case ev_now (kn_Env k) s of (t, s1) \<Rightarrow>
       (case waitBefore (kn_Env k) (10 * second) (t + timeout) (ErrText (''operator proxy '' @ fqdn @ '' not reachable after '' @ Duration_String timeout))
           (proxyCheck k fqdn) (rounds timeout (10 * second)) s1 of
         (Some e, s2) \<Rightarrow> (Inl e, s2) | (None, s2) \<Rightarrow> (Inr fqdn, s2)))"

section \<open>Commands in a pod\<close>

text \<open>
  The executor of kubeexec.go: a command runs through the shell of a container over a stream to the API server,
  dialled directly or, when the executor was built for the tailnet, through a dialer that is given. The two ways of
  opening a stream and the stream itself are arguments.
\<close>

record ExecRequest =
  xq_Pod :: string
  xq_Namespace :: string
  xq_Container :: string
  xq_Command :: "string list"

text \<open>Of the stream the code uses what was written to the two outputs, and its error.\<close>

type_synonym 's stream = "'s \<Rightarrow> (string \<times> string \<times> go_error option) \<times> 's"

record ('d, 's) ExecAPI =
  xa_Direct :: "ExecRequest \<Rightarrow> go_error + 's stream"
  xa_Dialed :: "'d \<Rightarrow> ExecRequest \<Rightarrow> go_error + 's stream"

record 'd KubeExecExecutor =
  ke_namespace :: string
  ke_podName :: string
  ke_container :: string
  ke_customDialer :: "'d option"

definition NewKubeExecExecutor :: "'s KubeTools \<Rightarrow> string \<Rightarrow> string \<Rightarrow> string \<Rightarrow> string \<Rightarrow> go_error + 'd KubeExecExecutor" where
  "NewKubeExecExecutor k kubeconfigData namespace podName container = (case kn_REST k (kubeconfigBytes k kubeconfigData) of
     Inl e \<Rightarrow> Inl (Wrapf ''parse kubeconfig: '' e [])
   | Inr (Inl e) \<Rightarrow> Inl (Wrapf ''create clientset: '' e [])
   | Inr (Inr cs) \<Rightarrow> Inr \<lparr>ke_namespace = namespace, ke_podName = podName, ke_container = container, ke_customDialer = None\<rparr>)"

definition NewKubeExecExecutorFromConfig :: "'d option \<Rightarrow> string \<Rightarrow> string \<Rightarrow> string \<Rightarrow> 'd KubeExecExecutor" where
  "NewKubeExecExecutorFromConfig dialer namespace podName container =
     \<lparr>ke_namespace = namespace, ke_podName = podName, ke_container = container, ke_customDialer = dialer\<rparr>"

definition execRequest :: "'d KubeExecExecutor \<Rightarrow> string \<Rightarrow> ExecRequest" where
  "execRequest e cmd = \<lparr>xq_Pod = ke_podName e, xq_Namespace = ke_namespace e, xq_Container = ke_container e, xq_Command = [''/bin/sh'', ''-c'', cmd]\<rparr>"

definition KubeExec_Run :: "('d, 's) ExecAPI \<Rightarrow> 'd KubeExecExecutor \<Rightarrow> string \<Rightarrow> 's stream" where
  "KubeExec_Run api e cmd s = (case (case ke_customDialer e of
       Some dialer \<Rightarrow> xa_Dialed api dialer (execRequest e cmd) | None \<Rightarrow> xa_Direct api (execRequest e cmd)) of
     Inl err \<Rightarrow> (([], [], Some (Wrapf ''create executor: '' err [])), s)
   | Inr stream \<Rightarrow> stream s)"

section \<open>What the error of a failed installation says\<close>

text \<open>
  The error of a command holds the whole command line, and the one of helm holds the OAuth client secret: when
  helm is reached, every failure of the upgrade is an error with the secret in its text.
\<close>

lemma Contains_append: "Contains s x \<Longrightarrow> Contains (a @ s) x" "Contains s x \<Longrightarrow> Contains (s @ b) x"
  unfolding Contains_iff by (metis append.assoc)+

lemma Contains_JoinStr: "w \<in> set ws \<Longrightarrow> Contains w x \<Longrightarrow> Contains (JoinStr sep ws) x"
proof (induction sep ws rule: JoinStr.induct)
  case (3 sep s t ss)
  then show ?case by (cases "w = s") (auto intro: Contains_append)
qed auto

lemma runCmd_text: "runCmd sh args s = (Some e, s1) \<Longrightarrow> w \<in> set args \<Longrightarrow> Contains w x \<Longrightarrow> Contains (error_text e) x"
  by (auto simp: runCmd_def split: prod.splits option.splits intro!: Contains_append Contains_JoinStr)

lemma Contains_refl: "Contains x x"
  unfolding Contains_iff by (intro exI[of _ "[]"]) simp

lemma helmUpgrade_secret: "\<exists>w \<in> set (helmUpgrade tmpFile cfg). Contains w (op_OAuthClientSecret cfg)"
proof (rule bexI[of _ "''oauth.clientSecret='' @ op_OAuthClientSecret cfg"])
  show "Contains (''oauth.clientSecret='' @ op_OAuthClientSecret cfg) (op_OAuthClientSecret cfg)"
    by (rule Contains_append(1)[OF Contains_refl])
  show "''oauth.clientSecret='' @ op_OAuthClientSecret cfg \<in> set (helmUpgrade tmpFile cfg)"
    unfolding helmUpgrade_def by (simp only: list.set insert_iff simp_thms)
qed

lemma runCommands_upgrade:
  assumes "runCmd sh [''helm'', ''repo'', ''add'', ''tailscale'', OperatorChartRepo, ''--force-update''] s = (None, s1)"
    and "runCmd sh [''helm'', ''repo'', ''update'', ''tailscale''] s1 = (None, s2)"
  shows "runCommands sh (helmCommands tmpFile cfg) s = (case runCmd sh (helmUpgrade tmpFile cfg) s2 of
    (Some e, s3) \<Rightarrow> (Some (Wrapf ''helm: '' e []), s3) | (None, s3) \<Rightarrow> (None, s3))"
proof -
  have "hd (helmUpgrade tmpFile cfg) = ''helm''" by (simp only: helmUpgrade_def list.sel)
  then show ?thesis by (simp only: helmCommands_def runCommands.simps assms prod.case option.case append.simps split: prod.split option.split)
qed

end
