(* ===== verification/K8s_Provider.thy ===== *)
theory K8s_Provider
  imports Provider_Azure Operator
begin

text \<open>
  What the providers of Kubernetes clusters share (internal/provider, eks.go, gke.go and aks.go): the fields a
  provider fills in as it goes, the kubeconfig of a cluster, the two benchmark pods on the nodes of a pool, and
  the operator. Calls to a cluster and commands on the own machine act on the machines of the system, Pulumi
  and the clean-up of left-over node pools on the cloud. Where the code would panic the model has an error
  whose text says so; no such text comes from the code itself.
\<close>

section \<open>The fields of a provider\<close>

record 'c clusterSide =
  sd_cloud :: 'c
  sd_kubeconfig :: string
  sd_clusterName :: string
  sd_operatorFQDN :: string

type_synonym ('c, 'm, 'd, 'r) ksystem = "('c clusterSide, 'm, 'd, 'r) system"

definition onSide :: "('c \<Rightarrow> 'a \<times> 'c) \<Rightarrow> 'c clusterSide \<Rightarrow> 'a \<times> 'c clusterSide" where
  "onSide f c = (case f (sd_cloud c) of (x, c1) \<Rightarrow> (x, c\<lparr>sd_cloud := c1\<rparr>))"

definition sidePulumi :: "'c Pulumi \<Rightarrow> 'c clusterSide Pulumi" where
  "sidePulumi pl = \<lparr>pl_Upsert = (\<lambda>ws n. onSide (pl_Upsert pl ws n)), pl_Select = (\<lambda>ws n. onSide (pl_Select pl ws n)), pl_Is404 = pl_Is404 pl,
     pl_SetConfig = (\<lambda>n k v. onSide (pl_SetConfig pl n k v)), pl_Up = (\<lambda>n program refresh. onSide (pl_Up pl n program refresh)),
     pl_Cancel = (\<lambda>n. onSide (pl_Cancel pl n)), pl_Destroy = (\<lambda>n goOn. onSide (pl_Destroy pl n goOn)),
     pl_RemoveStack = (\<lambda>n. onSide (pl_RemoveStack pl n))\<rparr>"

definition sideField :: "('c clusterSide \<Rightarrow> 'a) \<Rightarrow> (('c, 'm, 'd, 'r) ksystem, 'a) eff" where
  "sideField field s = (Inr (field (y_cloud s)), s)"

definition setSide :: "('c clusterSide \<Rightarrow> 'c clusterSide) \<Rightarrow> (('c, 'm, 'd, 'r) ksystem, unit) eff" where
  "setSide f s = (Inr (), s\<lparr>y_cloud := f (y_cloud s)\<rparr>)"

definition panicked :: "string \<Rightarrow> go_error" where
  "panicked msg = ErrText (''panic: '' @ msg)"

text \<open>The type assertion on an output, which panics when there is none or it is no string.\<close>

definition mustOutput :: "outputs \<Rightarrow> string \<Rightarrow> (('c, 'm, 'd, 'r) ksystem, string) eff" where
  "mustOutput outs key = (case map_of outs key of Some (PStr s) \<Rightarrow> eret s | _ \<Rightarrow> efail (panicked ''interface conversion''))"

section \<open>The kubeconfig of a cluster\<close>

text \<open>A call on the own machine or to the cluster, whose error is its only result, under a wrapped error.\<close>

definition failingOn :: "string \<Rightarrow> 'm errEff \<Rightarrow> (('c, 'm, 'd, 'r) ksystem, unit) eff" where
  "failingOn msg m = failing msg (onMachines m)"

text \<open>The command line that writes the file, with its environment, for the name of the file.\<close>

definition fetchKubeconfig :: "'m KubeTools \<Rightarrow> string \<Rightarrow> string \<Rightarrow> (string \<Rightarrow> 'm \<Rightarrow> (string \<times> go_error option) \<times> 'm) \<Rightarrow> ('m, string) eff" where
  "fetchKubeconfig k pattern what command =
    (let sh = kn_Shell k in
     ebind (ewrap (\<lambda>e. Wrapf ''create temp kubeconfig: '' e []) (ku_CreateTemp sh pattern)) (\<lambda>tmp.
     (\<lambda>m. case command tmp m of
        ((out, Some e), m1) \<Rightarrow> (Inl (Wrapf (what @ '': '' @ out @ '': '') e []), ku_remove sh tmp m1)
      | ((_, None), m1) \<Rightarrow> (case ku_ReadFile sh tmp m1 of
          (Inl e, m2) \<Rightarrow> (Inl (Wrapf ''read kubeconfig: '' e []), ku_remove sh tmp m2)
        | (Inr data, m2) \<Rightarrow> (Inr (ku_Encode sh data), ku_remove sh tmp m2)))))"

text \<open>The client of the kubeconfig the provider has.\<close>

definition clusterClient :: "'m KubeTools \<Rightarrow> (('c, 'm, 'd, 'r) ksystem, 'm Cluster) eff" where
  "clusterClient k = ebind (sideField sd_kubeconfig) (\<lambda>kubeconfig. lift_sum ''create clientset: '' (ClientsetFromKubeconfig k kubeconfig))"

definition useKubeconfig :: "'m KubeTools \<Rightarrow> ('m, string) eff \<Rightarrow> (('c, 'm, 'd, 'r) ksystem, string) eff" where
  "useKubeconfig k fetch = ebind (onMachines fetch) (\<lambda>kubeconfig.
     ebind (setSide (\<lambda>c. c\<lparr>sd_kubeconfig := kubeconfig\<rparr>)) (\<lambda>_.
     ebind (clusterClient k) (\<lambda>cs.
     ebind (failingOn ''create namespace: '' (EnsureNamespace (cu_Kube cs))) (\<lambda>_.
     eret kubeconfig))))"

section \<open>The pods of a pair\<close>

definition defaultBenchImage :: string where "defaultBenchImage = ''ghcr.io/rajsinghtech/tailbench-tools:latest''"
definition defaultTSImage :: string where "defaultTSImage = ''ghcr.io/tailscale/tailscale:latest''"

text \<open>A pair of pods: the pool, the two names, whether the code hands the key to the pods, and whether it insists on their addresses.\<close>

record podPair =
  pp_Pool :: string
  pp_Server :: string
  pp_Client :: string
  pp_PassKey :: bool
  pp_NeedIPs :: bool

definition benchPod :: "podPair \<Rightarrow> PairOptions \<Rightarrow> string \<Rightarrow> PodManifest" where
  "benchPod pp opts name = (BuildPod name \<lparr>
      pc_BenchImage = (if po_BenchImage opts = [] then defaultBenchImage else po_BenchImage opts),
      pc_TSImage = (if po_TSImage opts = [] then defaultTSImage else po_TSImage opts),
      pc_AuthKey = (if pp_PassKey pp then po_UserData opts else []), pc_Hostname = name, pc_Userspace = False\<rparr>)
    \<lparr>mp_NodeSelector := [(''tailbench-pool'', pp_Pool pp)]\<rparr>"

definition podAddress :: "bool \<Rightarrow> string \<Rightarrow> 'm Kube \<Rightarrow> string \<Rightarrow> (('c, 'm, 'd, 'r) ksystem, string) eff" where
  "podAddress needed role kb name = (if needed then ewrap (\<lambda>e. Wrapf (''get '' @ role @ '' pod IP: '') e []) (onMachines (GetPodIP kb name))
     else ebind (ecatch (onMachines (GetPodIP kb name))) (\<lambda>r. eret (case r of Inl _ \<Rightarrow> [] | Inr ip \<Rightarrow> ip)))"

definition deployPods :: "'m KubeTools \<Rightarrow> podPair \<Rightarrow> PairOptions \<Rightarrow> string \<Rightarrow> (('c, 'm, 'd, 'r) ksystem, PairOutput) eff" where
  "deployPods k pp opts stackName =
     ebind (clusterClient k) (\<lambda>cs. let kb = cu_Kube cs in
     ebind (failingOn ''wait for nodes: '' (WaitForNodes (kn_Env k) kb (''tailbench-pool='' @ pp_Pool pp) 2 (10 * minute))) (\<lambda>_.
     ebind (failingOn ''create auth secret: '' (CreateAuthSecret kb (po_UserData opts))) (\<lambda>_.
     ebind (failingOn ''deploy server pod: '' (DeployPod (kn_Env k) kb (benchPod pp opts (pp_Server pp)) (5 * minute))) (\<lambda>_.
     ebind (failingOn ''deploy client pod: '' (DeployPod (kn_Env k) kb (SetAntiAffinity (pp_Server pp) (benchPod pp opts (pp_Client pp))) (5 * minute))) (\<lambda>_.
     ebind (podAddress (pp_NeedIPs pp) ''server'' kb (pp_Server pp)) (\<lambda>serverIP.
     ebind (podAddress (pp_NeedIPs pp) ''client'' kb (pp_Client pp)) (\<lambda>clientIP.
     ebind (sideField sd_kubeconfig) (\<lambda>kubeconfig.
     eret \<lparr>pt_ServerName = pp_Server pp, pt_ClientName = pp_Client pp, pt_ServerIP = [], pt_ClientIP = [],
       pt_ServerLANIP = serverIP, pt_ClientLANIP = clientIP, pt_StackName = stackName,
       pt_ServerInstanceID = [], pt_ClientInstanceID = [], pt_ServerENIID = [], pt_ClientENIID = [],
       pt_RouterName = [], pt_RouterIP = [], pt_RouterLANIP = [], pt_RouterInstanceID = [],
       pt_Namespace = Namespace, pt_Kubeconfig = kubeconfig\<rparr>))))))))"

text \<open>Deleting the pods before their nodes go: only when a client can be had, and whatever comes of it.\<close>

definition deletePods :: "'m KubeTools \<Rightarrow> podPair \<Rightarrow> (('c, 'm, 'd, 'r) ksystem, unit) eff" where
  "deletePods k pp = ebind (ecatch (clusterClient k)) (\<lambda>r. case r of
     Inl _ \<Rightarrow> eret ()
   | Inr cs \<Rightarrow> ebind (elift (onMachines (DeletePod (cu_Kube cs) (pp_Server pp)))) (\<lambda>_.
       ebind (elift (onMachines (DeletePod (cu_Kube cs) (pp_Client pp)))) (\<lambda>_. eret ())))"

section \<open>Destroying a pair\<close>

definition destroyPairOr :: "'c Pulumi \<Rightarrow> string \<Rightarrow> string \<Rightarrow> string \<Rightarrow> (('c, 'm, 'd, 'r) ksystem, unit) eff \<Rightarrow> (('c, 'm, 'd, 'r) ksystem, unit) eff" where
  "destroyPairOr pl stateDir providerName stack fallback =
     ebind (selectStack (sidePulumi pl) stateDir providerName stack (''select stack '' @ stack @ '': '')) (\<lambda>found. if \<not> found then fallback else
       ebind (failing (''cancel stack '' @ stack @ '': '') (onCloud (pl_Cancel (sidePulumi pl) stack))) (\<lambda>_.
       ebind (failing (''destroy stack '' @ stack @ '': '') (onCloud (pl_Destroy (sidePulumi pl) stack True))) (\<lambda>_.
       failing (''remove stack '' @ stack @ '': '') (onCloud (pl_RemoveStack (sidePulumi pl) stack)))))"

section \<open>The operator\<close>

definition operatorConfig :: "string \<Rightarrow> OperatorInstallConfig \<Rightarrow> OperatorConfig" where
  "operatorConfig hostname cfg = \<lparr>op_OAuthClientID = oi_OAuthClientID cfg, op_OAuthClientSecret = oi_OAuthClientSecret cfg,
     op_Hostname = hostname, op_Tag = oi_Tag cfg, op_ForceReinstall = oi_ForceReinstall cfg\<rparr>"

definition operatorHost :: "string \<Rightarrow> OperatorInstallConfig \<Rightarrow> string" where
  "operatorHost providerName cfg = (if oi_Hostname cfg = [] then ''tailbench-'' @ providerName @ ''-operator'' else oi_Hostname cfg)"

definition installOperatorOn :: "'m KubeTools \<Rightarrow> string \<Rightarrow> OperatorInstallConfig \<Rightarrow> (('c, 'm, 'd, 'r) ksystem, unit) eff" where
  "installOperatorOn k hostname cfg = ebind (sideField sd_kubeconfig) (\<lambda>kubeconfig.
     echeck (onMachines (InstallOperator k kubeconfig (operatorConfig hostname cfg))))"

text \<open>EKS and AKS wait for the proxy of the operator and keep its name; GKE keeps the name it will have.\<close>

definition installAndWait :: "'m KubeTools \<Rightarrow> string \<Rightarrow> OperatorInstallConfig \<Rightarrow> ('c, 'm, 'd, 'r) ksystem errEff" where
  "installAndWait k providerName cfg = (let hostname = operatorHost providerName cfg in
     eerr (ebind (installOperatorOn k hostname cfg) (\<lambda>_.
       ebind (onMachines (WaitForOperatorProxy k hostname (oi_TailnetDNS cfg) (10 * minute))) (\<lambda>fqdn.
       setSide (\<lambda>c. c\<lparr>sd_operatorFQDN := fqdn\<rparr>)))))"

definition OperatorProxyFQDN :: "('c, 'm, 'd, 'r) ksystem \<Rightarrow> string" where
  "OperatorProxyFQDN s = sd_operatorFQDN (y_cloud s)"

end
