(* ===== verification/Provider_EKS.thy ===== *)
theory Provider_EKS
  imports K8s_Provider
begin

text \<open>
  The provider of EKS clusters (internal/provider/eks.go): the cluster with its network and roles, a node group
  per pair, and the provider interface it fills in.
\<close>

record EKSProvider =
  ek_Region :: string
  ek_AZ :: string
  ek_StateDir :: string
  ek_RunID :: string
  ek_ExpiresAt :: string

definition eks_networkStackName :: "EKSProvider \<Rightarrow> string" where
  "eks_networkStackName p = scopedName ''tailbench-eks-cluster'' (ek_RunID p)"

definition eks_pairStackName :: "EKSProvider \<Rightarrow> string \<Rightarrow> string" where
  "eks_pairStackName p instanceType = scopedName (''tailbench-eks-'' @ dashedBoth instanceType) (ek_RunID p)"

definition eks_resourceTags :: "EKSProvider \<Rightarrow> string \<times> pinput" where
  "eks_resourceTags p = (''Tags'', PMap ([(''Project'', PStr ''tailbench''), (''TailbenchProvider'', PStr ''eks'')]
     @ (if ek_RunID p \<noteq> [] then [(''TailbenchRunID'', PStr (ek_RunID p))] else [])
     @ (if ek_ExpiresAt p \<noteq> [] then [(''TailbenchExpiresAt'', PStr (ek_ExpiresAt p))] else [])))"

section \<open>The cluster\<close>

text \<open>A second availability zone: the letter is b, or c when the first one ends in b.\<close>

definition secondAZ :: "string \<Rightarrow> string" where
  "secondAZ az = butlast az @ (if last az = CHR ''b'' then ''c'' else ''b'')"

text \<open>The policy is a JSON text, written here with exclamation marks for its double quotes, which are put back.\<close>

definition trustPolicy :: "string \<Rightarrow> string" where
  "trustPolicy service = map (\<lambda>c. if c = CHR ''!'' then CHR 0x22 else c)
     (''{!Version!:!2012-10-17!,!Statement!:[{!Effect!:!Allow!,!Principal!:{!Service!:!'' @ service @ ''!},!Action!:!sts:AssumeRole!}]}'')"

definition eks_nodePolicies :: "string list" where
  "eks_nodePolicies = [''arn:aws:iam::aws:policy/AmazonEKSWorkerNodePolicy'', ''arn:aws:iam::aws:policy/AmazonEKS_CNI_Policy'',
     ''arn:aws:iam::aws:policy/AmazonEC2ContainerRegistryReadOnly'']"

definition eks_clusterProgram :: "EKSProvider \<Rightarrow> Program" where
  "eks_clusterProgram p =
    (let name = (\<lambda>base. scopedName base (ek_RunID p)); tags = eks_resourceTags p;
         vpc = name ''tailbench-eks-vpc''; subnet1 = name ''tailbench-eks-subnet-1''; subnet2 = name ''tailbench-eks-subnet-2'';
         igw = name ''tailbench-eks-igw''; rt = name ''tailbench-eks-rt''; clusterRole = name ''tailbench-eks-cluster-role'';
         cluster = name ''tailbench-eks''; nodeRole = name ''tailbench-eks-node-role'';
         subnet = (\<lambda>n cidr az. declared ''ec2.Subnet'' n [(''VpcId'', POut vpc ''ID''), (''CidrBlock'', PStr cidr),
           (''AvailabilityZone'', PStr az), (''MapPublicIpOnLaunch'', PBool True), tags]);
         association = (\<lambda>n subnet. declared ''ec2.RouteTableAssociation'' n [(''SubnetId'', POut subnet ''ID''), (''RouteTableId'', POut rt ''ID'')]);
         role = (\<lambda>n service. declared ''iam.Role'' n [(''AssumeRolePolicy'', PStr (trustPolicy service)), tags]);
         attachment = (\<lambda>n role arn. declared ''iam.RolePolicyAttachment'' n [(''Role'', POut role ''Name''), (''PolicyArn'', PStr arn)]) in
     \<lparr>pg_Resources =
        [declared ''ec2.Vpc'' vpc [(''CidrBlock'', PStr ''10.0.0.0/16''), (''EnableDnsHostnames'', PBool True), (''EnableDnsSupport'', PBool True), tags],
         subnet subnet1 ''10.0.1.0/24'' (ek_AZ p),
         subnet subnet2 ''10.0.2.0/24'' (secondAZ (ek_AZ p)),
         declared ''ec2.InternetGateway'' igw [(''VpcId'', POut vpc ''ID''), tags],
         declared ''ec2.RouteTable'' rt [(''VpcId'', POut vpc ''ID''),
           (''Routes'', PList [PMap [(''CidrBlock'', PStr ''0.0.0.0/0''), (''GatewayId'', POut igw ''ID'')]]), tags],
         association ''tailbench-eks-rta-1'' subnet1,
         association ''tailbench-eks-rta-2'' subnet2,
         role clusterRole ''eks.amazonaws.com'',
         attachment ''eks-cluster-policy'' clusterRole ''arn:aws:iam::aws:policy/AmazonEKSClusterPolicy'',
         declared ''eks.Cluster'' cluster [(''RoleArn'', POut clusterRole ''Arn''),
           (''VpcConfig'', PMap [(''SubnetIds'', PList [POut subnet1 ''ID'', POut subnet2 ''ID''])]), tags],
         role nodeRole ''ec2.amazonaws.com'']
        @ map (\<lambda>(i, policy). attachment (''eks-node-policy-'' @ string_of_nat i) nodeRole policy) (zip [0..<length eks_nodePolicies] eks_nodePolicies),
      pg_Exports = [(''clusterName'', POut cluster ''Name''), (''clusterEndpoint'', POut cluster ''Endpoint''),
        (''clusterCaCert'', POut cluster ''CertificateAuthority.Data''), (''nodeRoleArn'', POut nodeRole ''Arn''), (''subnetId'', POut subnet1 ''ID'')]\<rparr>)"

definition eks_updateKubeconfig :: "'m KubeTools \<Rightarrow> EKSProvider \<Rightarrow> string \<Rightarrow> string \<Rightarrow> 'm \<Rightarrow> (string \<times> go_error option) \<times> 'm" where
  "eks_updateKubeconfig k p clusterName tmp = ku_run (kn_Shell k)
     [''aws'', ''eks'', ''update-kubeconfig'', ''--name'', clusterName, ''--region'', ek_Region p, ''--kubeconfig'', tmp]"

definition eks_SetupNetworking :: "'c Pulumi \<Rightarrow> 'm KubeTools \<Rightarrow> EKSProvider \<Rightarrow> (('c, 'm, 'd, 'r) ksystem, NetworkingOutput) eff" where
  "eks_SetupNetworking pl k p = (let stackName = eks_networkStackName p in
     if ek_AZ p = [] then efail (panicked ''slice bounds out of range [:-1]'') else
     ebind (upStack (sidePulumi pl) (ek_StateDir p) ''eks'' stackName ''create cluster stack: '' ''create EKS cluster: ''
       [(''aws:region'', ek_Region p)] (eks_clusterProgram p) False) (\<lambda>outs.
     ebind (mustOutput outs ''clusterName'') (\<lambda>clusterName.
     ebind (useKubeconfig k (fetchKubeconfig k ''kubeconfig-eks-*.json'' ''update-kubeconfig'' (eks_updateKubeconfig k p clusterName))) (\<lambda>kubeconfig.
     ebind (mustOutput outs ''nodeRoleArn'') (\<lambda>nodeRoleArn.
     ebind (mustOutput outs ''subnetId'') (\<lambda>subnetId.
     eret \<lparr>no_Values = [(''clusterName'', clusterName), (''kubeconfig'', kubeconfig), (''nodeRoleArn'', nodeRoleArn), (''subnetId'', subnetId)],
       no_StackName = stackName, no_ProviderID = clusterName\<rparr>))))))"

section \<open>A pair\<close>

definition eks_pods :: "EKSProvider \<Rightarrow> string \<Rightarrow> podPair" where
  "eks_pods p instanceType = (let safeType = dashedBoth instanceType in \<lparr>pp_Pool = safeType,
     pp_Server = scopedName (''tb-eks-server-'' @ safeType) (ek_RunID p), pp_Client = scopedName (''tb-eks-client-'' @ safeType) (ek_RunID p),
     pp_PassKey = False, pp_NeedIPs = False\<rparr>)"

definition eks_nodeProgram :: "EKSProvider \<Rightarrow> PairOptions \<Rightarrow> Program" where
  "eks_nodeProgram p opts = (let t = po_InstanceType opts; net = po_Networking opts in
     \<lparr>pg_Resources = [declared ''eks.NodeGroup'' ''bench-nodes''
        [(''ClusterName'', PStr (netValue net ''clusterName'')), (''NodeRoleArn'', PStr (netValue net ''nodeRoleArn'')),
         (''SubnetIds'', PList [PStr (netValue net ''subnetId'')]), (''InstanceTypes'', PList [PStr t]),
         (''AmiType'', PStr (if IsGraviton t then ''AL2023_ARM_64_STANDARD'' else ''AL2023_x86_64_STANDARD'')),
         (''ScalingConfig'', PMap [(''DesiredSize'', PInt 2), (''MinSize'', PInt 2), (''MaxSize'', PInt 2)]),
         (''Labels'', PMap [(''tailbench-pool'', PStr (dashedBoth t)), (''tailbench-run'', PStr (runSuffix (ek_RunID p)))]),
         eks_resourceTags p]],
      pg_Exports = [(''nodeGroupName'', POut ''bench-nodes'' ''NodeGroupName'')]\<rparr>)"

definition eks_CreatePair :: "'c Pulumi \<Rightarrow> 'm KubeTools \<Rightarrow> EKSProvider \<Rightarrow> PairOptions \<Rightarrow> (('c, 'm, 'd, 'r) ksystem, PairOutput) eff" where
  "eks_CreatePair pl k p opts = (let t = po_InstanceType opts; stackName = eks_pairStackName p t in
     ebind (upStack (sidePulumi pl) (ek_StateDir p) ''eks'' stackName ''create node group stack: '' (''create node group '' @ t @ '': '')
       [(''aws:region'', ek_Region p)] (eks_nodeProgram p opts) True) (\<lambda>_.
     deployPods k (eks_pods p t) opts stackName))"

definition eks_DestroyPair :: "'c Pulumi \<Rightarrow> 'm KubeTools \<Rightarrow> EKSProvider \<Rightarrow> string \<Rightarrow> ('c, 'm, 'd, 'r) ksystem errEff" where
  "eks_DestroyPair pl k p instanceType = eerr (ebind (deletePods k (eks_pods p instanceType)) (\<lambda>_.
     destroyPairOr pl (ek_StateDir p) ''eks'' (eks_pairStackName p instanceType) (eret ())))"

definition eks_TeardownNetworking :: "'c Pulumi \<Rightarrow> EKSProvider \<Rightarrow> ('c, 'm, 'd, 'r) ksystem errEff" where
  "eks_TeardownNetworking pl p = teardownStack (sidePulumi pl) (ek_StateDir p) ''eks'' (eks_networkStackName p) ''select cluster stack: '' ''destroy cluster stack: ''"

section \<open>The provider\<close>

definition isEKSQuotaError :: "go_error \<Rightarrow> bool" where
  "isEKSQuotaError err \<longleftrightarrow> isAWSQuotaError err \<or> Contains (error_text err) ''insufficient'' \<or> Contains (error_text err) ''Unschedulable''"

definition eks_InstallOperator :: "'m KubeTools \<Rightarrow> OperatorInstallConfig \<Rightarrow> ('c, 'm, 'd, 'r) ksystem errEff" where
  "eks_InstallOperator k = installAndWait k ''eks''"

definition EKS_Provider :: "'c Pulumi \<Rightarrow> 'm KubeTools \<Rightarrow> ('c, 'm, 'd, 'r) ksystem CloudCLI \<Rightarrow> EKSProvider \<Rightarrow> ('c, 'm, 'd, 'r) ksystem Provider" where
  "EKS_Provider pl k cli p = \<lparr>pv_Name = ''eks'', pv_SetupNetworking = eks_SetupNetworking pl k p, pv_CreatePair = eks_CreatePair pl k p,
     pv_DestroyPair = eks_DestroyPair pl k p, pv_TeardownNetworking = eks_TeardownNetworking pl p, pv_ListFamilies = listAWSFamilies,
     pv_ListInstances = listAWSInstances cli (ek_Region p), pv_IsQuotaError = isEKSQuotaError,
     pv_RunScopedResources = Some (ek_RunID p \<noteq> []), pv_ManagesNetworking = Some True, pv_InstallOperator = Some (eks_InstallOperator k)\<rparr>"

text \<open>The provider the command builds from the configuration (cmd/tailbench/aws_k8s.go).\<close>

definition newEKSProvider :: "Config \<Rightarrow> EKSProvider" where
  "newEKSProvider cfg = \<lparr>ek_Region = c_AWSRegion cfg, ek_AZ = c_AWSAZ cfg, ek_StateDir = BackendURL (c_StateBackend cfg) (c_StateDir cfg) ''eks'',
     ek_RunID = c_RunID cfg, ek_ExpiresAt = c_ResourceExpiresAt cfg\<rparr>"

end
