(* ===== verification/Provider_GKE.thy ===== *)
theory Provider_GKE
  imports K8s_Provider
begin

text \<open>
  The provider of GKE clusters (internal/provider/gke.go). A pair whose stack is gone is looked for in the
  cluster, through the command line, as long as the provider knows the name of the cluster.
\<close>

record GKEProvider =
  gk_Project :: string
  gk_Zone :: string
  gk_StateDir :: string
  gk_RunID :: string
  gk_ExpiresAt :: string

definition gke_networkStackName :: "GKEProvider \<Rightarrow> string" where
  "gke_networkStackName p = scopedName ''tailbench-gke-cluster'' (gk_RunID p)"

definition gke_pairStackName :: "GKEProvider \<Rightarrow> string \<Rightarrow> string" where
  "gke_pairStackName p instanceType = scopedName (''tailbench-gke-'' @ dashedBoth instanceType) (gk_RunID p)"

definition gke_resourceLabels :: "GKEProvider \<Rightarrow> pinput" where
  "gke_resourceLabels p = (let suffix = runSuffix (gk_RunID p); expiry = runSuffix (gk_ExpiresAt p) in
     PMap ([(''project'', PStr ''tailbench''), (''tailbench_provider'', PStr ''gke'')]
       @ (if suffix \<noteq> [] then [(''tailbench_run_id'', PStr suffix)] else [])
       @ (if expiry \<noteq> [] then [(''tailbench_expires_at'', PStr expiry)] else [])))"

section \<open>The cluster\<close>

definition gke_scopes :: "string \<times> pinput" where
  "gke_scopes = (''OauthScopes'', PList [PStr ''https://www.googleapis.com/auth/cloud-platform''])"

text \<open>
  The region is the zone without its last part. A zone without a dash is a panic of the program once the network
  is declared, which Pulumi reports as a failure of the update: here a resource that cannot be created.
\<close>

definition gke_clusterProgram :: "GKEProvider \<Rightarrow> Program" where
  "gke_clusterProgram p =
    (let network = scopedName ''tailbench-gke-vpc'' (gk_RunID p); subnet = scopedName ''tailbench-gke-subnet'' (gk_RunID p);
         cluster = scopedName ''tailbench-gke'' (gk_RunID p); project = (''Project'', PStr (gk_Project p));
         labels = (''ResourceLabels'', gke_resourceLabels p); i = LastIndex (CHR ''-'') (gk_Zone p);
         networkArgs = declared ''compute.Network'' network [project, (''AutoCreateSubnetworks'', PBool False)] in
     if i < 0 then \<lparr>pg_Resources = [networkArgs, declared ''panic'' ''slice bounds out of range [:-1]'' []], pg_Exports = []\<rparr>
     else \<lparr>pg_Resources = [networkArgs,
         declared ''compute.Subnetwork'' subnet [project, (''Region'', PStr (take (nat i) (gk_Zone p))), (''Network'', POut network ''ID''), (''IpCidrRange'', PStr ''10.0.0.0/20'')],
         declared ''container.Cluster'' cluster [project, (''Location'', PStr (gk_Zone p)), (''Network'', POut network ''Name''), (''Subnetwork'', POut subnet ''Name''),
           (''InitialNodeCount'', PInt 1), (''NodeConfig'', PMap [(''MachineType'', PStr ''e2-small''), gke_scopes, labels]),
           (''DeletionProtection'', PBool False), labels]],
       pg_Exports = [(''clusterName'', POut cluster ''Name''), (''endpoint'', POut cluster ''Endpoint''), (''caCert'', POut cluster ''MasterAuth.ClusterCaCertificate'')]\<rparr>)"

definition gke_getCredentials :: "'m KubeTools \<Rightarrow> GKEProvider \<Rightarrow> string \<Rightarrow> string \<Rightarrow> 'm \<Rightarrow> (string \<times> go_error option) \<times> 'm" where
  "gke_getCredentials k p clusterName tmp = ku_runEnv (kn_Shell k) (''KUBECONFIG'', tmp)
     [''gcloud'', ''container'', ''clusters'', ''get-credentials'', clusterName, ''--zone'', gk_Zone p, ''--project'', gk_Project p, ''--quiet'']"

definition gke_SetupNetworking :: "'c Pulumi \<Rightarrow> 'm KubeTools \<Rightarrow> GKEProvider \<Rightarrow> (('c, 'm, 'd, 'r) ksystem, NetworkingOutput) eff" where
  "gke_SetupNetworking pl k p = (let stackName = gke_networkStackName p in
     ebind (upStack (sidePulumi pl) (gk_StateDir p) ''gke'' stackName ''create cluster stack: '' ''create GKE cluster: ''
       [(''gcp:project'', gk_Project p), (''gcp:zone'', gk_Zone p)] (gke_clusterProgram p) False) (\<lambda>outs.
     ebind (mustOutput outs ''clusterName'') (\<lambda>clusterName.
     ebind (setSide (\<lambda>c. c\<lparr>sd_clusterName := clusterName\<rparr>)) (\<lambda>_.
     ebind (useKubeconfig k (fetchKubeconfig k ''kubeconfig-gke-*.json'' ''get-credentials'' (gke_getCredentials k p clusterName))) (\<lambda>kubeconfig.
     eret \<lparr>no_Values = [(''clusterName'', clusterName), (''kubeconfig'', kubeconfig)], no_StackName = stackName, no_ProviderID = clusterName\<rparr>)))))"

section \<open>A pair\<close>

definition gke_pods :: "GKEProvider \<Rightarrow> string \<Rightarrow> podPair" where
  "gke_pods p instanceType = (let safeType = dashedBoth instanceType in \<lparr>pp_Pool = safeType,
     pp_Server = scopedName (''tb-gke-server-'' @ safeType) (gk_RunID p), pp_Client = scopedName (''tb-gke-client-'' @ safeType) (gk_RunID p),
     pp_PassKey = True, pp_NeedIPs = True\<rparr>)"

definition gke_nodeProgram :: "GKEProvider \<Rightarrow> PairOptions \<Rightarrow> Program" where
  "gke_nodeProgram p opts = (let t = po_InstanceType opts in
     \<lparr>pg_Resources = [declared ''container.NodePool'' ''bench-pool''
        [(''Project'', PStr (gk_Project p)), (''Location'', PStr (gk_Zone p)), (''Cluster'', PStr (netValue (po_Networking opts) ''clusterName'')),
         (''NodeCount'', PInt 2), (''NodeConfig'', PMap [(''MachineType'', PStr t), gke_scopes,
           (''Labels'', PMap [(''tailbench-pool'', PStr (dashedBoth t)), (''tailbench-run'', PStr (runSuffix (gk_RunID p)))]),
           (''ResourceLabels'', gke_resourceLabels p)])]],
      pg_Exports = [(''nodePoolName'', POut ''bench-pool'' ''Name'')]\<rparr>)"

definition gke_CreatePair :: "'c Pulumi \<Rightarrow> 'm KubeTools \<Rightarrow> GKEProvider \<Rightarrow> PairOptions \<Rightarrow> (('c, 'm, 'd, 'r) ksystem, PairOutput) eff" where
  "gke_CreatePair pl k p opts = (let t = po_InstanceType opts; stackName = gke_pairStackName p t in
     ebind (upStack (sidePulumi pl) (gk_StateDir p) ''gke'' stackName ''create node pool stack: '' (''create node pool '' @ t @ '': '')
       [(''gcp:project'', gk_Project p), (''gcp:zone'', gk_Zone p)] (gke_nodeProgram p opts) True) (\<lambda>_.
     deployPods k (gke_pods p t) opts stackName))"

text \<open>
  The clean-up of left-over pools: \<open>out\<close> is the output of a command, \<open>run\<close> its output with the errors it
  printed. The loop stops at the first pool that cannot be deleted.
\<close>

definition gke_poolArgs :: "GKEProvider \<Rightarrow> string \<Rightarrow> string list" where
  "gke_poolArgs p clusterName = [''--cluster'', clusterName, ''--project'', gk_Project p, ''--zone'', gk_Zone p]"

fun gke_deletePools :: "(string list \<Rightarrow> 'c \<Rightarrow> (string \<times> go_error option) \<times> 'c) \<Rightarrow> GKEProvider \<Rightarrow> string \<Rightarrow> string list \<Rightarrow> 'c errEff" where
  "gke_deletePools run p clusterName [] c = (None, c)"
| "gke_deletePools run p clusterName (pool # pools) c = (if pool = [] \<or> pool = ''default-pool'' then gke_deletePools run p clusterName pools c
     else case run ([''gcloud'', ''container'', ''node-pools'', ''delete'', pool] @ gke_poolArgs p clusterName @ [''--quiet'', ''--async'']) c of
       ((output, Some e), c1) \<Rightarrow> (Some (Wrapf (''delete fallback node pool '' @ pool @ '': '' @ TrimSpace output @ '': '') e []), c1)
     | ((_, None), c1) \<Rightarrow> gke_deletePools run p clusterName pools c1)"

definition cleanupNodePools :: "(string list \<Rightarrow> ('c, string) eff) \<Rightarrow> (string list \<Rightarrow> 'c \<Rightarrow> (string \<times> go_error option) \<times> 'c) \<Rightarrow> GKEProvider \<Rightarrow> string \<Rightarrow>
    (('c, 'm, 'd, 'r) ksystem, unit) eff" where
  "cleanupNodePools out run p safeType = ebind (sideField sd_clusterName) (\<lambda>clusterName. if clusterName = [] then eret () else
     ebind (ewrap (\<lambda>e. Wrapf ''list fallback node pools: '' e []) (onCloud (onSide (out ([''gcloud'', ''container'', ''node-pools'', ''list'']
       @ gke_poolArgs p clusterName @ [''--format=value(name)'', ''--filter=nodeConfig.labels.tailbench-pool='' @ safeType]))))) (\<lambda>names.
     echeck (onCloud (onSide (gke_deletePools run p clusterName (Split (CHR 0x0A) (TrimSpace names)))))))"

definition gke_DestroyPair :: "'c Pulumi \<Rightarrow> 'm KubeTools \<Rightarrow> (string list \<Rightarrow> ('c, string) eff) \<Rightarrow> (string list \<Rightarrow> 'c \<Rightarrow> (string \<times> go_error option) \<times> 'c) \<Rightarrow>
    GKEProvider \<Rightarrow> string \<Rightarrow> ('c, 'm, 'd, 'r) ksystem errEff" where
  "gke_DestroyPair pl k out run p instanceType = eerr (ebind (deletePods k (gke_pods p instanceType)) (\<lambda>_.
     destroyPairOr pl (gk_StateDir p) ''gke'' (gke_pairStackName p instanceType) (cleanupNodePools out run p (dashedBoth instanceType))))"

definition gke_TeardownNetworking :: "'c Pulumi \<Rightarrow> GKEProvider \<Rightarrow> ('c, 'm, 'd, 'r) ksystem errEff" where
  "gke_TeardownNetworking pl p = teardownStack (sidePulumi pl) (gk_StateDir p) ''gke'' (gke_networkStackName p) ''select cluster stack: '' ''destroy cluster stack: ''"

section \<open>The provider\<close>

definition isGKEQuotaError :: "go_error \<Rightarrow> bool" where
  "isGKEQuotaError err \<longleftrightarrow> isGCPQuotaError err \<or> Contains (error_text err) ''insufficient'' \<or> Contains (error_text err) ''Unschedulable''"

definition gke_InstallOperator :: "'m KubeTools \<Rightarrow> OperatorInstallConfig \<Rightarrow> ('c, 'm, 'd, 'r) ksystem errEff" where
  "gke_InstallOperator k cfg = (let hostname = operatorHost ''gke'' cfg in
     eerr (ebind (installOperatorOn k hostname cfg) (\<lambda>_. setSide (\<lambda>c. c\<lparr>sd_operatorFQDN := hostname @ ''.'' @ oi_TailnetDNS cfg\<rparr>))))"

definition GKE_Provider :: "'c Pulumi \<Rightarrow> 'm KubeTools \<Rightarrow> (string list \<Rightarrow> ('c, string) eff) \<Rightarrow> (string list \<Rightarrow> 'c \<Rightarrow> (string \<times> go_error option) \<times> 'c) \<Rightarrow>
    ('c, 'm, 'd, 'r) ksystem CloudCLI \<Rightarrow> GKEProvider \<Rightarrow> ('c, 'm, 'd, 'r) ksystem Provider" where
  "GKE_Provider pl k out run cli p = \<lparr>pv_Name = ''gke'', pv_SetupNetworking = gke_SetupNetworking pl k p, pv_CreatePair = gke_CreatePair pl k p,
     pv_DestroyPair = gke_DestroyPair pl k out run p, pv_TeardownNetworking = gke_TeardownNetworking pl p, pv_ListFamilies = listGCPFamilies,
     pv_ListInstances = listGCPInstances cli (gk_Project p) (gk_Zone p), pv_IsQuotaError = isGKEQuotaError,
     pv_RunScopedResources = Some (gk_RunID p \<noteq> []), pv_ManagesNetworking = Some True, pv_InstallOperator = Some (gke_InstallOperator k)\<rparr>"

text \<open>The provider the command builds from the configuration (cmd/tailbench/gcp_k8s.go).\<close>

definition newGKEProvider :: "Config \<Rightarrow> GKEProvider" where
  "newGKEProvider cfg = \<lparr>gk_Project = c_GCPProject cfg, gk_Zone = c_GCPZone cfg, gk_StateDir = BackendURL (c_StateBackend cfg) (c_StateDir cfg) ''gke'',
     gk_RunID = c_RunID cfg, gk_ExpiresAt = c_ResourceExpiresAt cfg\<rparr>"

end
