(* ===== verification/Provider_AKS.thy ===== *)
theory Provider_AKS
  imports K8s_Provider
begin

text \<open>
  The provider of AKS clusters (internal/provider/aks.go). Every pair has its own stack, but the agent pool all
  of them declare has one name in the cluster.
\<close>

record AKSProvider =
  ak_Location :: string
  ak_ResourceGroup :: string
  ak_StateDir :: string
  ak_RunID :: string
  ak_ExpiresAt :: string

definition aks_safeType :: "string \<Rightarrow> string" where
  "aks_safeType instanceType = ToLower (dashedBoth instanceType)"

definition aks_networkStackName :: "AKSProvider \<Rightarrow> string" where
  "aks_networkStackName p = scopedName ''tailbench-aks-cluster'' (ak_RunID p)"

definition aks_pairStackName :: "AKSProvider \<Rightarrow> string \<Rightarrow> string" where
  "aks_pairStackName p instanceType = scopedName (''tailbench-aks-'' @ aks_safeType instanceType) (ak_RunID p)"

definition aks_resourceTags :: "AKSProvider \<Rightarrow> string \<times> pinput" where
  "aks_resourceTags p = (''Tags'', PMap ([(''Project'', PStr ''tailbench''), (''TailbenchProvider'', PStr ''aks'')]
     @ (if ak_RunID p \<noteq> [] then [(''TailbenchRunID'', PStr (ak_RunID p))] else [])
     @ (if ak_ExpiresAt p \<noteq> [] then [(''TailbenchExpiresAt'', PStr (ak_ExpiresAt p))] else [])))"

section \<open>The cluster\<close>

definition aks_clusterProgram :: "AKSProvider \<Rightarrow> Program" where
  "aks_clusterProgram p = (let cluster = scopedName ''tailbench-aks'' (ak_RunID p) in
     \<lparr>pg_Resources = [declared ''containerservice.ManagedCluster'' cluster
        [(''ResourceGroupName'', PStr (ak_ResourceGroup p)), (''Location'', PStr (ak_Location p)),
         (''DnsPrefix'', PStr (scopedName ''tailbench'' (ak_RunID p))), (''Identity'', PMap [(''Type'', PStr ''SystemAssigned'')]),
         (''AgentPoolProfiles'', PList [PMap [(''Name'', PStr ''system''), (''Count'', PInt 1), (''VmSize'', PStr ''Standard_B2s''), (''Mode'', PStr ''System'')]]),
         aks_resourceTags p]],
      pg_Exports = [(''clusterName'', POut cluster ''Name'')]\<rparr>)"

definition aks_getCredentials :: "'m KubeTools \<Rightarrow> AKSProvider \<Rightarrow> string \<Rightarrow> string \<Rightarrow> 'm \<Rightarrow> (string \<times> go_error option) \<times> 'm" where
  "aks_getCredentials k p clusterName tmp = ku_run (kn_Shell k)
     [''az'', ''aks'', ''get-credentials'', ''--resource-group'', ak_ResourceGroup p, ''--name'', clusterName, ''--overwrite-existing'', ''--file'', tmp]"

definition aks_SetupNetworking :: "'c Pulumi \<Rightarrow> 'm KubeTools \<Rightarrow> AKSProvider \<Rightarrow> (('c, 'm, 'd, 'r) ksystem, NetworkingOutput) eff" where
  "aks_SetupNetworking pl k p = (let stackName = aks_networkStackName p in
     ebind (upStack (sidePulumi pl) (ak_StateDir p) ''aks'' stackName ''create cluster stack: '' ''create AKS cluster: '' [] (aks_clusterProgram p) False) (\<lambda>outs.
     ebind (mustOutput outs ''clusterName'') (\<lambda>clusterName.
     ebind (setSide (\<lambda>c. c\<lparr>sd_clusterName := clusterName\<rparr>)) (\<lambda>_.
     ebind (useKubeconfig k (fetchKubeconfig k ''kubeconfig-aks-*.json'' ''get-credentials'' (aks_getCredentials k p clusterName))) (\<lambda>kubeconfig.
     eret \<lparr>no_Values = [(''clusterName'', clusterName), (''kubeconfig'', kubeconfig)], no_StackName = stackName, no_ProviderID = clusterName\<rparr>)))))"

section \<open>A pair\<close>

definition aks_pods :: "AKSProvider \<Rightarrow> string \<Rightarrow> podPair" where
  "aks_pods p instanceType = (let safeType = aks_safeType instanceType in \<lparr>pp_Pool = safeType,
     pp_Server = scopedName (''tb-aks-server-'' @ safeType) (ak_RunID p), pp_Client = scopedName (''tb-aks-client-'' @ safeType) (ak_RunID p),
     pp_PassKey = False, pp_NeedIPs = False\<rparr>)"

definition aks_nodeProgram :: "AKSProvider \<Rightarrow> string \<Rightarrow> PairOptions \<Rightarrow> Program" where
  "aks_nodeProgram p clusterName opts = (let t = po_InstanceType opts in
     \<lparr>pg_Resources = [declared ''containerservice.AgentPool'' ''bench-pool''
        [(''ResourceGroupName'', PStr (ak_ResourceGroup p)), (''ResourceName'', PStr clusterName), (''AgentPoolName'', PStr ''bench''), (''Count'', PInt 2),
         (''VmSize'', PStr t), (''Mode'', PStr ''User''),
         (''NodeLabels'', PMap [(''tailbench-pool'', PStr (aks_safeType t)), (''tailbench-run'', PStr (runSuffix (ak_RunID p)))]), aks_resourceTags p]],
      pg_Exports = []\<rparr>)"

definition aks_CreatePair :: "'c Pulumi \<Rightarrow> 'm KubeTools \<Rightarrow> AKSProvider \<Rightarrow> PairOptions \<Rightarrow> (('c, 'm, 'd, 'r) ksystem, PairOutput) eff" where
  "aks_CreatePair pl k p opts = (let t = po_InstanceType opts; stackName = aks_pairStackName p t in
     ebind (sideField sd_clusterName) (\<lambda>clusterName.
     ebind (upStack (sidePulumi pl) (ak_StateDir p) ''aks'' stackName ''create agent pool stack: '' (''create agent pool '' @ t @ '': '')
       [] (aks_nodeProgram p clusterName opts) True) (\<lambda>_.
     deployPods k (aks_pods p t) opts stackName)))"

text \<open>The clean-up of the agent pool; \<open>run\<close> is a command with its output and the errors it printed.\<close>

definition aks_poolArgs :: "AKSProvider \<Rightarrow> string \<Rightarrow> string list" where
  "aks_poolArgs p clusterName = [''--resource-group'', ak_ResourceGroup p, ''--cluster-name'', clusterName, ''--name'', ''bench'']"

definition aks_deletePool :: "(string list \<Rightarrow> 'c \<Rightarrow> (string \<times> go_error option) \<times> 'c) \<Rightarrow> AKSProvider \<Rightarrow> string \<Rightarrow> 'c errEff" where
  "aks_deletePool run p clusterName c = (case run ([''az'', ''aks'', ''nodepool'', ''show''] @ aks_poolArgs p clusterName @ [''--query'', ''provisioningState'', ''-o'', ''tsv'']) c of
     ((out, Some e), c1) \<Rightarrow> (let message = ToLower out in
       if Contains message ''not found'' \<or> Contains message ''resourcenotfound'' then (None, c1)
       else (Some (Wrapf (''inspect fallback node pool: '' @ TrimSpace out @ '': '') e []), c1))
   | ((out, None), c1) \<Rightarrow> if TrimSpace out = [] then (None, c1)
       else (case run ([''az'', ''aks'', ''nodepool'', ''delete''] @ aks_poolArgs p clusterName @ [''--no-wait'']) c1 of
           ((output, Some e), c2) \<Rightarrow> (Some (Wrapf (''delete fallback node pool: '' @ TrimSpace output @ '': '') e []), c2)
         | ((_, None), c2) \<Rightarrow> (None, c2)))"

definition cleanupNodePool :: "(string list \<Rightarrow> 'c \<Rightarrow> (string \<times> go_error option) \<times> 'c) \<Rightarrow> AKSProvider \<Rightarrow> (('c, 'm, 'd, 'r) ksystem, unit) eff" where
  "cleanupNodePool run p = ebind (sideField sd_clusterName) (\<lambda>clusterName. if clusterName = [] then eret ()
     else echeck (onCloud (onSide (aks_deletePool run p clusterName))))"

definition aks_DestroyPair :: "'c Pulumi \<Rightarrow> 'm KubeTools \<Rightarrow> (string list \<Rightarrow> 'c \<Rightarrow> (string \<times> go_error option) \<times> 'c) \<Rightarrow> AKSProvider \<Rightarrow> string \<Rightarrow>
    ('c, 'm, 'd, 'r) ksystem errEff" where
  "aks_DestroyPair pl k run p instanceType = eerr (ebind (deletePods k (aks_pods p instanceType)) (\<lambda>_.
     destroyPairOr pl (ak_StateDir p) ''aks'' (aks_pairStackName p instanceType) (cleanupNodePool run p)))"

definition aks_TeardownNetworking :: "'c Pulumi \<Rightarrow> AKSProvider \<Rightarrow> ('c, 'm, 'd, 'r) ksystem errEff" where
  "aks_TeardownNetworking pl p = teardownStack (sidePulumi pl) (ak_StateDir p) ''aks'' (aks_networkStackName p) ''select cluster stack: '' ''destroy cluster stack: ''"

section \<open>The provider\<close>

definition isAKSQuotaError :: "go_error \<Rightarrow> bool" where
  "isAKSQuotaError err \<longleftrightarrow> (let s = error_text err in Contains s ''QuotaExceeded'' \<or> Contains s ''SkuNotAvailable''
     \<or> Contains s ''AllocationFailed'' \<or> Contains s ''Unschedulable'')"

definition aks_InstallOperator :: "'m KubeTools \<Rightarrow> OperatorInstallConfig \<Rightarrow> ('c, 'm, 'd, 'r) ksystem errEff" where
  "aks_InstallOperator k = installAndWait k ''aks''"

definition AKS_Provider :: "'c Pulumi \<Rightarrow> 'm KubeTools \<Rightarrow> (string list \<Rightarrow> 'c \<Rightarrow> (string \<times> go_error option) \<times> 'c) \<Rightarrow> ('c, 'm, 'd, 'r) ksystem CloudCLI \<Rightarrow>
    (string \<Rightarrow> go_error + azureSKU list option) \<Rightarrow> azureSKU list option \<Rightarrow> AKSProvider \<Rightarrow> ('c, 'm, 'd, 'r) ksystem Provider" where
  "AKS_Provider pl k run cli unmarshal cache p = \<lparr>pv_Name = ''aks'', pv_SetupNetworking = aks_SetupNetworking pl k p, pv_CreatePair = aks_CreatePair pl k p,
     pv_DestroyPair = aks_DestroyPair pl k run p, pv_TeardownNetworking = aks_TeardownNetworking pl p, pv_ListFamilies = listAzureFamilies,
     pv_ListInstances = (\<lambda>family. listAzureInstances cli unmarshal (ak_Location p) family cache), pv_IsQuotaError = isAKSQuotaError,
     pv_RunScopedResources = Some (ak_RunID p \<noteq> []), pv_ManagesNetworking = Some True, pv_InstallOperator = Some (aks_InstallOperator k)\<rparr>"

text \<open>The provider the command builds from the configuration (cmd/tailbench/azure_k8s.go).\<close>

definition newAKSProvider :: "Config \<Rightarrow> AKSProvider" where
  "newAKSProvider cfg = \<lparr>ak_Location = c_AzureLocation cfg, ak_ResourceGroup = c_AzureResourceGroup cfg,
     ak_StateDir = BackendURL (c_StateBackend cfg) (c_StateDir cfg) ''aks'', ak_RunID = c_RunID cfg, ak_ExpiresAt = c_ResourceExpiresAt cfg\<rparr>"

end
