(* ===== verification/Cluster_Example.thy ===== *)
theory Cluster_Example
  imports Operator
begin

text \<open>
  A cluster on which the properties of the Kubernetes code are exercised: its nodes and pods are ready, it stores
  nothing, and a command fails as told.
\<close>

definition readyKube :: "unit Kube" where
  "readyKube = \<lparr>kb_GetNamespace = (\<lambda>_ s. (None, s)), kb_CreateNamespace = (\<lambda>_ s. (None, s)), kb_GetSecret = (\<lambda>_ _ s. (None, s)),
     kb_CreateSecret = (\<lambda>_ _ _ s. (None, s)), kb_UpdateSecret = (\<lambda>_ _ _ s. (None, s)),
     kb_GetPod = (\<lambda>_ n s. (Inr \<lparr>pd_Name = n, pd_Phase = ''Running'', pd_IP = ''10.0.0.7''\<rparr>, s)),
     kb_ListPods = (\<lambda>_ _ s. (Inr [], s)), kb_CreatePod = (\<lambda>_ _ s. (None, s)), kb_DeletePod = (\<lambda>_ _ s. (None, s)),
     kb_ListNodes = (\<lambda>_ s. (Inr [[(''Ready'', ''True'')], [(''Ready'', ''True'')]], s)), kb_ListIngresses = (\<lambda>_ _ s. (Inr [], s)),
     kb_GetService = (\<lambda>_ _ s. (Inl (ErrText ''not found''), s)), kb_ListServices = (\<lambda>_ _ s. (Inr [], s)), kb_CreateService = (\<lambda>_ _ s. (None, s)),
     kb_UpdateService = (\<lambda>_ _ s. (None, s)), kb_DeleteService = (\<lambda>_ _ s. (None, s)), kb_GetSTS = (\<lambda>_ _ s. (Inl (ErrText ''not found''), s)),
     kb_ListSTS = (\<lambda>_ s. (Inr [], s)), kb_IsNotFound = (\<lambda>e. e = ErrText ''not found'')\<rparr>"

definition quietAdmin :: "unit KubeAdmin" where
  "quietAdmin = \<lparr>ka_DeleteSTS = (\<lambda>_ _ s. (None, s)), ka_ListSecrets = (\<lambda>_ s. (Inr [], s)), ka_DeleteSecret = (\<lambda>_ _ s. (None, s)),
     ka_ListServiceAccounts = (\<lambda>_ s. (Inr [''default''], s)), ka_DeleteServiceAccount = (\<lambda>_ _ s. (None, s)), ka_ListRoleBindings = (\<lambda>s. (Inr [], s)),
     ka_GetRoleBinding = (\<lambda>_ s. (None, s)), ka_CreateRoleBinding = (\<lambda>_ s. (None, s)), ka_UpdateRoleBinding = (\<lambda>_ s. (None, s)),
     ka_DeleteRoleBinding = (\<lambda>_ s. (None, s)), ka_ListRoles = (\<lambda>s. (Inr [], s)), ka_DeleteRole = (\<lambda>_ s. (None, s))\<rparr>"

definition exampleShell :: "(string list \<Rightarrow> go_error option) \<Rightarrow> unit Shell" where
  "exampleShell fails = \<lparr>ku_Decode = Inr, ku_CreateTemp = (\<lambda>p s. (Inr p, s)), ku_Write = (\<lambda>_ _ s. (None, s)), ku_remove = (\<lambda>_ s. s), ku_stat = (\<lambda>_ s. (None, s)),
     ku_run = (\<lambda>args s. (([], fails args), s)), ku_runEnv = (\<lambda>_ args s. (([], fails args), s)), ku_WriteFile = (\<lambda>_ _ s. (None, s)),
     ku_ReadFile = (\<lambda>_ s. (Inr ''kubeconfig'', s)), ku_Encode = id\<rparr>"

definition exampleTime :: "unit Env" where
  "exampleTime = \<lparr>ev_wait = (\<lambda>_ s. (None, s)), ev_sleep = (\<lambda>_ s. s), ev_now = (\<lambda>s. (0, s)), ev_ctxErr = (\<lambda>_. None)\<rparr>"

definition exampleTools :: "(string list \<Rightarrow> go_error option) \<Rightarrow> unit KubeTools" where
  "exampleTools fails = \<lparr>kn_Shell = exampleShell fails, kn_Env = exampleTime, kn_REST = (\<lambda>_. Inr (Inr \<lparr>cu_Kube = readyKube, cu_Admin = quietAdmin\<rparr>)),
     kn_Probe = (\<lambda>_ s. (Inr 200, s))\<rparr>"

end
