(* ===== verification/Cluster_Props.thy ===== *)
theory Cluster_Props
  imports Provider_Props Provider_EKS Provider_GKE Provider_AKS Cluster_Example
begin

text \<open>
  The providers of EKS, GKE and AKS clusters satisfy the contract of a cloud provider too: what they do on the
  cluster does not change the stacks of Pulumi, and the pools they delete without Pulumi belong to the stacks
  of the run.
\<close>

section \<open>Calls beside the cloud\<close>

definition sideView :: "'c View \<Rightarrow> 'c clusterSide View" where
  "sideView v = \<lparr>vw_stacks = vw_stacks v \<circ> sd_cloud, vw_live = vw_live v \<circ> sd_cloud\<rparr>"

lemma sideView_simps [simp]: "vw_stacks (sideView v) c = vw_stacks v (sd_cloud c)" "vw_live (sideView v) c = vw_live v (sd_cloud c)"
  by (simp_all add: sideView_def)

lemma keeps_side [simp]: "keeps (sideView v) c c' \<longleftrightarrow> keeps v (sd_cloud c) (sd_cloud c')"
  by (simp add: keeps_def)

lemma confined_side [simp]: "confined (sideView v) own c c' \<longleftrightarrow> confined v own (sd_cloud c) (sd_cloud c')"
  by (simp add: confined_def orphanFree_def)

lemma orphanFree_side [simp]: "orphanFree (sideView v) c \<longleftrightarrow> orphanFree v (sd_cloud c)"
  by (simp add: orphanFree_def)

lemma onSide_results [simp]: "fst (onSide f c) = fst (f (sd_cloud c))" "sd_cloud (snd (onSide f c)) = snd (f (sd_cloud c))"
  by (simp_all add: onSide_def split: prod.split)

lemma sidePulumi_laws: "pulumiLaws pl v \<Longrightarrow> pulumiLaws (sidePulumi pl) (sideView v)"
  by (simp add: pulumiLaws_def selectLaw_def upsertLaw_def configLaw_def upLaw_def destroyLaw_def removeLaw_def sidePulumi_def split_beta Let_def cong: option.case_cong)

text \<open>A call that succeeds or fails without a change of the cloud keeps whatever is known of it.\<close>

lemma spec_local: "(\<And>s. y_cloud (snd (m s)) = y_cloud s) \<Longrightarrow> spec v own P m (\<lambda>_. P)"
  by (simp add: spec_def)

lemma onMachines_cloud [simp]: "y_cloud (snd (onMachines f s)) = y_cloud s"
  by (simp add: onMachines_def split: prod.split)

lemma ecatch_cloud [simp]: "snd (ecatch m s) = snd (m s)"
  by (simp add: ecatch_def split: prod.split)

lemma lift_sum_state [simp]: "snd (lift_sum msg r s) = s"
  by (simp add: lift_sum_def efail_def eret_def split: sum.split)

lemma sideField_state [simp]: "snd (sideField f s) = s"
  by (simp add: sideField_def)

lemma mustOutput_state [simp]: "snd (mustOutput outs key s) = s"
  by (simp add: mustOutput_def efail_def eret_def split: option.split pinput.split)

lemma failingOn_cloud [simp]: "y_cloud (snd (failingOn msg m s)) = y_cloud s"
  by (simp add: failingOn_def failing_def)

lemma ebind_cloud:
  assumes m: "\<And>s. y_cloud (snd (m s)) = y_cloud s" and f: "\<And>x s. y_cloud (snd (f x s)) = y_cloud s"
  shows "y_cloud (snd (ebind m f s)) = y_cloud s"
proof (cases "m s")
  case (Pair r s1)
  with m[of s] f[of _ s1] show ?thesis by (cases r) (simp_all add: ebind_def)
qed

lemma eret_state [simp]: "snd (eret x s) = s"
  by (simp add: eret_def)

lemma clusterClient_cloud [simp]: "y_cloud (snd (clusterClient k s)) = y_cloud s"
  unfolding clusterClient_def by (rule ebind_cloud) simp_all

lemma podAddress_cloud [simp]: "y_cloud (snd (podAddress needed role kb name s)) = y_cloud s"
  unfolding podAddress_def by (cases needed) (auto intro!: ebind_cloud)

lemma deletePods_cloud: "y_cloud (snd (deletePods k pp s)) = y_cloud s"
  unfolding deletePods_def by (auto intro!: ebind_cloud split: sum.split)

lemma spec_setSide: "(\<And>c. sd_cloud (f c) = sd_cloud c) \<Longrightarrow> spec (sideView v) own P (setSide f) (\<lambda>_ _. True)"
  by (simp add: spec_def setSide_def)

section \<open>What the cluster providers share\<close>

lemma useKubeconfig_spec: "spec (sideView v) own (\<lambda>_. True) (useKubeconfig k fetch) (\<lambda>_ _. True)"
  unfolding useKubeconfig_def
  by (rule spec_then[OF spec_local], simp, rule spec_then[OF spec_setSide], simp,
    rule spec_then[OF spec_local], simp, rule spec_then[OF spec_local], simp, rule spec_done)

lemma deployPods_spec: "spec v own P (deployPods k pp opts stack) (\<lambda>out _. pt_StackName out = stack)"
  unfolding deployPods_def Let_def
  by (rule spec_then[OF spec_local], simp)+ (rule spec_eret, simp)

lemma deletePods_spec: "spec v own P (deletePods k pp) (\<lambda>_. P)"
  by (rule spec_local) (rule deletePods_cloud)

lemma destroyPairOr_spec:
  assumes laws: "pulumiLaws pl v" and own: "n \<in> own"
    and fallback: "spec (sideView v) own (\<lambda>c. n \<notin> vw_stacks (sideView v) c) fallback (\<lambda>_ c. n \<notin> vw_stacks (sideView v) c)"
  shows "spec (sideView v) own (\<lambda>_. True) (destroyPairOr pl stateDir name n fallback) (\<lambda>_ c. n \<notin> vw_stacks (sideView v) c)"
proof -
  have l: "selectLaw (sidePulumi pl) (sideView v)" "destroyLaw (sidePulumi pl) (sideView v)" "removeLaw (sidePulumi pl) (sideView v)" "configLaw (sidePulumi pl) (sideView v)"
    using sidePulumi_laws[OF laws] by (simp_all add: pulumiLaws_def)
  note d = destroy_specs[OF l(2-4) own]
  have all: "spec (sideView v) own (\<lambda>_. True) (ebind (failing m1 (onCloud (pl_Cancel (sidePulumi pl) n))) (\<lambda>_.
       ebind (failing m2 (onCloud (pl_Destroy (sidePulumi pl) n True))) (\<lambda>_.
       failing m3 (onCloud (pl_RemoveStack (sidePulumi pl) n))))) (\<lambda>_ c. n \<notin> vw_stacks (sideView v) c)" for m1 m2 m3
    by (rule spec_ebind[OF d(4)] spec_ebind[OF d(1)] d(2))+
  have "spec (sideView v) own (\<lambda>c. \<not> found \<longrightarrow> n \<notin> vw_stacks (sideView v) c) (if \<not> found then fallback else
       ebind (failing m1 (onCloud (pl_Cancel (sidePulumi pl) n))) (\<lambda>_. ebind (failing m2 (onCloud (pl_Destroy (sidePulumi pl) n True))) (\<lambda>_.
       failing m3 (onCloud (pl_RemoveStack (sidePulumi pl) n))))) (\<lambda>_ c. n \<notin> vw_stacks (sideView v) c)" for found m1 m2 m3
    by (cases found) (auto intro: spec_weaken[OF all] spec_weaken[OF fallback])
  then show ?thesis unfolding destroyPairOr_def by (rule spec_ebind[OF selectStack_spec[OF l(1)]])
qed

lemma destroyPair_spec:
  assumes "pulumiLaws pl v" "n \<in> own"
    and "spec (sideView v) own (\<lambda>c. n \<notin> vw_stacks (sideView v) c) fallback (\<lambda>_ c. n \<notin> vw_stacks (sideView v) c)"
  shows "destroysStack (sideView v) own n (eerr (ebind (deletePods k pp) (\<lambda>_. destroyPairOr pl stateDir name n fallback)))"
  by (rule destroysStack_eerr, rule spec_ebind[OF deletePods_spec destroyPairOr_spec[OF assms]])

text \<open>The command lines on the pools of a cluster: no stack changes, and only resources of the run can go.\<close>

definition removesOwn :: "'c View \<Rightarrow> string set \<Rightarrow> 'c \<Rightarrow> 'c \<Rightarrow> bool" where
  "removesOwn v own c c' \<longleftrightarrow> vw_stacks v c' = vw_stacks v c \<and> vw_live v c' \<subseteq> vw_live v c \<and> vw_live v c' - own = vw_live v c - own"

definition poolLaw :: "'c View \<Rightarrow> string set \<Rightarrow> string list \<Rightarrow> (string list \<Rightarrow> 'c \<Rightarrow> 'x \<times> 'c) \<Rightarrow> bool" where
  "poolLaw v own tool run \<longleftrightarrow> (\<forall>args c. removesOwn v own c (snd (run (tool @ args) c)))"

lemma removesOwn_refl [simp]: "removesOwn v own c c"
  by (simp add: removesOwn_def)

lemma removesOwn_trans: "removesOwn v own a b \<Longrightarrow> removesOwn v own b c \<Longrightarrow> removesOwn v own a c"
  by (auto simp: removesOwn_def)

lemma removesOwn_confined: "removesOwn v own c c' \<Longrightarrow> confined v own c c'"
  by (auto simp: removesOwn_def confined_def orphanFree_def)

lemma removesOwn_stacks: "removesOwn v own c c' \<Longrightarrow> vw_stacks v c' = vw_stacks v c"
  by (simp add: removesOwn_def)

lemma spec_removes:
  assumes "\<And>c. removesOwn v own c (snd (f c))"
  shows "spec (sideView v) own (\<lambda>c. n \<notin> vw_stacks (sideView v) c) (onCloud (onSide f)) (\<lambda>_ c. n \<notin> vw_stacks (sideView v) c)"
  using assms by (simp add: spec_def removesOwn_confined removesOwn_stacks[OF assms])

lemma spec_removes_check:
  assumes "\<And>c. removesOwn v own c (snd (f c))"
  shows "spec (sideView v) own (\<lambda>c. n \<notin> vw_stacks (sideView v) c) (echeck (onCloud (onSide f))) (\<lambda>_ c. n \<notin> vw_stacks (sideView v) c)"
  using assms by (simp add: spec_def removesOwn_confined removesOwn_stacks[OF assms])

section \<open>EKS\<close>

lemma eks_stacks_own: "eks_networkStackName p \<in> stacksOfRun (ek_RunID p)" "eks_pairStackName p t \<in> stacksOfRun (ek_RunID p)"
  by (auto simp: eks_networkStackName_def eks_pairStackName_def)

lemma spec_mustOutput: "spec v own P (mustOutput outs key) (\<lambda>_. P)"
  by (rule spec_local) simp

interpretation eks: cloud_provider "pulumiLaws pl v" "sideView v" "stacksOfRun (ek_RunID p)" "eks_pairStackName p" "EKS_Provider pl k cli p"
  for pl :: "'c Pulumi" and v and k and cli :: "('c, 'm, 'd, 'r) ksystem CloudCLI" and p
proof (unfold_locales, unfold EKS_Provider_def Provider.simps)
  assume laws: "pulumiLaws pl v"
  note up = upStack_spec[OF sidePulumi_laws[OF laws] eks_stacks_own(1)] upStack_spec[OF sidePulumi_laws[OF laws] eks_stacks_own(2)]
  show "spec (sideView v) (stacksOfRun (ek_RunID p)) (\<lambda>_. True) (eks_SetupNetworking pl k p) (\<lambda>_ _. True)"
    unfolding eks_SetupNetworking_def Let_def
    by (cases "ek_AZ p = []") (simp_all add: spec_efail spec_then[OF up(1)] spec_then[OF spec_mustOutput] spec_then[OF useKubeconfig_spec] spec_done)
  show "spec (sideView v) (stacksOfRun (ek_RunID p)) (\<lambda>_. True) (eks_CreatePair pl k p opts) (\<lambda>out _. pt_StackName out = eks_pairStackName p (po_InstanceType opts))" for opts
    unfolding eks_CreatePair_def Let_def by (rule spec_then[OF up(2) deployPods_spec])
  show "destroysStack (sideView v) (stacksOfRun (ek_RunID p)) (eks_pairStackName p t) (eks_DestroyPair pl k p t)" for t
    unfolding eks_DestroyPair_def by (rule destroyPair_spec[OF laws eks_stacks_own(2) spec_eret])
  show "confined (sideView v) (stacksOfRun (ek_RunID p)) (y_cloud s) (y_cloud (snd (eks_TeardownNetworking pl p s)))" for s
    unfolding eks_TeardownNetworking_def by (rule destroysStack_confined[OF teardownStack_spec[OF sidePulumi_laws[OF laws] eks_stacks_own(1)]])
qed

section \<open>GKE\<close>

lemma gke_stacks_own: "gke_networkStackName p \<in> stacksOfRun (gk_RunID p)" "gke_pairStackName p t \<in> stacksOfRun (gk_RunID p)"
  by (auto simp: gke_networkStackName_def gke_pairStackName_def)

definition gke_tool :: "string list" where "gke_tool = [''gcloud'', ''container'', ''node-pools'']"

lemma gke_tool_args: "[''gcloud'', ''container'', ''node-pools'', x] @ xs = gke_tool @ x # xs"
    "[''gcloud'', ''container'', ''node-pools'', x, y] @ xs = gke_tool @ x # y # xs"
  by (simp_all add: gke_tool_def)

lemma gke_deletePools_removes: "poolLaw v own gke_tool run \<Longrightarrow> removesOwn v own c (snd (gke_deletePools run p cl pools c))"
proof (induction pools arbitrary: c)
  case (Cons pool pools)
  let ?args = "''delete'' # pool # gke_poolArgs p cl @ [''--quiet'', ''--async'']"
  obtain out e c1 where r: "run (gke_tool @ ?args) c = ((out, e), c1)" by (metis prod.collapse)
  with Cons.prems have first: "removesOwn v own c c1" unfolding poolLaw_def by (metis snd_conv)
  show ?case using Cons.IH[OF Cons.prems] removesOwn_trans[OF first] first
    by (simp only: gke_deletePools.simps gke_tool_args r prod.case split: if_split option.split) simp
qed simp

lemma cleanupNodePools_spec:
  assumes "poolLaw v own gke_tool out" and "poolLaw v own gke_tool run"
  shows "spec (sideView v) own (\<lambda>c. n \<notin> vw_stacks (sideView v) c) (cleanupNodePools out run p safeType) (\<lambda>_ c. n \<notin> vw_stacks (sideView v) c)"
proof -
  have main: "spec (sideView v) own (\<lambda>c. n \<notin> vw_stacks (sideView v) c) (if cl = [] then eret () else
     ebind (ewrap g (onCloud (onSide (out (gke_tool @ args))))) (\<lambda>names. echeck (onCloud (onSide (gke_deletePools run p cl (f names))))))
     (\<lambda>_ c. n \<notin> vw_stacks (sideView v) c)" for cl g args f
    using assms gke_deletePools_removes[OF assms(2)] by (cases "cl = []")
      (auto intro!: spec_eret spec_ebind[OF spec_ewrap[OF spec_removes]] spec_removes_check simp: poolLaw_def simp del: sideView_simps)
  show ?thesis unfolding cleanupNodePools_def gke_tool_args by (rule spec_ebind[OF spec_local], simp, rule main)
qed

interpretation gke: cloud_provider "pulumiLaws pl v \<and> poolLaw v (stacksOfRun (gk_RunID p)) gke_tool out \<and> poolLaw v (stacksOfRun (gk_RunID p)) gke_tool run"
    "sideView v" "stacksOfRun (gk_RunID p)" "gke_pairStackName p" "GKE_Provider pl k out run cli p"
  for pl :: "'c Pulumi" and v and k and out and run and cli :: "('c, 'm, 'd, 'r) ksystem CloudCLI" and p
proof (unfold_locales, unfold GKE_Provider_def Provider.simps)
  assume "pulumiLaws pl v \<and> poolLaw v (stacksOfRun (gk_RunID p)) gke_tool out \<and> poolLaw v (stacksOfRun (gk_RunID p)) gke_tool run"
  then have laws: "pulumiLaws pl v" and pools: "poolLaw v (stacksOfRun (gk_RunID p)) gke_tool out" "poolLaw v (stacksOfRun (gk_RunID p)) gke_tool run" by simp_all
  note up = upStack_spec[OF sidePulumi_laws[OF laws] gke_stacks_own(1)] upStack_spec[OF sidePulumi_laws[OF laws] gke_stacks_own(2)]
  show "spec (sideView v) (stacksOfRun (gk_RunID p)) (\<lambda>_. True) (gke_SetupNetworking pl k p) (\<lambda>_ _. True)"
    unfolding gke_SetupNetworking_def Let_def
    by (rule spec_then[OF up(1)], rule spec_then[OF spec_mustOutput], rule spec_then[OF spec_setSide], simp, rule spec_then[OF useKubeconfig_spec spec_done])
  show "spec (sideView v) (stacksOfRun (gk_RunID p)) (\<lambda>_. True) (gke_CreatePair pl k p opts) (\<lambda>out _. pt_StackName out = gke_pairStackName p (po_InstanceType opts))" for opts
    unfolding gke_CreatePair_def Let_def by (rule spec_then[OF up(2) deployPods_spec])
  show "destroysStack (sideView v) (stacksOfRun (gk_RunID p)) (gke_pairStackName p t) (gke_DestroyPair pl k out run p t)" for t
    unfolding gke_DestroyPair_def by (rule destroyPair_spec[OF laws gke_stacks_own(2) cleanupNodePools_spec[OF pools]])
  show "confined (sideView v) (stacksOfRun (gk_RunID p)) (y_cloud s) (y_cloud (snd (gke_TeardownNetworking pl p s)))" for s
    unfolding gke_TeardownNetworking_def by (rule destroysStack_confined[OF teardownStack_spec[OF sidePulumi_laws[OF laws] gke_stacks_own(1)]])
qed

section \<open>AKS\<close>

lemma aks_stacks_own: "aks_networkStackName p \<in> stacksOfRun (ak_RunID p)" "aks_pairStackName p t \<in> stacksOfRun (ak_RunID p)"
  by (auto simp: aks_networkStackName_def aks_pairStackName_def)

definition aks_tool :: "string list" where "aks_tool = [''az'', ''aks'', ''nodepool'']"

lemma aks_tool_args: "[''az'', ''aks'', ''nodepool'', x] @ xs = aks_tool @ x # xs"
  by (simp add: aks_tool_def)

lemma aks_deletePool_removes:
  assumes "poolLaw v own aks_tool run"
  shows "removesOwn v own c (snd (aks_deletePool run p cl c))"
proof -
  let ?show = "''show'' # aks_poolArgs p cl @ [''--query'', ''provisioningState'', ''-o'', ''tsv'']"
  let ?delete = "''delete'' # aks_poolArgs p cl @ [''--no-wait'']"
  have law: "removesOwn v own c (snd (run (aks_tool @ args) c))" for args c using assms by (simp add: poolLaw_def)
  obtain out e c1 where r1: "run (aks_tool @ ?show) c = ((out, e), c1)" by (metis prod.collapse)
  obtain out2 e2 c2 where r2: "run (aks_tool @ ?delete) c1 = ((out2, e2), c2)" by (metis prod.collapse)
  have "removesOwn v own c c1" "removesOwn v own c c2"
    using law[where args="?show" and c=c] law[where args="?delete" and c=c1] removesOwn_trans unfolding r1 r2 by auto
  then show ?thesis
    unfolding aks_deletePool_def aks_tool_args r1 by (cases e; cases e2) (simp_all add: r2 Let_def)
qed

lemma cleanupNodePool_spec:
  assumes "poolLaw v own aks_tool run"
  shows "spec (sideView v) own (\<lambda>c. n \<notin> vw_stacks (sideView v) c) (cleanupNodePool run p) (\<lambda>_ c. n \<notin> vw_stacks (sideView v) c)"
proof -
  have main: "spec (sideView v) own (\<lambda>c. n \<notin> vw_stacks (sideView v) c) (if cl = [] then eret () else echeck (onCloud (onSide (aks_deletePool run p cl))))
     (\<lambda>_ c. n \<notin> vw_stacks (sideView v) c)" for cl
    using spec_removes_check[OF aks_deletePool_removes[OF assms]] by (auto intro: spec_eret)
  show ?thesis unfolding cleanupNodePool_def by (rule spec_ebind[OF spec_local], simp, rule main)
qed

interpretation aks: cloud_provider "pulumiLaws pl v \<and> poolLaw v (stacksOfRun (ak_RunID p)) aks_tool run"
    "sideView v" "stacksOfRun (ak_RunID p)" "aks_pairStackName p" "AKS_Provider pl k run cli unmarshal cache p"
  for pl :: "'c Pulumi" and v and k and run and cli :: "('c, 'm, 'd, 'r) ksystem CloudCLI" and unmarshal and cache and p
proof (unfold_locales, unfold AKS_Provider_def Provider.simps)
  assume "pulumiLaws pl v \<and> poolLaw v (stacksOfRun (ak_RunID p)) aks_tool run"
  then have laws: "pulumiLaws pl v" and pools: "poolLaw v (stacksOfRun (ak_RunID p)) aks_tool run" by simp_all
  note up = upStack_spec[OF sidePulumi_laws[OF laws] aks_stacks_own(1)] upStack_spec[OF sidePulumi_laws[OF laws] aks_stacks_own(2)]
  show "spec (sideView v) (stacksOfRun (ak_RunID p)) (\<lambda>_. True) (aks_SetupNetworking pl k p) (\<lambda>_ _. True)"
    unfolding aks_SetupNetworking_def Let_def
    by (rule spec_then[OF up(1)], rule spec_then[OF spec_mustOutput], rule spec_then[OF spec_setSide], simp, rule spec_then[OF useKubeconfig_spec spec_done])
  show "spec (sideView v) (stacksOfRun (ak_RunID p)) (\<lambda>_. True) (aks_CreatePair pl k p opts) (\<lambda>out _. pt_StackName out = aks_pairStackName p (po_InstanceType opts))" for opts
    unfolding aks_CreatePair_def Let_def by (rule spec_then[OF spec_local], simp, rule spec_then[OF up(2) deployPods_spec])
  show "destroysStack (sideView v) (stacksOfRun (ak_RunID p)) (aks_pairStackName p t) (aks_DestroyPair pl k run p t)" for t
    unfolding aks_DestroyPair_def by (rule destroyPair_spec[OF laws aks_stacks_own(2) cleanupNodePool_spec[OF pools]])
  show "confined (sideView v) (stacksOfRun (ak_RunID p)) (y_cloud s) (y_cloud (snd (aks_TeardownNetworking pl p s)))" for s
    unfolding aks_TeardownNetworking_def by (rule destroysStack_confined[OF teardownStack_spec[OF sidePulumi_laws[OF laws] aks_stacks_own(1)]])
qed

section \<open>What a run can rely on\<close>


text \<open>The backend of the machine providers, whose updates report what the provider asks for; no command removes anything.\<close>

definition clusterPulumi :: "(string list \<times> string list) Pulumi" where
  "clusterPulumi = examplePulumi\<lparr>pl_Up := (\<lambda>n program refresh (stacks, live).
     (Inr [(''clusterName'', PStr ''cluster''), (''nodeRoleArn'', PStr ''arn''), (''subnetId'', PStr ''subnet'')], (stacks, n # live)))\<rparr>"

lemma clusterPulumi_laws: "pulumiLaws clusterPulumi exampleView"
  unfolding pulumiLaws_def selectLaw_def upsertLaw_def configLaw_def upLaw_def destroyLaw_def removeLaw_def keeps_def clusterPulumi_def examplePulumi_def exampleView_def
  by (auto split: prod.splits)

definition exampleEKS :: EKSProvider where
  "exampleEKS = \<lparr>ek_Region = ''us-east-1'', ek_AZ = ''us-east-1a'', ek_StateDir = ''state'', ek_RunID = ''tb_2025-01-02_abcdef'', ek_ExpiresAt = []\<rparr>"

definition exampleGKE :: GKEProvider where
  "exampleGKE = \<lparr>gk_Project = ''p'', gk_Zone = ''us-central1-a'', gk_StateDir = ''state'', gk_RunID = ''tb_2025-01-02_abcdef'', gk_ExpiresAt = []\<rparr>"

definition exampleAKS :: AKSProvider where
  "exampleAKS = \<lparr>ak_Location = ''eastus'', ak_ResourceGroup = ''rg'', ak_StateDir = ''state'', ak_RunID = ''tb_2025-01-02_abcdef'', ak_ExpiresAt = []\<rparr>"

type_synonym exampleSystem = "(string list \<times> string list, unit, string, unit) ksystem"

definition clusterStart :: exampleSystem where
  "clusterStart = \<lparr>y_cloud = \<lparr>sd_cloud = ([''tailbench-eks-cluster-123456''], [''tailbench-eks-cluster-123456'']), sd_kubeconfig = [], sd_clusterName = [], sd_operatorFQDN = []\<rparr>,
     y_machines = (), y_disk = \<lparr>w_fs = (\<lambda>_. Some Dir), w_fault = (\<lambda>_. None), w_calls = 0, w_rand = id, w_draws = 0, w_clock = int, w_ticks = 0\<rparr>, y_store = ()\<rparr>"

definition clusterEnd :: exampleSystem where
  "clusterEnd = fold (runCall (EKS_Provider clusterPulumi (exampleTools (\<lambda>_. None)) exampleCLI exampleEKS))
     [CallSetup, CallCreate examplePair, CallDestroy ''c7i.large'', CallTeardown] clusterStart"


end
