(* ===== verification/Operator_Props.thy ===== *)
theory Operator_Props
  imports Cluster_Props Orch_Theorems Cmd_Run
begin

text \<open>
  Where the OAuth client secret of the operator goes when helm fails: the error of the command holds the command
  line, the orchestrator wraps it, and the result of the execution stores it in the manifest of the run. The
  writers of the logs redact what they are given, the manifest is not redacted.
\<close>

section \<open>The error of the installation\<close>

lemma errors_Join_text:
  assumes "Some x \<in> set eos"
  shows "\<exists>e. errors_Join eos = Some e \<and> Contains (error_text e) (error_text x)"
proof -
  have mem: "x \<in> set (List.map_filter id eos)" using assms by (simp add: set_map_filter_id)
  then obtain y ys where split: "List.map_filter id eos = y # ys" by (cases "List.map_filter id eos") auto
  have "Contains (error_text (Joined (y # ys))) (error_text x)"
    using mem Contains_JoinStr[of "error_text x" "map error_text (y # ys)" "error_text x"] Contains_refl unfolding split by auto
  then show ?thesis by (simp only: errors_Join_def split list.case) simp
qed

lemma Contains_trans: "Contains a b \<Longrightarrow> Contains b c \<Longrightarrow> Contains a c"
  unfolding Contains_iff by (metis append.assoc)

lemma wrap_text: "Contains (error_text e) x \<Longrightarrow> Contains (error_text (Wrapf a e b)) x"
  by (auto intro: Contains_append)

lemma runCommands_text:
  "runCommands sh cmds s = (Some e, s1) \<Longrightarrow> \<exists>cmd \<in> set cmds. \<exists>t. error_text e = hd cmd @ '': '' @ JoinStr '' '' cmd @ '': '' @ t
     \<and> (\<forall>w \<in> set cmd. \<forall>x. Contains w x \<longrightarrow> Contains (error_text e) x)"
proof (induction cmds arbitrary: s)
  case (Cons cmd cmds)
  obtain out r s2 where run: "ku_run sh cmd s = ((out, r), s2)" by (metis prod.collapse)
  show ?case
  proof (cases r)
    case None
    then have "runCmd sh cmd s = (None, s2)" by (simp add: runCmd_def run)
    with Cons show ?thesis by auto
  next
    case (Some err)
    then have "runCmd sh cmd s = (Some (Wrapf (JoinStr '' '' cmd @ '': '' @ out @ '': '') err []), s2)" by (simp add: runCmd_def run)
    with Cons.prems have e: "e = Wrapf (hd cmd @ '': '') (Wrapf (JoinStr '' '' cmd @ '': '' @ out @ '': '') err []) []" by simp
    have "Contains (error_text e) x" if "w \<in> set cmd" "Contains w x" for w x
      unfolding e by (rule wrap_text) (simp, intro Contains_append Contains_JoinStr[OF that])
    then show ?thesis by (auto simp: e)
  qed
qed simp

text \<open>When the error of an installation is the one of the upgrade, it shows the secret.\<close>

lemma helm_text:
  assumes "helmInstallOperator k kubeconfig cfg s = (Some e, s1)" and "HasPrefix (error_text e) ''helm: helm upgrade''"
  shows "Contains (error_text e) (op_OAuthClientSecret cfg)"
proof -
  obtain t s2 where now: "ev_now (kn_Env k) s = (t, s2)" by fastforce
  obtain r s3 where wrote: "ku_WriteFile (kn_Shell k) (kubeconfigFile t) (kubeconfigBytes k kubeconfig) s2 = (r, s3)" by fastforce
  have "r = None" using assms by (cases r) (auto simp: helmInstallOperator_def now wrote)
  with assms(1) have run: "runCommands (kn_Shell k) (helmCommands (kubeconfigFile t) cfg) s3 = (Some e, s1)"
    by (simp add: helmInstallOperator_def now wrote)
  from runCommands_text[OF this] obtain cmd u where cmd: "cmd \<in> set (helmCommands (kubeconfigFile t) cfg)"
    and msg: "error_text e = hd cmd @ '': '' @ JoinStr '' '' cmd @ '': '' @ u" and all: "\<And>w x. w \<in> set cmd \<Longrightarrow> Contains w x \<Longrightarrow> Contains (error_text e) x"
    by blast
  have "cmd = helmUpgrade (kubeconfigFile t) cfg"
    using cmd assms(2) unfolding msg by (auto simp: helmCommands_def)
  then show ?thesis using all helmUpgrade_secret by blast
qed

lemma InstallOperator_text:
  assumes "InstallOperator k kubeconfig cfg s = (Some e, s1)" and "HasPrefix (error_text e) ''helm install: helm: helm upgrade''"
  shows "Contains (error_text e) (op_OAuthClientSecret cfg)"
proof -
  obtain h s2 s3 where "helmInstallOperator k kubeconfig cfg s2 = (Some h, s3)" and e: "e = Wrapf ''helm install: '' h []"
    using assms by (auto simp: InstallOperator_def operatorNamespaceReady_def split: sum.splits prod.splits if_splits option.splits)
  then show ?thesis using helm_text[of k kubeconfig cfg s2 h s3] assms(2) wrap_text by simp
qed

section \<open>From the provider to the manifest\<close>

definition installRequest :: "Config \<Rightarrow> string \<Rightarrow> string \<Rightarrow> OperatorInstallConfig" where
  "installRequest cfg name tailnetDNS = \<lparr>oi_OAuthClientID = c_OAuthClientID cfg, oi_OAuthClientSecret = c_OAuthClientSecret cfg,
     oi_Hostname = operatorHostname name (c_RunID cfg), oi_Tag = c_Tag cfg, oi_TailnetDNS = tailnetDNS, oi_ForceReinstall = c_CleanupNetworking cfg\<rparr>"

lemma installOperatorOn_error:
  assumes "InstallOperator k (sd_kubeconfig (y_cloud s)) (operatorConfig host req) (y_machines s) = (Some err, m)"
  shows "installOperatorOn k host req s = (Inl err, s\<lparr>y_machines := m\<rparr>)"
  using assms by (simp add: installOperatorOn_def ebind_def sideField_def echeck_def onMachines_def)

lemma cluster_install_error:
  assumes p: "p \<in> {EKS_Provider pl k cli e, GKE_Provider pl k out run cli g, AKS_Provider pl k run cli unmarshal cache a}"
    and failed: "InstallOperator k (sd_kubeconfig (y_cloud s)) (operatorConfig (operatorHost (pv_Name p) req) req) (y_machines s) = (Some err, m)"
  shows "\<exists>install. pv_InstallOperator p = Some install \<and> install req s = (Some err, s\<lparr>y_machines := m\<rparr>)"
  using p
proof (elim insertE emptyE)
  assume p: "p = EKS_Provider pl k cli e"
  show ?thesis using installOperatorOn_error[OF failed] by (simp add: p EKS_Provider_def eks_InstallOperator_def installAndWait_def eerr_def ebind_def Let_def)
next
  assume p: "p = GKE_Provider pl k out run cli g"
  show ?thesis using installOperatorOn_error[OF failed] by (simp add: p GKE_Provider_def gke_InstallOperator_def eerr_def ebind_def Let_def)
next
  assume p: "p = AKS_Provider pl k run cli unmarshal cache a"
  show ?thesis using installOperatorOn_error[OF failed] by (simp add: p AKS_Provider_def aks_InstallOperator_def installAndWait_def eerr_def ebind_def Let_def)
qed

lemma deployWorkload_text:
  assumes "Some x \<in> set es"
  shows "\<exists>e. fst (deployWorkload mx cfg kubeconfig es m) = Some e \<and> Contains (error_text e) (error_text x)"
  unfolding deployWorkload_def Let_def
  by (auto simp: assms intro!: errors_Join_text split: prod.split option.split)

lemma setupK8s_text:
  assumes "mx_K8sBuild mx" and "pv_InstallOperator p = Some install" and "install (installRequest cfg (pv_Name p) dns) s = (Some err, s1)"
  shows "\<exists>e. fst (setupK8s mx cfg dns p net s) = Some e \<and> Contains (error_text e) (error_text err)"
proof -
  let ?x = "Wrapf ''install Tailscale operator: '' err []"
  have run: "setupK8s mx cfg dns p net s = (case map_of (no_Values net) ''kubeconfig'' of
         None \<Rightarrow> (errors_Join ([Some ?x] @ [Some (ErrText ''provider networking did not return a kubeconfig'')]), s1)
       | Some kubeconfig \<Rightarrow> if kubeconfig = [] then (errors_Join ([Some ?x] @ [Some (ErrText ''provider networking did not return a kubeconfig'')]), s1)
           else onMachines (deployWorkload mx cfg kubeconfig [Some ?x]) s1)"
    using assms by (simp add: setupK8s_def installRequest_def wrapIfError_def Let_def split: option.split)
  have direct: "\<exists>e. errors_Join (Some ?x # es) = Some e \<and> Contains (error_text e) (error_text ?x)" for es
    by (rule errors_Join_text) simp
  have workload: "\<exists>e. fst (onMachines (deployWorkload mx cfg kubeconfig [Some ?x]) s1) = Some e \<and> Contains (error_text e) (error_text ?x)" for kubeconfig
    using deployWorkload_text[of ?x "[Some ?x]" mx cfg kubeconfig "y_machines s1"]
    by (cases "deployWorkload mx cfg kubeconfig [Some ?x] (y_machines s1)") (simp only: onMachines_def prod.case fst_conv list.set insertI1 simp_thms)
  have "\<exists>e. fst (setupK8s mx cfg dns p net s) = Some e \<and> Contains (error_text e) (error_text ?x)"
    unfolding run using direct workload by (simp only: append.simps fst_conv split: option.split if_split) blast
  then show ?thesis unfolding error_text.simps using Contains_sub by blast
qed

text \<open>A failed setup is recorded as the benchmark failure of the run.\<close>

lemma measureInstance_setup_failed:
  assumes name: "isK8sProvider (pv_Name p)" and first: "\<not> pr_k8sSetupComplete v"
    and failed: "setupK8s (or_machines orch) (or_cfg orch) (or_tailnetDNS orch) p net (pr_sys v) = (Some e, s1)"
  shows "pr_Outcome (snd (run_state (measureInstance orch p net pair inst family names) v)) = (pr_Outcome v)\<lparr>oc_BenchmarkErr :=
    errors_Join [oc_BenchmarkErr (pr_Outcome v), Some (Wrapf (''benchmark '' @ ii_Type inst @ '': '') (Wrapf ''setup kubernetes workload: '' e []) [])]\<rparr>"
  using assms by (cases names)
    (simp add: measureInstance_def vars_def act_def upd_def updOutcome_def recordBenchmarkFailure_def wrapIfError_def)

lemma executionResult_failure:
  assumes "oc_BenchmarkErr oc = Some e"
  shows "\<exists>f \<in> set (m_Failures (applyExecutionResult man (executionResult parseTime policy expires oc) t)). f_Code f = ''run-failure'' \<and> f_Message f = error_text e"
proof -
  let ?f = "zeroFailure\<lparr>f_Code := ''run-failure'', f_Stage := ''run'', f_Class := class_text (Classify ''benchmark'' (Some e)), f_Message := error_text e\<rparr>"
  let ?x = "executionResult parseTime policy expires oc"
  have fold: "m_Failures (fold upsertManifestResource rs m) = m_Failures m" for rs m
    by (induction rs arbitrary: m) (simp_all add: upsertManifestResource_def)
  have "set (stampFailures t (x_Failures ?x)) \<subseteq> set (m_Failures (applyExecutionResult man ?x t))"
    by (simp add: applyExecutionResult_def Let_def split: prod.split option.split)
  moreover have "?f \<in> set (x_Failures ?x)"
    using assms by (simp add: executionResult_def Let_def)
  moreover have "\<exists>f' \<in> set (stampFailures t fs). f_Code f' = f_Code f \<and> f_Message f' = f_Message f" if "f \<in> set fs" for f fs
    unfolding stampFailures_def set_map by (rule bexI[OF _ imageI[OF that]]) simp
  ultimately show ?thesis by fastforce
qed

text \<open>
  C38: when helm fails to install the operator, the OAuth client secret ends up in the manifest of the run. The
  first pair of a cluster is measured, the installation returns an error, and this error is the one of the
  upgrade: then the benchmark failure stored by the result of the execution has the secret in its message.
  (Only the writers of the logs and of the diagnostics redact.)
\<close>

theorem helm_failure_leaks_secret:
  assumes p: "p \<in> {EKS_Provider pl k cli e, GKE_Provider pl k out run cli g, AKS_Provider pl k run cli unmarshal cache a}"
    and build: "mx_K8sBuild (or_machines orch)" and first: "\<not> pr_k8sSetupComplete v"
    and failed: "InstallOperator k (sd_kubeconfig (y_cloud (pr_sys v)))
        (operatorConfig (operatorHost (pv_Name p) req) req) (y_machines (pr_sys v)) = (Some err, m)"
      "req = installRequest (or_cfg orch) (pv_Name p) (or_tailnetDNS orch)"
    and upgrade: "HasPrefix (error_text err) ''helm install: helm: helm upgrade''"
  shows "\<exists>f \<in> set (m_Failures (applyExecutionResult man (executionResult parseTime policy expires
      (pr_Outcome (snd (run_state (measureInstance orch p net pair inst family names) v)))) t)).
    f_Code f = ''run-failure'' \<and> Contains (f_Message f) (c_OAuthClientSecret (or_cfg orch))"
proof -
  have secret: "Contains (error_text err) (c_OAuthClientSecret (or_cfg orch))"
    using InstallOperator_text[OF failed(1) upgrade] by (simp add: operatorConfig_def failed(2) installRequest_def)
  have name: "isK8sProvider (pv_Name p)"
    using p by (elim insertE emptyE) (simp_all add: EKS_Provider_def GKE_Provider_def AKS_Provider_def isK8sProvider_def)
  obtain install where install: "pv_InstallOperator p = Some install" "install req (pr_sys v) = (Some err, (pr_sys v)\<lparr>y_machines := m\<rparr>)"
    using cluster_install_error[OF p failed(1)] by blast
  obtain e1 s1 where setup': "setupK8s (or_machines orch) (or_cfg orch) (or_tailnetDNS orch) p net (pr_sys v) = (Some e1, s1)"
    and e1: "Contains (error_text e1) (error_text err)"
    using setupK8s_text[OF build install(1) install(2)[unfolded failed(2)], of net] by (metis prod.collapse)
  let ?x = "Wrapf (''benchmark '' @ ii_Type inst @ '': '') (Wrapf ''setup kubernetes workload: '' e1 []) []"
  obtain b where b: "errors_Join [oc_BenchmarkErr (pr_Outcome v), Some ?x] = Some b" "Contains (error_text b) (error_text ?x)"
    using errors_Join_text[of ?x "[oc_BenchmarkErr (pr_Outcome v), Some ?x]"] by (auto simp del: error_text.simps)
  have "Contains (error_text ?x) (c_OAuthClientSecret (or_cfg orch))"
    by (intro wrap_text) (rule Contains_trans[OF e1 secret])
  then have leak: "Contains (error_text b) (c_OAuthClientSecret (or_cfg orch))"
    by (rule Contains_trans[OF b(2)])
  have "oc_BenchmarkErr (pr_Outcome (snd (run_state (measureInstance orch p net pair inst family names) v))) = Some b"
    using b(1) by (simp add: measureInstance_setup_failed[OF name first setup'])
  from executionResult_failure[OF this] leak show ?thesis by metis
qed

text \<open>An installation whose upgrade fails after all that comes before it went well.\<close>

definition upgradeFails :: "string list \<Rightarrow> go_error option" where
  "upgradeFails args = (if hd (tl args) = ''upgrade'' then Some (ErrText ''exit status 1'') else None)"

lemma example_runCmd: "runCmd (exampleShell upgradeFails) args s = (case upgradeFails args of
    Some e \<Rightarrow> (Some (Wrapf (JoinStr '' '' args @ '': '' @ [] @ '': '') e []), s) | None \<Rightarrow> (None, s))"
  by (simp add: runCmd_def exampleShell_def split: option.split)

lemma example_helm_error: "InstallOperator (exampleTools upgradeFails) kubeconfig (cfg\<lparr>op_ForceReinstall := True\<rparr>) s =
    (Some (Wrapf ''helm install: '' (Wrapf ''helm: '' (Wrapf (JoinStr '' '' (helmUpgrade (kubeconfigFile 0) cfg) @ '': '' @ [] @ '': '') (ErrText ''exit status 1'') []) []) []), s)"
proof -
  let ?cfg = "cfg\<lparr>op_ForceReinstall := True\<rparr>"
  have same: "helmUpgrade f ?cfg = helmUpgrade f cfg" for f
    by (simp only: helmUpgrade_def OperatorConfig.simps) simp
  have upgrade: "upgradeFails (helmUpgrade f cfg) = Some (ErrText ''exit status 1'')" for f
    by (simp only: upgradeFails_def helmUpgrade_def list.sel simp_thms if_True)
  have "upgradeFails [''helm'', ''repo'', ''add'', ''tailscale'', OperatorChartRepo, ''--force-update''] = None"
    "upgradeFails [''helm'', ''repo'', ''update'', ''tailscale''] = None" by (simp_all add: upgradeFails_def)
  then have cmds: "runCommands (exampleShell upgradeFails) (helmCommands f ?cfg) s =
      (Some (Wrapf ''helm: '' (Wrapf (JoinStr '' '' (helmUpgrade f cfg) @ '': '' @ [] @ '': '') (ErrText ''exit status 1'') []) []), s)" for f s
    by (subst runCommands_upgrade[of _ s s s]) (simp_all only: example_runCmd option.case prod.case same upgrade)
  have tools: "kn_Shell (exampleTools f) = exampleShell f" "kn_Env (exampleTools f) = exampleTime" "ku_WriteFile (exampleShell f) p x s = (None, s)"
    "ClientsetFromKubeconfig (exampleTools f) kc = Inr \<lparr>cu_Kube = readyKube, cu_Admin = quietAdmin\<rparr>" "ev_now exampleTime s = (0, s)" for f p x s kc
    by (simp_all add: exampleTools_def exampleShell_def exampleTime_def ClientsetFromKubeconfig_def)
  have "helmInstallOperator (exampleTools upgradeFails) kubeconfig ?cfg s =
      (Some (Wrapf ''helm: '' (Wrapf (JoinStr '' '' (helmUpgrade (kubeconfigFile 0) cfg) @ '': '' @ [] @ '': '') (ErrText ''exit status 1'') []) []), s)" for s
    by (simp only: helmInstallOperator_def tools cmds prod.case option.case)
  moreover have "operatorNamespaceReady readyKube s = (None, s)" "createOperatorRBAC quietAdmin tag s = (None, s)" for s tag
    by (simp_all add: operatorNamespaceReady_def createOperatorRBAC_def readyKube_def quietAdmin_def)
  ultimately show ?thesis by (simp add: InstallOperator_def tools)
qed

definition leakConfig :: Config where
  "leakConfig = demoConfig\<lparr>c_OAuthClientSecret := ''tskey-client-secret''\<rparr>"

definition leakOrchestrator :: "((string list \<times> string list) clusterSide, unit, string, unit) Orchestrator" where
  "leakOrchestrator = \<lparr>or_cfg = leakConfig, or_providers = [],
     or_tailnet = \<lparr>tm_CreateTailnet = (\<lambda>_ s. (Inl (Sentinel EOF), s)), tm_DeleteTailnet = (\<lambda>_ s. (None, s)), tm_SetupACL = (\<lambda>_ _ _ _ s. (None, s)),
       tm_EnableHTTPS = (\<lambda>_ _ s. (None, s)), tm_CreateAuthKey = (\<lambda>_ _ s. (Inr ''key'', s)), tm_CleanupStaleDevices = (\<lambda>_ _ _ s. (Inr 0, s))\<rparr>,
     or_tailnetDNS = ''tail.ts.net'', or_recorder = None, or_machines = demoMachines\<lparr>mx_K8sBuild := True\<rparr>,
     or_codec = \<lparr>cd_Result = (\<lambda>_. []), cd_Instances = (\<lambda>_. []), cd_decodeInstances = (\<lambda>_. Inl (Sentinel EOF)), cd_Tailnet = (\<lambda>_. []),
       cd_decodeTailnet = (\<lambda>_. Inl (Sentinel EOF)), cd_Walk = (\<lambda>_. ret []), cd_Order = id, cd_Aggregate = (\<lambda>_. []), cd_Prices = emptyDataset\<rparr>,
     or_Render = (\<lambda>_. Inr []), or_Compile = (\<lambda>_. Inl (Sentinel EOF)), or_tsnetUp = (\<lambda>_ _ s. (None, s)), or_tsnetClose = (\<lambda>s. (None, s)), or_Advice = []\<rparr>"

definition leakStart :: "((string list \<times> string list) clusterSide, unit, string, unit) run" where
  "leakStart = \<lparr>pr_Outcome = \<lparr>oc_BenchmarkErr = None, oc_CleanupErr = None, oc_ResourcesChanged = False, oc_Resources = []\<rparr>, pr_skippedFamilies = [],
     pr_k8sSetupComplete = False, pr_authKey = [], pr_authKeyCreated = 0, pr_sys = clusterStart\<rparr>"

lemma upgrade_prefix: "HasPrefix (error_text (Wrapf ''helm install: '' (Wrapf ''helm: '' (Wrapf (JoinStr '' '' (helmUpgrade f cfg) @ t) e []) []) []))
    ''helm install: helm: helm upgrade''"
  by (simp add: helmUpgrade_def)

definition leakPair :: PairOutput where
  "leakPair = \<lparr>pt_ServerName = ''s'', pt_ClientName = ''c'', pt_ServerIP = [], pt_ClientIP = [], pt_ServerLANIP = [], pt_ClientLANIP = [],
     pt_StackName = [], pt_ServerInstanceID = [], pt_ClientInstanceID = [], pt_ServerENIID = [], pt_ClientENIID = [], pt_RouterName = [],
     pt_RouterIP = [], pt_RouterLANIP = [], pt_RouterInstanceID = [], pt_Namespace = Namespace, pt_Kubeconfig = []\<rparr>"

theorem helm_failure_leaks_secret_witness:
  "\<exists>f \<in> set (m_Failures (applyExecutionResult interruptedManifest (executionResult (\<lambda>_. None) ''always'' [] (pr_Outcome (snd (run_state
      (measureInstance leakOrchestrator (EKS_Provider clusterPulumi (exampleTools upgradeFails) exampleCLI exampleEKS) (po_Networking examplePair) leakPair
        demoInstance ''c7i'' ([], [], [])) leakStart)))) 1)). f_Code f = ''run-failure'' \<and> Contains (f_Message f) ''tskey-client-secret''"
proof -
  let ?p = "EKS_Provider clusterPulumi (exampleTools upgradeFails) exampleCLI exampleEKS :: exampleSystem Provider"
  let ?req = "installRequest (or_cfg leakOrchestrator) (pv_Name ?p) (or_tailnetDNS leakOrchestrator)"
  let ?cfg = "operatorConfig (operatorHost (pv_Name ?p) ?req) ?req"
  have force: "?cfg\<lparr>op_ForceReinstall := True\<rparr> = ?cfg"
    by (simp add: operatorConfig_def installRequest_def leakOrchestrator_def leakConfig_def demoConfig_def)
  note failed = example_helm_error[where cfg="?cfg", unfolded force]
  have build: "mx_K8sBuild (or_machines leakOrchestrator)" "\<not> pr_k8sSetupComplete leakStart"
    by (simp_all add: leakOrchestrator_def leakStart_def)
  have secret: "c_OAuthClientSecret (or_cfg leakOrchestrator) = ''tskey-client-secret''"
    by (simp add: leakOrchestrator_def leakConfig_def)
  show ?thesis
    by (rule helm_failure_leaks_secret[OF insertI1 build failed refl upgrade_prefix, unfolded secret])
qed

end
