(* ===== verification/Cloud_Init.thy ===== *)
theory Cloud_Init
  imports Orch_Run
begin

text \<open>
  The script that prepares a machine (internal/cloudinit): the rendering of the embedded template setup.sh.tmpl, as a
  list of lines. The template is fixed and writes to memory, so the rendering cannot fail. In the lines of the
  template a tilde, which it does not use, stands for a double quote.
\<close>

definition script :: "string list \<Rightarrow> string list" where
  "script = map (map (\<lambda>c. if c = CHR ''~'' then CHR 0x22 else c))"

definition baseLines :: "string list" where
  "baseLines = script
    [''#!/bin/bash'',
     ''set -euo pipefail'',
     ''export DEBIAN_FRONTEND=noninteractive'',
     ''export NEEDRESTART_MODE=a'',
     '''',
     ''for attempt in 1 2 3; do'',
     ''  apt-get update -qq && break || sleep 15'',
     ''done'',
     ''apt-get install -y -qq --fix-missing iperf3 mtr-tiny jq curl > /dev/null 2>&1'',
     '''',
     ''systemctl stop iperf3 2>/dev/null || true'',
     ''systemctl disable iperf3 2>/dev/null || true'',
     '''',
     ''for attempt in 1 2 3; do'',
     ''  curl -fsSL https://tailscale.com/install.sh | sh && break || sleep 5'',
     ''done'',
     '''',
     ''sysctl -w net.ipv4.ip_forward=1'',
     ''sysctl -w net.ipv6.conf.all.forwarding=1'',
     ''sysctl -w net.core.default_qdisc=fq'',
     ''sysctl -w net.ipv4.tcp_congestion_control=bbr'',
     ''sysctl -w net.core.rmem_max=67108864'',
     ''sysctl -w net.core.wmem_max=67108864'',
     ''sysctl -w net.ipv4.tcp_rmem=~4096 87380 67108864~'',
     ''sysctl -w net.ipv4.tcp_wmem=~4096 65536 67108864~'',
     '''',
     ''cpupower frequency-set -g performance 2>/dev/null || true'',
     '''',
     ''NETDEV=$(ip -o route get 8.8.8.8 | cut -f 5 -d ~ ~)'',
     ''ethtool -K ~$NETDEV~ rx-udp-gro-forwarding on rx-gro-list off 2>/dev/null || true'',
     ''ethtool -k ~$NETDEV~ | grep -E ~rx-udp-gro-forwarding|rx-gro-list~ || true'']"

definition fortioLines :: "string list" where
  "fortioLines = script
    [''# Install fortio for L7 benchmarks (non-fatal so tailscale up always runs)'',
     ''ARCH=$(dpkg --print-architecture)'',
     ''FORTIO_VERSION=~1.75.0~'',
     ''curl -fsSL ~https://github.com/fortio/fortio/releases/download/v${FORTIO_VERSION}/fortio-linux_${ARCH}-${FORTIO_VERSION}.tgz~ | tar xz --strip-components=2 -C /usr/local/bin usr/bin/fortio && chmod +x /usr/local/bin/fortio || echo ~WARN: fortio install failed, L7 benchmarks will not work~'']"

definition serveLines :: "string list" where
  "serveLines = script
    [''# Start fortio echo server and expose via tailscale serve (HTTP + HTTPS)'',
     ''if command -v fortio &>/dev/null; then'',
     ''  fortio server -http-port 8080 -redirect-port disabled &'',
     ''  sleep 2'',
     ''  tailscale serve --bg --http=80 http://localhost:8080 || echo ~WARN: tailscale serve --http failed~'',
     ''  tailscale serve --bg --https=443 http://localhost:8080 || echo ~WARN: tailscale serve --https failed~'',
     ''fi'']"

text \<open>Joining the tailnet, with the key as it is.\<close>

definition joinLines :: "CloudInit \<Rightarrow> string list" where
  "joinLines c = (if ci_AuthKey c = [] then [] else
     [''tailscale up --authkey='' @ ci_AuthKey c @ '' --hostname='' @ ci_Hostname c @ (if ci_AdvertiseExitNode c then '' --advertise-exit-node'' else [])
       @ (if ci_AdvertiseRoutes c \<noteq> [] then '' --advertise-routes='' @ ci_AdvertiseRoutes c else [])]
     @ (if ci_EnableSSH c then [''tailscale set --ssh''] else [])
     @ (if ci_RelayServerPort c \<noteq> 0 then [''tailscale set --relay-server-port='' @ string_of_int (ci_RelayServerPort c)] else []))"

definition Render :: "CloudInit \<Rightarrow> go_error + string" where
  "Render c = Inr (JoinStr [CHR 0x0A] (baseLines @ (if ci_EnableServe c then fortioLines else []) @ joinLines c
     @ (if ci_EnableServe c then serveLines else []) @ [[], ''touch /tmp/tailbench-ready'', []]))"

end
