(* ===== verification/Price_Refresh.thy ===== *)
theory Price_Refresh
  imports Runstate Result Pricing Go_Eff
begin

text \<open>
  The command pricing-refresh (cmd/pricing-refresh/main.go), which renews the price file from the public price
  lists. The AWS list is read as a stream of JSON tokens; what encoding/json delivers is a list of tokens and the
  error after the last one. Decoding a value, parsing a number and the HTTP client are arguments.
\<close>

section \<open>Streaming JSON\<close>

datatype token = ObjStart | ObjEnd | ArrStart | ArrEnd | Str string | Scalar string

type_synonym tokens = "token list"

fun nextToken :: "go_error \<Rightarrow> tokens \<Rightarrow> go_error + token \<times> tokens" where
  "nextToken eof [] = Inl eof"
| "nextToken eof (t # ts) = Inr (t, ts)"

text \<open>In the place of a key the decoder accepts a string only.\<close>

fun nextKey :: "go_error \<Rightarrow> tokens \<Rightarrow> go_error + string \<times> tokens" where
  "nextKey eof [] = Inl eof"
| "nextKey eof (Str s # ts) = Inr (s, ts)"
| "nextKey eof (_ # ts) = Inl (ErrText ''invalid character in place of an object key'')"

fun More :: "tokens \<Rightarrow> bool" where
  "More [] = False"
| "More (t # ts) = (t \<noteq> ObjEnd \<and> t \<noteq> ArrEnd)"

text \<open>The token that opens an object; the message has the error in parentheses, or nothing when the token is another one.\<close>

definition expectObject :: "go_error \<Rightarrow> string \<Rightarrow> tokens \<Rightarrow> go_error + tokens" where
  "expectObject eof what ts = (case nextToken eof ts of
     Inl e \<Rightarrow> Inl (Wrapf (what @ '' ('') e '')'')
   | Inr (t, rest) \<Rightarrow> if t = ObjStart then Inr rest else Inl (ErrText (what @ '' (<nil>)'')))"

fun skipDepth :: "go_error \<Rightarrow> nat \<Rightarrow> tokens \<Rightarrow> go_error + tokens" where
  "skipDepth eof 0 ts = Inr ts"
| "skipDepth eof (Suc d) [] = Inl eof"
| "skipDepth eof (Suc d) (t # ts) = skipDepth eof
     (if t = ObjStart \<or> t = ArrStart then Suc (Suc d) else if t = ObjEnd \<or> t = ArrEnd then d else Suc d) ts"

definition skipJSONValue :: "go_error \<Rightarrow> tokens \<Rightarrow> go_error + tokens" where
  "skipJSONValue eof ts = (case nextToken eof ts of
     Inl e \<Rightarrow> Inl e | Inr (t, rest) \<Rightarrow> if t = ObjStart \<or> t = ArrStart then skipDepth eof 1 rest else Inr rest)"

text \<open>\<^verbatim>\<open>Decode\<close> takes the tokens of one whole value.\<close>

definition decodeNext :: "go_error \<Rightarrow> (tokens \<Rightarrow> go_error + 'a) \<Rightarrow> tokens \<Rightarrow> go_error + 'a \<times> tokens" where
  "decodeNext eof decode ts = (case skipJSONValue eof ts of
     Inl e \<Rightarrow> Inl e
   | Inr rest \<Rightarrow> (case decode (take (length ts - length rest) ts) of Inl e \<Rightarrow> Inl e | Inr x \<Rightarrow> Inr (x, rest)))"

lemma skipDepth_length: "skipDepth eof d ts = Inr rest \<Longrightarrow> length rest \<le> length ts"
  by (induction eof d ts rule: skipDepth.induct) (auto split: if_splits)

lemma nextKey_length: "nextKey eof ts = Inr (s, rest) \<Longrightarrow> length rest < length ts"
  by (cases "(eof, ts)" rule: nextKey.cases) auto

lemma expectObject_length: "expectObject eof what ts = Inr rest \<Longrightarrow> length rest < length ts"
  by (cases ts) (auto simp: expectObject_def split: if_splits)

lemma skipJSONValue_length: "skipJSONValue eof ts = Inr rest \<Longrightarrow> length rest < length ts"
  by (cases ts) (auto simp: skipJSONValue_def split: if_splits dest: skipDepth_length)

lemma decodeNext_length: "decodeNext eof decode ts = Inr (x, rest) \<Longrightarrow> length rest < length ts"
  by (auto simp: decodeNext_def split: sum.splits dest: skipJSONValue_length)

lemmas stream_lengths = nextKey_length expectObject_length skipJSONValue_length decodeNext_length

section \<open>The AWS price list\<close>

record awsProduct =
  ap_InstanceType :: string
  ap_OperatingSystem :: string
  ap_Tenancy :: string
  ap_PreInstalledSw :: string
  ap_CapacityStatus :: string
  ap_RegionCode :: string

text \<open>
  What decodes the values: a product, the price texts of a term in the order the two maps are visited, and a
  number. The instance types wanted are a list.
\<close>

record bulkCodec =
  bk_Product :: "tokens \<Rightarrow> go_error + awsProduct"
  bk_Term :: "tokens \<Rightarrow> go_error + string list"
  bk_ParseFloat :: "string \<Rightarrow> real option"

definition wantedProduct :: "string \<Rightarrow> string list \<Rightarrow> awsProduct \<Rightarrow> bool" where
  "wantedProduct region wanted p \<longleftrightarrow> ap_InstanceType p \<in> set wanted \<and> ap_OperatingSystem p = ''Linux'' \<and> ap_Tenancy p = ''Shared''
     \<and> ap_PreInstalledSw p = ''NA'' \<and> ap_CapacityStatus p = ''Used'' \<and> ap_RegionCode p = region"

type_synonym skuTypes = "string \<rightharpoonup> string"
type_synonym typePrices = "string \<rightharpoonup> real"

function productsLoop :: "go_error \<Rightarrow> bulkCodec \<Rightarrow> string \<Rightarrow> string list \<Rightarrow> tokens \<Rightarrow> skuTypes \<Rightarrow> go_error + skuTypes \<times> tokens" where
  "productsLoop eof bk region wanted ts out =
    (if \<not> More ts then (case nextToken eof ts of Inl e \<Rightarrow> Inl e | Inr (_, rest) \<Rightarrow> Inr (out, rest))
     else case nextKey eof ts of Inl e \<Rightarrow> Inl e
     | Inr (sku, ts1) \<Rightarrow> (case decodeNext eof (bk_Product bk) ts1 of Inl e \<Rightarrow> Inl e
       | Inr (p, ts2) \<Rightarrow> productsLoop eof bk region wanted ts2 (if wantedProduct region wanted p then out(sku \<mapsto> ap_InstanceType p) else out)))"
  by pat_completeness auto
termination by (relation "measure (\<lambda>(eof, bk, region, wanted, ts, out). length ts)") (auto dest!: stream_lengths)

declare productsLoop.simps [simp del]

definition streamAWSProducts :: "go_error \<Rightarrow> bulkCodec \<Rightarrow> string \<Rightarrow> string list \<Rightarrow> tokens \<Rightarrow> skuTypes \<Rightarrow> go_error + skuTypes \<times> tokens" where
  "streamAWSProducts eof bk region wanted ts out = (case expectObject eof ''not an object'' ts of
     Inl e \<Rightarrow> Inl e | Inr ts1 \<Rightarrow> productsLoop eof bk region wanted ts1 out)"

text \<open>Every positive price of a term replaces the one before.\<close>

definition termPrices :: "(string \<Rightarrow> real option) \<Rightarrow> string \<Rightarrow> string list \<Rightarrow> typePrices \<Rightarrow> typePrices" where
  "termPrices parse itype usds prices = fold (\<lambda>usd prices. case parse usd of
     Some f \<Rightarrow> if 0 < f then prices(itype \<mapsto> f) else prices | None \<Rightarrow> prices) usds prices"

function onDemandLoop :: "go_error \<Rightarrow> bulkCodec \<Rightarrow> skuTypes \<Rightarrow> tokens \<Rightarrow> typePrices \<Rightarrow> go_error + typePrices \<times> tokens" where
  "onDemandLoop eof bk skus ts prices =
    (if \<not> More ts then (case nextToken eof ts of Inl e \<Rightarrow> Inl e | Inr (_, rest) \<Rightarrow> Inr (prices, rest))
     else case nextKey eof ts of Inl e \<Rightarrow> Inl e
     | Inr (sku, ts1) \<Rightarrow> (case decodeNext eof (bk_Term bk) ts1 of Inl e \<Rightarrow> Inl e
       | Inr (usds, ts2) \<Rightarrow> onDemandLoop eof bk skus ts2
           (case skus sku of None \<Rightarrow> prices | Some itype \<Rightarrow> termPrices (bk_ParseFloat bk) itype usds prices)))"
  by pat_completeness auto
termination by (relation "measure (\<lambda>(eof, bk, skus, ts, prices). length ts)") (auto dest!: stream_lengths)

declare onDemandLoop.simps [simp del]

lemma nextToken_length: "nextToken eof ts = Inr (t, rest) \<Longrightarrow> length rest < length ts"
  by (cases ts) auto

lemma productsLoop_length: "productsLoop eof bk region wanted ts out = Inr (out', rest) \<Longrightarrow> length rest < length ts"
proof (induction "length ts" arbitrary: ts out rule: less_induct)
  case less
  show ?case
  proof (cases "More ts")
    case False
    with less.prems show ?thesis by (subst (asm) productsLoop.simps) (auto split: sum.splits dest: nextToken_length)
  next
    case True
    with less.prems obtain sku ts1 p ts2 skus where k: "nextKey eof ts = Inr (sku, ts1)" and d: "decodeNext eof (bk_Product bk) ts1 = Inr (p, ts2)"
      and r: "productsLoop eof bk region wanted ts2 skus = Inr (out', rest)"
      by (subst (asm) productsLoop.simps) (auto split: sum.splits)
    have "length ts2 < length ts" using nextKey_length[OF k] decodeNext_length[OF d] by simp
    with less.hyps[OF _ r] show ?thesis by simp
  qed
qed

lemma onDemandLoop_length: "onDemandLoop eof bk skus ts prices = Inr (prices', rest) \<Longrightarrow> length rest < length ts"
proof (induction "length ts" arbitrary: ts prices rule: less_induct)
  case less
  show ?case
  proof (cases "More ts")
    case False
    with less.prems show ?thesis by (subst (asm) onDemandLoop.simps) (auto split: sum.splits dest: nextToken_length)
  next
    case True
    with less.prems obtain sku ts1 usds ts2 ps where k: "nextKey eof ts = Inr (sku, ts1)" and d: "decodeNext eof (bk_Term bk) ts1 = Inr (usds, ts2)"
      and r: "onDemandLoop eof bk skus ts2 ps = Inr (prices', rest)"
      by (subst (asm) onDemandLoop.simps) (auto split: sum.splits)
    have "length ts2 < length ts" using nextKey_length[OF k] decodeNext_length[OF d] by simp
    with less.hyps[OF _ r] show ?thesis by simp
  qed
qed

text \<open>Of the terms only those on demand count.\<close>

function termsLoop :: "go_error \<Rightarrow> bulkCodec \<Rightarrow> skuTypes \<Rightarrow> tokens \<Rightarrow> typePrices \<Rightarrow> go_error + typePrices \<times> tokens" where
  "termsLoop eof bk skus ts prices =
    (if \<not> More ts then (case nextToken eof ts of Inl e \<Rightarrow> Inl e | Inr (_, rest) \<Rightarrow> Inr (prices, rest))
     else case nextKey eof ts of Inl e \<Rightarrow> Inl e
     | Inr (cls, ts1) \<Rightarrow>
       if cls \<noteq> ''OnDemand'' then (case skipJSONValue eof ts1 of Inl e \<Rightarrow> Inl e | Inr ts2 \<Rightarrow> termsLoop eof bk skus ts2 prices)
       else (case expectObject eof ''OnDemand not an object'' ts1 of Inl e \<Rightarrow> Inl e
         | Inr ts2 \<Rightarrow> (case onDemandLoop eof bk skus ts2 prices of Inl e \<Rightarrow> Inl e
             | Inr (prices1, ts3) \<Rightarrow> termsLoop eof bk skus ts3 prices1)))"
  by pat_completeness auto
termination by (relation "measure (\<lambda>(eof, bk, skus, ts, prices). length ts)") (auto dest!: stream_lengths onDemandLoop_length)

declare termsLoop.simps [simp del]

definition streamAWSTerms :: "go_error \<Rightarrow> bulkCodec \<Rightarrow> skuTypes \<Rightarrow> tokens \<Rightarrow> typePrices \<Rightarrow> go_error + typePrices \<times> tokens" where
  "streamAWSTerms eof bk skus ts prices = (case expectObject eof ''not an object'' ts of
     Inl e \<Rightarrow> Inl e | Inr ts1 \<Rightarrow> termsLoop eof bk skus ts1 prices)"

lemma termsLoop_length: "termsLoop eof bk skus ts prices = Inr (prices', rest) \<Longrightarrow> length rest < length ts"
proof (induction "length ts" arbitrary: ts prices rule: less_induct)
  case less
  show ?case
  proof (cases "More ts")
    case False
    with less.prems show ?thesis by (subst (asm) termsLoop.simps) (auto split: sum.splits dest: nextToken_length)
  next
    case True
    with less.prems obtain cls ts1 where k: "nextKey eof ts = Inr (cls, ts1)" by (subst (asm) termsLoop.simps) (auto split: sum.splits)
    have "\<exists>ps ts2. length ts2 < length ts1 \<and> termsLoop eof bk skus ts2 ps = Inr (prices', rest)"
      using less.prems True k by (subst (asm) termsLoop.simps)
        (auto split: sum.splits if_splits dest!: skipJSONValue_length expectObject_length onDemandLoop_length intro: less_trans)
    with less.hyps nextKey_length[OF k] show ?thesis by (meson less_trans)
  qed
qed

lemma stream_objects_length:
  "streamAWSProducts eof bk region wanted ts out = Inr (out', rest) \<Longrightarrow> length rest < length ts"
  "streamAWSTerms eof bk skus ts prices = Inr (prices', rest) \<Longrightarrow> length rest < length ts"
  by (auto simp: streamAWSProducts_def streamAWSTerms_def split: sum.splits dest!: expectObject_length productsLoop_length termsLoop_length)

text \<open>The document: the loop ends without a look at the token that closes it.\<close>

function bulkLoop :: "go_error \<Rightarrow> bulkCodec \<Rightarrow> string \<Rightarrow> string list \<Rightarrow> tokens \<Rightarrow> skuTypes \<Rightarrow> typePrices \<Rightarrow> go_error + typePrices" where
  "bulkLoop eof bk region wanted ts skus prices =
    (if \<not> More ts then Inr prices
     else case nextKey eof ts of Inl e \<Rightarrow> Inl e
     | Inr (key, ts1) \<Rightarrow>
       if key = ''products'' then (case streamAWSProducts eof bk region wanted ts1 skus of
           Inl e \<Rightarrow> Inl (Wrapf ''products: '' e []) | Inr (skus1, ts2) \<Rightarrow> bulkLoop eof bk region wanted ts2 skus1 prices)
       else if key = ''terms'' then (case streamAWSTerms eof bk skus ts1 prices of
           Inl e \<Rightarrow> Inl (Wrapf ''terms: '' e []) | Inr (prices1, ts2) \<Rightarrow> bulkLoop eof bk region wanted ts2 skus prices1)
       else (case skipJSONValue eof ts1 of Inl e \<Rightarrow> Inl e | Inr ts2 \<Rightarrow> bulkLoop eof bk region wanted ts2 skus prices))"
  by pat_completeness auto
termination by (relation "measure (\<lambda>(eof, bk, region, wanted, ts, skus, prices). length ts)") (auto dest!: stream_lengths stream_objects_length)

declare bulkLoop.simps [simp del]

definition parseAWSBulk :: "go_error \<Rightarrow> bulkCodec \<Rightarrow> tokens \<Rightarrow> string \<Rightarrow> string list \<Rightarrow> go_error + typePrices" where
  "parseAWSBulk eof bk ts region wanted = (case expectObject eof ''unexpected top-level token'' ts of
     Inl e \<Rightarrow> Inl e | Inr ts1 \<Rightarrow> bulkLoop eof bk region wanted ts1 Map.empty Map.empty)"

section \<open>Fetching prices\<close>

text \<open>
  The web: a GET request over an arbitrary state, with the status and the body of its answer; what the code reads
  from a body, which can fail: the index of regions (an absent region has the empty URL), the tokens of a price
  list with the error after them, the bytes, and the items of an answer of Azure.
\<close>

record retailItem =
  rt_RetailPrice :: real
  rt_MeterName :: string
  rt_ProductName :: string
  rt_SkuName :: string

record ('b, 's) Web =
  wb_Get :: "string \<Rightarrow> ('s, int \<times> 'b) eff"
  wb_Index :: "'b \<Rightarrow> go_error + (string \<Rightarrow> string)"
  wb_Tokens :: "'b \<Rightarrow> tokens \<times> go_error"
  wb_ReadAll :: "'b \<Rightarrow> go_error + string"
  wb_Items :: "string \<Rightarrow> go_error + retailItem list"
  wb_Bulk :: bulkCodec

definition awsPricingHost :: string where "awsPricingHost = ''https://pricing.us-east-1.amazonaws.com''"

definition fetchAWSBulkPrices :: "('b, 's) Web \<Rightarrow> string \<Rightarrow> string list \<Rightarrow> ('s, typePrices) eff" where
  "fetchAWSBulkPrices web region wanted =
     ebind (wb_Get web (awsPricingHost @ ''/offers/v1.0/aws/AmazonEC2/current/region_index.json'')) (\<lambda>(_, index).
     case wb_Index web index of Inl e \<Rightarrow> efail (Wrapf ''region index: '' e [])
     | Inr idx \<Rightarrow> if idx region = [] then efail (ErrText (''no bulk price file for region '' @ region))
       else ebind (wb_Get web (awsPricingHost @ idx region)) (\<lambda>(status, body).
         if status \<noteq> 200 then efail (ErrText (''bulk price file status '' @ string_of_int status))
         else (case wb_Tokens web body of (ts, eof) \<Rightarrow> (case parseAWSBulk eof (wb_Bulk web) ts region wanted of
             Inl e \<Rightarrow> efail e | Inr prices \<Rightarrow> eret prices))))"

definition upperHex :: "nat \<Rightarrow> char" where
  "upperHex n = (if n < 10 then char_of (48 + n) else char_of (55 + n))"

definition QueryEscape :: "string \<Rightarrow> string" where
  "QueryEscape s = concat (map (\<lambda>c. let n = of_char c :: nat in
     if 48 \<le> n \<and> n \<le> 57 \<or> 65 \<le> n \<and> n \<le> 90 \<or> 97 \<le> n \<and> n \<le> 122 \<or> c \<in> set ''-_.~'' then [c]
     else if c = CHR '' '' then ''+'' else [CHR ''%'', upperHex (n div 16), upperHex (n mod 16)]) s)"

definition singleQuoted :: "string \<Rightarrow> string" where
  "singleQuoted s = CHR 0x27 # s @ [CHR 0x27]"

definition azureEndpoint :: "string \<Rightarrow> string \<Rightarrow> string" where
  "azureEndpoint region armSkuName = ''https://prices.azure.com/api/retail/prices?currencyCode=%27USD%27&$filter='' @
     QueryEscape (''serviceName eq '' @ singleQuoted ''Virtual Machines'' @ '' and armSkuName eq '' @ singleQuoted armSkuName @
       '' and armRegionName eq '' @ singleQuoted region @ '' and priceType eq '' @ singleQuoted ''Consumption'')"

definition linuxConsumption :: "retailItem \<Rightarrow> bool" where
  "linuxConsumption it \<longleftrightarrow> \<not> (rt_RetailPrice it \<le> 0 \<or> Contains (rt_ProductName it) ''Windows'' \<or> Contains (rt_MeterName it) ''Spot''
     \<or> Contains (rt_SkuName it) ''Spot'' \<or> Contains (rt_MeterName it) ''Low Priority'')"

definition fetchAzurePrice :: "('b, 's) Web \<Rightarrow> string \<Rightarrow> string \<Rightarrow> ('s, real) eff" where
  "fetchAzurePrice web region armSkuName =
     ebind (wb_Get web (azureEndpoint region armSkuName)) (\<lambda>(status, reply).
     case wb_ReadAll web reply of Inl e \<Rightarrow> efail e
     | Inr body \<Rightarrow> if status \<noteq> 200 then efail (ErrText (''retail API status '' @ string_of_int status @ '': '' @ TrimSpace body))
       else (case wb_Items web body of Inl e \<Rightarrow> efail e
         | Inr items \<Rightarrow> (case find linuxConsumption items of
             Some it \<Rightarrow> eret (rt_RetailPrice it) | None \<Rightarrow> efail (ErrText ''no Linux consumption price found''))))"

section \<open>Refreshing the file\<close>

text \<open>A price that is not found stays as it is; so do all prices of a region whose list cannot be had.\<close>

definition updateFound :: "typePrices \<Rightarrow> (string \<times> real) list \<Rightarrow> (string \<times> real) list" where
  "updateFound found types = map (\<lambda>(t, p). (t, case found t of Some q \<Rightarrow> q | None \<Rightarrow> p)) types"

fun refreshAWS :: "('b, 's) Web \<Rightarrow> priceTable \<Rightarrow> 's \<Rightarrow> priceTable \<times> 's" where
  "refreshAWS web [] s = ([], s)"
| "refreshAWS web ((region, types) # regions) s = (case fetchAWSBulkPrices web region (map fst types) s of
     (r, s1) \<Rightarrow> (case refreshAWS web regions s1 of (rest, s2) \<Rightarrow>
       ((region, updateFound (case r of Inl _ \<Rightarrow> Map.empty | Inr found \<Rightarrow> found) types) # rest, s2)))"

fun refreshTypes :: "('b, 's) Web \<Rightarrow> string \<Rightarrow> (string \<times> real) list \<Rightarrow> 's \<Rightarrow> (string \<times> real) list \<times> 's" where
  "refreshTypes web region [] s = ([], s)"
| "refreshTypes web region ((t, p) # types) s = (case fetchAzurePrice web region t s of
     (r, s1) \<Rightarrow> (case refreshTypes web region types s1 of (rest, s2) \<Rightarrow> ((t, case r of Inl _ \<Rightarrow> p | Inr q \<Rightarrow> q) # rest, s2)))"

fun refreshAzure :: "('b, 's) Web \<Rightarrow> priceTable \<Rightarrow> 's \<Rightarrow> priceTable \<times> 's" where
  "refreshAzure web [] s = ([], s)"
| "refreshAzure web ((region, types) # regions) s = (case refreshTypes web region types s of
     (types', s1) \<Rightarrow> (case refreshAzure web regions s1 of (rest, s2) \<Rightarrow> ((region, types') # rest, s2)))"

type_synonym priceBlocks = "(string \<times> priceTable) list"

definition refreshBlock :: "string \<Rightarrow> (priceTable \<Rightarrow> 's \<Rightarrow> priceTable \<times> 's) \<Rightarrow> priceBlocks \<Rightarrow> 's \<Rightarrow> priceBlocks \<times> 's" where
  "refreshBlock key refresh blocks s = (case map_of blocks key of None \<Rightarrow> (blocks, s)
     | Some block \<Rightarrow> (case refresh block s of (block', s1) \<Rightarrow> (AList.update key block' blocks, s1)))"

text \<open>The codec of the file: its raw blocks, the two kinds of blocks, and the document that is written.\<close>

record ('v, 'd) PriceCodec =
  pf_Raw :: "'d content \<Rightarrow> go_error + (string \<times> 'v) list"
  pf_Meta :: "'v \<Rightarrow> go_error + (string \<times> string) list"
  pf_Block :: "'v \<Rightarrow> go_error + priceTable"
  pf_Encode :: "(string \<times> string) list \<Rightarrow> priceBlocks \<Rightarrow> go_error + 'd"

fun loadBlocks :: "('v, 'd) PriceCodec \<Rightarrow> (string \<times> 'v) list \<Rightarrow> (string \<times> string) list \<Rightarrow> priceBlocks \<Rightarrow> go_error + (string \<times> string) list \<times> priceBlocks" where
  "loadBlocks pf [] meta blocks = Inr (meta, blocks)"
| "loadBlocks pf ((key, val) # raw) meta blocks =
    (if key = ''_meta'' then (case pf_Meta pf val of Inl e \<Rightarrow> Inl (Wrapf ''parse _meta: '' e []) | Inr m \<Rightarrow> loadBlocks pf raw m blocks)
     else (case pf_Block pf val of Inl e \<Rightarrow> Inl (Wrapf (''parse block '' @ quoted key @ '': '') e [])
       | Inr block \<Rightarrow> loadBlocks pf raw meta (blocks @ [(key, block)])))"

definition loadData :: "('v, 'd) PriceCodec \<Rightarrow> path \<Rightarrow> ('d, (string \<times> string) list \<times> priceBlocks) io" where
  "loadData pf p = bind (mapErr (\<lambda>e. Wrapf (''read '' @ path_string p @ '': '') e []) (os_ReadFile p)) (\<lambda>b.
     case pf_Raw pf b of Inl e \<Rightarrow> raise (Wrapf (''parse '' @ path_string p @ '': '') e [])
     | Inr raw \<Rightarrow> (case loadBlocks pf raw [] [] of Inl e \<Rightarrow> raise e | Inr x \<Rightarrow> ret x))"

definition saveData :: "('v, 'd) PriceCodec \<Rightarrow> path \<Rightarrow> (string \<times> string) list \<Rightarrow> priceBlocks \<Rightarrow> ('d, unit) io" where
  "saveData pf p meta blocks = (case pf_Encode pf meta blocks of Inl e \<Rightarrow> raise e | Inr d \<Rightarrow> os_WriteFile p (Docs [Line d]))"

text \<open>The date is the one of an environment variable, when it is set.\<close>

definition today :: "string \<Rightarrow> ('d, string) io" where
  "today refreshDate = (if refreshDate \<noteq> [] then ret refreshDate else bind now (\<lambda>t. ret (formatDate t)))"

definition runRefresh :: "('b, 's) Web \<Rightarrow> ('v, 'd) PriceCodec \<Rightarrow> string \<Rightarrow> path \<Rightarrow> 'd world \<times> 's \<Rightarrow> go_error option \<times> 'd world \<times> 's" where
  "runRefresh web pf refreshDate p = (\<lambda>(w, s). case loadData pf p w of
     (Inl e, w1) \<Rightarrow> (Some e, w1, s)
   | (Inr (meta, blocks), w1) \<Rightarrow>
      (case refreshBlock ''aws'' (refreshAWS web) blocks s of (blocks1, s1) \<Rightarrow>
       case refreshBlock ''azure'' (refreshAzure web) blocks1 s1 of (blocks2, s2) \<Rightarrow>
       case bind (today refreshDate) (\<lambda>date. saveData pf p (AList.update ''updated'' date meta) blocks2) w1 of
         (Inl e, w2) \<Rightarrow> (Some e, w2, s2) | (Inr _, w2) \<Rightarrow> (None, w2, s2)))"

definition dataPath :: "string \<Rightarrow> path" where
  "dataPath rootDir = filepath_Join [rootDir, ''internal'', ''pricing'', ''data.json'']"

end
