(* ===== verification/Price_Refresh_Props.thy ===== *)
theory Price_Refresh_Props
  imports Price_Refresh Result_Props
begin

text \<open>
  The streaming reader of the AWS price list against the document it streams: JSON values as trees, their tokens,
  and the prices a document quotes. The stream is read once and no tree is built; the prices are the same.
\<close>

section \<open>Documents\<close>

datatype json = Lit string | JStr string | Arr "json list" | Obj "(string \<times> json) list"

fun flat :: "json \<Rightarrow> tokens" where
  "flat (Lit s) = [Scalar s]"
| "flat (JStr s) = [Str s]"
| "flat (Arr js) = ArrStart # concat (map flat js) @ [ArrEnd]"
| "flat (Obj kvs) = ObjStart # concat (map (\<lambda>(k, j). Str k # flat j) kvs) @ [ObjEnd]"

definition members :: "(string \<times> json) list \<Rightarrow> tokens" where
  "members kvs = concat (map (\<lambda>(k, j). Str k # flat j) kvs)"

lemma members_simps [simp]: "members [] = []" "members ((k, j) # kvs) = Str k # flat j @ members kvs"
  by (simp_all add: members_def)

lemma flat_Obj: "flat (Obj kvs) = ObjStart # members kvs @ [ObjEnd]"
  by (simp add: members_def)

text \<open>Skipping a value skips its tokens.\<close>

lemma skipDepth_flat: "skipDepth eof (Suc d) (flat j @ ts) = skipDepth eof (Suc d) ts"
proof (induction j arbitrary: d ts rule: flat.induct)
  case (3 js)
  have "skipDepth eof (Suc d) (concat (map flat xs) @ us) = skipDepth eof (Suc d) us" if "set xs \<subseteq> set js" for xs us d
    using that by (induction xs arbitrary: us) (simp_all add: "3.IH")
  then show ?case by simp
next
  case (4 kvs)
  have "skipDepth eof (Suc d) (concat (map (\<lambda>(k, j). Str k # flat j) xs) @ us) = skipDepth eof (Suc d) us" if "set xs \<subseteq> set kvs" for xs us d
    using that by (induction xs arbitrary: us) (auto simp: "4.IH")
  then show ?case by simp
qed simp_all

lemma skipDepth_concat: "skipDepth eof (Suc d) (concat (map flat js) @ ts) = skipDepth eof (Suc d) ts"
  by (induction js arbitrary: ts) (simp_all add: skipDepth_flat)

lemma skipDepth_members: "skipDepth eof (Suc d) (members kvs @ ts) = skipDepth eof (Suc d) ts"
  by (induction kvs arbitrary: ts) (auto simp: skipDepth_flat)

lemma skip_flat: "skipJSONValue eof (flat j @ ts) = Inr ts"
proof (cases j)
  case (Arr js)
  then show ?thesis using skipDepth_concat[of eof 0 js "ArrEnd # ts"] by (simp add: skipJSONValue_def)
next
  case (Obj kvs)
  then show ?thesis using skipDepth_members[of eof 0 kvs "ObjEnd # ts"] by (simp add: skipJSONValue_def members_def)
qed (simp_all add: skipJSONValue_def)

lemma decode_flat: "decodeNext eof decode (flat j @ ts) = (case decode (flat j) of Inl e \<Rightarrow> Inl e | Inr x \<Rightarrow> Inr (x, ts))"
  by (simp add: decodeNext_def skip_flat)

section \<open>The prices a document quotes\<close>

text \<open>
  The reference: the wanted products as a list of pairs of SKU and type, the quoted prices as a list of pairs of
  type and price in the order of the document. Of several entries for one key the last one counts.
\<close>

definition wantedSkus :: "bulkCodec \<Rightarrow> string \<Rightarrow> string list \<Rightarrow> (string \<times> json) list \<Rightarrow> (string \<times> string) list" where
  "wantedSkus bk region wanted prods = concat (map (\<lambda>(sku, j). case bk_Product bk (flat j) of
     Inl _ \<Rightarrow> [] | Inr p \<Rightarrow> if wantedProduct region wanted p then [(sku, ap_InstanceType p)] else []) prods)"

definition positivePrices :: "(string \<Rightarrow> real option) \<Rightarrow> string \<Rightarrow> string list \<Rightarrow> (string \<times> real) list" where
  "positivePrices parse itype usds = List.map_filter (\<lambda>usd. case parse usd of None \<Rightarrow> None | Some f \<Rightarrow> if 0 < f then Some (itype, f) else None) usds"

definition quotedOnDemand :: "bulkCodec \<Rightarrow> skuTypes \<Rightarrow> (string \<times> json) list \<Rightarrow> (string \<times> real) list" where
  "quotedOnDemand bk skus ods = concat (map (\<lambda>(sku, j). case bk_Term bk (flat j) of Inl _ \<Rightarrow> []
     | Inr usds \<Rightarrow> (case skus sku of None \<Rightarrow> [] | Some itype \<Rightarrow> positivePrices (bk_ParseFloat bk) itype usds)) ods)"

definition quotedPrices :: "bulkCodec \<Rightarrow> skuTypes \<Rightarrow> (string \<times> json) list \<Rightarrow> (string \<times> real) list" where
  "quotedPrices bk skus terms = concat (map (\<lambda>(cls, j). case j of
     Obj ods \<Rightarrow> if cls = ''OnDemand'' then quotedOnDemand bk skus ods else [] | _ \<Rightarrow> []) terms)"

definition lastOf :: "(string \<times> 'a) list \<Rightarrow> string \<rightharpoonup> 'a" where
  "lastOf xs = map_of (rev xs)"

text \<open>A document the decoders accept: every product, every term on demand.\<close>

definition decodable :: "bulkCodec \<Rightarrow> (string \<times> json) list \<Rightarrow> (string \<times> json) list \<Rightarrow> bool" where
  "decodable bk prods terms \<longleftrightarrow> (\<forall>(sku, j) \<in> set prods. \<exists>p. bk_Product bk (flat j) = Inr p)
     \<and> (\<forall>(cls, j) \<in> set terms. cls = ''OnDemand'' \<longrightarrow> (\<exists>ods. j = Obj ods \<and> (\<forall>(sku, j) \<in> set ods. \<exists>usds. bk_Term bk (flat j) = Inr usds)))"

lemma lastOf_Nil [simp]: "lastOf [] = Map.empty"
  by (simp add: lastOf_def)

lemma lastOf_append: "m ++ lastOf (xs @ ys) = (m ++ lastOf xs) ++ lastOf ys"
  by (simp add: lastOf_def)

lemma lastOf_single: "m ++ lastOf [(k, x)] = m(k \<mapsto> x)"
  by (simp add: lastOf_def)

lemma lastOf_Cons: "m ++ lastOf ((k, x) # xs) = m(k \<mapsto> x) ++ lastOf xs"
  using lastOf_append[of m "[(k, x)]" xs] by (simp add: lastOf_single)

section \<open>The stream reads the document\<close>

lemma More_members [simp]: "More (members kvs @ ObjEnd # ts) \<longleftrightarrow> kvs \<noteq> []"
  by (cases kvs) auto

lemma productsLoop_members:
  assumes "\<forall>(sku, j) \<in> set prods. \<exists>p. bk_Product bk (flat j) = Inr p"
  shows "productsLoop eof bk region wanted (members prods @ ObjEnd # ts) out = Inr (out ++ lastOf (wantedSkus bk region wanted prods), ts)"
  using assms
proof (induction prods arbitrary: out)
  case Nil
  show ?case by (subst productsLoop.simps) (simp add: wantedSkus_def)
next
  case (Cons prod prods)
  obtain sku j where prod: "prod = (sku, j)" by fastforce
  with Cons.prems obtain p where p: "bk_Product bk (flat j) = Inr p" by auto
  have "wantedSkus bk region wanted (prod # prods) = (if wantedProduct region wanted p then [(sku, ap_InstanceType p)] else []) @ wantedSkus bk region wanted prods"
    by (simp add: wantedSkus_def prod p)
  then show ?case using Cons by (subst productsLoop.simps) (simp add: prod decode_flat p lastOf_Cons)
qed

lemma termPrices_last: "termPrices parse itype usds prices = prices ++ lastOf (positivePrices parse itype usds)"
proof (induction usds arbitrary: prices)
  case (Cons usd usds)
  then show ?case
    by (cases "parse usd") (simp_all add: termPrices_def positivePrices_def List.map_filter_simps lastOf_Cons)
qed (simp add: termPrices_def positivePrices_def List.map_filter_simps)

lemma onDemandLoop_members:
  assumes "\<forall>(sku, j) \<in> set ods. \<exists>usds. bk_Term bk (flat j) = Inr usds"
  shows "onDemandLoop eof bk skus (members ods @ ObjEnd # ts) prices = Inr (prices ++ lastOf (quotedOnDemand bk skus ods), ts)"
  using assms
proof (induction ods arbitrary: prices)
  case Nil
  show ?case by (subst onDemandLoop.simps) (simp add: quotedOnDemand_def)
next
  case (Cons od ods)
  obtain sku j where od: "od = (sku, j)" by fastforce
  with Cons.prems obtain usds where usds: "bk_Term bk (flat j) = Inr usds" by auto
  have "quotedOnDemand bk skus (od # ods) = (case skus sku of None \<Rightarrow> [] | Some itype \<Rightarrow> positivePrices (bk_ParseFloat bk) itype usds) @ quotedOnDemand bk skus ods"
    by (simp add: quotedOnDemand_def od usds)
  then show ?case using Cons
    by (subst onDemandLoop.simps) (simp add: od decode_flat usds termPrices_last lastOf_append split: option.split)
qed

lemma expectObject_start [simp]: "expectObject eof what (ObjStart # ts) = Inr ts"
  by (simp add: expectObject_def)

lemma termsLoop_members:
  assumes "\<forall>(cls, j) \<in> set terms. cls = ''OnDemand'' \<longrightarrow> (\<exists>ods. j = Obj ods \<and> (\<forall>(sku, j) \<in> set ods. \<exists>usds. bk_Term bk (flat j) = Inr usds))"
  shows "termsLoop eof bk skus (members terms @ ObjEnd # ts) prices = Inr (prices ++ lastOf (quotedPrices bk skus terms), ts)"
  using assms
proof (induction terms arbitrary: prices)
  case Nil
  show ?case by (subst termsLoop.simps) (simp add: quotedPrices_def)
next
  case (Cons t terms)
  obtain cls j where t: "t = (cls, j)" by fastforce
  show ?case
  proof (cases "cls = ''OnDemand''")
    case False
    then have "quotedPrices bk skus (t # terms) = quotedPrices bk skus terms" by (simp add: quotedPrices_def t split: json.split)
    with False Cons show ?thesis by (subst termsLoop.simps) (simp add: t skip_flat)
  next
    case True
    with Cons.prems t obtain ods where ods: "j = Obj ods" "\<forall>(sku, j) \<in> set ods. \<exists>usds. bk_Term bk (flat j) = Inr usds" by auto
    have "quotedPrices bk skus (t # terms) = quotedOnDemand bk skus ods @ quotedPrices bk skus terms" by (simp add: quotedPrices_def t ods True)
    with True Cons show ?thesis
      by (subst termsLoop.simps) (simp add: t ods(1) flat_Obj onDemandLoop_members[OF ods(2)] lastOf_append del: flat.simps)
  qed
qed

lemma bulkLoop_others:
  assumes "\<forall>(k, j) \<in> set kvs. k \<noteq> ''products'' \<and> k \<noteq> ''terms''"
  shows "bulkLoop eof bk region wanted (members kvs @ ts) skus prices = bulkLoop eof bk region wanted ts skus prices"
  using assms
proof (induction kvs)
  case (Cons kv kvs)
  then show ?case by (cases kv, subst bulkLoop.simps) (simp add: skip_flat)
qed simp

lemma bulkLoop_products:
  assumes "\<forall>(sku, j) \<in> set prods. \<exists>p. bk_Product bk (flat j) = Inr p"
  shows "bulkLoop eof bk region wanted (Str ''products'' # ObjStart # members prods @ ObjEnd # ts) skus prices
    = bulkLoop eof bk region wanted ts (skus ++ lastOf (wantedSkus bk region wanted prods)) prices"
  by (subst bulkLoop.simps) (simp add: streamAWSProducts_def productsLoop_members[OF assms])

lemma bulkLoop_terms:
  assumes "\<forall>(cls, j) \<in> set terms. cls = ''OnDemand'' \<longrightarrow> (\<exists>ods. j = Obj ods \<and> (\<forall>(sku, j) \<in> set ods. \<exists>usds. bk_Term bk (flat j) = Inr usds))"
  shows "bulkLoop eof bk region wanted (Str ''terms'' # ObjStart # members terms @ ObjEnd # ts) skus prices
    = bulkLoop eof bk region wanted ts skus (prices ++ lastOf (quotedPrices bk skus terms))"
  by (subst bulkLoop.simps) (simp add: streamAWSTerms_def termsLoop_members[OF assms])

lemma bulkLoop_end: "bulkLoop eof bk region wanted (ObjEnd # ts) skus prices = Inr prices"
  by (subst bulkLoop.simps) simp

lemma lastOf_mem: "lastOf xs k = Some x \<Longrightarrow> (k, x) \<in> set xs"
  unfolding lastOf_def by (metis map_of_SomeD set_rev)

lemma wantedSkus_wanted: "(sku, itype) \<in> set (wantedSkus bk region wanted prods) \<Longrightarrow> itype \<in> set wanted"
  by (auto simp: wantedSkus_def wantedProduct_def split: sum.splits if_splits)

lemma quotedPrices_wanted:
  assumes "(itype, f) \<in> set (quotedPrices bk skus terms)"
  shows "0 < f \<and> (\<exists>sku. skus sku = Some itype)"
proof -
  have "0 < f \<and> t = itype" if "(itype, f) \<in> set (positivePrices parse t usds)" for parse t usds
    using that by (auto simp: positivePrices_def set_map_filter split: option.splits if_splits)
  moreover have "\<exists>sku t parse usds. skus sku = Some t \<and> (itype, f) \<in> set (positivePrices parse t usds)"
    using assms by (auto simp: quotedPrices_def quotedOnDemand_def split: json.splits if_splits sum.splits option.splits) metis
  ultimately show ?thesis by metis
qed

text \<open>
  C39: reading the stream of a price list gives exactly the prices the document quotes: for every wanted instance
  type that a product of the region offers for Linux, with shared tenancy and in use, the last positive price on
  demand, whatever else the document has before, between and after its products and terms; and nothing for any
  other type. The products must come before the terms, as the code says.
\<close>

theorem parseAWSBulk_correct:
  assumes others: "\<forall>(k, j) \<in> set (pre @ mid @ post). k \<noteq> ''products'' \<and> k \<noteq> ''terms''"
    and dec: "decodable bk prods terms"
  shows "\<exists>prices. parseAWSBulk eof bk (flat (Obj (pre @ (''products'', Obj prods) # mid @ (''terms'', Obj terms) # post)) @ rest) region wanted = Inr prices
    \<and> prices = lastOf (quotedPrices bk (lastOf (wantedSkus bk region wanted prods)) terms)
    \<and> (\<forall>itype f. prices itype = Some f \<longrightarrow> itype \<in> set wanted \<and> 0 < f)"
proof (intro exI conjI allI impI)
  let ?skus = "lastOf (wantedSkus bk region wanted prods)"
  let ?prices = "lastOf (quotedPrices bk ?skus terms)"
  have d: "\<forall>(sku, j) \<in> set prods. \<exists>p. bk_Product bk (flat j) = Inr p"
    "\<forall>(cls, j) \<in> set terms. cls = ''OnDemand'' \<longrightarrow> (\<exists>ods. j = Obj ods \<and> (\<forall>(sku, j) \<in> set ods. \<exists>usds. bk_Term bk (flat j) = Inr usds))"
    using dec by (simp_all add: decodable_def)
  have o: "\<forall>(k, j) \<in> set xs. k \<noteq> ''products'' \<and> k \<noteq> ''terms''" if "xs \<in> {pre, mid, post}" for xs
    using others that by auto
  have app: "members (xs @ ys) = members xs @ members ys" for xs ys by (simp add: members_def)
  show "parseAWSBulk eof bk (flat (Obj (pre @ (''products'', Obj prods) # mid @ (''terms'', Obj terms) # post)) @ rest) region wanted = Inr ?prices"
    by (simp add: parseAWSBulk_def flat_Obj app bulkLoop_others[OF o] bulkLoop_products[OF d(1)] bulkLoop_terms[OF d(2)] bulkLoop_end del: flat.simps)
  fix itype f
  assume p: "?prices itype = Some f"
  obtain sku where f: "0 < f" and sku: "?skus sku = Some itype" using quotedPrices_wanted[OF lastOf_mem[OF p]] by blast
  show "itype \<in> set wanted" by (rule wantedSkus_wanted[OF lastOf_mem[OF sku]])
  show "0 < f" by (rule f)
qed simp

text \<open>A document with one product, reserved terms before those on demand, and an entry of another kind in front.\<close>

definition exampleBulk :: bulkCodec where
  "exampleBulk = \<lparr>bk_Product = (\<lambda>ts. Inr \<lparr>ap_InstanceType = (if Str ''m5.large'' \<in> set ts then ''m5.large'' else []), ap_OperatingSystem = ''Linux'',
       ap_Tenancy = ''Shared'', ap_PreInstalledSw = ''NA'', ap_CapacityStatus = ''Used'', ap_RegionCode = ''us-west-2''\<rparr>),
     bk_Term = (\<lambda>ts. Inr (List.map_filter (\<lambda>t. case t of Str s \<Rightarrow> Some s | _ \<Rightarrow> None) ts)),
     bk_ParseFloat = (\<lambda>s. if s = ''0.0960000000'' then Some (96 / 1000) else if s = ''0.0000000000'' then Some 0 else None)\<rparr>"

definition exampleProducts :: "(string \<times> json) list" where
  "exampleProducts = [(''SKU1'', Arr [JStr ''m5.large'']), (''SKU2'', Arr [JStr ''m5.metal''])]"

definition exampleTerms :: "(string \<times> json) list" where
  "exampleTerms = [(''Reserved'', Lit ''null''), (''OnDemand'', Obj [(''SKU1'', Arr [JStr ''0.0960000000'', JStr ''0.0000000000'']), (''SKU2'', Arr [JStr ''9'']) ])]"

theorem parseAWSBulk_correct_witness:
  "\<exists>prices. parseAWSBulk (Sentinel EOF) exampleBulk (flat (Obj ([(''formatVersion'', JStr ''v1.0'')] @ (''products'', Obj exampleProducts) # [] @ (''terms'', Obj exampleTerms) # [])) @ [])
      ''us-west-2'' [''m5.large''] = Inr prices \<and> prices ''m5.large'' = Some (96 / 1000)"
proof -
  have d: "decodable exampleBulk exampleProducts exampleTerms"
    by (simp add: decodable_def exampleBulk_def exampleProducts_def exampleTerms_def)
  have o: "\<forall>(k, j) \<in> set ([(''formatVersion'', JStr ''v1.0'')] @ [] @ []). k \<noteq> ''products'' \<and> k \<noteq> ''terms''" by simp
  have skus: "wantedSkus exampleBulk ''us-west-2'' [''m5.large''] exampleProducts = [(''SKU1'', ''m5.large'')]"
    by (simp add: wantedSkus_def exampleBulk_def exampleProducts_def wantedProduct_def)
  have prices: "quotedPrices exampleBulk (lastOf [(''SKU1'', ''m5.large'')]) exampleTerms = [(''m5.large'', 96 / 1000)]"
    by (simp add: quotedPrices_def quotedOnDemand_def positivePrices_def lastOf_def exampleBulk_def exampleTerms_def List.map_filter_simps)
  show ?thesis
    using parseAWSBulk_correct[OF o d, of "Sentinel EOF" "[]" "''us-west-2''" "[''m5.large'']"] unfolding skus prices by (auto simp: lastOf_def simp del: flat.simps)
qed

section \<open>A refresh keeps the catalogue\<close>

definition positiveMap :: "typePrices \<Rightarrow> bool" where
  "positiveMap prices \<longleftrightarrow> (\<forall>t f. prices t = Some f \<longrightarrow> 0 < f)"

lemma positiveMap_empty [simp]: "positiveMap Map.empty"
  by (simp add: positiveMap_def)

lemma termPrices_positive: "positiveMap prices \<Longrightarrow> positiveMap (termPrices parse itype usds prices)"
proof (induction usds arbitrary: prices)
  case (Cons usd usds)
  have "positiveMap (prices(itype \<mapsto> f))" if "0 < f" for f using Cons.prems that by (simp add: positiveMap_def)
  with Cons show ?case by (simp add: termPrices_def split: option.split)
qed (simp add: termPrices_def)

lemma onDemandLoop_positive: "onDemandLoop eof bk skus ts prices = Inr (prices', rest) \<Longrightarrow> positiveMap prices \<Longrightarrow> positiveMap prices'"
proof (induction "length ts" arbitrary: ts prices rule: less_induct)
  case less
  show ?case
  proof (cases "More ts")
    case False
    with less.prems show ?thesis by (subst (asm) onDemandLoop.simps) (auto split: sum.splits)
  next
    case True
    with less.prems(1) obtain sku ts1 usds ts2 where k: "nextKey eof ts = Inr (sku, ts1)" and d: "decodeNext eof (bk_Term bk) ts1 = Inr (usds, ts2)"
      and r: "onDemandLoop eof bk skus ts2 (case skus sku of None \<Rightarrow> prices | Some itype \<Rightarrow> termPrices (bk_ParseFloat bk) itype usds prices) = Inr (prices', rest)"
      by (subst (asm) onDemandLoop.simps) (auto split: sum.splits)
    have "length ts2 < length ts" using nextKey_length[OF k] decodeNext_length[OF d] by simp
    with less.hyps[OF _ r] less.prems(2) termPrices_positive show ?thesis by (simp split: option.splits)
  qed
qed

lemma onDemandLoop_both: "onDemandLoop eof bk skus ts prices = Inr (prices', rest) \<Longrightarrow> length rest < length ts \<and> (positiveMap prices \<longrightarrow> positiveMap prices')"
  using onDemandLoop_length onDemandLoop_positive by blast

lemma termsLoop_positive: "termsLoop eof bk skus ts prices = Inr (prices', rest) \<Longrightarrow> positiveMap prices \<Longrightarrow> positiveMap prices'"
proof (induction "length ts" arbitrary: ts prices rule: less_induct)
  case less
  show ?case
  proof (cases "More ts")
    case False
    with less.prems show ?thesis by (subst (asm) termsLoop.simps) (auto split: sum.splits)
  next
    case True
    with less.prems obtain cls ts1 where k: "nextKey eof ts = Inr (cls, ts1)" by (subst (asm) termsLoop.simps) (auto split: sum.splits)
    have "\<exists>ps ts2. length ts2 < length ts1 \<and> positiveMap ps \<and> termsLoop eof bk skus ts2 ps = Inr (prices', rest)"
      using less.prems True k by (subst (asm) termsLoop.simps)
        (auto split: sum.splits if_splits dest!: skipJSONValue_length expectObject_length onDemandLoop_both intro: less_trans)
    with less.hyps nextKey_length[OF k] show ?thesis by (meson less_trans)
  qed
qed

lemma bulkLoop_positive: "bulkLoop eof bk region wanted ts skus prices = Inr prices' \<Longrightarrow> positiveMap prices \<Longrightarrow> positiveMap prices'"
proof (induction "length ts" arbitrary: ts skus prices rule: less_induct)
  case less
  show ?case
  proof (cases "More ts")
    case False
    with less.prems show ?thesis by (subst (asm) bulkLoop.simps) simp
  next
    case True
    with less.prems obtain key ts1 where k: "nextKey eof ts = Inr (key, ts1)" by (subst (asm) bulkLoop.simps) (auto split: sum.splits)
    have pos: "streamAWSTerms eof bk skus ts1 prices = Inr (ps, ts2) \<Longrightarrow> positiveMap ps" for ps ts2
      using less.prems(2) by (auto simp: streamAWSTerms_def split: sum.splits dest: termsLoop_positive)
    have step: "(\<exists>sk ts2. streamAWSProducts eof bk region wanted ts1 skus = Inr (sk, ts2) \<and> bulkLoop eof bk region wanted ts2 sk prices = Inr prices')
      \<or> (\<exists>ps ts2. streamAWSTerms eof bk skus ts1 prices = Inr (ps, ts2) \<and> bulkLoop eof bk region wanted ts2 skus ps = Inr prices')
      \<or> (\<exists>ts2. skipJSONValue eof ts1 = Inr ts2 \<and> bulkLoop eof bk region wanted ts2 skus prices = Inr prices')"
      using less.prems(1) True k by (subst (asm) bulkLoop.simps) (auto split: sum.splits if_splits)
    have "\<exists>sk ps ts2. length ts2 < length ts1 \<and> positiveMap ps \<and> bulkLoop eof bk region wanted ts2 sk ps = Inr prices'"
      using step less.prems(2) pos by (elim disjE exE conjE) (blast dest: stream_objects_length skipJSONValue_length)+
    with less.hyps nextKey_length[OF k] show ?thesis by (meson less_trans)
  qed
qed

lemma fetchAWSBulkPrices_positive: "fetchAWSBulkPrices web region wanted s = (Inr found, s1) \<Longrightarrow> positiveMap found"
  by (auto simp: fetchAWSBulkPrices_def ebind_def efail_def eret_def parseAWSBulk_def split: prod.splits sum.splits if_splits dest: bulkLoop_positive)

lemma fetchAzurePrice_positive: "fetchAzurePrice web region t s = (Inr q, s1) \<Longrightarrow> 0 < q"
  by (auto simp: fetchAzurePrice_def ebind_def efail_def eret_def find_Some_iff linuxConsumption_def split: prod.splits sum.splits if_splits option.splits)

text \<open>The same keys in the same order, with prices that are the old ones or positive.\<close>

definition renewed :: "('a \<Rightarrow> 'a \<Rightarrow> bool) \<Rightarrow> (string \<times> 'a) list \<Rightarrow> (string \<times> 'a) list \<Rightarrow> bool" where
  "renewed R xs ys \<longleftrightarrow> list_all2 (\<lambda>x y. fst y = fst x \<and> R (snd x) (snd y)) xs ys"

definition renewedPrice :: "real \<Rightarrow> real \<Rightarrow> bool" where
  "renewedPrice p q \<longleftrightarrow> q = p \<or> 0 < q"

lemma renewed_simps [simp]: "renewed R [] []" "renewed R (x # xs) (y # ys) \<longleftrightarrow> fst y = fst x \<and> R (snd x) (snd y) \<and> renewed R xs ys"
  by (simp_all add: renewed_def)

lemma renewed_refl: "(\<And>x. R x x) \<Longrightarrow> renewed R xs xs"
  by (induction xs) auto

lemma renewed_map_of: "renewed R xs ys \<Longrightarrow> rel_option R (map_of xs k) (map_of ys k)"
  unfolding renewed_def by (induction rule: list_all2_induct) (auto split: prod.splits)

lemma updateFound_renewed: "positiveMap found \<Longrightarrow> renewed renewedPrice types (updateFound found types)"
  by (induction types) (auto simp: updateFound_def renewedPrice_def positiveMap_def split: option.split)

lemma refreshAWS_renewed: "refreshAWS web table s = (table', s1) \<Longrightarrow> renewed (renewed renewedPrice) table table'"
proof (induction web table s arbitrary: table' s1 rule: refreshAWS.induct)
  case (2 web region types regions s)
  then show ?case
    by (auto split: prod.splits sum.splits intro!: updateFound_renewed dest: fetchAWSBulkPrices_positive)
qed simp

lemma refreshTypes_renewed: "refreshTypes web region types s = (types', s1) \<Longrightarrow> renewed renewedPrice types types'"
  by (induction web region types s arbitrary: types' s1 rule: refreshTypes.induct)
    (auto simp: renewedPrice_def split: prod.splits sum.splits dest: fetchAzurePrice_positive)

lemma refreshAzure_renewed: "refreshAzure web table s = (table', s1) \<Longrightarrow> renewed (renewed renewedPrice) table table'"
  by (induction web table s arbitrary: table' s1 rule: refreshAzure.induct) (auto split: prod.splits dest: refreshTypes_renewed)

lemma renewed_table_refl: "renewed (renewed renewedPrice) t t"
  by (intro renewed_refl) (simp add: renewedPrice_def)

lemma refreshBlock_renewed:
  assumes "refreshBlock key refresh blocks s = (blocks', s1)"
    and "\<And>t t' s s1. refresh t s = (t', s1) \<Longrightarrow> renewed (renewed renewedPrice) t t'"
  shows "rel_option (renewed (renewed renewedPrice)) (map_of blocks k) (map_of blocks' k)" "k \<noteq> key \<Longrightarrow> map_of blocks' k = map_of blocks k"
  using assms(1) assms(2) renewed_table_refl
  by (auto simp: refreshBlock_def update_conv' option.rel_refl split: option.splits prod.splits)

text \<open>What can be priced from a renewed table.\<close>

lemma regionPrices_renewed:
  assumes "renewed (renewed renewedPrice) table table'"
  shows "rel_option renewedPrice (map_of (regionPrices table r) t) (map_of (regionPrices table' r) t)"
proof -
  have "rel_option (renewed renewedPrice) (map_of table r) (map_of table' r)" by (rule renewed_map_of[OF assms])
  then show ?thesis
    by (cases "map_of table r"; cases "map_of table' r") (simp_all add: regionPrices_def map_of_clearjunk renewed_map_of)
qed

lemma Lookup_renewed:
  assumes "rel_option (renewed (renewed renewedPrice)) (map_of (ds_prices ds) (canonicalProvider provider)) (map_of (ds_prices ds') (canonicalProvider provider))"
  shows "snd (Lookup ds' provider region t) = snd (Lookup ds provider region t) \<and> renewedPrice (fst (Lookup ds provider region t)) (fst (Lookup ds' provider region t))"
proof (cases "map_of (ds_prices ds) (canonicalProvider provider)")
  case None
  with assms show ?thesis by (simp add: Lookup_def renewedPrice_def)
next
  case (Some table)
  with assms obtain table' where t': "map_of (ds_prices ds') (canonicalProvider provider) = Some table'" and r: "renewed (renewed renewedPrice) table table'"
    by (auto simp: option_rel_Some1)
  let ?r = "canonicalRegion (canonicalProvider provider) region" and ?c = "canonicalRegions (canonicalProvider provider)"
  have rel: "(\<exists>p q. map_of (regionPrices table x) t = Some p \<and> map_of (regionPrices table' x) t = Some q \<and> renewedPrice p q)
      \<or> map_of (regionPrices table x) t = None \<and> map_of (regionPrices table' x) t = None" for x
    using regionPrices_renewed[OF r, of x t] by (cases "map_of (regionPrices table x) t"; cases "map_of (regionPrices table' x) t") simp_all
  show ?thesis
    using rel[of ?r] rel[of ?c] by (elim disjE exE conjE) (simp_all add: Lookup_def Let_def Some t' renewedPrice_def)
qed

lemma Lookup_same: "map_of (ds_prices ds') (canonicalProvider provider) = map_of (ds_prices ds) (canonicalProvider provider) \<Longrightarrow>
    Lookup ds' provider region t = Lookup ds provider region t"
  by (simp add: Lookup_def)

lemma saveData_written:
  assumes "saveData pf p meta blocks w = (Inr (), w1)"
  shows "\<exists>d. pf_Encode pf meta blocks = Inr d \<and> w_fs w1 p = Some (Regular (Docs [Line d]))"
  using assms by (auto simp: saveData_def raise_def split: sum.splits dest: os_WriteFile_ok)

text \<open>
  C40: a refresh of the price file that reports success has stored a document from which exactly the same instance
  types can be priced as before, whatever the price lists answered and whichever requests failed: no price is lost,
  none appears, every price is the old one or a positive new one, and the curated prices of GCP are untouched.
\<close>

theorem refresh_keeps_catalogue:
  assumes loaded: "loadData pf p w = (Inr (meta, blocks), w0)"
    and run: "runRefresh web pf date p (w, s) = (None, w1, s1)"
  shows "\<exists>meta' blocks' d. pf_Encode pf meta' blocks' = Inr d \<and> w_fs w1 p = Some (Regular (Docs [Line d]))
    \<and> (\<forall>m m' provider region t. let old = Lookup \<lparr>ds_prices = blocks, ds_meta = m\<rparr> provider region t; new = Lookup \<lparr>ds_prices = blocks', ds_meta = m'\<rparr> provider region t in
        snd new = snd old \<and> (fst new = fst old \<or> canonicalProvider provider \<noteq> ''gcp'' \<and> 0 < fst new))"
proof -
  obtain blocks1 s2 blocks2 s3 where aws: "refreshBlock ''aws'' (refreshAWS web) blocks s = (blocks1, s2)"
    and azure: "refreshBlock ''azure'' (refreshAzure web) blocks1 s2 = (blocks2, s3)" by fastforce
  let ?save = "\<lambda>date. saveData pf p (AList.update ''updated'' date meta) blocks2"
  from run have "fst (bind (today date) ?save w0) = Inr ()" "snd (bind (today date) ?save w0) = w1"
    by (auto simp: runRefresh_def loaded aws azure split: prod.splits sum.splits)
  then obtain day w2 where "fst (?save day w2) = Inr ()" "snd (?save day w2) = w1"
    by (auto simp: bind_def split: prod.splits sum.splits)
  then have "?save day w2 = (Inr (), w1)" by (simp add: prod_eq_iff)
  from saveData_written[OF this] obtain d where d: "pf_Encode pf (AList.update ''updated'' day meta) blocks2 = Inr d" "w_fs w1 p = Some (Regular (Docs [Line d]))"
    by blast
  have a: "rel_option (renewed (renewed renewedPrice)) (map_of blocks k) (map_of blocks1 k)" "k \<noteq> ''aws'' \<Longrightarrow> map_of blocks1 k = map_of blocks k" for k
    by (rule refreshBlock_renewed[OF aws], erule refreshAWS_renewed, simp?)+
  have z: "rel_option (renewed (renewed renewedPrice)) (map_of blocks1 k) (map_of blocks2 k)" "k \<noteq> ''azure'' \<Longrightarrow> map_of blocks2 k = map_of blocks1 k" for k
    by (rule refreshBlock_renewed[OF azure], erule refreshAzure_renewed, simp?)+
  have rel: "rel_option (renewed (renewed renewedPrice)) (map_of blocks k) (map_of blocks2 k)" for k
    using a(1)[of k] z(1)[of k] a(2)[of k] z(2)[of k] by (cases "k = ''aws''") auto
  have gcp: "map_of blocks2 ''gcp'' = map_of blocks ''gcp''" using a(2)[of "''gcp''"] z(2)[of "''gcp''"] by simp
  have "let old = Lookup \<lparr>ds_prices = blocks, ds_meta = m\<rparr> provider region t; new = Lookup \<lparr>ds_prices = blocks2, ds_meta = m'\<rparr> provider region t in
        snd new = snd old \<and> (fst new = fst old \<or> canonicalProvider provider \<noteq> ''gcp'' \<and> 0 < fst new)" for m m' provider region t
    using Lookup_renewed[of "\<lparr>ds_prices = blocks, ds_meta = m\<rparr>" provider "\<lparr>ds_prices = blocks2, ds_meta = m'\<rparr>" region t] rel
      Lookup_same[of "\<lparr>ds_prices = blocks2, ds_meta = m'\<rparr>" provider "\<lparr>ds_prices = blocks, ds_meta = m\<rparr>" region t] gcp
    by (cases "canonicalProvider provider = ''gcp''") (simp_all add: Let_def renewedPrice_def)
  with d show ?thesis by blast
qed

text \<open>A file with one price of AWS, and a web on which no request succeeds.\<close>

definition deadWeb :: "(unit, unit) Web" where
  "deadWeb = \<lparr>wb_Get = (\<lambda>_ s. (Inl (ErrText ''no route to host''), s)), wb_Index = (\<lambda>_. Inl (Sentinel EOF)), wb_Tokens = (\<lambda>_. ([], Sentinel EOF)),
     wb_ReadAll = (\<lambda>_. Inl (Sentinel EOF)), wb_Items = (\<lambda>_. Inl (Sentinel EOF)), wb_Bulk = exampleBulk\<rparr>"

definition examplePrices :: "(priceBlocks, priceBlocks) PriceCodec" where
  "examplePrices = \<lparr>pf_Raw = (\<lambda>c. case c of Docs [Line d] \<Rightarrow> Inr [(''aws'', d)] | _ \<Rightarrow> Inl (Sentinel EOF)), pf_Meta = (\<lambda>_. Inr []),
     pf_Block = (\<lambda>d. case d of (_, table) # _ \<Rightarrow> Inr table | [] \<Rightarrow> Inr []), pf_Encode = (\<lambda>_ blocks. Inr blocks)\<rparr>"

definition pricesWorld :: "priceBlocks world" where
  "pricesWorld = \<lparr>w_fs = (\<lambda>_. Some (Regular (Docs [Line [(''aws'', [(''us-west-2'', [(''m5.large'', 1)])])]]))), w_fault = (\<lambda>_. None), w_calls = 0,
     w_rand = (\<lambda>_. 0), w_draws = 0, w_clock = int, w_ticks = 0\<rparr>"


definition pricesFile :: path where
  "pricesFile = (True, [''data.json''])"

theorem refresh_keeps_catalogue_witness:
  "\<exists>blocks d. w_fs (fst (snd (runRefresh deadWeb examplePrices ''2025-01-02'' pricesFile (pricesWorld, ())))) pricesFile = Some (Regular (Docs [Line d]))
    \<and> snd (Lookup \<lparr>ds_prices = blocks, ds_meta = \<lparr>mt_Source = [], mt_Updated = []\<rparr>\<rparr> ''aws'' ''us-west-2'' ''m5.large'')"
proof -
  let ?blocks = "[(''aws'', [(''us-west-2'', [(''m5.large'', 1)])])] :: priceBlocks"
  have loaded: "loadData examplePrices pricesFile pricesWorld = (Inr ([], ?blocks), pricesWorld\<lparr>w_calls := 1\<rparr>)"
    by (simp add: loadData_def bind_def mapErr_def os_ReadFile_def syscall_def pricesWorld_def examplePrices_def raise_def ret_def Let_def)
  have saved: "\<exists>w1. saveData examplePrices pricesFile m bs (pricesWorld\<lparr>w_calls := 1\<rparr>) = (Inr (), w1)" for m bs
    by (simp add: saveData_def os_WriteFile_def os_Truncate_def fd_Write_def fd_call_def append_node_def onErr_def bind_def syscall_def pricesWorld_def examplePrices_def
        raise_def ret_def Let_def set_node_def)
  have run: "runRefresh deadWeb examplePrices ''2025-01-02'' pricesFile (pricesWorld, ()) = (None, fst (snd (runRefresh deadWeb examplePrices ''2025-01-02'' pricesFile (pricesWorld, ()))), ())"
  proof -
    have unit: "\<exists>b. x = (b, ())" for x :: "priceBlocks \<times> unit" by (cases x) simp
    obtain b1 where "refreshBlock ''aws'' (refreshAWS deadWeb) ?blocks () = (b1, ())" using unit by blast
    moreover obtain b2 where "refreshBlock ''azure'' (refreshAzure deadWeb) b1 () = (b2, ())" using unit by blast
    moreover obtain w1 where "saveData examplePrices pricesFile [(''updated'', ''2025-01-02'')] b2 (pricesWorld\<lparr>w_calls := 1\<rparr>) = (Inr (), w1)"
      using saved by blast
    ultimately show ?thesis by (simp add: runRefresh_def loaded today_def bind_def ret_def)
  qed
  have before: "snd (Lookup \<lparr>ds_prices = ?blocks, ds_meta = \<lparr>mt_Source = [], mt_Updated = []\<rparr>\<rparr> ''aws'' ''us-west-2'' ''m5.large'')"
    by (simp add: Lookup_def canonicalProvider_def canonicalRegion_def regionPrices_def Let_def)
  show ?thesis using refresh_keeps_catalogue[OF loaded run] before unfolding Let_def by metis
qed

end
