(* ===== verification/Spec2Isabelle.thy ===== *)
theory Spec2Isabelle
  imports Retry Failure_Class Runstate_Theorems Modes Families Pricing Plan_Render Plan_Props Lifecycle_Recovery Lifecycle_Refine Result_Props Bench_Props
    Orch_Theorems Cmd_Theorems Config_Props Recovery_Props Preflight_Props Summary App Cmd_Recover_Props
    Sshclient_Props Logger Provider_Props SSHKey_Props Tailnet Proxy_Props
    Cluster_Props Operator_Props Cloud_Init Price_Refresh_Props
begin

text \<open>
  \<^bold>\<open>Tailbench: the verification library.\<close>

  Tailbench provisions pairs of machines or Kubernetes clusters in a cloud, measures the network between them
  with and without Tailscale, writes the results and destroys what it created. A run costs money and can die at
  any moment; what the library is about is that nothing is lost: not the state of a run on disk, not the list of
  what exists in the cloud, not the approval that must come first.

  \<^bold>\<open>The parts and how they interact.\<close> A command (cmd/tailbench/main.go) parses its options, loads the configuration
  (internal/config), builds a plan from the price catalogue (internal/plan, internal/pricing), checks it against
  the guardrails (internal/guardrail), asks for approval, runs the remote preflight (internal/preflight) and hands
  an execution function to the lifecycle manager (internal/lifecycle), which keeps the manifest of the run in the
  run store (internal/runstate). The execution is the orchestrator (internal/orchestrator): it creates a tailnet
  (internal/tailnet), provisions pairs through a provider (internal/provider), measures them with the benchmark
  runner (internal/benchmark) over SSH (internal/sshclient) or in pods (internal/k8s), and writes results
  (internal/result). Before every creation and after every destruction it tells the recorder of the lifecycle. The
  commands resume and cleanup start from a stored manifest; they may first remove stale Pulumi locks
  (internal/recovery). internal/summary and internal/app render what is reported.

  \<^bold>\<open>Theories and sources.\<close>
  \<^item> Foundations: Prelude (collections, lists, the locale \<^verbatim>\<open>keyed_upsert\<close>), Go_Lib and Go_Fmt (strings, errors, fmt),
    Go_Path (path/filepath), Go_OS (files over a world in which any system call may fail), Go_Eff (effects over an
    arbitrary state), Go_Regexp.
  \<^item> internal/retry: Retry. internal/failure: Failure_Class.
  \<^item> internal/runstate: Runstate (\<^verbatim>\<open>Manifest\<close>, \<^verbatim>\<open>Event\<close>, \<^verbatim>\<open>Create\<close>, \<^verbatim>\<open>Update\<close>, \<^verbatim>\<open>AppendEvent\<close>, \<^verbatim>\<open>atomicWrite\<close>); its lemmas
    in Runstate_Props, with the locale \<^verbatim>\<open>manifest_store\<close>, and its theorems in Runstate_Theorems.
  \<^item> internal/lifecycle: Lifecycle (\<^verbatim>\<open>Run\<close>, \<^verbatim>\<open>Resume\<close>, \<^verbatim>\<open>Cleanup\<close>, the recorder); Lifecycle_Props, Lifecycle_Theorems,
    Lifecycle_Recovery; Lifecycle_Refine has an abstract protocol of a run and the simulation.
  \<^item> internal/config: Config_Types, Config_Load, Config_Props. internal/pricing: Pricing. internal/plan and
    internal/guardrail: Plan, Plan_Render, Guardrail, Plan_Props, with the locale \<^verbatim>\<open>instance_catalog\<close>.
  \<^item> internal/benchmark: Modes, Bench_Runner, Bench_Props. internal/result: Result, Result_Props.
  \<^item> internal/orchestrator: Orch_Types (data and pure decisions), Orch_Bench (measuring a pair, setting up a cluster),
    Orch_Run (providers, instances, tailnet); Orch_Hoare, Orch_Tame, Orch_Keys, Orch_Props, Orch_Theorems.
  \<^item> internal/provider: Families, Pulumi (what the providers share, with run_scope.go, backend.go, sshkey.go),
    Provider_AWS, Provider_GCP, Provider_Azure, K8s_Provider, Provider_EKS, Provider_GKE, Provider_AKS; the contract of
    a provider is the locale \<^verbatim>\<open>cloud_provider\<close> of Provider_Contract, interpreted six times in Provider_Props and
    Cluster_Props; SSHKey_Props.
  \<^item> internal/k8s: K8s_Pods (pods.go, ingress.go), Proxy_Group (proxygroup.go, util.go), Operator (operator.go,
    kubeexec.go); Proxy_Props, Operator_Props, and Cluster_Example, a cluster for the examples.
  \<^item> internal/cloudinit: Cloud_Init. cmd/pricing-refresh: Price_Refresh, Price_Refresh_Props.
  \<^item> internal/tailnet: Tailnet. internal/sshclient: Sshclient, Sshclient_Props. internal/logger: Logger.
  \<^item> internal/preflight: Preflight, Preflight_Remote, Preflight_Props. internal/recovery: Recovery, Recovery_Props.
  \<^item> internal/summary: Summary. internal/app: App_Types, App.
  \<^item> cmd/tailbench: Cmd_Base (local commands), Cmd_Exec (run), Cmd_Recover (resume, cleanup, the program), Cmd_Run
    (the joint of orchestrator and lifecycle); Cmd_Props, Cmd_Recover_Props, Cmd_Theorems. The files of each build
    (aws.go to azure_k8s.go) are the functions \<^verbatim>\<open>newAWSProvider\<close> to \<^verbatim>\<open>newAKSProvider\<close> of the provider theories.

  \<^bold>\<open>How the code is represented.\<close> A struct is a record whose fields have a short prefix of the type, a string type
  with constants is a datatype with one constructor per constant, a function is a definition with the name of the
  source (a prefix tells providers apart, a suffix avoids names of HOL). Errors are values of the type \<^verbatim>\<open>go_error\<close> with
  their wrapping, so that \<^verbatim>\<open>errors.Is\<close> and the text of an error are functions; a call that may fail returns a sum or
  an option. State is passed explicitly: a world of files for the store, the record \<^verbatim>\<open>system\<close> with cloud, machines,
  disk and run store for the orchestrator, an arbitrary type where nothing about it matters. Go strings are lists of
  characters, one per byte. Integers of the program that can overflow have their wrap-around (the doubling of the
  retry delay, the 64-bit durations); the others, which count instances, attempts and bytes, are unbounded. A float
  is a real number; the statements that depend on rounding are left out. A map is a partial function, or an
  association list where the code iterates over it; then its order is an argument, because Go's is random.

  \<^bold>\<open>What is an argument.\<close> What is not in the repository is a parameter of the definitions: the Automation API of Pulumi,
  the Kubernetes, Tailscale and HTTP clients, SSH and tsnet, the command lines of the clouds, kubectl and helm, the
  YAML and JSON codecs, the parsers of numbers and times, the compiler of user-given regular expressions, the
  cryptography, the clock and the sources of randomness. Laws about them are named hypotheses (\<^verbatim>\<open>pulumiLaws\<close>,
  \<^verbatim>\<open>poolLaw\<close>, \<^verbatim>\<open>serviceLaws\<close>, \<^verbatim>\<open>lawful\<close>), and every theorem with one has an example that satisfies it.

  \<^bold>\<open>What the lemmas show.\<close>
  \<^item> Durability: a file written with \<^verbatim>\<open>atomicWrite\<close> is the old or the new one whichever system call fails; an update is
    all or nothing; the event log only grows; a resource recorded once stays in the inventory through every step and
    failure; the lifecycle refines an abstract protocol. A run that dies in its first execution cannot be resumed.
  \<^item> Nothing lost: whatever fails during a run, every topology that may still exist is in the outcome and, through the
    recorder, in the manifest; a run that reports a clean cleanup left nothing; cleanup makes every destructive call,
    and acts on resources it certainly owns only. Whatever a provider is asked and whatever fails, no cloud resource
    is without its stack, and no other run is touched.
  \<^item> Consent and cost: nothing is created before guardrails, approval and preflight agree; an allowed plan stays within
    the ceiling for its maximum duration; a plan lists exactly the selected work.
  \<^item> Configuration and secrets: a loaded configuration is well-formed, local planning reads no secret, the redacted
    snapshot is read back; two ways in which a secret escapes are proved (a diagnostic cut at 200 bytes, and the
    error of helm in the manifest).
  \<^item> Measurements: the search for the packet rate finds the capacity within its tolerance, a relay result names the
    path that was seen, a summary is the textbook one, and the order of a map does not change the aggregate. The
    egress service is as requested and was seen ready when its call returns. Reading the AWS price list as a stream
    of tokens gives the prices its document quotes, and a refresh never loses a price.
  \<^item> Time: the retry schedule, with its liveness; waits come back by their deadlines.

  \<^bold>\<open>Bounds and fuel.\<close> Loops that end at a deadline by the clock have a number of rounds computed from the timeout: a
  round waits for a fixed time \<^verbatim>\<open>d\<close>, so \<^verbatim>\<open>rounds timeout d\<close> (the quotient and two more) is enough, which K8s_Pods shows
  (\<^verbatim>\<open>rounds_enough\<close>); the wait for the load balancer has 18 rounds of ten seconds in three minutes. The search for
  the packet rate has the 12 probes of the code, a temporary file the 10000 names of the Go library, the SSH waits
  the ticks of their polls. The one loop without a bound, the wait for a deleted egress service, is a partial function
  whose value is \<^verbatim>\<open>None\<close> when it does not end.

  \<^bold>\<open>What is abstracted.\<close> The goroutines of several providers run one after the other (a run of the command has one
  provider, the compiled one). A context is the function of the state that tells whether it has ended. Progress and
  log lines are modelled in the logger and the application only, elsewhere they have no effect on what is returned.
  A panic of the cluster providers is an error with a text of its own. The cache of the Azure SKU list is an argument
  of the listing. The orchestrator takes the calls on a cluster as a record of functions; the theories of internal/k8s
  model the code behind them, but the record is not built from them, because the egress service may not return. The
  state of a command is the world of the run store; an execution starts with the cloud and the machines it is given.

  \<^bold>\<open>Not modelled.\<close> The client over the tailnet (\<^verbatim>\<open>ClientsetViaTsnet\<close>) and the transport of an executor with a dialer
  (\<^verbatim>\<open>newSPDYWithDialer\<close>) only configure client-go; signal handling and the standard streams of main; cmd/aggregate, which
  calls one function of internal/result; the two files that refuse a build without one cloud; the front-end, the
  Kubernetes manifests and the tests of the repository.
\<close>

end
